(* ===== verification/Prelude.thy ===== *)
theory Prelude
  imports Main "HOL-Library.Sublist" "HOL-Library.Signed_Division"
begin

text \<open>
  What every component of the development shares: the Go standard-library functions on
  strings that the program calls, Go's \<open>int\<close>/\<open>int64\<close> arithmetic, results with an error
  value, and the lemma collections that the component theories use.

  A Go string is a list of bytes, here \<^typ>\<open>string\<close>. The functions that look at Unicode in Go
  (\<open>TrimSpace\<close>, \<open>Fields\<close>, \<open>ToLower\<close>, \<open>EqualFold\<close>) are modelled on the ASCII range; the strings the program passes to them
  (configuration fields, \<open>virsh\<close> and \<open>systemctl\<close> output, phase names) are ASCII.

  A Go function that returns \<open>(T, error)\<close> has the result type \<open>goerr + 'a\<close>, \<open>Inl\<close> for a
  non-nil error; a function that returns only \<open>error\<close> has \<open>goerr option\<close>, \<open>None\<close> for nil.
  An error is the text of its message, so that wrapping with \<open>fmt.Errorf("...: %w", err)\<close>
  is concatenation.
\<close>

named_theorems framing \<comment> \<open>what an operation leaves unchanged\<close>
named_theorems issuing \<comment> \<open>which external commands an operation can issue\<close>
named_theorems timing \<comment> \<open>how an operation moves the clock\<close>

type_synonym goerr = string
type_synonym 'a res = "goerr + 'a"

abbreviation nl :: char where
  "nl \<equiv> CHR 0x0A"

abbreviation squote :: char where
  "squote \<equiv> CHR 0x27"

abbreviation bslash :: char where
  "bslash \<equiv> CHR 0x5C"

section \<open>Go integers\<close>

text \<open>Arithmetic on \<open>int64\<close> (and \<open>time.Duration\<close>) wraps around at 64 bits.\<close>

definition i64 :: "int \<Rightarrow> int" where
  "i64 x = (x + 2 ^ 63) mod 2 ^ 64 - 2 ^ 63"

lemma i64_id [simp]: "- (2 ^ 63) \<le> x \<Longrightarrow> x < 2 ^ 63 \<Longrightarrow> i64 x = x"
  by (simp add: i64_def)

lemma i64_bounds: "- (2 ^ 63) \<le> i64 x" "i64 x < 2 ^ 63"
  by (simp_all add: i64_def)

text \<open>Decimal printing, \<open>strconv.Itoa\<close> and \<open>%d\<close>.\<close>

fun nat_digits :: "nat \<Rightarrow> string" where
  "nat_digits n = (if n < 10 then [char_of (48 + n)]
     else nat_digits (n div 10) @ [char_of (48 + n mod 10)])"

declare nat_digits.simps [simp del]

definition itoa :: "int \<Rightarrow> string" where
  "itoa i = (if i < 0 then CHR ''-'' # nat_digits (nat (- i)) else nat_digits (nat i))"

definition is_digit :: "char \<Rightarrow> bool" where
  "is_digit c \<longleftrightarrow> 48 \<le> (of_char c :: nat) \<and> (of_char c :: nat) \<le> 57"

definition digit_val :: "char \<Rightarrow> nat" where
  "digit_val c = of_char c - 48"

definition dec_val :: "string \<Rightarrow> nat" where
  "dec_val s = foldl (\<lambda>n c. 10 * n + digit_val c) 0 s"

lemma digit_char [simp]:
  "n < 10 \<Longrightarrow> is_digit (char_of (48 + n))"
  "n < 10 \<Longrightarrow> digit_val (char_of (48 + n)) = n"
  by (simp_all add: is_digit_def digit_val_def)

lemma nat_digits_digit: "\<forall>c \<in> set (nat_digits n). is_digit c"
proof (induction n rule: nat_digits.induct)
  case (1 n)
  then show ?case by (subst nat_digits.simps) auto
qed

lemma nat_digits_Nil [simp]: "nat_digits n \<noteq> []"
  by (subst nat_digits.simps) simp

lemma dec_val_append1: "dec_val (s @ [c]) = 10 * dec_val s + digit_val c"
  by (simp add: dec_val_def)

lemma dec_val_nat_digits [simp]: "dec_val (nat_digits n) = n"
proof (induction n rule: nat_digits.induct)
  case (1 n)
  show ?case
  proof (cases "n < 10")
    case True
    then show ?thesis by (subst nat_digits.simps) (simp add: dec_val_def)
  next
    case False
    with 1 show ?thesis by (subst nat_digits.simps) (simp add: dec_val_append1)
  qed
qed

lemma nat_digits_inj [simp]: "nat_digits m = nat_digits n \<longleftrightarrow> m = n"
  by (metis dec_val_nat_digits)

lemma is_digit_minus: "is_digit c \<Longrightarrow> c \<noteq> CHR ''-''"
  by (auto simp: is_digit_def)

lemma itoa_nonneg: "0 \<le> i \<Longrightarrow> itoa i = nat_digits (nat i)"
  by (simp add: itoa_def)

lemma itoa_inj [simp]: "itoa i = itoa j \<longleftrightarrow> i = j"
proof -
  have neq: "CHR ''-'' # s \<noteq> nat_digits n" for s n
    using nat_digits_digit [of n] is_digit_minus by (metis list.set_intros(1))
  show ?thesis
    using neq neq [symmetric] by (auto simp: itoa_def)
qed

section \<open>Go strings\<close>

definition is_space :: "char \<Rightarrow> bool" where
  "is_space c \<longleftrightarrow> c = CHR '' '' \<or> (9 \<le> (of_char c :: nat) \<and> (of_char c :: nat) \<le> 13)"

definition TrimSpace :: "string \<Rightarrow> string" where
  "TrimSpace s = rev (dropWhile is_space (rev (dropWhile is_space s)))"

definition HasPrefix :: "string \<Rightarrow> string \<Rightarrow> bool" where
  "HasPrefix s p \<longleftrightarrow> take (length p) s = p"

definition HasSuffix :: "string \<Rightarrow> string \<Rightarrow> bool" where
  "HasSuffix s p \<longleftrightarrow> take (length p) (rev s) = rev p"

definition TrimPrefix :: "string \<Rightarrow> string \<Rightarrow> string" where
  "TrimPrefix s p = (if HasPrefix s p then drop (length p) s else s)"

definition TrimSuffix :: "string \<Rightarrow> string \<Rightarrow> string" where
  "TrimSuffix s p = (if HasSuffix s p then take (length s - length p) s else s)"

fun Contains :: "string \<Rightarrow> string \<Rightarrow> bool" where
  "Contains [] p \<longleftrightarrow> p = []"
| "Contains (c # s) p \<longleftrightarrow> HasPrefix (c # s) p \<or> Contains s p"

text \<open>\<open>strings.Split\<close> with a non-empty separator; the accumulator holds the current field
  reversed.\<close>

function split_acc :: "string \<Rightarrow> string \<Rightarrow> string \<Rightarrow> string list" where
  "split_acc sep acc [] = [rev acc]"
| "split_acc sep acc (c # s) =
     (if sep \<noteq> [] \<and> HasPrefix (c # s) sep
      then rev acc # split_acc sep [] (drop (length sep) (c # s))
      else split_acc sep (c # acc) s)"
  by pat_completeness auto
termination
  by (relation "measure (\<lambda>(sep, acc, s). length s)") (auto simp: neq_Nil_conv)

definition Split :: "string \<Rightarrow> string \<Rightarrow> string list" where
  "Split s sep = split_acc sep [] s"

text \<open>\<open>strings.Fields\<close>: the maximal runs of non-space characters.\<close>

fun fields_acc :: "string \<Rightarrow> string \<Rightarrow> string list" where
  "fields_acc acc [] = (if acc = [] then [] else [rev acc])"
| "fields_acc acc (c # s) =
     (if is_space c then (if acc = [] then fields_acc [] s else rev acc # fields_acc [] s)
      else fields_acc (c # acc) s)"

definition Fields :: "string \<Rightarrow> string list" where
  "Fields s = fields_acc [] s"

fun Join :: "string list \<Rightarrow> string \<Rightarrow> string" where
  "Join [] sep = []"
| "Join [x] sep = x"
| "Join (x # y # ys) sep = x @ sep @ Join (y # ys) sep"

definition lower_char :: "char \<Rightarrow> char" where
  "lower_char c = (if 65 \<le> (of_char c :: nat) \<and> (of_char c :: nat) \<le> 90 then char_of (of_char c + (32 :: nat)) else c)"

definition ToLower :: "string \<Rightarrow> string" where
  "ToLower s = map lower_char s"

definition EqualFold :: "string \<Rightarrow> string \<Rightarrow> bool" where
  "EqualFold s t \<longleftrightarrow> ToLower s = ToLower t"

text \<open>\<open>strings.ReplaceAll\<close> of a one-character pattern, and \<open>strings.Replace(s, old, new, 1)\<close>.\<close>

definition replace_char :: "char \<Rightarrow> string \<Rightarrow> string \<Rightarrow> string" where
  "replace_char c new s = concat (map (\<lambda>d. if d = c then new else [d]) s)"

fun Replace1 :: "string \<Rightarrow> string \<Rightarrow> string \<Rightarrow> string" where
  "Replace1 [] old new = (if old = [] then new else [])"
| "Replace1 (c # s) old new =
     (if HasPrefix (c # s) old then new @ drop (length old) (c # s) else c # Replace1 s old new)"

text \<open>\<open>%q\<close> of an ASCII string (\<open>strconv.Quote\<close>).\<close>

definition hex_digit :: "nat \<Rightarrow> char" where
  "hex_digit n = (if n < 10 then char_of (48 + n) else char_of (87 + n))"

definition quote_char :: "char \<Rightarrow> string" where
  "quote_char c = (let n = (of_char c :: nat) in
     if c = CHR 0x22 then [bslash, CHR 0x22]
     else if c = bslash then [bslash, bslash]
     else if n = 7 then bslash # ''a''
     else if n = 8 then bslash # ''b''
     else if n = 12 then bslash # ''f''
     else if n = 10 then bslash # ''n''
     else if n = 13 then bslash # ''r''
     else if n = 9 then bslash # ''t''
     else if n = 11 then bslash # ''v''
     else if 32 \<le> n \<and> n < 127 then [c]
     else [bslash, CHR ''x'', hex_digit (n div 16), hex_digit (n mod 16)])"

definition quoted :: "string \<Rightarrow> string" where
  "quoted s = [CHR 0x22] @ concat (map quote_char s) @ [CHR 0x22]"

text \<open>
  \<open>fmt.Sprintf\<close> and \<open>fmt.Errorf\<close>: every verb of the format takes the next argument, given here as the text it prints
  (\<^const>\<open>itoa\<close> for \<open>%d\<close>, \<^const>\<open>quoted\<close> for \<open>%q\<close>, the message of an error for \<open>%w\<close> and \<open>%v\<close>).
  Its equations are not simplification rules, so a message stays the format and its arguments.
\<close>

definition is_letter :: "char \<Rightarrow> bool" where
  "is_letter c \<longleftrightarrow> (65 \<le> (of_char c :: nat) \<and> (of_char c :: nat) \<le> 90) \<or>
     (97 \<le> (of_char c :: nat) \<and> (of_char c :: nat) \<le> 122)"

fun format_args :: "bool \<Rightarrow> string \<Rightarrow> string list \<Rightarrow> string" where
  "format_args v [] args = []"
| "format_args False (c # s) args =
     (if c = CHR ''%'' then
        (case s of d # s' \<Rightarrow> if d = CHR ''%'' then d # format_args False s' args else format_args True s args
         | [] \<Rightarrow> [])
      else c # format_args False s args)"
| "format_args True (c # s) args =
     (if is_letter c then (case args of [] \<Rightarrow> format_args False s [] | a # as \<Rightarrow> a @ format_args False s as)
      else format_args True s args)"

definition Sprintf :: "string \<Rightarrow> string list \<Rightarrow> string" where
  "Sprintf f args = format_args False f args"

abbreviation Errorf :: "string \<Rightarrow> string list \<Rightarrow> goerr" where
  "Errorf \<equiv> Sprintf"

subsection \<open>Facts about the string functions\<close>

lemma HasPrefix_iff: "HasPrefix s p \<longleftrightarrow> prefix p s"
  by (auto simp: HasPrefix_def prefix_def intro: append_take_drop_id [symmetric])
     (metis append_take_drop_id)

lemma HasSuffix_iff: "HasSuffix s p \<longleftrightarrow> suffix p s"
  using HasPrefix_iff [of "rev s" "rev p"]
  by (simp add: HasPrefix_def HasSuffix_def suffix_to_prefix)

lemma Contains_iff: "Contains s p \<longleftrightarrow> (\<exists>u v. s = u @ p @ v)"
proof (induction s)
  case Nil
  then show ?case by simp
next
  case (Cons c s)
  have "(\<exists>u v. c # s = u @ p @ v) \<longleftrightarrow> (\<exists>v. c # s = p @ v) \<or> (\<exists>u v. s = u @ p @ v)"
    by (metis append_Cons append_Nil neq_Nil_conv list.inject)
  with Cons show ?case by (simp add: HasPrefix_iff prefix_def)
qed

lemma Contains_refl [simp]: "Contains s s"
  by (auto simp: Contains_iff intro: exI [of _ "[]"])

lemma Contains_append [simp]: "Contains s p \<Longrightarrow> Contains (s @ t) p" "Contains t p \<Longrightarrow> Contains (s @ t) p"
  by (auto simp: Contains_iff) (metis append.assoc)+

lemma TrimSpace_Nil [simp]: "TrimSpace [] = []"
  by (simp add: TrimSpace_def)

lemma set_TrimSpace: "set (TrimSpace s) \<subseteq> set s"
  by (auto simp: TrimSpace_def dest!: set_dropWhileD)

lemma TrimSpace_id: "\<forall>c \<in> set s. \<not> is_space c \<Longrightarrow> TrimSpace s = s"
proof -
  assume "\<forall>c \<in> set s. \<not> is_space c"
  then have "dropWhile is_space s = s" and "dropWhile is_space (rev s) = rev s"
    unfolding dropWhile_eq_self_iff by (metis hd_in_set, metis hd_in_set set_rev)
  then show ?thesis by (simp add: TrimSpace_def)
qed

lemma fields_acc_nonspace:
  "list_all (\<lambda>c. \<not> is_space c) acc \<Longrightarrow>
    list_all (\<lambda>f. f \<noteq> [] \<and> list_all (\<lambda>c. \<not> is_space c) f) (fields_acc acc s)"
  by (induction acc s rule: fields_acc.induct) simp_all

lemma Fields_nonspace:
  "f \<in> set (Fields s) \<Longrightarrow> f \<noteq> [] \<and> (\<forall>c \<in> set f. \<not> is_space c)"
  using fields_acc_nonspace [of "[]" s] by (simp add: Fields_def list_all_iff)

lemma Split_Nil [simp]: "Split [] sep = [[]]"
  by (simp add: Split_def)

lemma split_acc_nonempty [simp]: "split_acc sep acc s \<noteq> []"
  by (induction sep acc s rule: split_acc.induct) auto

lemma Split_nonempty [simp]: "Split s sep \<noteq> []"
  by (simp add: Split_def)

lemma Join_append1: "Join (x # xs) sep = (if xs = [] then x else x @ sep @ Join xs sep)"
  by (cases xs) simp_all

lemma Join_split_acc: "Join (split_acc sep acc s) sep = rev acc @ s"
proof (induction sep acc s rule: split_acc.induct)
  case (2 sep acc c s)
  show ?case
  proof (cases "sep \<noteq> [] \<and> HasPrefix (c # s) sep")
    case True
    then have "sep @ drop (length sep) (c # s) = c # s"
      unfolding HasPrefix_def by (metis append_take_drop_id)
    with True 2 show ?thesis by (simp add: Join_append1)
  next
    case False
    then have "split_acc sep acc (c # s) = split_acc sep (c # acc) s" by auto
    with False 2 show ?thesis by simp
  qed
qed simp

text \<open>Splitting and joining at the same separator is the identity.\<close>

lemma Join_Split [simp]: "Join (Split s sep) sep = s"
  by (simp add: Split_def Join_split_acc)

lemma lower_char_idem [simp]: "lower_char (lower_char c) = lower_char c"
  by (auto simp: lower_char_def)

lemma ToLower_idem [simp]: "ToLower (ToLower s) = ToLower s"
  by (simp add: ToLower_def)

lemma EqualFold_refl [simp]: "EqualFold s s"
  by (simp add: EqualFold_def)

section \<open>Results and lists\<close>

lemma sum_case_Inl_iff:
  "(case r of Inl e \<Rightarrow> Inl (f e) | Inr x \<Rightarrow> Inr (g x)) = Inl e' \<longleftrightarrow> (\<exists>e. r = Inl e \<and> e' = f e)"
  by (auto split: sum.splits)

text \<open>Insertion sort by the byte order of Go strings (\<open>sort.Strings\<close>).\<close>

fun str_le :: "string \<Rightarrow> string \<Rightarrow> bool" where
  "str_le [] t = True"
| "str_le (c # s) [] = False"
| "str_le (c # s) (d # t) =
     ((of_char c :: nat) < of_char d \<or> c = d \<and> str_le s t)"

fun insert_str :: "string \<Rightarrow> string list \<Rightarrow> string list" where
  "insert_str x [] = [x]"
| "insert_str x (y # ys) = (if str_le x y then x # y # ys else y # insert_str x ys)"

definition sort_strings :: "string list \<Rightarrow> string list" where
  "sort_strings xs = foldr insert_str xs []"

lemma set_insert_str [simp]: "set (insert_str x xs) = insert x (set xs)"
  by (induction xs) auto

lemma set_sort_strings [simp]: "set (sort_strings xs) = set xs"
  by (induction xs) (simp_all add: sort_strings_def)

lemma distinct_insert_str: "distinct (insert_str x xs) \<longleftrightarrow> x \<notin> set xs \<and> distinct xs"
  by (induction xs) auto

lemma sort_strings_Cons: "sort_strings (x # xs) = insert_str x (sort_strings xs)"
  by (simp add: sort_strings_def)

lemma distinct_sort_strings [simp]: "distinct (sort_strings xs) \<longleftrightarrow> distinct xs"
proof (induction xs)
  case Nil
  show ?case by (simp add: sort_strings_def)
next
  case (Cons x xs)
  then show ?case by (simp add: sort_strings_Cons distinct_insert_str)
qed

end
