(* ===== verification/World.thy ===== *)
theory World
  imports Prelude
begin

text \<open>
  The world the program runs in: the file system, the clock, cancellation of the run context,
  the external commands, and a history of what the process did to the outside.

  What the repository does not define is a parameter, the record \<open>env\<close>: the result of an external
  command, the faults of the file system, the environment variables, the delays of the scheduler.
  Everything is explicit state passing: an operation takes the world and returns its result
  and the next world. Log output is left out, except where a void function reports its only
  outcome that way (then the event \<open>Log\<close> records it).
\<close>

section \<open>Files\<close>

datatype oserr = ENOENT | EEXIST | EOTHER string

fun os_text :: "oserr \<Rightarrow> string" where
  "os_text ENOENT = ''no such file or directory''"
| "os_text EEXIST = ''file exists''"
| "os_text (EOTHER s) = s"

text \<open>An error of package \<open>os\<close>: the operation with its path, and the cause.\<close>

datatype perr = PathError (pe_op: string) (pe_err: oserr)

definition perr_msg :: "perr \<Rightarrow> goerr" where
  "perr_msg e = Sprintf ''%s: %s'' [pe_op e, os_text (pe_err e)]"

definition IsNotExist :: "perr \<Rightarrow> bool" where
  "IsNotExist e \<longleftrightarrow> pe_err e = ENOENT"

definition IsExist :: "perr \<Rightarrow> bool" where
  "IsExist e \<longleftrightarrow> pe_err e = EEXIST"

datatype fnode = File (fdata: string) (fmode: nat) | Dir nat | Symlink string

type_synonym fs = "string \<Rightarrow> fnode option"

text \<open>
  The mutating operations on files. A file opened for appending is \<open>AppendFile\<close> of no data, each
  write to it an \<open>AppendFile\<close>, and closing it changes nothing but can report an error. Missing parent directories, permissions, a full disk and
  the like are faults, decided by the environment.
\<close>

datatype fsop =
    WriteFile string string nat
  | AppendFile string string nat
  | CloseFile string
  | CreateExcl string string nat
  | Rename string string
  | Remove string
  | Chmod string nat
  | MkdirAll string nat

fun op_name :: "fsop \<Rightarrow> string" where
  "op_name (WriteFile p d m) = ''open '' @ p"
| "op_name (AppendFile p d m) = (if d = [] then ''open '' else ''write '') @ p"
| "op_name (CloseFile p) = ''close '' @ p"
| "op_name (CreateExcl p d m) = ''open '' @ p"
| "op_name (Rename a b) = ''rename '' @ a @ '' '' @ b"
| "op_name (Remove p) = ''remove '' @ p"
| "op_name (Chmod p m) = ''chmod '' @ p"
| "op_name (MkdirAll p m) = ''mkdir '' @ p"

text \<open>Following symbolic links stops after 40 of them, as in Linux.\<close>

fun follow :: "nat \<Rightarrow> fs \<Rightarrow> string \<Rightarrow> string option" where
  "follow 0 f p = None"
| "follow (Suc n) f p = (case f p of Some (Symlink t) \<Rightarrow> follow n f t | _ \<Rightarrow> Some p)"

definition resolve :: "fs \<Rightarrow> string \<Rightarrow> string option" where
  "resolve f p = follow 41 f p"

definition eloop :: oserr where
  "eloop = EOTHER ''too many levels of symbolic links''"

fun apply_op :: "fsop \<Rightarrow> fs \<Rightarrow> oserr + fs" where
  "apply_op (WriteFile p d m) f =
     (case resolve f p of
        None \<Rightarrow> Inl eloop
      | Some q \<Rightarrow> (case f q of
            Some (Dir k) \<Rightarrow> Inl (EOTHER ''is a directory'')
          | Some (File d' m') \<Rightarrow> Inr (f(q \<mapsto> File d m'))
          | _ \<Rightarrow> Inr (f(q \<mapsto> File d m))))"
| "apply_op (AppendFile p d m) f =
     (case resolve f p of
        None \<Rightarrow> Inl eloop
      | Some q \<Rightarrow> (case f q of
            Some (Dir k) \<Rightarrow> Inl (EOTHER ''is a directory'')
          | Some (File d' m') \<Rightarrow> Inr (f(q \<mapsto> File (d' @ d) m'))
          | _ \<Rightarrow> Inr (f(q \<mapsto> File d m))))"
| "apply_op (CloseFile p) f = Inr f"
| "apply_op (CreateExcl p d m) f =
     (case f p of None \<Rightarrow> Inr (f(p \<mapsto> File d m)) | Some n \<Rightarrow> Inl EEXIST)"
| "apply_op (Rename a b) f =
     (case f a of None \<Rightarrow> Inl ENOENT | Some n \<Rightarrow> Inr ((f(a := None))(b \<mapsto> n)))"
| "apply_op (Remove p) f =
     (case f p of None \<Rightarrow> Inl ENOENT | Some n \<Rightarrow> Inr (f(p := None)))"
| "apply_op (Chmod p m) f =
     (case resolve f p of
        None \<Rightarrow> Inl eloop
      | Some q \<Rightarrow> (case f q of
            None \<Rightarrow> Inl ENOENT
          | Some (File d m') \<Rightarrow> Inr (f(q \<mapsto> File d m))
          | Some (Dir m') \<Rightarrow> Inr (f(q \<mapsto> Dir m))
          | Some (Symlink t) \<Rightarrow> Inl eloop))"
| "apply_op (MkdirAll p m) f =
     (case f p of
        None \<Rightarrow> Inr (f(p \<mapsto> Dir m))
      | Some (File d m') \<Rightarrow> Inl (EOTHER ''not a directory'')
      | Some n \<Rightarrow> Inr f)"

text \<open>A write that fails after the file was opened leaves a prefix of the data.\<close>

fun partial_op :: "nat \<Rightarrow> fsop \<Rightarrow> fs \<Rightarrow> fs" where
  "partial_op k (WriteFile p d m) f =
     (case apply_op (WriteFile p (take k d) m) f of Inl e \<Rightarrow> f | Inr f' \<Rightarrow> f')"
| "partial_op k (AppendFile p d m) f =
     (case apply_op (AppendFile p (take k d) m) f of Inl e \<Rightarrow> f | Inr f' \<Rightarrow> f')"
| "partial_op k (CreateExcl p d m) f =
     (case apply_op (CreateExcl p (take k d) m) f of Inl e \<Rightarrow> f | Inr f' \<Rightarrow> f')"
| "partial_op k op f = f"

section \<open>The world and its environment\<close>

text \<open>
  What the process did to the outside, in order: a command line it ran, an operation on a file,
  a report it printed, and the operations on SSH connections (numbered).
\<close>

datatype event =
    Exec "string list"
  | Fs fsop
  | Log string
  | Dial string nat
  | Sess nat
  | RunOn nat string
  | Sftp nat string
  | CloseConn nat

text \<open>
  \<open>w_cancel\<close> is the time at which the run is cancelled (Ctrl-C), if ever; \<open>w_ext\<close> is the
  state of everything outside the process; \<open>w_heap\<close> holds the objects that the program shares by
  pointer (the SSH pool).
\<close>

record ('x, 'p) world =
  w_fs :: fs
  w_clock :: int
  w_cancel :: "int option"
  w_trace :: "event list"
  w_ext :: 'x
  w_heap :: 'p

text \<open>A context carries the earliest deadline that applies to it.\<close>

type_synonym ctx = "int option"

record ('x, 'p) env =
  e_exec :: "string list \<Rightarrow> ('x, 'p) world \<Rightarrow> (string \<times> goerr option) \<times> nat \<times> fs \<times> 'x"
  e_lookpath :: "string \<Rightarrow> ('x, 'p) world \<Rightarrow> bool"
  e_getenv :: "string \<Rightarrow> string"
  e_fault :: "fsop \<Rightarrow> ('x, 'p) world \<Rightarrow> (oserr \<times> nat option) option"
  e_rfault :: "string \<Rightarrow> ('x, 'p) world \<Rightarrow> oserr option"
  e_late :: "('x, 'p) world \<Rightarrow> nat"
  e_tie :: "('x, 'p) world \<Rightarrow> bool"
  e_rand :: "('x, 'p) world \<Rightarrow> nat"

definition emit :: "event \<Rightarrow> ('x, 'p) world \<Rightarrow> ('x, 'p) world" where
  "emit ev w = w\<lparr>w_trace := w_trace w @ [ev]\<rparr>"

subsection \<open>Contexts and waiting\<close>

text \<open>\<open>done_at\<close>: when the context ends. \<open>ctx_err\<close>: \<open>ctx.Err()\<close>, with the first cause.\<close>

definition done_at :: "ctx \<Rightarrow> ('x, 'p) world \<Rightarrow> int option" where
  "done_at c w = (case (c, w_cancel w) of
      (None, t) \<Rightarrow> t
    | (Some d, None) \<Rightarrow> Some d
    | (Some d, Some t) \<Rightarrow> Some (min d t))"

definition ctx_err :: "ctx \<Rightarrow> ('x, 'p) world \<Rightarrow> goerr option" where
  "ctx_err c w = (case done_at c w of
      None \<Rightarrow> None
    | Some t \<Rightarrow> if t \<le> w_clock w
        then Some (if c = Some t then ''context deadline exceeded'' else ''context canceled'')
        else None)"

definition WithTimeout :: "ctx \<Rightarrow> int \<Rightarrow> ('x, 'p) world \<Rightarrow> ctx" where
  "WithTimeout c d w = (let t = w_clock w + d in
     case c of None \<Rightarrow> Some t | Some u \<Rightarrow> Some (min u t))"

text \<open>
  \<open>select { case <-ctx.Done(): ...; case <-time.After(d): ... }\<close>: \<^const>\<open>True\<close> when the timer
  won. The scheduler wakes the goroutine \<open>e_late\<close> after the first of the two is ready; when both
  are ready by then, either can win (\<open>e_tie\<close>).
\<close>

definition wait_until :: "('x, 'p, 'z) env_scheme \<Rightarrow> ctx \<Rightarrow> int \<Rightarrow> ('x, 'p) world \<Rightarrow> bool \<times> ('x, 'p) world" where
  "wait_until E c t w = (let
     fire = max t (w_clock w);
     first = (case done_at c w of None \<Rightarrow> fire | Some u \<Rightarrow> min fire (max u (w_clock w)));
     wake = first + int (e_late E w);
     timer = (fire \<le> wake);
     cancelled = (case done_at c w of None \<Rightarrow> False | Some u \<Rightarrow> u \<le> wake)
   in (if timer \<and> cancelled then e_tie E w else timer, w\<lparr>w_clock := wake\<rparr>))"

definition wait :: "('x, 'p, 'z) env_scheme \<Rightarrow> ctx \<Rightarrow> int \<Rightarrow> ('x, 'p) world \<Rightarrow> bool \<times> ('x, 'p) world" where
  "wait E c d w = wait_until E c (w_clock w + d) w"

lemma wait_until_clock:
  "wait_until E c t w = (b, w') \<Longrightarrow> w_clock w \<le> w_clock w' \<and> (b \<longrightarrow> t \<le> w_clock w')"
  by (auto simp: wait_until_def Let_def split: option.splits if_splits)

lemma wait_clock [timing]:
  assumes "wait E c d w = (b, w')"
  shows "w_clock w \<le> w_clock w'" and "b \<Longrightarrow> w_clock w + d \<le> w_clock w'"
  using wait_until_clock assms unfolding wait_def by blast+

lemma wait_until_frame [framing]:
  "wait_until E c t w = (b, w') \<Longrightarrow> w' = w\<lparr>w_clock := w_clock w'\<rparr>"
  by (auto simp: wait_until_def Let_def)

lemma done_at_clock [simp]: "done_at c (w\<lparr>w_clock := t\<rparr>) = done_at c w"
  by (simp add: done_at_def)

text \<open>Losing the race against the timer means that the context is done.\<close>

lemma wait_until_done:
  assumes "wait_until E c t w = (False, w')"
  shows "ctx_err c w' \<noteq> None"
proof (cases "done_at c w")
  case None
  with assms show ?thesis by (auto simp: wait_until_def Let_def split: if_splits)
next
  case (Some u)
  with assms have "u \<le> w_clock w'" "done_at c w' = Some u"
    by (auto simp: wait_until_def Let_def split: if_splits)
  then show ?thesis by (simp add: ctx_err_def)
qed

lemma wait_done: "wait E c d w = (False, w') \<Longrightarrow> ctx_err c w' \<noteq> None"
  unfolding wait_def by (rule wait_until_done)

lemma ctx_err_mono:
  assumes "ctx_err c w \<noteq> None" and "w_cancel w' = w_cancel w" and "w_clock w \<le> w_clock w'"
  shows "ctx_err c w' = ctx_err c w"
proof -
  have "done_at c w' = done_at c w" using assms(2) by (simp add: done_at_def)
  with assms(1,3) show ?thesis by (auto simp: ctx_err_def split: option.splits if_splits)
qed

subsection \<open>Operations on files\<close>

definition do_op :: "('x, 'p, 'z) env_scheme \<Rightarrow> fsop \<Rightarrow> ('x, 'p) world \<Rightarrow> perr option \<times> ('x, 'p) world" where
  "do_op E op w = (let w1 = emit (Fs op) w in
     case e_fault E op w of
       Some (e, k) \<Rightarrow>
         (Some (PathError (op_name op) e),
          (case k of None \<Rightarrow> w1 | Some n \<Rightarrow> w1\<lparr>w_fs := partial_op n op (w_fs w)\<rparr>))
     | None \<Rightarrow> (case apply_op op (w_fs w) of
           Inl e \<Rightarrow> (Some (PathError (op_name op) e), w1)
         | Inr f \<Rightarrow> (None, w1\<lparr>w_fs := f\<rparr>)))"

text \<open>\<open>os.ReadFile\<close>, \<open>os.Stat\<close> (follows links) and \<open>os.Lstat\<close> (does not).\<close>

definition ReadFile :: "('x, 'p, 'z) env_scheme \<Rightarrow> string \<Rightarrow> ('x, 'p) world \<Rightarrow> perr + string" where
  "ReadFile E p w = (case e_rfault E p w of
     Some e \<Rightarrow> Inl (PathError (''open '' @ p) e)
   | None \<Rightarrow> (case resolve (w_fs w) p of
        None \<Rightarrow> Inl (PathError (''open '' @ p) eloop)
      | Some q \<Rightarrow> (case w_fs w q of
           Some (File d m) \<Rightarrow> Inr d
         | Some (Dir m) \<Rightarrow> Inl (PathError (''read '' @ p) (EOTHER ''is a directory''))
         | _ \<Rightarrow> Inl (PathError (''open '' @ p) ENOENT))))"

definition Stat :: "('x, 'p, 'z) env_scheme \<Rightarrow> string \<Rightarrow> ('x, 'p) world \<Rightarrow> perr + fnode" where
  "Stat E p w = (case e_rfault E p w of
     Some e \<Rightarrow> Inl (PathError (''stat '' @ p) e)
   | None \<Rightarrow> (case resolve (w_fs w) p of
        None \<Rightarrow> Inl (PathError (''stat '' @ p) eloop)
      | Some q \<Rightarrow> (case w_fs w q of
           Some n \<Rightarrow> Inr n
         | None \<Rightarrow> Inl (PathError (''stat '' @ p) ENOENT))))"

definition Lstat :: "('x, 'p, 'z) env_scheme \<Rightarrow> string \<Rightarrow> ('x, 'p) world \<Rightarrow> perr + fnode" where
  "Lstat E p w = (case e_rfault E p w of
     Some e \<Rightarrow> Inl (PathError (''lstat '' @ p) e)
   | None \<Rightarrow> (case w_fs w p of
        Some n \<Rightarrow> Inr n
      | None \<Rightarrow> Inl (PathError (''lstat '' @ p) ENOENT)))"

subsection \<open>External commands\<close>

text \<open>
  \<open>exec.CommandContext(ctx, argv...).CombinedOutput()\<close>: a command whose context is already done is
  not started. The environment decides the output, the error, the time taken and the effect
  on files and on the outside.
\<close>

definition run_cmd :: "('x, 'p, 'z) env_scheme \<Rightarrow> ctx \<Rightarrow> string list \<Rightarrow> ('x, 'p) world
    \<Rightarrow> (string \<times> goerr option) \<times> ('x, 'p) world" where
  "run_cmd E c argv w = (case ctx_err c w of
     Some e \<Rightarrow> (([], Some e), w)
   | None \<Rightarrow> (case e_exec E argv w of (r, d, f, x) \<Rightarrow>
       (r, (emit (Exec argv) w)\<lparr>w_clock := w_clock w + int d, w_fs := f, w_ext := x\<rparr>)))"

section \<open>What an operation can do to the world\<close>

text \<open>
  \<open>keeps R f\<close>: every run of the state-passing operation \<open>f\<close> relates the world before to the world
  after by \<open>R\<close>. The combination rules need only that \<open>R\<close> is reflexive and transitive.
\<close>

definition keeps :: "('w \<Rightarrow> 'w \<Rightarrow> bool) \<Rightarrow> ('w \<Rightarrow> 'r \<times> 'w) \<Rightarrow> bool" where
  "keeps R f \<longleftrightarrow> (\<forall>w. R w (snd (f w)))"

lemma keepsI: "(\<And>w r w'. f w = (r, w') \<Longrightarrow> R w w') \<Longrightarrow> keeps R f"
  by (simp add: keeps_def) (metis prod.collapse)

lemma keepsD: "keeps R f \<Longrightarrow> f w = (r, w') \<Longrightarrow> R w w'"
  by (metis keeps_def snd_conv)

named_theorems keeping

lemma keeps_if [keeping]: "keeps R f \<Longrightarrow> keeps R g \<Longrightarrow> keeps R (\<lambda>w. if b then f w else g w)"
  by (simp add: keeps_def)

lemma keeps_if_state [keeping]: "keeps R f \<Longrightarrow> keeps R g \<Longrightarrow> keeps R (\<lambda>w. if b w then f w else g w)"
  by (simp add: keeps_def)

lemma keeps_option [keeping]:
  "keeps R f \<Longrightarrow> (\<And>x. keeps R (g x)) \<Longrightarrow> keeps R (\<lambda>w. case r of None \<Rightarrow> f w | Some x \<Rightarrow> g x w)"
  by (simp add: keeps_def split: option.splits)

lemma keeps_option_state [keeping]:
  "keeps R f \<Longrightarrow> (\<And>x. keeps R (g x)) \<Longrightarrow> keeps R (\<lambda>w. case r w of None \<Rightarrow> f w | Some x \<Rightarrow> g x w)"
  by (simp add: keeps_def split: option.splits)

lemma keeps_sum [keeping]:
  "(\<And>e. keeps R (f e)) \<Longrightarrow> (\<And>x. keeps R (g x)) \<Longrightarrow> keeps R (\<lambda>w. case r of Inl e \<Rightarrow> f e w | Inr x \<Rightarrow> g x w)"
  by (simp add: keeps_def split: sum.splits)

lemma keeps_sum_state [keeping]:
  "(\<And>e. keeps R (f e)) \<Longrightarrow> (\<And>x. keeps R (g x)) \<Longrightarrow> keeps R (\<lambda>w. case r w of Inl e \<Rightarrow> f e w | Inr x \<Rightarrow> g x w)"
  by (simp add: keeps_def split: sum.splits)

lemma keeps_pair [keeping]:
  "(\<And>a b. keeps R (f a b)) \<Longrightarrow> keeps R (\<lambda>w. case p of (a, b) \<Rightarrow> f a b w)"
  by (simp add: keeps_def split: prod.splits)

lemma keeps_let [keeping]: "(\<And>x. keeps R (f x)) \<Longrightarrow> keeps R (\<lambda>w. let x = g w in f x w)"
  by (simp add: keeps_def)

locale world_order =
  fixes R :: "'w \<Rightarrow> 'w \<Rightarrow> bool"
  assumes refl: "R w w"
    and trans: "R u v \<Longrightarrow> R v w \<Longrightarrow> R u w"
begin

lemma keeps_return: "keeps R (\<lambda>w. (r, w))"
  by (simp add: keeps_def refl)

lemma keeps_return_state: "keeps R (\<lambda>w. (r w, w))"
  by (simp add: keeps_def refl)

lemma keeps_bind:
  assumes "keeps R f" and "\<And>r. keeps R (g r)"
  shows "keeps R (\<lambda>w. case f w of (r, w') \<Rightarrow> g r w')"
  using assms trans unfolding keeps_def by (auto split: prod.splits) (metis snd_conv)

lemmas keeps_intros = keeps_return keeps_return_state keeps_bind

end

text \<open>Three such relations: the history grows by events that satisfy \<open>P\<close>; the clock does not go
  back; the cancellation time stays as it is.\<close>

definition extends :: "(event \<Rightarrow> bool) \<Rightarrow> ('x, 'p) world \<Rightarrow> ('x, 'p) world \<Rightarrow> bool" where
  "extends P w w' \<longleftrightarrow> (\<exists>es. w_trace w' = w_trace w @ es \<and> list_all P es)"

definition later :: "('x, 'p) world \<Rightarrow> ('x, 'p) world \<Rightarrow> bool" where
  "later w w' \<longleftrightarrow> w_clock w \<le> w_clock w' \<and> w_cancel w' = w_cancel w"

interpretation ext: world_order "extends P" for P
proof
  show "extends P w w" for w :: "('x, 'p) world"
    by (auto simp: extends_def intro: exI [of _ "[]"])
  show "extends P u w" if "extends P u v" and "extends P v w" for u v w :: "('x, 'p) world"
    using that by (fastforce simp: extends_def)
qed

interpretation clk: world_order later
  by unfold_locales (auto simp: later_def)

lemmas issues = ext.keeps_intros
lemmas elapses = clk.keeps_intros

lemma extends_weaken: "extends P w w' \<Longrightarrow> (\<And>e. P e \<Longrightarrow> Q e) \<Longrightarrow> extends Q w w'"
  by (fastforce simp: extends_def list_all_iff)

lemma keeps_weaken: "keeps (extends P) f \<Longrightarrow> (\<And>e. P e \<Longrightarrow> Q e) \<Longrightarrow> keeps (extends Q) f"
  unfolding keeps_def by (blast intro: extends_weaken)

text \<open>The events an operation adds.\<close>

definition added :: "('x, 'p) world \<Rightarrow> ('x, 'p) world \<Rightarrow> event list" where
  "added w w' = drop (length (w_trace w)) (w_trace w')"

lemma extends_added: "extends P w w' \<Longrightarrow> w_trace w' = w_trace w @ added w w' \<and> list_all P (added w w')"
  by (auto simp: extends_def added_def)

lemma extends_iff: "extends P w w' \<longleftrightarrow> w_trace w' = w_trace w @ added w w' \<and> list_all P (added w w')"
  by (metis extends_added extends_def)

subsection \<open>The primitive operations\<close>

lemma emit_simps [simp]:
  "w_trace (emit ev w) = w_trace w @ [ev]" "w_fs (emit ev w) = w_fs w"
  "w_clock (emit ev w) = w_clock w" "w_cancel (emit ev w) = w_cancel w"
  "w_ext (emit ev w) = w_ext w" "w_heap (emit ev w) = w_heap w"
  by (simp_all add: emit_def)

lemma do_op_issues [keeping]: "P (Fs op) \<Longrightarrow> keeps (extends P) (do_op E op)"
  by (auto simp: keeps_def extends_def do_op_def Let_def split: option.splits sum.splits)

lemma do_op_later [keeping]: "keeps later (do_op E op)"
  by (auto simp: keeps_def later_def do_op_def Let_def split: option.splits sum.splits)

lemma do_op_heap [framing]: "do_op E op w = (r, w') \<Longrightarrow> w_heap w' = w_heap w"
  by (auto simp: do_op_def Let_def split: option.splits sum.splits)

lemma run_cmd_issues [keeping]: "P (Exec argv) \<Longrightarrow> keeps (extends P) (run_cmd E c argv)"
  by (auto simp: keeps_def extends_def run_cmd_def
      split: option.splits prod.splits intro: exI [of _ "[]"])

lemma run_cmd_later [keeping]: "keeps later (run_cmd E c argv)"
  by (auto simp: keeps_def later_def run_cmd_def split: option.splits prod.splits)

lemma run_cmd_heap [framing]: "run_cmd E c argv w = (r, w') \<Longrightarrow> w_heap w' = w_heap w"
  by (auto simp: run_cmd_def split: option.splits prod.splits)

text \<open>Once the context is done, nothing more is run.\<close>

lemma run_cmd_done: "ctx_err c w = Some e \<Longrightarrow> run_cmd E c argv w = (([], Some e), w)"
  by (simp add: run_cmd_def)

lemma wait_issues [keeping]: "keeps (extends P) (wait E c d)"
  by (auto simp: keeps_def extends_def wait_def wait_until_def Let_def intro: exI [of _ "[]"])

lemma wait_later [keeping]: "keeps later (wait E c d)"
  by (auto simp: keeps_def later_def wait_def wait_until_def Let_def split: option.splits)

lemma wait_heap [framing]: "wait E c d w = (r, w') \<Longrightarrow> w_heap w' = w_heap w"
  by (auto simp: wait_def wait_until_def Let_def)

lemma emit_issues [keeping]: "P ev \<Longrightarrow> keeps (extends P) (\<lambda>w. (r, emit ev w))"
  by (auto simp: keeps_def extends_def)

lemma emit_later [keeping]: "keeps later (\<lambda>w. (r, emit ev w))"
  by (simp add: keeps_def later_def)

end
