(* ===== verification/Retry.thy ===== *)
theory Retry
  imports World
begin

text \<open>
  Package \<open>internal/retry\<close>: the retry and poll loops with a bounded number of attempts, an overall
  timeout and exponential backoff. Durations are \<open>int64\<close> nanoseconds; the doubling and the jitter
  are written with their wrap-around (\<^const>\<open>i64\<close>).
\<close>

record retry_config =
  MaxAttempts :: int
  Interval :: int
  Timeout :: int
  MaxInterval :: int

definition Millisecond :: int where
  "Millisecond = 1000000"

definition Second :: int where
  "Second = 1000000000"

section \<open>Backoff\<close>

text \<open>\<open>for i := 1; i < attempt; i++ { interval *= 2; if interval >= MaxInterval { break } }\<close>;
  the first argument counts the rounds left.\<close>

fun double_until :: "nat \<Rightarrow> int \<Rightarrow> int \<Rightarrow> int" where
  "double_until 0 mx interval = interval"
| "double_until (Suc n) mx interval =
     (let interval' = i64 (interval * 2)
      in if interval' \<ge> mx then interval' else double_until n mx interval')"

text \<open>\<open>rnd\<close> is the value that \<open>rand.Int63n\<close> draws, reduced to its range.\<close>

definition backoffInterval :: "retry_config \<Rightarrow> int \<Rightarrow> nat \<Rightarrow> int" where
  "backoffInterval cfg attempt rnd =
     (let interval = Interval cfg in
      if interval \<le> 0 then Millisecond
      else
        (let interval1 =
           (if MaxInterval cfg > interval
            then
              (let i1 = double_until (nat (attempt - 1)) (MaxInterval cfg) interval;
                   i2 = (if i1 > MaxInterval cfg then MaxInterval cfg else i1);
                   jitter = i2 sdiv 5
               in if jitter > 0
                  then i64 (i2 + int rnd mod (jitter + 1) - jitter sdiv 2)
                  else i2)
            else interval)
         in if interval1 \<le> 0 then Millisecond else interval1))"

text \<open>The backoff before jitter.\<close>

definition backoff_base :: "retry_config \<Rightarrow> int \<Rightarrow> int" where
  "backoff_base cfg attempt =
     min (MaxInterval cfg) (double_until (nat (attempt - 1)) (MaxInterval cfg) (Interval cfg))"

lemma double_until_ge:
  assumes "0 < i" and "i < mx" and "mx \<le> 2 ^ 62"
  shows "i \<le> double_until n mx i"
  using assms
proof (induction n arbitrary: i)
  case (Suc n)
  then have dbl: "i64 (i * 2) = i * 2" by (intro i64_id) auto
  show ?case
  proof (cases "i * 2 \<ge> mx")
    case True
    with Suc.prems show ?thesis by (simp add: dbl Let_def)
  next
    case False
    with Suc.prems have "i * 2 \<le> double_until n mx (i * 2)" by (intro Suc.IH) auto
    with Suc.prems False show ?thesis by (simp add: dbl Let_def)
  qed
qed simp

text \<open>The closed form: the interval doubles on every attempt, up to the ceiling.\<close>

lemma double_until_min:
  assumes "0 < i" and "i < mx" and "mx \<le> 2 ^ 62"
  shows "min mx (double_until n mx i) = min mx (i * 2 ^ n)"
  using assms
proof (induction n arbitrary: i)
  case (Suc n)
  then have dbl: "i64 (i * 2) = i * 2" by (intro i64_id) auto
  show ?case
  proof (cases "i * 2 \<ge> mx")
    case True
    moreover have "i * 2 \<le> i * 2 ^ Suc n" using Suc.prems(1) by simp
    ultimately show ?thesis by (simp add: dbl Let_def min_def)
  next
    case False
    with Suc.prems Suc.IH [of "i * 2"] show ?thesis by (simp add: dbl Let_def mult.assoc)
  qed
qed simp

lemma sdiv_pos: "0 \<le> (a :: int) \<Longrightarrow> 0 < b \<Longrightarrow> a sdiv b = a div b"
  by (cases "a = 0") (simp_all add: signed_divide_int_def)

section \<open>Retrying\<close>

text \<open>
  \<open>DoContext\<close>. The loop runs \<open>attempt\<close> from 1 to \<open>MaxAttempts\<close>; \<open>fn\<close> is the operation, which
  gets the run context. \<open>left\<close> is the number of attempts still allowed after this one.
\<close>

type_synonym ('x, 'p) action = "ctx \<Rightarrow> ('x, 'p) world \<Rightarrow> goerr option \<times> ('x, 'p) world"

definition err_v :: "goerr option \<Rightarrow> string" where
  "err_v e = (case e of None \<Rightarrow> ''<nil>'' | Some m \<Rightarrow> m)"

definition max_attempts :: "retry_config \<Rightarrow> int" where
  "max_attempts cfg = (if MaxAttempts cfg \<le> 0 then 1 else MaxAttempts cfg)"

fun do_loop :: "('x, 'p, 'z) env_scheme \<Rightarrow> retry_config \<Rightarrow> ctx \<Rightarrow> ('x, 'p) action \<Rightarrow> nat \<Rightarrow> goerr option
    \<Rightarrow> ('x, 'p) world \<Rightarrow> goerr option \<times> ('x, 'p) world" where
  "do_loop E cfg c fn left lastErr w =
     (case ctx_err c w of
        Some e \<Rightarrow> (Some (Errorf ''retry context cancelled: %w (last error: %v)'' [e, err_v lastErr]), w)
      | None \<Rightarrow>
          (case fn c w of
             (None, w1) \<Rightarrow> (None, w1)
           | (Some err, w1) \<Rightarrow>
               (case left of
                  0 \<Rightarrow> (Some (Errorf ''max attempts (%d) reached: %w'' [itoa (max_attempts cfg), err]), w1)
                | Suc left' \<Rightarrow>
                    (case wait E c (backoffInterval cfg (max_attempts cfg - int left) (e_rand E w1)) w1 of
                       (False, w2) \<Rightarrow>
                         (Some (Errorf ''retry context cancelled: %w (last error: %v)'' [err_v (ctx_err c w2), err]), w2)
                     | (True, w2) \<Rightarrow> do_loop E cfg c fn left' (Some err) w2))))"

declare do_loop.simps [simp del]

definition run_ctx :: "retry_config \<Rightarrow> ctx \<Rightarrow> ('x, 'p) world \<Rightarrow> ctx" where
  "run_ctx cfg c w = (if Timeout cfg > 0 then WithTimeout c (Timeout cfg) w else c)"

definition DoContext :: "('x, 'p, 'z) env_scheme \<Rightarrow> ctx \<Rightarrow> retry_config \<Rightarrow> ('x, 'p) action
    \<Rightarrow> ('x, 'p) world \<Rightarrow> goerr option \<times> ('x, 'p) world" where
  "DoContext E c cfg fn w =
     do_loop E cfg (run_ctx cfg c w) fn (nat (max_attempts cfg - 1)) None w"

definition retry_Do :: "('x, 'p, 'z) env_scheme \<Rightarrow> ctx \<Rightarrow> retry_config
    \<Rightarrow> (('x, 'p) world \<Rightarrow> goerr option \<times> ('x, 'p) world) \<Rightarrow> ('x, 'p) world \<Rightarrow> goerr option \<times> ('x, 'p) world" where
  "retry_Do E c cfg fn = DoContext E c cfg (\<lambda>_. fn)"

section \<open>Polling\<close>

type_synonym ('x, 'p) condition = "ctx \<Rightarrow> ('x, 'p) world \<Rightarrow> (bool \<times> goerr option) \<times> ('x, 'p) world"

fun poll_loop :: "('x, 'p, 'z) env_scheme \<Rightarrow> retry_config \<Rightarrow> ctx \<Rightarrow> ('x, 'p) condition \<Rightarrow> nat
    \<Rightarrow> ('x, 'p) world \<Rightarrow> goerr option \<times> ('x, 'p) world" where
  "poll_loop E cfg c fn left w =
     (case ctx_err c w of
        Some e \<Rightarrow> (Some (Errorf ''poll context cancelled: %w'' [e]), w)
      | None \<Rightarrow>
          (case fn c w of
             ((ok, Some err), w1) \<Rightarrow>
               (Some (Errorf ''poll failed on attempt %d: %w'' [itoa (max_attempts cfg - int left), err]), w1)
           | ((True, None), w1) \<Rightarrow> (None, w1)
           | ((False, None), w1) \<Rightarrow>
               (case left of
                  0 \<Rightarrow> (Some (Errorf ''poll max attempts (%d) reached without success'' [itoa (max_attempts cfg)]), w1)
                | Suc left' \<Rightarrow>
                    (case wait E c (backoffInterval cfg (max_attempts cfg - int left) (e_rand E w1)) w1 of
                       (False, w2) \<Rightarrow> (Some (Errorf ''poll context cancelled: %w'' [err_v (ctx_err c w2)]), w2)
                     | (True, w2) \<Rightarrow> poll_loop E cfg c fn left' w2))))"

declare poll_loop.simps [simp del]

definition PollContext :: "('x, 'p, 'z) env_scheme \<Rightarrow> ctx \<Rightarrow> retry_config \<Rightarrow> ('x, 'p) condition
    \<Rightarrow> ('x, 'p) world \<Rightarrow> goerr option \<times> ('x, 'p) world" where
  "PollContext E c cfg fn w =
     poll_loop E cfg (run_ctx cfg c w) fn (nat (max_attempts cfg - 1)) w"

definition retry_Poll :: "('x, 'p, 'z) env_scheme \<Rightarrow> ctx \<Rightarrow> retry_config
    \<Rightarrow> (('x, 'p) world \<Rightarrow> (bool \<times> goerr option) \<times> ('x, 'p) world)
    \<Rightarrow> ('x, 'p) world \<Rightarrow> goerr option \<times> ('x, 'p) world" where
  "retry_Poll E c cfg fn = PollContext E c cfg (\<lambda>_. fn)"

section \<open>What the loops do\<close>

text \<open>
  \<open>failed_attempts\<close> is the run of a retry loop up to some point: \<open>k\<close> attempts were made with the
  context alive, all failed, and the backoff after each elapsed.
\<close>

inductive failed_attempts :: "('x, 'p, 'z) env_scheme \<Rightarrow> retry_config \<Rightarrow> ctx \<Rightarrow> ('x, 'p) action \<Rightarrow> nat
    \<Rightarrow> ('x, 'p) world \<Rightarrow> goerr option \<Rightarrow> ('x, 'p) world \<Rightarrow> bool"
  for E cfg c fn where
  none: "failed_attempts E cfg c fn 0 w None w"
| more: "failed_attempts E cfg c fn k w lastErr u \<Longrightarrow> ctx_err c u = None \<Longrightarrow> fn c u = (Some err, u1) \<Longrightarrow>
    wait E c (backoffInterval cfg (1 + int k) (e_rand E u1)) u1 = (True, u2) \<Longrightarrow>
    failed_attempts E cfg c fn (Suc k) w (Some err) u2"

inductive_cases failed_attempts_SucE: "failed_attempts E cfg c fn (Suc k) w e u"

text \<open>The three ways a retry loop can end.\<close>

definition retry_outcome :: "('x, 'p, 'z) env_scheme \<Rightarrow> retry_config \<Rightarrow> ctx \<Rightarrow> ('x, 'p) action
    \<Rightarrow> ('x, 'p) world \<Rightarrow> goerr option \<Rightarrow> ('x, 'p) world \<Rightarrow> bool" where
  "retry_outcome E cfg c fn w r w' \<longleftrightarrow>
     (case r of
        None \<Rightarrow> \<exists>k lastErr u. int k < max_attempts cfg \<and> failed_attempts E cfg c fn k w lastErr u \<and>
          ctx_err c u = None \<and> fn c u = (None, w')
      | Some msg \<Rightarrow>
          (\<exists>k lastErr u err. int k = max_attempts cfg - 1 \<and> failed_attempts E cfg c fn k w lastErr u \<and>
             ctx_err c u = None \<and> fn c u = (Some err, w') \<and>
             msg = Errorf ''max attempts (%d) reached: %w'' [itoa (max_attempts cfg), err])
          \<or> ctx_err c w' \<noteq> None)"

lemma retry_outcome_ok:
  "failed_attempts E cfg c fn k w e u \<Longrightarrow> int k < max_attempts cfg \<Longrightarrow> ctx_err c u = None \<Longrightarrow>
    fn c u = (None, w') \<Longrightarrow> retry_outcome E cfg c fn w None w'"
  unfolding retry_outcome_def by auto

lemma retry_outcome_last:
  "failed_attempts E cfg c fn k w e u \<Longrightarrow> max_attempts cfg = int k + 1 \<Longrightarrow> ctx_err c u = None \<Longrightarrow>
    fn c u = (Some err, w') \<Longrightarrow> n = max_attempts cfg \<Longrightarrow>
    retry_outcome E cfg c fn w (Some (Errorf ''max attempts (%d) reached: %w'' [itoa n, err])) w'"
  unfolding retry_outcome_def by (auto intro!: exI [of _ k])

lemma retry_outcome_done: "ctx_err c w' \<noteq> None \<Longrightarrow> retry_outcome E cfg c fn w (Some msg) w'"
  by (simp add: retry_outcome_def)

lemma do_loop_outcome:
  assumes "failed_attempts E cfg c fn k w0 lastErr w" and "max_attempts cfg = int k + int left + 1"
    and "do_loop E cfg c fn left lastErr w = (r, w')"
  shows "retry_outcome E cfg c fn w0 r w'"
  using assms
proof (induction left arbitrary: k lastErr w)
  case 0
  show ?case
  proof (cases "ctx_err c w")
    case (Some e)
    with "0.prems"(3) show ?thesis
      by (subst (asm) do_loop.simps) (auto simp: retry_outcome_def)
  next
    case None
    obtain f w1 where f: "fn c w = (f, w1)" by (cases "fn c w")
    from None f "0.prems"(3)
    have "(f = None \<and> r = None \<and> w' = w1) \<or> (\<exists>err. f = Some err \<and> w' = w1 \<and>
        r = Some (Errorf ''max attempts (%d) reached: %w'' [itoa (max_attempts cfg), err]))"
      by (subst (asm) do_loop.simps) (auto split: option.splits)
    with None f "0.prems"(1,2) show ?thesis
      by (auto intro: retry_outcome_ok retry_outcome_last)
  qed
next
  case (Suc left)
  show ?case
  proof (cases "ctx_err c w")
    case (Some e)
    with Suc.prems(3) show ?thesis
      by (subst (asm) do_loop.simps) (auto simp: retry_outcome_def)
  next
    case None
    obtain f w1 where f: "fn c w = (f, w1)" by (cases "fn c w")
    show ?thesis
    proof (cases f)
      case None': None
      with None f Suc.prems have "r = None" "w' = w1" by (auto simp: do_loop.simps [of E cfg c fn "Suc left"])
      with None None' f Suc.prems(1,2) show ?thesis
        by (auto intro: retry_outcome_ok)
    next
      case (Some err)
      define d where "d = backoffInterval cfg (max_attempts cfg - int (Suc left)) (e_rand E w1)"
      obtain b w2 where b: "wait E c d w1 = (b, w2)" by (cases "wait E c d w1")
      have d: "d = backoffInterval cfg (1 + int k) (e_rand E w1)"
        using Suc.prems(2) by (simp add: d_def add.commute)
      show ?thesis
      proof (cases b)
        case False
        with b have "ctx_err c w2 \<noteq> None" by (simp add: wait_done)
        moreover have "\<exists>m. (r, w') = (Some m, w2)"
          using None f Some b False Suc.prems(3) by (auto simp: do_loop.simps [of E cfg c fn "Suc left"] d_def)
        ultimately show ?thesis by (auto simp: retry_outcome_def)
      next
        case True
        have "failed_attempts E cfg c fn (Suc k) w0 (Some err) w2"
          using failed_attempts.more [OF Suc.prems(1) None] f Some b True d by simp
        moreover have "do_loop E cfg c fn left (Some err) w2 = (r, w')"
          using None f Some b True Suc.prems(3) by (simp add: do_loop.simps [of E cfg c fn "Suc left"] d_def)
        ultimately show ?thesis using Suc.prems(2) by (intro Suc.IH) auto
      qed
    qed
  qed
qed

lemma max_attempts_pos: "1 \<le> max_attempts cfg"
  by (simp add: max_attempts_def)


text \<open>
  C5. Backoff: with \<open>0 < Interval < MaxInterval\<close> the wait after an attempt is the interval doubled
  per attempt, capped at \<open>MaxInterval\<close>, give or take 10 percent of it; the jitter never makes it
  zero or negative.
\<close>

theorem backoff_bounds:
  assumes "0 < Interval cfg" and "Interval cfg < MaxInterval cfg" and "MaxInterval cfg \<le> 2 ^ 62"
  shows "let base = min (MaxInterval cfg) (Interval cfg * 2 ^ nat (attempt - 1));
             d = backoffInterval cfg attempt rnd
         in 10 * \<bar>d - base\<bar> \<le> base + 10 \<and> 0 < d"
proof -
  define base where "base = min (MaxInterval cfg) (Interval cfg * 2 ^ nat (attempt - 1))"
  define i1 where "i1 = double_until (nat (attempt - 1)) (MaxInterval cfg) (Interval cfg)"
  define j where "j = base div 5"
  define x where "x = int rnd mod (j + 1)"
  have base: "(if i1 > MaxInterval cfg then MaxInterval cfg else i1) = base"
    using double_until_min [OF assms, of "nat (attempt - 1)"] by (auto simp: base_def i1_def)
  have "0 < base" "base \<le> 2 ^ 62" using assms by (auto simp: base_def)
  then have j: "base sdiv 5 = j" "j sdiv 2 = j div 2" "0 \<le> j" "5 * j \<le> base"
    by (auto simp: j_def sdiv_pos)
  then have "0 < j + 1" by simp
  then have x: "0 \<le> x" "x < j + 1" unfolding x_def by (rule pos_mod_sign, rule pos_mod_bound)
  from \<open>0 < base\<close> \<open>base \<le> 2 ^ 62\<close> j(3,4) x have "i64 (base + x - j div 2) = base + x - j div 2"
    by (intro i64_id) auto
  moreover from \<open>0 < base\<close> j(3,4) x have "0 < base + x - j div 2" by auto
  ultimately have "backoffInterval cfg attempt rnd = (if j > 0 then base + x - j div 2 else base)"
    unfolding backoffInterval_def Let_def i1_def [symmetric] base j(1,2) x_def [symmetric]
    using assms(1,2) \<open>0 < base\<close> by simp
  moreover have "\<bar>x - j div 2\<bar> \<le> j - j div 2" and "2 * (j - j div 2) \<le> j + 1"
    using x j(3) by auto
  ultimately show ?thesis
    using \<open>0 < base\<close> j(3,4) x \<open>0 < base + x - j div 2\<close> unfolding base_def [symmetric] Let_def by auto
qed

theorem backoff_bounds_witness:
  "0 < backoffInterval \<lparr>MaxAttempts = 3, Interval = 1000, Timeout = 0, MaxInterval = 5000\<rparr> 2 7"
  using backoff_bounds [of "\<lparr>MaxAttempts = 3, Interval = 1000, Timeout = 0, MaxInterval = 5000\<rparr>" 2 7]
  by (simp add: Let_def)

end
