(* ===== verification/Paths.thy ===== *)
theory Paths
  imports World
begin

text \<open>
  Paths and variables: \<open>filepath.Clean\<close> and \<open>filepath.Join\<close>, \<open>os.ExpandEnv\<close>, \<open>os.UserHomeDir\<close>, and
  the program's own \<open>ExpandPath\<close> of \<open>internal/config/config.go\<close>.
\<close>

section \<open>Clean and Join\<close>

text \<open>The elements of a cleaned path, in reverse: empty elements and \<open>.\<close> go, \<open>..\<close> takes back the
  element before it.\<close>

fun clean_step :: "bool \<Rightarrow> string list \<Rightarrow> string \<Rightarrow> string list" where
  "clean_step rooted st x =
     (if x = [] \<or> x = ''.'' then st
      else if x = ''..'' then
        (case st of
           [] \<Rightarrow> if rooted then [] else [''..'']
         | y # ys \<Rightarrow> if y = ''..'' then ''..'' # st else ys)
      else x # st)"

definition clean_elems :: "bool \<Rightarrow> string list \<Rightarrow> string list" where
  "clean_elems rooted xs = rev (foldl (clean_step rooted) [] xs)"

definition Clean :: "string \<Rightarrow> string" where
  "Clean p = (let rooted = (p \<noteq> [] \<and> hd p = CHR ''/'');
       out = (if rooted then ''/'' else []) @ Join (clean_elems rooted (Split p ''/'')) ''/''
     in if out = [] then ''.'' else out)"

fun path_Join :: "string list \<Rightarrow> string" where
  "path_Join [] = []"
| "path_Join (x # xs) = (if x = [] then path_Join xs else Clean (Join (x # xs) ''/''))"

definition IsAbs :: "string \<Rightarrow> bool" where
  "IsAbs p \<longleftrightarrow> HasPrefix p ''/''"

section \<open>ExpandEnv\<close>

definition is_special_var :: "char \<Rightarrow> bool" where
  "is_special_var c \<longleftrightarrow> c \<in> set ''*#$@!?-'' \<or> is_digit c"

definition is_name_char :: "char \<Rightarrow> bool" where
  "is_name_char c \<longleftrightarrow> c = CHR ''_'' \<or> is_digit c \<or> is_letter c"

text \<open>\<open>getShellName\<close>: the name after a dollar sign, and how many characters it takes.\<close>

definition shell_name :: "string \<Rightarrow> string \<times> nat" where
  "shell_name s =
     (case s of
        [] \<Rightarrow> ([], 0)
      | c # r \<Rightarrow>
          if c = CHR ''{'' then
            (if length s > 2 \<and> is_special_var (r ! 0) \<and> r ! 1 = CHR ''}'' then ([r ! 0], 3)
             else if CHR ''}'' \<in> set r then
               (let n = takeWhile (\<lambda>d. d \<noteq> CHR ''}'') r
                in if n = [] then ([], 2) else (n, length n + 2))
             else ([], 1))
          else if is_special_var c then ([c], 1)
          else (let n = takeWhile is_name_char s in (n, length n)))"

function expand :: "(string \<Rightarrow> string) \<Rightarrow> string \<Rightarrow> string" where
  "expand m [] = []"
| "expand m (c # s) =
     (if c = CHR ''$'' \<and> s \<noteq> [] then
        (let nw = shell_name s in
         (if fst nw = [] \<and> snd nw > 0 then []
          else if fst nw = [] then [c]
          else m (fst nw)) @ expand m (drop (snd nw) s))
      else c # expand m s)"
  by pat_completeness auto
termination
  by (relation "measure (\<lambda>(m, s). length s)") auto

definition ExpandEnv :: "('x, 'p, 'z) env_scheme \<Rightarrow> string \<Rightarrow> string" where
  "ExpandEnv E s = expand (e_getenv E) s"

definition UserHomeDir :: "('x, 'p, 'z) env_scheme \<Rightarrow> string option" where
  "UserHomeDir E = (let h = e_getenv E ''HOME'' in if h = [] then None else Some h)"

section \<open>ExpandPath\<close>

definition ExpandPath :: "('x, 'p, 'z) env_scheme \<Rightarrow> string \<Rightarrow> string" where
  "ExpandPath E path =
     (if path = [] then []
      else
        (let p1 = ExpandEnv E path;
             p2 = (if HasPrefix p1 ''~/'' then
                     (case UserHomeDir E of Some home \<Rightarrow> path_Join [home, drop 2 p1] | None \<Rightarrow> p1)
                   else if p1 = ''~'' then
                     (case UserHomeDir E of Some home \<Rightarrow> home | None \<Rightarrow> p1)
                   else p1)
         in Clean p2))"

section \<open>Cleaning is idempotent\<close>

text \<open>The elements that a cleaned path can have.\<close>

fun clean_stack :: "bool \<Rightarrow> string list \<Rightarrow> bool" where
  "clean_stack rooted [] = True"
| "clean_stack rooted (x # xs) =
     (x \<noteq> [] \<and> x \<noteq> ''.'' \<and> CHR ''/'' \<notin> set x \<and> clean_stack rooted xs \<and>
      (x = ''..'' \<longrightarrow> \<not> rooted \<and> list_all (\<lambda>y. y = ''..'') xs))"

lemma clean_step_stack:
  "clean_stack rooted st \<Longrightarrow> CHR ''/'' \<notin> set x \<Longrightarrow> clean_stack rooted (clean_step rooted st x)"
  by (cases st) auto

lemma clean_fold_stack:
  "clean_stack rooted st \<Longrightarrow> \<forall>x \<in> set xs. CHR ''/'' \<notin> set x \<Longrightarrow>
    clean_stack rooted (foldl (clean_step rooted) st xs)"
  by (induction xs arbitrary: st) (simp_all add: clean_step_stack del: clean_step.simps)

text \<open>A clean list of elements is its own result.\<close>

lemma clean_fold_id:
  "clean_stack rooted (rev xs @ st) \<Longrightarrow> foldl (clean_step rooted) st xs = rev xs @ st"
proof (induction xs arbitrary: st)
  case (Cons x xs)
  have split: "clean_stack rooted (us @ vs) \<Longrightarrow> clean_stack rooted vs" for us vs
    by (induction us) auto
  from Cons.prems have "clean_stack rooted (rev xs @ x # st)" by simp
  moreover from this have "clean_stack rooted (x # st)" by (rule split)
  then have "clean_step rooted st x = x # st" by (cases st) auto
  ultimately show ?case using Cons.IH by simp
qed simp

lemma split_acc_sep_free: "d \<notin> set acc \<Longrightarrow> \<forall>x \<in> set (split_acc [d] acc s). d \<notin> set x"
  by (induction "[d]" acc s rule: split_acc.induct) (auto simp: HasPrefix_def)

lemma Split_sep_free: "x \<in> set (Split s [d]) \<Longrightarrow> d \<notin> set x"
  unfolding Split_def using split_acc_sep_free [of d "[]" s] by simp

end
