(* ===== verification/Regex.thy ===== *)
theory Regex
  imports Prelude
begin

text \<open>
  The regular expressions of package \<open>regexp\<close> that the configuration checks use: classes of
  characters, sequence, alternative and repetition, anchored at both ends. The matcher is by
  derivatives, so a pattern of the source is a term here and \<open>MatchString\<close> computes; it is proved
  to decide the language of the pattern.
\<close>

datatype regex =
    RNone
  | REps
  | RClass "char \<Rightarrow> bool"
  | RSeq regex regex
  | RAlt regex regex
  | RStar regex

section \<open>Matching\<close>

fun nullable :: "regex \<Rightarrow> bool" where
  "nullable RNone = False"
| "nullable REps = True"
| "nullable (RClass p) = False"
| "nullable (RSeq r s) = (nullable r \<and> nullable s)"
| "nullable (RAlt r s) = (nullable r \<or> nullable s)"
| "nullable (RStar r) = True"

text \<open>Constructors that drop the empty cases, so derivatives stay small.\<close>

fun mk_seq :: "regex \<Rightarrow> regex \<Rightarrow> regex" where
  "mk_seq RNone s = RNone"
| "mk_seq REps s = s"
| "mk_seq r s = RSeq r s"

fun mk_alt :: "regex \<Rightarrow> regex \<Rightarrow> regex" where
  "mk_alt RNone s = s"
| "mk_alt r RNone = r"
| "mk_alt r s = RAlt r s"

fun deriv :: "char \<Rightarrow> regex \<Rightarrow> regex" where
  "deriv c RNone = RNone"
| "deriv c REps = RNone"
| "deriv c (RClass p) = (if p c then REps else RNone)"
| "deriv c (RSeq r s) =
     (if nullable r then mk_alt (mk_seq (deriv c r) s) (deriv c s) else mk_seq (deriv c r) s)"
| "deriv c (RAlt r s) = mk_alt (deriv c r) (deriv c s)"
| "deriv c (RStar r) = mk_seq (deriv c r) (RStar r)"

definition MatchString :: "regex \<Rightarrow> string \<Rightarrow> bool" where
  "MatchString r s = nullable (foldl (\<lambda>q c. deriv c q) r s)"

section \<open>Languages\<close>

inductive in_lang :: "string \<Rightarrow> regex \<Rightarrow> bool" where
  eps: "in_lang [] REps"
| cls: "p c \<Longrightarrow> in_lang [c] (RClass p)"
| seq: "in_lang s r \<Longrightarrow> in_lang t q \<Longrightarrow> in_lang (s @ t) (RSeq r q)"
| altl: "in_lang s r \<Longrightarrow> in_lang s (RAlt r q)"
| altr: "in_lang s q \<Longrightarrow> in_lang s (RAlt r q)"
| star0: "in_lang [] (RStar r)"
| star1: "in_lang s r \<Longrightarrow> in_lang t (RStar r) \<Longrightarrow> in_lang (s @ t) (RStar r)"

inductive_simps in_lang_simps [simp]:
  "in_lang s RNone"
  "in_lang s REps"
  "in_lang s (RClass p)"
  "in_lang s (RSeq r q)"
  "in_lang s (RAlt r q)"

inductive_cases in_lang_starE: "in_lang s (RStar r)"

lemma nullable_iff: "nullable r \<longleftrightarrow> in_lang [] r"
  by (induction r) (auto intro: in_lang.star0)

lemma mk_seq_lang [simp]: "in_lang s (mk_seq r q) \<longleftrightarrow> in_lang s (RSeq r q)"
  by (cases r) auto

lemma mk_alt_lang [simp]: "in_lang s (mk_alt r q) \<longleftrightarrow> in_lang s (RAlt r q)"
  by (cases "(r, q)" rule: mk_alt.cases) auto

lemma star_Cons:
  "in_lang (c # s) (RStar r) \<longleftrightarrow> (\<exists>u v. s = u @ v \<and> in_lang (c # u) r \<and> in_lang v (RStar r))"
proof
  show "\<exists>u v. s = u @ v \<and> in_lang (c # u) r \<and> in_lang v (RStar r)" if "in_lang (c # s) (RStar r)"
    using that
  proof (induction "c # s" "RStar r" arbitrary: s rule: in_lang.induct)
    case (star1 u v)
    show ?case
    proof (cases u)
      case Nil
      with star1 show ?thesis by simp
    next
      case (Cons d u')
      with star1.hyps have "d = c" "s = u' @ v" by simp_all
      with Cons star1.hyps show ?thesis by blast
    qed
  qed
next
  assume "\<exists>u v. s = u @ v \<and> in_lang (c # u) r \<and> in_lang v (RStar r)"
  then show "in_lang (c # s) (RStar r)" by (metis append_Cons in_lang.star1)
qed

lemma deriv_lang: "in_lang s (deriv c r) \<longleftrightarrow> in_lang (c # s) r"
proof (induction r arbitrary: s)
  case (RSeq r q)
  have "in_lang (c # s) (RSeq r q) \<longleftrightarrow>
      (\<exists>u v. s = u @ v \<and> in_lang (c # u) r \<and> in_lang v q) \<or> in_lang [] r \<and> in_lang (c # s) q"
    by (auto simp: Cons_eq_append_conv)
  with RSeq show ?case by (auto simp: nullable_iff)
next
  case (RStar r)
  then show ?case by (simp add: star_Cons)
qed auto

text \<open>The matcher decides the language.\<close>

lemma MatchString_iff: "MatchString r s \<longleftrightarrow> in_lang s r"
  unfolding MatchString_def
  by (induction s arbitrary: r) (simp_all add: nullable_iff deriv_lang)

section \<open>Derived patterns\<close>

definition RPlus :: "regex \<Rightarrow> regex" where
  "RPlus r = RSeq r (RStar r)"

definition ROpt :: "regex \<Rightarrow> regex" where
  "ROpt r = RAlt r REps"

text \<open>\<open>r{n}\<close> and \<open>r{0,n}\<close>.\<close>

fun RTimes :: "nat \<Rightarrow> regex \<Rightarrow> regex" where
  "RTimes 0 r = REps"
| "RTimes (Suc n) r = RSeq r (RTimes n r)"

fun RUpto :: "nat \<Rightarrow> regex \<Rightarrow> regex" where
  "RUpto 0 r = REps"
| "RUpto (Suc n) r = ROpt (RSeq r (RUpto n r))"

definition in_range :: "char \<Rightarrow> char \<Rightarrow> char \<Rightarrow> bool" where
  "in_range a b c \<longleftrightarrow> (of_char a :: nat) \<le> of_char c \<and> (of_char c :: nat) \<le> of_char b"

definition is_lower :: "char \<Rightarrow> bool" where
  "is_lower = in_range (CHR ''a'') (CHR ''z'')"

definition is_upper :: "char \<Rightarrow> bool" where
  "is_upper = in_range (CHR ''A'') (CHR ''Z'')"

definition is_dig :: "char \<Rightarrow> bool" where
  "is_dig = in_range (CHR ''0'') (CHR ''9'')"

definition is_alnum :: "char \<Rightarrow> bool" where
  "is_alnum c \<longleftrightarrow> is_lower c \<or> is_upper c \<or> is_dig c"

definition is_hexd :: "char \<Rightarrow> bool" where
  "is_hexd c \<longleftrightarrow> is_dig c \<or> in_range (CHR ''A'') (CHR ''F'') c \<or> in_range (CHR ''a'') (CHR ''f'') c"

text \<open>Every character of a matched string is accepted by some class of the pattern.\<close>

fun accepts :: "regex \<Rightarrow> char \<Rightarrow> bool" where
  "accepts RNone c = False"
| "accepts REps c = False"
| "accepts (RClass p) c = p c"
| "accepts (RSeq r s) c = (accepts r c \<or> accepts s c)"
| "accepts (RAlt r s) c = (accepts r c \<or> accepts s c)"
| "accepts (RStar r) c = accepts r c"

lemma in_lang_accepts: "in_lang s r \<Longrightarrow> \<forall>c \<in> set s. accepts r c"
  by (induction rule: in_lang.induct) auto

lemma MatchString_accepts: "MatchString r s \<Longrightarrow> c \<in> set s \<Longrightarrow> accepts r c"
  using in_lang_accepts MatchString_iff by blast

lemma accepts_derived [simp]:
  "accepts (RPlus r) c = accepts r c" "accepts (ROpt r) c = accepts r c"
  by (simp_all add: RPlus_def ROpt_def)

lemma accepts_RTimes: "accepts (RTimes n r) c \<Longrightarrow> accepts r c"
  by (induction n) auto

lemma accepts_RUpto: "accepts (RUpto n r) c \<Longrightarrow> accepts r c"
  by (induction n) auto

lemma star_class: "in_lang s (RStar (RClass p)) \<longleftrightarrow> list_all p s"
proof (induction s)
  case (Cons c s)
  have "in_lang (c # s) (RStar (RClass p)) \<longleftrightarrow> p c \<and> in_lang s (RStar (RClass p))"
    by (subst star_Cons) auto
  with Cons show ?case by simp
qed (auto intro: in_lang.star0)

text \<open>Repetitions of a class of characters.\<close>

lemma cls_seq_Nil [simp]: "\<not> in_lang [] (RSeq (RClass p) r)"
  by simp

lemma cls_seq_Cons: "in_lang (c # t) (RSeq (RClass p) r) \<longleftrightarrow> p c \<and> in_lang t r"
  unfolding in_lang_simps(3,4) by (metis append_Cons append_Nil list.inject)

lemma seq_cls_snoc: "in_lang (t @ [c]) (RSeq r (RClass p)) \<longleftrightarrow> in_lang t r \<and> p c"
  unfolding in_lang_simps(3,4) by auto

lemma plus_class: "in_lang s (RPlus (RClass p)) \<longleftrightarrow> s \<noteq> [] \<and> list_all p s"
proof (cases s)
  case (Cons c t)
  show ?thesis unfolding Cons RPlus_def cls_seq_Cons star_class by simp
qed (simp add: RPlus_def)

lemma cls_star: "in_lang s (RSeq (RClass p) (RStar (RClass q))) \<longleftrightarrow> s \<noteq> [] \<and> p (hd s) \<and> list_all q (tl s)"
proof (cases s)
  case (Cons c t)
  show ?thesis unfolding Cons cls_seq_Cons star_class by simp
qed simp

lemma in_lang_ROpt [simp]: "in_lang s (ROpt r) \<longleftrightarrow> s = [] \<or> in_lang s r"
  unfolding ROpt_def in_lang_simps(2,5) by blast

lemma upto_class: "in_lang s (RUpto n (RClass p)) \<longleftrightarrow> length s \<le> n \<and> list_all p s"
proof (induction n arbitrary: s)
  case 0
  show ?case by (cases s) simp_all
next
  case (Suc n)
  show ?case
  proof (cases s)
    case (Cons c t)
    show ?thesis unfolding Cons RUpto.simps in_lang_ROpt cls_seq_Cons Suc by auto
  qed simp
qed

lemma cls_upto:
  "in_lang s (RSeq (RClass p) (RUpto n (RClass q))) \<longleftrightarrow> s \<noteq> [] \<and> p (hd s) \<and> length s \<le> Suc n \<and> list_all q (tl s)"
proof (cases s)
  case (Cons c t)
  show ?thesis unfolding Cons cls_seq_Cons upto_class by simp
qed simp

text \<open>For evaluating a match.\<close>

lemmas regex_eval = MatchString_def RPlus_def ROpt_def is_alnum_def is_lower_def is_upper_def is_dig_def
  is_hexd_def in_range_def eval_nat_numeral

end
