(* ===== verification/Net.thy ===== *)
theory Net
  imports Regex
begin

text \<open>
  What the program uses of Go's package \<open>net\<close>: parsing of addresses and CIDR blocks
  (\<open>net.ParseIP\<close> and \<open>net.ParseCIDR\<close>, which rest on \<open>netip.ParseAddr\<close>), \<open>To4\<close>, masks, the dotted
  form, and the host/port functions. Both address families are modelled, because the
  configuration checks accept what these functions accept.
\<close>

datatype addr = V4 "nat list" | V6 "nat list"

section \<open>Parsing addresses\<close>

text \<open>One decimal field: digits, no leading zero, at most 255.\<close>

definition octet_ok :: "string \<Rightarrow> bool" where
  "octet_ok f \<longleftrightarrow> f \<noteq> [] \<and> list_all is_digit f \<and> (length f = 1 \<or> hd f \<noteq> CHR ''0'') \<and> dec_val f \<le> 255"

definition parseIPv4 :: "string \<Rightarrow> nat list option" where
  "parseIPv4 s = (let fs = Split s ''.'' in
     if length fs = 4 \<and> list_all octet_ok fs then Some (map dec_val fs) else None)"

definition hex_val :: "char \<Rightarrow> nat" where
  "hex_val c = (let n = of_char c in if n \<le> 57 then n - 48 else if n \<le> 70 then n - 55 else n - 87)"

definition hex_num :: "string \<Rightarrow> nat" where
  "hex_num s = foldl (\<lambda>n c. 16 * n + hex_val c) 0 s"

text \<open>
  The loop of \<open>parseIPv6\<close>: the bytes so far, the position of the ellipsis, the rest of the input. The
  loop saves two bytes per round, so eight rounds are enough to fill an address; the first
  argument is the number of rounds left.
\<close>

fun ipv6_loop :: "nat \<Rightarrow> nat list \<Rightarrow> nat option \<Rightarrow> string \<Rightarrow> (nat list \<times> nat option \<times> string) option" where
  "ipv6_loop 0 bs ell s = Some (bs, ell, s)"
| "ipv6_loop (Suc n) bs ell s =
     (let h = takeWhile is_hexd s; r = dropWhile is_hexd s in
      if length h > 4 \<or> h = [] then None
      else if r \<noteq> [] \<and> hd r = CHR ''.'' then
        (if (ell = None \<and> length bs \<noteq> 12) \<or> length bs + 4 > 16 then None
         else (case parseIPv4 s of None \<Rightarrow> None | Some q \<Rightarrow> Some (bs @ q, ell, [])))
      else
        (let bs' = bs @ [hex_num h div 256, hex_num h mod 256] in
         case r of
           [] \<Rightarrow> Some (bs', ell, [])
         | c # r1 \<Rightarrow>
             if c \<noteq> CHR '':'' then None
             else (case r1 of
                 [] \<Rightarrow> None
               | d # r2 \<Rightarrow>
                   if d = CHR '':'' then
                     (if ell \<noteq> None then None
                      else if r2 = [] then Some (bs', Some (length bs'), [])
                      else ipv6_loop n bs' (Some (length bs')) r2)
                   else ipv6_loop n bs' ell r1)))"

definition ipv6_finish :: "nat list \<times> nat option \<times> string \<Rightarrow> nat list option" where
  "ipv6_finish x = (case x of (bs, ell, s) \<Rightarrow>
     if s \<noteq> [] then None
     else if length bs < 16 then
       (case ell of None \<Rightarrow> None
        | Some e \<Rightarrow> Some (take e bs @ replicate (16 - length bs) 0 @ drop e bs))
     else if ell \<noteq> None then None else Some bs)"

text \<open>\<open>net.ParseIP\<close> and \<open>net.ParseCIDR\<close> reject every address with a zone, so a \<open>%\<close> anywhere is an
  error.\<close>

definition parseIPv6 :: "string \<Rightarrow> nat list option" where
  "parseIPv6 s =
     (if CHR ''%'' \<in> set s then None
      else if HasPrefix s ''::'' then
        (if length s = 2 then Some (replicate 16 0)
         else Option.bind (ipv6_loop 8 [] (Some 0) (drop 2 s)) ipv6_finish)
      else Option.bind (ipv6_loop 8 [] None s) ipv6_finish)"

fun first_sep :: "string \<Rightarrow> char option" where
  "first_sep [] = None"
| "first_sep (c # s) = (if c = CHR ''.'' \<or> c = CHR '':'' \<or> c = CHR ''%'' then Some c else first_sep s)"

definition ParseAddr :: "string \<Rightarrow> addr option" where
  "ParseAddr s = (case first_sep s of
      Some c \<Rightarrow> (if c = CHR ''.'' then map_option V4 (parseIPv4 s)
                 else if c = CHR '':'' then map_option V6 (parseIPv6 s)
                 else None)
    | None \<Rightarrow> None)"

definition v4_mapped_prefix :: "nat list" where
  "v4_mapped_prefix = replicate 10 0 @ [255, 255]"

fun To4 :: "addr \<Rightarrow> nat list option" where
  "To4 (V4 b) = Some b"
| "To4 (V6 b) = (if take 12 b = v4_mapped_prefix then Some (drop 12 b) else None)"

text \<open>The check \<open>ip := net.ParseIP(s); ip == nil || ip.To4() == nil\<close>, negated.\<close>

definition valid_ipv4 :: "string \<Rightarrow> bool" where
  "valid_ipv4 s \<longleftrightarrow> (case ParseAddr s of None \<Rightarrow> False | Some a \<Rightarrow> To4 a \<noteq> None)"

definition dotted :: "nat list \<Rightarrow> string" where
  "dotted bs = Join (map nat_digits bs) ''.''"

section \<open>CIDR blocks\<close>

fun cut_at :: "char \<Rightarrow> string \<Rightarrow> (string \<times> string) option" where
  "cut_at c [] = None"
| "cut_at c (d # s) = (if d = c then Some ([], s) else map_option (apfst (Cons d)) (cut_at c s))"

text \<open>\<open>dtoi\<close> refuses numbers from \<open>0xFFFFFF\<close> on.\<close>

definition dtoi :: "string \<Rightarrow> nat option" where
  "dtoi s = (if s \<noteq> [] \<and> list_all is_digit s \<and> dec_val s < 16777215 then Some (dec_val s) else None)"

text \<open>Byte \<open>i\<close> of a mask with \<open>n\<close> leading ones, applied to a byte.\<close>

definition mask_byte :: "nat \<Rightarrow> nat \<Rightarrow> nat \<Rightarrow> nat" where
  "mask_byte n i b = (let k = min 8 (n - 8 * i); z = 2 ^ (8 - k) in b div z * z)"

definition mask_bytes :: "nat \<Rightarrow> nat list \<Rightarrow> nat list" where
  "mask_bytes n bs = map (\<lambda>(i, b). mask_byte n i b) (enumerate 0 bs)"

text \<open>The network of a block: its address masked to the prefix length.\<close>

definition ParseCIDR :: "string \<Rightarrow> addr option" where
  "ParseCIDR s = (case cut_at (CHR ''/'') s of
      None \<Rightarrow> None
    | Some (a, m) \<Rightarrow> (case ParseAddr a of
          None \<Rightarrow> None
        | Some (V4 bs) \<Rightarrow> (case dtoi m of
              None \<Rightarrow> None
            | Some n \<Rightarrow> if n > 32 then None else Some (V4 (mask_bytes n bs)))
        | Some (V6 bs) \<Rightarrow> (case dtoi m of
              None \<Rightarrow> None
            | Some n \<Rightarrow> if n > 128 then None else Some (V6 (mask_bytes n bs)))))"

section \<open>Hosts and ports\<close>

text \<open>
  \<open>net.SplitHostPort\<close> succeeds on \<open>host:port\<close> and \<open>[host]:port\<close>; \<open>net.JoinHostPort\<close> brackets a host
  with a colon in it.
\<close>

definition last_index :: "char \<Rightarrow> string \<Rightarrow> nat option" where
  "last_index c s = (if c \<in> set s then Some (length s - 1 - length (takeWhile (\<lambda>d. d \<noteq> c) (rev s))) else None)"

definition split_host_port_ok :: "string \<Rightarrow> bool" where
  "split_host_port_ok hp = (case last_index (CHR '':'') hp of
      None \<Rightarrow> False
    | Some i \<Rightarrow>
        if hp \<noteq> [] \<and> hd hp = CHR ''['' then
          (case cut_at (CHR '']'') hp of
             None \<Rightarrow> False
           | Some (l, r) \<Rightarrow> length l + 1 = i \<and> CHR ''['' \<notin> set (tl l) \<and> CHR ''['' \<notin> set r
                \<and> CHR '']'' \<notin> set r)
        else CHR '':'' \<notin> set (take i hp) \<and> CHR ''['' \<notin> set hp \<and> CHR '']'' \<notin> set hp)"

definition JoinHostPort :: "string \<Rightarrow> string \<Rightarrow> string" where
  "JoinHostPort host port =
     (if CHR '':'' \<in> set host then Sprintf ''[%s]:%s'' [host, port] else host @ '':'' @ port)"

section \<open>URLs\<close>

text \<open>
  The scheme and the host that \<open>url.Parse\<close> finds, or \<^const>\<open>None\<close> where it fails: the scheme up to
  the first colon, no control characters, an authority after two slashes with a valid port, and
  well-formed percent escapes.
\<close>

fun escapes_ok :: "(char \<Rightarrow> char \<Rightarrow> bool) \<Rightarrow> string \<Rightarrow> bool" where
  "escapes_ok p [] = True"
| "escapes_ok p (c # s) =
     (if c = CHR ''%'' then
        (case s of
           a # b # s' \<Rightarrow> is_hexd a \<and> is_hexd b \<and> p a b \<and> escapes_ok p (drop 2 s)
         | _ \<Rightarrow> False)
      else escapes_ok p s)"

text \<open>In a host only bytes from 128 on may be escaped, and the percent sign itself.\<close>

definition host_escape :: "char \<Rightarrow> char \<Rightarrow> bool" where
  "host_escape a b \<longleftrightarrow> hex_val a \<ge> 8 \<or> (a = CHR ''2'' \<and> b = CHR ''5'')"

definition host_char :: "char \<Rightarrow> bool" where
  "host_char c \<longleftrightarrow> is_alnum c \<or> c \<in> set ''-_.~!$&()*+,;=:[]<>%'' \<or> c = squote \<or> c = CHR 0x22
     \<or> (of_char c :: nat) \<ge> 128"

definition zone_escape :: "char \<Rightarrow> char \<Rightarrow> bool" where
  "zone_escape a b \<longleftrightarrow> (let v = char_of (16 * hex_val a + hex_val b) in
     v = CHR ''%'' \<or> v = CHR '' '' \<or> (host_char v \<and> (of_char v :: nat) < 128))"

definition host_unescapes :: "string \<Rightarrow> bool" where
  "host_unescapes h \<longleftrightarrow> escapes_ok host_escape h \<and> list_all host_char h"

definition valid_opt_port :: "string \<Rightarrow> bool" where
  "valid_opt_port s = (case s of [] \<Rightarrow> True | c # d \<Rightarrow> c = CHR '':'' \<and> list_all is_digit d)"

fun find_sub :: "string \<Rightarrow> string \<Rightarrow> nat option" where
  "find_sub p [] = (if p = [] then Some 0 else None)"
| "find_sub p (c # s) = (if HasPrefix (c # s) p then Some 0 else map_option Suc (find_sub p s))"

definition url_host_ok :: "string \<Rightarrow> bool" where
  "url_host_ok h =
     (if HasPrefix h ''['' then
        (case last_index (CHR '']'') h of
           None \<Rightarrow> False
         | Some i \<Rightarrow> valid_opt_port (drop (i + 1) h) \<and>
             (case find_sub ''%25'' (take i h) of
                Some z \<Rightarrow> host_unescapes (take z h) \<and>
                  escapes_ok zone_escape (take (i - z) (drop z h)) \<and> host_unescapes (drop i h)
              | None \<Rightarrow> host_unescapes h))
      else
        (case last_index (CHR '':'') h of
           None \<Rightarrow> True
         | Some i \<Rightarrow> valid_opt_port (drop i h)) \<and> host_unescapes h)"

definition userinfo_char :: "char \<Rightarrow> bool" where
  "userinfo_char c \<longleftrightarrow> is_alnum c \<or> c \<in> set ''-._:~!$&()*+,;=%@'' \<or> c = squote"

fun scheme_of :: "string \<Rightarrow> string \<Rightarrow> (string \<times> string) option" where
  "scheme_of acc [] = Some ([], rev acc)"
| "scheme_of acc (c # s) =
     (if is_letter c then scheme_of (c # acc) s
      else if is_digit c \<or> c \<in> set ''+-.'' then
        (if acc = [] then Some ([], c # s) else scheme_of (c # acc) s)
      else if c = CHR '':'' then (if acc = [] then None else Some (rev acc, s))
      else Some ([], rev acc @ c # s))"

definition before :: "char \<Rightarrow> string \<Rightarrow> string" where
  "before c s = takeWhile (\<lambda>d. d \<noteq> c) s"

definition url_Parse :: "string \<Rightarrow> (string \<times> string) option" where
  "url_Parse raw =
     (let u = before (CHR ''#'') raw; frag = drop (length u + 1) raw in
      if \<not> escapes_ok (\<lambda>_ _. True) frag \<or> (\<exists>c \<in> set u. (of_char c :: nat) < 32 \<or> (of_char c :: nat) = 127)
      then None
      else case scheme_of [] u of
        None \<Rightarrow> None
      | Some (sch, r0) \<Rightarrow>
          (let r = before (CHR ''?'') r0; sch = ToLower sch in
           if \<not> HasPrefix r ''/'' \<and> sch \<noteq> [] then Some (sch, [])
           else if \<not> HasPrefix r ''/'' \<and> CHR '':'' \<in> set (before (CHR ''/'') r) then None
           else if HasPrefix r ''//'' \<and> (sch \<noteq> [] \<or> \<not> HasPrefix r ''///'') then
             (let auth = before (CHR ''/'') (drop 2 r); pth = drop (length auth) (drop 2 r);
                  i = (case last_index (CHR ''@'') auth of None \<Rightarrow> 0 | Some i \<Rightarrow> i + 1);
                  host = drop i auth; user = take (i - 1) auth
              in if url_host_ok host \<and> (i = 0 \<or> list_all userinfo_char user \<and> escapes_ok (\<lambda>_ _. True) user)
                    \<and> escapes_ok (\<lambda>_ _. True) pth
                 then Some (sch, host) else None)
           else if escapes_ok (\<lambda>_ _. True) r then Some (sch, []) else None))"

section \<open>The dotted form is canonical\<close>

lemma is_digit_neq: "is_digit c \<Longrightarrow> c \<noteq> CHR ''.'' \<and> c \<noteq> CHR '':'' \<and> c \<noteq> CHR ''%'' \<and> c \<noteq> CHR ''/''"
  by (auto simp: is_digit_def)

lemma char_of_digit_0: "n < 10 \<Longrightarrow> char_of (48 + n :: nat) = CHR ''0'' \<longleftrightarrow> n = 0"
proof -
  assume "n < 10"
  have "char_of (48 + n) = CHR ''0'' \<longleftrightarrow> of_char (char_of (48 + n)) = (of_char (CHR ''0'') :: nat)"
    by (simp only: of_char_eq_iff)
  with \<open>n < 10\<close> show ?thesis by simp
qed

text \<open>A decimal numeral without leading zero is the numeral of its value.\<close>

lemma nat_digits_dec_val:
  assumes "list_all is_digit f" and "f \<noteq> []" and "length f = 1 \<or> hd f \<noteq> CHR ''0''"
  shows "nat_digits (dec_val f) = f"
  using assms
proof (induction f rule: rev_induct)
  case (snoc c f)
  have c: "is_digit c" and d: "digit_val c < 10" using snoc.prems
    by (auto simp: is_digit_def digit_val_def)
  then have cv: "char_of (48 + digit_val c) = c"
    by (simp add: is_digit_def digit_val_def)
  show ?case
  proof (cases "f = []")
    case True
    with d cv show ?thesis by (subst nat_digits.simps) (simp add: dec_val_def)
  next
    case False
    with snoc.prems have h: "hd f \<noteq> CHR ''0''" by auto
    with False snoc have IH: "nat_digits (dec_val f) = f" by auto
    have "dec_val f \<noteq> 0"
    proof
      assume "dec_val f = 0"
      with IH have "f = nat_digits 0" by simp
      then have "f = ''0''" using char_of_digit_0 [of 0] by (simp add: nat_digits.simps)
      with h show False by simp
    qed
    then show ?thesis using d cv IH
      by (subst nat_digits.simps) (simp add: dec_val_append1)
  qed
qed simp

lemma octet_digits: "octet_ok f \<Longrightarrow> nat_digits (dec_val f) = f"
  by (simp add: octet_ok_def nat_digits_dec_val)

text \<open>Parsing a dotted address gives its bytes, and printing the bytes gives it back, so two
  dotted strings denote the same address only if they are equal.\<close>

lemma parseIPv4_dotted: "parseIPv4 s = Some bs \<Longrightarrow> dotted bs = s"
proof -
  assume "parseIPv4 s = Some bs"
  then have ok: "list_all octet_ok (Split s ''.'')" and bs: "bs = map dec_val (Split s ''.'')"
    by (auto simp: parseIPv4_def Let_def split: if_splits)
  from ok have "map (nat_digits \<circ> dec_val) (Split s ''.'') = Split s ''.''"
    by (simp add: list_all_iff map_idI octet_digits)
  then show "dotted bs = s" by (simp add: dotted_def bs)
qed

lemma parseIPv4_length: "parseIPv4 s = Some bs \<Longrightarrow> length bs = 4 \<and> list_all (\<lambda>b. b \<le> 255) bs"
  by (auto simp: parseIPv4_def Let_def list_all_iff octet_ok_def split: if_splits)

lemma split_acc_no_sep:
  "\<forall>c \<in> set s. c \<noteq> d \<Longrightarrow> split_acc [d] acc (s @ t) = split_acc [d] (rev s @ acc) t"
  by (induction s arbitrary: acc) (simp_all add: HasPrefix_def)

lemma Split_Join:
  "xs \<noteq> [] \<Longrightarrow> \<forall>x \<in> set xs. d \<notin> set x \<Longrightarrow> Split (Join xs [d]) [d] = xs"
proof (induction xs)
  case (Cons x xs)
  then have x: "\<forall>c \<in> set x. c \<noteq> d" by auto
  show ?case
  proof (cases xs)
    case Nil
    with split_acc_no_sep [OF x, of "[]" "[]"] show ?thesis by (simp add: Split_def)
  next
    case (Cons y ys)
    with Cons.IH Cons.prems have "Split (Join xs [d]) [d] = xs" by simp
    with Cons split_acc_no_sep [OF x, of "[]" "d # Join xs [d]"] show ?thesis
      by (simp add: Split_def HasPrefix_def)
  qed
qed simp

lemma parseIPv4_of_dotted:
  assumes "length bs = 4" and "list_all (\<lambda>b. b \<le> 255) bs"
  shows "parseIPv4 (dotted bs) = Some bs"
proof -
  have nodot: "CHR ''.'' \<notin> set (nat_digits n)" for n
    using nat_digits_digit [of n] is_digit_neq by blast
  have "length (nat_digits n) = 1 \<or> hd (nat_digits n) \<noteq> CHR ''0''" for n
  proof (induction n rule: nat_digits.induct)
    case (1 n)
    show ?case
    proof (cases "n < 10")
      case True
      then show ?thesis by (simp add: nat_digits.simps)
    next
      case False
      have "hd (nat_digits (n div 10)) \<noteq> CHR ''0''"
      proof (cases "n div 10 < 10")
        case True
        with False show ?thesis
          using char_of_digit_0 [of "n div 10"] by (simp add: nat_digits.simps [of "n div 10"])
      next
        case F: False
        then have "length (nat_digits (n div 10)) \<noteq> 1"
          by (subst nat_digits.simps) simp
        with 1 False show ?thesis by blast
      qed
      with False show ?thesis by (subst nat_digits.simps) simp
    qed
  qed
  then have oct: "octet_ok (nat_digits b)" if "b \<le> 255" for b
    using that nat_digits_digit by (auto simp: octet_ok_def list_all_iff)
  have "Split (dotted bs) ''.'' = map nat_digits bs"
    unfolding dotted_def using assms(1) nodot by (intro Split_Join) auto
  with assms oct show ?thesis
    by (auto simp: parseIPv4_def Let_def list_all_iff o_def)
qed

text \<open>For evaluating the parsers.\<close>

lemmas net_eval = valid_ipv4_def ParseAddr_def parseIPv4_def Split_def HasPrefix_def octet_ok_def is_digit_def
  dec_val_def digit_val_def Let_def ParseCIDR_def dtoi_def mask_bytes_def mask_byte_def

end
