(* ===== verification/Config.thy ===== *)
theory Config
  imports Paths Net
begin

text \<open>
  Package \<open>internal/config\<close>, file \<open>config.go\<close>: the typed configuration, its defaults and derived
  values, the node lists, and the checks \<open>Validate\<close> and \<open>ValidatePartial\<close>.
  Go \<open>int\<close> fields are \<^typ>\<open>int\<close>; wrap-around is written out (\<^const>\<open>i64\<close>) where the code computes with them.
\<close>

section \<open>The configuration\<close>

record VMConfig =
  StorageDir :: string
  LibvirtURI :: string

record SSHConfig =
  ssh_User :: string
  KnownHostsFile :: string
  PrivateKey :: string
  ConnectTimeout :: int

record NetworkDetail =
  CIDR :: string
  Gateway :: string
  net_Domain :: string
  Bridge :: string
  VIP :: string

record NetworkConfig =
  Internal :: NetworkDetail
  Main_net :: NetworkDetail

record NodeDetail =
  n_Name :: string
  n_IP :: string
  IPMain :: string
  n_FQDN :: string
  n_MAC :: string
  MACInternal :: string
  MACMain :: string
  MACWAN :: string
  n_RAMInstallMB :: int
  n_RAMFinalMB :: int
  n_VCPUs :: int
  n_DiskGB :: int
  DRBDDiskGB :: int

record HotdesksConf =
  hd_Count :: int
  hd_Max :: int
  hd_RAMInstallMB :: int
  hd_RAMFinalMB :: int
  hd_VCPUs :: int
  hd_DiskGB :: int
  BaseIPOctet :: int

record NodesConfig =
  Router :: NodeDetail
  Jumpstart :: NodeDetail
  Masters :: "NodeDetail list"
  Workers :: "NodeDetail list"
  Storage :: NodeDetail
  Monitor :: NodeDetail
  LBs :: "NodeDetail list"
  CMSFrontends :: "NodeDetail list"
  Hotdesks :: HotdesksConf

record DatabaseConfig =
  db_Name :: string
  db_User :: string
  db_Password :: string
  RootPassword :: string
  ExporterPassword :: string
  db_Port :: int

record PKIConfig =
  CAPort :: int
  ProvisionerPassword :: string
  StepVersion :: string
  StepCAVersion :: string
  pki_Domain :: string
  CAName :: string
  CertDNSNames :: "string list"
  CertMinValidDays :: int
  CertLifetimeHours :: int

record DeployConfig =
  SSHTimeout :: int
  StaggerDelay :: int

record DRBDConfig =
  Fencing :: bool
  FenceCommand :: string
  FenceStateCommand :: string

record BackupConfig =
  Engine :: string
  GarageVersion :: string
  DataDir :: string
  S3Port :: int
  S3Region :: string
  Bucket :: string
  AccessKey :: string
  SecretKey :: string
  RetentionDays :: int
  Schedule :: string
  RestoreTestSchedule :: string

record TrafficConfig =
  K6Version :: string
  PrometheusRWURL :: string
  VHost :: string

text \<open>\<open>WordPressConfig\<close> has the one field \<open>AdminPassword\<close>; the exporter versions of
  \<open>MonitoringConfig\<close> are three strings.\<close>

record ExportersConfig =
  NginxVersion :: string
  ApacheVersion :: string
  MysqldVersion :: string

record Config =
  VM :: VMConfig
  SSH :: SSHConfig
  Network :: NetworkConfig
  Nodes :: NodesConfig
  Database :: DatabaseConfig
  AdminPassword :: string
  Exporters :: ExportersConfig
  PKI :: PKIConfig
  Deploy :: DeployConfig
  DRBD :: DRBDConfig
  Backup :: BackupConfig
  Traffic :: TrafficConfig

record NodeSpec =
  Name :: string
  IP :: string
  FQDN :: string
  MAC :: string
  RAMInstallMB :: int
  RAMFinalMB :: int
  VCPUs :: int
  DiskGB :: int

section \<open>Defaults\<close>

definition SSHUser :: "Config \<Rightarrow> string" where
  "SSHUser c = (let u = TrimSpace (ssh_User (SSH c)) in if u \<noteq> [] then u else ''root'')"

definition SSHKnownHostsFile :: "('x, 'p, 'z) env_scheme \<Rightarrow> Config \<Rightarrow> string" where
  "SSHKnownHostsFile E c = (let p = TrimSpace (KnownHostsFile (SSH c)) in
     if p \<noteq> [] then ExpandPath E p else ExpandPath E ''~/.ssh/cms_known_hosts'')"

definition PKICommonName :: "Config \<Rightarrow> string" where
  "PKICommonName c = (if CAName (PKI c) \<noteq> [] then CAName (PKI c) else ''CMS Local CA'')"

definition LBTLSDNSNames :: "Config \<Rightarrow> string list" where
  "LBTLSDNSNames c = (if length (CertDNSNames (PKI c)) > 0 then CertDNSNames (PKI c)
     else [''cms.fake-enterprise.com''])"

definition LBVIP :: "Config \<Rightarrow> string" where
  "LBVIP c = VIP (Main_net (Network c))"

definition LBTLSSANs :: "Config \<Rightarrow> string list" where
  "LBTLSSANs c =
     (let sans = LBTLSDNSNames c;
          sans = (if LBVIP c \<noteq> [] then sans @ [LBVIP c] else sans)
      in foldl (\<lambda>s lb. if n_IP lb \<noteq> [] then s @ [n_IP lb] else s) sans (LBs (Nodes c)))"

definition LBTLSCertMinValidDays :: "Config \<Rightarrow> int" where
  "LBTLSCertMinValidDays c = (if CertMinValidDays (PKI c) > 0 then CertMinValidDays (PKI c) else 30)"

definition LBTLSCertLifetimeHours :: "Config \<Rightarrow> int" where
  "LBTLSCertLifetimeHours c = (if CertLifetimeHours (PKI c) > 0 then CertLifetimeHours (PKI c) else 2160)"

definition HypervisorIP :: "Config \<Rightarrow> string" where
  "HypervisorIP c =
     (case ParseCIDR (CIDR (Internal (Network c))) of
        None \<Rightarrow> []
      | Some a \<Rightarrow> (case To4 a of None \<Rightarrow> [] | Some bs \<Rightarrow> dotted (bs[3 := 254])))"

definition FenceCommands :: "('x, 'p, 'z) env_scheme \<Rightarrow> Config \<Rightarrow> string \<times> string" where
  "FenceCommands E c =
     (if FenceCommand (DRBD c) \<noteq> [] \<and> FenceStateCommand (DRBD c) \<noteq> []
      then (FenceCommand (DRBD c), FenceStateCommand (DRBD c))
      else
        (let host = HypervisorIP c;
             user = e_getenv E ''USER'';
             user = (if user = [] then e_getenv E ''LOGNAME'' else user);
             user = (if user = [] then ''root'' else user);
             base = Sprintf ''ssh -i /etc/drbd-fence/fence_key -o StrictHostKeyChecking=accept-new -o UserKnownHostsFile=/dev/null -o LogLevel=ERROR -o ConnectTimeout=5 %s@%s'' [user, host]
         in (base @ '' sudo virsh destroy {domain}'', base @ '' sudo virsh domstate {domain}'')))"

definition K6Image :: "Config \<Rightarrow> string" where
  "K6Image c = (let v = K6Version (Traffic c); v = (if v = [] then ''0.55.0'' else v) in ''grafana/k6:'' @ v)"

definition TrafficVHost :: "Config \<Rightarrow> string" where
  "TrafficVHost c = (let v = TrimSpace (VHost (Traffic c)) in if v \<noteq> [] then v else ''cms.fake-enterprise.com'')"

definition BackupEnabled :: "Config \<Rightarrow> bool" where
  "BackupEnabled c \<longleftrightarrow> Engine (Backup c) \<noteq> []"

definition BackupEngine :: "Config \<Rightarrow> string" where
  "BackupEngine c = (if Engine (Backup c) \<noteq> [] then Engine (Backup c) else ''garage'')"

definition GarageImage :: "Config \<Rightarrow> string" where
  "GarageImage c = (let v = GarageVersion (Backup c); v = (if v = [] then ''v2.4.1'' else v) in ''dxflrs/garage:'' @ v)"

definition BackupDataDir :: "('x, 'p, 'z) env_scheme \<Rightarrow> Config \<Rightarrow> string" where
  "BackupDataDir E c = (if DataDir (Backup c) \<noteq> [] then ExpandPath E (DataDir (Backup c)) else ''/var/lib/cms-garage'')"

definition BackupS3Port :: "Config \<Rightarrow> int" where
  "BackupS3Port c = (if S3Port (Backup c) > 0 then S3Port (Backup c) else 3900)"

definition BackupS3Endpoint :: "Config \<Rightarrow> string" where
  "BackupS3Endpoint c = Sprintf ''http://%s:%d'' [HypervisorIP c, itoa (BackupS3Port c)]"

definition BackupS3Region :: "Config \<Rightarrow> string" where
  "BackupS3Region c = (if S3Region (Backup c) \<noteq> [] then S3Region (Backup c) else ''garage'')"

definition BackupBucket :: "Config \<Rightarrow> string" where
  "BackupBucket c = (if Bucket (Backup c) \<noteq> [] then Bucket (Backup c) else ''cms-backups'')"

definition BackupAccessKey :: "Config \<Rightarrow> string" where
  "BackupAccessKey c = (if AccessKey (Backup c) \<noteq> [] then AccessKey (Backup c) else ''GKcmshabackup0000000000'')"

definition BackupRetentionDays :: "Config \<Rightarrow> int" where
  "BackupRetentionDays c = (if RetentionDays (Backup c) > 0 then RetentionDays (Backup c) else 7)"

definition BackupSchedule :: "Config \<Rightarrow> string" where
  "BackupSchedule c = (if Schedule (Backup c) \<noteq> [] then Schedule (Backup c) else ''0 2 * * *'')"

definition BackupRestoreTestSchedule :: "Config \<Rightarrow> string" where
  "BackupRestoreTestSchedule c =
     (if RestoreTestSchedule (Backup c) \<noteq> [] then RestoreTestSchedule (Backup c) else ''30 3 * * *'')"

section \<open>Nodes\<close>

definition toSpec :: "NodeDetail \<Rightarrow> string \<Rightarrow> NodeSpec" where
  "toSpec n fallbackIP =
     (let ip = (if n_IP n = [] then fallbackIP else n_IP n);
          mac = (if n_MAC n = [] \<and> MACInternal n \<noteq> [] then MACInternal n
                 else if n_MAC n = [] \<and> MACMain n \<noteq> [] then MACMain n
                 else n_MAC n)
      in \<lparr>Name = n_Name n, IP = ip, FQDN = n_FQDN n, MAC = mac,
          RAMInstallMB = n_RAMInstallMB n, RAMFinalMB = n_RAMFinalMB n,
          VCPUs = n_VCPUs n, DiskGB = n_DiskGB n\<rparr>)"

definition InternalNodes :: "Config \<Rightarrow> NodeSpec list" where
  "InternalNodes c = (let ns = Nodes c in
     [toSpec (Router ns) [], toSpec (Jumpstart ns) (n_IP (Jumpstart ns))]
     @ map (\<lambda>n. toSpec n []) (Masters ns)
     @ map (\<lambda>n. toSpec n []) (Workers ns)
     @ [toSpec (Storage ns) [], toSpec (Monitor ns) []])"

definition PrefixFromCIDR :: "string \<Rightarrow> string \<Rightarrow> string" where
  "PrefixFromCIDR cidr fallback = (let parts = Split cidr ''.'' in
     if length parts \<ge> 3
     then Sprintf ''%s.%s.%s.'' [parts ! 0, parts ! 1, parts ! 2]
     else fallback)"

text \<open>\<open>%02x\<close> of a number.\<close>

fun hex_digits :: "nat \<Rightarrow> string" where
  "hex_digits n = (if n < 16 then [hex_digit n] else hex_digits (n div 16) @ [hex_digit (n mod 16)])"

declare hex_digits.simps [simp del]

definition hex02 :: "int \<Rightarrow> string" where
  "hex02 i = (let h = (if i < 0 then CHR ''-'' # hex_digits (nat (- i)) else hex_digits (nat i)) in
     if length h < 2 then CHR ''0'' # h else h)"

definition hotdesk_octet :: "Config \<Rightarrow> int \<Rightarrow> int" where
  "hotdesk_octet c i = (let base = BaseIPOctet (Hotdesks (Nodes c)) in
     if base > 0 \<and> base \<noteq> 201 then i64 (base + i - 1) else i64 (200 + i))"

definition hotdesk_spec :: "Config \<Rightarrow> string \<Rightarrow> int \<Rightarrow> NodeSpec" where
  "hotdesk_spec c pre i = (let lastOctet = hotdesk_octet c i; h = Hotdesks (Nodes c) in
     \<lparr>Name = Sprintf ''main-hotdesk%d'' [itoa i],
      IP = pre @ itoa lastOctet,
      FQDN = Sprintf ''main-hotdesk%d.main.local'' [itoa i],
      MAC = Sprintf ''52:54:00:10:02:%02x'' [hex02 lastOctet],
      RAMInstallMB = hd_RAMInstallMB h, RAMFinalMB = hd_RAMFinalMB h,
      VCPUs = hd_VCPUs h, DiskGB = hd_DiskGB h\<rparr>)"

definition HotdeskSpecs :: "Config \<Rightarrow> NodeSpec list" where
  "HotdeskSpecs c = (let pre = PrefixFromCIDR (CIDR (Main_net (Network c))) ''192.168.20.'' in
     map (hotdesk_spec c pre) [1..hd_Count (Hotdesks (Nodes c))])"

definition MainNodes :: "Config \<Rightarrow> NodeSpec list" where
  "MainNodes c = (let ns = Nodes c; js = Jumpstart ns in
     (if IPMain js \<noteq> [] then [(toSpec js (IPMain js))\<lparr>MAC := MACMain js\<rparr>] else [])
     @ map (\<lambda>n. toSpec n []) (LBs ns)
     @ map (\<lambda>n. toSpec n []) (CMSFrontends ns)
     @ HotdeskSpecs c)"

definition NodeDetail_zero :: NodeDetail where
  "NodeDetail_zero = \<lparr>n_Name = [], n_IP = [], IPMain = [], n_FQDN = [], n_MAC = [], MACInternal = [],
     MACMain = [], MACWAN = [], n_RAMInstallMB = 0, n_RAMFinalMB = 0, n_VCPUs = 0, n_DiskGB = 0, DRBDDiskGB = 0\<rparr>"

definition PrimaryLB :: "Config \<Rightarrow> NodeDetail" where
  "PrimaryLB c = (case LBs (Nodes c) of [] \<Rightarrow> NodeDetail_zero | lb # rest \<Rightarrow> lb)"

definition AllNodes :: "Config \<Rightarrow> NodeSpec list" where
  "AllNodes c = InternalNodes c @ filter (\<lambda>n. Name n \<noteq> n_Name (Jumpstart (Nodes c))) (MainNodes c)"

definition AllNodeIPs :: "Config \<Rightarrow> string list" where
  "AllNodeIPs c = filter (\<lambda>ip. ip \<noteq> []) (map IP (AllNodes c))
     @ (if IPMain (Jumpstart (Nodes c)) \<noteq> [] then [IPMain (Jumpstart (Nodes c))] else [])"

section \<open>Patterns\<close>

definition dnsLabel :: regex where
  "dnsLabel = RSeq (RClass is_alnum)
     (ROpt (RSeq (RUpto 61 (RClass (\<lambda>c. is_alnum c \<or> c = CHR ''-''))) (RClass is_alnum)))"

definition fqdnPattern :: regex where
  "fqdnPattern = RSeq dnsLabel (RStar (RSeq (RClass (\<lambda>c. c = CHR ''.'')) dnsLabel))"

definition macPattern :: regex where
  "macPattern = RSeq (RTimes 5 (RSeq (RTimes 2 (RClass is_hexd)) (RClass (\<lambda>c. c = CHR '':''))))
     (RTimes 2 (RClass is_hexd))"

definition nodeNamePattern :: regex where
  "nodeNamePattern = RSeq (RClass is_alnum) (RStar (RClass (\<lambda>c. is_alnum c \<or> c \<in> set ''._-'')))"

definition dbIdentifierPattern :: regex where
  "dbIdentifierPattern = RPlus (RClass (\<lambda>c. is_alnum c \<or> c = CHR ''_''))"

definition cronPattern :: regex where
  "cronPattern = RPlus (RClass (\<lambda>c. is_alnum c \<or> c \<in> set ''*,/ @-''))"

definition validUnixUser :: regex where
  "validUnixUser = RSeq (RClass (\<lambda>c. is_lower c \<or> c = CHR ''_''))
     (RUpto 31 (RClass (\<lambda>c. is_lower c \<or> is_dig c \<or> c \<in> set ''_-'')))"

text \<open>The patterns in words.\<close>

definition label_char :: "char \<Rightarrow> bool" where
  "label_char c \<longleftrightarrow> is_alnum c \<or> c = CHR ''-''"

lemma nodeName_iff:
  "MatchString nodeNamePattern s \<longleftrightarrow>
     s \<noteq> [] \<and> is_alnum (hd s) \<and> list_all (\<lambda>c. is_alnum c \<or> c \<in> set ''._-'') (tl s)"
  unfolding MatchString_iff nodeNamePattern_def by (rule cls_star)

lemma dbIdentifier_iff:
  "MatchString dbIdentifierPattern s \<longleftrightarrow> s \<noteq> [] \<and> list_all (\<lambda>c. is_alnum c \<or> c = CHR ''_'') s"
  unfolding MatchString_iff dbIdentifierPattern_def by (rule plus_class)

lemma cron_iff:
  "MatchString cronPattern s \<longleftrightarrow> s \<noteq> [] \<and> list_all (\<lambda>c. is_alnum c \<or> c \<in> set ''*,/ @-'') s"
  unfolding MatchString_iff cronPattern_def by (rule plus_class)

lemma unixUser_iff:
  "MatchString validUnixUser s \<longleftrightarrow> s \<noteq> [] \<and> (is_lower (hd s) \<or> hd s = CHR ''_'') \<and> length s \<le> 32 \<and>
     list_all (\<lambda>c. is_lower c \<or> is_dig c \<or> c \<in> set ''_-'') (tl s)"
  unfolding MatchString_iff validUnixUser_def by (subst cls_upto) simp

lemma dnsLabel_iff:
  "in_lang s dnsLabel \<longleftrightarrow> s \<noteq> [] \<and> length s \<le> 63 \<and> is_alnum (hd s) \<and> is_alnum (last s) \<and> list_all label_char s"
proof (cases s)
  case (Cons c t)
  show ?thesis
  proof (cases t rule: rev_cases)
    case Nil
    show ?thesis
      unfolding Cons Nil dnsLabel_def cls_seq_Cons by (auto simp: ROpt_def label_char_def)
  next
    case (snoc u d)
    have "in_lang s dnsLabel \<longleftrightarrow> is_alnum c \<and> in_lang u (RUpto 61 (RClass label_char)) \<and> is_alnum d"
      unfolding Cons snoc dnsLabel_def cls_seq_Cons in_lang_ROpt seq_cls_snoc label_char_def [abs_def] by simp
    with Cons snoc show ?thesis by (auto simp: upto_class label_char_def)
  qed
qed (simp add: dnsLabel_def)

lemma fqdn_label: "in_lang s dnsLabel \<Longrightarrow> in_lang s fqdnPattern"
  unfolding fqdnPattern_def by (metis append_Nil2 in_lang.seq in_lang.star0)

lemma fqdn_dot:
  assumes "in_lang l dnsLabel" and "in_lang r fqdnPattern"
  shows "in_lang (l @ CHR ''.'' # r) fqdnPattern"
proof -
  from assms(2) obtain a b where "r = a @ b" and a: "in_lang a dnsLabel"
    and b: "in_lang b (RStar (RSeq (RClass (\<lambda>c. c = CHR ''.'')) dnsLabel))"
    unfolding fqdnPattern_def in_lang_simps by blast
  have "in_lang ((CHR ''.'' # a) @ b) (RStar (RSeq (RClass (\<lambda>c. c = CHR ''.'')) dnsLabel))"
    using a b by (intro in_lang.star1) auto
  with assms(1) \<open>r = a @ b\<close> show ?thesis
    unfolding fqdnPattern_def by (metis append_Cons in_lang.seq)
qed

section \<open>Validation\<close>

text \<open>A check that returns an error when its condition holds, and a sequence of such checks, which
  returns the first error.\<close>

definition check :: "bool \<Rightarrow> goerr \<Rightarrow> goerr option" where
  "check bad e = (if bad then Some e else None)"

fun first_error :: "goerr option list \<Rightarrow> goerr option" where
  "first_error [] = None"
| "first_error (None # es) = first_error es"
| "first_error (Some e # es) = Some e"

lemma check_None [simp]: "check bad e = None \<longleftrightarrow> \<not> bad"
  by (simp add: check_def)

lemma first_error_None [simp]: "first_error es = None \<longleftrightarrow> list_all (\<lambda>e. e = None) es"
  by (induction es rule: first_error.induct) simp_all

text \<open>The checks on one node in the last sweep of \<open>Validate\<close>.\<close>

definition node_errors :: "NodeSpec \<Rightarrow> goerr option" where
  "node_errors n = first_error [
     check (Name n \<noteq> [] \<and> \<not> MatchString nodeNamePattern (Name n))
       (Errorf ''node has an invalid name (letters, digits, dots, underscores, hyphens only): %q'' [quoted (Name n)]),
     check (IP n \<noteq> [] \<and> \<not> valid_ipv4 (IP n))
       (Errorf ''node %s has an invalid IPv4 address: %q'' [Name n, quoted (IP n)]),
     check (FQDN n \<noteq> [] \<and> \<not> MatchString fqdnPattern (FQDN n))
       (Errorf ''node %s has an invalid FQDN (letters, digits, dots, hyphens only): %q'' [Name n, quoted (FQDN n)]),
     check (MAC n \<noteq> [] \<and> \<not> MatchString macPattern (MAC n))
       (Errorf ''node %s has an invalid MAC address: %q'' [Name n, quoted (MAC n)])]"

definition prometheus_url_bad :: "string \<Rightarrow> bool" where
  "prometheus_url_bad rw = (case url_Parse rw of
      None \<Rightarrow> True
    | Some (sch, host) \<Rightarrow> (sch \<noteq> ''http'' \<and> sch \<noteq> ''https'') \<or> host = [])"

definition hotdesk_range_error :: "Config \<Rightarrow> goerr option" where
  "hotdesk_range_error c = (let h = Hotdesks (Nodes c) in
     if hd_Count h > 0 then
       (let base = (if BaseIPOctet h = 0 \<or> BaseIPOctet h = 201 then 201 else BaseIPOctet h)
        in check (i64 (base + hd_Count h - 1) > 254)
             (Errorf ''hotdesk range overflows: base octet %d with %d nodes exceeds 254'' [itoa base, itoa (hd_Count h)]))
     else None)"

text \<open>
  \<open>Validate\<close>. The two database fields are checked while ranging over a Go map, in an order the
  language leaves open: \<open>user_first\<close> is that order.
\<close>

definition db_check :: "string \<Rightarrow> string \<Rightarrow> goerr option" where
  "db_check field v = check (v \<noteq> [] \<and> \<not> MatchString dbIdentifierPattern v)
     (Errorf ''%s must contain only letters, digits, or underscores: %q'' [field, quoted v])"

definition Validate :: "bool \<Rightarrow> Config \<Rightarrow> goerr option" where
  "Validate user_first c = (let ns = Nodes c; main = Main_net (Network c); pki = PKI c; bk = Backup c in first_error ([
     check (StorageDir (VM c) = []) ''vm.storage_dir is required'',
     check (ssh_User (SSH c) \<noteq> [] \<and> \<not> MatchString validUnixUser (ssh_User (SSH c)))
       (Errorf ''ssh.user is not a valid Unix user name: %q'' [quoted (ssh_User (SSH c))]),
     check (ParseCIDR (CIDR (Internal (Network c))) = None)
       (Errorf ''network.internal.cidr is not a valid CIDR: %w'' [Errorf ''invalid CIDR address: %s'' [CIDR (Internal (Network c))]]),
     check (ParseCIDR (CIDR main) = None)
       (Errorf ''network.main.cidr is not a valid CIDR: %w'' [Errorf ''invalid CIDR address: %s'' [CIDR main]]),
     check (n_IP (Router ns) = []) ''nodes.router.ip is required'',
     check (n_IP (Jumpstart ns) = []) ''nodes.jumpstart.ip is required'',
     check (length (Masters ns) < 3)
       (Errorf ''at least 3 master nodes are required for etcd quorum (got %d)'' [itoa (int (length (Masters ns)))]),
     check (length (Masters ns) mod 2 = 0)
       (Errorf ''an odd number of master nodes is required for etcd quorum (got %d)'' [itoa (int (length (Masters ns)))]),
     check ((FenceCommand (DRBD c) = []) \<noteq> (FenceStateCommand (DRBD c) = []))
       ''drbd.fence_command and drbd.fence_state_command must be set together (or both left empty to auto-derive)'',
     check (length (LBs ns) < 2)
       (Errorf ''at least 2 load balancer nodes are required for HA (got %d)'' [itoa (int (length (LBs ns)))]),
     check (VIP main = []) ''network.main.vip is required (keepalived floating address)'',
     check (\<not> valid_ipv4 (VIP main)) (Errorf ''network.main.vip is not a valid IPv4 address: %q'' [quoted (VIP main)])]
     @ map (\<lambda>n. check (IP n = VIP main) (Errorf ''network.main.vip %s collides with node %s'' [VIP main, Name n])) (AllNodes c)
     @ [check (length (CMSFrontends ns) < 1) ''at least 1 CMS frontend node is required'',
     check (CertMinValidDays pki > 0 \<and> CertLifetimeHours pki > 0 \<and>
         CertLifetimeHours pki \<le> i64 (CertMinValidDays pki * 24))
       (Errorf ''pki.cert_lifetime_hours (%d) must exceed pki.cert_min_valid_days*24 (%d)''
         [itoa (CertLifetimeHours pki), itoa (i64 (CertMinValidDays pki * 24))])]
     @ map (\<lambda>dns. check (\<not> MatchString fqdnPattern dns)
         (Errorf ''pki.cert_dns_names entry is not a valid DNS name: %q'' [quoted dns])) (CertDNSNames pki)
     @ [check (Engine bk \<noteq> [] \<and> Engine bk \<noteq> ''garage'')
       (Errorf ''backup.engine %q is not supported (supported: garage)'' [quoted (Engine bk)]),
     check (S3Port bk < 0 \<or> S3Port bk > 65535) (Errorf ''backup.s3_port out of range: %d'' [itoa (S3Port bk)]),
     check (RetentionDays bk < 0) ''backup.retention_days must be >= 0'']
     @ map (\<lambda>sched. check (sched \<noteq> [] \<and> \<not> MatchString cronPattern sched)
         (Errorf ''backup schedule %q contains unsupported characters'' [quoted sched]))
         [Schedule bk, RestoreTestSchedule bk]
     @ [check (TrimSpace (K6Version (Traffic c)) = ''latest'')
       (Errorf ''traffic.k6_version must be pinned to a specific tag (got %q)'' [quoted ''latest'']),
     check (TrimSpace (PrometheusRWURL (Traffic c)) \<noteq> [] \<and> prometheus_url_bad (TrimSpace (PrometheusRWURL (Traffic c))))
       (Errorf ''traffic.prometheus_rw_url must be an http(s) URL: %q'' [quoted (TrimSpace (PrometheusRWURL (Traffic c)))]),
     hotdesk_range_error c]
     @ map node_errors (AllNodes c)
     @ (let u = db_check ''database.user'' (db_User (Database c));
            n = db_check ''database.name'' (db_Name (Database c))
        in if user_first then [u, n] else [n, u])))"

definition ValidatePartial :: "Config \<Rightarrow> goerr option" where
  "ValidatePartial c = first_error (
     check (StorageDir (VM c) = []) ''vm.storage_dir is required to locate disk images''
     # map (\<lambda>n. check (Name n \<noteq> [] \<and> \<not> MatchString nodeNamePattern (Name n))
         (Errorf ''node has an invalid name (letters, digits, dots, underscores, hyphens only): %q'' [quoted (Name n)]))
         (AllNodes c))"

section \<open>What validation guarantees\<close>

text \<open>The conditions under which a node and a configuration pass, read off the sequence of checks.\<close>

lemma list_all_Nil_Cons: "list_all p [] = True" "list_all p (x # xs) = (p x \<and> list_all p xs)"
  by simp_all

lemma node_errors_None:
  "node_errors n = None \<longleftrightarrow>
     (Name n \<noteq> [] \<longrightarrow> MatchString nodeNamePattern (Name n)) \<and>
     (IP n \<noteq> [] \<longrightarrow> valid_ipv4 (IP n)) \<and>
     (FQDN n \<noteq> [] \<longrightarrow> MatchString fqdnPattern (FQDN n)) \<and>
     (MAC n \<noteq> [] \<longrightarrow> MatchString macPattern (MAC n))"
  unfolding node_errors_def first_error_None list_all_Nil_Cons check_None by blast

lemma list_all_map_check: "list_all (\<lambda>e. e = None) (map f xs) \<longleftrightarrow> (\<forall>x \<in> set xs. f x = None)"
  by (simp add: list_all_iff)

lemmas validating = first_error_None list_all_append list_all_Nil_Cons list_all_map_check check_None

lemma Validate_topology:
  assumes "Validate b c = None"
  shows "StorageDir (VM c) \<noteq> []" "length (Masters (Nodes c)) \<ge> 3" "odd (length (Masters (Nodes c)))"
    "length (LBs (Nodes c)) \<ge> 2" "length (CMSFrontends (Nodes c)) \<ge> 1"
    "valid_ipv4 (VIP (Main_net (Network c)))"
    "n_IP (Router (Nodes c)) \<noteq> []" "n_IP (Jumpstart (Nodes c)) \<noteq> []"
  using assms unfolding Validate_def Let_def validating
  by (elim conjE; simp add: not_less odd_iff_mod_2_eq_one Suc_le_eq)+

lemma Validate_networks:
  assumes "Validate b c = None"
  shows "ParseCIDR (CIDR (Internal (Network c))) \<noteq> None" "ParseCIDR (CIDR (Main_net (Network c))) \<noteq> None"
    "hotdesk_range_error c = None"
  using assms unfolding Validate_def Let_def validating by blast+

lemma Validate_nodes:
  assumes "Validate b c = None" and "n \<in> set (AllNodes c)"
  shows "node_errors n = None" "IP n \<noteq> VIP (Main_net (Network c))"
  using assms unfolding Validate_def Let_def validating by blast+

lemma Validate_fence:
  assumes "Validate b c = None"
  shows "FenceCommand (DRBD c) = [] \<longleftrightarrow> FenceStateCommand (DRBD c) = []"
  using assms unfolding Validate_def Let_def validating by blast

lemma Validate_certificates:
  assumes "Validate b c = None" and "CertMinValidDays (PKI c) > 0" and "CertLifetimeHours (PKI c) > 0"
  shows "CertLifetimeHours (PKI c) > i64 (CertMinValidDays (PKI c) * 24)"
  using assms unfolding Validate_def Let_def validating by (meson not_le)

lemma Validate_db:
  assumes "Validate b c = None"
  shows "db_User (Database c) \<noteq> [] \<Longrightarrow> MatchString dbIdentifierPattern (db_User (Database c))"
    and "db_Name (Database c) \<noteq> [] \<Longrightarrow> MatchString dbIdentifierPattern (db_Name (Database c))"
  using assms unfolding Validate_def Let_def validating db_check_def
  by (cases b; simp add: check_def split: if_splits)+

text \<open>A configuration that passes the full validation passes the partial one.\<close>

lemma Validate_partial: "Validate b c = None \<Longrightarrow> ValidatePartial c = None"
  using Validate_topology(1) [of b c] Validate_nodes(1) [of b c]
  unfolding ValidatePartial_def validating node_errors_None by blast

end
