(* ===== verification/ConfigSample.thy ===== *)
theory ConfigSample
  imports Config
begin

text \<open>
  A small configuration that the validation accepts, with the patterns and parsers evaluated on
  its fields. The properties of the later theories are applied to it.
\<close>

section \<open>A small valid configuration\<close>

definition sample_node :: "string \<Rightarrow> string \<Rightarrow> NodeDetail" where
  "sample_node name ip = NodeDetail_zero\<lparr>n_Name := name, n_IP := ip, n_MAC := ''52:54:00:10:01:02'',
     n_RAMInstallMB := 2048, n_RAMFinalMB := 1024, n_VCPUs := 1, n_DiskGB := 8\<rparr>"

definition sample_nodes :: NodesConfig where
  "sample_nodes = \<lparr>
     Router = sample_node ''router'' ''192.168.10.1'',
     Jumpstart = sample_node ''jump'' ''192.168.10.10'',
     Masters = [sample_node ''m1'' ''192.168.10.11'', sample_node ''m2'' ''192.168.10.12'', sample_node ''m3'' ''192.168.10.16''],
     Workers = [sample_node ''w1'' ''192.168.10.13'', sample_node ''w2'' ''192.168.10.14''],
     Storage = sample_node ''st'' ''192.168.10.15'', Monitor = sample_node ''mon'' ''192.168.10.20'',
     LBs = [sample_node ''lb1'' ''192.168.20.103'', sample_node ''lb2'' ''192.168.20.104''],
     CMSFrontends = [sample_node ''cms1'' ''192.168.20.101'', sample_node ''cms2'' ''192.168.20.102''],
     Hotdesks = \<lparr>hd_Count = 1, hd_Max = 8, hd_RAMInstallMB = 2048, hd_RAMFinalMB = 1024, hd_VCPUs = 1, hd_DiskGB = 5, BaseIPOctet = 201\<rparr>\<rparr>"

definition sample_config :: Config where
  "sample_config = \<lparr>
     VM = \<lparr>StorageDir = ''/vm'', LibvirtURI = ''qemu:///system''\<rparr>,
     SSH = \<lparr>ssh_User = ''ubuntu'', KnownHostsFile = [], PrivateKey = ''/key'', ConnectTimeout = 10\<rparr>,
     Network = \<lparr>
       Internal = \<lparr>CIDR = ''192.168.10.0/24'', Gateway = ''192.168.10.1'', net_Domain = [], Bridge = ''virbr-int'', VIP = []\<rparr>,
       Main_net = \<lparr>CIDR = ''192.168.20.0/24'', Gateway = ''192.168.20.1'', net_Domain = [], Bridge = ''virbr-main'', VIP = ''192.168.20.100''\<rparr>\<rparr>,
     Nodes = sample_nodes,
     Database = \<lparr>db_Name = ''wp'', db_User = ''wp_user'', db_Password = [], RootPassword = [], ExporterPassword = [], db_Port = 3306\<rparr>,
     AdminPassword = [],
     Exporters = \<lparr>NginxVersion = [], ApacheVersion = [], MysqldVersion = []\<rparr>,
     PKI = \<lparr>CAPort = 9000, ProvisionerPassword = [], StepVersion = [], StepCAVersion = [], pki_Domain = [], CAName = [],
            CertDNSNames = [''cms.local''], CertMinValidDays = 30, CertLifetimeHours = 2160\<rparr>,
     Deploy = \<lparr>SSHTimeout = 0, StaggerDelay = 0\<rparr>,
     DRBD = \<lparr>Fencing = True, FenceCommand = [], FenceStateCommand = []\<rparr>,
     Backup = \<lparr>Engine = ''garage'', GarageVersion = [], DataDir = [], S3Port = 3900, S3Region = [], Bucket = [], AccessKey = [],
               SecretKey = [], RetentionDays = 7, Schedule = ''0 2 * * *'', RestoreTestSchedule = []\<rparr>,
     Traffic = \<lparr>K6Version = ''0.55.0'', PrometheusRWURL = ''http://192.168.10.20:9090/api/v1/write'', VHost = []\<rparr>\<rparr>"

lemmas sample_defs = sample_config_def sample_nodes_def sample_node_def NodeDetail_zero_def

lemma sample_nodes_all:
  "AllNodes sample_config = map (\<lambda>(n, ip, m). \<lparr>Name = n, IP = ip, FQDN = (if n = ''main-hotdesk1'' then ''main-hotdesk1.main.local'' else []),
      MAC = m, RAMInstallMB = 2048, RAMFinalMB = 1024, VCPUs = 1, DiskGB = (if n = ''main-hotdesk1'' then 5 else 8)\<rparr>)
   [(''router'', ''192.168.10.1'', ''52:54:00:10:01:02''), (''jump'', ''192.168.10.10'', ''52:54:00:10:01:02''),
    (''m1'', ''192.168.10.11'', ''52:54:00:10:01:02''), (''m2'', ''192.168.10.12'', ''52:54:00:10:01:02''),
    (''m3'', ''192.168.10.16'', ''52:54:00:10:01:02''), (''w1'', ''192.168.10.13'', ''52:54:00:10:01:02''),
    (''w2'', ''192.168.10.14'', ''52:54:00:10:01:02''), (''st'', ''192.168.10.15'', ''52:54:00:10:01:02''),
    (''mon'', ''192.168.10.20'', ''52:54:00:10:01:02''), (''lb1'', ''192.168.20.103'', ''52:54:00:10:01:02''),
    (''lb2'', ''192.168.20.104'', ''52:54:00:10:01:02''), (''cms1'', ''192.168.20.101'', ''52:54:00:10:01:02''),
    (''cms2'', ''192.168.20.102'', ''52:54:00:10:01:02''), (''main-hotdesk1'', ''192.168.20.201'', ''52:54:00:10:02:c9'')]"
  by (simp add: sample_defs AllNodes_def InternalNodes_def MainNodes_def toSpec_def HotdeskSpecs_def hotdesk_spec_def
      hotdesk_octet_def PrefixFromCIDR_def Split_def HasPrefix_def Sprintf_def is_letter_def hex02_def hex_digits.simps
      hex_digit_def itoa_def nat_digits.simps Let_def char_of_eq_iff take_bit_eq_mod)

text \<open>Each pattern and each parser on the strings of the sample, then the checks.\<close>

lemma sample_matches:
  "\<forall>x \<in> {''router'', ''jump'', ''m1'', ''m2'', ''m3'', ''w1'', ''w2'', ''st'', ''mon'', ''lb1'', ''lb2'', ''cms1'', ''cms2'',
     ''main-hotdesk1''}. MatchString nodeNamePattern x"
  "\<forall>x \<in> {''52:54:00:10:01:02'', ''52:54:00:10:02:c9''}. MatchString macPattern x"
  "\<forall>x \<in> {''wp'', ''wp_user''}. MatchString dbIdentifierPattern x"
  "MatchString validUnixUser ''ubuntu''" "MatchString cronPattern ''0 2 * * *''"
  unfolding nodeName_iff dbIdentifier_iff unixUser_iff cron_iff
  by (simp_all add: macPattern_def regex_eval)

lemma sample_labels: "\<forall>x \<in> {''main-hotdesk1'', ''main'', ''local'', ''cms''}. in_lang x dnsLabel"
  by (simp add: dnsLabel_iff label_char_def is_alnum_def is_lower_def is_upper_def is_dig_def in_range_def)

lemma sample_names:
  "MatchString fqdnPattern ''main-hotdesk1.main.local''" "MatchString fqdnPattern ''cms.local''"
  using sample_labels fqdn_dot [of "''main-hotdesk1''" "''main.local''"] fqdn_dot [of "''main''" "''local''"]
    fqdn_dot [of "''cms''" "''local''"] fqdn_label [of "''local''"]
  by (simp_all add: MatchString_iff)

lemma sample_addresses:
  "\<forall>x \<in> {''192.168.10.1'', ''192.168.10.10'', ''192.168.10.11'', ''192.168.10.12'', ''192.168.10.16'', ''192.168.10.13'',
     ''192.168.10.14'', ''192.168.10.15'', ''192.168.10.20'', ''192.168.20.103'', ''192.168.20.104'', ''192.168.20.101'',
     ''192.168.20.102'', ''192.168.20.201'', ''192.168.20.100''}. valid_ipv4 x"
  "ParseCIDR ''192.168.10.0/24'' = Some (V4 [192, 168, 10, 0])"
  "ParseCIDR ''192.168.20.0/24'' = Some (V4 [192, 168, 20, 0])"
  by (simp_all add: net_eval)

lemma sample_url: "url_Parse ''http://192.168.10.20:9090/api/v1/write'' = Some (''http'', ''192.168.10.20:9090'')"
  by (simp add: url_Parse_def before_def url_host_ok_def last_index_def valid_opt_port_def host_unescapes_def
      host_char_def is_letter_def is_digit_def HasPrefix_def ToLower_def lower_char_def Let_def regex_eval)

lemma sample_config_valid: "Validate True sample_config = None"
  unfolding Validate_def Let_def validating sample_nodes_all
  by (simp add: sample_defs node_errors_def check_def hotdesk_range_error_def db_check_def prometheus_url_bad_def
      sample_matches sample_names sample_addresses sample_url TrimSpace_id is_space_def)

end
