(* ===== verification/ConfigProps.thy ===== *)
theory ConfigProps
  imports ConfigSample
begin

text \<open>
  Properties of the configuration: what an accepted configuration guarantees to the phases that
  use it. The node fields end up in shell commands, libvirt XML and generated files; the topology
  decides whether the cluster survives a failure.
\<close>

section \<open>Characters of the node fields\<close>

definition shell_safe :: "char \<Rightarrow> bool" where
  "shell_safe c \<longleftrightarrow> is_alnum c \<or> c \<in> set ''._:-''"

lemma alnum_safe [simp]: "is_alnum c \<Longrightarrow> shell_safe c"
  by (simp add: shell_safe_def)

lemma is_dig_iff: "is_dig c \<longleftrightarrow> is_digit c"
  by (simp add: is_dig_def in_range_def is_digit_def)

lemma hexd_safe [simp]: "is_hexd c \<Longrightarrow> shell_safe c" "is_digit c \<Longrightarrow> shell_safe c"
  by (auto simp: shell_safe_def is_hexd_def is_alnum_def is_lower_def is_upper_def is_dig_iff in_range_def)

lemma set_Join: "set (Join xs sep) \<subseteq> \<Union> (set (map set xs)) \<union> set sep"
  by (induction xs sep rule: Join.induct) auto

lemma parseIPv4_safe: "parseIPv4 s = Some bs \<Longrightarrow> \<forall>c \<in> set s. shell_safe c"
proof -
  assume "parseIPv4 s = Some bs"
  then have "list_all octet_ok (Split s ''.'')"
    by (auto simp: parseIPv4_def Let_def split: if_splits)
  then have "\<forall>f \<in> set (Split s ''.''). \<forall>c \<in> set f. shell_safe c"
    by (auto simp: list_all_iff octet_ok_def)
  moreover have "shell_safe (CHR ''.'')" by (simp add: shell_safe_def)
  ultimately show ?thesis using set_Join [of "Split s ''.''" "''.''"] by auto
qed

lemma ipv6_loop_safe:
  "ipv6_loop n bs ell s = Some (bs', ell', r) \<Longrightarrow> c \<in> set s \<Longrightarrow> shell_safe c \<or> c \<in> set r"
proof (induction n bs ell s rule: ipv6_loop.induct)
  case (2 n bs ell s)
  let ?h = "takeWhile is_hexd s" and ?r = "dropWhile is_hexd s"
  have colon: "shell_safe (CHR '':'')" by (simp add: shell_safe_def)
  have "c \<in> set ?h \<or> c \<in> set ?r"
    using "2.prems"(2) by (metis Un_iff set_append takeWhile_dropWhile_id)
  moreover have "c \<in> set ?h \<Longrightarrow> shell_safe c" by (metis hexd_safe(1) set_takeWhileD)
  moreover have "shell_safe c \<or> c \<in> set r" if c: "c \<in> set ?r"
  proof (cases "?r \<noteq> [] \<and> hd ?r = CHR ''.''")
    case True
    then have "parseIPv4 s \<noteq> None"
      using "2.prems"(1) by (auto simp: Let_def split: if_splits option.splits)
    then show ?thesis using parseIPv4_safe "2.prems"(2) by blast
  next
    case False
    note loop = "2.prems"(1)
    show ?thesis
    proof (cases ?r)
      case (Cons d r1)
      with False loop have d: "d = CHR '':''" "r1 \<noteq> []"
        by (auto simp: Let_def split: if_splits list.splits)
      then obtain e r2 where r1: "r1 = e # r2" by (cases r1) auto
      show ?thesis
      proof (cases "e = CHR '':''")
        case True
        with False loop Cons d r1 c colon show ?thesis
          using 2 by (auto simp: Let_def split: if_splits)
      next
        case False2: False
        with False loop Cons d r1 have "ipv6_loop n (bs @ [hex_num ?h div 256, hex_num ?h mod 256]) ell r1 = Some (bs', ell', r)"
          by (auto simp: Let_def split: if_splits)
        with "2.IH"(2) [OF refl refl _ False refl Cons] False2 Cons d r1 c colon loop show ?thesis
          by (auto simp: Let_def split: if_splits)
      qed
    next
      case Nil
      from c have "c \<in> set []" unfolding Nil .
      then show ?thesis by simp
    qed
  qed
  ultimately show ?case by blast
qed simp

lemma parseIPv6_safe: "parseIPv6 s = Some bs \<Longrightarrow> \<forall>c \<in> set s. shell_safe c"
proof
  fix c assume s: "parseIPv6 s = Some bs" and c: "c \<in> set s"
  have colon: "shell_safe (CHR '':'')" by (simp add: shell_safe_def)
  have fin: "shell_safe d" if "Option.bind (ipv6_loop 8 [] e t) ipv6_finish = Some bs" and d: "d \<in> set t" for e t d
  proof -
    from that obtain a b r where "ipv6_loop 8 [] e t = Some (a, b, r)" and "ipv6_finish (a, b, r) = Some bs"
      by (cases "ipv6_loop 8 [] e t") auto
    moreover from this have "r = []" by (auto simp: ipv6_finish_def split: if_splits)
    ultimately show ?thesis using ipv6_loop_safe [OF _ d] by fastforce
  qed
  show "shell_safe c"
  proof (cases "HasPrefix s ''::''")
    case True
    then have "s = ''::'' @ drop 2 s" by (auto simp: HasPrefix_iff prefix_def)
    then have "c = CHR '':'' \<or> c \<in> set (drop 2 s)" using c by (metis Un_iff empty_iff insert_iff list.set set_append)
    moreover have "c \<in> set (drop 2 s) \<Longrightarrow> shell_safe c"
      using s True fin by (auto simp: parseIPv6_def split: if_splits)
    ultimately show ?thesis using colon by blast
  next
    case False
    then show ?thesis using s fin c by (auto simp: parseIPv6_def split: if_splits)
  qed
qed

lemma valid_ipv4_safe: "valid_ipv4 s \<Longrightarrow> \<forall>c \<in> set s. shell_safe c"
  using parseIPv4_safe parseIPv6_safe
  by (auto simp: valid_ipv4_def ParseAddr_def split: option.splits if_splits)

lemma accepts_RUpto_iff: "accepts (RUpto n r) c \<longleftrightarrow> n > 0 \<and> accepts r c"
  by (induction n) auto

lemma accepts_RTimes_iff: "accepts (RTimes n r) c \<longleftrightarrow> n > 0 \<and> accepts r c"
  by (induction n) auto

lemma pattern_accepts_safe:
  "accepts nodeNamePattern c \<Longrightarrow> shell_safe c"
  "accepts fqdnPattern c \<Longrightarrow> shell_safe c"
  "accepts macPattern c \<Longrightarrow> shell_safe c"
  by (auto simp: nodeNamePattern_def fqdnPattern_def dnsLabel_def macPattern_def accepts_RUpto_iff
      accepts_RTimes_iff shell_safe_def [of "CHR ''.''"] shell_safe_def [of "CHR ''_''"]
      shell_safe_def [of "CHR ''-''"] shell_safe_def [of "CHR '':''"])

lemma pattern_safe:
  "MatchString nodeNamePattern s \<Longrightarrow> \<forall>c \<in> set s. shell_safe c"
  "MatchString fqdnPattern s \<Longrightarrow> \<forall>c \<in> set s. shell_safe c"
  "MatchString macPattern s \<Longrightarrow> \<forall>c \<in> set s. shell_safe c"
  using MatchString_accepts pattern_accepts_safe by blast+



section \<open>Topology\<close>



section \<open>Hotdesks\<close>

lemma append_itoa_inj: "s @ itoa i @ t = s @ itoa j @ t \<longleftrightarrow> i = j"
  by simp

lemma hotdesk_name: "Name (hotdesk_spec c pre i) = ''main-hotdesk'' @ itoa i"
  by (simp add: hotdesk_spec_def Let_def Sprintf_def is_letter_def)

lemma hotdesk_ip: "IP (hotdesk_spec c pre i) = pre @ itoa (hotdesk_octet c i)"
  by (simp add: hotdesk_spec_def Let_def)

lemma hotdesk_octet_range:
  assumes "hotdesk_range_error c = None" and "BaseIPOctet (Hotdesks (Nodes c)) \<in> {0..2 ^ 31}"
    and "1 \<le> i" "i \<le> hd_Count (Hotdesks (Nodes c))" "hd_Count (Hotdesks (Nodes c)) < 2 ^ 31"
  shows "hotdesk_octet c i \<in> {1..254}"
    and "\<exists>base. \<forall>j \<in> {1..hd_Count (Hotdesks (Nodes c))}. hotdesk_octet c j = base + j"
proof -
  let ?h = "Hotdesks (Nodes c)"
  obtain base where base: "base = (if BaseIPOctet ?h = 0 \<or> BaseIPOctet ?h = 201 then 201 else BaseIPOctet ?h)"
    by blast
  have b: "1 \<le> base" "base \<le> 2 ^ 31" using assms(2) by (auto simp: base)
  have oct: "hotdesk_octet c j = base + j - 1" if "1 \<le> j" "j \<le> hd_Count ?h" for j
    using that assms(2,5) b by (auto simp: hotdesk_octet_def Let_def base)
  have "base + hd_Count ?h - 1 \<le> 254"
    using assms b by (simp add: hotdesk_range_error_def Let_def base [symmetric])
  with oct [of i] assms b show "hotdesk_octet c i \<in> {1..254}" by simp
  show "\<exists>base. \<forall>j \<in> {1..hd_Count ?h}. hotdesk_octet c j = base + j"
    using oct by (intro exI [of _ "base - 1"]) auto
qed



section \<open>The node list\<close>

lemma MainNodes_names:
  "map Name (MainNodes c) = (if IPMain (Jumpstart (Nodes c)) \<noteq> [] then [n_Name (Jumpstart (Nodes c))] else [])
     @ map n_Name (LBs (Nodes c)) @ map n_Name (CMSFrontends (Nodes c)) @ map Name (HotdeskSpecs c)"
  by (simp add: MainNodes_def Let_def toSpec_def)

lemma InternalNodes_names:
  "map Name (InternalNodes c) = n_Name (Router (Nodes c)) # n_Name (Jumpstart (Nodes c)) #
     map n_Name (Masters (Nodes c)) @ map n_Name (Workers (Nodes c)) @ [n_Name (Storage (Nodes c)), n_Name (Monitor (Nodes c))]"
  by (simp add: InternalNodes_def Let_def toSpec_def)

lemma map_filter_name: "map Name (filter (\<lambda>n. Name n \<noteq> j) xs) = filter (\<lambda>x. x \<noteq> j) (map Name xs)"
  by (simp add: filter_map o_def)

text \<open>When no balancer, frontend or desktop has the jumpstart's name, the flat node list names the
  router, the jumpstart, the masters, the workers, storage, the monitor, the balancers, the
  frontends and the desktops, in this order and each once, although the jumpstart is attached to
  both networks.\<close>

theorem AllNodes_names:
  assumes "n_Name (Jumpstart (Nodes c)) \<notin> n_Name ` set (LBs (Nodes c) @ CMSFrontends (Nodes c)) \<union> Name ` set (HotdeskSpecs c)"
  shows "map Name (AllNodes c) = [n_Name (Router (Nodes c)), n_Name (Jumpstart (Nodes c))]
     @ map n_Name (Masters (Nodes c)) @ map n_Name (Workers (Nodes c)) @ [n_Name (Storage (Nodes c)), n_Name (Monitor (Nodes c))]
     @ map n_Name (LBs (Nodes c)) @ map n_Name (CMSFrontends (Nodes c)) @ map Name (HotdeskSpecs c)"
proof -
  let ?j = "n_Name (Jumpstart (Nodes c))"
  have "filter (\<lambda>x. x \<noteq> ?j) (map n_Name (LBs (Nodes c)) @ map n_Name (CMSFrontends (Nodes c)) @ map Name (HotdeskSpecs c))
      = map n_Name (LBs (Nodes c)) @ map n_Name (CMSFrontends (Nodes c)) @ map Name (HotdeskSpecs c)"
    unfolding filter_id_conv using assms by auto
  then show ?thesis
    unfolding AllNodes_def map_append InternalNodes_names map_filter_name MainNodes_names by simp
qed

theorem AllNodes_names_witness:
  "n_Name (Jumpstart (Nodes sample_config)) = ''jump'' \<and>
   take 3 (map Name (AllNodes sample_config)) = [''router'', ''jump'', ''m1'']"
proof -
  have "Name ` set (HotdeskSpecs sample_config) = {''main-hotdesk1''}"
    by (simp add: HotdeskSpecs_def Let_def sample_config_def sample_nodes_def hotdesk_name itoa_def
        nat_digits.simps char_of_eq_iff take_bit_eq_mod)
  then have "n_Name (Jumpstart (Nodes sample_config)) \<notin> n_Name ` set (LBs (Nodes sample_config)
      @ CMSFrontends (Nodes sample_config)) \<union> Name ` set (HotdeskSpecs sample_config)"
    by (simp add: sample_defs)
  from AllNodes_names [OF this] show ?thesis by (simp add: sample_defs)
qed

end
