(* ===== verification/Base64.thy ===== *)
theory Base64
  imports Prelude
begin

text \<open>
  \<open>base64.StdEncoding\<close>, the text form of an encrypted value: three bytes are four letters, a short
  last group is padded, decoding skips line breaks and rejects everything else. Decoding undoes
  encoding.
\<close>

definition b64_char :: "nat \<Rightarrow> char" where
  "b64_char n = (if n < 26 then char_of (65 + n) else if n < 52 then char_of (71 + n)
     else if n < 62 then char_of (n - 4) else if n = 62 then CHR ''+'' else CHR ''/'')"

definition b64_val :: "char \<Rightarrow> nat option" where
  "b64_val c = (let n = of_char c in
     if 65 \<le> n \<and> n \<le> 90 then Some (n - 65)
     else if 97 \<le> n \<and> n \<le> 122 then Some (n - 71)
     else if 48 \<le> n \<and> n \<le> 57 then Some (n + 4)
     else if n = 43 then Some 62 else if n = 47 then Some 63 else None)"

abbreviation pad :: char where
  "pad \<equiv> CHR ''=''"

fun EncodeToString :: "string \<Rightarrow> string" where
  "EncodeToString [] = []"
| "EncodeToString [a] = (let x = of_char a in
     [b64_char (x div 4), b64_char (x mod 4 * 16), pad, pad])"
| "EncodeToString [a, b] = (let x = of_char a; y = of_char b in
     [b64_char (x div 4), b64_char (x mod 4 * 16 + y div 16), b64_char (y mod 16 * 4), pad])"
| "EncodeToString (a # b # c # s) = (let x = of_char a; y = of_char b; z = of_char c in
     b64_char (x div 4) # b64_char (x mod 4 * 16 + y div 16) # b64_char (y mod 16 * 4 + z div 64) #
     b64_char (z mod 64) # EncodeToString s)"

fun decode_groups :: "string \<Rightarrow> string option" where
  "decode_groups [] = Some []"
| "decode_groups (a # b # c # d # s) =
     (case (b64_val a, b64_val b) of
        (Some x, Some y) \<Rightarrow>
          if c = pad then (if d = pad \<and> s = [] then Some [char_of (x * 4 + y div 16)] else None)
          else (case b64_val c of
             None \<Rightarrow> None
           | Some z \<Rightarrow>
               if d = pad then
                 (if s = [] then Some [char_of (x * 4 + y div 16), char_of (y mod 16 * 16 + z div 4)] else None)
               else (case b64_val d of
                  None \<Rightarrow> None
                | Some u \<Rightarrow> map_option (\<lambda>r. char_of (x * 4 + y div 16) # char_of (y mod 16 * 16 + z div 4) #
                    char_of (z mod 4 * 64 + u) # r) (decode_groups s)))
      | _ \<Rightarrow> None)"
| "decode_groups s = None"

definition DecodeString :: "string \<Rightarrow> goerr + string" where
  "DecodeString s = (case decode_groups (filter (\<lambda>c. c \<noteq> nl \<and> c \<noteq> CHR 0x0D) s) of
      None \<Rightarrow> Inl ''illegal base64 data''
    | Some d \<Rightarrow> Inr d)"

lemma b64_char_code: "n < 64 \<Longrightarrow> of_char (b64_char n) =
    (if n < 26 then 65 + n else if n < 52 then 71 + n else if n < 62 then n - 4 else if n = 62 then 43 else 47)"
  by (simp add: b64_char_def)

lemma b64_val_char [simp]: "n < 64 \<Longrightarrow> b64_val (b64_char n) = Some n"
proof -
  assume n: "n < 64"
  then consider "n < 26" | "26 \<le> n" "n < 52" | "52 \<le> n" "n < 62" | "n = 62" | "n = 63" by linarith
  then show ?thesis
    using b64_char_code [OF n] by cases (auto simp: b64_val_def Let_def)
qed

lemma b64_char_neq:
  assumes "n < 64" and "of_char c \<notin> insert 43 (insert 47 ({48..57} \<union> {65..90} \<union> {97..122 :: nat}))"
  shows "b64_char n \<noteq> c"
proof -
  consider "n < 26" | "26 \<le> n" "n < 52" | "52 \<le> n" "n < 62" | "n = 62" | "n = 63" using assms(1) by linarith
  then have "of_char (b64_char n) \<in> insert 43 (insert 47 ({48..57} \<union> {65..90} \<union> {97..122 :: nat}))"
    using b64_char_code [OF assms(1)] by cases auto
  with assms(2) show ?thesis by blast
qed

lemma b64_char_plain [simp]:
  "n < 64 \<Longrightarrow> b64_char n \<noteq> pad" "n < 64 \<Longrightarrow> b64_char n \<noteq> nl" "n < 64 \<Longrightarrow> b64_char n \<noteq> CHR 0x0D"
  by (rule b64_char_neq; simp)+

lemma of_char_256: "(of_char c :: nat) < 256"
  by (rule nat_of_char_less_256)

lemma sextet_bounds [simp]:
  "(of_char a :: nat) div 4 < 64" "x mod 4 * 16 < (64 :: nat)" "x mod 4 * 16 + (of_char b :: nat) div 16 < 64"
  "x mod 16 * 4 < (64 :: nat)" "x mod 16 * 4 + (of_char b :: nat) div 64 < 64"
proof -
  have *: "(of_char c :: nat) \<le> 255" for c using of_char_256 [of c] by linarith
  show "(of_char a :: nat) div 4 < 64" using * [of a] by linarith
  show "x mod 4 * 16 < (64 :: nat)" by linarith
  show "x mod 4 * 16 + (of_char b :: nat) div 16 < 64" using * [of b] by linarith
  show "x mod 16 * 4 < (64 :: nat)" by linarith
  show "x mod 16 * 4 + (of_char b :: nat) div 64 < 64" using * [of b] by linarith
qed

lemma regroup:
  "(x :: nat) div 4 * 4 + (x mod 4 * 16 + (of_char b :: nat) div 16) div 16 = x"
  "(y mod 4 * 16 + (of_char b :: nat) div 16) mod 16 * 16 + (of_char b mod 16 * 4 + (of_char c :: nat) div 64) div 4 = of_char b"
  "(y' mod 16 * 4 + (of_char c :: nat) div 64) mod 4 * 64 + (of_char c :: nat) mod 64 = of_char c"
proof -
  have *: "(of_char d :: nat) div 16 < 16" "(of_char d :: nat) div 64 < 4" for d
    using of_char_256 [of d] by linarith+
  show "(x :: nat) div 4 * 4 + (x mod 4 * 16 + (of_char b :: nat) div 16) div 16 = x" using * by simp
  show "(y mod 4 * 16 + (of_char b :: nat) div 16) mod 16 * 16 + (of_char b mod 16 * 4 + (of_char c :: nat) div 64) div 4 = of_char b"
    using *(1) [of b] *(2) [of c] by (simp add: mod_add_left_eq [symmetric] div_mult_mod_eq)
  show "(y' mod 16 * 4 + (of_char c :: nat) div 64) mod 4 * 64 + (of_char c :: nat) mod 64 = of_char c"
    using *(2) [of c] by (simp add: div_mult_mod_eq)
qed

lemma decode_groups_encode: "decode_groups (EncodeToString s) = Some s"
proof (induction s rule: EncodeToString.induct)
  case (2 a)
  show ?case by (simp add: Let_def)
next
  case (3 a b)
  show ?case using regroup(1) [of "of_char a" b] regroup(2) [of "of_char a" b "CHR 0x00"]
    by (simp add: Let_def)
next
  case (4 a b c s)
  then show ?case using regroup(1) [of "of_char a" b] regroup(2) [of "of_char a" b c] regroup(3) [of "of_char b" c]
    by (simp add: Let_def)
qed simp

lemma encode_no_break: "\<forall>c \<in> set (EncodeToString s). c \<noteq> nl \<and> c \<noteq> CHR 0x0D"
  by (induction s rule: EncodeToString.induct) (simp_all add: Let_def)

lemma DecodeString_encode [simp]: "DecodeString (EncodeToString s) = Inr s"
  using encode_no_break [of s] by (simp add: DecodeString_def filter_id_conv [THEN iffD2] decode_groups_encode)

end
