(* ===== verification/Secrets.thy ===== *)
theory Secrets
  imports Config Base64
begin

text \<open>
  \<open>internal/config/secrets.go\<close> and the loading half of \<open>internal/config/config.go\<close>: which fields are
  secrets, how they are found and encrypted in the YAML tree, how the encrypted file replaces the
  plain one, where the private key lives and how an old key is migrated, and how a configuration is
  loaded and decrypted.

  The packages \<open>filippo.io/age\<close> and \<open>gopkg.in/yaml.v3\<close> are not part of the repository: they are the
  records \<open>age_lib\<close> and \<open>yaml_lib\<close> of their functions. \<open>age_laws\<close> and \<open>yaml_laws\<close> state the documented behaviour that
  proofs rely on.
\<close>

section \<open>The libraries\<close>

datatype ykind = ZeroNode | DocumentNode | SequenceNode | MappingNode | ScalarNode | AliasNode

text \<open>The fields of \<open>yaml.Node\<close> that the program looks at. The content of a mapping alternates keys and
  values.\<close>

datatype ynode = Node (Kind: ykind) (Value: string) (Content: "ynode list")

record ('i, 'r) age_lib =
  GenerateX25519Identity :: "nat \<Rightarrow> goerr + 'i"
  ParseX25519Identity :: "string \<Rightarrow> goerr + 'i"
  ParseX25519Recipient :: "string \<Rightarrow> goerr + 'r"
  Recipient :: "'i \<Rightarrow> 'r"
  identity_String :: "'i \<Rightarrow> string"
  recipient_String :: "'r \<Rightarrow> string"
  age_Encrypt :: "'r \<Rightarrow> nat \<Rightarrow> nat \<Rightarrow> string \<Rightarrow> goerr + string"
  age_Decrypt :: "'i \<Rightarrow> string \<Rightarrow> goerr + string \<times> goerr option"

record yaml_lib =
  yaml_Node :: "string \<Rightarrow> goerr + ynode"
  yaml_Encode :: "ynode \<Rightarrow> goerr + string"
  yaml_Config :: "string \<Rightarrow> goerr + Config"

text \<open>Decryption delivers a stream of bytes, which can end in an error.

  Printed keys parse back and hold no white space; what is encrypted to a key decrypts with it. A
  tree that was encoded parses back.\<close>

definition age_laws :: "('i, 'r) age_lib \<Rightarrow> bool" where
  "age_laws A \<longleftrightarrow>
     (\<forall>i. ParseX25519Identity A (identity_String A i) = Inr i) \<and>
     (\<forall>i. list_all (\<lambda>c. \<not> is_space c) (identity_String A i)) \<and>
     (\<forall>r. ParseX25519Recipient A (recipient_String A r) = Inr r) \<and>
     (\<forall>i n k s b. age_Encrypt A (Recipient A i) n k s = Inr b \<longrightarrow> age_Decrypt A i b = Inr (s, None))"

definition yaml_laws :: "yaml_lib \<Rightarrow> bool" where
  "yaml_laws Y \<longleftrightarrow> (\<forall>t s. yaml_Encode Y t = Inr s \<longrightarrow> yaml_Node Y s = Inr t)"

section \<open>Encrypted values\<close>

definition encPrefix :: string where
  "encPrefix = ''ENC[age,''"

definition encSuffix :: string where
  "encSuffix = '']''"

definition IsEncrypted :: "string \<Rightarrow> bool" where
  "IsEncrypted v \<longleftrightarrow> HasPrefix v encPrefix \<and> HasSuffix v encSuffix"

definition maxSecretSize :: nat where
  "maxSecretSize = 64 * 1024"

text \<open>\<open>GenerateKey\<close> returns the public and the private key; the randomness is an argument here and in
  \<open>EncryptValue\<close> (a number for the process and the index of the call).\<close>

definition GenerateKey :: "('i, 'r) age_lib \<Rightarrow> nat \<Rightarrow> goerr + string \<times> string" where
  "GenerateKey A rnd = (case GenerateX25519Identity A rnd of
      Inl e \<Rightarrow> Inl (Errorf ''failed to generate identity: %w'' [e])
    | Inr i \<Rightarrow> Inr (recipient_String A (Recipient A i), identity_String A i))"

definition EncryptValue :: "('i, 'r) age_lib \<Rightarrow> nat \<Rightarrow> nat \<Rightarrow> string \<Rightarrow> string \<Rightarrow> goerr + string" where
  "EncryptValue A rnd k value publicKey = (case ParseX25519Recipient A publicKey of
      Inl e \<Rightarrow> Inl (Errorf ''invalid public key: %w'' [e])
    | Inr r \<Rightarrow> (case age_Encrypt A r rnd k value of
          Inl e \<Rightarrow> Inl (Errorf ''failed to initialize encryption: %w'' [e])
        | Inr b \<Rightarrow> Inr (encPrefix @ EncodeToString b @ encSuffix)))"

definition newDecrypter :: "('x, 'p, 'z) env_scheme \<Rightarrow> ('i, 'r) age_lib \<Rightarrow> string \<Rightarrow> ('x, 'p) world \<Rightarrow> goerr + 'i" where
  "newDecrypter E A keyPath w = (case ReadFile E (Clean (ExpandPath E keyPath)) w of
      Inl e \<Rightarrow> Inl (Errorf ''failed to read key file: %w'' [perr_msg e])
    | Inr d \<Rightarrow> (case ParseX25519Identity A (TrimSpace d) of
          Inl e \<Rightarrow> Inl (Errorf ''failed to parse identity: %w'' [e])
        | Inr i \<Rightarrow> Inr i))"

definition decrypt :: "('i, 'r) age_lib \<Rightarrow> 'i \<Rightarrow> string \<Rightarrow> goerr + string" where
  "decrypt A i encValue =
     (if \<not> IsEncrypted encValue then Inr encValue
      else case DecodeString (TrimSuffix (TrimPrefix encValue encPrefix) encSuffix) of
        Inl e \<Rightarrow> Inl (Errorf ''failed to decode base64: %w'' [e])
      | Inr b \<Rightarrow> (case age_Decrypt A i b of
            Inl e \<Rightarrow> Inl (Errorf ''failed to initialize decryption: %w'' [e])
          | Inr (s, err) \<Rightarrow>
              if err \<noteq> None \<and> length s \<le> maxSecretSize
              then Inl (Errorf ''failed to read decrypted data: %w'' [the err])
              else if length (take (maxSecretSize + 1) s) > maxSecretSize
              then Inl (Errorf ''decrypted value exceeds %d KiB limit'' [itoa (int maxSecretSize div 1024)])
              else Inr (take (maxSecretSize + 1) s)))"

definition DecryptValue :: "('x, 'p, 'z) env_scheme \<Rightarrow> ('i, 'r) age_lib \<Rightarrow> string \<Rightarrow> string \<Rightarrow> ('x, 'p) world \<Rightarrow> goerr + string" where
  "DecryptValue E A encValue keyPath w =
     (if \<not> IsEncrypted encValue then Inr encValue
      else case newDecrypter E A keyPath w of Inl e \<Rightarrow> Inl e | Inr i \<Rightarrow> decrypt A i encValue)"

section \<open>Secrets in the tree\<close>

definition isSecretField :: "string \<Rightarrow> bool" where
  "isSecretField name \<longleftrightarrow> name \<in> {''password'', ''root_password'', ''exporter_password'', ''admin_password'',
     ''provisioner_password'', ''secret_key''}"

text \<open>
  \<open>processYAMLNode\<close> rewrites the scalar secrets; the counter numbers the calls of \<open>process\<close>. A mapping with
  an odd number of nodes would be an index out of range.
\<close>

type_synonym process = "string \<Rightarrow> nat \<Rightarrow> (goerr + string) \<times> nat"

fun processYAMLNode :: "process \<Rightarrow> ynode \<Rightarrow> nat \<Rightarrow> (goerr + ynode) \<times> nat"
  and process_pairs :: "process \<Rightarrow> ynode list \<Rightarrow> nat \<Rightarrow> (goerr + ynode list) \<times> nat"
  and process_children :: "process \<Rightarrow> ynode list \<Rightarrow> nat \<Rightarrow> (goerr + ynode list) \<times> nat"
where
  "processYAMLNode f (Node k v cs) n =
     (case (if k = MappingNode then process_pairs f cs n
            else if k = SequenceNode \<or> k = DocumentNode then process_children f cs n
            else (Inr cs, n)) of
        (Inl e, n') \<Rightarrow> (Inl e, n')
      | (Inr cs', n') \<Rightarrow> (Inr (Node k v cs'), n'))"
| "process_pairs f [] n = (Inr [], n)"
| "process_pairs f [key] n = (Inl ''runtime error: index out of range'', n)"
| "process_pairs f (key # val # rest) n =
     (case (if isSecretField (Value key) then
              (if Kind val = ScalarNode then
                 (case f (Value val) n of
                    (Inl e, n') \<Rightarrow> (Inl e, n')
                  | (Inr v', n') \<Rightarrow> (Inr (Node ScalarNode v' (Content val)), n'))
               else (Inr val, n))
            else processYAMLNode f val n) of
        (Inl e, n1) \<Rightarrow> (Inl e, n1)
      | (Inr val', n1) \<Rightarrow>
          (case process_pairs f rest n1 of
             (Inl e, n2) \<Rightarrow> (Inl e, n2)
           | (Inr rest', n2) \<Rightarrow> (Inr (key # val' # rest'), n2)))"
| "process_children f [] n = (Inr [], n)"
| "process_children f (c # cs) n =
     (case processYAMLNode f c n of
        (Inl e, n1) \<Rightarrow> (Inl e, n1)
      | (Inr c', n1) \<Rightarrow>
          (case process_children f cs n1 of
             (Inl e, n2) \<Rightarrow> (Inl e, n2)
           | (Inr cs', n2) \<Rightarrow> (Inr (c' # cs'), n2)))"

definition plain_secret :: "string \<Rightarrow> bool" where
  "plain_secret v \<longleftrightarrow> TrimSpace v \<noteq> [] \<and> \<not> IsEncrypted v"

fun hasPlaintextSecrets :: "ynode \<Rightarrow> bool"
  and plain_pairs :: "ynode list \<Rightarrow> bool"
  and plain_children :: "ynode list \<Rightarrow> bool"
where
  "hasPlaintextSecrets (Node k v cs) =
     (if k = MappingNode then plain_pairs cs
      else if k = SequenceNode \<or> k = DocumentNode then plain_children cs
      else False)"
| "plain_pairs (key # val # rest) =
     ((isSecretField (Value key) \<and> Kind val = ScalarNode \<and> plain_secret (Value val))
      \<or> hasPlaintextSecrets val \<or> plain_pairs rest)"
| "plain_pairs _ = False"
| "plain_children [] = False"
| "plain_children (c # cs) = (hasPlaintextSecrets c \<or> plain_children cs)"

text \<open>The function that \<open>EncryptConfig\<close> passes to \<open>processYAMLNode\<close>.\<close>

definition encrypt_secret :: "('i, 'r) age_lib \<Rightarrow> nat \<Rightarrow> string \<Rightarrow> process" where
  "encrypt_secret A rnd publicKey s k =
     (if TrimSpace s = [] then (Inr s, k)
      else if IsEncrypted s then (Inr s, k)
      else (EncryptValue A rnd k s publicKey, Suc k))"

section \<open>Encrypting the configuration file\<close>

text \<open>\<open>filepath.EvalSymlinks\<close> of an existing file, for the case that the path is a link.\<close>

definition config_target :: "('x, 'p, 'z) env_scheme \<Rightarrow> string \<Rightarrow> ('x, 'p) world \<Rightarrow> string" where
  "config_target E p w = (case Lstat E p w of
      Inr (Symlink t) \<Rightarrow> (case resolve (w_fs w) p of
          Some q \<Rightarrow> if w_fs w q \<noteq> None then q else p
        | None \<Rightarrow> p)
    | _ \<Rightarrow> p)"

text \<open>
  Opening, writing, syncing and closing the temporary file is one \<^const>\<open>WriteFile\<close> of the world; a
  fault tells how far it got: the file was not opened, or so many bytes were written, or the sync, or the
  close failed.
\<close>

definition open_failed :: "('x, 'p, 'z) env_scheme \<Rightarrow> fsop \<Rightarrow> ('x, 'p) world \<Rightarrow> bool" where
  "open_failed E op w = (case e_fault E op w of Some (e, Some n) \<Rightarrow> False | _ \<Rightarrow> True)"

definition write_stage :: "('x, 'p, 'z) env_scheme \<Rightarrow> fsop \<Rightarrow> nat \<Rightarrow> ('x, 'p) world \<Rightarrow> string" where
  "write_stage E op len w = (case e_fault E op w of
      Some (e, Some n) \<Rightarrow> if n < len then ''write'' else if n = len then ''flush'' else ''close''
    | _ \<Rightarrow> ''write'')"

definition tmp_path :: "string \<Rightarrow> string" where
  "tmp_path target = target @ ''.tmp''"

text \<open>The new text of the file, and how it replaces the old one.\<close>

definition encrypted_text :: "('i, 'r) age_lib \<Rightarrow> yaml_lib \<Rightarrow> nat \<Rightarrow> string \<Rightarrow> string \<Rightarrow> goerr + string" where
  "encrypted_text A Y rnd publicKey data = (case yaml_Node Y data of
      Inl e \<Rightarrow> Inl (Errorf ''failed to parse yaml: %w'' [e])
    | Inr root \<Rightarrow> (case fst (processYAMLNode (encrypt_secret A rnd publicKey) root 0) of
          Inl e \<Rightarrow> Inl e
        | Inr root' \<Rightarrow> (case yaml_Encode Y root' of
              Inl e \<Rightarrow> Inl (Errorf ''failed to encode yaml: %w'' [e])
            | Inr out \<Rightarrow> Inr out)))"

definition replace_config :: "('x, 'p, 'z) env_scheme \<Rightarrow> string \<Rightarrow> string \<Rightarrow> ('x, 'p) world \<Rightarrow> goerr option \<times> ('x, 'p) world" where
  "replace_config E target out w = (let tmp = tmp_path target; op = WriteFile tmp out 384 in
     case do_op E op w of
       (Some e, w1) \<Rightarrow>
         if open_failed E op w then (Some (Errorf ''failed to write temporary config: %w'' [perr_msg e]), w1)
         else (Some (Errorf ''failed to %s temporary config: %w'' [write_stage E op (length out) w, perr_msg e]),
               snd (do_op E (Remove tmp) w1))
     | (None, w1) \<Rightarrow> (case do_op E (Rename tmp target) w1 of
           (Some e, w2) \<Rightarrow> (Some (Errorf ''failed to replace config: %w'' [perr_msg e]), snd (do_op E (Remove tmp) w2))
         | (None, w2) \<Rightarrow> (None, w2)))"

definition EncryptConfig :: "('x, 'p, 'z) env_scheme \<Rightarrow> ('i, 'r) age_lib \<Rightarrow> yaml_lib \<Rightarrow> string \<Rightarrow> string
    \<Rightarrow> ('x, 'p) world \<Rightarrow> goerr option \<times> ('x, 'p) world" where
  "EncryptConfig E A Y configPath publicKey w = (let p = Clean (ExpandPath E configPath) in
     case ReadFile E p w of
       Inl e \<Rightarrow> (Some (Errorf ''failed to read config: %w'' [perr_msg e]), w)
     | Inr data \<Rightarrow> (case encrypted_text A Y (e_rand E w) publicKey data of
           Inl e \<Rightarrow> (Some e, w)
         | Inr out \<Rightarrow> replace_config E (config_target E p w) out w))"

section \<open>Loading\<close>

text \<open>\<open>strconv.Atoi\<close> on 64 bits.\<close>

definition Atoi :: "string \<Rightarrow> int option" where
  "Atoi s = (let neg = HasPrefix s ''-''; d = (if neg \<or> HasPrefix s ''+'' then drop 1 s else s);
       v = (if neg then - int (dec_val d) else int (dec_val d))
     in if d \<noteq> [] \<and> list_all is_digit d \<and> - (2 ^ 63) \<le> v \<and> v < 2 ^ 63 then Some v else None)"

definition hotdesk_override :: "('x, 'p, 'z) env_scheme \<Rightarrow> Config \<Rightarrow> Config" where
  "hotdesk_override E c = (let v = e_getenv E ''NUM_HOTDESKS'' in
     if v = [] then c
     else case Atoi v of
        Some n \<Rightarrow> if n > 0 then c\<lparr>Nodes := Nodes c\<lparr>Hotdesks := Hotdesks (Nodes c)\<lparr>hd_Count := n\<rparr>\<rparr>\<rparr> else c
      | None \<Rightarrow> c)"

definition defaultKeyPath :: "('x, 'p, 'z) env_scheme \<Rightarrow> string" where
  "defaultKeyPath E = ExpandPath E ''${HOME}/.config/cms-ha/age.key''"

definition stat_ok :: "('x, 'p, 'z) env_scheme \<Rightarrow> string \<Rightarrow> ('x, 'p) world \<Rightarrow> bool" where
  "stat_ok E p w = (case Stat E p w of Inl e \<Rightarrow> False | Inr n \<Rightarrow> True)"

definition stat_missing :: "('x, 'p, 'z) env_scheme \<Rightarrow> string \<Rightarrow> ('x, 'p) world \<Rightarrow> bool" where
  "stat_missing E p w = (case Stat E p w of Inl e \<Rightarrow> IsNotExist e | Inr n \<Rightarrow> False)"

definition resolve_key_path :: "('x, 'p, 'z) env_scheme \<Rightarrow> string \<Rightarrow> ('x, 'p) world \<Rightarrow> string" where
  "resolve_key_path E keyPath w =
     (if keyPath = [] then
        (if stat_ok E (defaultKeyPath E) w then defaultKeyPath E
         else if stat_ok E ''private.key'' w then ''private.key''
         else defaultKeyPath E)
      else ExpandPath E keyPath)"

text \<open>The six secret fields in the order of the code, as pairs of a label and a value.\<close>

definition secret_fields :: "Config \<Rightarrow> (string \<times> string) list" where
  "secret_fields c = [(''db password'', db_Password (Database c)), (''db root password'', RootPassword (Database c)),
     (''db exporter password'', ExporterPassword (Database c)), (''WordPress admin password'', AdminPassword c),
     (''pki provisioner password'', ProvisionerPassword (PKI c)), (''backup secret key'', SecretKey (Backup c))]"

definition set_secrets :: "string list \<Rightarrow> Config \<Rightarrow> Config" where
  "set_secrets vs c = c\<lparr>
     Database := Database c\<lparr>db_Password := vs ! 0, RootPassword := vs ! 1, ExporterPassword := vs ! 2\<rparr>,
     AdminPassword := vs ! 3, PKI := PKI c\<lparr>ProvisionerPassword := vs ! 4\<rparr>, Backup := Backup c\<lparr>SecretKey := vs ! 5\<rparr>\<rparr>"

fun decrypt_fields :: "('i, 'r) age_lib \<Rightarrow> 'i \<Rightarrow> (string \<times> string) list \<Rightarrow> goerr + string list" where
  "decrypt_fields A i [] = Inr []"
| "decrypt_fields A i ((label, v) # fs) =
     (case (if IsEncrypted v then decrypt A i v else Inr v) of
        Inl e \<Rightarrow> Inl (Errorf ''decrypt %s: %w'' [label, e])
      | Inr v' \<Rightarrow> (case decrypt_fields A i fs of Inl e \<Rightarrow> Inl e | Inr vs \<Rightarrow> Inr (v' # vs)))"

definition decrypt_config :: "('x, 'p, 'z) env_scheme \<Rightarrow> ('i, 'r) age_lib \<Rightarrow> string \<Rightarrow> Config \<Rightarrow> ('x, 'p) world \<Rightarrow> goerr + Config" where
  "decrypt_config E A key c w =
     (if \<not> list_ex (\<lambda>(l, v). IsEncrypted v) (secret_fields c) then Inr c
      else case Stat E key w of
        Inl e \<Rightarrow> Inl (Errorf ''configuration contains encrypted fields but key file %s does not exist: %w'' [key, perr_msg e])
      | Inr n \<Rightarrow> (case newDecrypter E A key w of
            Inl e \<Rightarrow> Inl e
          | Inr i \<Rightarrow> (case decrypt_fields A i (secret_fields c) of
                Inl e \<Rightarrow> Inl e
              | Inr vs \<Rightarrow> Inr (set_secrets vs c))))"

definition LoadWithKey :: "('x, 'p, 'z) env_scheme \<Rightarrow> ('i, 'r) age_lib \<Rightarrow> yaml_lib \<Rightarrow> string \<Rightarrow> string \<Rightarrow> ('x, 'p) world \<Rightarrow> goerr + Config" where
  "LoadWithKey E A Y path keyPath w = (case ReadFile E (ExpandPath E path) w of
      Inl e \<Rightarrow> Inl (Errorf ''failed to read config file: %w'' [perr_msg e])
    | Inr data \<Rightarrow> (case yaml_Config Y data of
          Inl e \<Rightarrow> Inl (Errorf ''failed to unmarshal config: %w'' [e])
        | Inr c \<Rightarrow>
            (let c1 = c\<lparr>VM := VM c\<lparr>StorageDir := ExpandPath E (StorageDir (VM c))\<rparr>,
                        SSH := SSH c\<lparr>PrivateKey := ExpandPath E (PrivateKey (SSH c))\<rparr>\<rparr>
             in decrypt_config E A (resolve_key_path E keyPath w) (hotdesk_override E c1) w)))"

definition Load :: "('x, 'p, 'z) env_scheme \<Rightarrow> ('i, 'r) age_lib \<Rightarrow> yaml_lib \<Rightarrow> string \<Rightarrow> ('x, 'p) world \<Rightarrow> goerr + Config" where
  "Load E A Y path w = LoadWithKey E A Y path [] w"

definition DecryptConfig :: "('x, 'p, 'z) env_scheme \<Rightarrow> ('i, 'r) age_lib \<Rightarrow> yaml_lib \<Rightarrow> string \<Rightarrow> string \<Rightarrow> ('x, 'p) world \<Rightarrow> goerr + Config" where
  "DecryptConfig E A Y configPath keyPath w =
     (if keyPath = [] then Load E A Y configPath w else LoadWithKey E A Y configPath keyPath w)"

section \<open>The identity files\<close>

definition keyDir :: "('x, 'p, 'z) env_scheme \<Rightarrow> string" where
  "keyDir E = ExpandPath E ''${HOME}/.config/cms-ha''"

definition primaryPath :: "('x, 'p, 'z) env_scheme \<Rightarrow> string" where
  "primaryPath E = path_Join [keyDir E, ''age.key'']"

definition publicPath :: "('x, 'p, 'z) env_scheme \<Rightarrow> string" where
  "publicPath E = path_Join [keyDir E, ''age.pub'']"

definition legacyTarget :: "('x, 'p, 'z) env_scheme \<Rightarrow> string" where
  "legacyTarget E = path_Join [keyDir E, ''legacy.age.key'']"

definition same_key :: "string \<Rightarrow> string \<Rightarrow> bool" where
  "same_key a b \<longleftrightarrow> TrimSpace a = TrimSpace b"

text \<open>The tail of \<open>migrateLegacyIdentity\<close>: the target is secured, the legacy file goes.\<close>

definition migrate_finish :: "('x, 'p, 'z) env_scheme \<Rightarrow> string \<Rightarrow> string \<Rightarrow> ('x, 'p) world \<Rightarrow> (goerr + string) \<times> ('x, 'p) world" where
  "migrate_finish E target legacyPath w = (case do_op E (Chmod target 384) w of
      (Some e, w1) \<Rightarrow> (Inl (Errorf ''secure migrated age identity: %w'' [perr_msg e]), w1)
    | (None, w1) \<Rightarrow> (case do_op E (Remove legacyPath) w1 of
          (Some e, w2) \<Rightarrow> if IsNotExist e then (Inr target, w2)
                          else (Inl (Errorf ''remove migrated legacy age identity: %w'' [perr_msg e]), w2)
        | (None, w2) \<Rightarrow> (Inr target, w2)))"

definition migrate_to :: "('x, 'p, 'z) env_scheme \<Rightarrow> string \<Rightarrow> string \<Rightarrow> string \<Rightarrow> ('x, 'p) world \<Rightarrow> (goerr + string) \<times> ('x, 'p) world" where
  "migrate_to E target keyData legacyPath w = (case ReadFile E target w of
      Inr existing \<Rightarrow>
        if \<not> same_key existing keyData
        then (Inl (Errorf ''cannot migrate legacy age identity: %s already contains a different key'' [target]), w)
        else migrate_finish E target legacyPath w
    | Inl e \<Rightarrow>
        if \<not> IsNotExist e then (Inl (Errorf ''read migrated age identity: %w'' [perr_msg e]), w)
        else (case do_op E (WriteFile target keyData 384) w of
            (Some e, w1) \<Rightarrow> (Inl (Errorf ''store legacy age identity outside repository: %w'' [perr_msg e]), w1)
          | (None, w1) \<Rightarrow> migrate_finish E target legacyPath w1))"

definition secure_keyDir :: "('x, 'p, 'z) env_scheme \<Rightarrow> ('x, 'p) world \<Rightarrow> goerr option \<times> ('x, 'p) world" where
  "secure_keyDir E w = (case do_op E (MkdirAll (keyDir E) 448) w of
      (Some e, w1) \<Rightarrow> (Some (Errorf ''create age key directory: %w'' [perr_msg e]), w1)
    | (None, w1) \<Rightarrow> (case do_op E (Chmod (keyDir E) 448) w1 of
          (Some e, w2) \<Rightarrow> (Some (Errorf ''secure age key directory: %w'' [perr_msg e]), w2)
        | (None, w2) \<Rightarrow> (None, w2)))"

definition migrateLegacyIdentity :: "('x, 'p, 'z) env_scheme \<Rightarrow> ('i, 'r) age_lib \<Rightarrow> string \<Rightarrow> ('x, 'p) world
    \<Rightarrow> (goerr + string) \<times> ('x, 'p) world" where
  "migrateLegacyIdentity E A legacyPath w = (case secure_keyDir E w of
      (Some e, w1) \<Rightarrow> (Inl e, w1)
    | (None, w1) \<Rightarrow> (case ReadFile E legacyPath w1 of
          Inl e \<Rightarrow> (Inl (Errorf ''read legacy age identity: %w'' [perr_msg e]), w1)
        | Inr keyData \<Rightarrow> (case ParseX25519Identity A (TrimSpace keyData) of
              Inl e \<Rightarrow> (Inl (Errorf ''parse legacy age identity: %w'' [e]), w1)
            | Inr i \<Rightarrow> (case ReadFile E (primaryPath E) w1 of
                  Inr primaryData \<Rightarrow>
                    if \<not> same_key primaryData keyData then migrate_to E (legacyTarget E) keyData legacyPath w1
                    else migrate_to E (primaryPath E) keyData legacyPath w1
                | Inl e \<Rightarrow>
                    if \<not> IsNotExist e then (Inl (Errorf ''read primary age identity: %w'' [perr_msg e]), w1)
                    else migrate_to E (primaryPath E) keyData legacyPath w1))))"

text \<open>
  \<open>ensureAgeKeyPair\<close> finds the identity (\<open>adopt_identity\<close>), migrating a project-local one first, or creates it
  (\<open>create_identity\<close>). The result is the private path and the public key.
\<close>

definition write_recipient :: "('x, 'p, 'z) env_scheme \<Rightarrow> string \<Rightarrow> ('x, 'p) world \<Rightarrow> goerr option \<times> ('x, 'p) world" where
  "write_recipient E publicKey w = (case do_op E (WriteFile (publicPath E) (publicKey @ [nl]) 384) w of
      (Some e, w1) \<Rightarrow> (Some (Errorf ''write local age recipient: %w'' [perr_msg e]), w1)
    | (None, w1) \<Rightarrow> (None, w1))"

definition adopt_identity :: "('x, 'p, 'z) env_scheme \<Rightarrow> ('i, 'r) age_lib \<Rightarrow> string \<Rightarrow> string \<Rightarrow> ('x, 'p) world
    \<Rightarrow> (goerr + string \<times> string) \<times> ('x, 'p) world" where
  "adopt_identity E A privatePath keyData w = (case ParseX25519Identity A (TrimSpace keyData) of
      Inl e \<Rightarrow> (Inl (Errorf ''parse local age identity: %w'' [e]), w)
    | Inr i \<Rightarrow> (let publicKey = recipient_String A (Recipient A i) in
        case (case Stat E (publicPath E) w of
                Inr n \<Rightarrow> (None, w)
              | Inl e \<Rightarrow> if IsNotExist e then write_recipient E publicKey w
                          else (Some (Errorf ''check local age recipient: %w'' [perr_msg e]), w)) of
          (Some e, w1) \<Rightarrow> (Inl e, w1)
        | (None, w1) \<Rightarrow> (case do_op E (Chmod privatePath 384) w1 of
              (Some e, w2) \<Rightarrow> (Inl (Errorf ''secure age identity: %w'' [perr_msg e]), w2)
            | (None, w2) \<Rightarrow> (Inr (privatePath, publicKey), w2))))"

definition create_identity :: "('x, 'p, 'z) env_scheme \<Rightarrow> ('i, 'r) age_lib \<Rightarrow> string \<Rightarrow> ('x, 'p) world
    \<Rightarrow> (goerr + string \<times> string) \<times> ('x, 'p) world" where
  "create_identity E A privatePath w = (case GenerateKey A (e_rand E w) of
      Inl e \<Rightarrow> (Inl e, w)
    | Inr (publicKey, privateKey) \<Rightarrow> (let op = CreateExcl privatePath (privateKey @ [nl]) 384 in
        case (case do_op E op w of
            (None, w1) \<Rightarrow> (Inr publicKey, w1)
          | (Some e, w1) \<Rightarrow>
              if open_failed E op w \<and> IsExist e then
                ((case ReadFile E privatePath w1 of
                    Inl e \<Rightarrow> Inl (Errorf ''read local age identity: %w'' [perr_msg e])
                  | Inr keyData \<Rightarrow> (case ParseX25519Identity A (TrimSpace keyData) of
                        Inl e \<Rightarrow> Inl (Errorf ''parse local age identity: %w'' [e])
                      | Inr i \<Rightarrow> Inr (recipient_String A (Recipient A i)))), w1)
              else (Inl (Errorf ''write local age identity: %w'' [perr_msg e]), w1)) of
          (Inl e, w1) \<Rightarrow> (Inl e, w1)
        | (Inr pk, w1) \<Rightarrow> (case write_recipient E pk w1 of
              (Some e, w2) \<Rightarrow> (Inl e, w2)
            | (None, w2) \<Rightarrow> (Inr (privatePath, pk), w2))))"

definition identity_of :: "('x, 'p, 'z) env_scheme \<Rightarrow> ('i, 'r) age_lib \<Rightarrow> string \<Rightarrow> perr + string \<Rightarrow> ('x, 'p) world
    \<Rightarrow> (goerr + string \<times> string) \<times> ('x, 'p) world" where
  "identity_of E A privatePath keyData w = (case keyData of
      Inr d \<Rightarrow> adopt_identity E A privatePath d w
    | Inl e \<Rightarrow> if \<not> IsNotExist e then (Inl (Errorf ''read local age identity: %w'' [perr_msg e]), w)
                else create_identity E A privatePath w)"

definition ensureAgeKeyPair :: "('x, 'p, 'z) env_scheme \<Rightarrow> ('i, 'r) age_lib \<Rightarrow> ('x, 'p) world
    \<Rightarrow> (goerr + string \<times> string) \<times> ('x, 'p) world" where
  "ensureAgeKeyPair E A w = (case secure_keyDir E w of
      (Some e, w1) \<Rightarrow> (Inl e, w1)
    | (None, w1) \<Rightarrow> (let r = ReadFile E (primaryPath E) w1; legacy = ExpandPath E ''private.key'' in
        if (case r of Inl e \<Rightarrow> IsNotExist e | Inr d \<Rightarrow> False) \<and> stat_ok E legacy w1 then
          (case migrateLegacyIdentity E A legacy w1 of
             (Inl e, w2) \<Rightarrow> (Inl e, w2)
           | (Inr p, w2) \<Rightarrow> identity_of E A p (ReadFile E p w2) w2)
        else identity_of E A (primaryPath E) r w1))"

section \<open>Loading with automatic encryption\<close>

definition reload_migrated :: "('x, 'p, 'z) env_scheme \<Rightarrow> ('i, 'r) age_lib \<Rightarrow> yaml_lib \<Rightarrow> string \<Rightarrow> string \<Rightarrow> ('x, 'p) world
    \<Rightarrow> (goerr + Config) \<times> ('x, 'p) world" where
  "reload_migrated E A Y path legacy w = (case migrateLegacyIdentity E A legacy w of
      (Inl e, w1) \<Rightarrow> (Inl e, w1)
    | (Inr p, w1) \<Rightarrow> (LoadWithKey E A Y path p w1, w1))"

fun try_legacy :: "('x, 'p, 'z) env_scheme \<Rightarrow> ('i, 'r) age_lib \<Rightarrow> yaml_lib \<Rightarrow> string \<Rightarrow> goerr \<Rightarrow> string list \<Rightarrow> ('x, 'p) world
    \<Rightarrow> (goerr + Config) \<times> ('x, 'p) world" where
  "try_legacy E A Y path loadErr [] w = (Inl loadErr, w)"
| "try_legacy E A Y path loadErr (p # ps) w =
     (if \<not> stat_ok E p w then try_legacy E A Y path loadErr ps w
      else case LoadWithKey E A Y path p w of
        Inl e \<Rightarrow> try_legacy E A Y path loadErr ps w
      | Inr c \<Rightarrow> if p = ExpandPath E ''private.key'' then reload_migrated E A Y path p w else (Inr c, w))"

definition LoadAutoEncrypt :: "('x, 'p, 'z) env_scheme \<Rightarrow> ('i, 'r) age_lib \<Rightarrow> yaml_lib \<Rightarrow> string \<Rightarrow> ('x, 'p) world
    \<Rightarrow> (goerr + Config) \<times> ('x, 'p) world" where
  "LoadAutoEncrypt E A Y configPath w = (let path = ExpandPath E configPath in
     case ReadFile E path w of
       Inl e \<Rightarrow> (Inl (Errorf ''read config for automatic secret encryption: %w'' [perr_msg e]), w)
     | Inr data \<Rightarrow> (case yaml_Node Y data of
           Inl e \<Rightarrow> (Inl (Errorf ''parse config for automatic secret encryption: %w'' [e]), w)
         | Inr root \<Rightarrow>
             if \<not> hasPlaintextSecrets root then
               (case Load E A Y path w of
                  Inr cfg \<Rightarrow>
                    if stat_missing E (defaultKeyPath E) w \<and> stat_ok E (ExpandPath E ''private.key'') w
                    then reload_migrated E A Y path (ExpandPath E ''private.key'') w
                    else (Inr cfg, w)
                | Inl loadErr \<Rightarrow> try_legacy E A Y path loadErr
                    [ExpandPath E ''${HOME}/.config/cms-ha/legacy.age.key'', ExpandPath E ''private.key''] w)
             else (case ensureAgeKeyPair E A w of
                 (Inl e, w1) \<Rightarrow> (Inl e, w1)
               | (Inr (privatePath, publicKey), w1) \<Rightarrow> (case EncryptConfig E A Y path publicKey w1 of
                     (Some e, w2) \<Rightarrow> (Inl (Errorf ''automatically encrypt config secrets: %w'' [e]), w2)
                   | (None, w2) \<Rightarrow> (LoadWithKey E A Y path privatePath w2, w2)))))"

end
