(* ===== verification/Files.thy ===== *)
theory Files
  imports World
begin

text \<open>
  What the operations on files do, where no symbolic link redirects a path: which paths an
  operation can touch, which content it writes, and what is left when it fails. The locale
  \<open>atomic_writer\<close> is the contract of a routine that replaces a file through a temporary one.
\<close>

definition no_links :: "fs \<Rightarrow> bool" where
  "no_links f \<longleftrightarrow> (\<forall>p t. f p \<noteq> Some (Symlink t))"

fun file_data :: "fnode option \<Rightarrow> string option" where
  "file_data (Some (File d m)) = Some d"
| "file_data _ = None"

definition content :: "fs \<Rightarrow> string \<Rightarrow> string option" where
  "content f p = file_data (f p)"

fun touches :: "fsop \<Rightarrow> string set" where
  "touches (WriteFile p d m) = {p}"
| "touches (AppendFile p d m) = {p}"
| "touches (CloseFile p) = {}"
| "touches (CreateExcl p d m) = {p}"
| "touches (Rename a b) = {a, b}"
| "touches (Remove p) = {p}"
| "touches (Chmod p m) = {p}"
| "touches (MkdirAll p m) = {p}"

lemma follow_plain: "no_links f \<Longrightarrow> follow (Suc n) f p = Some p"
  by (auto simp: no_links_def split: option.splits fnode.splits)

lemma resolve_plain: "no_links f \<Longrightarrow> resolve f p = Some p"
proof -
  assume "no_links f"
  moreover have "41 = Suc 40" by simp
  ultimately show ?thesis unfolding resolve_def by (metis follow_plain)
qed

lemma apply_op_frame:
  assumes "no_links f" and "apply_op op f = Inr g"
  shows "no_links g" and "q \<notin> touches op \<Longrightarrow> g q = f q"
  using assms resolve_plain [OF assms(1)]
  by (cases op; auto simp: no_links_def split: option.splits fnode.splits if_splits)+

lemma partial_op_frame:
  assumes "no_links f"
  shows "no_links (partial_op k op f)" and "q \<notin> touches op \<Longrightarrow> partial_op k op f q = f q"
proof -
  have "no_links (partial_op k op f) \<and> (q \<notin> touches op \<longrightarrow> partial_op k op f q = f q)"
  proof (cases op)
    case (WriteFile p d m)
    then show ?thesis using assms apply_op_frame [OF assms, of "WriteFile p (take k d) m"]
      by (simp del: apply_op.simps split: sum.split)
  next
    case (AppendFile p d m)
    then show ?thesis using assms apply_op_frame [OF assms, of "AppendFile p (take k d) m"]
      by (simp del: apply_op.simps split: sum.split)
  next
    case (CreateExcl p d m)
    then show ?thesis using assms apply_op_frame [OF assms, of "CreateExcl p (take k d) m"]
      by (simp del: apply_op.simps split: sum.split)
  qed (use assms in simp_all)
  then show "no_links (partial_op k op f)" and "q \<notin> touches op \<Longrightarrow> partial_op k op f q = f q" by blast+
qed

lemma apply_op_content:
  "no_links f \<Longrightarrow> apply_op (WriteFile p d m) f = Inr g \<Longrightarrow> content g p = Some d"
  "apply_op (CreateExcl p d m) f = Inr g \<Longrightarrow> content g p = Some d \<and> f p = None"
  "apply_op (Rename a b) f = Inr g \<Longrightarrow> g b = f a"
  "apply_op (Remove p) f = Inr g \<Longrightarrow> g p = None"
  "no_links f \<Longrightarrow> apply_op (Chmod p m) f = Inr g \<Longrightarrow> content g q = content f q"
  "apply_op (MkdirAll p m) f = Inr g \<Longrightarrow> content g q = content f q"
  by (auto simp: resolve_plain content_def split: option.splits fnode.splits)

lemma apply_op_append:
  "no_links f \<Longrightarrow> apply_op (AppendFile p d m) f = Inr g \<Longrightarrow>
    content g p = Some ((case content f p of None \<Rightarrow> [] | Some old \<Rightarrow> old) @ d)"
  by (auto simp: resolve_plain content_def split: option.splits fnode.splits)

lemma do_op_cases:
  assumes "do_op E op w = (r, w')"
  obtains (ok) "apply_op op (w_fs w) = Inr (w_fs w')" "r = None"
  | (unchanged) e where "r = Some e" "w_fs w' = w_fs w"
  | (part) e k where "r = Some e" "w_fs w' = partial_op k op (w_fs w)"
  using assms by (auto simp: do_op_def Let_def split: option.splits sum.splits)

text \<open>One collection of facts about every operation.\<close>

lemma do_op_frame:
  assumes "do_op E op w = (r, w')" and "no_links (w_fs w)"
  shows "no_links (w_fs w')" and "q \<notin> touches op \<Longrightarrow> w_fs w' q = w_fs w q"
  using assms(1) by (cases rule: do_op_cases; use apply_op_frame partial_op_frame assms(2) in auto)+

lemma do_op_content_frame:
  "do_op E op w = (r, w') \<Longrightarrow> no_links (w_fs w) \<Longrightarrow> q \<notin> touches op \<Longrightarrow> content (w_fs w') q = content (w_fs w) q"
  by (simp add: content_def do_op_frame(2))

lemma do_op_write:
  assumes "do_op E (WriteFile p d m) w = (None, w')" and "no_links (w_fs w)"
  shows "content (w_fs w') p = Some d"
  using assms(1) by (cases rule: do_op_cases) (use apply_op_content(1) assms(2) in blast)+

lemma do_op_create:
  assumes "do_op E (CreateExcl p d m) w = (None, w')"
  shows "content (w_fs w') p = Some d" and "w_fs w p = None"
  using assms by (cases rule: do_op_cases; use apply_op_content(2) in blast)+

lemma do_op_rename:
  assumes "do_op E (Rename a b) w = (r, w')"
  shows "r = None \<Longrightarrow> w_fs w' b = w_fs w a" and "r = Some e \<Longrightarrow> w_fs w' = w_fs w"
  using assms apply_op_content(3) by (cases rule: do_op_cases; simp del: apply_op.simps)+

lemma do_op_remove:
  assumes "do_op E (Remove p) w = (r, w')"
  shows "r = None \<Longrightarrow> w_fs w' p = None" and "r = Some e \<Longrightarrow> w_fs w' = w_fs w"
  using assms apply_op_content(4) by (cases rule: do_op_cases; simp del: apply_op.simps)+

lemma do_op_mode:
  assumes "do_op E (Chmod p m) w = (r, w')" and "no_links (w_fs w)"
  shows "content (w_fs w') = content (w_fs w)"
  using assms(1) by (cases rule: do_op_cases) (auto intro!: ext apply_op_content(5) assms(2) simp: content_def simp del: apply_op.simps(7))

lemma do_op_mkdir:
  assumes "do_op E (MkdirAll p m) w = (r, w')"
  shows "content (w_fs w') = content (w_fs w)"
  using assms by (cases rule: do_op_cases) (auto intro!: ext apply_op_content(6) simp: content_def simp del: apply_op.simps(8))

lemma do_op_append:
  assumes "do_op E (AppendFile p d m) w = (None, w')" and "no_links (w_fs w)"
  shows "content (w_fs w') p = Some ((case content (w_fs w) p of None \<Rightarrow> [] | Some old \<Rightarrow> old) @ d)"
  using assms(1) by (cases rule: do_op_cases) (use apply_op_append assms(2) in blast)+

lemma do_op_close:
  assumes "do_op E (CloseFile p) w = (r, w')"
  shows "w_fs w' = w_fs w"
  using assms by (cases rule: do_op_cases) auto

lemma ReadFile_content: "ReadFile E p w = Inr d \<Longrightarrow> no_links (w_fs w) \<Longrightarrow> content (w_fs w) p = Some d"
  by (auto simp: ReadFile_def content_def resolve_plain split: option.splits fnode.splits)

lemma ReadFile_plain:
  "no_links (w_fs w) \<Longrightarrow> e_rfault E p w = None \<Longrightarrow> content (w_fs w) p = Some d \<Longrightarrow> ReadFile E p w = Inr d"
  by (auto simp: ReadFile_def content_def resolve_plain elim!: file_data.elims split: option.splits fnode.splits)

section \<open>Replacing a file\<close>

text \<open>
  A routine that replaces what \<open>view\<close> sees of the world: when it returns nil the new image is there, and
  whenever it fails, wherever it was interrupted, everything is as before. \<open>good\<close> is what it needs of the world and keeps.
\<close>

locale replacer =
  fixes replace :: "'d \<Rightarrow> 'w \<Rightarrow> goerr option \<times> 'w"
    and good :: "'w \<Rightarrow> bool"
    and view :: "'w \<Rightarrow> string option"
    and image :: "'d \<Rightarrow> 'w \<Rightarrow> string"
  assumes committed: "good w \<Longrightarrow> replace d w = (None, w') \<Longrightarrow> view w' = Some (image d w)"
    and kept: "good w \<Longrightarrow> replace d w = (Some e, w') \<Longrightarrow> view w' = view w"
    and plain: "good w \<Longrightarrow> replace d w = (r, w') \<Longrightarrow> good w'"
begin

text \<open>The writes that succeed in a sequence of writes, with what they wrote.\<close>

fun writes :: "'d list \<Rightarrow> 'w \<Rightarrow> string list \<times> 'w" where
  "writes [] w = ([], w)"
| "writes (d # ds) w = (case replace d w of
      (None, w1) \<Rightarrow> apfst (Cons (image d w)) (writes ds w1)
    | (Some e, w1) \<Rightarrow> writes ds w1)"

text \<open>Through any sequence of writes and failures, the last image that was written is there, or the
  old content when there was none.\<close>

lemma last_write_wins:
  "good w \<Longrightarrow> writes ds w = (ok, w') \<Longrightarrow> view w' = (if ok = [] then view w else Some (last ok))"
proof (induction ds arbitrary: w ok)
  case (Cons d ds)
  obtain r w1 where w1: "replace d w = (r, w1)" by (cases "replace d w")
  obtain ok1 w2 where w2: "writes ds w1 = (ok1, w2)" by (cases "writes ds w1")
  from plain [OF Cons.prems(1) w1] w2 Cons.IH
  have IH: "view w2 = (if ok1 = [] then view w1 else Some (last ok1))"
    using Cons.prems(2) w1 w2 by (cases r) auto
  with Cons.prems w1 w2 committed [of w d w1] kept [of w d _ w1] show ?case
    by (cases r) auto
qed simp

end

text \<open>The same for a local file, where no symbolic link is in the way.\<close>

locale atomic_writer =
  fixes replace :: "'d \<Rightarrow> ('x, 'p) world \<Rightarrow> goerr option \<times> ('x, 'p) world"
    and target :: string
    and image :: "'d \<Rightarrow> ('x, 'p) world \<Rightarrow> string"
  assumes file_committed: "no_links (w_fs w) \<Longrightarrow> replace d w = (None, w') \<Longrightarrow> content (w_fs w') target = Some (image d w)"
    and file_kept: "no_links (w_fs w) \<Longrightarrow> replace d w = (Some e, w') \<Longrightarrow> content (w_fs w') target = content (w_fs w) target"
    and file_plain: "no_links (w_fs w) \<Longrightarrow> replace d w = (r, w') \<Longrightarrow> no_links (w_fs w')"

sublocale atomic_writer \<subseteq> replacer replace "\<lambda>w. no_links (w_fs w)" "\<lambda>w. content (w_fs w) target" image
  by unfold_locales (fact file_committed file_kept file_plain)+

section \<open>An environment without faults\<close>

text \<open>For the examples: commands succeed with no output, no operation on files fails, \<open>HOME\<close> is \<open>/h\<close>.\<close>

definition quiet :: "(unit, unit) env" where
  "quiet = \<lparr>e_exec = \<lambda>argv w. (([], None), 0, w_fs w, w_ext w), e_lookpath = \<lambda>p w. True,
     e_getenv = \<lambda>v. if v = ''HOME'' then ''/h'' else [], e_fault = \<lambda>op w. None, e_rfault = \<lambda>p w. None,
     e_late = \<lambda>w. 0, e_tie = \<lambda>w. True, e_rand = \<lambda>w. 0\<rparr>"

definition blank :: "fs \<Rightarrow> (unit, unit) world" where
  "blank f = \<lparr>w_fs = f, w_clock = 0, w_cancel = None, w_trace = [], w_ext = (), w_heap = ()\<rparr>"

lemma quiet_simps [simp]:
  "e_exec quiet argv w = (([], None), 0, w_fs w, w_ext w)" "e_lookpath quiet p w" "e_fault quiet op w = None"
  "e_rfault quiet p w = None" "e_late quiet w = 0" "e_tie quiet w" "e_rand quiet w = 0"
  "e_getenv quiet v = (if v = ''HOME'' then ''/h'' else [])"
  by (simp_all add: quiet_def)

lemma blank_simps [simp]:
  "w_fs (blank f) = f" "w_clock (blank f) = 0" "w_cancel (blank f) = None" "w_trace (blank f) = []"
  by (simp_all add: blank_def)

lemma quiet_op [simp]: "do_op quiet op w =
    (case apply_op op (w_fs w) of Inl e \<Rightarrow> (Some (PathError (op_name op) e), emit (Fs op) w)
     | Inr f \<Rightarrow> (None, (emit (Fs op) w)\<lparr>w_fs := f\<rparr>))"
  by (simp add: do_op_def Let_def)

end
