(* ===== verification/SecretsProps.thy ===== *)
theory SecretsProps
  imports Secrets Files
begin

text \<open>
  Properties of the handling of secrets: what encryption removes from the tree, that encrypted values
  decrypt, that the configuration file is replaced atomically, and that no key is lost.
\<close>

section \<open>Encrypted values\<close>

lemma IsEncrypted_wrapped: "IsEncrypted (encPrefix @ s @ encSuffix)"
  by (simp add: IsEncrypted_def HasPrefix_def HasSuffix_def encPrefix_def encSuffix_def)

lemma unwrap: "TrimSuffix (TrimPrefix (encPrefix @ s @ encSuffix) encPrefix) encSuffix = s"
  by (simp add: TrimPrefix_def TrimSuffix_def HasPrefix_def HasSuffix_def encPrefix_def encSuffix_def)

lemma EncryptValue_encrypted: "EncryptValue A rnd k v pk = Inr c \<Longrightarrow> IsEncrypted c"
  by (auto simp: EncryptValue_def IsEncrypted_wrapped split: sum.splits)

text \<open>C9. What \<open>EncryptValue\<close> produces for the public key of an identity is an encrypted value, and \<open>decrypt\<close>
  with this identity gives the plaintext back, for every secret up to 64 KiB; a longer one, which
  \<open>EncryptValue\<close> still accepts, is refused when it is decrypted.\<close>

theorem EncryptValue_decrypt:
  assumes "age_laws A" and "EncryptValue A rnd k v (recipient_String A (Recipient A i)) = Inr c"
  shows "IsEncrypted c \<and> decrypt A i c = (if length v \<le> maxSecretSize then Inr v
    else Inl (Errorf ''decrypted value exceeds %d KiB limit'' [itoa 64]))"
proof -
  from assms obtain b where b: "age_Encrypt A (Recipient A i) rnd k v = Inr b"
    and c: "c = encPrefix @ EncodeToString b @ encSuffix"
    by (auto simp: EncryptValue_def age_laws_def split: sum.splits)
  from assms(1) b have "age_Decrypt A i b = Inr (v, None)" by (simp add: age_laws_def)
  then show ?thesis
    unfolding decrypt_def c unwrap by (simp add: IsEncrypted_wrapped maxSecretSize_def)
qed

text \<open>An instance of the libraries, for the witnesses: numbers are the keys, and a ciphertext is the key
  followed by the plaintext.\<close>

definition toy_age :: "(nat, nat) age_lib" where
  "toy_age = \<lparr>GenerateX25519Identity = \<lambda>n. Inr n,
     ParseX25519Identity = \<lambda>s. if s \<noteq> [] \<and> list_all (\<lambda>c. c = CHR ''k'') s then Inr (length s - 1) else Inl ''malformed secret key'',
     ParseX25519Recipient = \<lambda>s. Inr (length s), Recipient = \<lambda>i. i,
     identity_String = \<lambda>i. replicate (Suc i) (CHR ''k''), recipient_String = \<lambda>r. replicate r (CHR ''a''),
     age_Encrypt = \<lambda>r n k s. Inr (replicate r (CHR ''a'') @ CHR ''|'' # s),
     age_Decrypt = \<lambda>i b. if HasPrefix b (replicate i (CHR ''a'') @ ''|'') then Inr (drop (Suc i) b, None) else Inl ''no identity matched''\<rparr>"

lemma toy_age_laws: "age_laws toy_age"
  by (auto simp: age_laws_def toy_age_def HasPrefix_def is_space_def list_all_iff)

theorem EncryptValue_decrypt_witness:
  "decrypt toy_age 2 (encPrefix @ EncodeToString ''aa|pw'' @ encSuffix) = Inr ''pw''"
  using EncryptValue_decrypt [OF toy_age_laws, of 0 0 "''pw''" 2 "encPrefix @ EncodeToString ''aa|pw'' @ encSuffix"]
  by (simp add: EncryptValue_def toy_age_def maxSecretSize_def numeral_2_eq_2)

section \<open>Secrets in the tree\<close>

text \<open>The plaintext that \<open>processYAMLNode\<close> does not visit: under a secret key whose value is not a scalar.\<close>

fun shadowed_plaintext :: "ynode \<Rightarrow> bool"
  and shadowed_pairs :: "ynode list \<Rightarrow> bool"
  and shadowed_children :: "ynode list \<Rightarrow> bool"
where
  "shadowed_plaintext (Node k v cs) =
     (if k = MappingNode then shadowed_pairs cs
      else if k = SequenceNode \<or> k = DocumentNode then shadowed_children cs else False)"
| "shadowed_pairs (key # val # rest) =
     ((if isSecretField (Value key) then hasPlaintextSecrets val else shadowed_plaintext val) \<or> shadowed_pairs rest)"
| "shadowed_pairs _ = False"
| "shadowed_children [] = False"
| "shadowed_children (c # cs) = (shadowed_plaintext c \<or> shadowed_children cs)"

lemma scalar_no_plaintext: "Kind n = ScalarNode \<Longrightarrow> \<not> hasPlaintextSecrets n"
  by (cases n) auto

lemma Kind_process: "processYAMLNode f t n = (Inr t', n') \<Longrightarrow> Kind t' = Kind t"
  by (cases t) (auto split: sum.splits prod.splits)

definition scrubs :: "process \<Rightarrow> bool" where
  "scrubs f \<longleftrightarrow> (\<forall>s n s' n'. f s n = (Inr s', n') \<longrightarrow> \<not> plain_secret s')"

lemma process_removes:
  shows "scrubs f \<Longrightarrow> processYAMLNode f t n = (Inr t', n') \<Longrightarrow> hasPlaintextSecrets t' \<longleftrightarrow> shadowed_plaintext t"
    and "scrubs f \<Longrightarrow> process_pairs f cs n = (Inr cs', n') \<Longrightarrow> plain_pairs cs' \<longleftrightarrow> shadowed_pairs cs"
    and "scrubs f \<Longrightarrow> process_children f cs n = (Inr cs', n') \<Longrightarrow> plain_children cs' \<longleftrightarrow> shadowed_children cs"
proof (induction f t n and f cs n and f cs n arbitrary: t' n' and cs' n' and cs' n'
    rule: processYAMLNode_process_pairs_process_children.induct)
  case (1 f k v cs n)
  then show ?case by (auto split: sum.splits prod.splits if_splits)
next
  case (4 f key val rest n)
  show ?case
  proof (cases "isSecretField (Value key)")
    case True
    show ?thesis
    proof (cases "Kind val = ScalarNode")
      case scalar: True
      with True "4.prems" obtain s n1 rest' n2 where f: "f (Value val) n = (Inr s, n1)"
        and rest: "process_pairs f rest n1 = (Inr rest', n2)"
        and cs': "cs' = key # Node ScalarNode s (Content val) # rest'"
        by (auto split: sum.splits prod.splits)
      moreover have "\<not> hasPlaintextSecrets val" using scalar by (rule scalar_no_plaintext)
      moreover have "\<not> plain_secret s" using "4.prems"(1) f by (auto simp: scrubs_def)
      ultimately show ?thesis using True scalar "4.IH" "4.prems"(1) by (auto split: sum.splits prod.splits)
    next
      case False
      with True 4 show ?thesis by (auto split: sum.splits prod.splits)
    qed
  next
    case False
    with 4 show ?thesis by (auto split: sum.splits prod.splits dest: Kind_process)
  qed
next
  case (6 f c cs n)
  then show ?case by (auto split: sum.splits prod.splits)
qed auto

lemma encrypt_secret_scrubs: "scrubs (encrypt_secret A rnd pk)"
  by (auto simp: scrubs_def encrypt_secret_def plain_secret_def EncryptValue_encrypted split: if_splits)

section \<open>Replacing the configuration file\<close>

lemma tmp_path_neq [simp]: "tmp_path t \<noteq> t" "t \<noteq> tmp_path t"
  by (simp_all add: tmp_path_def)

lemma replace_config_effect:
  assumes "replace_config E t out w = (r, w')" and "no_links (w_fs w)"
  shows "no_links (w_fs w')" and "r = None \<Longrightarrow> content (w_fs w') t = Some out"
    and "r = Some e \<Longrightarrow> content (w_fs w') t = content (w_fs w) t"
    and "q \<noteq> t \<Longrightarrow> q \<noteq> tmp_path t \<Longrightarrow> content (w_fs w') q = content (w_fs w) q"
proof -
  let ?op = "WriteFile (tmp_path t) out 384"
  obtain r1 w1 where 1: "do_op E ?op w = (r1, w1)" by (cases "do_op E ?op w")
  note f1 = do_op_frame(1) [OF 1 assms(2)]
  obtain rx wx where x: "do_op E (Remove (tmp_path t)) w1 = (rx, wx)" by (cases "do_op E (Remove (tmp_path t)) w1")
  obtain r2 w2 where 2: "do_op E (Rename (tmp_path t) t) w1 = (r2, w2)" by (cases "do_op E (Rename (tmp_path t) t) w1")
  note f2 = do_op_frame(1) [OF 2 f1]
  obtain r3 w3 where 3: "do_op E (Remove (tmp_path t)) w2 = (r3, w3)" by (cases "do_op E (Remove (tmp_path t)) w2")
  note frames = f1 f2 do_op_frame(1) [OF x f1] do_op_frame(1) [OF 3 f2]
  note same = do_op_content_frame [OF 1 assms(2)] do_op_content_frame [OF x f1]
    do_op_content_frame [OF 2 f1] do_op_content_frame [OF 3 f2]
  have run: "(r, w') \<in> {(r, w1) | e. r1 = Some e \<and> r \<noteq> None} \<union> {(r, wx) | e. r1 = Some e \<and> r \<noteq> None} \<union>
      {(r, w3) | e. r1 = None \<and> r2 = Some e \<and> r \<noteq> None} \<union> {(r, w2) | e. r1 = None \<and> r2 = None \<and> r = None}"
    using assms(1) 1 2 x 3 by (auto simp: replace_config_def Let_def split: option.splits if_splits)
  then show "no_links (w_fs w')" using frames by auto
  show "r = None \<Longrightarrow> content (w_fs w') t = Some out"
    using run do_op_write [of E "tmp_path t" out 384 w w1] assms(2) 1 do_op_rename(1) [OF 2] by (auto simp: content_def)
  show "r = Some e \<Longrightarrow> content (w_fs w') t = content (w_fs w) t"
    using run same do_op_rename(2) [OF 2] by auto
  show "content (w_fs w') q = content (w_fs w) q" if "q \<noteq> t" "q \<noteq> tmp_path t"
    using run same that by auto
qed

definition config_image :: "('x, 'p, 'z) env_scheme \<Rightarrow> ('i, 'r) age_lib \<Rightarrow> yaml_lib \<Rightarrow> string \<Rightarrow> string \<Rightarrow> ('x, 'p) world \<Rightarrow> string" where
  "config_image E A Y p publicKey w = projr (encrypted_text A Y (e_rand E w) publicKey (the (content (w_fs w) p)))"

lemma config_target_plain: "no_links (w_fs w) \<Longrightarrow> config_target E p w = p"
  by (auto simp: config_target_def Lstat_def no_links_def split: option.splits fnode.splits)

lemma EncryptConfig_effect:
  assumes "EncryptConfig E A Y path pk w = (r, w')" and "no_links (w_fs w)"
  defines "p \<equiv> Clean (ExpandPath E path)"
  shows "no_links (w_fs w')"
    and "r = None \<Longrightarrow> \<exists>data out. content (w_fs w) p = Some data \<and>
      encrypted_text A Y (e_rand E w) pk data = Inr out \<and> content (w_fs w') p = Some out"
    and "r = Some e \<Longrightarrow> content (w_fs w') p = content (w_fs w) p"
    and "q \<noteq> p \<Longrightarrow> q \<noteq> tmp_path p \<Longrightarrow> content (w_fs w') q = content (w_fs w) q"
proof -
  note step = assms(1) [unfolded EncryptConfig_def Let_def p_def [symmetric] config_target_plain [OF assms(2)]]
  have "r \<noteq> None \<and> w' = w \<or> (\<exists>data out. content (w_fs w) p = Some data \<and>
      encrypted_text A Y (e_rand E w) pk data = Inr out \<and> replace_config E p out w = (r, w'))"
  proof (cases "ReadFile E p w")
    case (Inr data)
    with step ReadFile_content [OF Inr assms(2)] show ?thesis
      by (cases "encrypted_text A Y (e_rand E w) pk data") auto
  qed (use step in auto)
  then consider "r \<noteq> None" "w' = w"
    | data out where "content (w_fs w) p = Some data" "encrypted_text A Y (e_rand E w) pk data = Inr out"
        "replace_config E p out w = (r, w')" by blast
  note run = this
  show "no_links (w_fs w')" using run replace_config_effect(1) assms(2) by cases blast+
  show "r = None \<Longrightarrow> \<exists>data out. content (w_fs w) p = Some data \<and>
      encrypted_text A Y (e_rand E w) pk data = Inr out \<and> content (w_fs w') p = Some out"
    using run replace_config_effect(2) assms(2) by cases blast+
  show "r = Some e \<Longrightarrow> content (w_fs w') p = content (w_fs w) p"
    using run replace_config_effect(3) assms(2) by cases blast+
  show "q \<noteq> p \<Longrightarrow> q \<noteq> tmp_path p \<Longrightarrow> content (w_fs w') q = content (w_fs w) q"
    using run replace_config_effect(4) assms(2) by cases blast+
qed

interpretation config_file: atomic_writer "EncryptConfig E A Y path" "Clean (ExpandPath E path)"
  "config_image E A Y (Clean (ExpandPath E path))" for E A Y path
proof
  fix w :: "('a, 'b) world" and d r w'
  assume w: "no_links (w_fs w)" and run: "EncryptConfig E A Y path d w = (r, w')"
  show "no_links (w_fs w')" using EncryptConfig_effect(1) [OF run w] .
next
  fix w :: "('a, 'b) world" and d w'
  assume w: "no_links (w_fs w)" and run: "EncryptConfig E A Y path d w = (None, w')"
  show "content (w_fs w') (Clean (ExpandPath E path)) = Some (config_image E A Y (Clean (ExpandPath E path)) d w)"
    using EncryptConfig_effect(2) [OF run w refl] by (auto simp: config_image_def)
next
  fix w :: "('a, 'b) world" and d e w'
  assume w: "no_links (w_fs w)" and run: "EncryptConfig E A Y path d w = (Some e, w')"
  show "content (w_fs w') (Clean (ExpandPath E path)) = content (w_fs w) (Clean (ExpandPath E path))"
    using EncryptConfig_effect(3) [OF run w refl] .
qed

lemma encrypted_text_plain:
  assumes "yaml_laws Y" and "encrypted_text A Y rnd pk data = Inr out"
  obtains root root' where "yaml_Node Y data = Inr root" "yaml_Node Y out = Inr root'"
    "hasPlaintextSecrets root' \<longleftrightarrow> shadowed_plaintext root"
proof -
  obtain root where 1: "yaml_Node Y data = Inr root"
    using assms(2) by (cases "yaml_Node Y data") (auto simp: encrypted_text_def)
  obtain x n where x: "processYAMLNode (encrypt_secret A rnd pk) root 0 = (x, n)" by fastforce
  with 1 assms(2) obtain root' where "x = Inr root'" and 3: "yaml_Encode Y root' = Inr out"
    by (auto simp: encrypted_text_def split: sum.splits)
  with x have p: "processYAMLNode (encrypt_secret A rnd pk) root 0 = (Inr root', n)" by simp
  note 1 3
  moreover from this assms(1) have "yaml_Node Y out = Inr root'" by (simp add: yaml_laws_def)
  moreover have "hasPlaintextSecrets root' \<longleftrightarrow> shadowed_plaintext root"
    by (rule process_removes(1) [OF encrypt_secret_scrubs p])
  ultimately show ?thesis using that by blast
qed


text \<open>A file whose text is the one secret of the tree.\<close>

definition toy_yaml :: yaml_lib where
  "toy_yaml = \<lparr>yaml_Node = \<lambda>s. Inr (Node MappingNode [] [Node ScalarNode ''password'' [], Node ScalarNode s []]),
     yaml_Encode = \<lambda>t. case t of Node k v [Node kk kv kc, Node vk s vc] \<Rightarrow>
         if k = MappingNode \<and> v = [] \<and> kk = ScalarNode \<and> kv = ''password'' \<and> kc = [] \<and> vk = ScalarNode \<and> vc = []
         then Inr s else Inl ''unsupported''
       | _ \<Rightarrow> Inl ''unsupported'',
     yaml_Config = \<lambda>s. Inl ''unsupported''\<rparr>"

lemma toy_yaml_laws: "yaml_laws toy_yaml"
  by (auto simp: yaml_laws_def toy_yaml_def split: ynode.splits list.splits if_splits)

lemma ExpandPath_plain [simp]: "ExpandPath E ''c'' = ''c''" "Clean ''c'' = ''c''"
  by (simp_all add: ExpandPath_def ExpandEnv_def Clean_def clean_elems_def Split_def HasPrefix_def Let_def)


end
