(* ===== verification/Identity.thy ===== *)
theory Identity
  imports SecretsProps ConfigSample
begin

text \<open>
  The identity files: the key that a configuration is encrypted to is on disk before the
  configuration is encrypted, and moving a key out of the repository never loses it.
\<close>

section \<open>The paths in the key directory\<close>

lemma split_acc_snoc:
  "CHR ''/'' \<notin> set x \<Longrightarrow> split_acc ''/'' acc (d @ CHR ''/'' # x) = split_acc ''/'' acc d @ [x]"
proof (induction "''/''" acc d rule: split_acc.induct)
  case (1 acc)
  have "split_acc ''/'' a x = [rev a @ x]" if "CHR ''/'' \<notin> set x" for a
    using that by (induction x arbitrary: a) (auto simp: HasPrefix_def)
  with 1 show ?case by (simp add: HasPrefix_def)
qed (auto simp: HasPrefix_def)

lemma Join_snoc: "\<exists>u. Join (xs @ [x]) sep = u @ x"
proof (induction xs)
  case (Cons y ys)
  then obtain u where "Join (ys @ [x]) sep = u @ x" by blast
  then have "Join (y # ys @ [x]) sep = (y @ sep @ u) @ x" by (cases ys) simp_all
  then show ?case by (metis append_Cons)
qed simp

text \<open>A joined path ends with its last element.\<close>

lemma Clean_suffix:
  assumes "Split p ''/'' = ys @ [x]" and "x \<notin> {[], ''.'', ''..''}"
  shows "suffix x (Clean p)"
proof -
  have "clean_elems r (ys @ [x]) = clean_elems r ys @ [x]" for r
    using assms(2) by (simp add: clean_elems_def)
  moreover obtain u where "Join (clean_elems (p \<noteq> [] \<and> hd p = CHR ''/'') ys @ [x]) ''/'' = u @ x"
    using Join_snoc by blast
  ultimately show ?thesis
    using assms by (auto simp: Clean_def Let_def suffix_def)
qed

lemma path_Join_suffix:
  assumes "x \<notin> {[], ''.'', ''..''}" and "CHR ''/'' \<notin> set x"
  shows "suffix x (path_Join [d, x])"
proof (cases "d = []")
  case True
  have "Split x ''/'' = [] @ [x]" using Split_Join [of "[x]" "CHR ''/''"] assms(2) by simp
  from Clean_suffix [OF this assms(1)] True assms(1) show ?thesis by simp
next
  case False
  have "Split (d @ CHR ''/'' # x) ''/'' = split_acc ''/'' [] d @ [x]"
    using split_acc_snoc [OF assms(2)] by (simp add: Split_def)
  from Clean_suffix [OF this assms(1)] False show ?thesis by simp
qed

lemma key_paths_distinct [simp]:
  "primaryPath E \<noteq> publicPath E" "legacyTarget E \<noteq> publicPath E"
proof -
  have "suffix ''age.key'' (primaryPath E)" "suffix ''age.pub'' (publicPath E)" "suffix ''legacy.age.key'' (legacyTarget E)"
    unfolding primaryPath_def publicPath_def legacyTarget_def by (rule path_Join_suffix; simp)+
  then show "primaryPath E \<noteq> publicPath E" "legacyTarget E \<noteq> publicPath E" by (auto simp: suffix_def)
qed

lemmas key_paths_distinct_sym [simp] = key_paths_distinct [symmetric]

section \<open>Moving a key out of the repository\<close>

definition holds_key :: "fs \<Rightarrow> string \<Rightarrow> string \<Rightarrow> bool" where
  "holds_key f p k \<longleftrightarrow> (\<exists>d. content f p = Some d \<and> TrimSpace d = k)"

lemma secure_keyDir_effect:
  assumes "secure_keyDir E w = (r, w')" and "no_links (w_fs w)"
  shows "no_links (w_fs w') \<and> content (w_fs w') = content (w_fs w)"
proof -
  obtain r1 w1 where 1: "do_op E (MkdirAll (keyDir E) 448) w = (r1, w1)" by fastforce
  obtain r2 w2 where 2: "do_op E (Chmod (keyDir E) 448) w1 = (r2, w2)" by fastforce
  have "w' = w1 \<or> w' = w2" using assms(1) 1 2 by (auto simp: secure_keyDir_def split: option.splits)
  with do_op_frame(1) [OF 1 assms(2)] do_op_mkdir [OF 1] do_op_mode [OF 2] do_op_frame(1) [OF 2] show ?thesis by auto
qed

lemma migrate_finish_effect:
  assumes "migrate_finish E target legacy w = (r, w')" and "no_links (w_fs w)"
  shows "no_links (w_fs w')" and "q \<noteq> legacy \<Longrightarrow> content (w_fs w') q = content (w_fs w) q"
    and "r = Inr p \<Longrightarrow> p = target"
proof -
  obtain r1 w1 where 1: "do_op E (Chmod target 384) w = (r1, w1)" by fastforce
  obtain r2 w2 where 2: "do_op E (Remove legacy) w1 = (r2, w2)" by fastforce
  note f1 = do_op_frame(1) [OF 1 assms(2)]
  have run: "w' = w1 \<or> w' = w2" "r = Inr p \<Longrightarrow> p = target"
    using assms(1) 1 2 by (auto simp: migrate_finish_def split: option.splits if_splits)
  then show "no_links (w_fs w')" using f1 do_op_frame(1) [OF 2 f1] by auto
  show "q \<noteq> legacy \<Longrightarrow> content (w_fs w') q = content (w_fs w) q"
    using run do_op_mode [OF 1 assms(2)] do_op_content_frame [OF 2 f1] by auto
  show "r = Inr p \<Longrightarrow> p = target" by (rule run(2))
qed

lemma migrate_to_effect:
  assumes "migrate_to E target d legacy w = (r, w')" and "no_links (w_fs w)" and "target \<noteq> legacy"
  shows "no_links (w_fs w')" and "q \<noteq> legacy \<Longrightarrow> q \<noteq> target \<Longrightarrow> content (w_fs w') q = content (w_fs w) q"
    and "r = Inr p \<Longrightarrow> p = target \<and> holds_key (w_fs w') target (TrimSpace d)"
    and "content (w_fs w) legacy = Some d \<Longrightarrow>
      holds_key (w_fs w') legacy (TrimSpace d) \<or> holds_key (w_fs w') target (TrimSpace d)"
proof -
  obtain r1 w1 where 1: "do_op E (WriteFile target d 384) w = (r1, w1)" by fastforce
  obtain r2 w2 where 2: "migrate_finish E target legacy w1 = (r2, w2)" by fastforce
  obtain r3 w3 where 3: "migrate_finish E target legacy w = (r3, w3)" by fastforce
  note f1 = do_op_frame(1) [OF 1 assms(2)]
  consider "w' = w" "\<And>p. r \<noteq> Inr p" | "w' = w1" "\<And>p. r \<noteq> Inr p" | "r1 = None" "w' = w2" "r = r2"
    | existing where "content (w_fs w) target = Some existing" "TrimSpace existing = TrimSpace d" "w' = w3" "r = r3"
    using assms(1) 1 2 3 ReadFile_content [OF _ assms(2)]
    by (auto simp: migrate_to_def same_key_def split: sum.splits option.splits if_splits)
  note run = this
  have kept: "content (w_fs w1) q = content (w_fs w) q" if "q \<noteq> target" for q
    using do_op_content_frame [OF 1 assms(2)] that by simp
  note finish = migrate_finish_effect [OF 2 f1] migrate_finish_effect [OF 3 assms(2)]
  have written: "r1 = None \<Longrightarrow> content (w_fs w1) target = Some d" using do_op_write 1 assms(2) by blast
  show "no_links (w_fs w')" using run by cases (use assms(2) f1 finish in auto)
  show "content (w_fs w') q = content (w_fs w) q" if "q \<noteq> legacy" "q \<noteq> target"
    using run by cases (use kept finish that in auto)
  show "p = target \<and> holds_key (w_fs w') target (TrimSpace d)" if "r = Inr p"
    using run by cases (use that finish written assms(3) in \<open>auto simp: holds_key_def\<close>)
  show "holds_key (w_fs w') legacy (TrimSpace d) \<or> holds_key (w_fs w') target (TrimSpace d)"
    if "content (w_fs w) legacy = Some d"
    using run by cases (use that kept finish written assms(3) in \<open>auto simp: holds_key_def\<close>)
qed

lemma migrate_effect:
  assumes "migrateLegacyIdentity E A legacy w = (r, w')" and "no_links (w_fs w)"
    and "legacy \<noteq> primaryPath E" and "legacy \<noteq> legacyTarget E"
  shows "no_links (w_fs w')"
    and "q \<notin> {legacy, primaryPath E, legacyTarget E} \<Longrightarrow> content (w_fs w') q = content (w_fs w) q"
    and "content (w_fs w) legacy = Some d \<Longrightarrow>
      \<exists>p \<in> {legacy, primaryPath E, legacyTarget E}. holds_key (w_fs w') p (TrimSpace d)"
    and "r = Inr p \<Longrightarrow> \<exists>d i. content (w_fs w) legacy = Some d \<and> ParseX25519Identity A (TrimSpace d) = Inr i \<and>
      p \<in> {primaryPath E, legacyTarget E} \<and> holds_key (w_fs w') p (TrimSpace d)"
proof -
  obtain r1 w1 where 1: "secure_keyDir E w = (r1, w1)" by fastforce
  note w1 = secure_keyDir_effect [OF 1 assms(2)]
  have run: "w' = w1 \<and> (\<forall>p. r \<noteq> Inr p) \<or>
     (\<exists>target d i. content (w_fs w) legacy = Some d \<and> ParseX25519Identity A (TrimSpace d) = Inr i \<and>
       target \<in> {primaryPath E, legacyTarget E} \<and> migrate_to E target d legacy w1 = (r, w'))"
  proof (cases "r1 = None \<and> (\<exists>d. ReadFile E legacy w1 = Inr d)")
    case True
    then obtain d where d: "r1 = None" "ReadFile E legacy w1 = Inr d" by blast
    then have "content (w_fs w) legacy = Some d" using ReadFile_content w1 by metis
    with d assms(1) 1 show ?thesis
      by (auto simp: migrateLegacyIdentity_def split: sum.splits if_splits)
  next
    case False
    with assms(1) 1 show ?thesis
      by (auto simp: migrateLegacyIdentity_def split: sum.splits option.splits)
  qed
  then consider "w' = w1" "\<And>p. r \<noteq> Inr p"
    | target d' i where "content (w_fs w) legacy = Some d'" "ParseX25519Identity A (TrimSpace d') = Inr i"
        "target \<in> {primaryPath E, legacyTarget E}" "migrate_to E target d' legacy w1 = (r, w')" by blast
  note run = this
  have to: "target \<in> {primaryPath E, legacyTarget E} \<Longrightarrow> target \<noteq> legacy" for target using assms(3,4) by auto
  show "no_links (w_fs w')"
    using run by cases (use w1 migrate_to_effect(1) to in blast)+
  show "content (w_fs w') q = content (w_fs w) q" if "q \<notin> {legacy, primaryPath E, legacyTarget E}"
    using run
  proof cases
    case 2
    with that have "q \<noteq> legacy" "q \<noteq> target" by auto
    from migrate_to_effect(2) [OF 2(4) _ to [OF 2(3)] this] w1 show ?thesis by simp
  qed (use w1 in simp)
  show "\<exists>p \<in> {legacy, primaryPath E, legacyTarget E}. holds_key (w_fs w') p (TrimSpace d)"
    if "content (w_fs w) legacy = Some d"
    using run
  proof cases
    case 1
    with w1 that show ?thesis by (auto simp: holds_key_def)
  next
    case 2
    with that w1 migrate_to_effect(4) [OF 2(4) _ to [OF 2(3)]] show ?thesis by auto
  qed
  show "\<exists>d i. content (w_fs w) legacy = Some d \<and> ParseX25519Identity A (TrimSpace d) = Inr i \<and>
      p \<in> {primaryPath E, legacyTarget E} \<and> holds_key (w_fs w') p (TrimSpace d)" if "r = Inr p"
    using run
  proof cases
    case 2
    with that w1 migrate_to_effect(3) [OF 2(4) _ to [OF 2(3)]] show ?thesis by auto
  next
    case 1
    with that show ?thesis by blast
  qed
qed

text \<open>C8. Moving the project-local key out of the repository never loses it: whichever operation on files
  fails, and at whatever point, the key is still in the legacy file, in \<open>age.key\<close> or in
  \<open>legacy.age.key\<close>; and when the migration returns a path, that file holds the key.\<close>

theorem migrateLegacyIdentity_keeps_key:
  assumes "no_links (w_fs w)" and "content (w_fs w) legacy = Some d"
    and "legacy \<notin> {primaryPath E, legacyTarget E}" and "migrateLegacyIdentity E A legacy w = (r, w')"
  shows "(\<exists>p \<in> {legacy, primaryPath E, legacyTarget E}. holds_key (w_fs w') p (TrimSpace d)) \<and>
    (case r of Inl e \<Rightarrow> True | Inr p \<Rightarrow> holds_key (w_fs w') p (TrimSpace d))"
proof -
  from assms(3) have neq: "legacy \<noteq> primaryPath E" "legacy \<noteq> legacyTarget E" by auto
  note effect = migrate_effect [OF assms(4,1) neq]
  show ?thesis using effect(3) [OF assms(2)] effect(4) assms(2) by (auto split: sum.splits)
qed

lemma quiet_paths [simp]:
  "primaryPath quiet = ''/h/.config/cms-ha/age.key''" "legacyTarget quiet = ''/h/.config/cms-ha/legacy.age.key''"
  "publicPath quiet = ''/h/.config/cms-ha/age.pub''" "keyDir quiet = ''/h/.config/cms-ha''"
  "ExpandPath E ''private.key'' = ''private.key''"
  by (simp_all add: primaryPath_def legacyTarget_def publicPath_def keyDir_def ExpandPath_def ExpandEnv_def
      shell_name_def is_special_var_def is_digit_def HasPrefix_def Clean_def clean_elems_def Split_def Let_def)

theorem migrateLegacyIdentity_keeps_key_witness:
  "holds_key (w_fs (snd (migrateLegacyIdentity quiet toy_age ''private.key'' (blank [''private.key'' \<mapsto> File ''kk'' 384]))))
     ''/h/.config/cms-ha/age.key'' ''kk''"
proof -
  let ?w = "blank [''private.key'' \<mapsto> File ''kk'' 384]"
  have w: "no_links (w_fs ?w)" and c: "content (w_fs ?w) ''private.key'' = Some ''kk''"
    by (simp_all add: no_links_def content_def)
  obtain r w' where run: "migrateLegacyIdentity quiet toy_age ''private.key'' ?w = (r, w')" by fastforce
  have kk: "TrimSpace ''kk'' = ''kk''" by (simp add: TrimSpace_def is_space_def)
  have plain: "no_links (fun_upd (Map.empty(''private.key'' \<mapsto> File ''kk'' 384)) ''/h/.config/cms-ha'' (Some (Dir 448)))"
    by (simp add: no_links_def)
  have r: "r = Inr ''/h/.config/cms-ha/age.key''"
    using run resolve_plain [OF plain] kk resolve_plain [OF w]
    by (simp add: migrateLegacyIdentity_def secure_keyDir_def ReadFile_def toy_age_def IsNotExist_def migrate_to_def
        migrate_finish_def resolve_def eval_nat_numeral)
  from migrateLegacyIdentity_keeps_key [OF w c _ run] r kk run show ?thesis by simp
qed

section \<open>The key that the configuration is encrypted to\<close>

definition stored_key :: "('i, 'r) age_lib \<Rightarrow> fs \<Rightarrow> string \<Rightarrow> string \<Rightarrow> bool" where
  "stored_key A f priv pub \<longleftrightarrow> (\<exists>d i. content f priv = Some d \<and> ParseX25519Identity A (TrimSpace d) = Inr i \<and>
     pub = recipient_String A (Recipient A i))"

lemma write_recipient_effect:
  assumes "write_recipient E pk w = (r, w')" and "no_links (w_fs w)"
  shows "no_links (w_fs w') \<and> (\<forall>q. q \<noteq> publicPath E \<longrightarrow> content (w_fs w') q = content (w_fs w) q)"
proof -
  obtain r1 w1 where 1: "do_op E (WriteFile (publicPath E) (pk @ [nl]) 384) w = (r1, w1)" by fastforce
  with assms(1) have "w' = w1" by (auto simp: write_recipient_def split: option.splits)
  with do_op_frame(1) [OF 1 assms(2)] do_op_content_frame [OF 1 assms(2)] show ?thesis by simp
qed

lemma adopt_identity_effect:
  assumes "adopt_identity E A priv d w = (r, w')" and "no_links (w_fs w)"
    and "content (w_fs w) priv = Some d" and "priv \<noteq> publicPath E"
  shows "no_links (w_fs w') \<and> (\<forall>q. q \<noteq> publicPath E \<longrightarrow> content (w_fs w') q = content (w_fs w) q) \<and>
    (\<forall>p pub. r = Inr (p, pub) \<longrightarrow> p = priv \<and> stored_key A (w_fs w') p pub)"
proof (cases "ParseX25519Identity A (TrimSpace d)")
  case (Inl e)
  with assms show ?thesis by (auto simp: adopt_identity_def)
next
  case (Inr i)
  let ?pub = "recipient_String A (Recipient A i)"
  obtain r1 w1 where 1: "(case Stat E (publicPath E) w of
        Inr n \<Rightarrow> (None, w)
      | Inl e \<Rightarrow> if IsNotExist e then write_recipient E ?pub w
                  else (Some (Errorf ''check local age recipient: %w'' [perr_msg e]), w)) = (r1, w1)" by fastforce
  then have w1: "no_links (w_fs w1) \<and> (\<forall>q. q \<noteq> publicPath E \<longrightarrow> content (w_fs w1) q = content (w_fs w) q)"
    using assms(2) write_recipient_effect [OF _ assms(2), of E ?pub r1 w1] by (auto split: sum.splits if_splits)
  obtain r2 w2 where 2: "do_op E (Chmod priv 384) w1 = (r2, w2)" by fastforce
  have run: "(w' = w1 \<and> (\<forall>p pub. r \<noteq> Inr (p, pub))) \<or> (w' = w2 \<and> (\<forall>p pub. r = Inr (p, pub) \<longrightarrow> p = priv \<and> pub = ?pub))"
    using assms(1) Inr 1 2 by (auto simp: adopt_identity_def Let_def split: option.splits)
  have w2: "no_links (w_fs w2)" "content (w_fs w2) = content (w_fs w1)"
    using do_op_frame(1) [OF 2] do_op_mode [OF 2] w1 by auto
  then have "stored_key A (w_fs w2) priv ?pub"
    using w1 assms(3,4) Inr by (auto simp: stored_key_def)
  with run w1 w2 show ?thesis by metis
qed

lemma create_identity_effect:
  assumes "create_identity E A priv w = (r, w')" and "no_links (w_fs w)"
    and "priv \<noteq> publicPath E" and "age_laws A"
  shows "no_links (w_fs w') \<and> (\<forall>q. q \<noteq> publicPath E \<longrightarrow> q \<noteq> priv \<longrightarrow> content (w_fs w') q = content (w_fs w) q) \<and>
    (\<forall>p pub. r = Inr (p, pub) \<longrightarrow> p = priv \<and> stored_key A (w_fs w') p pub)"
proof (cases "GenerateX25519Identity A (e_rand E w)")
  case (Inl e)
  with assms show ?thesis by (auto simp: create_identity_def GenerateKey_def)
next
  case (Inr i)
  let ?op = "CreateExcl priv (identity_String A i @ [nl]) 384"
  obtain r1 w1 where 1: "do_op E ?op w = (r1, w1)" by fastforce
  note f1 = do_op_frame(1) [OF 1 assms(2)] do_op_content_frame [OF 1 assms(2)]
  have "dropWhile is_space (identity_String A i @ [nl]) = identity_String A i @ [nl] \<or> identity_String A i = []"
    using assms(4) by (cases "identity_String A i") (auto simp: age_laws_def list_all_iff dest!: spec [of _ i])
  then have trim: "TrimSpace (identity_String A i @ [nl]) = identity_String A i"
    using TrimSpace_id [of "identity_String A i"] assms(4)
    by (auto simp: TrimSpace_def is_space_def age_laws_def list_all_iff)
  have new: "stored_key A (w_fs w1) priv (recipient_String A (Recipient A i))" if "r1 = None"
    using do_op_create(1) [of E priv "identity_String A i @ [nl]" 384 w w1] 1 that trim assms(4)
    by (auto simp: stored_key_def age_laws_def)
  have old: "stored_key A (w_fs w1) priv (recipient_String A (Recipient A j))"
    if "ReadFile E priv w1 = Inr d" "ParseX25519Identity A (TrimSpace d) = Inr j" for d j
    using ReadFile_content [OF that(1) f1(1)] that(2) by (auto simp: stored_key_def)
  have run: "(w' = w1 \<and> (\<forall>p pub. r \<noteq> Inr (p, pub))) \<or> (\<exists>pk r2. stored_key A (w_fs w1) priv pk \<and>
      write_recipient E pk w1 = (r2, w') \<and> (\<forall>p pub. r = Inr (p, pub) \<longrightarrow> p = priv \<and> pub = pk))"
  proof (cases r1)
    case None
    with assms(1) Inr 1 new show ?thesis
      by (auto simp: create_identity_def GenerateKey_def Let_def split: option.splits prod.splits)
  next
    case (Some e)
    with assms(1) Inr 1 old show ?thesis
      by (cases "open_failed E ?op w \<and> IsExist e")
         (auto simp: create_identity_def GenerateKey_def Let_def split: option.splits prod.splits sum.splits)
  qed
  then show ?thesis
  proof (elim disjE exE conjE)
    fix pk r2
    assume pk: "stored_key A (w_fs w1) priv pk" and 2: "write_recipient E pk w1 = (r2, w')"
      and r: "\<forall>p pub. r = Inr (p, pub) \<longrightarrow> p = priv \<and> pub = pk"
    note w' = write_recipient_effect [OF 2 f1(1)]
    moreover have "stored_key A (w_fs w') priv pk" using pk w' assms(3) by (auto simp: stored_key_def)
    ultimately show ?thesis using r f1 by auto
  qed (use f1 in auto)
qed

lemma identity_of_effect:
  assumes "identity_of E A priv (ReadFile E priv w) w = (r, w')" and "no_links (w_fs w)"
    and "priv \<noteq> publicPath E" and "age_laws A"
  shows "no_links (w_fs w') \<and> (\<forall>q. q \<noteq> publicPath E \<longrightarrow> q \<noteq> priv \<longrightarrow> content (w_fs w') q = content (w_fs w) q) \<and>
    (\<forall>p pub. r = Inr (p, pub) \<longrightarrow> p = priv \<and> stored_key A (w_fs w') p pub)"
proof (cases "ReadFile E priv w")
  case (Inr d)
  with assms(1) have "adopt_identity E A priv d w = (r, w')" by (simp add: identity_of_def)
  from adopt_identity_effect [OF this assms(2) ReadFile_content [OF Inr assms(2)] assms(3)] show ?thesis by blast
next
  case (Inl e)
  with assms create_identity_effect [of E A priv w r w'] show ?thesis
    by (cases "IsNotExist e") (auto simp: identity_of_def)
qed

lemma ensureAgeKeyPair_effect:
  assumes "ensureAgeKeyPair E A w = (r, w')" and "no_links (w_fs w)" and "age_laws A"
    and "ExpandPath E ''private.key'' \<notin> {primaryPath E, legacyTarget E}"
  shows "no_links (w_fs w')"
    and "q \<notin> {ExpandPath E ''private.key'', primaryPath E, legacyTarget E, publicPath E} \<Longrightarrow>
      content (w_fs w') q = content (w_fs w) q"
    and "r = Inr (p, pub) \<Longrightarrow> p \<in> {primaryPath E, legacyTarget E} \<and> stored_key A (w_fs w') p pub"
proof -
  let ?legacy = "ExpandPath E ''private.key''"
  obtain r1 w1 where 1: "secure_keyDir E w = (r1, w1)" by fastforce
  note w1 = secure_keyDir_effect [OF 1 assms(2)]
  obtain r2 w2 where 2: "migrateLegacyIdentity E A ?legacy w1 = (r2, w2)" by fastforce
  have neq: "?legacy \<noteq> primaryPath E" "?legacy \<noteq> legacyTarget E" using assms(4) by auto
  from w1 have n1: "no_links (w_fs w1)" by blast
  note m = migrate_effect [OF 2 n1 neq]
  consider "w' = w1" "\<And>p. r \<noteq> Inr p" | "w' = w2" "\<And>p. r \<noteq> Inr p"
    | p where "r2 = Inr p" "identity_of E A p (ReadFile E p w2) w2 = (r, w')"
    | "identity_of E A (primaryPath E) (ReadFile E (primaryPath E) w1) w1 = (r, w')"
    using assms(1) 1 2 by (auto simp: ensureAgeKeyPair_def Let_def split: option.splits sum.splits if_splits)
  then have "no_links (w_fs w') \<and>
    (q \<notin> {?legacy, primaryPath E, legacyTarget E, publicPath E} \<longrightarrow> content (w_fs w') q = content (w_fs w) q) \<and>
    (r = Inr (p, pub) \<longrightarrow> p \<in> {primaryPath E, legacyTarget E} \<and> stored_key A (w_fs w') p pub)"
  proof cases
    case 1
    with w1 show ?thesis by auto
  next
    case 2
    with m w1 show ?thesis by auto
  next
    case (3 p')
    then have p': "p' \<in> {primaryPath E, legacyTarget E}" using m(4) by blast
    then have "p' \<noteq> publicPath E" by auto
    from identity_of_effect [OF 3(2) m(1) this assms(3)] p' m(2) w1 show ?thesis by auto
  next
    case 4
    from identity_of_effect [OF 4 n1 _ assms(3)] w1 show ?thesis by auto
  qed
  then show "no_links (w_fs w')"
    and "q \<notin> {ExpandPath E ''private.key'', primaryPath E, legacyTarget E, publicPath E} \<Longrightarrow>
      content (w_fs w') q = content (w_fs w) q"
    and "r = Inr (p, pub) \<Longrightarrow> p \<in> {primaryPath E, legacyTarget E} \<and> stored_key A (w_fs w') p pub" by blast+
qed

section \<open>Loading\<close>

lemma try_legacy_effect:
  assumes "try_legacy E A Y path err ps w = (r, w')" and "no_links (w_fs w)"
    and "ExpandPath E ''private.key'' \<notin> {primaryPath E, legacyTarget E}"
    and "q \<notin> {ExpandPath E ''private.key'', primaryPath E, legacyTarget E}"
  shows "content (w_fs w') q = content (w_fs w) q"
  using assms(1)
proof (induction ps)
  case (Cons p ps)
  consider "try_legacy E A Y path err ps w = (r, w')" | "w' = w"
    | "p = ExpandPath E ''private.key''" "reload_migrated E A Y path p w = (r, w')"
    using Cons.prems by (auto split: if_splits sum.splits)
  then show ?case
  proof cases
    case 3
    obtain r1 w1 where m: "migrateLegacyIdentity E A p w = (r1, w1)" by fastforce
    with 3(2) have "w' = w1" by (auto simp: reload_migrated_def split: sum.splits)
    moreover have "p \<noteq> primaryPath E" "p \<noteq> legacyTarget E" using assms(3) 3(1) by auto
    ultimately show ?thesis using migrate_effect(2) [OF m assms(2)] assms(4) 3(1) by simp
  qed (use Cons.IH in auto)
qed simp

text \<open>C7. Loading with automatic encryption never locks the operator out: if the configuration file has
  changed at all when \<open>LoadAutoEncrypt\<close> returns, with an error or without, then it was encrypted to a key
  whose private half is in a key file on disk.\<close>

theorem LoadAutoEncrypt_key_on_disk:
  assumes "age_laws A" and "no_links (w_fs w)"
    and "ExpandPath E ''private.key'' \<notin> {primaryPath E, legacyTarget E}"
    and "Clean (ExpandPath E (ExpandPath E cfg)) = p"
    and "{p, tmp_path p} \<inter> {ExpandPath E ''private.key'', primaryPath E, legacyTarget E, publicPath E} = {}"
    and "LoadAutoEncrypt E A Y cfg w = (r, w')"
  shows "content (w_fs w') p = content (w_fs w) p \<or>
    (\<exists>priv pub rnd data out. stored_key A (w_fs w') priv pub \<and> content (w_fs w) p = Some data \<and>
       encrypted_text A Y rnd pub data = Inr out \<and> content (w_fs w') p = Some out)"
proof -
  let ?path = "ExpandPath E cfg" and ?legacy = "ExpandPath E ''private.key''"
  from assms(5) have p: "p \<notin> {?legacy, primaryPath E, legacyTarget E, publicPath E}"
    and tmp: "tmp_path p \<notin> {?legacy, primaryPath E, legacyTarget E, publicPath E}" by auto
  obtain r1 w1 where 1: "ensureAgeKeyPair E A w = (r1, w1)" by fastforce
  note k = ensureAgeKeyPair_effect [OF 1 assms(2,1,3)]
  obtain r3 w3 where 3: "migrateLegacyIdentity E A ?legacy w = (r3, w3)" by fastforce
  have neq: "?legacy \<noteq> primaryPath E" "?legacy \<noteq> legacyTarget E" using assms(3) by auto
  note m = migrate_effect(2) [OF 3 assms(2) neq]
  consider "w' = w" | "w' = w1" | "w' = w3"
    | err where "try_legacy E A Y ?path err [ExpandPath E ''${HOME}/.config/cms-ha/legacy.age.key'', ?legacy] w = (r, w')"
    | priv pub r2 where "r1 = Inr (priv, pub)" "EncryptConfig E A Y ?path pub w1 = (r2, w')"
    using assms(6) 1 3
    by (auto simp: LoadAutoEncrypt_def reload_migrated_def Let_def simp del: try_legacy.simps
        split: sum.splits if_splits option.splits prod.splits)
  then show ?thesis
  proof cases
    case 2
    with k(2) [OF p] show ?thesis by simp
  next
    case 3
    with m p show ?thesis by simp
  next
    case (4 err)
    from try_legacy_effect [OF 4 assms(2,3)] p show ?thesis by simp
  next
    case (5 priv pub r2)
    from k(3) 5(1) have key: "stored_key A (w_fs w1) priv pub" by blast
    note enc = EncryptConfig_effect [OF 5(2) k(1), unfolded assms(4)]
    show ?thesis
    proof (cases r2)
      case (Some e)
      with enc(3) k(2) [OF p] show ?thesis by simp
    next
      case None
      have "priv \<in> {primaryPath E, legacyTarget E}"
        using k(3) 5(1) by blast
      then have "content (w_fs w') priv = content (w_fs w1) priv" using enc(4) [of priv] p tmp by auto
      with key have "stored_key A (w_fs w') priv pub" by (simp add: stored_key_def)
      with enc(2) [OF None] k(2) [OF p] show ?thesis by metis
    qed
  qed simp
qed

theorem LoadAutoEncrypt_key_on_disk_witness:
  "\<exists>w'. snd (LoadAutoEncrypt quiet toy_age toy_yaml ''c'' (blank [''c'' \<mapsto> File ''pw'' 420])) = w' \<and>
    (content (w_fs w') ''c'' = Some ''pw'' \<or> (\<exists>priv pub. stored_key toy_age (w_fs w') priv pub))"
proof -
  let ?w = "blank [''c'' \<mapsto> File ''pw'' 420]"
  have w: "no_links (w_fs ?w)" by (simp add: no_links_def)
  obtain r w' where run: "LoadAutoEncrypt quiet toy_age toy_yaml ''c'' ?w = (r, w')" by fastforce
  have "content (w_fs w') ''c'' = content (w_fs ?w) ''c'' \<or> (\<exists>priv pub. stored_key toy_age (w_fs w') priv pub)"
    using LoadAutoEncrypt_key_on_disk [OF toy_age_laws w _ _ _ run, of "''c''"] by (auto simp: tmp_path_def)
  then show ?thesis using run by (simp add: content_def)
qed

section \<open>Decryption of a loaded configuration\<close>

definition decrypted_field :: "('i, 'r) age_lib \<Rightarrow> goerr + 'i \<Rightarrow> string \<Rightarrow> string \<Rightarrow> bool" where
  "decrypted_field A key v v' \<longleftrightarrow>
     (if IsEncrypted v then (case key of Inl e \<Rightarrow> False | Inr i \<Rightarrow> decrypt A i v = Inr v') else v' = v)"

lemma decrypt_fields_values:
  "decrypt_fields A i fs = Inr vs \<Longrightarrow> list_all2 (\<lambda>(l, v) v'. decrypted_field A (Inr i) v v') fs vs"
  by (induction fs arbitrary: vs) (auto simp: decrypted_field_def split: sum.splits if_splits)

lemma secret_fields_override: "secret_fields (hotdesk_override E c) = secret_fields c"
  by (simp add: hotdesk_override_def secret_fields_def Let_def split: option.splits)

lemma secret_fields_paths: "secret_fields (c\<lparr>VM := v, SSH := s\<rparr>) = secret_fields c"
  by (simp add: secret_fields_def)

lemma list_all2_six:
  assumes "list_all2 P [a, b, c, d, e, f] vs"
  shows "vs = [vs ! 0, vs ! 1, vs ! 2, vs ! 3, vs ! 4, vs ! 5]"
  using assms by (auto simp: list_all2_Cons1 eval_nat_numeral)

lemma secret_fields_set:
  assumes "list_all2 P (secret_fields c) vs"
  shows "map snd (secret_fields (set_secrets vs c)) = vs"
proof -
  have "map snd (secret_fields (set_secrets vs c)) = [vs ! 0, vs ! 1, vs ! 2, vs ! 3, vs ! 4, vs ! 5]"
    by (simp add: secret_fields_def set_secrets_def)
  also have "\<dots> = vs" by (rule list_all2_six [OF assms [unfolded secret_fields_def], symmetric])
  finally show ?thesis .
qed

text \<open>A configuration that \<open>LoadWithKey\<close> returns has its six secrets in the clear: each field that was
  encrypted in the file is what the key file decrypts it to, each other field is as in the file.\<close>

theorem LoadWithKey_decrypts:
  assumes "LoadWithKey E A Y path key w = Inr c"
  shows "\<exists>data c0. ReadFile E (ExpandPath E path) w = Inr data \<and> yaml_Config Y data = Inr c0 \<and>
    list_all2 (\<lambda>(l, v) v'. decrypted_field A (newDecrypter E A (resolve_key_path E key w) w) v v')
      (secret_fields c0) (map snd (secret_fields c))"
proof -
  obtain data where d: "ReadFile E (ExpandPath E path) w = Inr data"
    using assms by (cases "ReadFile E (ExpandPath E path) w") (auto simp: LoadWithKey_def)
  with assms obtain c0 where c0: "yaml_Config Y data = Inr c0"
    by (cases "yaml_Config Y data") (auto simp: LoadWithKey_def)
  define c1 where "c1 = hotdesk_override E (c0\<lparr>VM := VM c0\<lparr>StorageDir := ExpandPath E (StorageDir (VM c0))\<rparr>,
      SSH := SSH c0\<lparr>PrivateKey := ExpandPath E (PrivateKey (SSH c0))\<rparr>\<rparr>)"
  have sf: "secret_fields c1 = secret_fields c0"
    unfolding c1_def secret_fields_override by (rule secret_fields_paths)
  have c: "decrypt_config E A (resolve_key_path E key w) c1 w = Inr c"
    using assms d c0 by (simp add: LoadWithKey_def Let_def c1_def)
  let ?k = "newDecrypter E A (resolve_key_path E key w) w"
  have "list_all2 (\<lambda>(l, v) v'. decrypted_field A ?k v v') (secret_fields c1) (map snd (secret_fields c))"
  proof (cases "list_ex (\<lambda>(l, v). IsEncrypted v) (secret_fields c1)")
    case False
    with c have "c = c1" by (simp add: decrypt_config_def)
    with False show ?thesis
      by (auto simp: list_all2_map2 list_ex_iff decrypted_field_def intro!: list.rel_refl_strong)
  next
    case True
    with c obtain i vs where k: "?k = Inr i" and vs: "decrypt_fields A i (secret_fields c1) = Inr vs"
      and "c = set_secrets vs c1"
      by (auto simp: decrypt_config_def split: sum.splits)
    with secret_fields_set [OF decrypt_fields_values [OF vs]] decrypt_fields_values [OF vs] show ?thesis by simp
  qed
  with d c0 sf show ?thesis by auto
qed

lemma decrypted_blank: "decrypted_field A key [] v \<longleftrightarrow> v = []"
  by (simp add: decrypted_field_def IsEncrypted_def encPrefix_def HasPrefix_def)

lemma secret_fields_sample: "secret_fields sample_config = [(''db password'', []), (''db root password'', []),
    (''db exporter password'', []), (''WordPress admin password'', []), (''pki provisioner password'', []), (''backup secret key'', [])]"
  by (simp add: secret_fields_def sample_config_def)

lemma sample_secrets_blank:
  "list_all2 (\<lambda>(l, v) v'. decrypted_field A key v v') (secret_fields sample_config) vs \<Longrightarrow> vs = [[], [], [], [], [], []]"
  by (auto simp: secret_fields_sample list_all2_Cons1 decrypted_blank)

theorem LoadWithKey_decrypts_witness:
  "\<exists>c. LoadWithKey quiet toy_age (toy_yaml\<lparr>yaml_Config := \<lambda>s. Inr sample_config\<rparr>) ''c'' [] (blank [''c'' \<mapsto> File ''pw'' 420]) = Inr c \<and>
    map snd (secret_fields c) = [[], [], [], [], [], []]"
proof -
  let ?w = "blank [''c'' \<mapsto> File ''pw'' 420]" and ?Y = "toy_yaml\<lparr>yaml_Config := \<lambda>s. Inr sample_config\<rparr>"
  have w: "no_links (w_fs ?w)" by (simp add: no_links_def)
  have none: "\<not> list_ex (\<lambda>(l, v). IsEncrypted v) (secret_fields sample_config)"
    by (simp add: secret_fields_sample IsEncrypted_def encPrefix_def HasPrefix_def)
  have "ReadFile quiet ''c'' ?w = Inr ''pw''" by (rule ReadFile_plain [OF w]) (simp_all add: content_def)
  then obtain c where c: "LoadWithKey quiet toy_age ?Y ''c'' [] ?w = Inr c"
    using none by (simp add: LoadWithKey_def decrypt_config_def secret_fields_override secret_fields_paths Let_def)
  have Y: "yaml_Config ?Y data = Inr sample_config" for data by simp
  from LoadWithKey_decrypts [OF c] obtain data c0 where c0: "yaml_Config ?Y data = Inr c0"
    and fields: "list_all2 (\<lambda>(l, v) v'. decrypted_field toy_age (newDecrypter quiet toy_age (resolve_key_path quiet [] ?w) ?w) v v')
      (secret_fields c0) (map snd (secret_fields c))" by (elim exE conjE)
  have "c0 = sample_config" by (rule sum.inject(2) [THEN iffD1]) (rule trans [OF c0 [symmetric] Y])
  have "map snd (secret_fields c) = [[], [], [], [], [], []]"
    by (rule sample_secrets_blank [OF fields [unfolded \<open>c0 = sample_config\<close>]])
  with c show ?thesis by (intro exI conjI)
qed

end
