(* ===== verification/Libvirt.thy ===== *)
theory Libvirt
  imports World
begin

text \<open>
  \<open>internal/libvirt/virsh.go\<close>: the client for \<open>virsh\<close>, \<open>virt-install\<close>, \<open>qemu-img\<close> and \<open>xorrisofs\<close>. Every
  operation is one command line whose output the environment decides; the parsing of the output is
  the program's own.
\<close>

record Client =
  URI :: string
  UseSudo :: bool

record DomainInfo =
  dom_Name :: string
  dom_State :: string

record DiskOpt =
  disk_Path :: string
  SizeGB :: int
  Format :: string
  Bus :: string
  Device :: string

record NetworkOpt =
  opt_Network :: string
  Mac :: string

record VirtInstallOpts =
  vi_Name :: string
  RAM :: int
  vi_VCPUs :: int
  Disks :: "DiskOpt list"
  Networks :: "NetworkOpt list"
  PXE :: bool
  BootOrder :: "string list"
  OSVariant :: string
  ExtraArgs :: string
  Location :: string
  Wait :: int
  NoAutoConsole :: bool
  NoReboot :: bool
  GraphicsNone :: bool

section \<open>Running virsh\<close>

text \<open>The probe of \<open>NewClient\<close> has a context of its own: five seconds from now, and not cancelled with the run. \<close>

definition background :: "('x, 'p) world \<Rightarrow> ('x, 'p) world" where
  "background w = w\<lparr>w_cancel := None\<rparr>"

definition run_background :: "('x, 'p, 'z) env_scheme \<Rightarrow> ctx \<Rightarrow> string list \<Rightarrow> ('x, 'p) world
    \<Rightarrow> (string \<times> goerr option) \<times> ('x, 'p) world" where
  "run_background E c argv w = (case run_cmd E c argv (background w) of (r, w') \<Rightarrow> (r, w'\<lparr>w_cancel := w_cancel w\<rparr>))"

definition NewClient :: "('x, 'p, 'z) env_scheme \<Rightarrow> string \<Rightarrow> ('x, 'p) world \<Rightarrow> Client \<times> ('x, 'p) world" where
  "NewClient E uri w =
     (if e_lookpath E ''virsh'' w \<and> (uri = ''qemu:///system'' \<or> HasPrefix uri ''qemu+ssh://root@'') then
        (let c = WithTimeout None (5 * 1000000000) w in
         case run_background E c [''virsh'', ''-c'', uri, ''list''] w of
           ((out, None), w1) \<Rightarrow> (\<lparr>URI = uri, UseSudo = False\<rparr>, w1)
         | ((out, Some e), w1) \<Rightarrow>
             (case run_background E c [''sudo'', ''-n'', ''virsh'', ''-c'', uri, ''list''] w1 of
                ((out, None), w2) \<Rightarrow> (\<lparr>URI = uri, UseSudo = True\<rparr>, w2)
              | ((out, Some e), w2) \<Rightarrow> (\<lparr>URI = uri, UseSudo = False\<rparr>, w2)))
      else (\<lparr>URI = uri, UseSudo = False\<rparr>, w))"

definition virsh_argv :: "Client \<Rightarrow> string list \<Rightarrow> string list" where
  "virsh_argv L args = (if UseSudo L then [''sudo'', ''-n'', ''virsh''] else [''virsh'']) @ [''-c'', URI L] @ args"

definition virsh :: "('x, 'p, 'z) env_scheme \<Rightarrow> Client \<Rightarrow> ctx \<Rightarrow> string list \<Rightarrow> ('x, 'p) world
    \<Rightarrow> string res \<times> ('x, 'p) world" where
  "virsh E L c args w = (case run_cmd E c (virsh_argv L args) w of
      ((out, None), w') \<Rightarrow> (Inr out, w')
    | ((out, Some e), w') \<Rightarrow> (Inl (Errorf ''virsh command failed: %v, output: %s'' [e, out]), w'))"

text \<open>A command whose output is not used.\<close>

definition virsh_do :: "('x, 'p, 'z) env_scheme \<Rightarrow> Client \<Rightarrow> ctx \<Rightarrow> string list \<Rightarrow> ('x, 'p) world
    \<Rightarrow> goerr option \<times> ('x, 'p) world" where
  "virsh_do E L c args w = (case virsh E L c args w of
      (Inr out, w') \<Rightarrow> (None, w')
    | (Inl e, w') \<Rightarrow> (Some e, w'))"

section \<open>Domains\<close>

definition DomainState :: "('x, 'p, 'z) env_scheme \<Rightarrow> Client \<Rightarrow> ctx \<Rightarrow> string \<Rightarrow> ('x, 'p) world
    \<Rightarrow> string res \<times> ('x, 'p) world" where
  "DomainState E L c name w = (case virsh E L c [''domstate'', name] w of
      (Inr out, w') \<Rightarrow> (Inr (TrimSpace out), w')
    | (Inl e, w') \<Rightarrow> (Inl e, w'))"

definition DomainExists :: "('x, 'p, 'z) env_scheme \<Rightarrow> Client \<Rightarrow> ctx \<Rightarrow> string \<Rightarrow> ('x, 'p) world
    \<Rightarrow> bool \<times> ('x, 'p) world" where
  "DomainExists E L c name w = (case DomainState E L c name w of
      (Inr s, w') \<Rightarrow> (True, w')
    | (Inl e, w') \<Rightarrow> (False, w'))"

definition name_listed :: "string \<Rightarrow> string \<Rightarrow> bool" where
  "name_listed name out = list_ex (\<lambda>l. TrimSpace l \<noteq> [] \<and> TrimSpace l = name) (Split out [nl])"

definition DomainExistsChecked :: "('x, 'p, 'z) env_scheme \<Rightarrow> Client \<Rightarrow> ctx \<Rightarrow> string \<Rightarrow> ('x, 'p) world
    \<Rightarrow> bool res \<times> ('x, 'p) world" where
  "DomainExistsChecked E L c name w = (case virsh E L c [''list'', ''--all'', ''--name''] w of
      (Inr out, w') \<Rightarrow> (Inr (name_listed name out), w')
    | (Inl e, w') \<Rightarrow> (Inl e, w'))"

text \<open>The parsing of \<open>virsh list --all\<close>: two header lines, then the id, the name and the state.\<close>

definition parse_domain_line :: "string \<Rightarrow> DomainInfo list" where
  "parse_domain_line line = (let fields = Fields line in
     if length fields \<ge> 3 then [\<lparr>dom_Name = fields ! 1, dom_State = Join (drop 2 fields) '' ''\<rparr>] else [])"

definition parse_domains :: "string \<Rightarrow> DomainInfo list" where
  "parse_domains out = concat (map parse_domain_line (filter (\<lambda>l. TrimSpace l \<noteq> []) (drop 2 (Split out [nl]))))"

definition ListAll :: "('x, 'p, 'z) env_scheme \<Rightarrow> Client \<Rightarrow> ctx \<Rightarrow> ('x, 'p) world
    \<Rightarrow> DomainInfo list res \<times> ('x, 'p) world" where
  "ListAll E L c w = (case virsh E L c [''list'', ''--all''] w of
      (Inr out, w') \<Rightarrow> (Inr (parse_domains out), w')
    | (Inl e, w') \<Rightarrow> (Inl e, w'))"

text \<open>\<open>DomainStates\<close> fills a map in the order of the list.\<close>

definition states_of :: "DomainInfo list \<Rightarrow> string \<Rightarrow> string option" where
  "states_of ds = foldl (\<lambda>m d. m(TrimSpace (dom_Name d) \<mapsto> TrimSpace (dom_State d))) Map.empty ds"

definition DomainStates :: "('x, 'p, 'z) env_scheme \<Rightarrow> Client \<Rightarrow> ctx \<Rightarrow> ('x, 'p) world
    \<Rightarrow> (string \<Rightarrow> string option) res \<times> ('x, 'p) world" where
  "DomainStates E L c w = (case ListAll E L c w of
      (Inr ds, w') \<Rightarrow> (Inr (states_of ds), w')
    | (Inl e, w') \<Rightarrow> (Inl e, w'))"

definition ListRunning :: "('x, 'p, 'z) env_scheme \<Rightarrow> Client \<Rightarrow> ctx \<Rightarrow> ('x, 'p) world
    \<Rightarrow> string list res \<times> ('x, 'p) world" where
  "ListRunning E L c w = (case ListAll E L c w of
      (Inr ds, w') \<Rightarrow>
        (Inr (map dom_Name (filter (\<lambda>d. EqualFold (TrimSpace (dom_State d)) ''running'') ds)), w')
    | (Inl e, w') \<Rightarrow> (Inl e, w'))"

definition Start :: "('x, 'p, 'z) env_scheme \<Rightarrow> Client \<Rightarrow> ctx \<Rightarrow> string \<Rightarrow> ('x, 'p) world \<Rightarrow> goerr option \<times> ('x, 'p) world" where
  "Start E L c name = virsh_do E L c [''start'', name]"

definition Shutdown :: "('x, 'p, 'z) env_scheme \<Rightarrow> Client \<Rightarrow> ctx \<Rightarrow> string \<Rightarrow> ('x, 'p) world \<Rightarrow> goerr option \<times> ('x, 'p) world" where
  "Shutdown E L c name = virsh_do E L c [''shutdown'', name]"

definition Resume :: "('x, 'p, 'z) env_scheme \<Rightarrow> Client \<Rightarrow> ctx \<Rightarrow> string \<Rightarrow> ('x, 'p) world \<Rightarrow> goerr option \<times> ('x, 'p) world" where
  "Resume E L c name = virsh_do E L c [''resume'', name]"

definition Destroy :: "('x, 'p, 'z) env_scheme \<Rightarrow> Client \<Rightarrow> ctx \<Rightarrow> string \<Rightarrow> ('x, 'p) world \<Rightarrow> goerr option \<times> ('x, 'p) world" where
  "Destroy E L c name = virsh_do E L c [''destroy'', name]"

definition Undefine :: "('x, 'p, 'z) env_scheme \<Rightarrow> Client \<Rightarrow> ctx \<Rightarrow> string \<Rightarrow> ('x, 'p) world \<Rightarrow> goerr option \<times> ('x, 'p) world" where
  "Undefine E L c name = virsh_do E L c [''undefine'', name]"

definition SetMaxMemory :: "('x, 'p, 'z) env_scheme \<Rightarrow> Client \<Rightarrow> ctx \<Rightarrow> string \<Rightarrow> int \<Rightarrow> ('x, 'p) world \<Rightarrow> goerr option \<times> ('x, 'p) world" where
  "SetMaxMemory E L c name kib = virsh_do E L c [''setmaxmem'', name, itoa kib, ''--config'']"

definition SetMemory :: "('x, 'p, 'z) env_scheme \<Rightarrow> Client \<Rightarrow> ctx \<Rightarrow> string \<Rightarrow> int \<Rightarrow> ('x, 'p) world \<Rightarrow> goerr option \<times> ('x, 'p) world" where
  "SetMemory E L c name kib = virsh_do E L c [''setmem'', name, itoa kib, ''--config'']"

text \<open>\<open>DumpXML\<close> returns the error beside an empty text.\<close>

definition DumpXML :: "('x, 'p, 'z) env_scheme \<Rightarrow> Client \<Rightarrow> ctx \<Rightarrow> string \<Rightarrow> ('x, 'p) world \<Rightarrow> string res \<times> ('x, 'p) world" where
  "DumpXML E L c name = virsh E L c [''dumpxml'', name]"

definition Define :: "('x, 'p, 'z) env_scheme \<Rightarrow> Client \<Rightarrow> ctx \<Rightarrow> string \<Rightarrow> ('x, 'p) world \<Rightarrow> goerr option \<times> ('x, 'p) world" where
  "Define E L c xmlPath = virsh_do E L c [''define'', xmlPath]"

section \<open>Networks\<close>

definition NetDefine :: "('x, 'p, 'z) env_scheme \<Rightarrow> Client \<Rightarrow> ctx \<Rightarrow> string \<Rightarrow> ('x, 'p) world \<Rightarrow> goerr option \<times> ('x, 'p) world" where
  "NetDefine E L c xmlPath = virsh_do E L c [''net-define'', xmlPath]"

definition NetStart :: "('x, 'p, 'z) env_scheme \<Rightarrow> Client \<Rightarrow> ctx \<Rightarrow> string \<Rightarrow> ('x, 'p) world \<Rightarrow> goerr option \<times> ('x, 'p) world" where
  "NetStart E L c name = virsh_do E L c [''net-start'', name]"

definition NetAutostart :: "('x, 'p, 'z) env_scheme \<Rightarrow> Client \<Rightarrow> ctx \<Rightarrow> string \<Rightarrow> ('x, 'p) world \<Rightarrow> goerr option \<times> ('x, 'p) world" where
  "NetAutostart E L c name = virsh_do E L c [''net-autostart'', name]"

definition NetDestroy :: "('x, 'p, 'z) env_scheme \<Rightarrow> Client \<Rightarrow> ctx \<Rightarrow> string \<Rightarrow> ('x, 'p) world \<Rightarrow> goerr option \<times> ('x, 'p) world" where
  "NetDestroy E L c name = virsh_do E L c [''net-destroy'', name]"

definition NetUndefine :: "('x, 'p, 'z) env_scheme \<Rightarrow> Client \<Rightarrow> ctx \<Rightarrow> string \<Rightarrow> ('x, 'p) world \<Rightarrow> goerr option \<times> ('x, 'p) world" where
  "NetUndefine E L c name = virsh_do E L c [''net-undefine'', name]"

definition NetExists :: "('x, 'p, 'z) env_scheme \<Rightarrow> Client \<Rightarrow> ctx \<Rightarrow> string \<Rightarrow> ('x, 'p) world \<Rightarrow> bool \<times> ('x, 'p) world" where
  "NetExists E L c name w = (case virsh E L c [''net-info'', name] w of
      (Inr out, w') \<Rightarrow> (True, w')
    | (Inl e, w') \<Rightarrow> (False, w'))"

definition NetExistsChecked :: "('x, 'p, 'z) env_scheme \<Rightarrow> Client \<Rightarrow> ctx \<Rightarrow> string \<Rightarrow> ('x, 'p) world
    \<Rightarrow> bool res \<times> ('x, 'p) world" where
  "NetExistsChecked E L c name w = (case virsh E L c [''net-list'', ''--all'', ''--name''] w of
      (Inr out, w') \<Rightarrow> (Inr (list_ex (\<lambda>l. TrimSpace l = name) (Split out [nl])), w')
    | (Inl e, w') \<Rightarrow> (Inl e, w'))"

definition net_active_line :: "string \<Rightarrow> bool" where
  "net_active_line l = (let line = TrimSpace l; fields = Fields line in
     HasPrefix line ''Active:'' \<and> length fields \<ge> 2 \<and> EqualFold (fields ! 1) ''yes'')"

definition NetIsActive :: "('x, 'p, 'z) env_scheme \<Rightarrow> Client \<Rightarrow> ctx \<Rightarrow> string \<Rightarrow> ('x, 'p) world \<Rightarrow> bool \<times> ('x, 'p) world" where
  "NetIsActive E L c name w = (case virsh E L c [''net-info'', name] w of
      (Inr out, w') \<Rightarrow> (list_ex net_active_line (Split out [nl]), w')
    | (Inl e, w') \<Rightarrow> (False, w'))"

section \<open>Installing\<close>

text \<open>
  Values with a comma would corrupt the specification of a disk or a network. The fields are checked
  while ranging over a Go map, so which of several offending fields is named is left open: \<open>ord\<close>
  is a permutation of the fields.
\<close>

fun first_comma :: "(string \<times> string) list \<Rightarrow> (string \<times> string) option" where
  "first_comma [] = None"
| "first_comma ((f, v) # fs) = (if CHR '','' \<in> set v then Some (f, v) else first_comma fs)"

fun disk_commas :: "((string \<times> string) list \<Rightarrow> (string \<times> string) list) \<Rightarrow> int \<Rightarrow> DiskOpt list \<Rightarrow> goerr option" where
  "disk_commas ord i [] = None"
| "disk_commas ord i (d # ds) =
     (case first_comma (ord [(''path'', disk_Path d), (''format'', Format d), (''bus'', Bus d), (''device'', Device d)]) of
        Some (f, v) \<Rightarrow> Some (Errorf ''disk %d: %s must not contain commas: %q'' [itoa i, f, quoted v])
      | None \<Rightarrow> disk_commas ord (i + 1) ds)"

fun network_commas :: "((string \<times> string) list \<Rightarrow> (string \<times> string) list) \<Rightarrow> int \<Rightarrow> NetworkOpt list \<Rightarrow> goerr option" where
  "network_commas ord i [] = None"
| "network_commas ord i (n # ns) =
     (case first_comma (ord [(''network'', opt_Network n), (''mac'', Mac n)]) of
        Some (f, v) \<Rightarrow> Some (Errorf ''network %d: %s must not contain commas: %q'' [itoa i, f, quoted v])
      | None \<Rightarrow> network_commas ord (i + 1) ns)"

definition disk_parts :: "DiskOpt \<Rightarrow> string list" where
  "disk_parts d = [''path='' @ disk_Path d]
     @ (if SizeGB d > 0 then [Sprintf ''size=%d'' [itoa (SizeGB d)]] else [])
     @ (if Format d \<noteq> [] then [''format='' @ Format d]
        else if SizeGB d > 0 \<or> HasSuffix (disk_Path d) ''.qcow2'' then [''format=qcow2''] else [])
     @ (if Bus d \<noteq> [] then [''bus='' @ Bus d]
        else if Device d = ''cdrom'' \<or> HasSuffix (disk_Path d) ''.iso'' then [''bus=sata''] else [''bus=virtio''])
     @ (if Device d \<noteq> [] then [''device='' @ Device d]
        else if HasSuffix (disk_Path d) ''.iso'' then [''device=cdrom''] else [])"

definition network_arg :: "NetworkOpt \<Rightarrow> string" where
  "network_arg n = Sprintf ''network=%s,model=virtio'' [opt_Network n]
     @ (if Mac n \<noteq> [] then Sprintf '',mac=%s'' [Mac n] else [])"

definition install_args :: "Client \<Rightarrow> VirtInstallOpts \<Rightarrow> string list" where
  "install_args L opts =
     [''--connect'', URI L, ''--name'', vi_Name opts, ''--memory'', itoa (RAM opts), ''--vcpus'', itoa (vi_VCPUs opts)]
     @ (if OSVariant opts \<noteq> [] then [''--os-variant'', OSVariant opts] else [])
     @ concat (map (\<lambda>d. [''--disk'', Join (disk_parts d) '','']) (Disks opts))
     @ concat (map (\<lambda>n. [''--network'', network_arg n]) (Networks opts))
     @ (if PXE opts \<and> BootOrder opts = [] then [''--pxe''] else [])
     @ (if BootOrder opts \<noteq> [] then [''--boot'', Join (BootOrder opts) '',''] else [])
     @ (if Location opts \<noteq> [] then [''--location'', Location opts] else [])
     @ (if ExtraArgs opts \<noteq> [] then [''--extra-args'', ExtraArgs opts] else [])
     @ [''--wait'', itoa (Wait opts)]
     @ (if NoAutoConsole opts then [''--noautoconsole''] else [])
     @ (if NoReboot opts then [''--noreboot''] else [])
     @ (if GraphicsNone opts then [''--graphics'', ''none''] else [])"

definition install_argv :: "Client \<Rightarrow> VirtInstallOpts \<Rightarrow> string list" where
  "install_argv L opts = (if UseSudo L then [''sudo'', ''-n'', ''virt-install''] else [''virt-install'']) @ install_args L opts"

definition VirtInstall :: "('x, 'p, 'z) env_scheme \<Rightarrow> ((string \<times> string) list \<Rightarrow> (string \<times> string) list) \<Rightarrow> Client \<Rightarrow> ctx
    \<Rightarrow> VirtInstallOpts \<Rightarrow> ('x, 'p) world \<Rightarrow> goerr option \<times> ('x, 'p) world" where
  "VirtInstall E ord L c opts w = (case disk_commas ord 1 (Disks opts) of
      Some e \<Rightarrow> (Some e, w)
    | None \<Rightarrow> (case network_commas ord 1 (Networks opts) of
          Some e \<Rightarrow> (Some e, w)
        | None \<Rightarrow> (case run_cmd E c (install_argv L opts) w of
              ((out, None), w') \<Rightarrow> (None, w')
            | ((out, Some e), w') \<Rightarrow> (Some (Errorf ''virt-install failed: %v, output: %s'' [e, out]), w'))))"

definition CreateDisk :: "('x, 'p, 'z) env_scheme \<Rightarrow> ctx \<Rightarrow> string \<Rightarrow> int \<Rightarrow> string \<Rightarrow> ('x, 'p) world \<Rightarrow> goerr option \<times> ('x, 'p) world" where
  "CreateDisk E c path sizeGB format w =
     (if path = [] then (Some ''disk path is required'', w)
      else if format = [] then (Some ''disk format is required (use qcow2)'', w)
      else case run_cmd E c [''qemu-img'', ''create'', ''-f'', format, path, Sprintf ''%dG'' [itoa sizeGB]] w of
        ((out, None), w') \<Rightarrow> (None, w')
      | ((out, Some e), w') \<Rightarrow> (Some (Errorf ''qemu-img create failed: %v, output: %s'' [e, out]), w'))"

definition CreateISO :: "('x, 'p, 'z) env_scheme \<Rightarrow> ctx \<Rightarrow> string \<Rightarrow> string \<Rightarrow> string \<Rightarrow> ('x, 'p) world \<Rightarrow> goerr option \<times> ('x, 'p) world" where
  "CreateISO E c outputPath sourceDir volID w =
     (if outputPath = [] \<or> sourceDir = [] then (Some ''ISO output path and source directory are required'', w)
      else case do_op E (Remove outputPath) w of
        (r, w1) \<Rightarrow>
          if r \<noteq> None \<and> \<not> IsNotExist (the r)
          then (Some (Errorf ''failed to remove previous ISO %s: %w'' [outputPath, perr_msg (the r)]), w1)
          else case run_cmd E c [''xorrisofs'', ''-o'', outputPath, ''-V'', volID, ''-R'', ''-J'', sourceDir] w1 of
            ((out, None), w') \<Rightarrow> (None, w')
          | ((out, Some e), w') \<Rightarrow> (Some (Errorf ''xorrisofs failed: %v, output: %s'' [e, out]), w'))"

end
