(* ===== verification/Deploy.thy ===== *)
theory Deploy
  imports Config Libvirt Files
begin

text \<open>
  \<open>internal/deploy\<close>: the checkpoint of \<open>state.go\<close> (reading, atomic saving, phase keys, the plan of a run) and
  the pipeline of \<open>orchestrator.go\<close>. What a phase does is its run function, a parameter here. JSON is
  the pair of functions in \<open>state_json\<close>.
\<close>

section \<open>The checkpoint\<close>

text \<open>Times are the clock of the world; \<^const>\<open>None\<close> is the zero time.\<close>

record State =
  Version :: int
  Status :: string
  StartedAt :: "int option"
  UpdatedAt :: "int option"
  CompletedPhases :: "string list"
  LastError :: string

record state_json =
  json_Marshal :: "State \<Rightarrow> goerr + string"
  json_Unmarshal :: "string \<Rightarrow> goerr + State"

text \<open>What \<open>encoding/json\<close> promises: the text of a value, with a line break after it, decodes to the value.
  Strings that are not valid UTF-8 are altered, so the law is for ASCII strings.\<close>

definition ascii :: "string \<Rightarrow> bool" where
  "ascii s \<longleftrightarrow> list_all (\<lambda>c. (of_char c :: nat) < 128) s"

definition ascii_state :: "State \<Rightarrow> bool" where
  "ascii_state s \<longleftrightarrow> ascii (Status s) \<and> ascii (LastError s) \<and> list_all ascii (CompletedPhases s)"

definition json_laws :: "state_json \<Rightarrow> bool" where
  "json_laws J \<longleftrightarrow> (\<forall>s. ascii_state s \<longrightarrow>
     (\<exists>d. json_Marshal J s = Inr d \<and> json_Unmarshal J (d @ [nl]) = Inr s))"

definition stateVersion :: int where
  "stateVersion = 1"

definition DefaultStateFile :: string where
  "DefaultStateFile = ''deploy.state''"

definition fresh_state :: State where
  "fresh_state = \<lparr>Version = stateVersion, Status = [], StartedAt = None, UpdatedAt = None,
     CompletedPhases = [], LastError = []\<rparr>"

definition LoadState :: "('x, 'p, 'z) env_scheme \<Rightarrow> state_json \<Rightarrow> string \<Rightarrow> ('x, 'p) world \<Rightarrow> goerr + State" where
  "LoadState E J path w = (case ReadFile E (Clean path) w of
      Inl e \<Rightarrow> if IsNotExist e then Inr fresh_state
                else Inl (Errorf ''read state file %s: %w'' [path, perr_msg e])
    | Inr data \<Rightarrow> (case json_Unmarshal J data of
          Inl e \<Rightarrow> Inl (Errorf ''parse state file %s: %w'' [path, e])
        | Inr s \<Rightarrow> if Version s \<noteq> stateVersion
                    then Inl (Errorf ''unsupported state file version %d in %s (want %d)'' [itoa (Version s), path, itoa stateVersion])
                    else Inr s))"

text \<open>\<open>Save\<close> also updates the state it is called on.\<close>

definition stamp :: "State \<Rightarrow> ('x, 'p) world \<Rightarrow> State" where
  "stamp s w = s\<lparr>Version := stateVersion, UpdatedAt := Some (w_clock w)\<rparr>"

definition Save :: "('x, 'p, 'z) env_scheme \<Rightarrow> state_json \<Rightarrow> string \<Rightarrow> State \<Rightarrow> ('x, 'p) world
    \<Rightarrow> (goerr option \<times> State) \<times> ('x, 'p) world" where
  "Save E J path s w = (let s1 = stamp s w in
     case json_Marshal J s1 of
       Inl e \<Rightarrow> ((Some (Errorf ''encode state: %w'' [e]), s1), w)
     | Inr data \<Rightarrow> (let tmp = path @ ''.tmp'' in
         case do_op E (WriteFile tmp (data @ [nl]) 384) w of
           (Some e, w1) \<Rightarrow> ((Some (Errorf ''write state file %s: %w'' [path, perr_msg e]), s1), w1)
         | (None, w1) \<Rightarrow> (case do_op E (Rename tmp path) w1 of
               (Some e, w2) \<Rightarrow> ((Some (Errorf ''commit state file %s: %w'' [path, perr_msg e]), s1), w2)
             | (None, w2) \<Rightarrow> ((None, s1), w2))))"

definition HasCompleted :: "State \<Rightarrow> string \<Rightarrow> bool" where
  "HasCompleted s key \<longleftrightarrow> key \<in> set (CompletedPhases s)"

definition add_key :: "string list \<Rightarrow> string \<Rightarrow> string list" where
  "add_key ks key = (if key \<in> set ks then ks else ks @ [key])"

definition MarkCompleted :: "('x, 'p, 'z) env_scheme \<Rightarrow> state_json \<Rightarrow> string \<Rightarrow> string \<Rightarrow> State \<Rightarrow> ('x, 'p) world
    \<Rightarrow> (goerr option \<times> State) \<times> ('x, 'p) world" where
  "MarkCompleted E J path key s w =
     Save E J path (s\<lparr>CompletedPhases := (if HasCompleted s key then CompletedPhases s else CompletedPhases s @ [key]),
       Status := ''running'', LastError := []\<rparr>) w"

section \<open>Phase keys\<close>

definition key_char :: "char \<Rightarrow> bool" where
  "key_char c \<longleftrightarrow> (97 \<le> (of_char c :: nat) \<and> (of_char c :: nat) \<le> 122) \<or> is_digit c"

text \<open>\<open>nonAlnum.ReplaceAllString(s, "-")\<close>: one dash for each maximal run; \<open>in_run\<close> tells that the run has its dash.\<close>

fun squeeze :: "bool \<Rightarrow> string \<Rightarrow> string" where
  "squeeze in_run [] = []"
| "squeeze in_run (c # s) =
     (if key_char c then c # squeeze False s
      else if in_run then squeeze True s
      else CHR ''-'' # squeeze True s)"

definition trim_dashes :: "string \<Rightarrow> string" where
  "trim_dashes s = rev (dropWhile (\<lambda>c. c = CHR ''-'') (rev (dropWhile (\<lambda>c. c = CHR ''-'') s)))"

definition phaseKey :: "string \<Rightarrow> string" where
  "phaseKey name = trim_dashes (squeeze False (ToLower name))"

section \<open>Phases and the plan of a run\<close>

record ('x, 'p) phase =
  ph_Name :: string
  ph_Description :: string
  ph_Run :: "ctx \<Rightarrow> ('x, 'p) world \<Rightarrow> goerr option \<times> ('x, 'p) world"

record DeployOpts =
  SkipVMCreate :: bool
  DryRun :: bool
  FromPhase :: string
  opt_Resume :: bool
  StateFile :: string

definition phase_key :: "('x, 'p) phase \<Rightarrow> string" where
  "phase_key p = phaseKey (ph_Name p)"

definition PhaseKeys :: "('x, 'p) phase list \<Rightarrow> string list" where
  "PhaseKeys ps = map (\<lambda>p. phaseKey (ph_Name p)) ps"

text \<open>The skip map is the list of its keys.\<close>

definition planRun :: "('x, 'p) phase list \<Rightarrow> DeployOpts \<Rightarrow> State option \<Rightarrow> goerr + string list \<times> bool" where
  "planRun list opts prior =
     (if opt_Resume opts \<and> FromPhase opts \<noteq> [] then Inl ''--resume and --from-phase are mutually exclusive''
      else if opt_Resume opts then
        Inr (case prior of None \<Rightarrow> [] | Some s \<Rightarrow> CompletedPhases s, False)
      else if FromPhase opts \<noteq> [] then
        (let want = phaseKey (FromPhase opts) in
         if want = [] then Inl ''--from-phase requires a phase name''
         else if want \<in> set (PhaseKeys list)
         then Inr (takeWhile (\<lambda>k. k \<noteq> want) (PhaseKeys list), False)
         else Inl (Errorf ''unknown phase %q (valid phases: %s)'' [quoted (FromPhase opts), Join (PhaseKeys list) '', '']))
      else Inr ([], True))"

text \<open>The thirteen phases; what they run is a parameter.\<close>

datatype phase_id =
    InitVMs bool bool  \<comment> \<open>jumpstart only, nodes only\<close>
  | SetupCobbler | RegisterNodes | RepairSSH | SetupPuppet | SetupDRBD | BackupStore | SetupKubernetes
  | SetupNginx | SetupMonitoring | SetupUFW | SetupPKI

fun phase_name :: "phase_id \<Rightarrow> string" where
  "phase_name (InitVMs j n) = ''00-init-vms''"
| "phase_name SetupCobbler = ''01-setup-cobbler''"
| "phase_name RegisterNodes = ''02-register-nodes''"
| "phase_name RepairSSH = ''03-repair-ssh''"
| "phase_name SetupPuppet = ''04-setup-puppet''"
| "phase_name SetupDRBD = ''DRBD Setup''"
| "phase_name BackupStore = ''Backup Store Setup''"
| "phase_name SetupKubernetes = ''Kubernetes Setup''"
| "phase_name SetupNginx = ''NGINX & WordPress Setup''"
| "phase_name SetupMonitoring = ''Monitoring Setup''"
| "phase_name SetupUFW = ''UFW Setup''"
| "phase_name SetupPKI = ''Internal CA Setup''"

definition phase_ids :: "DeployOpts \<Rightarrow> phase_id list" where
  "phase_ids opts =
     (if SkipVMCreate opts then [] else [InitVMs True False])
     @ [SetupCobbler, RegisterNodes]
     @ (if SkipVMCreate opts then [] else [InitVMs False True])
     @ [RepairSSH, SetupPuppet, SetupDRBD, BackupStore, SetupKubernetes, SetupNginx, SetupMonitoring, SetupUFW, SetupPKI]"

type_synonym ('x, 'p) phase_runs = "phase_id \<Rightarrow> ctx \<Rightarrow> ('x, 'p) world \<Rightarrow> goerr option \<times> ('x, 'p) world"

definition BuildPhaseList :: "('x, 'p) phase_runs \<Rightarrow> (phase_id \<Rightarrow> string) \<Rightarrow> DeployOpts \<Rightarrow> ('x, 'p) phase list" where
  "BuildPhaseList runs descr opts =
     map (\<lambda>i. \<lparr>ph_Name = phase_name i, ph_Description = descr i, ph_Run = runs i\<rparr>) (phase_ids opts)"

section \<open>Deploy\<close>

text \<open>The free space and the memory of the host lead to log messages only.\<close>

definition preflightChecks :: "('x, 'p, 'z) env_scheme \<Rightarrow> Config \<Rightarrow> Client \<Rightarrow> ctx \<Rightarrow> ('x, 'p) world \<Rightarrow> goerr option \<times> ('x, 'p) world" where
  "preflightChecks E cfg L c w = (let storageDir = Clean (StorageDir (VM cfg)) in
     case do_op E (MkdirAll storageDir 488) w of
       (Some e, w1) \<Rightarrow> (Some (Errorf ''storage directory %s cannot be created/accessed: %w'' [storageDir, perr_msg e]), w1)
     | (None, w1) \<Rightarrow> (case ListAll E L c w1 of
           (Inl e, w2) \<Rightarrow> (Some (Errorf ''libvirt not accessible at %s: %w'' [LibvirtURI (VM cfg), e]), w2)
         | (Inr ds, w2) \<Rightarrow> (None, w2)))"

text \<open>The loop over the phases: \<open>more\<close> tells that a phase follows this one in the list (\<open>i < total-1\<close>).\<close>

definition mark_phase :: "('x, 'p, 'z) env_scheme \<Rightarrow> state_json \<Rightarrow> string \<Rightarrow> string \<Rightarrow> State option \<Rightarrow> ('x, 'p) world
    \<Rightarrow> State option \<times> ('x, 'p) world" where
  "mark_phase E J path key st w = (case st of
      None \<Rightarrow> (None, w)
    | Some s \<Rightarrow> (case MarkCompleted E J path key s w of ((r, s'), w') \<Rightarrow> (Some s', w')))"

definition save_state :: "('x, 'p, 'z) env_scheme \<Rightarrow> state_json \<Rightarrow> string \<Rightarrow> string \<Rightarrow> string \<Rightarrow> State option \<Rightarrow> ('x, 'p) world
    \<Rightarrow> State option \<times> ('x, 'p) world" where
  "save_state E J path status err st w = (case st of
      None \<Rightarrow> (None, w)
    | Some s \<Rightarrow> (case Save E J path (s\<lparr>Status := status, LastError := err\<rparr>) w of ((r, s'), w') \<Rightarrow> (Some s', w')))"

fun deploy_loop :: "('x, 'p, 'z) env_scheme \<Rightarrow> state_json \<Rightarrow> Config \<Rightarrow> ctx \<Rightarrow> string \<Rightarrow> bool \<Rightarrow> string list
    \<Rightarrow> ('x, 'p) phase list \<Rightarrow> State option \<Rightarrow> ('x, 'p) world
    \<Rightarrow> (goerr option \<times> State option) \<times> ('x, 'p) world" where
  "deploy_loop E J cfg c path dry skip [] st w = ((None, st), w)"
| "deploy_loop E J cfg c path dry skip (p # ps) st w =
     (if dry then deploy_loop E J cfg c path dry skip ps st w
      else if phaseKey (ph_Name p) \<in> set skip then deploy_loop E J cfg c path dry skip ps st w
      else case ph_Run p c w of
        (Some err, w1) \<Rightarrow> (case save_state E J path ''failed'' err st w1 of
            (st', w2) \<Rightarrow> ((Some (Errorf ''phase %q failed: %w'' [quoted (ph_Name p), err]), st'), w2))
      | (None, w1) \<Rightarrow> (case mark_phase E J path (phaseKey (ph_Name p)) st w1 of
            (st', w2) \<Rightarrow>
              if StaggerDelay (Config.Deploy cfg) > 0 \<and> ps \<noteq> [] then
                (case wait E c (StaggerDelay (Config.Deploy cfg)) w2 of
                   (False, w3) \<Rightarrow> ((ctx_err c w3, st'), w3)
                 | (True, w3) \<Rightarrow> deploy_loop E J cfg c path dry skip ps st' w3)
              else deploy_loop E J cfg c path dry skip ps st' w2))"

definition reset_state :: "State \<Rightarrow> ('x, 'p) world \<Rightarrow> State" where
  "reset_state s w = s\<lparr>CompletedPhases := [], Status := ''running'', LastError := [], StartedAt := Some (w_clock w)\<rparr>"

text \<open>The part of \<open>Deploy\<close> after the preflight checks.\<close>

definition run_phases :: "('x, 'p, 'z) env_scheme \<Rightarrow> state_json \<Rightarrow> Config \<Rightarrow> ctx \<Rightarrow> string \<Rightarrow> DeployOpts \<Rightarrow> ('x, 'p) phase list
    \<Rightarrow> State option \<Rightarrow> ('x, 'p) world \<Rightarrow> goerr option \<times> ('x, 'p) world" where
  "run_phases E J cfg c path opts list st w = (case planRun list opts st of
      Inl e \<Rightarrow> (Some e, w)
    | Inr (skip, reset) \<Rightarrow>
        (case (case st of
                 None \<Rightarrow> ((None, None), w)
               | Some s \<Rightarrow> (case Save E J path (if reset then reset_state s w else s) w of ((r, s'), w') \<Rightarrow> ((r, Some s'), w'))) of
           ((Some e, st1), w1) \<Rightarrow> (Some e, w1)
         | ((None, st1), w1) \<Rightarrow> (case deploy_loop E J cfg c path (DryRun opts) skip list st1 w1 of
               ((Some e, st2), w2) \<Rightarrow> (Some e, w2)
             | ((None, st2), w2) \<Rightarrow> (case save_state E J path ''completed'' [] st2 w2 of (st3, w3) \<Rightarrow> (None, w3)))))"

definition Deploy :: "('x, 'p, 'z) env_scheme \<Rightarrow> state_json \<Rightarrow> Config \<Rightarrow> Client \<Rightarrow> ('x, 'p) phase_runs \<Rightarrow> (phase_id \<Rightarrow> string)
    \<Rightarrow> ctx \<Rightarrow> DeployOpts \<Rightarrow> ('x, 'p) world \<Rightarrow> goerr option \<times> ('x, 'p) world" where
  "Deploy E J cfg L runs descr c opts w =
     (let path = (if StateFile opts = [] then DefaultStateFile else StateFile opts); list = BuildPhaseList runs descr opts in
      if DryRun opts then run_phases E J cfg c path opts list None w
      else case LoadState E J path w of
        Inl e \<Rightarrow> (Some e, w)
      | Inr s \<Rightarrow> (case preflightChecks E cfg L c w of
            (Some e, w1) \<Rightarrow> (Some (Errorf ''preflight checks failed: %w'' [e]), w1)
          | (None, w1) \<Rightarrow> run_phases E J cfg c path opts list (Some s) w1))"

end
