(* ===== verification/DeployProps.thy ===== *)
theory DeployProps
  imports Deploy ConfigSample
begin

text \<open>
  Properties of the deployment pipeline: the checkpoint is replaced atomically, a run executes
  exactly the phases that its plan leaves, and a failed run resumes at the phase that failed.
\<close>

section \<open>Saving\<close>

lemma Save_state: "Save E J path s w = ((r, s'), w') \<Longrightarrow> s' = stamp s w"
  by (auto simp: Save_def Let_def split: sum.splits option.splits prod.splits)

lemma stamp_simps [simp]:
  "CompletedPhases (stamp s w) = CompletedPhases s" "Status (stamp s w) = Status s" "LastError (stamp s w) = LastError s"
  "Version (stamp s w) = stateVersion"
  by (simp_all add: stamp_def)

lemma Save_cancel:
  assumes "Save E J path s w = ((r, s'), w')"
  shows "w_cancel w' = w_cancel w"
proof -
  have "w_cancel (snd (do_op E op v)) = w_cancel v" for op v
    using do_op_later [of E op] by (simp add: keeps_def later_def)
  then have "do_op E op v = (q, v') \<Longrightarrow> w_cancel v' = w_cancel v" for op v q v' by (metis snd_conv)
  with assms show ?thesis by (auto simp: Save_def Let_def split: sum.splits option.splits prod.splits)
qed

lemma Save_effect:
  assumes "Save E J path s w = ((r, s'), w')" and "no_links (w_fs w)"
  shows "no_links (w_fs w')"
    and "r = None \<Longrightarrow> \<exists>d. json_Marshal J (stamp s w) = Inr d \<and> content (w_fs w') path = Some (d @ [nl])"
    and "r = Some e \<Longrightarrow> content (w_fs w') path = content (w_fs w) path"
proof -
  let ?tmp = "path @ ''.tmp''"
  have run: "no_links (w_fs w') \<and>
    (r = None \<longrightarrow> (\<exists>d. json_Marshal J (stamp s w) = Inr d \<and> content (w_fs w') path = Some (d @ [nl]))) \<and>
    (r = Some e \<longrightarrow> content (w_fs w') path = content (w_fs w) path)" for e
  proof (cases "json_Marshal J (stamp s w)")
    case (Inl e')
    with assms show ?thesis by (auto simp: Save_def Let_def)
  next
    case (Inr d)
    obtain r1 w1 where 1: "do_op E (WriteFile ?tmp (d @ [nl]) 384) w = (r1, w1)" by fastforce
    obtain r2 w2 where 2: "do_op E (Rename ?tmp path) w1 = (r2, w2)" by fastforce
    note f1 = do_op_frame(1) [OF 1 assms(2)]
    note kept = do_op_content_frame [OF 1 assms(2)]
    have "(r \<noteq> None \<and> w' = w1) \<or> (r \<noteq> None \<and> r2 \<noteq> None \<and> w' = w2) \<or> (r = None \<and> r1 = None \<and> r2 = None \<and> w' = w2)"
      using assms(1) Inr 1 2 by (auto simp: Save_def Let_def split: option.splits)
    then show ?thesis
    proof (elim disjE conjE)
      assume "r = None" "r1 = None" "r2 = None" "w' = w2"
      with Inr do_op_write [of E ?tmp "d @ [nl]" 384 w w1] 1 2 assms(2) do_op_rename(1) [OF 2] do_op_frame(1) [OF 2 f1]
      show ?thesis by (simp add: content_def)
    next
      assume "r \<noteq> None" "r2 \<noteq> None" "w' = w2"
      with do_op_rename(2) [OF 2] kept [of path] do_op_frame(1) [OF 2 f1] show ?thesis by auto
    qed (use f1 kept in auto)
  qed
  then show "no_links (w_fs w')"
    and "r = None \<Longrightarrow> \<exists>d. json_Marshal J (stamp s w) = Inr d \<and> content (w_fs w') path = Some (d @ [nl])"
    and "r = Some e \<Longrightarrow> content (w_fs w') path = content (w_fs w) path" by blast+
qed

definition checkpoint :: "('x, 'p, 'z) env_scheme \<Rightarrow> state_json \<Rightarrow> string \<Rightarrow> State \<Rightarrow> ('x, 'p) world \<Rightarrow> goerr option \<times> ('x, 'p) world" where
  "checkpoint E J path s w = (case Save E J path s w of ((r, s'), w') \<Rightarrow> (r, w'))"

interpretation state_file: atomic_writer "checkpoint E J path" path
  "\<lambda>s w. projr (json_Marshal J (stamp s w)) @ [nl]" for E J path
proof
  fix w :: "('a, 'b) world" and d r w'
  assume w: "no_links (w_fs w)" and "checkpoint E J path d w = (r, w')"
  then obtain s' where run: "Save E J path d w = ((r, s'), w')"
    by (auto simp: checkpoint_def split: prod.splits)
  show "no_links (w_fs w')" by (rule Save_effect(1) [OF run w])
next
  fix w :: "('a, 'b) world" and d w'
  assume w: "no_links (w_fs w)" and "checkpoint E J path d w = (None, w')"
  then obtain s' where run: "Save E J path d w = ((None, s'), w')"
    by (auto simp: checkpoint_def split: prod.splits)
  show "content (w_fs w') path = Some (projr (json_Marshal J (stamp d w)) @ [nl])"
    using Save_effect(2) [OF run w refl] by auto
next
  fix w :: "('a, 'b) world" and d e w'
  assume w: "no_links (w_fs w)" and "checkpoint E J path d w = (Some e, w')"
  then obtain s' where run: "Save E J path d w = ((Some e, s'), w')"
    by (auto simp: checkpoint_def split: prod.splits)
  show "content (w_fs w') path = content (w_fs w) path" by (rule Save_effect(3) [OF run w refl])
qed

lemma ascii_stamp: "ascii_state s \<Longrightarrow> ascii_state (stamp s w)"
  by (simp add: ascii_state_def)

lemma LoadState_content:
  assumes "no_links (w_fs w)" and "e_rfault E path w = None" and "Clean path = path"
    and "content (w_fs w) path = Some data" and "json_Unmarshal J data = Inr s" and "Version s = stateVersion"
  shows "LoadState E J path w = Inr s"
  using ReadFile_plain [OF assms(1,2,4)] assms(3,5,6) by (simp add: LoadState_def)

text \<open>A world in which the checkpoint can be written: no links, and the temporary path is no directory.\<close>

definition writable :: "string \<Rightarrow> ('x, 'p) world \<Rightarrow> bool" where
  "writable path w \<longleftrightarrow> no_links (w_fs w) \<and> (\<forall>m. w_fs w (path @ ''.tmp'') \<noteq> Some (Dir m))"

lemma apply_write_ok:
  "no_links f \<Longrightarrow> (\<And>m. f p \<noteq> Some (Dir m)) \<Longrightarrow> \<exists>k. apply_op (WriteFile p d m') f = Inr (f(p \<mapsto> File d k))"
  by (cases "f p"; cases "the (f p)") (auto simp: resolve_plain no_links_def)

lemma Save_succeeds:
  assumes "\<And>op w. e_fault E op w = None" and "json_laws J" and "ascii_state s" and "writable path w"
    and "Save E J path s w = ((r, s'), w')"
  shows "r = None" and "writable path w'"
proof -
  let ?tmp = "path @ ''.tmp''"
  obtain d where d: "json_Marshal J (stamp s w) = Inr d"
    using assms(2,3) ascii_stamp [of s w] by (auto simp: json_laws_def)
  obtain k where "apply_op (WriteFile ?tmp (d @ [nl]) 384) (w_fs w) = Inr ((w_fs w)(?tmp \<mapsto> File (d @ [nl]) k))"
    using apply_write_ok [of "w_fs w" ?tmp "d @ [nl]" 384] assms(4) unfolding writable_def by blast
  then obtain w1 where w1: "do_op E (WriteFile ?tmp (d @ [nl]) 384) w = (None, w1)"
    "w_fs w1 = (w_fs w)(?tmp \<mapsto> File (d @ [nl]) k)"
    by (simp add: do_op_def assms(1) del: apply_op.simps)
  then obtain w2 where w2: "do_op E (Rename ?tmp path) w1 = (None, w2)" "w_fs w2 ?tmp = None"
    by (simp add: do_op_def assms(1))
  from assms(5) d w1 w2 have "r = None" "w' = w2" by (auto simp: Save_def Let_def)
  with w2 Save_effect(1) [OF assms(5)] assms(4) show "r = None" "writable path w'"
    by (auto simp: writable_def)
qed

lemma Save_loads:
  assumes "json_laws J" and "ascii_state s" and "no_links (w_fs w)" and "Clean path = path"
    and "Save E J path s w = ((None, s'), w')" and "e_rfault E path w' = None"
  shows "LoadState E J path w' = Inr s'"
proof -
  from Save_effect(2) [OF assms(5,3) refl] obtain d where d: "json_Marshal J (stamp s w) = Inr d"
    and c: "content (w_fs w') path = Some (d @ [nl])" by blast
  from assms(1) ascii_stamp [OF assms(2), of w] d have "json_Unmarshal J (d @ [nl]) = Inr (stamp s w)"
    by (auto simp: json_laws_def)
  with LoadState_content [OF Save_effect(1) [OF assms(5,3)] assms(6,4) c] Save_state [OF assms(5)]
  show ?thesis by simp
qed

lemma Save_writable:
  assumes "Save E J path s w = ((r, s'), w')" and "writable path w"
  shows "writable path w'"
proof (cases "json_Marshal J (stamp s w)")
  case (Inl e)
  with assms show ?thesis by (auto simp: Save_def Let_def)
next
  case (Inr d)
  let ?tmp = "path @ ''.tmp''"
  from assms(2) have n: "no_links (w_fs w)" and t: "\<And>m. w_fs w ?tmp \<noteq> Some (Dir m)" by (auto simp: writable_def)
  obtain r1 w1 where 1: "do_op E (WriteFile ?tmp (d @ [nl]) 384) w = (r1, w1)" by fastforce
  obtain r2 w2 where 2: "do_op E (Rename ?tmp path) w1 = (r2, w2)" by fastforce
  have "w_fs w1 ?tmp \<noteq> Some (Dir m)" for m
  proof -
    obtain k where k: "\<And>d. \<exists>k. apply_op (WriteFile ?tmp d 384) (w_fs w) = Inr ((w_fs w)(?tmp \<mapsto> File d k))"
      using apply_write_ok [OF n t] by blast
    from 1 show ?thesis
    proof (cases rule: do_op_cases)
      case ok
      with k [of "d @ [nl]"] show ?thesis by (auto simp del: apply_op.simps)
    next
      case (part e j)
      with k [of "take j (d @ [nl])"] show ?thesis by (auto simp del: apply_op.simps)
    qed (use t in auto)
  qed
  moreover have "r2 = None \<Longrightarrow> w_fs w2 ?tmp \<noteq> Some (Dir m)" for m
    using 2 by (cases rule: do_op_cases) (auto split: option.splits dest!: sym [where t = "w_fs w2"])
  moreover have "r2 \<noteq> None \<Longrightarrow> w_fs w2 = w_fs w1" using do_op_rename(2) [OF 2] by auto
  moreover have w': "w' \<in> {w1, w2}" using assms(1) Inr 1 2 by (auto simp: Save_def Let_def split: option.splits)
  ultimately have "w_fs w' ?tmp \<noteq> Some (Dir m)" for m by (cases r2) auto
  moreover have "no_links (w_fs w')"
    using do_op_frame(1) [OF 1 n] do_op_frame(1) [OF 2 do_op_frame(1) [OF 1 n]] w' by auto
  ultimately show ?thesis by (simp add: writable_def)
qed

text \<open>C11. Saving the checkpoint is atomic: when \<open>Save\<close> returns nil, loading the file gives back the state that
  was saved; when it fails, at whatever operation and after however many bytes, the file is as it was,
  so an earlier checkpoint can still be loaded.\<close>

theorem Save_atomic:
  assumes "json_laws J" and "ascii_state s" and "no_links (w_fs w)" and "Clean path = path"
    and "Save E J path s w = ((r, s'), w')" and "e_rfault E path w' = None"
  shows "case r of None \<Rightarrow> LoadState E J path w' = Inr s' | Some e \<Rightarrow> content (w_fs w') path = content (w_fs w) path"
proof (cases r)
  case None
  with Save_loads [OF assms(1-4) _ assms(6)] assms(5) show ?thesis by simp
next
  case (Some e)
  with Save_effect(3) [OF assms(5,3)] show ?thesis by simp
qed

text \<open>An encoding that satisfies the laws, for the examples: the fields, separated by a byte that is not
  ASCII.\<close>

definition sep :: char where
  "sep = CHR 0xFF"

definition int_of :: "string \<Rightarrow> int" where
  "int_of t = (if t \<noteq> [] \<and> hd t = CHR ''-'' then - int (dec_val (tl t)) else int (dec_val t))"

definition opt_text :: "int option \<Rightarrow> string" where
  "opt_text x = (case x of None \<Rightarrow> [] | Some i \<Rightarrow> itoa i)"

definition text_opt :: "string \<Rightarrow> int option" where
  "text_opt t = (if t = [] then None else Some (int_of t))"

definition state_fields :: "State \<Rightarrow> string list" where
  "state_fields s = [itoa (Version s), Status s, opt_text (StartedAt s), opt_text (UpdatedAt s), LastError s] @ CompletedPhases s"

definition toy_json :: state_json where
  "toy_json = \<lparr>json_Marshal = \<lambda>s. Inr (Join (state_fields s) [sep]),
     json_Unmarshal = \<lambda>d. (let f = Split (butlast d) [sep] in
       if length f < 5 then Inl ''unexpected end of JSON input''
       else Inr \<lparr>Version = int_of (f ! 0), Status = f ! 1, StartedAt = text_opt (f ! 2), UpdatedAt = text_opt (f ! 3),
         CompletedPhases = drop 5 f, LastError = f ! 4\<rparr>)\<rparr>"

lemma int_of_itoa [simp]: "int_of (itoa i) = i"
proof (cases "i < 0")
  case False
  moreover have "hd (nat_digits n) \<noteq> CHR ''-''" for n
    using nat_digits_digit [of n] is_digit_minus by (metis hd_in_set nat_digits_Nil)
  ultimately show ?thesis by (simp add: int_of_def itoa_def)
qed (simp add: int_of_def itoa_def)

lemma itoa_Nil [simp]: "itoa i \<noteq> []"
  by (simp add: itoa_def)

lemma text_opt_text [simp]: "text_opt (opt_text x) = x"
  by (cases x) (simp_all add: text_opt_def opt_text_def)

lemma ascii_no_sep: "ascii s \<Longrightarrow> sep \<notin> set s"
  by (auto simp: ascii_def list_all_iff sep_def)

lemma ascii_itoa: "ascii (itoa i)"
proof -
  have "ascii (nat_digits n)" for n
    using nat_digits_digit [of n] by (auto simp: ascii_def list_all_iff is_digit_def)
  then show ?thesis by (simp add: itoa_def ascii_def)
qed

lemma toy_json_laws: "json_laws toy_json"
  unfolding json_laws_def
proof (intro allI impI)
  fix s assume s: "ascii_state s"
  have "ascii (opt_text x)" for x by (cases x) (simp_all add: opt_text_def ascii_itoa, simp add: ascii_def)
  with s have "\<forall>x \<in> set (state_fields s). sep \<notin> set x"
    using ascii_no_sep ascii_itoa by (auto simp: state_fields_def ascii_state_def list_all_iff)
  then have "Split (Join (state_fields s) [sep]) [sep] = state_fields s"
    by (intro Split_Join) (simp_all add: state_fields_def)
  then show "\<exists>d. json_Marshal toy_json s = Inr d \<and> json_Unmarshal toy_json (d @ [nl]) = Inr s"
    by (simp add: toy_json_def Let_def) (simp add: state_fields_def)
qed

theorem Save_atomic_witness:
  "LoadState quiet toy_json ''s'' (snd (Save quiet toy_json ''s'' fresh_state (blank Map.empty)))
    = Inr (stamp fresh_state (blank Map.empty))"
proof -
  obtain r s' w' where run: "Save quiet toy_json ''s'' fresh_state (blank Map.empty) = ((r, s'), w')"
    by (metis prod.collapse)
  have f: "ascii_state fresh_state" by (simp add: ascii_state_def fresh_state_def ascii_def)
  have w: "writable ''s'' (blank Map.empty)" by (simp add: writable_def no_links_def)
  have r: "r = None" by (rule Save_succeeds(1) [OF _ toy_json_laws f w run]) simp
  have "Clean ''s'' = ''s''" by (simp add: Clean_def clean_elems_def Split_def HasPrefix_def)
  from Save_atomic [OF toy_json_laws f _ this run] w r Save_state [OF run] run show ?thesis
    by (simp add: writable_def)
qed

section \<open>The pipeline\<close>

definition todo :: "string list \<Rightarrow> ('x, 'p) phase list \<Rightarrow> ('x, 'p) phase list" where
  "todo skip ps = filter (\<lambda>p. phaseKey (ph_Name p) \<notin> set skip) ps"

text \<open>
  The abstract view of a run: of the phases to do, in order, the first \<open>k\<close> ran and succeeded and
  are recorded; then either all were done, or the next one ran and failed and the failure was
  saved, or the run was cancelled between two phases.
\<close>

definition phase_failed :: "('x, 'p, 'z) env_scheme \<Rightarrow> state_json \<Rightarrow> string \<Rightarrow> ctx \<Rightarrow> ('x, 'p) phase \<Rightarrow> (('x, 'p) world \<Rightarrow> bool)
    \<Rightarrow> goerr \<Rightarrow> State \<Rightarrow> ('x, 'p) world \<Rightarrow> bool" where
  "phase_failed E J path c p good e s' w' \<longleftrightarrow> (\<exists>err w0 w1 s1 r. ph_Run p c w0 = (Some err, w1) \<and> good w0 \<and>
     e = Errorf ''phase %q failed: %w'' [quoted (ph_Name p), err] \<and>
     Save E J path (s1\<lparr>Status := ''failed'', LastError := err\<rparr>) w1 = ((r, s'), w'))"

definition pipeline_outcome :: "('x, 'p, 'z) env_scheme \<Rightarrow> state_json \<Rightarrow> string \<Rightarrow> ctx \<Rightarrow> ('x, 'p) phase list \<Rightarrow> (('x, 'p) world \<Rightarrow> bool)
    \<Rightarrow> State \<Rightarrow> goerr option \<Rightarrow> State \<Rightarrow> ('x, 'p) world \<Rightarrow> bool" where
  "pipeline_outcome E J path c ps good s r s' w' \<longleftrightarrow> (\<exists>k \<le> length ps.
     CompletedPhases s' = foldl add_key (CompletedPhases s) (map phase_key (take k ps)) \<and>
     (case r of
        None \<Rightarrow> k = length ps
      | Some e \<Rightarrow> ctx_err c w' = Some e \<or> (k < length ps \<and> phase_failed E J path c (ps ! k) good e s' w')))"

lemma pipeline_step:
  assumes "pipeline_outcome E J path c ps good s1 r s' w'"
    and "CompletedPhases s1 = add_key (CompletedPhases s) (phase_key p)"
  shows "pipeline_outcome E J path c (p # ps) good s r s' w'"
proof -
  from assms obtain k where "k \<le> length ps" "CompletedPhases s' = foldl add_key (CompletedPhases s1) (map phase_key (take k ps))"
    "case r of None \<Rightarrow> k = length ps
      | Some e \<Rightarrow> ctx_err c w' = Some e \<or> (k < length ps \<and> phase_failed E J path c (ps ! k) good e s' w')"
    by (auto simp: pipeline_outcome_def)
  then show ?thesis
    unfolding pipeline_outcome_def using assms(2)
    by (intro exI [of _ "Suc k"]) (auto split: option.splits)
qed

lemma deploy_loop_outcome:
  assumes "\<And>p. p \<in> set ps \<Longrightarrow> keeps (\<lambda>w w'. good w \<longrightarrow> good w') (ph_Run p c)"
    and "\<And>s w r s' w'. Save E J path s w = ((r, s'), w') \<Longrightarrow> good w \<Longrightarrow> good w'"
    and "\<And>w t. good w \<Longrightarrow> good (w\<lparr>w_clock := t\<rparr>)"
    and "good w" and "deploy_loop E J cfg c path False skip ps (Some s) w = ((r, st), w')"
  shows "\<exists>s'. st = Some s' \<and> good w' \<and> pipeline_outcome E J path c (todo skip ps) good s r s' w'"
  using assms(1,4,5)
proof (induction ps arbitrary: s w)
  case Nil
  then show ?case by (auto simp: pipeline_outcome_def todo_def)
next
  case (Cons p ps)
  show ?case
  proof (cases "phaseKey (ph_Name p) \<in> set skip")
    case True
    with Cons show ?thesis by (simp add: todo_def)
  next
    case False
    then have todo: "todo skip (p # ps) = p # todo skip ps" by (simp add: todo_def)
    obtain f w1 where f: "ph_Run p c w = (f, w1)" by fastforce
    have "good w \<longrightarrow> good (snd (ph_Run p c w))"
      using Cons.prems(1) [of p] unfolding keeps_def by simp
    then have g1: "good w1" using f Cons.prems(2) by simp
    show ?thesis
    proof (cases f)
      case (Some err)
      obtain q s2 w2 where save: "Save E J path (s\<lparr>Status := ''failed'', LastError := err\<rparr>) w1 = ((q, s2), w2)"
        by (metis prod.collapse)
      with Cons.prems(3) False f Some have "st = Some s2" "w' = w2"
        "r = Some (Errorf ''phase %q failed: %w'' [quoted (ph_Name p), err])"
        by (auto simp: save_state_def)
      moreover have "CompletedPhases s2 = CompletedPhases s" using Save_state [OF save] by simp
      moreover have "phase_failed E J path c p good (Errorf ''phase %q failed: %w'' [quoted (ph_Name p), err]) s2 w2"
        unfolding phase_failed_def using f Some Cons.prems(2) save
        by (intro exI [of _ err] exI [of _ w] exI [of _ w1] exI [of _ s] exI [of _ q]) simp
      ultimately show ?thesis
        using assms(2) [OF save g1] unfolding todo pipeline_outcome_def by (auto intro!: exI [of _ 0])
    next
      case None
      obtain q s2 w2 where mark: "MarkCompleted E J path (phaseKey (ph_Name p)) s w1 = ((q, s2), w2)"
        by (metis prod.collapse)
      have s2: "CompletedPhases s2 = add_key (CompletedPhases s) (phase_key p)" and g2: "good w2"
        using Save_state [OF mark [unfolded MarkCompleted_def]] assms(2) [OF mark [unfolded MarkCompleted_def] g1]
        by (auto simp: add_key_def HasCompleted_def phase_key_def)
      note rec = Cons.IH [OF Cons.prems(1)]
      show ?thesis
      proof (cases "StaggerDelay (Config.Deploy cfg) > 0 \<and> ps \<noteq> []")
        case True
        obtain b w3 where wt: "wait E c (StaggerDelay (Config.Deploy cfg)) w2 = (b, w3)" by fastforce
        have "w3 = w2\<lparr>w_clock := w_clock w3\<rparr>"
          using wt wait_until_frame unfolding wait_def by blast
        then have g3: "good w3" using assms(3) [OF g2] by metis
        show ?thesis
        proof (cases b)
          case True2: True
          with Cons.prems(3) False f None mark wt True have
            "deploy_loop E J cfg c path False skip ps (Some s2) w3 = ((r, st), w')"
            by (simp add: mark_phase_def)
          from rec [OF _ g3 this] s2 show ?thesis unfolding todo by (auto intro: pipeline_step)
        next
          case False2: False
          then have "ctx_err c w3 \<noteq> None" using wt by (simp add: wait_done)
          moreover have "r = ctx_err c w3" "st = Some s2" "w' = w3"
            using Cons.prems(3) False f None mark wt True False2 by (auto simp: mark_phase_def)
          ultimately show ?thesis using g3 s2 unfolding todo pipeline_outcome_def
            by (auto intro!: exI [of _ 1])
        qed
      next
        case False2: False
        with Cons.prems(3) False f None mark have
          "deploy_loop E J cfg c path False skip ps (Some s2) w2 = ((r, st), w')"
          by (auto simp: mark_phase_def)
        from rec [OF _ g2 this] s2 show ?thesis unfolding todo by (auto intro: pipeline_step)
      qed
    qed
  qed
qed

text \<open>A run executes the phases that the plan does not skip, in their order and each once, until one fails
  or the run is cancelled: nil means that all of them succeeded, an error is the error of the next one or
  of the context, and the checkpoint lists exactly the ones that succeeded, after the ones it already had.\<close>

theorem deploy_loop_runs_todo:
  assumes "deploy_loop E J cfg c path False skip ps (Some s) w = ((r, st), w')"
  shows "\<exists>s'. st = Some s' \<and> pipeline_outcome E J path c (todo skip ps) (\<lambda>_. True) s r s' w'"
  using deploy_loop_outcome [of ps "\<lambda>_. True" c E J path, OF _ _ _ _ assms] by (simp add: keeps_def)

definition ok_phase :: "string \<Rightarrow> (unit, unit) phase" where
  "ok_phase name = \<lparr>ph_Name = name, ph_Description = [], ph_Run = \<lambda>c w. (None, w)\<rparr>"

definition bad_phase :: "string \<Rightarrow> (unit, unit) phase" where
  "bad_phase name = \<lparr>ph_Name = name, ph_Description = [], ph_Run = \<lambda>c w. (Some ''boom'', w)\<rparr>"

theorem deploy_loop_runs_todo_witness:
  "\<exists>r s' w'. deploy_loop quiet toy_json sample_config None ''s'' False [''a''] [ok_phase ''a'', ok_phase ''b''] (Some fresh_state) (blank Map.empty)
      = ((r, Some s'), w') \<and>
    pipeline_outcome quiet toy_json ''s'' None (todo [''a''] [ok_phase ''a'', ok_phase ''b'']) (\<lambda>_. True) fresh_state r s' w'"
proof -
  obtain r st w' where run: "deploy_loop quiet toy_json sample_config None ''s'' False [''a''] [ok_phase ''a'', ok_phase ''b'']
      (Some fresh_state) (blank Map.empty) = ((r, st), w')" by (metis prod.collapse)
  from deploy_loop_runs_todo [OF this] obtain s' where "st = Some s'"
    and "pipeline_outcome quiet toy_json ''s'' None (todo [''a''] [ok_phase ''a'', ok_phase ''b'']) (\<lambda>_. True) fresh_state r s' w'"
    by blast
  with run show ?thesis by auto
qed

section \<open>Resuming\<close>

lemma foldl_add_key:
  "distinct ks \<Longrightarrow> set xs \<inter> set ks = {} \<Longrightarrow> foldl add_key xs ks = xs @ ks"
  by (induction ks arbitrary: xs) (auto simp: add_key_def)

lemma filter_take_drop:
  "distinct (map f xs) \<Longrightarrow> filter (\<lambda>x. f x \<notin> set (map f (take k xs))) xs = drop k xs"
proof -
  assume d: "distinct (map f xs)"
  have xs: "map f xs = map f (take k xs) @ map f (drop k xs)" by (metis append_take_drop_id map_append)
  with d have "set (map f (take k xs)) \<inter> set (map f (drop k xs)) = {}" by (metis distinct_append)
  then have "filter (\<lambda>x. f x \<notin> set (map f (take k xs))) (take k xs) = []"
    and "filter (\<lambda>x. f x \<notin> set (map f (take k xs))) (drop k xs) = drop k xs"
    by (auto simp: filter_empty_conv filter_id_conv)
  then show ?thesis by (metis append_Nil append_take_drop_id filter_append)
qed

lemma squeeze_chars: "c \<in> set (squeeze b s) \<Longrightarrow> key_char c \<or> c = CHR ''-''"
  by (induction b s rule: squeeze.induct) (auto split: if_splits)

lemma phaseKey_chars: "c \<in> set (phaseKey n) \<Longrightarrow> key_char c \<or> c = CHR ''-''"
  unfolding phaseKey_def trim_dashes_def by (auto dest!: set_dropWhileD squeeze_chars)

lemma ascii_phaseKey: "ascii (phaseKey n)"
  unfolding ascii_def list_all_iff using phaseKey_chars by (fastforce simp: key_char_def is_digit_def)

definition resume_opts :: DeployOpts where
  "resume_opts = \<lparr>SkipVMCreate = False, DryRun = False, FromPhase = [], opt_Resume = True, StateFile = []\<rparr>"


lemma phaseKey_ab: "phaseKey ''a'' = ''a''" "phaseKey ''b'' = ''b''"
  by (simp_all add: phaseKey_def ToLower_def lower_char_def key_char_def trim_dashes_def)


section \<open>Plans\<close>

text \<open>C12. The two phases that create machines have the same name, so the same key. Once the first of them has
  completed, \<open>--resume\<close> skips both: the rest of the run is as with \<open>--skip-vm-create\<close>, and the client nodes are
  never created. The same holds for \<open>--from-phase\<close> with any later phase.\<close>

theorem resume_skips_node_creation:
  assumes "''00-init-vms'' \<in> set (CompletedPhases s)" and "opt_Resume opts" and "FromPhase opts = []"
  shows "\<exists>skip. planRun (BuildPhaseList runs descr opts) opts (Some s) = Inr (skip, False) \<and>
    todo skip (BuildPhaseList runs descr opts) = todo skip (BuildPhaseList runs descr (opts\<lparr>SkipVMCreate := True\<rparr>))"
proof -
  have "phaseKey ''00-init-vms'' = ''00-init-vms''"
    by (simp add: phaseKey_def ToLower_def lower_char_def key_char_def trim_dashes_def is_digit_def)
  then show ?thesis using assms
    by (simp add: planRun_def todo_def BuildPhaseList_def phase_ids_def)
qed

theorem resume_skips_node_creation_witness:
  "todo [''00-init-vms''] (BuildPhaseList (\<lambda>i c (w :: (unit, unit) world). (None, w)) (\<lambda>i. []) resume_opts)
    = todo [''00-init-vms''] (BuildPhaseList (\<lambda>i c w. (None, w)) (\<lambda>i. []) (resume_opts\<lparr>SkipVMCreate := True\<rparr>))"
  using resume_skips_node_creation [of "fresh_state\<lparr>CompletedPhases := [''00-init-vms'']\<rparr>" resume_opts
      "\<lambda>i c (w :: (unit, unit) world). (None, w)" "\<lambda>i. []"]
  by (auto simp: planRun_def resume_opts_def)

lemma todo_takeWhile:
  assumes "distinct (PhaseKeys ps)" and "want \<in> set (PhaseKeys ps)"
  shows "todo (takeWhile (\<lambda>k. k \<noteq> want) (PhaseKeys ps)) ps = dropWhile (\<lambda>p. phase_key p \<noteq> want) ps"
proof -
  let ?n = "length (takeWhile (\<lambda>p. phase_key p \<noteq> want) ps)"
  have tw: "takeWhile (\<lambda>k. k \<noteq> want) (PhaseKeys ps) = map phase_key (take ?n ps)"
    by (simp add: PhaseKeys_def phase_key_def [abs_def] takeWhile_map o_def flip: takeWhile_eq_take)
  have "drop ?n ps = dropWhile (\<lambda>p. phase_key p \<noteq> want) ps"
    by (simp add: dropWhile_eq_drop)
  with tw filter_take_drop [of phase_key ps ?n] assms(1) show ?thesis
    by (simp add: todo_def PhaseKeys_def phase_key_def [abs_def])
qed

text \<open>The plan of a run: \<open>--resume\<close> with \<open>--from-phase\<close> is an error, and so is an unknown phase; where the
  keys are distinct, \<open>--from-phase\<close> leaves the named phase and the ones after it; with neither option
  everything runs and the checkpoint is reset.\<close>

theorem planRun_plan:
  assumes "distinct (PhaseKeys ps)"
  shows "case planRun ps opts prior of
      Inl e \<Rightarrow> FromPhase opts \<noteq> [] \<and> (opt_Resume opts \<or> phaseKey (FromPhase opts) = [] \<or> phaseKey (FromPhase opts) \<notin> set (PhaseKeys ps))
    | Inr (skip, reset) \<Rightarrow> reset = (\<not> opt_Resume opts \<and> FromPhase opts = []) \<and>
        todo skip ps = (if opt_Resume opts then todo (case prior of None \<Rightarrow> [] | Some s \<Rightarrow> CompletedPhases s) ps
          else if FromPhase opts = [] then ps
          else dropWhile (\<lambda>p. phase_key p \<noteq> phaseKey (FromPhase opts)) ps)"
  using todo_takeWhile [OF assms, of "phaseKey (FromPhase opts)"]
  by (auto simp: planRun_def Let_def todo_def [of "[]"])

theorem planRun_plan_witness:
  "planRun [ok_phase ''a'', ok_phase ''b''] (resume_opts\<lparr>opt_Resume := False, FromPhase := ''B''\<rparr>) None = Inr ([''a''], False) \<and>
   todo [''a''] [ok_phase ''a'', ok_phase ''b''] = [ok_phase ''b'']"
proof -
  let ?ps = "[ok_phase ''a'', ok_phase ''b'']" and ?o = "resume_opts\<lparr>opt_Resume := False, FromPhase := ''B''\<rparr>"
  have B: "phaseKey ''B'' = ''b''" by (simp add: phaseKey_def ToLower_def lower_char_def key_char_def trim_dashes_def char_of_eq_iff take_bit_eq_mod)
  have p: "planRun ?ps ?o None = Inr ([''a''], False)"
    by (simp add: planRun_def resume_opts_def B PhaseKeys_def ok_phase_def phaseKey_ab)
  have "distinct (PhaseKeys ?ps)" by (simp add: PhaseKeys_def ok_phase_def phaseKey_ab)
  from planRun_plan [OF this, of ?o None] p show ?thesis
    by (simp add: resume_opts_def B phase_key_def ok_phase_def phaseKey_ab)
qed

text \<open>A dry run changes nothing: it touches no file, runs no command and leaves the checkpoint alone.\<close>

theorem dry_run_pure:
  assumes "DryRun opts"
  shows "snd (Deploy E J cfg L runs descr c opts w) = w"
proof -
  have "deploy_loop E J cfg c path True skip ps None w = ((None, None), w)" for path skip ps
    by (induction ps) auto
  then show ?thesis
    using assms by (auto simp: Deploy_def Let_def run_phases_def save_state_def split: sum.splits)
qed

theorem dry_run_pure_witness:
  "snd (Deploy quiet toy_json sample_config \<lparr>URI = [], UseSudo = False\<rparr> (\<lambda>i c w. (Some ''boom'', w)) (\<lambda>i. []) None
     (resume_opts\<lparr>DryRun := True\<rparr>) (blank Map.empty)) = blank Map.empty"
  by (rule dry_run_pure) (simp add: resume_opts_def)

section \<open>Phase keys\<close>

text \<open>A string that is a key already: key characters and single dashes inside.\<close>

fun dashed :: "bool \<Rightarrow> string \<Rightarrow> bool" where
  "dashed b [] = True"
| "dashed b (c # s) = (if key_char c then dashed False s else c = CHR ''-'' \<and> \<not> b \<and> dashed True s)"

lemma squeeze_dashed: "dashed b (squeeze b s)"
  by (induction b s rule: squeeze.induct) (auto simp: key_char_def is_digit_def)

lemma dashed_squeeze: "dashed b s \<Longrightarrow> squeeze b s = s"
  by (induction b s rule: dashed.induct) (auto split: if_splits)

lemma dashed_weaken: "dashed True s \<Longrightarrow> dashed False s"
  by (cases s) (auto split: if_splits)

lemma dashed_suffix: "dashed b (u @ v) \<Longrightarrow> dashed False v"
proof (induction u arbitrary: b)
  case Nil
  then show ?case by (cases b) (auto intro: dashed_weaken)
qed (auto split: if_splits)

lemma dashed_prefix: "dashed b (u @ v) \<Longrightarrow> dashed b u"
  by (induction b u rule: dashed.induct) (auto split: if_splits)

lemma key_char_lower: "key_char c \<or> c = CHR ''-'' \<Longrightarrow> lower_char c = c"
  by (auto simp: key_char_def is_digit_def lower_char_def)

lemma trim_dashes_front: "\<exists>v. dropWhile (\<lambda>c. c = CHR ''-'') s = trim_dashes s @ v"
proof -
  let ?t = "dropWhile (\<lambda>c. c = CHR ''-'') s"
  have "rev ?t = takeWhile (\<lambda>c. c = CHR ''-'') (rev ?t) @ dropWhile (\<lambda>c. c = CHR ''-'') (rev ?t)" by simp
  then have "?t = rev (dropWhile (\<lambda>c. c = CHR ''-'') (rev ?t)) @ rev (takeWhile (\<lambda>c. c = CHR ''-'') (rev ?t))"
    by (metis rev_append rev_rev_ident)
  then show ?thesis unfolding trim_dashes_def by (rule exI)
qed

lemma trim_dashes_parts: "\<exists>u v. s = u @ trim_dashes s @ v"
proof -
  have "s = takeWhile (\<lambda>c. c = CHR ''-'') s @ dropWhile (\<lambda>c. c = CHR ''-'') s" by simp
  with trim_dashes_front [of s] show ?thesis by metis
qed

lemma trim_dashes_ends: "trim_dashes s \<noteq> [] \<Longrightarrow> hd (trim_dashes s) \<noteq> CHR ''-'' \<and> last (trim_dashes s) \<noteq> CHR ''-''"
proof -
  let ?P = "\<lambda>c. c = CHR ''-''" and ?t = "dropWhile (\<lambda>c. c = CHR ''-'') s"
  assume ne: "trim_dashes s \<noteq> []"
  then have r: "dropWhile ?P (rev ?t) \<noteq> []" by (simp add: trim_dashes_def)
  then have "hd (dropWhile ?P (rev ?t)) \<noteq> CHR ''-''" by (rule hd_dropWhile)
  then have last: "last (trim_dashes s) \<noteq> CHR ''-''" by (simp add: trim_dashes_def last_rev)
  obtain x where t: "?t = trim_dashes s @ x" using trim_dashes_front [of s] by (elim exE)
  have "hd ?t = hd (trim_dashes s)" by (subst t) (simp add: ne)
  moreover have "?t \<noteq> []" by (subst t) (simp add: ne)
  then have "hd ?t \<noteq> CHR ''-''" by (rule hd_dropWhile)
  ultimately show ?thesis using last by (metis (no_types))
qed

lemma trim_dashes_id: "s = [] \<or> hd s \<noteq> CHR ''-'' \<and> last s \<noteq> CHR ''-'' \<Longrightarrow> trim_dashes s = s"
proof (cases "s = []")
  case False
  assume "s = [] \<or> hd s \<noteq> CHR ''-'' \<and> last s \<noteq> CHR ''-''"
  with False have "dropWhile (\<lambda>c. c = CHR ''-'') s = s" "dropWhile (\<lambda>c. c = CHR ''-'') (rev s) = rev s"
    by (simp_all add: dropWhile_eq_self_iff hd_rev)
  then show ?thesis by (simp add: trim_dashes_def)
qed (simp add: trim_dashes_def)

text \<open>The key of a phase name is canonical: it consists of lower-case letters, digits and single dashes
  between them, and taking the key of a key changes nothing, so that a key printed for the operator can be
  given to \<open>--from-phase\<close>.\<close>

theorem phaseKey_canonical:
  "phaseKey (phaseKey name) = phaseKey name \<and> list_all (\<lambda>c. key_char c \<or> c = CHR ''-'') (phaseKey name) \<and>
    dashed False (phaseKey name) \<and> (phaseKey name = [] \<or> key_char (hd (phaseKey name)) \<and> key_char (last (phaseKey name)))"
proof -
  let ?k = "phaseKey name"
  have chars: "\<forall>c \<in> set ?k. key_char c \<or> c = CHR ''-''" using phaseKey_chars by blast
  obtain u v where "squeeze False (ToLower name) = u @ ?k @ v"
    using trim_dashes_parts unfolding phaseKey_def by blast
  with squeeze_dashed [of False "ToLower name"] have d: "dashed False ?k"
    by (metis dashed_prefix dashed_suffix)
  have ends: "?k = [] \<or> hd ?k \<noteq> CHR ''-'' \<and> last ?k \<noteq> CHR ''-''"
    unfolding phaseKey_def using trim_dashes_ends by blast
  have "ToLower ?k = ?k" unfolding ToLower_def using chars key_char_lower by (simp add: map_idI)
  then have "phaseKey ?k = ?k"
    using dashed_squeeze [OF d] trim_dashes_id [OF ends] unfolding phaseKey_def [of ?k] by simp
  with d chars ends show ?thesis by (auto simp: list_all_iff)
qed

end
