(* ===== verification/Parallel.thy ===== *)
theory Parallel
  imports World
begin

text \<open>
  Goroutines. A goroutine is a resumable process: it runs in steps, and between two steps any other
  goroutine may run. The steps lie where the code takes a lock or calls out of the process.

  A group of goroutines with a \<open>sync.WaitGroup\<close> runs under a schedule, the list of the goroutines
  that are given a step, which the environment chooses; whatever is left when the schedule is used up runs
  to its end. Entering a semaphore (a buffered channel) is a step of its own that succeeds only
  below the limit.
\<close>

section \<open>Processes\<close>

datatype ('w, 'r) proc = Return 'r | Step "'w \<Rightarrow> ('w, 'r) proc \<times> 'w"

definition atomic :: "('w \<Rightarrow> 'r \<times> 'w) \<Rightarrow> ('w, 'r) proc" where
  "atomic f = Step (\<lambda>w. case f w of (r, w') \<Rightarrow> (Return r, w'))"

primrec andThen :: "('w, 'a) proc \<Rightarrow> ('a \<Rightarrow> ('w, 'b) proc) \<Rightarrow> ('w, 'b) proc" where
  "andThen (Return r) k = k r"
| "andThen (Step f) k = Step (\<lambda>w. map_prod (\<lambda>p. andThen p k) id (f w))"

text \<open>Running a process with no other goroutine in between.\<close>

primrec run_proc :: "('w, 'r) proc \<Rightarrow> 'w \<Rightarrow> 'r \<times> 'w" where
  "run_proc (Return r) = (\<lambda>w. (r, w))"
| "run_proc (Step f) = (\<lambda>w. case map_prod run_proc id (f w) of (g, w') \<Rightarrow> g w')"

lemma run_atomic [simp]: "run_proc (atomic f) = f"
  by (auto simp: atomic_def fun_eq_iff split: prod.splits)

lemma run_andThen [simp]: "run_proc (andThen p k) w = (case run_proc p w of (r, w') \<Rightarrow> run_proc (k r) w')"
proof (induction p arbitrary: w)
  case (Step f)
  obtain p w' where f: "f w = (p, w')" by fastforce
  then have "(p, w') \<in> range f" by (metis rangeI)
  with Step f show ?case by (simp add: fsts.intros)
qed simp

section \<open>A group of goroutines\<close>

datatype ('w, 'r) thread =
    Waiting "('w, 'r) proc"  \<comment> \<open>before the semaphore\<close>
  | Running "('w, 'r) proc"
  | Released 'r  \<comment> \<open>past the semaphore, its result not yet recorded\<close>
  | Finished

fun is_running :: "('w, 'r) thread \<Rightarrow> bool" where
  "is_running (Running p) = True"
| "is_running _ = False"

fun is_waiting :: "('w, 'r) thread \<Rightarrow> bool" where
  "is_waiting (Waiting p) = True"
| "is_waiting _ = False"

definition running :: "('w, 'r) thread list \<Rightarrow> nat" where
  "running ts = length (filter is_running ts)"

text \<open>The state of the group: the goroutines, the results in the order in which they were recorded, the world.\<close>

type_synonym ('w, 'r) group = "(('w, 'r) thread list \<times> (nat \<times> 'r) list) \<times> 'w"

fun sched_step :: "nat \<Rightarrow> nat \<Rightarrow> ('w, 'r) group \<Rightarrow> ('w, 'r) group" where
  "sched_step lim i ((ts, fin), w) =
     (if i < length ts then
        (case ts ! i of
           Waiting p \<Rightarrow> if running ts < lim then ((ts[i := Running p], fin), w) else ((ts, fin), w)
         | Running p \<Rightarrow> (case p of
               Return r \<Rightarrow> ((ts[i := Released r], fin), w)
             | Step f \<Rightarrow> (case f w of (p', w') \<Rightarrow> ((ts[i := Running p'], fin), w')))
         | Released r \<Rightarrow> ((ts[i := Finished], fin @ [(i, r)]), w)
         | Finished \<Rightarrow> ((ts, fin), w))
      else ((ts, fin), w))"

definition run_sched :: "nat \<Rightarrow> nat list \<Rightarrow> ('w, 'r) group \<Rightarrow> ('w, 'r) group" where
  "run_sched lim sched g = fold (sched_step lim) sched g"

fun finish_thread :: "nat \<Rightarrow> ('w, 'r) group \<Rightarrow> ('w, 'r) group" where
  "finish_thread i ((ts, fin), w) = (case ts ! i of
      Waiting p \<Rightarrow> (case run_proc p w of (r, w') \<Rightarrow> ((ts[i := Finished], fin @ [(i, r)]), w'))
    | Running p \<Rightarrow> (case run_proc p w of (r, w') \<Rightarrow> ((ts[i := Finished], fin @ [(i, r)]), w'))
    | Released r \<Rightarrow> ((ts[i := Finished], fin @ [(i, r)]), w)
    | Finished \<Rightarrow> ((ts, fin), w))"

text \<open>Those past the semaphore first, then the waiting ones, one at a time.\<close>

definition finish_order :: "('w, 'r) thread list \<Rightarrow> nat list" where
  "finish_order ts = filter (\<lambda>i. \<not> is_waiting (ts ! i)) [0..<length ts] @ filter (\<lambda>i. is_waiting (ts ! i)) [0..<length ts]"

definition finish_all :: "('w, 'r) group \<Rightarrow> ('w, 'r) group" where
  "finish_all g = fold finish_thread (finish_order (fst (fst g))) g"

definition start_group :: "('w, 'r) proc list \<Rightarrow> 'w \<Rightarrow> ('w, 'r) group" where
  "start_group ps w = ((map Waiting ps, []), w)"

definition par_exec :: "nat \<Rightarrow> nat list \<Rightarrow> ('w, 'r) proc list \<Rightarrow> 'w \<Rightarrow> (nat \<times> 'r) list \<times> 'w" where
  "par_exec lim sched ps w = (case finish_all (run_sched lim sched (start_group ps w)) of ((ts, fin), w') \<Rightarrow> (fin, w'))"

text \<open>The schedule is one more thing the environment decides; so is the name that \<open>os.CreateTemp\<close> or \<open>os.MkdirTemp\<close> makes of a pattern.\<close>

record ('x, 'p) par_env = "('x, 'p) env" +
  e_sched :: "('x, 'p) world \<Rightarrow> nat list"
  e_temp :: "string \<Rightarrow> ('x, 'p) world \<Rightarrow> string"

definition parallel :: "('x, 'p, 'z) par_env_scheme \<Rightarrow> nat \<Rightarrow> (('x, 'p) world, 'r) proc list \<Rightarrow> ('x, 'p) world
    \<Rightarrow> (nat \<times> 'r) list \<times> ('x, 'p) world" where
  "parallel E lim ps w = par_exec lim (e_sched E w) ps w"

section \<open>At most as many run as the limit says\<close>

lemma running_update:
  assumes "i < length ts"
  shows "running (ts[i := t]) + (if is_running (ts ! i) then 1 else 0) = running ts + (if is_running t then 1 else 0)"
proof -
  have ts: "ts = take i ts @ ts ! i # drop (Suc i) ts" using assms by (rule id_take_nth_drop)
  have "running ts = running (take i ts) + (if is_running (ts ! i) then 1 else 0) + running (drop (Suc i) ts)"
    by (subst ts) (simp add: running_def)
  moreover have "running (ts[i := t]) = running (take i ts) + (if is_running t then 1 else 0) + running (drop (Suc i) ts)"
    using assms by (simp add: upd_conv_take_nth_drop running_def)
  ultimately show ?thesis by simp
qed

lemma sched_step_running:
  assumes "running ts \<le> lim"
  shows "running (fst (fst (sched_step lim i ((ts, fin), w)))) \<le> lim"
proof (cases "i < length ts")
  case True
  have *: "running (ts[i := t]) \<le> lim" if "is_running t \<longrightarrow> is_running (ts ! i) \<or> running ts < lim" for t
    using running_update [OF True, of t] assms that by (auto split: if_splits)
  show ?thesis
  proof (cases "ts ! i")
    case (Running p)
    with True show ?thesis by (cases p) (auto intro!: * split: prod.splits)
  qed (use True assms in \<open>auto intro!: *\<close>)
qed (use assms in simp)

lemma run_sched_running: "running (fst (fst g)) \<le> lim \<Longrightarrow> running (fst (fst (run_sched lim sched g))) \<le> lim"
proof (induction sched arbitrary: g)
  case Nil
  then show ?case by (simp add: run_sched_def)
next
  case (Cons i sched)
  obtain ts fin w where g: "g = ((ts, fin), w)" by (metis surj_pair)
  with Cons.prems have "running (fst (fst (sched_step lim i g))) \<le> lim"
    using sched_step_running [of ts lim i fin w] by simp
  from Cons.IH [OF this] show ?case by (simp add: run_sched_def)
qed

lemma running_start [simp]: "running (map Waiting ps) = 0"
  by (simp add: running_def filter_empty_conv)

section \<open>Every goroutine delivers one result\<close>

definition unfinished :: "('w, 'r) thread list \<Rightarrow> nat set" where
  "unfinished ts = {i. i < length ts \<and> ts ! i \<noteq> Finished}"

definition delivered :: "('w, 'r) group \<Rightarrow> bool" where
  "delivered g \<longleftrightarrow> (case g of ((ts, fin), w) \<Rightarrow>
     distinct (map fst fin) \<and> set (map fst fin) \<inter> unfinished ts = {} \<and>
     set (map fst fin) \<union> unfinished ts = {..<length ts})"

lemma unfinished_in: "i < length ts \<Longrightarrow> ts ! i \<noteq> Finished \<Longrightarrow> i \<in> unfinished ts"
  by (simp add: unfinished_def)

lemma unfinished_finish: "unfinished (ts[i := Finished]) = unfinished ts - {i}"
  unfolding unfinished_def by (intro set_eqI, rename_tac x, case_tac "x = i") auto

lemma unfinished_move: "i \<in> unfinished ts \<Longrightarrow> t \<noteq> Finished \<Longrightarrow> unfinished (ts[i := t]) = unfinished ts"
  unfolding unfinished_def by (intro set_eqI, rename_tac x, case_tac "x = i") auto

lemma delivered_record:
  assumes "delivered ((ts, fin), w)" and i: "i \<in> unfinished ts"
  shows "delivered ((ts[i := Finished], fin @ [(i, r)]), w')"
  using assms by (simp add: delivered_def unfinished_finish) blast

lemma delivered_move:
  "delivered ((ts, fin), w) \<Longrightarrow> i \<in> unfinished ts \<Longrightarrow> t \<noteq> Finished \<Longrightarrow> delivered ((ts[i := t], fin), w')"
  by (simp add: delivered_def unfinished_move)

lemma delivered_world: "delivered ((ts, fin), w) \<Longrightarrow> delivered ((ts, fin), w')"
  by (simp add: delivered_def)

lemma sched_step_delivered:
  assumes "delivered g"
  shows "delivered (sched_step lim i g)"
proof -
  obtain ts fin w where g: "g = ((ts, fin), w)" by (metis surj_pair)
  show ?thesis
  proof (cases "i < length ts")
    case True
    show ?thesis
    proof (cases "ts ! i")
      case (Running p)
      then have "i \<in> unfinished ts" using True by (intro unfinished_in) simp_all
      with True assms Running show ?thesis unfolding g
        by (cases p) (auto intro!: delivered_move split: prod.splits)
    next
      case (Waiting p)
      then have "i \<in> unfinished ts" using True by (intro unfinished_in) simp_all
      with True assms Waiting show ?thesis unfolding g by (auto intro!: delivered_move)
    next
      case (Released r)
      then have "i \<in> unfinished ts" using True by (intro unfinished_in) simp_all
      with True assms Released show ?thesis unfolding g by (auto intro!: delivered_record)
    next
      case Finished
      with True assms show ?thesis unfolding g by simp
    qed
  qed (use assms g in simp)
qed

lemma finish_thread_delivered:
  assumes "delivered ((ts, fin), w)" and "i < length ts"
    and "finish_thread i ((ts, fin), w) = ((ts', fin'), w')"
  shows "delivered ((ts', fin'), w') \<and> unfinished ts' = unfinished ts - {i} \<and> length ts' = length ts"
proof (cases "ts ! i = Finished")
  case True
  with assms show ?thesis by (auto simp: unfinished_def)
next
  case False
  then have "i \<in> unfinished ts" using assms(2) by (intro unfinished_in)
  then show ?thesis using assms False
    by (auto simp: unfinished_finish intro!: delivered_record split: thread.splits prod.splits)
qed


lemma fold_finish_delivered:
  assumes "delivered ((ts, fin), w)" and "set is \<subseteq> {..<length ts}"
    and "fold finish_thread is ((ts, fin), w) = ((ts', fin'), w')"
  shows "delivered ((ts', fin'), w') \<and> unfinished ts' = unfinished ts - set is \<and> length ts' = length ts"
  using assms
proof (induction "is" arbitrary: ts fin w)
  case (Cons i "is")
  obtain ts1 fin1 w1 where 1: "finish_thread i ((ts, fin), w) = ((ts1, fin1), w1)" by (metis surj_pair)
  with finish_thread_delivered [OF Cons.prems(1) _ 1] Cons.prems(2)
  have d: "delivered ((ts1, fin1), w1)" "unfinished ts1 = unfinished ts - {i}" "length ts1 = length ts" by auto
  have "fold finish_thread is ((ts1, fin1), w1) = ((ts', fin'), w')" using 1 Cons.prems(3) by simp
  from Cons.IH [OF d(1) _ this] Cons.prems(2) d show ?case by auto
qed simp

lemma run_sched_delivered: "delivered g \<Longrightarrow> delivered (run_sched lim sched g)"
  unfolding run_sched_def by (induction sched arbitrary: g) (simp_all add: sched_step_delivered)

lemma sched_step_length: "length (fst (fst (sched_step lim i g))) = length (fst (fst g))"
proof -
  obtain ts fin w where "g = ((ts, fin), w)" by (metis surj_pair)
  then show ?thesis by (auto split: thread.splits proc.splits prod.splits)
qed

lemma run_sched_length: "length (fst (fst (run_sched lim sched g))) = length (fst (fst g))"
  unfolding run_sched_def by (induction sched arbitrary: g) (simp_all add: sched_step_length)

lemma set_finish_order [simp]: "set (finish_order ts) = {..<length ts}"
  by (auto simp: finish_order_def)

lemma delivered_start: "delivered (start_group ps w)"
  by (auto simp: delivered_def start_group_def unfinished_def)

text \<open>Whatever the schedule, each goroutine of the group records exactly one result.\<close>

theorem par_exec_complete:
  assumes "par_exec lim sched ps w = (fin, w')"
  shows "distinct (map fst fin) \<and> set (map fst fin) = {..<length ps}"
proof -
  obtain ts0 fin0 w0 where 0: "run_sched lim sched (start_group ps w) = ((ts0, fin0), w0)" by (metis surj_pair)
  have d: "delivered ((ts0, fin0), w0)" using run_sched_delivered [OF delivered_start] 0 by metis
  have len: "length ts0 = length ps" using run_sched_length [of lim sched "start_group ps w"] 0
    by (simp add: start_group_def)
  obtain ts1 where 1: "fold finish_thread (finish_order ts0) ((ts0, fin0), w0) = ((ts1, fin), w')"
    using assms 0 by (auto simp: par_exec_def finish_all_def split: prod.splits)
  from fold_finish_delivered [OF d _ 1]
  have "delivered ((ts1, fin), w')" "unfinished ts1 = {}" "length ts1 = length ps"
    using len by (auto simp: unfinished_def)
  then show ?thesis by (auto simp: delivered_def)
qed

section \<open>What the steps of a process keep and what it can return\<close>

inductive steps_keep :: "('w \<Rightarrow> 'w \<Rightarrow> bool) \<Rightarrow> ('w, 'r) proc \<Rightarrow> bool" for R where
  Return: "steps_keep R (Return r)"
| Step: "(\<And>w. R w (snd (f w))) \<Longrightarrow> (\<And>w. steps_keep R (fst (f w))) \<Longrightarrow> steps_keep R (Step f)"

inductive_cases steps_keep_StepE: "steps_keep R (Step f)"

lemma steps_keep_atomic [keeping]: "keeps R f \<Longrightarrow> steps_keep R (atomic f)"
  by (auto simp: atomic_def keeps_def intro!: steps_keep.intros split: prod.splits) (metis snd_conv)

lemma steps_keep_andThen [keeping]:
  "steps_keep R p \<Longrightarrow> (\<And>r. steps_keep R (k r)) \<Longrightarrow> steps_keep R (andThen p k)"
  by (induction rule: steps_keep.induct) (auto intro!: steps_keep.intros)

lemmas steps_keep_Return [keeping] = steps_keep.Return

fun thread_keeps :: "('w \<Rightarrow> 'w \<Rightarrow> bool) \<Rightarrow> ('w, 'r) thread \<Rightarrow> bool" where
  "thread_keeps R (Waiting p) = steps_keep R p"
| "thread_keeps R (Running p) = steps_keep R p"
| "thread_keeps R _ = True"

definition group_keeps :: "('w \<Rightarrow> 'w \<Rightarrow> bool) \<Rightarrow> 'w \<Rightarrow> ('w, 'r) group \<Rightarrow> bool" where
  "group_keeps R w0 g \<longleftrightarrow> (\<forall>t \<in> set (fst (fst g)). thread_keeps R t) \<and> R w0 (snd g)"

context world_order
begin

lemma run_proc_keeps: "steps_keep R p \<Longrightarrow> keeps R (run_proc p)"
proof (induction rule: steps_keep.induct)
  case (Return r)
  then show ?case by (simp add: keeps_def refl)
next
  case (Step f)
  show ?case
  proof (rule keepsI)
    fix w r w' assume run: "run_proc (Step f) w = (r, w')"
    obtain p w1 where f: "f w = (p, w1)" by fastforce
    with run have "run_proc p w1 = (r, w')" by simp
    with Step.IH [of w] f have "R w1 w'" by (auto dest: keepsD)
    moreover have "R w w1" using Step.hyps(1) [of w] f by simp
    ultimately show "R w w'" by (rule trans [rotated])
  qed
qed

lemma sched_step_keeps: "group_keeps R w0 g \<Longrightarrow> group_keeps R w0 (sched_step lim i g)"
proof -
  assume g: "group_keeps R w0 g"
  obtain ts fin w where [simp]: "g = ((ts, fin), w)" by (metis surj_pair)
  have mem: "i < length ts \<Longrightarrow> thread_keeps R (ts ! i)" using g by (simp add: group_keeps_def)
  have upd: "group_keeps R w0 ((ts[i := t], fin'), w')" if "thread_keeps R t" "R w w'" for t fin' w'
    using g that trans by (auto simp: group_keeps_def dest!: set_update_subset_insert [THEN subsetD]) 
  show ?thesis
  proof (cases "i < length ts")
    case True
    note m = mem [OF True]
    show ?thesis
    proof (cases "ts ! i")
      case (Running p)
      show ?thesis
      proof (cases p)
        case (Step f)
        obtain p' w' where "f w = (p', w')" by fastforce
        moreover have "R w (snd (f w))" "steps_keep R (fst (f w))"
          using m Running Step by (auto elim: steps_keep_StepE)
        ultimately show ?thesis using True Running Step by (auto intro!: upd)
      qed (use True Running in \<open>auto intro!: upd refl\<close>)
    qed (use True m g in \<open>auto intro!: upd refl\<close>)
  qed (use g in simp)
qed

lemma finish_thread_keeps: "group_keeps R w0 g \<Longrightarrow> i < length (fst (fst g)) \<Longrightarrow> group_keeps R w0 (finish_thread i g)"
proof -
  assume g: "group_keeps R w0 g" and i: "i < length (fst (fst g))"
  obtain ts fin w where [simp]: "g = ((ts, fin), w)" by (metis surj_pair)
  have m: "thread_keeps R (ts ! i)" using g i by (simp add: group_keeps_def)
  have upd: "group_keeps R w0 ((ts[i := Finished], fin'), w')" if "R w w'" for fin' w'
    using g that trans by (auto simp: group_keeps_def dest!: set_update_subset_insert [THEN subsetD])
  show ?thesis using m g
    by (cases "ts ! i") (auto intro!: upd refl dest: keepsD [OF run_proc_keeps] split: prod.splits)
qed

lemma par_exec_keeps:
  assumes "\<forall>p \<in> set ps. steps_keep R p"
  shows "keeps R (par_exec lim sched ps)"
proof (rule keepsI)
  fix w fin w' assume run: "par_exec lim sched ps w = (fin, w')"
  have "group_keeps R w (start_group ps w)" using assms refl by (simp add: group_keeps_def start_group_def)
  then have 0: "group_keeps R w (run_sched lim sched (start_group ps w))"
    unfolding run_sched_def by (induction sched rule: rev_induct) (simp_all add: sched_step_keeps)
  have "group_keeps R w (fold finish_thread is g)"
    if "group_keeps R w g" "set is \<subseteq> {..<length (fst (fst g))}" for "is" and g :: "('w, 'a) group"
    using that
  proof (induction "is" arbitrary: g)
    case (Cons i "is")
    have "length (fst (fst (finish_thread i g))) = length (fst (fst g))"
    proof -
      obtain ts fin w where "g = ((ts, fin), w)" by (metis surj_pair)
      then show ?thesis by (auto split: thread.splits prod.splits)
    qed
    with Cons show ?case by (auto intro!: Cons.IH finish_thread_keeps)
  qed simp
  from this [OF 0, of "finish_order (fst (fst (run_sched lim sched (start_group ps w))))"]
  show "R w w'" using run by (auto simp: par_exec_def finish_all_def group_keeps_def split: prod.splits)
qed

end

lemma parallel_issues [keeping]:
  "\<forall>p \<in> set ps. steps_keep (extends P) p \<Longrightarrow> keeps (extends P) (parallel E lim ps)"
  using ext.par_exec_keeps unfolding keeps_def parallel_def by blast

lemma parallel_later [keeping]: "\<forall>p \<in> set ps. steps_keep later p \<Longrightarrow> keeps later (parallel E lim ps)"
  using clk.par_exec_keeps unfolding keeps_def parallel_def by blast

lemmas run_issues = ext.run_proc_keeps
lemmas run_later = clk.run_proc_keeps


section \<open>What a goroutine is responsible for\<close>

text \<open>
  Resources that the shared state does not account for, \<open>lost w\<close>, must be in the hands of some goroutine.
  \<open>owns lost Q H p\<close>: when \<open>p\<close> starts with the resources \<open>H\<close> in its hands, each of its steps leaves nothing unaccounted for
  but what it then holds, and it returns a result \<open>r\<close> holding \<open>H'\<close> only if \<open>Q r H'\<close>. The other goroutines
  can change the state in between as they like.
\<close>

inductive owns :: "('w \<Rightarrow> 'a set) \<Rightarrow> ('r \<Rightarrow> 'a set \<Rightarrow> bool) \<Rightarrow> 'a set \<Rightarrow> ('w, 'r) proc \<Rightarrow> bool"
  for lost Q where
  Return: "Q r H \<Longrightarrow> owns lost Q H (Return r)"
| Step: "(\<And>w. \<exists>H'. owns lost Q H' (fst (f w)) \<and> lost (snd (f w)) \<subseteq> (lost w - H) \<union> H') \<Longrightarrow> owns lost Q H (Step f)"

inductive_cases owns_ReturnE: "owns lost Q H (Return r)"
inductive_cases owns_StepE: "owns lost Q H (Step f)"

named_theorems owning

lemma owns_Return [owning]: "Q r H \<Longrightarrow> owns lost Q H (Return r)"
  by (rule owns.Return)

lemma owns_atomic:
  assumes "\<And>w r w'. f w = (r, w') \<Longrightarrow> \<exists>H'. Q r H' \<and> lost w' \<subseteq> (lost w - H) \<union> H'"
  shows "owns lost Q H (atomic f)"
  unfolding atomic_def
proof (rule owns.Step)
  fix w
  obtain r w' where f: "f w = (r, w')" by fastforce
  from assms [OF this] obtain H' where "Q r H'" "lost w' \<subseteq> (lost w - H) \<union> H'" by blast
  then show "\<exists>H'. owns lost Q H' (fst (case f w of (r, w') \<Rightarrow> (Return r, w'))) \<and>
      lost (snd (case f w of (r, w') \<Rightarrow> (Return r, w'))) \<subseteq> (lost w - H) \<union> H'"
    unfolding f by (intro exI [of _ H']) (simp add: owns.Return)
qed

lemma owns_andThen:
  assumes "owns lost P H p" and "\<And>r H. P r H \<Longrightarrow> owns lost Q H (k r)"
  shows "owns lost Q H (andThen p k)"
  using assms(1)
proof (induction rule: owns.induct)
  case (Return r H)
  then show ?case using assms(2) by simp
next
  case (Step f H)
  have "\<exists>H'. owns lost Q H' (andThen (fst (f w)) k) \<and> lost (snd (f w)) \<subseteq> (lost w - H) \<union> H'" for w
    using Step by blast
  then show ?case by (auto intro!: owns.Step)
qed

lemma owns_run:
  "owns lost Q H p \<Longrightarrow> run_proc p w = (r, w') \<Longrightarrow> \<exists>H'. Q r H' \<and> lost w' \<subseteq> (lost w - H) \<union> H'"
proof (induction arbitrary: w rule: owns.induct)
  case (Return r' H)
  then show ?case by (intro exI [of _ H]) auto
next
  case (Step f H)
  obtain p w1 where f: "f w = (p, w1)" by fastforce
  from Step.IH [of w] f obtain H1
    where IH: "\<And>v. run_proc p v = (r, w') \<Longrightarrow> \<exists>H'. Q r H' \<and> lost w' \<subseteq> (lost v - H1) \<union> H'"
      and 1: "lost w1 \<subseteq> (lost w - H) \<union> H1"
    by auto
  have "run_proc p w1 = (r, w')" using Step.prems f by simp
  from IH [OF this] 1 show ?case by blast
qed

fun thread_owns :: "('w \<Rightarrow> 'a set) \<Rightarrow> ('r \<Rightarrow> bool) \<Rightarrow> 'a set \<Rightarrow> ('w, 'r) thread \<Rightarrow> bool" where
  "thread_owns lost R H (Waiting p) = owns lost (\<lambda>r H. H = {} \<and> R r) H p"
| "thread_owns lost R H (Running p) = owns lost (\<lambda>r H. H = {} \<and> R r) H p"
| "thread_owns lost R H (Released r) = (H = {} \<and> R r)"
| "thread_owns lost R H Finished = (H = {})"

definition group_owns :: "('w \<Rightarrow> 'a set) \<Rightarrow> (nat \<Rightarrow> 'r \<Rightarrow> bool) \<Rightarrow> ('w, 'r) group \<Rightarrow> bool" where
  "group_owns lost R g \<longleftrightarrow> (case g of ((ts, fin), w) \<Rightarrow>
     (\<exists>Hf. (\<forall>i < length ts. thread_owns lost (R i) (Hf i) (ts ! i)) \<and> lost w \<subseteq> (\<Union>i < length ts. Hf i)) \<and>
     (\<forall>(i, r) \<in> set fin. R i r))"

text \<open>One goroutine moves: it replaces its own share.\<close>

lemma group_owns_move:
  assumes g: "(\<forall>j < length ts. thread_owns lost (R j) (Hf j) (ts ! j))" "lost w \<subseteq> (\<Union>j < length ts. Hf j)"
    and i: "i < length ts" and t: "thread_owns lost (R i) H' t" and sub: "lost w' \<subseteq> (lost w - Hf i) \<union> H'"
    and fin: "\<forall>(j, r) \<in> set fin. R j r"
  shows "group_owns lost R ((ts[i := t], fin), w')"
proof -
  have "\<forall>j < length (ts[i := t]). thread_owns lost (R j) ((Hf(i := H')) j) (ts[i := t] ! j)"
    using g(1) t by (simp add: nth_list_update)
  moreover have "lost w' \<subseteq> (\<Union>j < length (ts[i := t]). (Hf(i := H')) j)"
  proof
    fix a assume "a \<in> lost w'"
    with sub consider "a \<in> lost w" "a \<notin> Hf i" | "a \<in> H'" by blast
    then show "a \<in> (\<Union>j < length (ts[i := t]). (Hf(i := H')) j)"
    proof cases
      case 1
      with g(2) obtain j where "j < length ts" "a \<in> Hf j" by blast
      moreover have "j \<noteq> i" using 1 calculation by blast
      ultimately show ?thesis by auto
    qed (use i in auto)
  qed
  ultimately show ?thesis unfolding group_owns_def using fin by blast
qed

lemma sched_step_owns:
  assumes "group_owns lost R g"
  shows "group_owns lost R (sched_step lim i g)"
proof -
  obtain ts fin w where g: "g = ((ts, fin), w)" by (metis surj_pair)
  with assms obtain Hf where Hf: "\<forall>j < length ts. thread_owns lost (R j) (Hf j) (ts ! j)" "lost w \<subseteq> (\<Union>j < length ts. Hf j)"
    and fin: "\<forall>(j, r) \<in> set fin. R j r" unfolding group_owns_def by auto
  show ?thesis
  proof (cases "i < length ts")
    case True
    note mv = group_owns_move [OF Hf True] and h = Hf(1) [rule_format, OF True]
    show ?thesis
    proof (cases "ts ! i")
      case (Waiting p)
      with True assms g fin h show ?thesis by (auto intro!: mv)
    next
      case (Running p)
      show ?thesis
      proof (cases p)
        case (Return r)
        with Running True g fin h show ?thesis by (auto intro!: mv elim!: owns_ReturnE)
      next
        case (Step f)
        obtain p' w' where f: "f w = (p', w')" by fastforce
        from h Running Step have "owns lost (\<lambda>r H. H = {} \<and> R i r) (Hf i) (Step f)" by simp
        then have "\<exists>H'. owns lost (\<lambda>r H. H = {} \<and> R i r) H' (fst (f w)) \<and> lost (snd (f w)) \<subseteq> (lost w - Hf i) \<union> H'"
          by (rule owns_StepE) blast
        with f obtain H' where "owns lost (\<lambda>r H. H = {} \<and> R i r) H' p'" "lost w' \<subseteq> (lost w - Hf i) \<union> H'" by auto
        with Running Step True g f fin show ?thesis by (auto intro!: mv [of H'])
      qed
    next
      case (Released r)
      with True g fin h show ?thesis by (auto intro!: mv)
    next
      case Finished
      with True assms g show ?thesis by simp
    qed
  qed (use assms g in simp)
qed

lemma finish_thread_owns:
  assumes "group_owns lost R g" and i: "i < length (fst (fst g))"
  shows "group_owns lost R (finish_thread i g)"
proof -
  obtain ts fin w where g: "g = ((ts, fin), w)" by (metis surj_pair)
  with assms obtain Hf where Hf: "\<forall>j < length ts. thread_owns lost (R j) (Hf j) (ts ! j)" "lost w \<subseteq> (\<Union>j < length ts. Hf j)"
    and fin: "\<forall>(j, r) \<in> set fin. R j r" unfolding group_owns_def by auto
  have i: "i < length ts" using i g by simp
  note mv = group_owns_move [OF Hf i] and h = Hf(1) [rule_format, OF i]
  have run: "group_owns lost R (case run_proc p w of (r, w') \<Rightarrow> ((ts[i := Finished], fin @ [(i, r)]), w'))"
    if "owns lost (\<lambda>r H. H = {} \<and> R i r) (Hf i) p" for p
  proof -
    obtain r w' where r: "run_proc p w = (r, w')" by fastforce
    from owns_run [OF that r] have "R i r" "lost w' \<subseteq> (lost w - Hf i) \<union> {}" by auto
    with r fin show ?thesis by (auto intro!: mv)
  qed
  show ?thesis
  proof (cases "ts ! i")
    case (Released r)
    with i g fin h show ?thesis by (auto intro!: mv)
  next
    case (Waiting p)
    with run [of p] h g show ?thesis by simp
  next
    case (Running p)
    with run [of p] h g show ?thesis by simp
  next
    case Finished
    with assms g show ?thesis by simp
  qed
qed

lemma finish_thread_length: "length (fst (fst (finish_thread i g))) = length (fst (fst g))"
proof -
  obtain ts fin w where "g = ((ts, fin), w)" by (metis surj_pair)
  then show ?thesis by (auto split: thread.splits prod.splits)
qed

text \<open>When every goroutine gives back what it holds, the group loses nothing; and each of its results satisfies what
  its goroutine guarantees.\<close>

theorem par_exec_owns:
  assumes ps: "\<And>i. i < length ps \<Longrightarrow> owns lost (\<lambda>r H. H = {} \<and> R i r) {} (ps ! i)"
    and start: "lost w = {}" and run: "par_exec lim sched ps w = (fin, w')"
  shows "lost w' = {} \<and> (\<forall>(i, r) \<in> set fin. R i r)"
proof -
  have "group_owns lost R (start_group ps w)"
    using ps start unfolding group_owns_def start_group_def by (auto intro!: exI [of _ "\<lambda>i. {}"])
  then have 0: "group_owns lost R (run_sched lim sched (start_group ps w))"
    unfolding run_sched_def by (induction sched rule: rev_induct) (simp_all add: sched_step_owns)
  have fold: "group_owns lost R (fold finish_thread is g)"
    if "group_owns lost R g" "set is \<subseteq> {..<length (fst (fst g))}" for "is" g
    using that
  proof (induction "is" arbitrary: g)
    case (Cons i "is")
    then have "group_owns lost R (finish_thread i g)" by (intro finish_thread_owns) auto
    with Cons.IH [of "finish_thread i g"] Cons.prems(2) show ?case by (simp add: finish_thread_length)
  qed simp
  let ?g = "run_sched lim sched (start_group ps w)"
  obtain ts0 fin0 w0 where g0: "?g = ((ts0, fin0), w0)" by (metis surj_pair)
  obtain ts where 1: "fold finish_thread (finish_order ts0) ((ts0, fin0), w0) = ((ts, fin), w')"
    using run g0 by (auto simp: par_exec_def finish_all_def split: prod.splits)
  have "delivered ((ts0, fin0), w0)" using run_sched_delivered [OF delivered_start] g0 by metis
  from fold_finish_delivered [OF this _ 1] have "unfinished ts = {}" by (auto simp: unfinished_def)
  then have all_done: "\<forall>i < length ts. ts ! i = Finished" by (auto simp: unfinished_def)
  have "group_owns lost R ((ts, fin), w')" using fold [of "((ts0, fin0), w0)" "finish_order ts0"] 0 1 g0 by simp
  then obtain Hf where "\<forall>i < length ts. Hf i = {}" "lost w' \<subseteq> (\<Union>i < length ts. Hf i)" "\<forall>(i, r) \<in> set fin. R i r"
    unfolding group_owns_def using all_done by auto
  then show ?thesis by auto
qed

end
