(* ===== verification/Ssh.thy ===== *)
theory Ssh
  imports Parallel Net Paths
begin

text \<open>
  \<open>internal/ssh\<close>: the pool of SSH connections (\<open>client.go\<close>) and the operations on several hosts at once
  (\<open>parallel.go\<close>). The pool is shared by the goroutines, so it lives in \<^const>\<open>w_heap\<close> and every operation is a
  process whose steps are the critical sections under the mutex and the calls out of the process.

  The SSH, SFTP and \<open>known_hosts\<close> libraries are not part of the repository. What they answer is a field
  of \<open>ssh_env\<close>: the handshake, the sessions, the result of a remote command, the SFTP operations, the \<open>known_hosts\<close>
  parser. Connections are numbered in the order in which they were established.
\<close>

section \<open>The pool and its environment\<close>

datatype kh_answer = KhOk | KhUnknown | KhError goerr

type_synonym kh_callback = "string \<Rightarrow> string option \<Rightarrow> string \<Rightarrow> kh_answer"

record ClientConfig =
  cc_User :: string
  cc_Signer :: string
  cc_Timeout :: int

record Pool =
  keyPath :: string
  p_user :: string
  knownHostsPath :: string
  clients :: "(string \<times> nat) list"
  p_config :: "ClientConfig option"
  connectTimeout :: int
  knownHostsCallback :: "kh_callback option"
  evicted :: "nat list"

record PoolOptions =
  User :: string
  KnownHostsFile :: string
  ConnectTimeout :: int

text \<open>
  A handshake fails before the server shows its key, or shows it (with the address of the peer) and
  ends with the outcome of the authentication. A remote command ends normally, with an exit status,
  or otherwise (connection lost).
\<close>

datatype handshake = NoConnect goerr | ServerKey "string option" string "goerr option"

datatype outcome = RunOk | RunExit int goerr | RunOther goerr

datatype sftpop =
    SOpenFile string
  | SChmod string nat
  | SWrite string string
  | SClose string
  | SRemove string
  | SPosixRename string string
  | SMkdirAll string

record run_result =
  rr_stdout :: string
  rr_stderr :: "string list"
  rr_time :: nat

record visit =
  v_path :: string
  v_dir :: bool
  v_regular :: bool
  v_link :: "(goerr + string) option"
  v_mode :: nat
  v_err :: "goerr option"

record tar_entry =
  te_name :: string
  te_link :: string
  te_mode :: nat
  te_data :: string

type_synonym 'x sworld = "('x, Pool) world"

record 'x ssh_env = "('x, Pool) par_env" +
  s_parseKey :: "string \<Rightarrow> goerr + string"
  s_dial :: "string \<Rightarrow> ClientConfig \<Rightarrow> 'x sworld \<Rightarrow> handshake \<times> nat"
  s_refused :: "goerr \<Rightarrow> goerr"
  s_khParse :: "string \<Rightarrow> goerr + kh_callback"
  s_khNormalize :: "string \<Rightarrow> string"
  s_khLine :: "string \<Rightarrow> string \<Rightarrow> string"
  s_session :: "nat \<Rightarrow> 'x sworld \<Rightarrow> goerr option \<times> nat"
  s_run :: "nat \<Rightarrow> string \<Rightarrow> (string \<times> goerr option) option \<Rightarrow> 'x sworld \<Rightarrow> (run_result \<times> outcome) \<times> 'x"
  s_cut :: "nat \<Rightarrow> string \<Rightarrow> (string \<times> goerr option) option \<Rightarrow> 'x sworld \<Rightarrow> run_result \<times> 'x"
  s_sftp :: "nat \<Rightarrow> 'x sworld \<Rightarrow> goerr option \<times> nat"
  s_op :: "nat \<Rightarrow> sftpop \<Rightarrow> 'x sworld \<Rightarrow> goerr option \<times> nat \<times> 'x"
  s_open :: "nat \<Rightarrow> string \<Rightarrow> 'x sworld \<Rightarrow> goerr option"
  s_read :: "nat \<Rightarrow> string \<Rightarrow> nat \<Rightarrow> 'x sworld \<Rightarrow> goerr + string"
  s_random :: "'x sworld \<Rightarrow> goerr + string"
  s_walk :: "string \<Rightarrow> 'x sworld \<Rightarrow> visit list"
  s_tar :: "tar_entry list \<Rightarrow> string"

section \<open>Captured stderr\<close>

definition maxCapturedStderr :: nat where
  "maxCapturedStderr = 64 * 1024"

definition maxRemoteFileRead :: nat where
  "maxRemoteFileRead = 32 * 2 ^ 20"

record cappedBuffer =
  cb_buf :: string
  truncated :: bool

definition capped_empty :: cappedBuffer where
  "capped_empty = \<lparr>cb_buf = [], truncated = False\<rparr>"

definition capped_Write :: "string \<Rightarrow> cappedBuffer \<Rightarrow> cappedBuffer" where
  "capped_Write p b = (let remaining = int maxCapturedStderr - int (length (cb_buf b)) in
     if remaining > 0 then
       (if int (length p) > remaining
        then b\<lparr>cb_buf := cb_buf b @ take (nat remaining) p, truncated := True\<rparr>
        else b\<lparr>cb_buf := cb_buf b @ p\<rparr>)
     else if length p > 0 then b\<lparr>truncated := True\<rparr> else b)"

definition truncation_mark :: string where
  "truncation_mark = nl # ''[stderr truncated at 64 KiB]''"

definition capped_String :: "cappedBuffer \<Rightarrow> string" where
  "capped_String b = cb_buf b @ (if truncated b then truncation_mark else [])"

definition captured :: "string list \<Rightarrow> string" where
  "captured chunks = capped_String (fold capped_Write chunks capped_empty)"

section \<open>Commands with and without sudo\<close>

definition shellQuote :: "string \<Rightarrow> string" where
  "shellQuote s = [squote] @ replace_char squote [squote, bslash, squote, squote] s @ [squote]"

definition elevated :: "Pool \<Rightarrow> bool" where
  "elevated p \<longleftrightarrow> p_user p \<noteq> [] \<and> p_user p \<noteq> ''root''"

definition remoteCommand :: "Pool \<Rightarrow> string \<Rightarrow> string" where
  "remoteCommand p cmd = (if \<not> elevated p then cmd else ''sudo -n -H bash -c '' @ shellQuote cmd)"

definition ensurePort :: "string \<Rightarrow> string \<Rightarrow> string" where
  "ensurePort host defaultPort = (if split_host_port_ok host then host else JoinHostPort host defaultPort)"

section \<open>Keys and host keys\<close>

definition set_pool :: "(Pool \<Rightarrow> Pool) \<Rightarrow> 'x sworld \<Rightarrow> 'x sworld" where
  "set_pool f w = w\<lparr>w_heap := f (w_heap w)\<rparr>"

definition initKey :: "('x, 'z) ssh_env_scheme \<Rightarrow> 'x sworld \<Rightarrow> goerr option \<times> 'x sworld" where
  "initKey E w = (let p = w_heap w in case ReadFile E (keyPath p) w of
      Inl e \<Rightarrow> (Some (Errorf ''failed to read private key: %w'' [perr_msg e]), w)
    | Inr keyBytes \<Rightarrow> (case s_parseKey E keyBytes of
          Inl e \<Rightarrow> (Some (Errorf ''failed to parse private key: %w'' [e]), w)
        | Inr signer \<Rightarrow> (None, set_pool (\<lambda>p. p\<lparr>p_config :=
            Some \<lparr>cc_User = p_user p, cc_Signer = signer, cc_Timeout = connectTimeout p\<rparr>\<rparr>) w)))"

definition empty_pool :: "string \<Rightarrow> PoolOptions \<Rightarrow> Pool" where
  "empty_pool path opts = (let user = TrimSpace (User opts); user = (if user = [] then ''root'' else user) in
     \<lparr>keyPath = path, p_user = user, knownHostsPath = KnownHostsFile opts, clients = [], p_config = None,
      connectTimeout = ConnectTimeout opts, knownHostsCallback = None, evicted = []\<rparr>)"

definition NewPoolWithOptions :: "('x, 'z) ssh_env_scheme \<Rightarrow> string \<Rightarrow> PoolOptions \<Rightarrow> 'x sworld \<Rightarrow> goerr option \<times> 'x sworld" where
  "NewPoolWithOptions E path opts w = (let w1 = set_pool (\<lambda>p. empty_pool path opts) w in
     case Stat E path w1 of
       Inr n \<Rightarrow> initKey E w1
     | Inl e \<Rightarrow> (None, w1))"

definition NewPool :: "('x, 'z) ssh_env_scheme \<Rightarrow> string \<Rightarrow> int \<Rightarrow> 'x sworld \<Rightarrow> goerr option \<times> 'x sworld" where
  "NewPool E path timeout = NewPoolWithOptions E path \<lparr>User = [], KnownHostsFile = [], ConnectTimeout = timeout\<rparr>"

definition unknown_host :: kh_callback where
  "unknown_host h r k = KhUnknown"

definition knownhosts_New :: "('x, 'z) ssh_env_scheme \<Rightarrow> string \<Rightarrow> 'x sworld \<Rightarrow> goerr + kh_callback" where
  "knownhosts_New E path w = (case ReadFile E path w of
      Inl e \<Rightarrow> Inl (perr_msg e)
    | Inr d \<Rightarrow> s_khParse E d)"

definition loadKnownHostsCallback :: "('x, 'z) ssh_env_scheme \<Rightarrow> 'x sworld \<Rightarrow> goerr + kh_callback" where
  "loadKnownHostsCallback E w = (let path = knownHostsPath (w_heap w) in
     if path = [] then Inr unknown_host
     else case Stat E path w of
       Inl e \<Rightarrow> if IsNotExist e then Inr unknown_host
                 else Inl (Errorf ''failed to stat known_hosts %s: %w'' [path, perr_msg e])
     | Inr n \<Rightarrow> (case knownhosts_New E path w of
           Inl e \<Rightarrow> Inl (Errorf ''failed to load known_hosts %s: %w'' [path, e])
         | Inr cb \<Rightarrow> Inr cb))"

text \<open>\<open>filepath.Dir\<close>: the cleaned text up to the last slash.\<close>

definition path_Dir :: "string \<Rightarrow> string" where
  "path_Dir s = Clean (rev (dropWhile (\<lambda>c. c \<noteq> CHR ''/'') (rev s)))"

definition reload_callback :: "('x, 'z) ssh_env_scheme \<Rightarrow> 'x sworld \<Rightarrow> 'x sworld" where
  "reload_callback E w = (case knownhosts_New E (knownHostsPath (w_heap w)) w of
      Inl e \<Rightarrow> w
    | Inr cb \<Rightarrow> set_pool (\<lambda>p. p\<lparr>knownHostsCallback := Some cb\<rparr>) w)"

definition trustHostKey :: "('x, 'z) ssh_env_scheme \<Rightarrow> string \<Rightarrow> string option \<Rightarrow> string \<Rightarrow> 'x sworld \<Rightarrow> goerr option \<times> 'x sworld" where
  "trustHostKey E hostname remote key w =
     (let path = knownHostsPath (w_heap w);
          addr = (case remote of None \<Rightarrow> hostname | Some r \<Rightarrow> r);
          line = s_khLine E (s_khNormalize E addr) key
      in if path = [] then (None, w)
         else case do_op E (MkdirAll (path_Dir path) 448) w of
           (Some e, w1) \<Rightarrow> (Some (Errorf ''failed to create known_hosts directory: %w'' [perr_msg e]), w1)
         | (None, w1) \<Rightarrow> (case do_op E (AppendFile path [] 384) w1 of
             (Some e, w2) \<Rightarrow> (Some (Errorf ''failed to open known_hosts %s: %w'' [path, perr_msg e]), w2)
           | (None, w2) \<Rightarrow> (case do_op E (AppendFile path (line @ [nl]) 384) w2 of
               (werr, w3) \<Rightarrow> (case do_op E (CloseFile path) w3 of
                 (cerr, w4) \<Rightarrow>
                   (case werr of
                      Some e \<Rightarrow> (Some (Errorf ''failed to persist host key for %s: %w'' [hostname, perr_msg e]), w4)
                    | None \<Rightarrow> (case cerr of
                        Some e \<Rightarrow> (Some (Errorf ''failed to close known_hosts %s: %w'' [path, perr_msg e]), w4)
                      | None \<Rightarrow> (None, reload_callback E w4)))))))"

text \<open>The callback in the pool, loaded on the first use.\<close>

definition verifyHostKey :: "('x, 'z) ssh_env_scheme \<Rightarrow> string \<Rightarrow> string option \<Rightarrow> string \<Rightarrow> 'x sworld \<Rightarrow> goerr option \<times> 'x sworld" where
  "verifyHostKey E hostname remote key w =
     (case (case knownHostsCallback (w_heap w) of Some cb \<Rightarrow> Inr cb | None \<Rightarrow> loadKnownHostsCallback E w) of
        Inl e \<Rightarrow> (Some e, w)
      | Inr cb \<Rightarrow> (let w1 = set_pool (\<lambda>p. p\<lparr>knownHostsCallback := Some cb\<rparr>) w in
          case cb hostname remote key of
            KhOk \<Rightarrow> (None, w1)
          | KhUnknown \<Rightarrow> trustHostKey E hostname remote key w1
          | KhError e \<Rightarrow> (Some (Errorf ''SSH host key verification failed for %s: %w'' [hostname, e]), w1)))"

end
