(* ===== verification/SshRun.thy ===== *)
theory SshRun
  imports Ssh Retry
begin

text \<open>
  Connections, remote commands and the operations on several hosts (\<open>client.go\<close> and \<open>parallel.go\<close> of \<open>internal/ssh\<close>).
  A connection is looked up, dialled and put in the pool in separate steps, so two goroutines can dial the same host.
\<close>

type_synonym ('x, 'r) sproc = "('x sworld, 'r) proc"

section \<open>Connections\<close>

fun is_dial :: "event \<Rightarrow> bool" where
  "is_dial (Dial a i) = True"
| "is_dial _ = False"

definition dials :: "('x, 'p) world \<Rightarrow> nat" where
  "dials w = length (filter is_dial (w_trace w))"

definition elapse :: "nat \<Rightarrow> ('x, 'p) world \<Rightarrow> ('x, 'p) world" where
  "elapse d w = w\<lparr>w_clock := w_clock w + int d\<rparr>"

definition established :: "string \<Rightarrow> 'x sworld \<Rightarrow> nat res \<times> 'x sworld" where
  "established addr w = (Inr (dials w), emit (Dial addr (dials w)) w)"

definition ssh_Dial :: "('x, 'z) ssh_env_scheme \<Rightarrow> string \<Rightarrow> ClientConfig \<Rightarrow> ('x, nat res) sproc" where
  "ssh_Dial E addr cfg =
     andThen (atomic (\<lambda>w. case s_dial E addr cfg w of (h, d) \<Rightarrow> (h, elapse d w))) (\<lambda>h. case h of
       NoConnect e \<Rightarrow> Return (Inl e)
     | ServerKey remote key auth \<Rightarrow> andThen (atomic (verifyHostKey E addr remote key)) (\<lambda>v. case v of
           Some e \<Rightarrow> Return (Inl (s_refused E e))
         | None \<Rightarrow> (case auth of
               Some e \<Rightarrow> Return (Inl (s_refused E e))
             | None \<Rightarrow> atomic (established addr))))"

text \<open>The first critical section: the cached connection, and the client configuration.\<close>

definition lookup_client :: "('x, 'z) ssh_env_scheme \<Rightarrow> string \<Rightarrow> 'x sworld \<Rightarrow> (nat option \<times> ClientConfig) res \<times> 'x sworld" where
  "lookup_client E host w =
     (case (if p_config (w_heap w) = None then initKey E w else (None, w)) of
        (Some e, w1) \<Rightarrow> (Inl e, w1)
      | (None, w1) \<Rightarrow> (Inr (map_of (clients (w_heap w1)) host, the (p_config (w_heap w1))), w1))"

text \<open>The second: another goroutine may have connected to the host meanwhile; then its connection is used.\<close>

definition adopt_client :: "string \<Rightarrow> nat \<Rightarrow> 'x sworld \<Rightarrow> nat res \<times> 'x sworld" where
  "adopt_client host c w = (case map_of (clients (w_heap w)) host of
      Some existing \<Rightarrow> (Inr existing, emit (CloseConn c) w)
    | None \<Rightarrow> (Inr c, set_pool (\<lambda>p. p\<lparr>clients := (host, c) # clients p\<rparr>) w))"

definition getClient :: "('x, 'z) ssh_env_scheme \<Rightarrow> string \<Rightarrow> ('x, nat res) sproc" where
  "getClient E host = andThen (atomic (lookup_client E host)) (\<lambda>r. case r of
      Inl e \<Rightarrow> Return (Inl e)
    | Inr (Some c, cfg) \<Rightarrow> Return (Inr c)
    | Inr (None, cfg) \<Rightarrow> andThen (ssh_Dial E (ensurePort host ''22'') cfg) (\<lambda>d. case d of
          Inl e \<Rightarrow> Return (Inl (Errorf ''failed to dial %s: %w'' [host, e]))
        | Inr c \<Rightarrow> atomic (adopt_client host c)))"

definition invalidateClient :: "string \<Rightarrow> 'x sworld \<Rightarrow> unit \<times> 'x sworld" where
  "invalidateClient host w = ((), (case map_of (clients (w_heap w)) host of
      None \<Rightarrow> w
    | Some c \<Rightarrow> set_pool (\<lambda>p. p\<lparr>clients := filter (\<lambda>(h, c). h \<noteq> host) (clients p), evicted := evicted p @ [c]\<rparr>) w))"

definition Close :: "'x sworld \<Rightarrow> unit \<times> 'x sworld" where
  "Close w = ((), set_pool (\<lambda>p. p\<lparr>clients := [], evicted := []\<rparr>)
     (fold (\<lambda>c. emit (CloseConn c)) (map snd (clients (w_heap w)) @ evicted (w_heap w)) w))"

definition NewSession :: "('x, 'z) ssh_env_scheme \<Rightarrow> nat \<Rightarrow> 'x sworld \<Rightarrow> goerr option \<times> 'x sworld" where
  "NewSession E c w = (case s_session E c w of (r, d) \<Rightarrow> (r, emit (Sess c) (elapse d w)))"

text \<open>
  A connection with a session on it, for a command or for SFTP: when the session cannot be opened the
  connection is stale, and is dialled again once.
\<close>

definition open_session :: "('x, 'z) ssh_env_scheme \<Rightarrow> (nat \<Rightarrow> 'x sworld \<Rightarrow> goerr option \<times> 'x sworld) \<Rightarrow> string \<Rightarrow> string
    \<Rightarrow> ('x, nat res) sproc" where
  "open_session E new what host = andThen (getClient E host) (\<lambda>r. case r of
      Inl e \<Rightarrow> Return (Inl e)
    | Inr c \<Rightarrow> andThen (atomic (new c)) (\<lambda>s. case s of
        None \<Rightarrow> Return (Inr c)
      | Some e \<Rightarrow> andThen (atomic (invalidateClient host)) (\<lambda>_. andThen (getClient E host) (\<lambda>r'. case r' of
            Inl e' \<Rightarrow> Return (Inl e')
          | Inr c' \<Rightarrow> andThen (atomic (new c')) (\<lambda>s'. case s' of
              None \<Rightarrow> Return (Inr c')
            | Some e' \<Rightarrow> Return (Inl (Errorf ''failed to create %s on %s: %w'' [what, host, e'])))))))"

section \<open>Remote commands\<close>

record run_out =
  ro_stdout :: string
  ro_stderr :: string
  ro_code :: int
  ro_err :: "goerr option"

fun exit_of :: "outcome \<Rightarrow> int \<times> goerr option" where
  "exit_of RunOk = (0, None)"
| "exit_of (RunExit n e) = (n, Some e)"
| "exit_of (RunOther e) = (-1, Some e)"

text \<open>What is fed to a command or a file: its text and the error that ended reading it.\<close>

type_synonym source = "string \<times> goerr option"

definition bytes_Reader :: "string \<Rightarrow> source" where
  "bytes_Reader d = (d, None)"

text \<open>
  The command runs until it ends or until the context is done, whichever comes first; when both have
  happened, either can be seen first. In the second case the session is killed, and what was written up to
  then is kept. Waiting for the killed command is bounded by five seconds.
\<close>

definition run_session :: "('x, 'z) ssh_env_scheme \<Rightarrow> ctx \<Rightarrow> nat \<Rightarrow> string \<Rightarrow> source option \<Rightarrow> 'x sworld
    \<Rightarrow> run_out \<times> 'x sworld" where
  "run_session E ctx c cmd stdin w0 =
     (let sent = remoteCommand (w_heap w0) cmd;
          w = emit (RunOn c sent) w0
      in case s_run E c sent stdin w of ((rr, out), x) \<Rightarrow>
        (case wait_until E ctx (w_clock w + int (rr_time rr)) w of
           (True, w1) \<Rightarrow>
             (\<lparr>ro_stdout = rr_stdout rr, ro_stderr = captured (rr_stderr rr), ro_code = fst (exit_of out), ro_err = snd (exit_of out)\<rparr>,
              w1\<lparr>w_ext := x\<rparr>)
         | (False, w1) \<Rightarrow> (case s_cut E c sent stdin w1 of (rc, xc) \<Rightarrow>
             (\<lparr>ro_stdout = rr_stdout rc, ro_stderr = captured (rr_stderr rc), ro_code = -1, ro_err = ctx_err ctx w1\<rparr>,
              (elapse (min (rr_time rc) 5000000000) w1)\<lparr>w_ext := xc\<rparr>))))"

definition RunCommandStdin :: "('x, 'z) ssh_env_scheme \<Rightarrow> ctx \<Rightarrow> string \<Rightarrow> string \<Rightarrow> source option \<Rightarrow> bool \<Rightarrow> ('x, run_out) sproc" where
  "RunCommandStdin E ctx host cmd stdin has_dst =
     (if \<not> has_dst then Return \<lparr>ro_stdout = [], ro_stderr = [], ro_code = -1, ro_err = Some ''stdout writer cannot be nil''\<rparr>
      else andThen (open_session E (NewSession E) ''session'' host) (\<lambda>r. case r of
          Inl e \<Rightarrow> Return \<lparr>ro_stdout = [], ro_stderr = [], ro_code = -1, ro_err = Some e\<rparr>
        | Inr c \<Rightarrow> atomic (run_session E ctx c cmd stdin)))"

definition RunCommandToWriter :: "('x, 'z) ssh_env_scheme \<Rightarrow> ctx \<Rightarrow> string \<Rightarrow> string \<Rightarrow> bool \<Rightarrow> ('x, run_out) sproc" where
  "RunCommandToWriter E ctx host cmd has_dst = RunCommandStdin E ctx host cmd None has_dst"

definition RunCommand :: "('x, 'z) ssh_env_scheme \<Rightarrow> ctx \<Rightarrow> string \<Rightarrow> string \<Rightarrow> ('x, run_out) sproc" where
  "RunCommand E ctx host cmd = RunCommandToWriter E ctx host cmd True"

section \<open>Waiting for SSH\<close>

text \<open>
  The loop polls until a session opens or the deadline has passed. Once the deadline has passed the
  loop ends with the next \<open>select\<close> that sees it; \<open>n\<close> bounds the number of rounds, and every round but the
  last takes a second at least, so after the bound the deadline has passed and the loop ends as in that \<open>select\<close>.
\<close>

definition next_interval :: "int \<Rightarrow> int" where
  "next_interval i = (let i' = (i * 3) div 2 in if i' > 5 * Second then 5 * Second else i')"

fun wait_ssh :: "nat \<Rightarrow> ('x, 'z) ssh_env_scheme \<Rightarrow> ctx \<Rightarrow> string \<Rightarrow> int \<Rightarrow> int \<Rightarrow> ('x, goerr option) sproc" where
  "wait_ssh 0 E pollCtx host fire interval =
     atomic (\<lambda>w. (Some (Errorf ''timed out waiting for ssh on %s: %w'' [host, the (ctx_err pollCtx w)]), w))"
| "wait_ssh (Suc n) E pollCtx host fire interval =
     andThen (getClient E host) (\<lambda>r. andThen
       (case r of
          Inl e \<Rightarrow> Return False
        | Inr c \<Rightarrow> andThen (atomic (NewSession E c)) (\<lambda>s. case s of
            None \<Rightarrow> Return True
          | Some e \<Rightarrow> andThen (atomic (invalidateClient host)) (\<lambda>_. Return False)))
       (\<lambda>up. if up then Return None
         else andThen (atomic (\<lambda>w. case wait_until E pollCtx fire w of (b, w') \<Rightarrow>
             ((b, w_clock w', ctx_err pollCtx w'), w'))) (\<lambda>(timer, now, err).
           if timer then wait_ssh n E pollCtx host (now + next_interval interval) (next_interval interval)
           else Return (Some (Errorf ''timed out waiting for ssh on %s: %w'' [host, the err])))))"

definition ssh_rounds :: "int \<Rightarrow> nat" where
  "ssh_rounds timeout = nat (timeout div Second) + 2"

definition WaitForSSH :: "('x, 'z) ssh_env_scheme \<Rightarrow> ctx \<Rightarrow> string \<Rightarrow> int \<Rightarrow> ('x, goerr option) sproc" where
  "WaitForSSH E ctx host timeout = andThen (atomic (\<lambda>w. ((WithTimeout ctx timeout w, w_clock w), w))) (\<lambda>(pollCtx, now).
     wait_ssh (ssh_rounds timeout) E pollCtx host (now + Second) Second)"

section \<open>Several hosts\<close>

record ParallelResult =
  Host :: string
  Output :: string
  ExitCode :: int
  Err :: "goerr option"

definition maxParallelHosts :: nat where
  "maxParallelHosts = 16"

definition parallelLimit :: "nat \<Rightarrow> nat" where
  "parallelLimit n = (if n < maxParallelHosts then n else maxParallelHosts)"

text \<open>Each goroutine writes its own element of the slice.\<close>

definition by_index :: "nat \<Rightarrow> (nat \<times> 'r) list \<Rightarrow> 'r list" where
  "by_index n rs = map (\<lambda>i. the (map_of rs i)) [0..<n]"

definition host_result :: "string \<Rightarrow> run_out \<Rightarrow> ParallelResult" where
  "host_result h r = \<lparr>Host = h, Output = ro_stdout r, ExitCode = ro_code r, Err = ro_err r\<rparr>"

definition RunParallel :: "('x, 'z) ssh_env_scheme \<Rightarrow> ctx \<Rightarrow> string list \<Rightarrow> string \<Rightarrow> 'x sworld \<Rightarrow> ParallelResult list \<times> 'x sworld" where
  "RunParallel E ctx hosts cmd w =
     (if hosts = [] then ([], w)
      else case parallel E (parallelLimit (length hosts))
          (map (\<lambda>h. andThen (RunCommand E ctx h cmd) (\<lambda>r. Return (host_result h r))) hosts) w of
        (rs, w') \<Rightarrow> (by_index (length hosts) rs, w'))"

text \<open>A map of tasks, in any order of its keys; the results in the order in which they were appended.\<close>

definition RunParallelFunc :: "('x, 'z) ssh_env_scheme \<Rightarrow> (string \<times> ('x, goerr option) sproc) list \<Rightarrow> 'x sworld
    \<Rightarrow> ParallelResult list \<times> 'x sworld" where
  "RunParallelFunc E tasks w =
     (case parallel E (parallelLimit (length tasks))
        (map (\<lambda>(h, f). andThen f (\<lambda>e. Return \<lparr>Host = h, Output = [], ExitCode = 0, Err = e\<rparr>)) tasks) w of
      (rs, w') \<Rightarrow> (map snd rs, w'))"

definition ssh_failures :: "ParallelResult list \<Rightarrow> string list" where
  "ssh_failures rs = concat (map (\<lambda>r. case Err r of None \<Rightarrow> [] | Some e \<Rightarrow> [Sprintf ''%s (%v)'' [Host r, e]]) rs)"

definition WaitForAllSSH :: "('x, 'z) ssh_env_scheme \<Rightarrow> ctx \<Rightarrow> string list \<Rightarrow> int \<Rightarrow> 'x sworld \<Rightarrow> goerr option \<times> 'x sworld" where
  "WaitForAllSSH E ctx hosts timeout w =
     (case RunParallelFunc E (map (\<lambda>h. (h, WaitForSSH E ctx h timeout)) (remdups hosts)) w of
       (rs, w') \<Rightarrow> (let failures = ssh_failures rs in
          if failures \<noteq> [] then (Some (Errorf ''ssh wait failed for %d host(s): %s'' [itoa (int (length failures)), Join failures ''; '']), w')
          else (None, w')))"

end
