(* ===== verification/SshFiles.thy ===== *)
theory SshFiles
  imports SshRun Files
begin

text \<open>
  Files on remote hosts (\<open>client.go\<close> of \<open>internal/ssh\<close>): uploads over SFTP or, with a deploy account that is not
  root, through \<open>sudo\<close>; both write a sidecar file and move it into place. Scripts, directory trees, reading.
\<close>

section \<open>SFTP\<close>

fun sftp_text :: "sftpop \<Rightarrow> string" where
  "sftp_text (SOpenFile p) = ''open '' @ p"
| "sftp_text (SChmod p m) = ''chmod '' @ p"
| "sftp_text (SWrite p d) = ''write '' @ p"
| "sftp_text (SClose p) = ''close '' @ p"
| "sftp_text (SRemove p) = ''remove '' @ p"
| "sftp_text (SPosixRename a b) = ''rename '' @ a @ '' '' @ b"
| "sftp_text (SMkdirAll p) = ''mkdir '' @ p"

definition sftp_do :: "('x, 'z) ssh_env_scheme \<Rightarrow> nat \<Rightarrow> sftpop \<Rightarrow> 'x sworld \<Rightarrow> goerr option \<times> 'x sworld" where
  "sftp_do E c op w = (case s_op E c op w of (r, d, x) \<Rightarrow> (r, (elapse d (emit (Sftp c (sftp_text op)) w))\<lparr>w_ext := x\<rparr>))"

definition sftp_NewClient :: "('x, 'z) ssh_env_scheme \<Rightarrow> nat \<Rightarrow> 'x sworld \<Rightarrow> goerr option \<times> 'x sworld" where
  "sftp_NewClient E c w = (case s_sftp E c w of (r, d) \<Rightarrow> (r, emit (Sess c) (elapse d w)))"

definition withSFTPClient :: "('x, 'z) ssh_env_scheme \<Rightarrow> ctx \<Rightarrow> string \<Rightarrow> (nat \<Rightarrow> ('x, goerr option) sproc) \<Rightarrow> ('x, goerr option) sproc" where
  "withSFTPClient E ctx host fn = andThen (open_session E (sftp_NewClient E) ''sftp client'' host) (\<lambda>r. case r of
      Inl e \<Rightarrow> Return (Some e)
    | Inr c \<Rightarrow> andThen (atomic (\<lambda>w. (ctx_err ctx w, w))) (\<lambda>e. case e of
        Some e \<Rightarrow> Return (Some e)
      | None \<Rightarrow> fn c))"

definition WithSFTP :: "('x, 'z) ssh_env_scheme \<Rightarrow> ctx \<Rightarrow> string \<Rightarrow> (nat \<Rightarrow> ('x, goerr option) sproc) \<Rightarrow> ('x, goerr option) sproc" where
  "WithSFTP E ctx host fn = withSFTPClient E ctx host fn"

text \<open>\<open>io.CopyBuffer\<close>: what was read is written; then the read error, if any.\<close>

definition copy_to :: "('x, 'z) ssh_env_scheme \<Rightarrow> nat \<Rightarrow> source \<Rightarrow> string \<Rightarrow> 'x sworld \<Rightarrow> goerr option \<times> 'x sworld" where
  "copy_to E c src p w = (case sftp_do E c (SWrite p (fst src)) w of
      (Some e, w') \<Rightarrow> (Some e, w')
    | (None, w') \<Rightarrow> (snd src, w'))"

text \<open>The clean-up of a failed write: the sidecar is closed and removed; errors of either are ignored.\<close>

definition drop_file :: "('x, 'z) ssh_env_scheme \<Rightarrow> nat \<Rightarrow> bool \<Rightarrow> string \<Rightarrow> goerr \<Rightarrow> ('x, goerr option) sproc" where
  "drop_file E c is_open p err =
     (if is_open then andThen (atomic (sftp_do E c (SClose p))) (\<lambda>_. andThen (atomic (sftp_do E c (SRemove p))) (\<lambda>_. Return (Some err)))
      else andThen (atomic (sftp_do E c (SRemove p))) (\<lambda>_. Return (Some err)))"

definition writeRemoteFileAt :: "('x, 'z) ssh_env_scheme \<Rightarrow> nat \<Rightarrow> source \<Rightarrow> string \<Rightarrow> nat \<Rightarrow> ('x, goerr option) sproc" where
  "writeRemoteFileAt E c src p mode = andThen (atomic (sftp_do E c (SOpenFile p))) (\<lambda>r. case r of
      Some e \<Rightarrow> Return (Some (Errorf ''failed to open remote file %s: %w'' [p, e]))
    | None \<Rightarrow> andThen (atomic (sftp_do E c (SChmod p mode))) (\<lambda>r. case r of
        Some e \<Rightarrow> drop_file E c True p (Errorf ''failed to set permissions on remote file %s: %w'' [p, e])
      | None \<Rightarrow> andThen (atomic (copy_to E c src p)) (\<lambda>r. case r of
          Some e \<Rightarrow> drop_file E c True p (Errorf ''failed to stream content to %s: %w'' [p, e])
        | None \<Rightarrow> andThen (atomic (sftp_do E c (SClose p))) (\<lambda>r. case r of
            Some e \<Rightarrow> drop_file E c False p (Errorf ''failed to close remote file %s: %w'' [p, e])
          | None \<Rightarrow> Return None))))"

definition sidecar :: "string \<Rightarrow> string" where
  "sidecar p = p @ ''.cms-tmp''"

definition writeRemoteFile :: "('x, 'z) ssh_env_scheme \<Rightarrow> nat \<Rightarrow> source \<Rightarrow> string \<Rightarrow> nat \<Rightarrow> ('x, goerr option) sproc" where
  "writeRemoteFile E c src remotePath mode = andThen (writeRemoteFileAt E c src (sidecar remotePath) mode) (\<lambda>r. case r of
      Some e \<Rightarrow> Return (Some e)
    | None \<Rightarrow> andThen (atomic (sftp_do E c (SPosixRename (sidecar remotePath) remotePath))) (\<lambda>r. case r of
        None \<Rightarrow> Return None
      | Some e \<Rightarrow> drop_file E c False (sidecar remotePath) (Errorf ''failed to replace remote file %s: %w'' [remotePath, e])))"

text \<open>Opening a local file and reading it: a directory opens, and fails when read.\<close>

definition open_source :: "('x, 'p, 'z) env_scheme \<Rightarrow> string \<Rightarrow> ('x, 'p) world \<Rightarrow> perr + source" where
  "open_source E p w = (case ReadFile E p w of
      Inr d \<Rightarrow> Inr (d, None)
    | Inl e \<Rightarrow> if HasPrefix (pe_op e) ''read '' then Inr ([], Some (perr_msg e)) else Inl e)"

definition copyFileWithSFTP :: "('x, 'z) ssh_env_scheme \<Rightarrow> ctx \<Rightarrow> nat \<Rightarrow> string \<Rightarrow> string \<Rightarrow> nat \<Rightarrow> ('x, goerr option) sproc" where
  "copyFileWithSFTP E ctx c localPath remotePath mode =
     andThen (atomic (\<lambda>w. (case ctx_err ctx w of Some e \<Rightarrow> Inl e | None \<Rightarrow> Inr (open_source E (Clean localPath) w), w))) (\<lambda>r. case r of
       Inl e \<Rightarrow> Return (Some e)
     | Inr (Inl e) \<Rightarrow> Return (Some (Errorf ''failed to open local file %s: %w'' [localPath, perr_msg e]))
     | Inr (Inr src) \<Rightarrow> writeRemoteFile E c src remotePath mode)"

section \<open>Uploads\<close>

fun oct_digits :: "nat \<Rightarrow> string" where
  "oct_digits n = (if n < 8 then [char_of (48 + n)] else oct_digits (n div 8) @ [char_of (48 + n mod 8)])"

declare oct_digits.simps [simp del]

definition Perm :: "nat \<Rightarrow> nat" where
  "Perm mode = mode mod 512"

definition upload_script :: "string \<Rightarrow> nat \<Rightarrow> string" where
  "upload_script remotePath mode =
     Sprintf ''set -e; mkdir -p %s; cat > %s; chmod %o %s; mv -f %s %s''
       [shellQuote (path_Dir remotePath), shellQuote (sidecar remotePath), oct_digits (Perm mode),
        shellQuote (sidecar remotePath), shellQuote (sidecar remotePath), shellQuote remotePath]"

text \<open>The account is a field of the pool that does not change; it is read where the code calls \<open>elevated\<close>.\<close>

definition if_elevated :: "('x, 'r) sproc \<Rightarrow> ('x, 'r) sproc \<Rightarrow> ('x, 'r) sproc" where
  "if_elevated p q = andThen (atomic (\<lambda>w. (elevated (w_heap w), w))) (\<lambda>b. if b then p else q)"

definition Pool_writeRemoteFile :: "('x, 'z) ssh_env_scheme \<Rightarrow> ctx \<Rightarrow> string \<Rightarrow> source \<Rightarrow> string \<Rightarrow> nat \<Rightarrow> ('x, goerr option) sproc" where
  "Pool_writeRemoteFile E ctx host src remotePath mode = if_elevated
     (andThen (RunCommandStdin E ctx host (upload_script remotePath mode) (Some src) True) (\<lambda>r.
        Return (case ro_err r of
            Some e \<Rightarrow> Some (Errorf ''failed to write remote file %s: %w'' [remotePath, e])
          | None \<Rightarrow> if ro_code r \<noteq> 0
              then Some (Errorf ''failed to write remote file %s (exit %d): %s'' [remotePath, itoa (ro_code r), TrimSpace (ro_stderr r)])
              else None)))
     (withSFTPClient E ctx host (\<lambda>c. writeRemoteFile E c src remotePath mode))"

definition CopyContent :: "('x, 'z) ssh_env_scheme \<Rightarrow> ctx \<Rightarrow> string \<Rightarrow> string \<Rightarrow> string \<Rightarrow> nat \<Rightarrow> ('x, goerr option) sproc" where
  "CopyContent E ctx host data remotePath mode = Pool_writeRemoteFile E ctx host (bytes_Reader data) remotePath mode"

fun node_mode :: "fnode \<Rightarrow> nat" where
  "node_mode (File d m) = m"
| "node_mode (Dir m) = m"
| "node_mode (Symlink t) = 511"

definition CopyFile :: "('x, 'z) ssh_env_scheme \<Rightarrow> ctx \<Rightarrow> string \<Rightarrow> string \<Rightarrow> string \<Rightarrow> ('x, goerr option) sproc" where
  "CopyFile E ctx host localPath remotePath =
     andThen (atomic (\<lambda>w. ((Stat E localPath w, open_source E (Clean localPath) w), w))) (\<lambda>(info, r). case info of
       Inl e \<Rightarrow> Return (Some (Errorf ''failed to stat local file %s: %w'' [localPath, perr_msg e]))
     | Inr n \<Rightarrow> (case r of
         Inl e \<Rightarrow> Return (Some (Errorf ''failed to open local file %s: %w'' [localPath, perr_msg e]))
       | Inr src \<Rightarrow> Pool_writeRemoteFile E ctx host src remotePath (node_mode n)))"

section \<open>Scripts\<close>

definition hex_encode :: "string \<Rightarrow> string" where
  "hex_encode s = concat (map (\<lambda>c. [hex_digit (of_char c div 16), hex_digit (of_char c mod 16)]) s)"

definition script_path :: "string \<Rightarrow> string" where
  "script_path bytes = Sprintf ''/tmp/script_%s.sh'' [hex_encode bytes]"

definition script_command :: "string \<Rightarrow> string" where
  "script_command tmpPath = ''trap '' @ [squote] @ ''rm -f '' @ tmpPath @ [squote] @ '' EXIT; bash '' @ tmpPath"

text \<open>The output is returned beside the error.\<close>

definition RunScript :: "('x, 'z) ssh_env_scheme \<Rightarrow> ctx \<Rightarrow> string \<Rightarrow> string \<Rightarrow> ('x, string \<times> goerr option) sproc" where
  "RunScript E ctx host script = andThen (atomic (\<lambda>w. (s_random E w, w))) (\<lambda>r. case r of
      Inl e \<Rightarrow> Return ([], Some (Errorf ''generate script name: %w'' [e]))
    | Inr bytes \<Rightarrow> (let tmpPath = script_path bytes in
        andThen (CopyContent E ctx host script tmpPath 448) (\<lambda>r. case r of
          Some e \<Rightarrow> Return ([], Some (Errorf ''failed to upload script to %s: %w'' [host, e]))
        | None \<Rightarrow> andThen (RunCommand E ctx host (script_command tmpPath)) (\<lambda>o'.
            Return (ro_stdout o',
              if ro_err o' \<noteq> None \<or> ro_code o' \<noteq> 0
              then Some (Errorf (''script execution failed on %s (exit %d): %v'' @ nl # ''Stderr: %s'')
                [host, itoa (ro_code o'), err_v (ro_err o'), ro_stderr o'])
              else None)))))"

definition apt_wait_lines :: "nat \<Rightarrow> string list \<Rightarrow> string list" where
  "apt_wait_lines rounds released =
     [''cloud-init status --wait 2>/dev/null || true'',
      ''for i in {1..'' @ nat_digits rounds @ ''}; do'',
      ''    if ! fuser /var/lib/dpkg/lock-frontend >/dev/null 2>&1 && ! fuser /var/lib/apt/lists/lock >/dev/null 2>&1; then'']
     @ released
     @ [''    fi'', ''    sleep 2'', ''done'']"

definition AptLockWaitSnippet :: string where
  "AptLockWaitSnippet = Join (apt_wait_lines 30 [''        break''] @ [[]]) [nl]"

definition apt_wait_script :: string where
  "apt_wait_script = Join ([[]] @ apt_wait_lines 60 [''        exit 0'']
     @ [''echo '' @ [CHR 0x22] @ ''apt lock still held after 120s (unattended-upgrades/dpkg?)'' @ [CHR 0x22] @ '' >&2'', ''exit 1'', []]) [nl]"

definition WaitForAptLock :: "('x, 'z) ssh_env_scheme \<Rightarrow> ctx \<Rightarrow> string \<Rightarrow> ('x, goerr option) sproc" where
  "WaitForAptLock E ctx host = andThen (RunScript E ctx host apt_wait_script) (\<lambda>r. Return (snd r))"

section \<open>Directories\<close>

text \<open>
  \<open>filepath.Walk\<close> calls back for every file below the directory, with the error that reading it met; the first
  error of a call ends the walk. \<open>filepath.Rel\<close> is needed for paths below the directory only.
\<close>

definition Rel :: "string \<Rightarrow> string \<Rightarrow> goerr + string" where
  "Rel base target = (let b = Clean base; t = Clean target; root = (if b = ''/'' then b else b @ ''/'') in
     if t = b then Inr ''.''
     else if b = ''.'' \<and> \<not> IsAbs t then Inr t
     else if HasPrefix t root then Inr (drop (length root) t)
     else Inl (Errorf (''Rel: can'' @ squote # ''t make %s relative to %s'') [target, base]))"

fun walk_all :: "('v \<Rightarrow> ('w, goerr option) proc) \<Rightarrow> 'v list \<Rightarrow> ('w, goerr option) proc" where
  "walk_all f [] = Return None"
| "walk_all f (v # vs) = andThen (f v) (\<lambda>r. case r of Some e \<Rightarrow> Return (Some e) | None \<Rightarrow> walk_all f vs)"

definition copy_visit :: "('x, 'z) ssh_env_scheme \<Rightarrow> ctx \<Rightarrow> nat \<Rightarrow> string \<Rightarrow> string \<Rightarrow> visit \<Rightarrow> ('x, goerr option) sproc" where
  "copy_visit E ctx c localDir remoteDir v = (case v_err v of
      Some e \<Rightarrow> Return (Some e)
    | None \<Rightarrow> (case Rel localDir (v_path v) of
        Inl e \<Rightarrow> Return (Some e)
      | Inr rel \<Rightarrow> (let remPath = path_Join [remoteDir, rel] in
          if v_dir v then andThen (atomic (\<lambda>w. (ctx_err ctx w, w))) (\<lambda>r. case r of
              Some e \<Rightarrow> Return (Some e)
            | None \<Rightarrow> andThen (atomic (sftp_do E c (SMkdirAll remPath))) (\<lambda>r. case r of
                Some e \<Rightarrow> Return (Some (Errorf ''failed to create remote directory %s: %w'' [remPath, e]))
              | None \<Rightarrow> Return None))
          else copyFileWithSFTP E ctx c (v_path v) remPath (v_mode v))))"

definition CopyTar :: "('x, 'z) ssh_env_scheme \<Rightarrow> ctx \<Rightarrow> string \<Rightarrow> string \<Rightarrow> string \<Rightarrow> ('x, goerr option) sproc" where
  "CopyTar E ctx host remoteDir tarball =
     andThen (RunCommandStdin E ctx host
       (Sprintf ''set -e; mkdir -p %s; tar -xf - -C %s --no-same-owner'' [shellQuote remoteDir, shellQuote remoteDir])
       (Some (bytes_Reader tarball)) True) (\<lambda>r.
     Return (case ro_err r of
         Some e \<Rightarrow> Some (Errorf ''failed to upload archive to %s: %w'' [remoteDir, e])
       | None \<Rightarrow> if ro_code r \<noteq> 0
           then Some (Errorf ''failed to extract archive at %s (exit %d): %s'' [remoteDir, itoa (ro_code r), TrimSpace (ro_stderr r)])
           else None))"

text \<open>One entry of the archive: nothing for the directory itself, no data for what is not a regular file.\<close>

definition tar_visit :: "('x, 'z) ssh_env_scheme \<Rightarrow> ctx \<Rightarrow> string \<Rightarrow> visit \<Rightarrow> 'x sworld \<Rightarrow> goerr + tar_entry list" where
  "tar_visit E ctx localDir v w = (case v_err v of
      Some e \<Rightarrow> Inl e
    | None \<Rightarrow> (case ctx_err ctx w of
        Some e \<Rightarrow> Inl e
      | None \<Rightarrow> (case Rel localDir (v_path v) of
          Inl e \<Rightarrow> Inl e
        | Inr rel \<Rightarrow>
            if rel = ''.'' then Inr []
            else (case (case v_link v of None \<Rightarrow> Inr [] | Some l \<Rightarrow> l) of
                Inl e \<Rightarrow> Inl e
              | Inr link \<Rightarrow> (let entry = \<lparr>te_name = rel @ (if v_dir v then ''/'' else []), te_link = link, te_mode = v_mode v, te_data = []\<rparr> in
                  if \<not> v_regular v then Inr [entry]
                  else (case open_source E (v_path v) w of
                      Inl e \<Rightarrow> Inl (perr_msg e)
                    | Inr (d, Some e) \<Rightarrow> Inl e
                    | Inr (d, None) \<Rightarrow> Inr [entry\<lparr>te_data := d\<rparr>]))))))"

fun tar_all :: "('x, 'z) ssh_env_scheme \<Rightarrow> ctx \<Rightarrow> string \<Rightarrow> visit list \<Rightarrow> 'x sworld \<Rightarrow> goerr + tar_entry list" where
  "tar_all E ctx localDir [] w = Inr []"
| "tar_all E ctx localDir (v # vs) w = (case tar_visit E ctx localDir v w of
      Inl e \<Rightarrow> Inl e
    | Inr es \<Rightarrow> (case tar_all E ctx localDir vs w of Inl e \<Rightarrow> Inl e | Inr es' \<Rightarrow> Inr (es @ es')))"

definition copyDirElevated :: "('x, 'z) ssh_env_scheme \<Rightarrow> ctx \<Rightarrow> string \<Rightarrow> string \<Rightarrow> string \<Rightarrow> ('x, goerr option) sproc" where
  "copyDirElevated E ctx host localDir remoteDir =
     andThen (atomic (\<lambda>w. (tar_all E ctx localDir (s_walk E localDir w) w, w))) (\<lambda>r. case r of
       Inl e \<Rightarrow> Return (Some e)
     | Inr es \<Rightarrow> CopyTar E ctx host remoteDir (s_tar E es))"

definition CopyDir :: "('x, 'z) ssh_env_scheme \<Rightarrow> ctx \<Rightarrow> string \<Rightarrow> string \<Rightarrow> string \<Rightarrow> ('x, goerr option) sproc" where
  "CopyDir E ctx host localDir remoteDir = if_elevated
     (copyDirElevated E ctx host localDir remoteDir)
     (withSFTPClient E ctx host (\<lambda>c. andThen (atomic (\<lambda>w. (s_walk E localDir w, w))) (\<lambda>vs.
        walk_all (copy_visit E ctx c localDir remoteDir) vs)))"

section \<open>Reading\<close>

definition read_limit_error :: "string \<Rightarrow> goerr" where
  "read_limit_error p = Errorf ''remote file %s exceeds the %d MiB read limit'' [p, itoa (int (maxRemoteFileRead div 2 ^ 20))]"

definition read_capped :: "('x, 'z) ssh_env_scheme \<Rightarrow> nat \<Rightarrow> string \<Rightarrow> 'x sworld \<Rightarrow> string res" where
  "read_capped E c p w = (case s_open E c p w of
      Some e \<Rightarrow> Inl (Errorf ''failed to open remote file %s: %w'' [p, e])
    | None \<Rightarrow> (case s_read E c p (maxRemoteFileRead + 1) w of
        Inl e \<Rightarrow> Inl (Errorf ''failed to read remote file %s: %w'' [p, e])
      | Inr d \<Rightarrow> if length d > maxRemoteFileRead then Inl (read_limit_error p) else Inr d))"

definition Pool_ReadFile :: "('x, 'z) ssh_env_scheme \<Rightarrow> ctx \<Rightarrow> string \<Rightarrow> string \<Rightarrow> ('x, string res) sproc" where
  "Pool_ReadFile E ctx host p = if_elevated
     (andThen (RunCommand E ctx host (''cat -- '' @ shellQuote p)) (\<lambda>r.
        Return (if ro_err r \<noteq> None \<or> ro_code r \<noteq> 0
          then Inl (Errorf ''failed to read remote file %s (exit %d): %v %s'' [p, itoa (ro_code r), err_v (ro_err r), TrimSpace (ro_stderr r)])
          else if length (ro_stdout r) > maxRemoteFileRead then Inl (read_limit_error p)
          else Inr (ro_stdout r))))
     (andThen (open_session E (sftp_NewClient E) ''sftp client'' host) (\<lambda>r. case r of
        Inl e \<Rightarrow> Return (Inl e)
      | Inr c \<Rightarrow> andThen (atomic (\<lambda>w. (ctx_err ctx w, w))) (\<lambda>e. case e of
          Some e \<Rightarrow> Return (Inl e)
        | None \<Rightarrow> atomic (\<lambda>w. (read_capped E c p w, emit (Sftp c (''read '' @ p)) w)))))"

end
