(* ===== verification/SshProps.thy ===== *)
theory SshProps
  imports SshFiles
begin

text \<open>
  What the SSH pool guarantees: the captured stderr, the quoting of commands for \<open>sudo\<close>, connections that
  are never lost whatever the goroutines do, and the results and the bound of \<open>RunParallel\<close>.
\<close>

section \<open>Captured stderr\<close>

definition capped_after :: "string \<Rightarrow> cappedBuffer" where
  "capped_after s = \<lparr>cb_buf = take maxCapturedStderr s, truncated = length s > maxCapturedStderr\<rparr>"

lemma capped_Write_after: "capped_Write p (capped_after s) = capped_after (s @ p)"
  by (auto simp: capped_Write_def capped_after_def Let_def min_def nat_diff_distrib)

lemma captured_after: "fold capped_Write chunks (capped_after s) = capped_after (s @ concat chunks)"
  by (induction chunks arbitrary: s) (simp_all add: capped_Write_after)


section \<open>Quoting\<close>

text \<open>
  The words a POSIX shell reads, for the characters that occur here: single quotes keep what is between
  them, a backslash outside keeps the next character, spaces separate. Anything else that has a meaning to the shell is refused.
\<close>

definition plain_char :: "char \<Rightarrow> bool" where
  "plain_char c \<longleftrightarrow> is_letter c \<or> is_digit c \<or> c \<in> set ''-_./:=@''"

definition word_so_far :: "string option \<Rightarrow> string" where
  "word_so_far cur = (case cur of None \<Rightarrow> [] | Some w \<Rightarrow> w)"

fun sh_words :: "string option \<Rightarrow> bool \<Rightarrow> string \<Rightarrow> string list option" where
  "sh_words cur q [] = (if q then None else Some (case cur of None \<Rightarrow> [] | Some w \<Rightarrow> [rev w]))"
| "sh_words cur True (c # s) =
     (if c = squote then sh_words cur False s else sh_words (Some (c # word_so_far cur)) True s)"
| "sh_words cur False (c # s) =
     (if c = squote then sh_words (Some (word_so_far cur)) True s
      else if c = bslash then (case s of [] \<Rightarrow> None | d # s' \<Rightarrow> sh_words (Some (d # word_so_far cur)) False s')
      else if c = CHR '' '' then
        (case cur of None \<Rightarrow> sh_words None False s | Some w \<Rightarrow> map_option ((#) (rev w)) (sh_words None False s))
      else if plain_char c then sh_words (Some (c # word_so_far cur)) False s
      else None)"

lemma squote_neq [simp]: "bslash \<noteq> squote" "squote \<noteq> bslash"
  by (simp_all add: char_of_eq_iff)

lemma sh_words_quoted:
  "sh_words (Some acc) True (replace_char squote [squote, bslash, squote, squote] s @ squote # rest)
     = sh_words (Some (rev s @ acc)) False rest"
  by (induction s arbitrary: acc) (simp_all add: replace_char_def word_so_far_def)

lemma sh_words_shellQuote: "sh_words None False (shellQuote s @ rest) = sh_words (Some (rev s)) False rest"
  using sh_words_quoted [of "[]" s rest] by (simp add: shellQuote_def word_so_far_def)

lemma sh_words_word:
  "list_all plain_char u \<Longrightarrow> sh_words (Some acc) False (u @ CHR '' '' # rest)
     = map_option ((#) (rev acc @ u)) (sh_words None False rest)"
proof (induction u arbitrary: acc)
  case (Cons c u)
  then have "c \<noteq> squote" "c \<noteq> bslash" "c \<noteq> CHR '' ''"
    by (auto simp: plain_char_def is_letter_def is_digit_def)
  with Cons show ?case by (simp add: word_so_far_def)
qed simp

lemma sh_words_first:
  assumes "list_all plain_char u" and "u \<noteq> []"
  shows "sh_words None False (u @ CHR '' '' # rest) = map_option ((#) u) (sh_words None False rest)"
proof -
  obtain c v where u: "u = c # v" using assms(2) by (cases u) auto
  with assms have "c \<noteq> squote" "c \<noteq> bslash" "c \<noteq> CHR '' ''"
    by (auto simp: plain_char_def is_letter_def is_digit_def)
  with u assms(1) sh_words_word [of v "[c]" rest] show ?thesis by (simp add: word_so_far_def)
qed

lemma sh_words_quote [simp]: "sh_words None False (shellQuote s) = Some [s]"
  using sh_words_shellQuote [of s "[]"] by simp

text \<open>C18. With a deploy account that is not root, the words that a shell reads from a remote command are
  \<open>sudo -n -H bash -c\<close> and the command as one argument, whatever characters the command has; as root it is the command itself.\<close>

theorem remoteCommand_words:
  "sh_words None False (remoteCommand p cmd) =
     (if p_user p = [] \<or> p_user p = ''root'' then sh_words None False cmd
      else Some [''sudo'', ''-n'', ''-H'', ''bash'', ''-c'', cmd])"
proof -
  have split: "''sudo -n -H bash -c '' @ t = ''sudo'' @ CHR '' '' # ''-n'' @ CHR '' '' # ''-H'' @ CHR '' '' # ''bash'' @ CHR '' '' # ''-c'' @ CHR '' '' # t" for t
    by simp
  have "sh_words None False (''sudo -n -H bash -c '' @ shellQuote cmd) = Some [''sudo'', ''-n'', ''-H'', ''bash'', ''-c'', cmd]"
    unfolding split
    by ((subst sh_words_first, simp add: plain_char_def is_letter_def is_digit_def, simp)+, simp only: sh_words_quote option.map)
  then show ?thesis by (simp add: remoteCommand_def elevated_def)
qed


section \<open>No connection is lost\<close>

text \<open>
  A connection that was established and not closed is either in the pool (as the connection of its host or
  among the evicted ones) or in the hands of the goroutine that has just dialled it.
\<close>

definition closed :: "('x, 'p) world \<Rightarrow> nat set" where
  "closed w = {i. CloseConn i \<in> set (w_trace w)}"

definition pooled :: "'x sworld \<Rightarrow> nat set" where
  "pooled w = ran (map_of (clients (w_heap w))) \<union> set (evicted (w_heap w))"

definition lost :: "'x sworld \<Rightarrow> nat set" where
  "lost w = {..<dials w} - closed w - pooled w"

definition same_lost :: "'x sworld \<Rightarrow> 'x sworld \<Rightarrow> bool" where
  "same_lost w w' \<longleftrightarrow> lost w' = lost w"

interpretation lst: world_order same_lost
  by unfold_locales (auto simp: same_lost_def)

fun quiet_event :: "event \<Rightarrow> bool" where
  "quiet_event (Dial a i) = False"
| "quiet_event (CloseConn i) = False"
| "quiet_event _ = True"

lemma quiet_not_dial: "quiet_event e \<Longrightarrow> \<not> is_dial e"
  by (cases e) auto

lemma lost_trace:
  assumes "w_trace w' = w_trace w @ es" and "list_all quiet_event es" and "w_heap w' = w_heap w"
  shows "lost w' = lost w"
proof -
  have "filter is_dial es = []" "CloseConn i \<notin> set es" for i
    using assms(2) by (auto simp: list_all_iff filter_empty_conv quiet_not_dial)
  with assms show ?thesis by (auto simp: lost_def dials_def closed_def pooled_def)
qed

lemma keeps_lost:
  assumes "keeps (extends quiet_event) f" and "\<And>w r w'. f w = (r, w') \<Longrightarrow> w_heap w' = w_heap w"
  shows "keeps same_lost f"
  unfolding same_lost_def
proof (rule keepsI)
  fix w r w' assume "f w = (r, w')"
  with keepsD [OF assms(1) this] assms(2) [OF this] show "lost w' = lost w"
    unfolding extends_def using lost_trace by blast
qed

lemma lost_simps [simp]:
  "quiet_event ev \<Longrightarrow> lost (emit ev w) = lost w"
  "lost (elapse d w) = lost w" "lost (w\<lparr>w_ext := x\<rparr>) = lost w" "lost (w\<lparr>w_clock := t\<rparr>) = lost w"
  by (rule lost_trace [where es = "[ev]"]; simp)
    (rule lost_trace [where es = "[]"]; simp add: elapse_def)+

lemma lost_set_pool [simp]:
  "clients (f (w_heap w)) = clients (w_heap w) \<Longrightarrow> evicted (f (w_heap w)) = evicted (w_heap w) \<Longrightarrow> lost (set_pool f w) = lost w"
  by (simp add: lost_def set_pool_def dials_def closed_def pooled_def)

lemma do_op_lost [keeping]: "keeps same_lost (do_op E op)"
  by (rule keeps_lost) (auto intro: do_op_issues do_op_heap)

lemma lost_after_op [simp]: "lost (snd (do_op E op w)) = lost w"
  using do_op_lost [of E op] by (simp add: keeps_def same_lost_def)

lemma initKey_lost: "lost (snd (initKey E w)) = lost w"
  by (simp add: initKey_def Let_def split: sum.splits)

lemma trustHostKey_lost: "lost (snd (trustHostKey E h r k w)) = lost w"
proof -
  note op = lost_after_op [of E]
  have "lost (reload_callback E v) = lost v" for v :: "'a sworld"
    by (simp add: reload_callback_def split: sum.splits)
  then show ?thesis
    by (auto simp: trustHostKey_def Let_def split: option.splits prod.splits) (metis op snd_conv)+
qed

lemma verifyHostKey_lost [keeping]: "keeps same_lost (verifyHostKey E h r k)"
proof (unfold keeps_def same_lost_def, rule allI)
  fix w :: "'a sworld"
  have set_cb: "lost (set_pool (\<lambda>p. p\<lparr>knownHostsCallback := cb\<rparr>) w) = lost w" for cb by simp
  have "lost (snd (let w1 = set_pool (\<lambda>p. p\<lparr>knownHostsCallback := Some cb\<rparr>) w in
          case cb h r k of
            KhOk \<Rightarrow> (None, w1)
          | KhUnknown \<Rightarrow> trustHostKey E h r k w1
          | KhError e \<Rightarrow> (Some (Errorf ''SSH host key verification failed for %s: %w'' [h, e]), w1))) = lost w" for cb
    by (cases "cb h r k") (simp_all add: Let_def set_cb trustHostKey_lost)
  then show "lost (snd (verifyHostKey E h r k w)) = lost w"
    unfolding verifyHostKey_def by (simp split: sum.split)
qed

lemma lookup_client_lost [keeping]: "keeps same_lost (lookup_client E host)"
proof (unfold keeps_def same_lost_def, rule allI)
  fix w
  obtain e w1 where c: "(if p_config (w_heap w) = None then initKey E w else (None, w)) = (e, w1)" by fastforce
  then have "w1 = snd (if p_config (w_heap w) = None then initKey E w else (None, w))" by simp
  then have "lost w1 = lost w" using initKey_lost [of E w] by (simp split: if_splits)
  then show "lost (snd (lookup_client E host w)) = lost w"
    unfolding lookup_client_def c by (cases e) simp_all
qed

lemma NewSession_lost [keeping]: "keeps same_lost (NewSession E c)"
  by (simp add: keeps_def same_lost_def NewSession_def split: prod.splits)

lemma wait_until_lost: "wait_until E ctx t w = (b, w') \<Longrightarrow> lost w' = lost w"
  by (metis lost_simps(4) wait_until_frame)

lemma run_session_lost [keeping]: "keeps same_lost (run_session E ctx c cmd stdin)"
proof (unfold same_lost_def, rule keepsI)
  fix w r w' assume run: "run_session E ctx c cmd stdin w = (r, w')"
  let ?sent = "remoteCommand (w_heap w) cmd" and ?w = "emit (RunOn c (remoteCommand (w_heap w) cmd)) w"
  obtain rr out x where "s_run E c ?sent stdin ?w = ((rr, out), x)" by (metis prod.collapse)
  moreover obtain b w1 where "wait_until E ctx (w_clock ?w + int (rr_time rr)) ?w = (b, w1)" by fastforce
  moreover obtain rc xc where "s_cut E c ?sent stdin w1 = (rc, xc)" by fastforce
  moreover have "lost ?w = lost w" by simp
  ultimately show "lost w' = lost w"
    using run wait_until_lost [of E ctx _ ?w b w1] by (cases b) (auto simp: run_session_def Let_def)
qed

lemma invalidateClient_lost [keeping]: "keeps same_lost (invalidateClient host)"
proof (unfold keeps_def same_lost_def, rule allI)
  fix w :: "'x sworld"
  let ?cs = "clients (w_heap w)"
  have "map_of (filter (\<lambda>(h, c). h \<noteq> host) cs) = (map_of cs)(host := None)" for cs :: "(string \<times> nat) list"
    by (induction cs) (auto simp: fun_eq_iff)
  then have "ran (map_of (filter (\<lambda>(h, c). h \<noteq> host) ?cs)) \<union> {c} = ran (map_of ?cs)" if "map_of ?cs host = Some c" for c
    using that by (auto simp: ran_def split: if_splits) (metis option.inject)
  then show "lost (snd (invalidateClient host w)) = lost w"
    by (auto simp: invalidateClient_def set_pool_def lost_def dials_def closed_def pooled_def split: option.splits)
qed

subsection \<open>The processes of the pool\<close>

definition free :: "'r \<Rightarrow> nat set \<Rightarrow> bool" where
  "free r H \<longleftrightarrow> H = {}"

definition holds_conn :: "nat res \<Rightarrow> nat set \<Rightarrow> bool" where
  "holds_conn r H \<longleftrightarrow> (case r of Inl e \<Rightarrow> H = {} | Inr c \<Rightarrow> H = {c})"

lemma free_iff [simp]: "free r H \<longleftrightarrow> H = {}"
  by (simp add: free_def)

lemma owns_same [owning]: "keeps same_lost f \<Longrightarrow> (\<And>r. Q r {}) \<Longrightarrow> owns lost Q {} (atomic f)"
  by (rule owns_atomic) (use keepsD [of same_lost f] in \<open>fastforce simp: same_lost_def\<close>)

text \<open>The rule for a sequence in which nothing is held in between.\<close>

lemma owns_seq [owning]: "owns lost free {} p \<Longrightarrow> (\<And>r. owns lost Q {} (k r)) \<Longrightarrow> owns lost Q {} (andThen p k)"
  by (rule owns_andThen [where P = free]) auto

lemma owns_established: "owns lost holds_conn {} (atomic (established addr))"
proof (rule owns_atomic)
  fix w :: "'x sworld" and r w' assume "established addr w = (r, w')"
  then show "\<exists>H'. holds_conn r H' \<and> lost w' \<subseteq> (lost w - {}) \<union> H'"
    by (intro exI [of _ "{dials w}"])
      (auto simp: established_def holds_conn_def lost_def closed_def pooled_def dials_def less_Suc_eq)
qed

lemma owns_adopt: "owns lost free {c} (atomic (adopt_client host c))"
proof (rule owns_atomic)
  fix w :: "'x sworld" and r w' assume "adopt_client host c w = (r, w')"
  then show "\<exists>H'. free r H' \<and> lost w' \<subseteq> (lost w - {c}) \<union> H'"
    by (auto simp: adopt_client_def lost_def closed_def pooled_def dials_def set_pool_def ran_map_upd split: option.splits)
qed

lemma owns_Dial: "owns lost holds_conn {} (ssh_Dial E addr cfg)"
  unfolding ssh_Dial_def
  by (rule owns_seq, rule owns_same)
    (auto simp: keeps_def same_lost_def holds_conn_def
      intro!: owns_Return owns_seq owns_same owns_established keeping
      split: prod.splits handshake.splits option.splits)

lemma owns_getClient [owning]: "owns lost free {} (getClient E host)"
  unfolding getClient_def
proof (rule owns_seq)
  show "owns lost free {} (atomic (lookup_client E host))" by (rule owns_same) (simp_all add: keeping)
next
  fix r :: "(nat option \<times> ClientConfig) res"
  have dial: "owns lost free {} (andThen (ssh_Dial E (ensurePort host ''22'') cfg) (\<lambda>d. case d of
          Inl e \<Rightarrow> Return (Inl (Errorf ''failed to dial %s: %w'' [host, e]))
        | Inr c \<Rightarrow> atomic (adopt_client host c)))" for cfg
    by (rule owns_andThen [OF owns_Dial]) (auto simp: holds_conn_def intro!: owns_Return owns_adopt split: sum.splits)
  then show "owns lost free {} (case r of Inl e \<Rightarrow> Return (Inl e) | Inr (Some c, cfg) \<Rightarrow> Return (Inr c)
    | Inr (None, cfg) \<Rightarrow> andThen (ssh_Dial E (ensurePort host ''22'') cfg) (\<lambda>d. case d of
          Inl e \<Rightarrow> Return (Inl (Errorf ''failed to dial %s: %w'' [host, e]))
        | Inr c \<Rightarrow> atomic (adopt_client host c)))"
    by (auto intro!: owns_Return split: sum.splits prod.splits option.splits)
qed

lemma owns_open_session [owning]:
  "(\<And>c. keeps same_lost (new c)) \<Longrightarrow> owns lost free {} (open_session E new what host)"
  unfolding open_session_def
  by (auto intro!: owning keeping owns_Return split: sum.splits option.splits)

lemma owns_RunCommandStdin [owning]: "owns lost free {} (RunCommandStdin E ctx host cmd stdin has_dst)"
  unfolding RunCommandStdin_def
  by (auto intro!: owning keeping owns_Return split: sum.splits)

lemma owns_RunCommand [owning]: "owns lost free {} (RunCommand E ctx host cmd)"
  unfolding RunCommand_def RunCommandToWriter_def by (rule owning)

lemma keeps_select [keeping]: "keeps same_lost (\<lambda>w. case wait_until E c t w of (b, w') \<Rightarrow> (f b w', w'))"
  by (auto simp: keeps_def same_lost_def dest!: wait_until_lost split: prod.splits)

lemma owns_wait_ssh: "owns lost free {} (wait_ssh n E c host fire interval)"
  by (induction n arbitrary: fire interval)
    (auto intro!: owning keeping lst.keeps_intros owns_Return split: sum.splits option.splits prod.splits)

lemma owns_WaitForSSH [owning]: "owns lost free {} (WaitForSSH E c host timeout)"
  unfolding WaitForSSH_def by (auto intro!: owning keeping lst.keeps_intros owns_wait_ssh split: prod.splits)


lemma owns_result:
  "owns lost free {} p \<Longrightarrow> (\<And>r. R (f r)) \<Longrightarrow> owns lost (\<lambda>r H. H = {} \<and> R r) {} (andThen p (\<lambda>r. Return (f r)))"
  by (rule owns_seq) (auto intro: owns_Return)

lemma owns_nothing: "owns (\<lambda>w. {} :: nat set) (\<lambda>r H. H = {}) {} p"
proof (induction p)
  case (Step f)
  have "owns (\<lambda>w. {} :: nat set) (\<lambda>r H. H = {}) {} (fst (f w))" for w
    by (rule Step [of "f w"]) (simp_all add: prod_set_defs)
  then show ?case by (auto intro!: owns.Step)
qed (simp add: owns.Return)

lemma by_index_results:
  assumes "distinct (map fst fin) \<and> set (map fst fin) = {..<n}" and "\<forall>(i, r) \<in> set fin. f r = xs ! i" and "length xs = n"
  shows "map f (by_index n fin) = xs"
proof (rule nth_equalityI)
  fix i assume "i < length (map f (by_index n fin))"
  then have i: "i < n" by (simp add: by_index_def)
  then have "i \<in> set (map fst fin)" using assms(1) by simp
  then obtain r where "map_of fin i = Some r" by (metis map_of_eq_None_iff list.set_map not_None_eq)
  with assms(2) i show "map f (by_index n fin) ! i = xs ! i" by (auto simp: by_index_def dest: map_of_SomeD)
qed (use assms(3) in \<open>simp add: by_index_def\<close>)

lemma RunParallel_owns:
  assumes "lost w = {}"
  shows "lost (snd (RunParallel E ctx hosts cmd w)) = {}"
proof (cases "hosts = []")
  case False
  let ?ps = "map (\<lambda>h. andThen (RunCommand E ctx h cmd) (\<lambda>r. Return (host_result h r))) hosts"
  obtain fin w' where run: "par_exec (parallelLimit (length hosts)) (e_sched E w) ?ps w = (fin, w')" by fastforce
  have "owns lost (\<lambda>r H. H = {} \<and> True) {} (?ps ! i)" if "i < length ?ps" for i
    using that by (auto intro!: owns_result [where R = "\<lambda>_. True", simplified] owning)
  from par_exec_owns [OF this assms run] run False show ?thesis by (simp add: RunParallel_def parallel_def)
qed (use assms in \<open>simp add: RunParallel_def\<close>)

lemma RunParallel_hosts: "map Host (fst (RunParallel E ctx hosts cmd w)) = hosts"
proof (cases "hosts = []")
  case False
  let ?ps = "map (\<lambda>h. andThen (RunCommand E ctx h cmd) (\<lambda>r. Return (host_result h r))) hosts"
  obtain fin w' where run: "par_exec (parallelLimit (length hosts)) (e_sched E w) ?ps w = (fin, w')" by fastforce
  have "owns (\<lambda>w. {} :: nat set) (\<lambda>r H. H = {} \<and> Host r = hosts ! i) {} (?ps ! i)" if "i < length ?ps" for i
    using that by (auto simp: host_result_def intro!: owns_andThen [OF owns_nothing] owns_Return)
  from par_exec_owns [OF this _ run] have "\<forall>(i, r) \<in> set fin. Host r = hosts ! i" by simp
  with par_exec_complete [OF run] have "map Host (by_index (length hosts) fin) = hosts"
    by (intro by_index_results) auto
  with run False show ?thesis by (simp add: RunParallel_def parallel_def)
qed (simp add: RunParallel_def)

lemma WaitForAllSSH_owns:
  assumes "lost w = {}"
  shows "lost (snd (WaitForAllSSH E ctx hosts timeout w)) = {}"
proof -
  let ?tasks = "map (\<lambda>h. (h, WaitForSSH E ctx h timeout)) (remdups hosts)"
  let ?ps = "map (\<lambda>(h, f). andThen f (\<lambda>e. Return \<lparr>Host = h, Output = [], ExitCode = 0, Err = e\<rparr>)) ?tasks"
  obtain fin w' where run: "par_exec (parallelLimit (length ?tasks)) (e_sched E w) ?ps w = (fin, w')" by fastforce
  have "owns lost (\<lambda>r H. H = {} \<and> True) {} (?ps ! i)" if "i < length ?ps" for i
    using that by (auto intro!: owns_result [where R = "\<lambda>_. True", simplified] owning)
  from par_exec_owns [OF this assms run] run show ?thesis
    by (auto simp: WaitForAllSSH_def RunParallelFunc_def parallel_def Let_def split: prod.splits)
qed

lemma Close_all:
  assumes "lost w = {}"
  shows "{..<dials (snd (Close w))} \<subseteq> closed (snd (Close w))"
proof -
  have tr: "w_trace (fold (\<lambda>c. emit (CloseConn c)) cs v) = w_trace v @ map CloseConn cs" for cs and v :: "'x sworld"
    by (induction cs arbitrary: v) simp_all
  have "dials (snd (Close w)) = dials w"
    by (simp add: Close_def set_pool_def dials_def tr filter_empty_conv)
  moreover have cl: "closed (snd (Close w)) = closed w \<union> snd ` set (clients (w_heap w)) \<union> set (evicted (w_heap w))"
    by (auto simp: Close_def set_pool_def closed_def tr)
  have "ran (map_of cs) \<subseteq> snd ` set cs" for cs :: "(string \<times> nat) list"
  proof
    fix c assume "c \<in> ran (map_of cs)"
    then obtain h where "map_of cs h = Some c" by (auto simp: ran_def)
    then have "(h, c) \<in> set cs" by (rule map_of_SomeD)
    then show "c \<in> snd ` set cs" by (rule rev_image_eqI) simp
  qed
  then have "pooled w \<subseteq> snd ` set (clients (w_heap w)) \<union> set (evicted (w_heap w))"
    unfolding pooled_def by blast
  with cl have "closed w \<union> pooled w \<subseteq> closed (snd (Close w))" by blast
  moreover have "{..<dials w} \<subseteq> closed w \<union> pooled w" using assms by (auto simp: lost_def)
  ultimately show ?thesis by (metis Un_subset_iff subset_trans)
qed

text \<open>C13. Waiting for hosts, running a command on hosts in parallel and closing the pool at the end closes every SSH connection
  that was ever established, for every schedule of the goroutines, also when several of them
  dialled the same host at once or found their connection stale.\<close>

theorem no_connection_lost:
  assumes "lost w = {}"
    and "W = snd (Close (snd (RunParallel E ctx hosts cmd (snd (WaitForAllSSH E ctx ips timeout w)))))"
  shows "{..<dials W} \<subseteq> closed W"
  unfolding assms(2) by (intro Close_all RunParallel_owns WaitForAllSSH_owns assms(1))

text \<open>\<open>RunParallel\<close> delivers one result per host, in the order of the hosts, whatever the schedule; and however many hosts there are,
  at most 16 goroutines are past the semaphore at any moment of any schedule.\<close>

theorem RunParallel_bounded:
  "map Host (fst (RunParallel E ctx hosts cmd w)) = hosts \<and>
   running (fst (fst (run_sched (parallelLimit (length hosts)) sched (start_group ps v)))) \<le> 16"
proof
  have "running (fst (fst (run_sched (parallelLimit (length hosts)) sched (start_group ps v)))) \<le> parallelLimit (length hosts)"
    by (rule run_sched_running) (simp add: start_group_def)
  then show "running (fst (fst (run_sched (parallelLimit (length hosts)) sched (start_group ps v)))) \<le> 16"
    by (simp add: parallelLimit_def maxParallelHosts_def split: if_splits)
qed (rule RunParallel_hosts)

end
