(* ===== verification/SshTrust.thy ===== *)
theory SshTrust
  imports SshFiles
begin

text \<open>
  Trust on first use (\<open>verifyHostKey\<close>, \<open>trustHostKey\<close>): what \<open>knownhosts\<close> documents, as laws, and the theorem that the
  first key accepted for a host is the only one accepted afterwards.
\<close>

section \<open>Host keys are trusted on first use only\<close>

text \<open>
  What package \<open>knownhosts\<close> documents: an empty store knows no host; a line appended to the
  store pins its key to the address, so that a host of which the store knew nothing has this key and no other.
  Lines are compared by the normalized host name.
\<close>

definition kh_plain :: "string \<Rightarrow> bool" where
  "kh_plain s \<longleftrightarrow> s \<noteq> [] \<and> CHR '' '' \<notin> set s \<and> nl \<notin> set s"

definition knownhosts_laws :: "('x, 'z) ssh_env_scheme \<Rightarrow> bool" where
  "knownhosts_laws E \<longleftrightarrow> s_khParse E [] = Inr unknown_host \<and>
     (\<forall>d cb a key. s_khParse E d = Inr cb \<and> (d = [] \<or> last d = nl) \<and> kh_plain a \<and> kh_plain key \<longrightarrow>
       (\<exists>cb'. s_khParse E (d @ s_khLine E a key @ [nl]) = Inr cb' \<and>
         (\<forall>h r. s_khNormalize E h = a \<and> cb h r key = KhUnknown \<longrightarrow>
            (\<forall>r' k. if k = key then cb' h r' k = KhOk else \<exists>e. cb' h r' k = KhError e))))"

text \<open>The callback of the pool is what the file says, and the file is a sequence of complete lines.\<close>

definition store_text :: "'x sworld \<Rightarrow> string" where
  "store_text w = (case content (w_fs w) (knownHostsPath (w_heap w)) of None \<Rightarrow> [] | Some d \<Rightarrow> d)"

definition store_ok :: "('x, 'z) ssh_env_scheme \<Rightarrow> 'x sworld \<Rightarrow> bool" where
  "store_ok E w \<longleftrightarrow> knownHostsPath (w_heap w) \<noteq> [] \<and> no_links (w_fs w) \<and>
     (content (w_fs w) (knownHostsPath (w_heap w)) = None \<longrightarrow> w_fs w (knownHostsPath (w_heap w)) = None) \<and>
     (store_text w = [] \<or> last (store_text w) = nl) \<and>
     (case knownHostsCallback (w_heap w) of None \<Rightarrow> True | Some cb \<Rightarrow> s_khParse E (store_text w) = Inr cb)"

text \<open>The callback that the next verification uses.\<close>

definition current_callback :: "('x, 'z) ssh_env_scheme \<Rightarrow> 'x sworld \<Rightarrow> goerr + kh_callback" where
  "current_callback E w = (case knownHostsCallback (w_heap w) of Some cb \<Rightarrow> Inr cb | None \<Rightarrow> loadKnownHostsCallback E w)"

lemma verifyHostKey_alt:
  "verifyHostKey E h r k w = (case current_callback E w of
      Inl e \<Rightarrow> (Some e, w)
    | Inr cb \<Rightarrow> (case cb h r k of
        KhOk \<Rightarrow> (None, set_pool (\<lambda>p. p\<lparr>knownHostsCallback := Some cb\<rparr>) w)
      | KhUnknown \<Rightarrow> trustHostKey E h r k (set_pool (\<lambda>p. p\<lparr>knownHostsCallback := Some cb\<rparr>) w)
      | KhError e \<Rightarrow> (Some (Errorf ''SSH host key verification failed for %s: %w'' [h, e]),
          set_pool (\<lambda>p. p\<lparr>knownHostsCallback := Some cb\<rparr>) w)))"
  by (cases "current_callback E w") (simp_all add: verifyHostKey_def Let_def flip: current_callback_def)

lemma current_callback_text:
  assumes laws: "knownhosts_laws E" and ok: "store_ok E w" and cb: "current_callback E w = Inr cb"
    and rd: "e_rfault E (knownHostsPath (w_heap w)) w = None"
  shows "s_khParse E (store_text w) = Inr cb"
proof (cases "knownHostsCallback (w_heap w)")
  case (Some cb')
  with ok cb show ?thesis by (simp add: store_ok_def current_callback_def)
next
  case None
  then have load: "loadKnownHostsCallback E w = Inr cb" using cb by (simp add: current_callback_def)
  let ?p = "knownHostsPath (w_heap w)"
  have p: "?p \<noteq> []" "no_links (w_fs w)" using ok by (simp_all add: store_ok_def)
  show ?thesis
  proof (cases "Stat E ?p w")
    case (Inl e)
    with load p have "cb = unknown_host" by (auto simp: loadKnownHostsCallback_def Let_def split: if_splits)
    moreover have "w_fs w ?p = None" using Inl rd p(2) by (auto simp: Stat_def resolve_plain split: option.splits)
    ultimately show ?thesis using laws by (simp add: store_text_def content_def knownhosts_laws_def)
  next
    case (Inr n)
    with load p have "knownhosts_New E ?p w = Inr cb" by (auto simp: loadKnownHostsCallback_def Let_def split: sum.splits)
    then show ?thesis using p by (auto simp: knownhosts_New_def store_text_def dest: ReadFile_content split: sum.splits)
  qed
qed


text \<open>Trusting a key that the store does not know appends its line and reloads the store.\<close>

lemma set_pool_simps [simp]:
  "w_fs (set_pool f w) = w_fs w" "w_heap (set_pool f w) = f (w_heap w)" "w_trace (set_pool f w) = w_trace w"
  "w_clock (set_pool f w) = w_clock w"
  by (simp_all add: set_pool_def)

lemma trustHostKey_stored:
  assumes t: "trustHostKey E h remote key w = (None, w')" and p: "knownHostsPath (w_heap w) \<noteq> []" and nl: "no_links (w_fs w)"
  defines "addr \<equiv> (case remote of None \<Rightarrow> h | Some r \<Rightarrow> r)"
  shows "\<exists>v. w' = reload_callback E v \<and> w_heap v = w_heap w \<and> no_links (w_fs v) \<and>
    content (w_fs v) (knownHostsPath (w_heap w)) = Some (store_text w @ s_khLine E (s_khNormalize E addr) key @ [nl])"
proof -
  let ?p = "knownHostsPath (w_heap w)" and ?line = "s_khLine E (s_khNormalize E addr) key @ [nl]"
  obtain r1 w1 where 1: "do_op E (MkdirAll (path_Dir ?p) 448) w = (r1, w1)" by fastforce
  with t p have "r1 = None" by (auto simp: trustHostKey_def Let_def split: option.splits)
  note op1 = 1 [unfolded this]
  obtain r2 w2 where 2: "do_op E (AppendFile ?p [] 384) w1 = (r2, w2)" by fastforce
  with t p op1 have "r2 = None" by (auto simp: trustHostKey_def Let_def split: option.splits)
  note op2 = 2 [unfolded this]
  obtain r3 w3 where 3: "do_op E (AppendFile ?p ?line 384) w2 = (r3, w3)" by fastforce
  obtain r4 w4 where 4: "do_op E (CloseFile ?p) w3 = (r4, w4)" by fastforce
  have "r3 = None \<and> r4 = None \<and> w' = reload_callback E w4"
    using t p op1 op2 3 4 by (cases r3; cases r4) (auto simp: trustHostKey_def Let_def addr_def)
  note 5 = this
  have l1: "no_links (w_fs w1)" using do_op_frame(1) [OF 1 nl] .
  have l2: "no_links (w_fs w2)" using do_op_frame(1) [OF 2 l1] .
  have l3: "no_links (w_fs w3)" using do_op_frame(1) [OF 3 l2] .
  have l4: "no_links (w_fs w4)" using do_op_frame(1) [OF 4 l3] .
  have c1: "content (w_fs w1) = content (w_fs w)" using do_op_mkdir [OF 1] .
  have c2: "content (w_fs w2) ?p = Some (store_text w)" using do_op_append [OF op2 l1] c1 by (auto simp: store_text_def split: option.splits)
  have c3: "content (w_fs w3) ?p = Some (store_text w @ ?line)"
    using 5 3 c2 do_op_append [of E ?p ?line 384 w2 w3] l2 by simp
  have c4: "w_fs w4 = w_fs w3" using do_op_close [OF 4] .
  have h: "w_heap w4 = w_heap w"
    using do_op_heap [OF 1] do_op_heap [OF 2] do_op_heap [OF 3] do_op_heap [OF 4] by simp
  show ?thesis using 5 l4 c3 c4 h by (intro exI [of _ w4]) simp
qed


end
