(* ===== verification/SshCalls.thy ===== *)
theory SshCalls
  imports SshTrust
begin

text \<open>
  Remote commands are sent at most once, waiting for SSH does not give up early, and files uploaded over SFTP are
  replaced atomically.
\<close>

section \<open>A command is sent at most once\<close>

fun is_run :: "event \<Rightarrow> bool" where
  "is_run (RunOn c cmd) = True"
| "is_run _ = False"

definition runs :: "('x, 'p) world \<Rightarrow> event list" where
  "runs w = filter is_run (w_trace w)"

text \<open>
  What the bookkeeping steps of the pool do at most: they open and close connections and add lines to a file. No
  command is sent, the account stays, time does not go back.
\<close>

fun gentle :: "event \<Rightarrow> bool" where
  "gentle (Dial host c) = True"
| "gentle (Sess c) = True"
| "gentle (CloseConn c) = True"
| "gentle (Fs (MkdirAll p m)) = True"
| "gentle (Fs (AppendFile p d m)) = True"
| "gentle (Fs (CloseFile p)) = True"
| "gentle _ = False"

definition calm :: "'x sworld \<Rightarrow> 'x sworld \<Rightarrow> bool" where
  "calm w w' \<longleftrightarrow> later w w' \<and> extends gentle w w' \<and> p_user (w_heap w') = p_user (w_heap w)"

interpretation calm: world_order calm
  by unfold_locales (auto simp: calm_def intro: clk.refl clk.trans ext.refl ext.trans)

lemma calm_simps:
  "gentle ev \<Longrightarrow> calm w (emit ev w)" "calm w (elapse d w)" "calm w (w\<lparr>w_ext := x\<rparr>)"
  "calm w (set_pool f w) \<longleftrightarrow> p_user (f (w_heap w)) = p_user (w_heap w)"
  by (auto simp: calm_def later_def extends_def elapse_def set_pool_def intro: exI [of _ "[]"])

lemma calm_runs: "calm w w' \<Longrightarrow> runs w' = runs w"
proof -
  have "\<not> is_run e" if "gentle e" for e using that by (cases e rule: gentle.cases) auto
  then show "calm w w' \<Longrightarrow> runs w' = runs w"
    by (auto simp: calm_def extends_def runs_def list_all_iff filter_empty_conv)
qed

lemma calm_op [keeping]: "gentle (Fs op) \<Longrightarrow> keeps calm (do_op E op)"
proof (rule keepsI)
  fix w :: "'a sworld" and r w' assume g: "gentle (Fs op)" and op: "do_op E op w = (r, w')"
  have "extends gentle w w'" by (rule keepsD [OF do_op_issues [where P = gentle, OF g] op])
  then show "calm w w'" using keepsD [OF do_op_later op] do_op_heap [OF op] by (simp add: calm_def)
qed

lemma calm_initKey: "calm w (snd (initKey E w))"
  by (simp add: initKey_def Let_def calm_simps calm.refl split: sum.split)

lemma calm_reload: "calm w (reload_callback E w)"
  by (simp add: reload_callback_def calm_simps calm.refl split: sum.split)

lemma calm_trust: "keeps calm (trustHostKey E h r k)"
proof (rule keepsI)
  fix w v w' assume t: "trustHostKey E h r k w = (v, w')"
  let ?p = "knownHostsPath (w_heap w)"
  obtain r1 w1 where 1: "do_op E (MkdirAll (path_Dir ?p) 448) w = (r1, w1)" by fastforce
  obtain r2 w2 where 2: "do_op E (AppendFile ?p [] 384) w1 = (r2, w2)" by fastforce
  let ?line = "s_khLine E (s_khNormalize E (case r of None \<Rightarrow> h | Some r \<Rightarrow> r)) k @ [nl]"
  obtain r3 w3 where 3: "do_op E (AppendFile ?p ?line 384) w2 = (r3, w3)" by fastforce
  obtain r4 w4 where 4: "do_op E (CloseFile ?p) w3 = (r4, w4)" by fastforce
  note c = keepsD [OF calm_op 1, simplified] keepsD [OF calm_op 2, simplified] keepsD [OF calm_op 3, simplified] keepsD [OF calm_op 4, simplified]
  have c2: "calm w w2" using calm.trans [OF c(1,2)] .
  have c4: "calm w w4" using calm.trans [OF c2 calm.trans [OF c(3,4)]] .
  have "w' = w \<or> w' = w1 \<or> w' = w2 \<or> w' = w4 \<or> w' = reload_callback E w4"
    using t 1 2 3 4
    by (cases "?p = []"; cases r1; cases r2; cases r3; cases r4) (auto simp: trustHostKey_def Let_def)
  then show "calm w w'" using c(1) c2 c4 calm.trans [OF c4 calm_reload] calm.refl by blast
qed

lemma calm_verify [keeping]: "keeps calm (verifyHostKey E h r k)"
proof (rule keepsI)
  fix w v w' assume run: "verifyHostKey E h r k w = (v, w')"
  show "calm w w'"
  proof (cases "current_callback E w")
    case (Inr cb)
    let ?w = "set_pool (\<lambda>p. p\<lparr>knownHostsCallback := Some cb\<rparr>) w"
    have 1: "calm w ?w" by (simp add: calm_simps)
    have "w' = ?w \<or> trustHostKey E h r k ?w = (v, w')"
      using run Inr by (auto simp: verifyHostKey_alt split: kh_answer.splits)
    then show ?thesis using 1 calm.trans [OF 1] keepsD [OF calm_trust] by blast
  qed (use run calm.refl in \<open>simp add: verifyHostKey_alt\<close>)
qed

lemma calm_lookup [keeping]: "keeps calm (lookup_client E host)"
proof (rule keepsI)
  fix w v w' assume run: "lookup_client E host w = (v, w')"
  obtain e w1 where c: "(if p_config (w_heap w) = None then initKey E w else (None, w)) = (e, w1)" by fastforce
  then have "w1 = w \<or> w1 = snd (initKey E w)" by (auto split: if_splits)
  then have "calm w w1" using calm_initKey calm.refl by blast
  then show "calm w w'" using run unfolding lookup_client_def c by (cases e) auto
qed

lemma calm_NewSession [keeping]: "keeps calm (NewSession E c)"
  by (auto simp: keeps_def NewSession_def calm_def later_def extends_def elapse_def split: prod.split)

lemma calm_invalidate [keeping]: "keeps calm (invalidateClient host)"
  by (auto simp: keeps_def invalidateClient_def calm_simps calm.refl split: option.split)

lemma calm_established [keeping]: "keeps calm (established addr)"
  by (simp add: keeps_def established_def calm_simps)

lemma calm_adopt [keeping]: "keeps calm (adopt_client host c)"
  by (simp add: keeps_def adopt_client_def calm_simps split: option.split)

lemma calm_dial_step [keeping]: "keeps calm (\<lambda>w. case s_dial E addr cfg w of (h, d) \<Rightarrow> (h, elapse d w))"
  by (simp add: keeps_def calm_simps split: prod.split)

lemma calm_select [keeping]: "keeps calm (\<lambda>w. case wait_until E c t w of (b, w') \<Rightarrow> (f b w', w'))"
proof (rule keepsI)
  fix w r w' assume "(case wait_until E c t w of (b, w') \<Rightarrow> (f b w', w')) = (r, w')"
  then obtain b where wt: "wait_until E c t w = (b, w')" by (auto split: prod.splits)
  then obtain u where "w' = w\<lparr>w_clock := u\<rparr>" "w_clock w \<le> u"
    using wait_until_frame [of E c t w b w'] wait_until_clock [of E c t w b w'] by blast
  then show "calm w w'" by (auto simp: calm_def later_def extends_def intro: exI [of _ "[]"])
qed

lemma calm_Dial [keeping]: "steps_keep calm (ssh_Dial E addr cfg)"
  unfolding ssh_Dial_def by (auto intro!: keeping split: handshake.splits option.splits)

lemma calm_getClient [keeping]: "steps_keep calm (getClient E host)"
  unfolding getClient_def by (auto intro!: keeping split: sum.splits prod.splits option.splits)

lemma calm_open_session: "(\<And>c. keeps calm (new c)) \<Longrightarrow> steps_keep calm (open_session E new what host)"
  unfolding open_session_def by (auto intro!: keeping split: sum.splits option.splits)

lemma calm_wait_ssh: "steps_keep calm (wait_ssh n E c host fire i)"
  by (induction n arbitrary: fire i) (auto intro!: keeping calm_select calm.keeps_intros split: sum.splits option.splits)

lemma calm_WaitForSSH: "steps_keep calm (WaitForSSH E c host t)"
  unfolding WaitForSSH_def by (auto intro!: keeping calm_wait_ssh calm.keeps_intros split: prod.splits)

lemma run_session_once:
  assumes "run_session E ctx c cmd stdin w = (r, w')"
  shows "runs w' = runs w @ [RunOn c (remoteCommand (w_heap w) cmd)] \<and> (ro_err r = None \<longrightarrow> ro_code r = 0)"
proof -
  let ?sent = "remoteCommand (w_heap w) cmd" and ?w = "emit (RunOn c (remoteCommand (w_heap w) cmd)) w"
  obtain rr out x where run: "s_run E c ?sent stdin ?w = ((rr, out), x)" by (metis prod.collapse)
  obtain b w1 where wt: "wait_until E ctx (w_clock ?w + int (rr_time rr)) ?w = (b, w1)" by fastforce
  obtain rc xc where cut: "s_cut E c ?sent stdin w1 = (rc, xc)" by fastforce
  have "w_trace w1 = w_trace ?w" using wait_until_frame [OF wt] by (metis world.select_convs(4) world.surjective world.update_convs(2))
  then have "runs w1 = runs w @ [RunOn c ?sent]" by (simp add: runs_def)
  moreover have "ctx_err ctx w1 \<noteq> None" if "\<not> b" using wt that by (cases b) (auto dest: wait_until_done)
  ultimately show ?thesis using assms run wt cut
    by (cases b; cases out) (auto simp: run_session_def Let_def runs_def elapse_def)
qed

lemma command_sent_once_run:
  assumes "run_proc (RunCommandStdin E ctx host cmd stdin has_dst) w = (r, w')"
  shows "(runs w' = runs w \<and> ro_err r \<noteq> None \<and> ro_code r = -1) \<or>
    (\<exists>c. runs w' = runs w @ [RunOn c (remoteCommand (w_heap w) cmd)] \<and> (ro_err r = None \<longrightarrow> ro_code r = 0))"
proof (cases has_dst)
  case True
  let ?open = "open_session E (NewSession E) ''session'' host"
  obtain s w1 where o: "run_proc ?open w = (s, w1)" by fastforce
  have "steps_keep calm ?open" by (rule calm_open_session) (rule calm_NewSession)
  from keepsD [OF calm.run_proc_keeps [OF this] o] have c: "runs w1 = runs w" "p_user (w_heap w1) = p_user (w_heap w)"
    by (simp_all add: calm_runs calm_def)
  then have sent: "remoteCommand (w_heap w1) cmd = remoteCommand (w_heap w) cmd" by (simp add: remoteCommand_def elevated_def)
  show ?thesis
  proof (cases s)
    case (Inl e)
    with assms o True c show ?thesis by (auto simp: RunCommandStdin_def)
  next
    case (Inr conn)
    with assms o True have "run_session E ctx conn cmd stdin w1 = (r, w')" by (simp add: RunCommandStdin_def)
    from run_session_once [OF this] c sent show ?thesis by auto
  qed
qed (use assms in \<open>auto simp: RunCommandStdin_def\<close>)

text \<open>C15. A remote command is sent to at most one connection and at most once, also when a stale connection is dialled again; a command that
  is reported as successful was sent exactly once and has exit code 0. In particular an exit code other than 0
  always comes with an error.\<close>

theorem command_sent_once:
  assumes "run_proc (RunCommandStdin E ctx host cmd stdin has_dst) w = (r, w')"
  shows "(runs w' = runs w \<and> ro_err r \<noteq> None \<and> ro_code r = -1) \<or>
    (\<exists>c. runs w' = runs w @ [RunOn c (remoteCommand (w_heap w) cmd)] \<and> (ro_err r = None \<longrightarrow> ro_code r = 0))"
  using assms by (rule command_sent_once_run)

section \<open>Waiting for SSH does not give up early\<close>

lemma next_interval_ge: "Second \<le> i \<Longrightarrow> Second \<le> next_interval i"
  by (auto simp: next_interval_def Let_def Second_def)

lemma done_at_calm: "calm w w' \<Longrightarrow> done_at c w' = done_at c w"
  by (simp add: calm_def later_def done_at_def)

lemma calm_clock: "calm w w' \<Longrightarrow> w_clock w \<le> w_clock w'"
  by (simp add: calm_def later_def)

lemma ctx_err_done: "done_at c w = Some t \<Longrightarrow> t \<le> w_clock w \<Longrightarrow> ctx_err c w \<noteq> None"
  by (simp add: ctx_err_def)

lemma wait_ssh_error:
  assumes "run_proc (wait_ssh n E c host fire interval) w = (Some e, w')" and "done_at c w = Some t"
    and "t \<le> w_clock w + int n * Second" and "w_clock w + Second \<le> fire" and "Second \<le> interval"
  shows "ctx_err c w' \<noteq> None"
  using assms
proof (induction n arbitrary: fire interval w)
  case 0
  then have "t \<le> w_clock w'" "done_at c w' = Some t" by auto
  then show ?case using ctx_err_done by blast
next
  case (Suc n)
  let ?attempt = "\<lambda>r. case r of Inl e \<Rightarrow> Return False
        | Inr cn \<Rightarrow> andThen (atomic (NewSession E cn)) (\<lambda>s. case s of
            None \<Rightarrow> Return True
          | Some e \<Rightarrow> andThen (atomic (invalidateClient host)) (\<lambda>_. Return False))"
  obtain r w1 where 1: "run_proc (getClient E host) w = (r, w1)" by fastforce
  obtain up w2 where 2: "run_proc (?attempt r) w1 = (up, w2)" by fastforce
  obtain b w3 where 3: "wait_until E c fire w2 = (b, w3)" by fastforce
  have attempt_calm: "steps_keep calm (?attempt r)" by (auto intro!: keeping split: sum.splits option.splits)
  have "calm w w1" using keepsD [OF calm.run_proc_keeps [OF calm_getClient] 1] .
  then have c2: "calm w w2" using keepsD [OF calm.run_proc_keeps [OF attempt_calm] 2] calm.trans by blast
  moreover have c3: "calm w2 w3" using keepsD [OF calm_select [where f = "\<lambda>b w. ()"], of E c fire w2 "()" w3] 3 by simp
  ultimately have "calm w w3" by (rule calm.trans)
  then have d: "done_at c w3 = Some t" using done_at_calm Suc.prems(2) by metis
  have "\<not> up" using Suc.prems(1) 1 2 by (auto split: if_splits)
  show ?case
  proof (cases b)
    case False
    with Suc.prems(1) 1 2 3 \<open>\<not> up\<close> have "w' = w3" by simp
    with 3 False show ?thesis by (auto dest: wait_until_done)
  next
    case True
    have late: "w_clock w + Second \<le> w_clock w3" using wait_until_clock [OF 3] True Suc.prems(4) by simp
    have "run_proc (wait_ssh n E c host (w_clock w3 + next_interval interval) (next_interval interval)) w3 = (Some e, w')"
      using Suc.prems(1) 1 2 3 True \<open>\<not> up\<close> by simp
    moreover have "t \<le> w_clock w3 + int n * Second" using Suc.prems(3) late by (simp add: algebra_simps)
    ultimately show ?thesis
      using Suc.IH [OF _ d] next_interval_ge [OF Suc.prems(5)] by simp
  qed
qed

text \<open>C17. \<open>WaitForSSH\<close> reports an error only when its timeout has expired or the run was cancelled: it keeps polling until then,
  and the bound on its rounds is never what ends it early.\<close>

theorem WaitForSSH_patient:
  assumes "run_proc (WaitForSSH E ctx host timeout) w = (Some e, w')"
  shows "ctx_err (WithTimeout ctx timeout w) w' \<noteq> None"
proof -
  let ?c = "WithTimeout ctx timeout w"
  obtain u where u: "?c = Some u" "u \<le> w_clock w + timeout" by (cases ctx) (auto simp: WithTimeout_def Let_def)
  then obtain t where t: "done_at ?c w = Some t" "t \<le> u" by (cases "w_cancel w") (auto simp: done_at_def)
  have run: "run_proc (wait_ssh (ssh_rounds timeout) E ?c host (w_clock w + Second) Second) w = (Some e, w')"
    using assms by (simp add: WaitForSSH_def)
  have "timeout = timeout div Second * Second + timeout mod Second" by simp
  moreover have "timeout mod Second < Second" by (simp add: Second_def)
  moreover have "timeout div Second * Second \<le> int (nat (timeout div Second)) * Second"
    by (rule mult_right_mono) (simp_all add: Second_def)
  ultimately have "timeout \<le> int (nat (timeout div Second)) * Second + 2 * Second"
    by (simp add: Second_def)
  then have "timeout \<le> int (ssh_rounds timeout) * Second" by (simp add: ssh_rounds_def algebra_simps)
  then have "t \<le> w_clock w + int (ssh_rounds timeout) * Second" using t u by simp
  from wait_ssh_error [OF run t(1) this] show ?thesis by simp
qed


section \<open>Remote files are replaced atomically\<close>

text \<open>
  What an SFTP server promises, for the files that one connection sees (\<open>view\<close> of the state outside the process): an operation
  changes no other file; a file opened for writing is empty; a write appends; \<open>PosixRename\<close>
  either moves the file over the target or changes nothing.
\<close>

fun sftp_touches :: "sftpop \<Rightarrow> string set" where
  "sftp_touches (SOpenFile p) = {p}"
| "sftp_touches (SChmod p m) = {}"
| "sftp_touches (SWrite p d) = {p}"
| "sftp_touches (SClose p) = {}"
| "sftp_touches (SRemove p) = {p}"
| "sftp_touches (SPosixRename a b) = {a, b}"
| "sftp_touches (SMkdirAll p) = {p}"

fun sftp_effect :: "sftpop \<Rightarrow> goerr option \<Rightarrow> (string \<Rightarrow> string option) \<Rightarrow> (string \<Rightarrow> string option) \<Rightarrow> bool" where
  "sftp_effect (SOpenFile p) r f g \<longleftrightarrow> (r = None \<longrightarrow> g p = Some [])"
| "sftp_effect (SWrite p d) r f g \<longleftrightarrow> (r = None \<longrightarrow> g p = map_option (\<lambda>old. old @ d) (f p))"
| "sftp_effect (SPosixRename a b) r f g \<longleftrightarrow> (if r = None then g b = f a else g b = f b)"
| "sftp_effect _ r f g \<longleftrightarrow> True"

definition sftp_laws :: "('x, 'z) ssh_env_scheme \<Rightarrow> nat \<Rightarrow> ('x \<Rightarrow> string \<Rightarrow> string option) \<Rightarrow> bool" where
  "sftp_laws E c view \<longleftrightarrow> (\<forall>op w r d x. s_op E c op w = (r, d, x) \<longrightarrow>
     (\<forall>q. q \<notin> sftp_touches op \<longrightarrow> view x q = view (w_ext w) q) \<and> sftp_effect op r (view (w_ext w)) (view x))"

lemma sftp_do_laws:
  assumes "sftp_laws E c view" and "sftp_do E c op w = (r, w')"
  shows "q \<notin> sftp_touches op \<Longrightarrow> view (w_ext w') q = view (w_ext w) q"
    and "sftp_effect op r (view (w_ext w)) (view (w_ext w'))"
  using assms by (auto simp: sftp_laws_def sftp_do_def split: prod.splits)

lemma sidecar_neq [simp]: "p \<noteq> sidecar p" "sidecar p \<noteq> p"
  by (simp_all add: sidecar_def)

text \<open>The steps of an upload leave every file but the sidecar alone.\<close>

definition spares :: "('x \<Rightarrow> string \<Rightarrow> string option) \<Rightarrow> string \<Rightarrow> 'x sworld \<Rightarrow> 'x sworld \<Rightarrow> bool" where
  "spares view p w w' \<longleftrightarrow> (\<forall>q. q \<noteq> p \<longrightarrow> view (w_ext w') q = view (w_ext w) q)"

interpretation spare: world_order "spares view p" for view p
  by unfold_locales (auto simp: spares_def)

lemma sftp_do_spares:
  "sftp_laws E c view \<Longrightarrow> sftp_touches op \<subseteq> {p} \<Longrightarrow> keeps (spares view p) (sftp_do E c op)"
  unfolding spares_def by (rule keepsI) (use sftp_do_laws(1) in blast)

lemma copy_to_spares: "sftp_laws E c view \<Longrightarrow> keeps (spares view p) (copy_to E c src p)"
  unfolding copy_to_def
proof (rule keepsI)
  fix w r w' assume l: "sftp_laws E c view"
    and "(case sftp_do E c (SWrite p (fst src)) w of (Some e, w') \<Rightarrow> (Some e, w') | (None, w') \<Rightarrow> (snd src, w')) = (r, w')"
  then obtain r' where "sftp_do E c (SWrite p (fst src)) w = (r', w')" by (auto split: prod.splits option.splits)
  then show "spares view p w w'" by (rule keepsD [OF sftp_do_spares [OF l], rotated]) simp
qed

lemma drop_file_spares: "sftp_laws E c view \<Longrightarrow> steps_keep (spares view p) (drop_file E c b p e)"
  unfolding drop_file_def by (auto intro!: keeping sftp_do_spares)

lemma writeRemoteFileAt_spares: "sftp_laws E c view \<Longrightarrow> steps_keep (spares view p) (writeRemoteFileAt E c src p mode)"
  unfolding writeRemoteFileAt_def
  by (auto intro!: keeping sftp_do_spares copy_to_spares drop_file_spares split: option.splits)

lemma drop_file_error: "fst (run_proc (drop_file E c b p e) w) = Some e"
  by (simp add: drop_file_def split: prod.splits)

lemma writeRemoteFileAt_written:
  assumes l: "sftp_laws E c view" and run: "run_proc (writeRemoteFileAt E c (d, None) p mode) w = (None, w')"
  shows "view (w_ext w') p = Some d"
proof -
  obtain r1 w1 where 1: "sftp_do E c (SOpenFile p) w = (r1, w1)" by fastforce
  obtain r2 w2 where 2: "sftp_do E c (SChmod p mode) w1 = (r2, w2)" by fastforce
  obtain r3 w3 where 3: "sftp_do E c (SWrite p d) w2 = (r3, w3)" by fastforce
  obtain r4 w4 where 4: "sftp_do E c (SClose p) w3 = (r4, w4)" by fastforce
  have drop: "run_proc (drop_file E c b p e) v \<noteq> (None, w')" for b e v
    using drop_file_error [of E c b p e v] by auto
  have "r1 = None \<and> r2 = None \<and> r3 = None \<and> r4 = None \<and> w' = w4"
    using run 1 2 3 4 drop
    by (cases r1; cases r2; cases r3; cases r4) (simp_all add: writeRemoteFileAt_def copy_to_def)
  then show ?thesis
    using sftp_do_laws(2) [OF l 1] sftp_do_laws(1) [OF l 2, of p] sftp_do_laws(2) [OF l 3] sftp_do_laws(1) [OF l 4, of p]
    by simp
qed

lemma upload_view:
  assumes l: "sftp_laws E c view" and run: "run_proc (writeRemoteFile E c (d, None) path mode) w = (r, w')"
  shows "view (w_ext w') path = (case r of None \<Rightarrow> Some d | Some e \<Rightarrow> view (w_ext w) path)"
proof -
  obtain r1 w1 where 1: "run_proc (writeRemoteFileAt E c (d, None) (sidecar path) mode) w = (r1, w1)" by fastforce
  obtain r2 w2 where 2: "sftp_do E c (SPosixRename (sidecar path) path) w1 = (r2, w2)" by fastforce
  have same: "view (w_ext w1) path = view (w_ext w) path"
    using keepsD [OF spare.run_proc_keeps [OF writeRemoteFileAt_spares [OF l]] 1] by (simp add: spares_def)
  note eff = sftp_do_laws(2) [OF l 2]
  have dropped: "view (w_ext w3) path = view (w_ext w2) path"
    if "run_proc (drop_file E c b (sidecar path) e) w2 = (r3, w3)" for b e r3 w3
    using keepsD [OF spare.run_proc_keeps [OF drop_file_spares [OF l]] that] by (simp add: spares_def)
  show ?thesis
  proof (cases r1)
    case (Some e)
    with run 1 same show ?thesis by (auto simp: writeRemoteFile_def)
  next
    case None
    then have sc: "view (w_ext w1) (sidecar path) = Some d" using writeRemoteFileAt_written [OF l] 1 by blast
    show ?thesis
    proof (cases r2)
      case None
      with run 1 2 \<open>r1 = None\<close> sc eff show ?thesis by (auto simp: writeRemoteFile_def)
    next
      case (Some e)
      with run 1 2 \<open>r1 = None\<close> have d: "run_proc (drop_file E c False (sidecar path)
          (Errorf ''failed to replace remote file %s: %w'' [path, e])) w2 = (r, w')"
        by (simp add: writeRemoteFile_def)
      then have "r \<noteq> None" using drop_file_error by (metis fst_conv option.distinct(1))
      with dropped [OF d] eff Some same show ?thesis by auto
    qed
  qed
qed

text \<open>An upload is a \<open>replacer\<close> of the remote file.\<close>

lemma upload_replacer:
  "sftp_laws E c view \<Longrightarrow>
    replacer (\<lambda>d. run_proc (writeRemoteFile E c (d, None) path mode)) (\<lambda>w. True) (\<lambda>w. view (w_ext w) path) (\<lambda>d w. d)"
  by unfold_locales (use upload_view [of E c view] in auto)

text \<open>C16. Through any sequence of uploads to a remote file, with failures at any point of any of them, the file holds the whole content of the
  last upload that succeeded, or what it held before when none did.\<close>

theorem uploads_atomic:
  assumes "sftp_laws E c view"
    and "replacer.writes (\<lambda>d. run_proc (writeRemoteFile E c (d, None) path mode)) (\<lambda>d w. d) ds w = (ok, w')"
  shows "view (w_ext w') path = (if ok = [] then view (w_ext w) path else Some (last ok))"
  by (rule replacer.last_write_wins [OF upload_replacer [OF assms(1)] _ assms(2)]) simp

end
