(* ===== verification/SshLab.thy ===== *)
theory SshLab
  imports SshProps SshCalls
begin

text \<open>
  A concrete environment for the SSH pool (one server, every operation succeeds), and the properties of the pool applied to it.
\<close>

section \<open>Examples\<close>

text \<open>A server with one file system for all hosts; \<open>known_hosts\<close> lines are an address, a space and a key.\<close>

fun lab_op :: "sftpop \<Rightarrow> (string \<Rightarrow> string option) \<Rightarrow> string \<Rightarrow> string option" where
  "lab_op (SOpenFile p) f = f(p \<mapsto> [])"
| "lab_op (SWrite p d) f = f(p := map_option (\<lambda>old. old @ d) (f p))"
| "lab_op (SRemove p) f = f(p := None)"
| "lab_op (SPosixRename a b) f = (f(a := None))(b := f a)"
| "lab_op op f = f"

fun kh_entry :: "string \<Rightarrow> (string \<times> string) list" where
  "kh_entry l = (let a = takeWhile (\<lambda>c. c \<noteq> CHR '' '') l in if a = l then [] else [(a, drop (length a + 1) l)])"

definition lab_parse :: "string \<Rightarrow> goerr + kh_callback" where
  "lab_parse d = Inr (\<lambda>h r k. case map_of (concat (map kh_entry (Split d [nl]))) h of
      None \<Rightarrow> KhUnknown
    | Some k' \<Rightarrow> if k = k' then KhOk else KhError ''knownhosts: key mismatch'')"

definition lab :: "(string \<Rightarrow> string option) ssh_env" where
  "lab = \<lparr>e_exec = \<lambda>argv w. (([], None), 0, w_fs w, w_ext w), e_lookpath = \<lambda>p w. True, e_getenv = \<lambda>v. [],
     e_fault = \<lambda>op w. None, e_rfault = \<lambda>p w. None, e_late = \<lambda>w. 0, e_tie = \<lambda>w. True, e_rand = \<lambda>w. 0,
     e_sched = \<lambda>w. [0, 1, 0, 1, 0, 1, 0, 1, 0, 1], e_temp = \<lambda>p w. ''/tmp/'' @ p, s_parseKey = Inr, s_dial = \<lambda>addr cfg w. (ServerKey None ''AAAA'' None, 1),
     s_refused = \<lambda>e. e, s_khParse = lab_parse, s_khNormalize = \<lambda>h. h, s_khLine = \<lambda>a k. a @ '' '' @ k,
     s_session = \<lambda>c w. (None, 1), s_run = \<lambda>c cmd inp w. ((\<lparr>rr_stdout = ''ok'', rr_stderr = [], rr_time = 1\<rparr>, RunOk), w_ext w),
     s_cut = \<lambda>c cmd inp w. (\<lparr>rr_stdout = [], rr_stderr = [], rr_time = 1\<rparr>, w_ext w), s_sftp = \<lambda>c w. (None, 1),
     s_op = \<lambda>c op w. (None, 1, lab_op op (w_ext w)), s_open = \<lambda>c p w. None, s_read = \<lambda>c p n w. Inr [],
     s_random = \<lambda>w. Inr [], s_walk = \<lambda>p w. [], s_tar = \<lambda>es. []\<rparr>"

definition lab_world :: "string \<Rightarrow> (string \<Rightarrow> string option) sworld" where
  "lab_world user = \<lparr>w_fs = [''/key'' \<mapsto> File ''k'' 384], w_clock = 0, w_cancel = None, w_trace = [], w_ext = Map.empty,
     w_heap = (empty_pool ''/key'' \<lparr>User = user, KnownHostsFile = ''/kh'', ConnectTimeout = 5\<rparr>)\<rparr>"

lemma lab_simps [simp]:
  "e_fault lab fop w = None" "e_rfault lab p w = None" "e_late lab w = 0" "e_tie lab w"
  "e_sched lab w = [0, 1, 0, 1, 0, 1, 0, 1, 0, 1]" "s_parseKey lab = Inr" "s_dial lab addr cfg w = (ServerKey None ''AAAA'' None, 1)"
  "s_refused lab e = e" "s_khParse lab = lab_parse" "s_khNormalize lab h = h" "s_khLine lab a k = a @ '' '' @ k"
  "s_session lab c w = (None, 1)" "s_run lab c cmd inp w = ((\<lparr>rr_stdout = ''ok'', rr_stderr = [], rr_time = 1\<rparr>, RunOk), w_ext w)"
  "s_sftp lab c w = (None, 1)" "s_op lab c op w = (None, 1, lab_op op (w_ext w))"
  by (simp_all add: lab_def)

lemma lab_sftp: "sftp_laws lab c (\<lambda>x. x)"
  unfolding sftp_laws_def
proof (intro allI impI)
  fix op r d x and w :: "(string \<Rightarrow> string option) sworld"
  assume "s_op lab c op w = (r, d, x)"
  then have "r = None" "x = lab_op op (w_ext w)" by simp_all
  then show "(\<forall>q. q \<notin> sftp_touches op \<longrightarrow> x q = w_ext w q) \<and> sftp_effect op r (w_ext w) x"
    by (cases op) simp_all
qed


section \<open>The properties of the pool, applied\<close>

lemma lost_lab: "lost (lab_world user) = {}"
  by (simp add: lost_def dials_def lab_world_def)

text \<open>Two goroutines for the same host: both dial it, and the second closes its connection again.\<close>

definition lab_run :: "(string \<Rightarrow> string option) sworld" where
  "lab_run = snd (Close (snd (RunParallel lab None [''a'', ''a''] ''id'' (snd (WaitForAllSSH lab None [''b''] 5 (lab_world ''root''))))))"

lemma lab_dials: "dials lab_run = 3"
  by code_simp

theorem no_connection_lost_witness: "dials lab_run = 3 \<and> {..<3} \<subseteq> closed lab_run"
  using no_connection_lost [OF lost_lab lab_run_def] lab_dials by simp

lemma split_acc_nl:
  "split_acc [nl] acc (u @ nl # v) = split_acc [nl] acc u @ split_acc [nl] [] v"
  by (induction "[nl]" acc u rule: split_acc.induct) (auto simp: HasPrefix_def)

lemma Split_line: "nl \<notin> set l \<Longrightarrow> Split (l @ [nl]) [nl] = [l, []]"
proof -
  have "nl \<notin> set l \<Longrightarrow> split_acc [nl] acc l = [rev acc @ l]" for acc
    by (induction l arbitrary: acc) (auto simp: HasPrefix_def)
  then show "nl \<notin> set l \<Longrightarrow> Split (l @ [nl]) [nl] = [l, []]"
    using split_acc_nl [of "[]" l "[]"] by (simp add: Split_def)
qed

definition lab_entries :: "string \<Rightarrow> (string \<times> string) list" where
  "lab_entries d = concat (map kh_entry (Split d [nl]))"

lemma lab_entries_append:
  assumes d: "d = [] \<or> last d = nl" and a: "kh_plain a" and k: "kh_plain k"
  shows "lab_entries (d @ a @ '' '' @ k @ [nl]) = lab_entries d @ [(a, k)]"
proof -
  let ?l = "a @ '' '' @ k"
  have "nl \<notin> set ?l" using a k by (simp add: kh_plain_def)
  note line = Split_line [OF this]
  have tk: "takeWhile (\<lambda>c. c \<noteq> CHR '' '') ?l = a" using a by (simp add: kh_plain_def takeWhile_append)
  have entry: "kh_entry ?l = [(a, k)]" using tk by (simp add: Let_def)
  show ?thesis
  proof (cases "d = []")
    case True
    with line entry show ?thesis by (simp add: lab_entries_def)
  next
    case False
    with d obtain u where u: "d = u @ [nl]" by (metis append_butlast_last_id)
    have "Split (d @ ?l @ [nl]) [nl] = Split u [nl] @ [?l, []]"
      using line u split_acc_nl [of "[]" u "?l @ [nl]"] by (simp add: Split_def)
    moreover have "Split d [nl] = Split u [nl] @ [[]]" using u split_acc_nl [of "[]" u "[]"] by (simp add: Split_def)
    ultimately show ?thesis using entry by (simp add: lab_entries_def)
  qed
qed

lemma lab_knownhosts: "knownhosts_laws lab"
proof -
  have p: "lab_parse d = Inr (\<lambda>h r k. case map_of (lab_entries d) h of None \<Rightarrow> KhUnknown
      | Some k' \<Rightarrow> if k = k' then KhOk else KhError ''knownhosts: key mismatch'')" for d
    by (simp add: lab_parse_def lab_entries_def)
  have "lab_parse [] = Inr unknown_host"
    unfolding p by (simp add: lab_entries_def unknown_host_def fun_eq_iff)
  moreover have "\<exists>cb'. lab_parse (d @ (a @ '' '' @ key) @ [nl]) = Inr cb' \<and>
      (\<forall>h r. h = a \<and> cb h r key = KhUnknown \<longrightarrow> (\<forall>r' k. if k = key then cb' h r' k = KhOk else \<exists>e. cb' h r' k = KhError e))"
    if "lab_parse d = Inr cb" "d = [] \<or> last d = nl" "kh_plain a" "kh_plain key" for d cb a key
  proof -
    have cb: "cb = (\<lambda>h r k. case map_of (lab_entries d) h of None \<Rightarrow> KhUnknown
        | Some k' \<Rightarrow> if k = k' then KhOk else KhError ''knownhosts: key mismatch'')" using that(1) by (simp add: p)
    have "map_of (lab_entries d @ [(a, key)]) a = Some key" if "cb a r key = KhUnknown" for r
      using that by (auto simp: cb map_add_def split: option.splits if_splits)
    then show ?thesis using lab_entries_append [OF that(2-4)]
      by (cases "\<exists>r. cb a r key = KhUnknown") (auto simp: p)
  qed
  ultimately show ?thesis unfolding knownhosts_laws_def by simp
qed


definition lab_cmd :: "run_out \<times> (string \<Rightarrow> string option) sworld" where
  "lab_cmd = run_proc (RunCommandStdin lab None ''h'' ''id'' None True) (lab_world ''deploy'')"

theorem command_sent_once_witness:
  "\<exists>c. runs (snd lab_cmd) = [RunOn c (remoteCommand (w_heap (lab_world ''deploy'')) ''id'')] \<and> ro_code (fst lab_cmd) = 0"
proof -
  have "ro_err (fst lab_cmd) = None" by code_simp
  with command_sent_once [of lab None "''h''" "''id''" None True "lab_world ''deploy''" "fst lab_cmd" "snd lab_cmd"]
  show ?thesis by (simp add: lab_cmd_def runs_def lab_world_def)
qed

text \<open>A host that does not answer.\<close>

definition lab_down :: "(string \<Rightarrow> string option) ssh_env" where
  "lab_down = lab\<lparr>s_dial := \<lambda>addr cfg w. (NoConnect ''connection refused'', 1)\<rparr>"

theorem WaitForSSH_patient_witness:
  "ctx_err (WithTimeout None (3 * Second) (lab_world ''root''))
     (snd (run_proc (WaitForSSH lab_down None ''h'' (3 * Second)) (lab_world ''root''))) \<noteq> None"
proof -
  let ?r = "run_proc (WaitForSSH lab_down None ''h'' (3 * Second)) (lab_world ''root'')"
  have "fst ?r \<noteq> None" by code_simp
  then obtain e where "?r = (Some e, snd ?r)" by (metis option.exhaust_sel prod.collapse)
  then show ?thesis by (rule WaitForSSH_patient)
qed

theorem uploads_atomic_witness:
  "\<exists>ok w'. replacer.writes (\<lambda>d. run_proc (writeRemoteFile lab 0 (d, None) ''/etc/x'' 420)) (\<lambda>d w. d) [''one'', ''two''] (lab_world ''root'') = (ok, w')
     \<and> w_ext w' ''/etc/x'' = (if ok = [] then None else Some (last ok))"
proof -
  let ?r = "replacer.writes (\<lambda>d. run_proc (writeRemoteFile lab 0 (d, None) ''/etc/x'' 420)) (\<lambda>d w. d) [''one'', ''two''] (lab_world ''root'')"
  have "w_ext (snd ?r) ''/etc/x'' = (if fst ?r = [] then w_ext (lab_world ''root'') ''/etc/x'' else Some (last (fst ?r)))"
    by (rule uploads_atomic [OF lab_sftp]) simp
  then show ?thesis by (intro exI [of _ "fst ?r"] exI [of _ "snd ?r"]) (simp add: lab_world_def)
qed

end
