(* ===== verification/PuppetAgent.thy ===== *)
theory PuppetAgent
  imports SshLab
begin

text \<open>
  \<open>internal/phases/puppetagent.go\<close>: running the puppet agent on one host or on many.
\<close>

definition PuppetAgentCommand :: "string \<Rightarrow> string" where
  "PuppetAgentCommand server =
     ''/opt/puppetlabs/bin/puppet agent -t'' @ (if server \<noteq> [] then '' --server '' @ server else []) @ '' || [ $? -eq 2 ]''"

definition agent_result :: "string \<Rightarrow> string \<Rightarrow> run_out \<Rightarrow> (string \<times> string) \<times> goerr option" where
  "agent_result label host r = ((ro_stdout r, ro_stderr r),
     if ro_err r = None \<and> (ro_code r = 0 \<or> ro_code r = 2) then None
     else Some (Errorf ''puppet agent failed on %s %s (exit code %d): %v'' [label, host, itoa (ro_code r), err_v (ro_err r)]))"

definition RunPuppetAgentCmd :: "('x, 'z) ssh_env_scheme \<Rightarrow> ctx \<Rightarrow> string \<Rightarrow> string \<Rightarrow> string
    \<Rightarrow> ('x, (string \<times> string) \<times> goerr option) sproc" where
  "RunPuppetAgentCmd E ctx host label cmd =
     andThen (RunCommand E ctx host cmd) (\<lambda>r. Return (agent_result label host r))"

definition RunPuppetAgent :: "('x, 'z) ssh_env_scheme \<Rightarrow> ctx \<Rightarrow> string \<Rightarrow> string \<Rightarrow> ('x, (string \<times> string) \<times> goerr option) sproc" where
  "RunPuppetAgent E ctx host label = RunPuppetAgentCmd E ctx host label (PuppetAgentCommand [])"

definition agent_failure :: "ParallelResult \<Rightarrow> string list" where
  "agent_failure r = (case Err r of
      Some e \<Rightarrow> [Sprintf ''%s: %v'' [Host r, e]]
    | None \<Rightarrow> if ExitCode r \<noteq> 0 \<and> ExitCode r \<noteq> 2 then [Sprintf ''%s: exit code %d'' [Host r, itoa (ExitCode r)]] else [])"

definition RunPuppetAgentParallel :: "('x, 'z) ssh_env_scheme \<Rightarrow> ctx \<Rightarrow> string list \<Rightarrow> 'x sworld \<Rightarrow> goerr option \<times> 'x sworld" where
  "RunPuppetAgentParallel E ctx hosts w = (let targets = filter (\<lambda>h. h \<noteq> []) hosts in
     if targets = [] then (None, w)
     else case RunParallel E ctx targets (PuppetAgentCommand []) w of (rs, w') \<Rightarrow>
       (let failures = concat (map agent_failure rs) in
        if failures = [] then (None, w')
        else (Some (Errorf (''puppet agent failed on %d/%d nodes:'' @ nl # ''%s'')
                [itoa (int (length failures)), itoa (int (length targets)), Join failures [nl]]), w')))"

text \<open>The exit code 2 of the agent (changes applied) is a failure of \<open>RunPuppetAgentCmd\<close>, although the function means to accept it: the pool
  reports every exit code other than 0 with an error, so the agent counts as converged exactly
  when the command was sent and ended with 0. Only the shell guard of \<open>PuppetAgentCommand\<close> makes 2 a success.\<close>

theorem RunPuppetAgentCmd_exit:
  assumes "run_proc (RunCommand E ctx host cmd) w = (r, w')"
  shows "snd (fst (run_proc (RunPuppetAgentCmd E ctx host label cmd) w)) = None \<longleftrightarrow> ro_err r = None \<and> ro_code r = 0"
proof -
  have "ro_err r = None \<longrightarrow> ro_code r = 0"
    using command_sent_once_run [OF assms [unfolded RunCommand_def RunCommandToWriter_def]] by auto
  with assms show ?thesis by (auto simp: RunPuppetAgentCmd_def agent_result_def)
qed

text \<open>The toy server: the agent answers 2, without and with a guard in the shell.\<close>

definition lab_exit :: "int \<Rightarrow> (string \<Rightarrow> string option) ssh_env" where
  "lab_exit n = lab\<lparr>s_run := \<lambda>c cmd inp w. ((\<lparr>rr_stdout = [], rr_stderr = [], rr_time = 1\<rparr>,
     if n = 0 then RunOk else RunExit n ''Process exited''), w_ext w)\<rparr>"

theorem RunPuppetAgentCmd_exit_witness:
  "snd (fst (run_proc (RunPuppetAgentCmd (lab_exit 2) None ''h'' ''node'' ''puppet agent -t'') (lab_world ''root''))) \<noteq> None \<and>
   snd (fst (run_proc (RunPuppetAgentCmd (lab_exit 0) None ''h'' ''node'' ''puppet agent -t'') (lab_world ''root''))) = None"
proof -
  have "ro_code (fst (run_proc (RunCommand (lab_exit 2) None ''h'' ''puppet agent -t'') (lab_world ''root''))) = 2" by code_simp
  moreover have "ro_err (fst (run_proc (RunCommand (lab_exit 0) None ''h'' ''puppet agent -t'') (lab_world ''root''))) = None"
    "ro_code (fst (run_proc (RunCommand (lab_exit 0) None ''h'' ''puppet agent -t'') (lab_world ''root''))) = 0" by code_simp+
  ultimately show ?thesis unfolding RunPuppetAgentCmd_exit [OF surjective_pairing] by simp
qed

end
