(* ===== verification/VMOps.thy ===== *)
theory VMOps
  imports Config Libvirt SshRun
begin

text \<open>
  \<open>internal/utils/vmops.go\<close>: starting and stopping the machines of the cluster, shrinking their memory, correcting
  their boot order, installing them in batches, cleaning up failed ones.
\<close>

section \<open>Shared helpers\<close>

text \<open>\<open>errors.Join\<close>.\<close>

definition errors_Join :: "goerr list \<Rightarrow> goerr option" where
  "errors_Join es = (if es = [] then None else Some (Join es [nl]))"

definition opt_list :: "'a option \<Rightarrow> 'a list" where
  "opt_list x = (case x of None \<Rightarrow> [] | Some a \<Rightarrow> [a])"

text \<open>\<open>time.Duration.String\<close>: a fraction has \<open>prec\<close> digits without its trailing zeros.\<close>

definition frac_digits :: "nat \<Rightarrow> nat \<Rightarrow> string" where
  "frac_digits prec v = (let ds = nat_digits (v mod 10 ^ prec); ds = replicate (prec - length ds) (CHR ''0'') @ ds;
     ds = rev (dropWhile (\<lambda>c. c = CHR ''0'') (rev ds)) in if ds = [] then [] else CHR ''.'' # ds)"

definition duration_nat :: "nat \<Rightarrow> string" where
  "duration_nat u =
     (if u = 0 then ''0s''
      else if u < 10 ^ 3 then nat_digits u @ ''ns''
      else if u < 10 ^ 6 then nat_digits (u div 10 ^ 3) @ frac_digits 3 u @ [CHR 0xC2, CHR 0xB5] @ ''s''
      else if u < 10 ^ 9 then nat_digits (u div 10 ^ 6) @ frac_digits 6 u @ ''ms''
      else (let secs = u div 10 ^ 9; mins = secs div 60; hours = mins div 60 in
        (if hours > 0 then nat_digits hours @ ''h'' else [])
        @ (if mins > 0 then nat_digits (mins mod 60) @ ''m'' else [])
        @ nat_digits (secs mod 60) @ frac_digits 9 u @ ''s''))"

definition duration_String :: "int \<Rightarrow> string" where
  "duration_String d = (if d < 0 then CHR ''-'' # duration_nat (nat (- d)) else duration_nat (nat d))"

section \<open>Starting\<close>

definition start_order :: "Config \<Rightarrow> string list" where
  "start_order cfg = (let ns = Nodes cfg in
     [n_Name (Router ns), n_Name (Jumpstart ns), n_Name (Monitor ns)]
     @ map n_Name (Masters ns) @ map n_Name (Workers ns) @ [n_Name (Storage ns)]
     @ map n_Name (LBs ns) @ map n_Name (CMSFrontends ns) @ map Name (HotdeskSpecs cfg))"

fun start_loop :: "('x, 'p, 'z) env_scheme \<Rightarrow> Client \<Rightarrow> ctx \<Rightarrow> int \<Rightarrow> (string \<Rightarrow> string option) \<Rightarrow> string list
    \<Rightarrow> ('x, 'p) world \<Rightarrow> goerr option \<times> ('x, 'p) world" where
  "start_loop E L c stagger states [] w = (None, w)"
| "start_loop E L c stagger states (vm # vms) w =
     (if vm = [] then start_loop E L c stagger states vms w
      else case states vm of
        None \<Rightarrow> start_loop E L c stagger states vms w
      | Some state \<Rightarrow>
          if state \<noteq> ''running'' then
            (case Start E L c vm w of
               (Some e, w1) \<Rightarrow> (Some (Errorf ''start VM %s: %w'' [vm, e]), w1)
             | (None, w1) \<Rightarrow> (case wait E c stagger w1 of
                   (False, w2) \<Rightarrow> (ctx_err c w2, w2)
                 | (True, w2) \<Rightarrow> start_loop E L c stagger states vms w2))
          else start_loop E L c stagger states vms w)"

definition StartAllVMs :: "('x, 'p, 'z) env_scheme \<Rightarrow> Config \<Rightarrow> Client \<Rightarrow> ctx \<Rightarrow> int \<Rightarrow> ('x, 'p) world \<Rightarrow> goerr option \<times> ('x, 'p) world" where
  "StartAllVMs E cfg L c stagger w = (case DomainStates E L c w of
      (Inl e, w1) \<Rightarrow> (Some (Errorf ''list domains: %w'' [e]), w1)
    | (Inr states, w1) \<Rightarrow> start_loop E L c stagger states (start_order cfg) w1)"

section \<open>Stopping\<close>

record StopOptions =
  Force :: bool
  StopTimeout :: int

definition stop_order :: "Config \<Rightarrow> string list" where
  "stop_order cfg = (let ns = Nodes cfg in
     map Name (HotdeskSpecs cfg) @ rev (map n_Name (CMSFrontends ns)) @ map n_Name (LBs ns) @ [n_Name (Storage ns)]
     @ rev (map n_Name (Workers ns)) @ rev (map n_Name (Masters ns))
     @ [n_Name (Monitor ns), n_Name (Jumpstart ns), n_Name (Router ns)])"

definition running_vms :: "(string \<Rightarrow> string option) \<Rightarrow> string list \<Rightarrow> string list" where
  "running_vms states order =
     filter (\<lambda>vm. vm \<noteq> [] \<and> (states vm = Some ''running'' \<or> states vm = Some ''paused'')) order"

text \<open>A paused domain is resumed first. Errors of either command are only logged.\<close>

fun signal_loop :: "('x, 'p, 'z) env_scheme \<Rightarrow> Client \<Rightarrow> ctx \<Rightarrow> (string \<Rightarrow> string option) \<Rightarrow> string list \<Rightarrow> ('x, 'p) world \<Rightarrow> ('x, 'p) world" where
  "signal_loop E L c states [] w = w"
| "signal_loop E L c states (vm # vms) w =
     (let w1 = (if states vm = Some ''paused'' then snd (Resume E L c vm w) else w)
      in signal_loop E L c states vms (snd (Shutdown E L c vm w1)))"

definition is_off :: "string option \<Rightarrow> bool" where
  "is_off state \<longleftrightarrow> state = Some ''shut off'' \<or> state = Some ''crashed''"

text \<open>A snapshot that fails is an empty map: every machine counts as remaining.\<close>

definition snapshot :: "(string \<Rightarrow> string option) res \<Rightarrow> string \<Rightarrow> string option" where
  "snapshot r = (case r of Inl e \<Rightarrow> Map.empty | Inr m \<Rightarrow> m)"

definition remaining_of :: "(string \<Rightarrow> string option) res \<Rightarrow> string list \<Rightarrow> string list" where
  "remaining_of r vms = filter (\<lambda>vm. \<not> is_off (snapshot r vm)) vms"

lemma DomainStates_later [keeping]: "keeps later (DomainStates E L c)"
  unfolding DomainStates_def ListAll_def virsh_def
  by (intro keeping elapses)

lemma poll_step:
  assumes "DomainStates E L c w = (r, w1)" and "wait E c d w1 = (True, w2)" and "0 < d"
  shows "w_clock w + d \<le> w_clock w2"
  using keepsD [OF DomainStates_later assms(1)] wait_clock(2) [OF assms(2)] by (simp add: later_def)

function stop_poll :: "('x, 'p, 'z) env_scheme \<Rightarrow> Client \<Rightarrow> ctx \<Rightarrow> int \<Rightarrow> string list \<Rightarrow> string list \<Rightarrow> ('x, 'p) world
    \<Rightarrow> (goerr option + string list) \<times> ('x, 'p) world" where
  "stop_poll E L c deadline vms remaining w =
     (if w_clock w < deadline then
        (case DomainStates E L c w of (r, w1) \<Rightarrow>
           if remaining_of r vms = [] then (Inr [], w1)
           else case wait E c Second w1 of
             (False, w2) \<Rightarrow> (Inl (ctx_err c w2), w2)
           | (True, w2) \<Rightarrow> stop_poll E L c deadline vms (remaining_of r vms) w2)
      else (Inr remaining, w))"
  by pat_completeness auto
termination
  by (relation "measure (\<lambda>(E, L, c, deadline, vms, remaining, w). nat (deadline - w_clock w))")
    (auto dest!: poll_step [OF sym sym] poll_step simp: Second_def)

declare stop_poll.simps [simp del]

fun destroy_loop :: "('x, 'p, 'z) env_scheme \<Rightarrow> Client \<Rightarrow> ctx \<Rightarrow> string list \<Rightarrow> ('x, 'p) world \<Rightarrow> ('x, 'p) world" where
  "destroy_loop E L c [] w = w"
| "destroy_loop E L c (vm # vms) w = destroy_loop E L c vms (snd (Destroy E L c vm w))"

definition stop_timeout :: "StopOptions \<Rightarrow> int" where
  "stop_timeout opts = (if StopTimeout opts \<le> 0 then 30 * Second else StopTimeout opts)"

definition StopAllVMs :: "('x, 'p, 'z) env_scheme \<Rightarrow> Config \<Rightarrow> Client \<Rightarrow> ctx \<Rightarrow> StopOptions \<Rightarrow> ('x, 'p) world \<Rightarrow> goerr option \<times> ('x, 'p) world" where
  "StopAllVMs E cfg L c opts w = (case DomainStates E L c w of
      (Inl e, w1) \<Rightarrow> (Some (Errorf ''list domains: %w'' [e]), w1)
    | (Inr states, w1) \<Rightarrow>
        (let vms = running_vms states (stop_order cfg) in
         if vms = [] then (None, w1)
         else (let w2 = signal_loop E L c states vms w1 in
           case stop_poll E L c (w_clock w2 + stop_timeout opts) vms [] w2 of
             (Inl e, w3) \<Rightarrow> (e, w3)
           | (Inr remaining, w3) \<Rightarrow>
               if remaining = [] then (None, w3)
               else if Force opts then (None, destroy_loop E L c remaining w3)
               else (Some (Errorf ''some VMs did not shut down gracefully within %v (use --force to kill): %s''
                       [duration_String (stop_timeout opts), Join remaining '', '']), w3))))"


section \<open>Shrinking the memory\<close>

text \<open>The map from names to sizes, in the order of the assignments: a later assignment to a name replaces an earlier one.\<close>

definition ram_assignments :: "Config \<Rightarrow> (string \<times> int) list" where
  "ram_assignments cfg = (let ns = Nodes cfg; of_node = (\<lambda>n. (n_Name n, n_RAMFinalMB n)) in
     [of_node (Router ns), of_node (Jumpstart ns), of_node (Monitor ns)]
     @ map of_node (Masters ns) @ map of_node (Workers ns) @ [of_node (Storage ns)]
     @ map of_node (LBs ns) @ map of_node (CMSFrontends ns)
     @ map (\<lambda>hd. (Name hd, RAMFinalMB hd)) (HotdeskSpecs cfg))"

definition ram_map :: "Config \<Rightarrow> string \<Rightarrow> int option" where
  "ram_map cfg = map_of (rev (ram_assignments cfg))"

text \<open>The first running machine in the iteration order of the map, which \<open>ord\<close> decides.\<close>

definition find_running :: "(string \<Rightarrow> string option) \<Rightarrow> string list \<Rightarrow> string option" where
  "find_running states names = find (\<lambda>n. n \<noteq> [] \<and> states n = Some ''running'') names"

definition shrink_kib :: "Config \<Rightarrow> string \<Rightarrow> int" where
  "shrink_kib cfg vm = i64 (the (ram_map cfg vm) * 1024)"

fun shrink_loop :: "('x, 'p, 'z) env_scheme \<Rightarrow> Client \<Rightarrow> ctx \<Rightarrow> (string \<Rightarrow> int) \<Rightarrow> (string \<Rightarrow> string option) \<Rightarrow> string list
    \<Rightarrow> ('x, 'p) world \<Rightarrow> goerr list \<times> ('x, 'p) world" where
  "shrink_loop E L c kib states [] w = ([], w)"
| "shrink_loop E L c kib states (vm # vms) w =
     (if states vm = None then shrink_loop E L c kib states vms w
      else case SetMaxMemory E L c vm (kib vm) w of
        (Some e, w1) \<Rightarrow> apfst (Cons (Errorf ''set maximum memory for %s: %w'' [vm, e])) (shrink_loop E L c kib states vms w1)
      | (None, w1) \<Rightarrow> (case SetMemory E L c vm (kib vm) w1 of
            (Some e, w2) \<Rightarrow> apfst (Cons (Errorf ''set memory for %s: %w'' [vm, e])) (shrink_loop E L c kib states vms w2)
          | (None, w2) \<Rightarrow> shrink_loop E L c kib states vms w2))"

definition ShrinkVMRAM :: "('x, 'p, 'z) env_scheme \<Rightarrow> (string list \<Rightarrow> string list) \<Rightarrow> Config \<Rightarrow> Client \<Rightarrow> ctx \<Rightarrow> ('x, 'p) world
    \<Rightarrow> goerr option \<times> ('x, 'p) world" where
  "ShrinkVMRAM E ord cfg L c w = (case DomainStates E L c w of
      (Inl e, w1) \<Rightarrow> (Some (Errorf ''list domains: %w'' [e]), w1)
    | (Inr states, w1) \<Rightarrow>
        (let names = ord (remdups (map fst (ram_assignments cfg))) in
         case find_running states names of
           Some name \<Rightarrow> (Some (Errorf ''VM %s is running; shut it down before shrinking RAM'' [name]), w1)
         | None \<Rightarrow> (case shrink_loop E L c (shrink_kib cfg) states (sort_strings (filter (\<lambda>n. n \<noteq> []) names)) w1 of
               (errs, w2) \<Rightarrow> (errors_Join errs, w2))))"

section \<open>The boot order\<close>

definition boot_network :: string where
  "boot_network = ''<boot dev='' @ [squote] @ ''network'' @ [squote] @ ''/>''"

definition boot_hd :: string where
  "boot_hd = ''<boot dev='' @ [squote] @ ''hd'' @ [squote] @ ''/>''"

definition fix_boot_xml :: "string \<Rightarrow> string" where
  "fix_boot_xml xml = Replace1 (Replace1 xml boot_network []) boot_hd (boot_hd @ [nl] @ ''    '' @ boot_network)"

text \<open>\<open>defer os.Remove(tmpPath)\<close>: the file is removed on every way out.\<close>

definition remove_temp :: "('x, 'p, 'z) env_scheme \<Rightarrow> string \<Rightarrow> 'r \<Rightarrow> (('x, 'p) world, 'r) proc" where
  "remove_temp E p r = andThen (atomic (do_op E (Remove p))) (\<lambda>_. Return r)"

definition redefine :: "('x, 'p, 'z) par_env_scheme \<Rightarrow> Client \<Rightarrow> ctx \<Rightarrow> string \<Rightarrow> string \<Rightarrow> (('x, 'p) world, goerr option) proc" where
  "redefine E L c vm xml =
     andThen (atomic (\<lambda>w. let p = e_temp E (Sprintf ''%s-boot-*.xml'' [vm]) w in
         case do_op E (CreateExcl p [] 384) w of (r, w') \<Rightarrow> ((p, r), w'))) (\<lambda>(p, r). case r of
       Some e \<Rightarrow> Return (Some (Errorf ''create temporary XML for %s: %w'' [vm, perr_msg e]))
     | None \<Rightarrow> andThen (atomic (do_op E (AppendFile p xml 384))) (\<lambda>r. case r of
         Some e \<Rightarrow> andThen (atomic (do_op E (CloseFile p))) (\<lambda>_.
           remove_temp E p (Some (Errorf ''write updated XML for %s: %w'' [vm, perr_msg e])))
       | None \<Rightarrow> andThen (atomic (do_op E (CloseFile p))) (\<lambda>r. case r of
           Some e \<Rightarrow> remove_temp E p (Some (Errorf ''close updated XML for %s: %w'' [vm, perr_msg e]))
         | None \<Rightarrow> andThen (atomic (Define E L c p)) (\<lambda>r.
             remove_temp E p (map_option (\<lambda>e. Errorf ''define updated XML for %s: %w'' [vm, e]) r)))))"

definition fix_boot :: "('x, 'p, 'z) par_env_scheme \<Rightarrow> Client \<Rightarrow> ctx \<Rightarrow> string \<Rightarrow> (('x, 'p) world, goerr option) proc" where
  "fix_boot E L c vm = andThen (atomic (DomainExistsChecked E L c vm)) (\<lambda>r. case r of
      Inl e \<Rightarrow> Return (Some (Errorf ''check domain %s: %w'' [vm, e]))
    | Inr exists \<Rightarrow>
        if \<not> exists then Return None
        else andThen (atomic (DumpXML E L c vm)) (\<lambda>r. case r of
          Inl e \<Rightarrow> Return (Some (Errorf ''dump XML for %s: %w'' [vm, e]))
        | Inr xml \<Rightarrow>
            if Contains xml boot_network \<and> Contains xml boot_hd
            then redefine E L c vm (fix_boot_xml xml)
            else Return None))"

text \<open>One goroutine per machine; the errors in the order in which they were recorded.\<close>

definition FixBootOrder :: "('x, 'p, 'z) par_env_scheme \<Rightarrow> Client \<Rightarrow> ctx \<Rightarrow> string list \<Rightarrow> ('x, 'p) world \<Rightarrow> goerr option \<times> ('x, 'p) world" where
  "FixBootOrder E L c vmNames w =
     (let vms = filter (\<lambda>vm. vm \<noteq> []) vmNames in
      case parallel E (length vms) (map (fix_boot E L c) vms) w of
        (rs, w') \<Rightarrow> (errors_Join (concat (map (\<lambda>(i, r). opt_list r) rs)), w'))"

section \<open>Installing in batches\<close>

record nodeInfo =
  ni_name :: string
  ni_ip :: string
  ramInstallMB :: int
  ramFinalMB :: int

definition node_info :: "NodeDetail \<Rightarrow> nodeInfo" where
  "node_info n = \<lparr>ni_name = n_Name n, ni_ip = n_IP n, ramInstallMB = n_RAMInstallMB n, ramFinalMB = n_RAMFinalMB n\<rparr>"

definition batches :: "Config \<Rightarrow> nodeInfo list list" where
  "batches cfg = (let ns = Nodes cfg in
     [[node_info (Router ns), node_info (Monitor ns), node_info (Storage ns)],
      map node_info (Masters ns) @ map node_info (Workers ns),
      map node_info (LBs ns) @ map node_info (CMSFrontends ns)
        @ map (\<lambda>hd. \<lparr>ni_name = Name hd, ni_ip = IP hd, ramInstallMB = RAMInstallMB hd, ramFinalMB = RAMFinalMB hd\<rparr>) (HotdeskSpecs cfg)])"

fun boot_batch :: "('x, 'p, 'z) env_scheme \<Rightarrow> Client \<Rightarrow> ctx \<Rightarrow> int \<Rightarrow> (string \<Rightarrow> string option) \<Rightarrow> nodeInfo list \<Rightarrow> string list
    \<Rightarrow> ('x, 'p) world \<Rightarrow> (goerr + string list) \<times> ('x, 'p) world" where
  "boot_batch E L c i states [] ips w = (Inr ips, w)"
| "boot_batch E L c i states (n # ns) ips w =
     (if ni_name n = [] \<or> ni_ip n = [] then (Inl (Errorf ''batch %d has a VM with an empty name or IP'' [itoa i]), w)
      else case states (ni_name n) of
        None \<Rightarrow> (Inl (Errorf ''VM %s is not defined; run init-vms before installing batches'' [ni_name n]), w)
      | Some state \<Rightarrow>
          if state \<noteq> ''running'' then
            (case Start E L c (ni_name n) w of
               (Some e, w1) \<Rightarrow> (Inl (Errorf ''start VM %s: %w'' [ni_name n, e]), w1)
             | (None, w1) \<Rightarrow> boot_batch E L c i states ns (ips @ [ni_ip n]) w1)
          else boot_batch E L c i states ns (ips @ [ni_ip n]) w)"

fun shutdown_batch :: "('x, 'p, 'z) env_scheme \<Rightarrow> Client \<Rightarrow> ctx \<Rightarrow> (string \<Rightarrow> string option) \<Rightarrow> nodeInfo list \<Rightarrow> ('x, 'p) world
    \<Rightarrow> goerr option \<times> ('x, 'p) world" where
  "shutdown_batch E L c states [] w = (None, w)"
| "shutdown_batch E L c states (n # ns) w =
     (if states (ni_name n) \<noteq> Some ''shut off'' then
        (case Shutdown E L c (ni_name n) w of
           (Some e, w1) \<Rightarrow> (Some (Errorf ''shutdown VM %s: %w'' [ni_name n, e]), w1)
         | (None, w1) \<Rightarrow> shutdown_batch E L c states ns w1)
      else shutdown_batch E L c states ns w)"

function batch_poll :: "('x, 'p, 'z) env_scheme \<Rightarrow> Client \<Rightarrow> ctx \<Rightarrow> int \<Rightarrow> int \<Rightarrow> string list \<Rightarrow> ('x, 'p) world
    \<Rightarrow> (goerr option + string list) \<times> ('x, 'p) world" where
  "batch_poll E L c i deadline pending w =
     (if pending \<noteq> [] \<and> w_clock w < deadline then
        (case DomainStates E L c w of
           (Inl e, w1) \<Rightarrow> (Inl (Some (Errorf ''list domains while shutting down batch %d: %w'' [itoa i, e])), w1)
         | (Inr states, w1) \<Rightarrow>
             (let still = filter (\<lambda>n. states n \<noteq> Some ''shut off'') pending in
              if still = [] then (Inr [], w1)
              else case wait E c (2 * Second) w1 of
                (False, w2) \<Rightarrow> (Inl (ctx_err c w2), w2)
              | (True, w2) \<Rightarrow> batch_poll E L c i deadline still w2))
      else (Inr pending, w))"
  by pat_completeness auto
termination
  by (relation "measure (\<lambda>(E, L, c, i, deadline, pending, w). nat (deadline - w_clock w))")
    (auto dest!: poll_step [OF sym sym] poll_step simp: Second_def)

declare batch_poll.simps [simp del]

fun force_stop :: "('x, 'p, 'z) env_scheme \<Rightarrow> Client \<Rightarrow> ctx \<Rightarrow> string list \<Rightarrow> ('x, 'p) world \<Rightarrow> string list \<times> ('x, 'p) world" where
  "force_stop E L c [] w = ([], w)"
| "force_stop E L c (name # names) w = (case Destroy E L c name w of
      (Some e, w1) \<Rightarrow> apfst (Cons (Sprintf ''force stop %s: %v'' [name, e])) (force_stop E L c names w1)
    | (None, w1) \<Rightarrow> force_stop E L c names w1)"

definition resize :: "('x, 'p, 'z) env_scheme \<Rightarrow> Client \<Rightarrow> ctx \<Rightarrow> nodeInfo \<Rightarrow> (('x, 'p) world, goerr option) proc" where
  "resize E L c n = (let kib = i64 (ramFinalMB n * 1024) in
     andThen (atomic (SetMaxMemory E L c (ni_name n) kib)) (\<lambda>r. case r of
       Some e \<Rightarrow> Return (Some (Sprintf ''set maximum memory for %s: %v'' [ni_name n, e]))
     | None \<Rightarrow> andThen (atomic (SetMemory E L c (ni_name n) kib)) (\<lambda>r. case r of
         Some e \<Rightarrow> Return (Some (Sprintf ''set memory for %s: %v'' [ni_name n, e]))
       | None \<Rightarrow> andThen (atomic (Start E L c (ni_name n))) (\<lambda>r.
           Return (map_option (\<lambda>e. Sprintf ''restart VM %s: %v'' [ni_name n, e]) r)))))"

text \<open>One batch; \<open>i\<close> counts from 1. A failure to correct the boot order is only logged.\<close>

definition install_batch :: "('x, 'z) ssh_env_scheme \<Rightarrow> Client \<Rightarrow> ctx \<Rightarrow> int \<Rightarrow> nodeInfo list \<Rightarrow> 'x sworld \<Rightarrow> goerr option \<times> 'x sworld" where
  "install_batch E L c i batch w = (case DomainStates E L c w of
     (Inl e, w1) \<Rightarrow> (Some (Errorf ''list domains for batch %d: %w'' [itoa i, e]), w1)
   | (Inr states, w1) \<Rightarrow> (case boot_batch E L c i states batch [] w1 of
     (Inl e, w2) \<Rightarrow> (Some e, w2)
   | (Inr ips, w2) \<Rightarrow> (case WaitForAllSSH E c ips (15 * 60 * Second) w2 of
     (Some e, w3) \<Rightarrow> (Some (Errorf ''wait for SSH in batch %d: %w'' [itoa i, e]), w3)
   | (None, w3) \<Rightarrow> (case FixBootOrder E L c (map ni_name batch) w3 of (_, w4) \<Rightarrow>
     (case DomainStates E L c w4 of
       (Inl e, w5) \<Rightarrow> (Some (Errorf ''list domains before shutdown in batch %d: %w'' [itoa i, e]), w5)
     | (Inr off, w5) \<Rightarrow> (case shutdown_batch E L c off batch w5 of
       (Some e, w6) \<Rightarrow> (Some e, w6)
     | (None, w6) \<Rightarrow> (case batch_poll E L c i (w_clock w6 + 30 * Second) (map ni_name batch) w6 of
       (Inl e, w7) \<Rightarrow> (e, w7)
     | (Inr pending, w7) \<Rightarrow> (case force_stop E L c pending w7 of (errMsgs, w8) \<Rightarrow>
         if errMsgs \<noteq> [] then (Some (Errorf ''failed to shut down batch %d: %s'' [itoa i, Join errMsgs ''; '']), w8)
         else case ctx_err c w8 of
           Some e \<Rightarrow> (Some e, w8)
         | None \<Rightarrow> (case parallel E (length batch) (map (resize E L c) batch) w8 of (rs, w9) \<Rightarrow>
             (let resizeErrs = concat (map (\<lambda>(k, r). opt_list r) rs) in
              if resizeErrs \<noteq> [] then (Some (Errorf ''failed to resize batch %d: %s'' [itoa i, Join resizeErrs ''; '']), w9)
              else (None, w9)))))))))))"

fun install_batches :: "('x, 'z) ssh_env_scheme \<Rightarrow> Client \<Rightarrow> ctx \<Rightarrow> int \<Rightarrow> nodeInfo list list \<Rightarrow> 'x sworld \<Rightarrow> goerr option \<times> 'x sworld" where
  "install_batches E L c i [] w = (None, w)"
| "install_batches E L c i (b # bs) w = (case install_batch E L c i b w of
      (Some e, w1) \<Rightarrow> (Some e, w1)
    | (None, w1) \<Rightarrow> install_batches E L c (i + 1) bs w1)"

definition InstallByBatches :: "('x, 'z) ssh_env_scheme \<Rightarrow> Config \<Rightarrow> Client \<Rightarrow> ctx \<Rightarrow> 'x sworld \<Rightarrow> goerr option \<times> 'x sworld" where
  "InstallByBatches E cfg L c w = install_batches E L c 1 (batches cfg) w"

section \<open>Failed machines\<close>

fun remove_disks :: "('x, 'p, 'z) env_scheme \<Rightarrow> string list \<Rightarrow> ('x, 'p) world \<Rightarrow> goerr list \<times> ('x, 'p) world" where
  "remove_disks E [] w = ([], w)"
| "remove_disks E (p # ps) w = (case do_op E (Remove p) w of
      (None, w1) \<Rightarrow> remove_disks E ps w1
    | (Some e, w1) \<Rightarrow>
        if IsNotExist e then remove_disks E ps w1
        else apfst (Cons (Errorf ''remove disk %s: %w'' [p, perr_msg e])) (remove_disks E ps w1))"

definition vm_disks :: "Config \<Rightarrow> string \<Rightarrow> string list" where
  "vm_disks cfg name = map (\<lambda>d. path_Join [StorageDir (VM cfg), d]) [name @ ''.qcow2'', name @ ''-drbd.qcow2'']"

fun recreate_loop :: "('x, 'p, 'z) env_scheme \<Rightarrow> Config \<Rightarrow> Client \<Rightarrow> ctx \<Rightarrow> (string \<Rightarrow> string option) \<Rightarrow> NodeSpec list
    \<Rightarrow> ('x, 'p) world \<Rightarrow> goerr list \<times> ('x, 'p) world" where
  "recreate_loop E cfg L c states [] w = ([], w)"
| "recreate_loop E cfg L c states (n # ns) w =
     (if Name n = [] \<or> Name n = n_Name (Jumpstart (Nodes cfg)) then recreate_loop E cfg L c states ns w
      else if \<not> is_off (states (Name n)) then recreate_loop E cfg L c states ns w
      else case Destroy E L c (Name n) w of
        (Some e, w1) \<Rightarrow> apfst (Cons (Errorf ''destroy %s: %w'' [Name n, e])) (recreate_loop E cfg L c states ns w1)
      | (None, w1) \<Rightarrow> (case Undefine E L c (Name n) w1 of
            (Some e, w2) \<Rightarrow> apfst (Cons (Errorf ''undefine %s: %w'' [Name n, e])) (recreate_loop E cfg L c states ns w2)
          | (None, w2) \<Rightarrow> (case remove_disks E (vm_disks cfg (Name n)) w2 of
              (errs, w3) \<Rightarrow> apfst ((@) errs) (recreate_loop E cfg L c states ns w3))))"

definition RecreateFailedVMs :: "('x, 'p, 'z) env_scheme \<Rightarrow> Config \<Rightarrow> Client \<Rightarrow> ctx \<Rightarrow> ('x, 'p) world \<Rightarrow> goerr option \<times> ('x, 'p) world" where
  "RecreateFailedVMs E cfg L c w = (case DomainStates E L c w of
      (Inl e, w1) \<Rightarrow> (Some (Errorf ''failed to query domains from libvirt: %w'' [e]), w1)
    | (Inr states, w1) \<Rightarrow> (case recreate_loop E cfg L c states (AllNodes cfg) w1 of
        (errs, w2) \<Rightarrow> (map_option (\<lambda>e. Errorf ''failed to clean up failed VMs: %w'' [e]) (errors_Join errs), w2)))"

end
