(* ===== verification/Phases.thy ===== *)
theory Phases
  imports SshFiles Config "HOL-Library.AList"
begin

text \<open>
  What the deployment phases have in common: early returns on errors, loops that end with the first error, and the verdict over
  the results of several hosts. The deployment itself sees a phase as a name and a \<open>Run\<close> (theory \<open>Deploy\<close>).
\<close>

text \<open>\<open>if err := ...; err != nil { return fmt.Errorf(..., err) }\<close>\<close>

definition check_err :: "goerr option \<times> 'w \<Rightarrow> (goerr \<Rightarrow> goerr) \<Rightarrow> ('w \<Rightarrow> goerr option \<times> 'w) \<Rightarrow> goerr option \<times> 'w" where
  "check_err r wrap k = (case r of (Some e, w) \<Rightarrow> (Some (wrap e), w) | (None, w) \<Rightarrow> k w)"

definition do_fs :: "('x, 'p, 'z) env_scheme \<Rightarrow> fsop \<Rightarrow> ('x, 'p) world \<Rightarrow> goerr option \<times> ('x, 'p) world" where
  "do_fs E op w = (case do_op E op w of (r, w') \<Rightarrow> (map_option perr_msg r, w'))"

fun each :: "('a \<Rightarrow> 'w \<Rightarrow> goerr option \<times> 'w) \<Rightarrow> 'a list \<Rightarrow> 'w \<Rightarrow> goerr option \<times> 'w" where
  "each f [] w = (None, w)"
| "each f (x # xs) w = check_err (f x w) (\<lambda>e. e) (each f xs)"

fun first_some :: "('a \<Rightarrow> 'b option) \<Rightarrow> 'a list \<Rightarrow> 'b option" where
  "first_some f [] = None"
| "first_some f (x # xs) = (case f x of Some y \<Rightarrow> Some y | None \<Rightarrow> first_some f xs)"

text \<open>\<open>tasks[ip] = ...\<close> in a loop: of several entries with one key the last counts.\<close>

definition tasks_of :: "('a \<Rightarrow> string) \<Rightarrow> ('a \<Rightarrow> 't) \<Rightarrow> 'a list \<Rightarrow> (string \<times> 't) list" where
  "tasks_of key task xs = fold (\<lambda>x. AList.update (key x) (task x)) xs []"

text \<open>A command or an upload with no other goroutine running.\<close>

definition run_command :: "('x, 'z) ssh_env_scheme \<Rightarrow> ctx \<Rightarrow> string \<Rightarrow> string \<Rightarrow> 'x sworld \<Rightarrow> run_out \<times> 'x sworld" where
  "run_command E c host cmd w = run_proc (RunCommand E c host cmd) w"

definition copy_content :: "('x, 'z) ssh_env_scheme \<Rightarrow> ctx \<Rightarrow> string \<Rightarrow> string \<Rightarrow> string \<Rightarrow> nat \<Rightarrow> 'x sworld \<Rightarrow> goerr option \<times> 'x sworld" where
  "copy_content E c host data path mode w = run_proc (CopyContent E c host data path mode) w"

text \<open>The error of a script, whose output is not used.\<close>

definition run_script :: "('x, 'z) ssh_env_scheme \<Rightarrow> ctx \<Rightarrow> string \<Rightarrow> string \<Rightarrow> 'x sworld \<Rightarrow> goerr option \<times> 'x sworld" where
  "run_script E c host script w = (case run_proc (RunScript E c host script) w of ((out, e), w') \<Rightarrow> (e, w'))"

section \<open>Facts\<close>

lemma each_app: "each f (xs @ ys) w = check_err (each f xs w) (\<lambda>e. e) (each f ys)"
  by (induction xs arbitrary: w) (auto simp: check_err_def split: prod.splits option.splits)

lemma first_some_None [simp]: "first_some f xs = None \<longleftrightarrow> (\<forall>x \<in> set xs. f x = None)"
  by (induction xs) (auto split: option.splits)

lemma first_some_Some: "first_some f xs = Some y \<Longrightarrow> \<exists>x \<in> set xs. f x = Some y"
  by (induction xs) (auto split: option.splits)

lemma check_err_None: "check_err r wrap k = (None, w') \<longleftrightarrow> (\<exists>w. r = (None, w) \<and> k w = (None, w'))"
  by (cases r) (auto simp: check_err_def split: option.splits)

lemma check_errE:
  assumes "check_err r wrap k = (res, w')"
  obtains (failed) e where "r = (Some e, w')" "res = Some (wrap e)" | (went_on) w where "r = (None, w)" "k w = (res, w')"
  using assms by (cases r) (auto simp: check_err_def split: option.splits)

lemma set_tasks_of: "distinct (map key xs) \<Longrightarrow> set (tasks_of key task xs) = (\<lambda>x. (key x, task x)) ` set xs"
proof -
  have *: "set (fold (\<lambda>x. AList.update (key x) (task x)) xs m) = set m \<union> (\<lambda>x. (key x, task x)) ` set xs"
    if "distinct (map key xs)" "fst ` set m \<inter> key ` set xs = {}" for m
    using that
  proof (induction xs arbitrary: m)
    case (Cons x xs)
    then have n: "key x \<notin> set (map fst m)" by auto
    then have "AList.update (key x) (task x) m = m @ [(key x, task x)]" by (induction m) auto
    with Cons show ?case by (subst fold_Cons, subst comp_apply, subst Cons.IH) auto
  qed simp
  show "distinct (map key xs) \<Longrightarrow> ?thesis" unfolding tasks_of_def by (subst *) simp_all
qed

lemma set_tasks_of_sub: "set (tasks_of key task xs) \<subseteq> (\<lambda>x. (key x, task x)) ` set xs"
proof -
  have up: "set (AList.update k v m) \<subseteq> insert (k, v) (set m)" for k v m by (induction m) auto
  have "set (fold (\<lambda>x. AList.update (key x) (task x)) xs m) \<subseteq> set m \<union> (\<lambda>x. (key x, task x)) ` set xs" for m
  proof (induction xs arbitrary: m)
    case (Cons x xs)
    show ?case using Cons [of "AList.update (key x) (task x) m"] up [of "key x" "task x" m] by auto
  qed simp
  from this [of "[]"] show ?thesis by (simp add: tasks_of_def)
qed

lemma keys_tasks_of: "map fst (tasks_of key task xs) = fold (\<lambda>x ks. if key x \<in> set ks then ks else ks @ [key x]) xs []"
proof -
  have "map fst (fold (\<lambda>x. AList.update (key x) (task x)) xs m) = fold (\<lambda>x ks. if key x \<in> set ks then ks else ks @ [key x]) xs (map fst m)" for m
    by (induction xs arbitrary: m) (simp_all add: update_keys)
  from this [of "[]"] show ?thesis by (simp add: tasks_of_def)
qed

context world_order
begin

lemma keeps_check: "keeps R f \<Longrightarrow> keeps R k \<Longrightarrow> keeps R (\<lambda>w. check_err (f w) wrap k)"
proof (rule keepsI)
  fix w r w' assume f: "keeps R f" and k: "keeps R k" and run: "check_err (f w) wrap k = (r, w')"
  obtain e w1 where 1: "f w = (e, w1)" by fastforce
  then have "R w w1" using keepsD [OF f] by blast
  then show "R w w'" using run 1 keepsD [OF k] trans by (cases e) (auto simp: check_err_def)
qed

lemma keeps_then: "keeps R f \<Longrightarrow> keeps R k \<Longrightarrow> keeps R (\<lambda>w. k (snd (f w)))"
  using trans unfolding keeps_def by blast

lemma keeps_last: "keeps R f \<Longrightarrow> keeps R (\<lambda>w. (r, snd (f w)))"
  unfolding keeps_def by simp

lemma keeps_each: "(\<And>x. x \<in> set xs \<Longrightarrow> keeps R (f x)) \<Longrightarrow> keeps R (each f xs)"
proof (induction xs)
  case Nil
  have "each f [] = (\<lambda>w. (None, w))" by (simp add: fun_eq_iff)
  then show ?case by (simp add: keeps_def refl)
next
  case (Cons x xs)
  have "each f (x # xs) = (\<lambda>w. check_err (f x w) (\<lambda>e. e) (each f xs))" by (simp add: fun_eq_iff)
  with Cons show ?case by (auto intro: keeps_check)
qed

end

end
