(* ===== verification/InitVMs.thy ===== *)
theory InitVMs
  imports VMOps Phases
begin

text \<open>
  \<open>internal/phases/initvms/initvms.go\<close>: the phase that creates the virtual networks, the jumpstart and the client
  nodes, and removes them again. Templates, \<open>text/template\<close> and \<open>filepath.Glob\<close> are fields of \<open>init_env\<close>.
\<close>

record InitOptions =
  JumpstartOnly :: bool
  NodesOnly :: bool
  opt_Cleanup :: bool
  Recreate :: bool

record CleanupOptions =
  VMsOnly :: bool
  NetworksOnly :: bool

record autoinstallData =
  Hostname :: string
  PasswordHash :: string
  PubKey :: string
  ai_MACInternal :: string
  IPInternal :: string
  GatewayInternal :: string
  ai_MACMain :: string
  ai_IPMain :: string
  WANIfaceConfig :: string

text \<open>\<open>i_ord\<close> is the order in which Go ranges over a map; \<open>i_root\<close> tells that the process runs as root.\<close>

record 'x init_env = "'x ssh_env" +
  i_template :: "string \<Rightarrow> goerr + string"
  i_parse :: "string \<Rightarrow> goerr option"
  i_render :: "string \<Rightarrow> autoinstallData \<Rightarrow> goerr + string"
  i_glob :: "string \<Rightarrow> 'x sworld \<Rightarrow> string list"
  i_ord :: "(string \<times> string) list \<Rightarrow> (string \<times> string) list"
  i_root :: bool

section \<open>Preflight checks\<close>

definition required :: "(string \<times> string) list" where
  "required = [(''virsh'', ''libvirt-daemon-system''), (''virt-install'', ''virtinst''), (''xorrisofs'', ''xorriso''), (''qemu-img'', ''qemu-utils'')]"

text \<open>The free space leads to log messages only.\<close>

definition init_preflight :: "('x, 'z) init_env_scheme \<Rightarrow> Config \<Rightarrow> 'x sworld \<Rightarrow> goerr option \<times> 'x sworld" where
  "init_preflight E cfg w = (let h = Hotdesks (Nodes cfg) in
     if hd_Count h > hd_Max h then (Some (Errorf ''hotdesk count %d exceeds max %d'' [itoa (hd_Count h), itoa (hd_Max h)]), w)
     else case find (\<lambda>(cmd, pkg). \<not> e_lookpath E cmd w) (i_ord E required) of
       Some (cmd, pkg) \<Rightarrow> (Some (Errorf ''%q not found in PATH; install: apt install %s'' [quoted cmd, pkg]), w)
     | None \<Rightarrow> (let dir = Clean (StorageDir (VM cfg)) in
         check_err (do_fs E (MkdirAll dir 493) w) (\<lambda>e. Errorf ''cannot create storage dir %s: %w'' [dir, e]) (\<lambda>w. (None, w))))"

section \<open>Networks\<close>

record netDef =
  nd_name :: string
  tmplPath :: string
  nd_bridge :: string
  hostCIDR :: string
  routerCIDR :: string

definition linkCIDR :: "string \<Rightarrow> string \<Rightarrow> string" where
  "linkCIDR gateway pre = (if gateway \<noteq> [] then gateway @ ''/24'' else pre @ ''1/24'')"

definition net_defs :: "Config \<Rightarrow> netDef list" where
  "net_defs cfg = (let n = Network cfg;
       internalPrefix = PrefixFromCIDR (CIDR (Internal n)) ''192.168.10.'';
       mainPrefix = PrefixFromCIDR (CIDR (Main_net n)) ''192.168.20.''
     in [\<lparr>nd_name = ''internal'', tmplPath = ''templates/libvirt/internal-net.xml'', nd_bridge = Bridge (Internal n),
          hostCIDR = internalPrefix @ ''254/24'', routerCIDR = linkCIDR (Gateway (Internal n)) internalPrefix\<rparr>,
         \<lparr>nd_name = ''main'', tmplPath = ''templates/libvirt/main-net.xml'', nd_bridge = Bridge (Main_net n),
          hostCIDR = mainPrefix @ ''254/24'', routerCIDR = linkCIDR (Gateway (Main_net n)) mainPrefix\<rparr>])"

definition runNetCmd :: "('x, 'z) init_env_scheme \<Rightarrow> ctx \<Rightarrow> string list \<Rightarrow> 'x sworld \<Rightarrow> goerr option \<times> 'x sworld" where
  "runNetCmd E c args w = (case run_cmd E c ((if i_root E then [''ip''] else [''sudo'', ''-n'', ''ip'']) @ args) w of
      ((out, None), w') \<Rightarrow> (None, w')
    | ((out, Some e), w') \<Rightarrow> (Some (Errorf ''ip %s failed: %w: %s'' [Join args '' '', e, out]), w'))"

definition configureHostBridge :: "('x, 'z) init_env_scheme \<Rightarrow> ctx \<Rightarrow> string \<Rightarrow> string \<Rightarrow> string \<Rightarrow> 'x sworld \<Rightarrow> goerr option \<times> 'x sworld" where
  "configureHostBridge E c bridge target router w =
     (case run_cmd E c [''ip'', ''-o'', ''-4'', ''addr'', ''show'', ''dev'', bridge] w of
        ((out, Some e), w1) \<Rightarrow> (Some (Errorf ''failed to check bridge %s: %w'' [bridge, e]), w1)
      | ((out, None), w1) \<Rightarrow>
          if Contains out target then (None, w1)
          else (let w2 = (if router \<noteq> [] \<and> Contains out router then snd (runNetCmd E c [''addr'', ''del'', router, ''dev'', bridge] w1) else w1)
            in check_err (runNetCmd E c [''addr'', ''add'', target, ''dev'', bridge] w2) (\<lambda>e. e)
              (runNetCmd E c [''link'', ''set'', ''dev'', bridge, ''up''])))"

text \<open>Writing the template to a temporary file, defining the network from it, and removing the file in any case.\<close>

definition define_net :: "('x, 'z) init_env_scheme \<Rightarrow> Client \<Rightarrow> ctx \<Rightarrow> netDef \<Rightarrow> 'x sworld \<Rightarrow> goerr option \<times> 'x sworld" where
  "define_net E L c nd w = (case i_template E (tmplPath nd) of
      Inl e \<Rightarrow> (Some (Errorf ''failed to read network template %s: %w'' [tmplPath nd, e]), w)
    | Inr xml \<Rightarrow> (let p = e_temp E (nd_name nd @ ''-net-*.xml'') w in
        check_err (do_fs E (CreateExcl p [] 384) w) (\<lambda>e. Errorf ''failed to create temp file for network XML: %w'' [e]) (\<lambda>w1.
        case do_fs E (AppendFile p xml 384) w1 of
          (Some e, w2) \<Rightarrow> (Some (Errorf ''failed to write network XML: %w'' [e]),
             snd (do_op E (Remove p) (snd (do_op E (CloseFile p) w2))))
        | (None, w2) \<Rightarrow> (case NetDefine E L c p (snd (do_op E (CloseFile p) w2)) of (r, w3) \<Rightarrow>
            check_err (r, snd (do_op E (Remove p) w3)) (\<lambda>e. Errorf ''failed to define network %s: %w'' [nd_name nd, e]) (\<lambda>w4.
            check_err (NetStart E L c (nd_name nd) w4) (\<lambda>e. Errorf ''failed to start network %s: %w'' [nd_name nd, e]) (\<lambda>w5.
            (None, snd (NetAutostart E L c (nd_name nd) w5))))))))"

definition setup_net :: "('x, 'z) init_env_scheme \<Rightarrow> Client \<Rightarrow> ctx \<Rightarrow> netDef \<Rightarrow> 'x sworld \<Rightarrow> goerr option \<times> 'x sworld" where
  "setup_net E L c nd w = (case NetExists E L c (nd_name nd) w of (exists, w1) \<Rightarrow>
     check_err
       (if \<not> exists then define_net E L c nd w1
        else case NetIsActive E L c (nd_name nd) w1 of (active, w2) \<Rightarrow>
          if active then (None, w2)
          else check_err (NetStart E L c (nd_name nd) w2) (\<lambda>e. Errorf ''failed to start network %s: %w'' [nd_name nd, e]) (\<lambda>w. (None, w)))
       (\<lambda>e. e)
       (\<lambda>w3. let bridge = (if nd_bridge nd = [] then (if nd_name nd = ''internal'' then ''virbr-int'' else ''virbr-main'') else nd_bridge nd)
         in (None, snd (configureHostBridge E c bridge (hostCIDR nd) (routerCIDR nd) w3))))"

fun setup_nets :: "('x, 'z) init_env_scheme \<Rightarrow> Client \<Rightarrow> ctx \<Rightarrow> netDef list \<Rightarrow> 'x sworld \<Rightarrow> goerr option \<times> 'x sworld" where
  "setup_nets E L c [] w = (None, w)"
| "setup_nets E L c (nd # nds) w = check_err (setup_net E L c nd w) (\<lambda>e. e) (setup_nets E L c nds)"

definition setupNetworks :: "('x, 'z) init_env_scheme \<Rightarrow> Config \<Rightarrow> Client \<Rightarrow> ctx \<Rightarrow> 'x sworld \<Rightarrow> goerr option \<times> 'x sworld" where
  "setupNetworks E cfg L c w = setup_nets E L c (net_defs cfg) w"

section \<open>Creating machines\<close>

definition ensureDiskPathAvailable :: "('x, 'p, 'z) env_scheme \<Rightarrow> string \<Rightarrow> ('x, 'p) world \<Rightarrow> goerr option" where
  "ensureDiskPathAvailable E path w = (case Stat E path w of
      Inr n \<Rightarrow> Some (Errorf ''disk %s exists without a registered VM; refusing to overwrite it (use init-vms --recreate after confirming the data can be discarded)'' [path])
    | Inl e \<Rightarrow> if \<not> IsNotExist e then Some (Errorf ''check disk path %s: %w'' [path, perr_msg e]) else None)"

fun first_unavailable :: "('x, 'p, 'z) env_scheme \<Rightarrow> string list \<Rightarrow> ('x, 'p) world \<Rightarrow> goerr option" where
  "first_unavailable E [] w = None"
| "first_unavailable E (p # ps) w = (case ensureDiskPathAvailable E p w of Some e \<Rightarrow> Some e | None \<Rightarrow> first_unavailable E ps w)"

definition plain_disk :: "string \<Rightarrow> int \<Rightarrow> DiskOpt" where
  "plain_disk path gb = \<lparr>disk_Path = path, SizeGB = gb, Format = [], Bus = [], Device = []\<rparr>"

fun chmod_all :: "('x, 'p, 'z) env_scheme \<Rightarrow> string list \<Rightarrow> ('x, 'p) world \<Rightarrow> ('x, 'p) world" where
  "chmod_all E [] w = w"
| "chmod_all E (p # ps) w = chmod_all E ps (snd (do_op E (Chmod p 438) w))"

definition client_opts :: "NodeDetail \<Rightarrow> DiskOpt list \<Rightarrow> NetworkOpt list \<Rightarrow> VirtInstallOpts" where
  "client_opts node disks nets = \<lparr>vi_Name = n_Name node, RAM = n_RAMInstallMB node, vi_VCPUs = n_VCPUs node, Disks = disks,
     Networks = nets, PXE = True, BootOrder = [''hd'', ''network''], OSVariant = ''ubuntu24.04'', ExtraArgs = [], Location = [],
     Wait = 0, NoAutoConsole = True, NoReboot = False, GraphicsNone = False\<rparr>"

definition createClientVM :: "('x, 'z) init_env_scheme \<Rightarrow> Client \<Rightarrow> ctx \<Rightarrow> NodeDetail \<Rightarrow> string \<Rightarrow> NetworkOpt list \<Rightarrow> DiskOpt list \<Rightarrow> bool
    \<Rightarrow> 'x sworld \<Rightarrow> goerr option \<times> 'x sworld" where
  "createClientVM E L c node vmDir nets extraDisks exists w =
     (if exists then (None, w)
      else (let diskPath = path_Join [vmDir, n_Name node @ ''.qcow2''];
                disks = plain_disk diskPath (n_DiskGB node) # extraDisks
            in case first_unavailable E (map disk_Path disks) w of
                 Some e \<Rightarrow> (Some e, w)
               | None \<Rightarrow> check_err (VirtInstall E (i_ord E) L c (client_opts node disks nets) w) (\<lambda>e. e)
                   (\<lambda>w1. (None, chmod_all E (map disk_Path disks) w1))))"

text \<open>The client nodes in the order in which they are created, with the message of a failure.\<close>

record node_plan =
  np_node :: NodeDetail
  np_nets :: "NetworkOpt list"
  np_disks :: "DiskOpt list"
  np_what :: string

definition net_opt :: "string \<Rightarrow> string \<Rightarrow> NetworkOpt" where
  "net_opt net mac = \<lparr>opt_Network = net, Mac = mac\<rparr>"

definition router_nets :: "NodeDetail \<Rightarrow> bool \<Rightarrow> NetworkOpt list" where
  "router_nets router hasDefault = [net_opt ''internal'' (MACInternal router), net_opt ''main'' (MACMain router),
     net_opt (if hasDefault then ''default'' else ''main'') (MACWAN router)]"

definition drbd_disks :: "string \<Rightarrow> NodeDetail \<Rightarrow> DiskOpt list" where
  "drbd_disks dir master = (if DRBDDiskGB master > 0
     then [plain_disk (path_Join [dir, n_Name master @ ''-drbd.qcow2'']) (DRBDDiskGB master)] else [])"

definition hotdesk_detail :: "NodeSpec \<Rightarrow> NodeDetail" where
  "hotdesk_detail d = NodeDetail_zero\<lparr>n_Name := Name d, n_IP := IP d, n_FQDN := FQDN d, n_MAC := MAC d,
     n_RAMInstallMB := RAMInstallMB d, n_RAMFinalMB := RAMFinalMB d, n_VCPUs := VCPUs d, n_DiskGB := DiskGB d\<rparr>"

definition node_plans :: "Config \<Rightarrow> bool \<Rightarrow> node_plan list" where
  "node_plans cfg hasDefault = (let ns = Nodes cfg; dir = StorageDir (VM cfg);
       plan = (\<lambda>what net disks n. \<lparr>np_node = n, np_nets = [net_opt net (n_MAC n)], np_disks = disks,
         np_what = Sprintf ''failed to create %sVM %s: '' [what, n_Name n]\<rparr>)
     in [\<lparr>np_node = Router ns, np_nets = router_nets (Router ns) hasDefault, np_disks = [], np_what = ''failed to create router VM: ''\<rparr>]
        @ map (plan [] ''internal'' []) [Monitor ns, Storage ns]
        @ map (\<lambda>m. plan ''master '' ''internal'' (drbd_disks dir m) m) (Masters ns)
        @ map (plan ''worker '' ''internal'' []) (Workers ns)
        @ map (plan ''LB '' ''main'' []) (LBs ns)
        @ map (plan ''CMS '' ''main'' []) (CMSFrontends ns)
        @ map (\<lambda>d. plan ''hotdesk '' ''main'' [] (hotdesk_detail d)) (HotdeskSpecs cfg))"

fun create_all :: "('x, 'z) init_env_scheme \<Rightarrow> Client \<Rightarrow> ctx \<Rightarrow> string \<Rightarrow> (string \<Rightarrow> string option) \<Rightarrow> node_plan list
    \<Rightarrow> 'x sworld \<Rightarrow> goerr option \<times> 'x sworld" where
  "create_all E L c dir existing [] w = (None, w)"
| "create_all E L c dir existing (np # nps) w =
     check_err (createClientVM E L c (np_node np) dir (np_nets np) (np_disks np) (existing (n_Name (np_node np)) \<noteq> None) w)
       (\<lambda>e. np_what np @ e) (create_all E L c dir existing nps)"

definition deployClientNodes :: "('x, 'z) init_env_scheme \<Rightarrow> Config \<Rightarrow> Client \<Rightarrow> ctx \<Rightarrow> 'x sworld \<Rightarrow> goerr option \<times> 'x sworld" where
  "deployClientNodes E cfg L c w = (case DomainStates E L c w of
      (Inl e, w1) \<Rightarrow> (Some (Errorf ''list existing domains: %w'' [e]), w1)
    | (Inr existing, w1) \<Rightarrow> (case NetExists E L c ''default'' w1 of (hasDefault, w2) \<Rightarrow>
        create_all E L c (StorageDir (VM cfg)) existing (node_plans cfg hasDefault) w2))"


section \<open>The jumpstart\<close>

definition ensureSSHKey :: "('x, 'z) init_env_scheme \<Rightarrow> string \<Rightarrow> 'x sworld \<Rightarrow> string res \<times> 'x sworld" where
  "ensureSSHKey E path w =
     (let missing = (case Stat E path w of Inl e \<Rightarrow> IsNotExist e | Inr n \<Rightarrow> False) in
      case (if missing then
              check_err (do_fs E (MkdirAll (path_Dir path) 448) w) (\<lambda>e. Errorf ''failed to create SSH dir: %w'' [e]) (\<lambda>w1.
                case run_background E None [''ssh-keygen'', ''-t'', ''ed25519'', ''-N'', [], ''-f'', Clean path] w1 of
                  ((out, None), w2) \<Rightarrow> (None, w2)
                | ((out, Some e), w2) \<Rightarrow> (Some (Errorf ''ssh-keygen failed: %v: %s'' [e, out]), w2))
            else (None, w)) of
        (Some e, w3) \<Rightarrow> (Inl e, w3)
      | (None, w3) \<Rightarrow> (case ReadFile E (Clean (path @ ''.pub'')) w3 of
            Inl e \<Rightarrow> (Inl (Errorf ''failed to read public key: %w'' [perr_msg e]), w3)
          | Inr d \<Rightarrow> (Inr (TrimSpace d), w3)))"

definition generateRandomPasswordHash :: "('x, 'z) init_env_scheme \<Rightarrow> 'x sworld \<Rightarrow> string res \<times> 'x sworld" where
  "generateRandomPasswordHash E w = (case s_random E w of
      Inl e \<Rightarrow> (Inl (Errorf ''generate random password: %w'' [e]), w)
    | Inr b \<Rightarrow> (case run_background E None [''openssl'', ''passwd'', ''-6'', hex_encode b] w of
        ((out, Some e), w1) \<Rightarrow> (Inl (Errorf ''openssl passwd -6 failed: %w: %s'' [e, TrimSpace out]), w1)
      | ((out, None), w1) \<Rightarrow>
          if TrimSpace out = [] then (Inl ''openssl passwd -6 returned an empty hash'', w1) else (Inr (TrimSpace out), w1)))"

fun node_size :: "fnode \<Rightarrow> nat" where
  "node_size (File d m) = length d"
| "node_size (Dir m) = 4096"
| "node_size (Symlink t) = length t"

definition big_enough :: "('x, 'p, 'z) env_scheme \<Rightarrow> nat \<Rightarrow> ('x, 'p) world \<Rightarrow> string \<Rightarrow> bool" where
  "big_enough E least w p = (case Stat E p w of Inl e \<Rightarrow> False | Inr n \<Rightarrow> node_size n > least)"

definition findUbuntuISO :: "('x, 'z) init_env_scheme \<Rightarrow> string \<Rightarrow> 'x sworld \<Rightarrow> string res" where
  "findUbuntuISO E dir w =
     (case find (big_enough E 0 w)
        [path_Join [dir, ''ubuntu-24.04.4-live-server-amd64.iso''], path_Join [dir, ''ubuntu-24.04.2-live-server-amd64.iso''],
         path_Join [dir, ''ubuntu-24.04-live-server-amd64.iso'']] of
        Some c \<Rightarrow> Inr c
      | None \<Rightarrow> (case find (big_enough E (2 ^ 30) w) (i_glob E (path_Join [dir, ''*ubuntu-24.04*.iso'']) w) of
            Some m \<Rightarrow> Inr m
          | None \<Rightarrow> Inl (Errorf ''no Ubuntu 24.04 ISO found in %s; download it first'' [dir])))"

definition wan_iface :: "string \<Rightarrow> string" where
  "wan_iface mac = Join [[], ''      net2:'', ''        match:'',
     ''          macaddress: '' @ [CHR 0x22] @ mac @ [CHR 0x22], ''        dhcp4: true'', ''        dhcp4-overrides:'',
     ''          route-metric: 100'', ''          use-dns: true''] [nl]"

definition autoinstall_data :: "Config \<Rightarrow> string \<Rightarrow> string \<Rightarrow> bool \<Rightarrow> autoinstallData" where
  "autoinstall_data cfg passHash pubKey hasDefaultNet = (let js = Jumpstart (Nodes cfg) in
     \<lparr>Hostname = n_Name js, PasswordHash = passHash, PubKey = pubKey, ai_MACInternal = MACInternal js, IPInternal = n_IP js,
      GatewayInternal = Gateway (Internal (Network cfg)), ai_MACMain = MACMain js, ai_IPMain = IPMain js,
      WANIfaceConfig = (if hasDefaultNet then wan_iface (MACWAN js) else [])\<rparr>)"

definition jumpstart_opts :: "Config \<Rightarrow> string \<Rightarrow> string \<Rightarrow> string \<Rightarrow> bool \<Rightarrow> VirtInstallOpts" where
  "jumpstart_opts cfg diskPath isoPath seedISO hasDefaultNet = (let js = Jumpstart (Nodes cfg) in
     \<lparr>vi_Name = n_Name js, RAM = n_RAMInstallMB js, vi_VCPUs = n_VCPUs js,
      Disks = [plain_disk diskPath 0, plain_disk isoPath 0, plain_disk seedISO 0],
      Networks = [net_opt ''internal'' (MACInternal js), net_opt ''main'' (MACMain js)]
        @ (if hasDefaultNet then [net_opt ''default'' (MACWAN js)] else []),
      PXE = False, BootOrder = [], OSVariant = ''ubuntu24.04'', ExtraArgs = ''autoinstall ds=nocloud console=ttyS0,115200n8'',
      Location = isoPath @ '',kernel=casper/vmlinuz,initrd=casper/initrd'',
      Wait = -1, NoAutoConsole = True, NoReboot = True, GraphicsNone = True\<rparr>)"

definition render_user_data :: "('x, 'z) init_env_scheme \<Rightarrow> autoinstallData \<Rightarrow> goerr + string" where
  "render_user_data E d = (case i_template E ''templates/autoinstall/user-data.tmpl'' of
      Inl e \<Rightarrow> Inl (Errorf ''failed to read autoinstall template: %w'' [e])
    | Inr t \<Rightarrow> (case i_parse E t of
        Some e \<Rightarrow> Inl (Errorf ''failed to parse autoinstall template: %w'' [e])
      | None \<Rightarrow> (case i_render E t d of
          Inl e \<Rightarrow> Inl (Errorf ''failed to render autoinstall template: %w'' [e])
        | Inr s \<Rightarrow> Inr s)))"

text \<open>From the rendered user data to the ISO image with the seed.\<close>

definition seed_image :: "('x, 'z) init_env_scheme \<Rightarrow> ctx \<Rightarrow> string \<Rightarrow> string \<Rightarrow> ('x sworld \<Rightarrow> goerr option \<times> 'x sworld) \<Rightarrow> 'x sworld
    \<Rightarrow> goerr option \<times> 'x sworld" where
  "seed_image E c storageDir userData k w =
     (let dir = path_Join [storageDir, ''autoinstall'']; seedISO = path_Join [storageDir, ''seed.iso''] in
      check_err (do_fs E (MkdirAll dir 448) w) (\<lambda>e. Errorf ''failed to create autoinstall dir: %w'' [e]) (\<lambda>w.
      check_err (do_fs E (WriteFile (path_Join [dir, ''user-data'']) userData 384) w) (\<lambda>e. Errorf ''failed to write user-data: %w'' [e]) (\<lambda>w.
      check_err (do_fs E (WriteFile (path_Join [dir, ''meta-data'']) [] 384) w) (\<lambda>e. Errorf ''failed to write meta-data: %w'' [e]) (\<lambda>w.
      check_err (CreateISO E c seedISO dir ''cidata'' w) (\<lambda>e. Errorf ''failed to create seed ISO: %w'' [e]) (\<lambda>w.
      k (snd (do_op E (Chmod seedISO 420) w)))))))"

definition install_jumpstart :: "('x, 'z) init_env_scheme \<Rightarrow> Config \<Rightarrow> Client \<Rightarrow> ctx \<Rightarrow> bool \<Rightarrow> 'x sworld \<Rightarrow> goerr option \<times> 'x sworld" where
  "install_jumpstart E cfg L c hasDefaultNet w =
     (let dir = StorageDir (VM cfg); js = Jumpstart (Nodes cfg) in
      case findUbuntuISO E dir w of
        Inl e \<Rightarrow> (Some e, w)
      | Inr isoPath \<Rightarrow> (let diskPath = path_Join [dir, ''jumpstart.qcow2''] in
          case ensureDiskPathAvailable E diskPath w of
            Some e \<Rightarrow> (Some e, w)
          | None \<Rightarrow>
              check_err (CreateDisk E c diskPath (n_DiskGB js) ''qcow2'' w) (\<lambda>e. Errorf ''failed to create jumpstart disk: %w'' [e]) (\<lambda>w.
              let w1 = snd (do_op E (Chmod diskPath 438) w) in
              check_err (VirtInstall E (i_ord E) L c (jumpstart_opts cfg diskPath isoPath (path_Join [dir, ''seed.iso'']) hasDefaultNet) w1)
                (\<lambda>e. Errorf ''jumpstart virt-install failed: %w'' [e]) (\<lambda>w.
              (None, snd (run_proc (WaitForSSH E c (n_IP js) (3 * 60 * Second)) (snd (Start E L c (n_Name js) w))))))))"

definition create_jumpstart :: "('x, 'z) init_env_scheme \<Rightarrow> Config \<Rightarrow> Client \<Rightarrow> ctx \<Rightarrow> 'x sworld \<Rightarrow> goerr option \<times> 'x sworld" where
  "create_jumpstart E cfg L c w = (case ensureSSHKey E (PrivateKey (SSH cfg)) w of
      (Inl e, w1) \<Rightarrow> (Some (Errorf ''SSH key setup failed: %w'' [e]), w1)
    | (Inr pubKey, w1) \<Rightarrow> (case generateRandomPasswordHash E w1 of
        (Inl e, w2) \<Rightarrow> (Some (Errorf ''generate admin password hash: %w'' [e]), w2)
      | (Inr passHash, w2) \<Rightarrow> (case NetExists E L c ''default'' w2 of (hasDefaultNet, w3) \<Rightarrow>
          (case render_user_data E (autoinstall_data cfg passHash pubKey hasDefaultNet) of
             Inl e \<Rightarrow> (Some e, w3)
           | Inr userData \<Rightarrow> seed_image E c (StorageDir (VM cfg)) userData (install_jumpstart E cfg L c hasDefaultNet) w3))))"

definition deployJumpstart :: "('x, 'z) init_env_scheme \<Rightarrow> Config \<Rightarrow> Client \<Rightarrow> ctx \<Rightarrow> 'x sworld \<Rightarrow> goerr option \<times> 'x sworld" where
  "deployJumpstart E cfg L c w = (let js = Jumpstart (Nodes cfg) in
     case DomainStates E L c w of
       (Inl e, w1) \<Rightarrow> (Some (Errorf ''list domains: %w'' [e]), w1)
     | (Inr states, w1) \<Rightarrow> (case states (n_Name js) of
         Some state \<Rightarrow>
           check_err (if state \<noteq> ''running'' then Start E L c (n_Name js) w1 else (None, w1))
             (\<lambda>e. Errorf ''start existing Jumpstart VM: %w'' [e]) (\<lambda>w2.
           check_err (run_proc (WaitForSSH E c (n_IP js) (3 * 60 * Second)) w2)
             (\<lambda>e. Errorf ''existing Jumpstart VM did not become reachable: %w'' [e]) (\<lambda>w3. (None, w3)))
       | None \<Rightarrow> create_jumpstart E cfg L c w1))"

section \<open>Cleaning up\<close>

fun remove_files :: "('x, 'p, 'z) env_scheme \<Rightarrow> string list \<Rightarrow> ('x, 'p) world \<Rightarrow> goerr option \<times> ('x, 'p) world" where
  "remove_files E [] w = (None, w)"
| "remove_files E (p # ps) w = (case do_op E (Remove p) w of
      (None, w1) \<Rightarrow> remove_files E ps w1
    | (Some e, w1) \<Rightarrow>
        if IsNotExist e then remove_files E ps w1 else (Some (Errorf ''remove disk %s: %w'' [p, perr_msg e]), w1))"

definition destroyVM :: "('x, 'p, 'z) env_scheme \<Rightarrow> Config \<Rightarrow> Client \<Rightarrow> ctx \<Rightarrow> string \<Rightarrow> string option \<Rightarrow> ('x, 'p) world
    \<Rightarrow> goerr option \<times> ('x, 'p) world" where
  "destroyVM E cfg L c name state w =
     check_err (case state of
         None \<Rightarrow> (None, w)
       | Some st \<Rightarrow>
           check_err (if \<not> is_off state then Destroy E L c name w else (None, w)) (\<lambda>e. Errorf ''stop domain: %w'' [e]) (\<lambda>w1.
           check_err (Undefine E L c name w1) (\<lambda>e. Errorf ''undefine domain: %w'' [e]) (\<lambda>w2. (None, w2))))
       (\<lambda>e. e) (\<lambda>w1.
     check_err (remove_files E (vm_disks cfg name) w1) (\<lambda>e. e) (\<lambda>w2.
     if name \<noteq> n_Name (Jumpstart (Nodes cfg)) then (None, w2)
     else case do_op E (Remove (path_Join [StorageDir (VM cfg), ''seed.iso''])) w2 of
       (None, w3) \<Rightarrow> (None, w3)
     | (Some e, w3) \<Rightarrow> if IsNotExist e then (None, w3) else (Some (Errorf ''remove seed ISO: %w'' [perr_msg e]), w3)))"

fun destroy_nodes :: "('x, 'p, 'z) env_scheme \<Rightarrow> Config \<Rightarrow> Client \<Rightarrow> ctx \<Rightarrow> (string \<Rightarrow> string option) \<Rightarrow> NodeSpec list \<Rightarrow> ('x, 'p) world
    \<Rightarrow> goerr list \<times> ('x, 'p) world" where
  "destroy_nodes E cfg L c states [] w = ([], w)"
| "destroy_nodes E cfg L c states (n # ns) w =
     (if Name n = [] then destroy_nodes E cfg L c states ns w
      else case destroyVM E cfg L c (Name n) (states (Name n)) w of
        (None, w1) \<Rightarrow> destroy_nodes E cfg L c states ns w1
      | (Some e, w1) \<Rightarrow> apfst (Cons (Errorf ''remove VM %s: %w'' [Name n, e])) (destroy_nodes E cfg L c states ns w1))"

fun destroy_nets :: "('x, 'p, 'z) env_scheme \<Rightarrow> Client \<Rightarrow> ctx \<Rightarrow> string list \<Rightarrow> ('x, 'p) world \<Rightarrow> goerr list \<times> ('x, 'p) world" where
  "destroy_nets E L c [] w = ([], w)"
| "destroy_nets E L c (net # nets) w = (case NetExistsChecked E L c net w of
      (Inl e, w1) \<Rightarrow> apfst (Cons (Errorf ''check network %s: %w'' [net, e])) (destroy_nets E L c nets w1)
    | (Inr exists, w1) \<Rightarrow>
        if \<not> exists then destroy_nets E L c nets w1
        else (case NetUndefine E L c net (snd (NetDestroy E L c net w1)) of
            (None, w2) \<Rightarrow> destroy_nets E L c nets w2
          | (Some e, w2) \<Rightarrow> apfst (Cons (Errorf ''undefine network %s: %w'' [net, e])) (destroy_nets E L c nets w2)))"

definition cleanupWithOptions :: "('x, 'p, 'z) env_scheme \<Rightarrow> Config \<Rightarrow> Client \<Rightarrow> ctx \<Rightarrow> CleanupOptions \<Rightarrow> ('x, 'p) world
    \<Rightarrow> goerr option \<times> ('x, 'p) world" where
  "cleanupWithOptions E cfg L c opts w =
     (if VMsOnly opts \<and> NetworksOnly opts then (Some ''VMsOnly and NetworksOnly are mutually exclusive'', w)
      else case (if NetworksOnly opts then ([], w)
                 else case DomainStates E L c w of
                   (Inl e, w1) \<Rightarrow> ([Errorf ''list domains: %w'' [e]], w1)
                 | (Inr states, w1) \<Rightarrow> destroy_nodes E cfg L c states (AllNodes cfg) w1) of
        (errs, w2) \<Rightarrow> (case (if VMsOnly opts then ([], w2) else destroy_nets E L c [''internal'', ''main''] w2) of
          (errs', w3) \<Rightarrow> (errors_Join (errs @ errs'), w3)))"

definition Cleanup :: "('x, 'p, 'z) env_scheme \<Rightarrow> Config \<Rightarrow> Client \<Rightarrow> ctx \<Rightarrow> CleanupOptions \<Rightarrow> ('x, 'p) world \<Rightarrow> goerr option \<times> ('x, 'p) world" where
  "Cleanup E cfg L c opts = cleanupWithOptions E cfg L c opts"

definition cleanup :: "('x, 'p, 'z) env_scheme \<Rightarrow> Config \<Rightarrow> Client \<Rightarrow> ctx \<Rightarrow> ('x, 'p) world \<Rightarrow> goerr option \<times> ('x, 'p) world" where
  "cleanup E cfg L c = cleanupWithOptions E cfg L c \<lparr>VMsOnly = False, NetworksOnly = False\<rparr>"

section \<open>The phase\<close>

definition init_Name :: string where
  "init_Name = ''00-init-vms''"

definition init_Run :: "('x, 'z) init_env_scheme \<Rightarrow> Config \<Rightarrow> Client \<Rightarrow> InitOptions \<Rightarrow> ctx \<Rightarrow> 'x sworld \<Rightarrow> goerr option \<times> 'x sworld" where
  "init_Run E cfg L opts c w =
     check_err (if \<not> opt_Cleanup opts then init_preflight E cfg w else (None, w)) (\<lambda>e. Errorf ''preflight checks failed: %w'' [e]) (\<lambda>w.
     if opt_Cleanup opts then cleanup E cfg L c w
     else check_err (if Recreate opts then cleanup E cfg L c w else (None, w)) (\<lambda>e. Errorf ''cleanup before recreate: %w'' [e]) (\<lambda>w.
     (let js = JumpstartOnly opts \<or> \<not> JumpstartOnly opts \<and> \<not> NodesOnly opts;
          nodes = NodesOnly opts \<or> \<not> JumpstartOnly opts \<and> \<not> NodesOnly opts
      in check_err (if js \<or> nodes then setupNetworks E cfg L c w else (None, w)) (\<lambda>e. Errorf ''network setup failed: %w'' [e]) (\<lambda>w.
         check_err (if js then deployJumpstart E cfg L c w else (None, w)) (\<lambda>e. Errorf ''jumpstart deployment failed: %w'' [e]) (\<lambda>w.
         check_err (if nodes then deployClientNodes E cfg L c w else (None, w)) (\<lambda>e. Errorf ''client node deployment failed: %w'' [e]) (\<lambda>w. (None, w)))))))"

end
