(* ===== verification/VMOpsProps.thy ===== *)
theory VMOpsProps
  imports VMOps
begin

text \<open>
  What the operations on the machines guarantee: the order of the starts, no forced power-off without \<open>--force\<close>, a bounded
  wait, memory shrunk for all machines or for none, and only failed machines cleaned up.
\<close>

section \<open>Virsh commands\<close>

lemma virsh_argv_inj [simp]: "virsh_argv L a = virsh_argv L b \<longleftrightarrow> a = b"
  by (auto simp: virsh_argv_def)

lemma virsh_issues: "P (Exec (virsh_argv L args)) \<Longrightarrow> keeps (extends P) (virsh E L c args)"
  unfolding virsh_def by (auto intro!: keeping issues split: option.splits)

lemma virsh_do_issues: "P (Exec (virsh_argv L args)) \<Longrightarrow> keeps (extends P) (virsh_do E L c args)"
  unfolding virsh_do_def by (intro keeping issues virsh_issues)

definition list_all_cmd :: "Client \<Rightarrow> event" where
  "list_all_cmd L = Exec (virsh_argv L [''list'', ''--all''])"

lemma DomainStates_issues: "P (list_all_cmd L) \<Longrightarrow> keeps (extends P) (DomainStates E L c)"
  unfolding DomainStates_def ListAll_def list_all_cmd_def
  by (intro keeping issues virsh_issues)

text \<open>What a command line does to a machine.\<close>

definition vm_cmd :: "Client \<Rightarrow> string \<Rightarrow> string \<Rightarrow> event" where
  "vm_cmd L verb vm = Exec (virsh_argv L [verb, vm])"

lemma vm_cmd_simps [simp]:
  "vm_cmd L v vm = vm_cmd L v' vm' \<longleftrightarrow> v = v' \<and> vm = vm'"
  "vm_cmd L v vm = list_all_cmd L \<longleftrightarrow> v = ''list'' \<and> vm = ''--all''"
  "list_all_cmd L = vm_cmd L v vm \<longleftrightarrow> v = ''list'' \<and> vm = ''--all''"
  by (auto simp: vm_cmd_def list_all_cmd_def)

lemma vm_issues:
  "P (vm_cmd L ''start'' vm) \<Longrightarrow> keeps (extends P) (Start E L c vm)"
  "P (vm_cmd L ''shutdown'' vm) \<Longrightarrow> keeps (extends P) (Shutdown E L c vm)"
  "P (vm_cmd L ''resume'' vm) \<Longrightarrow> keeps (extends P) (Resume E L c vm)"
  "P (vm_cmd L ''destroy'' vm) \<Longrightarrow> keeps (extends P) (Destroy E L c vm)"
  "P (vm_cmd L ''undefine'' vm) \<Longrightarrow> keeps (extends P) (Undefine E L c vm)"
  unfolding Start_def Shutdown_def Resume_def Destroy_def Undefine_def vm_cmd_def
  by (rule virsh_do_issues; assumption)+

text \<open>A command of one machine is run once, or not at all when the context is done; then it fails.\<close>

lemma virsh_do_trace:
  assumes "virsh_do E L c args w = (r, w')"
  shows "w_trace w' = w_trace w @ [Exec (virsh_argv L args)] \<or> w' = w \<and> r \<noteq> None"
  using assms by (auto simp: virsh_do_def virsh_def run_cmd_def split: prod.splits option.splits sum.splits)

section \<open>Starting\<close>

definition to_start :: "(string \<Rightarrow> string option) \<Rightarrow> string list \<Rightarrow> string list" where
  "to_start states vms = filter (\<lambda>vm. vm \<noteq> [] \<and> states vm \<noteq> None \<and> states vm \<noteq> Some ''running'') vms"

lemma start_loop_trace:
  "start_loop E L c stagger states vms w = (r, w') \<Longrightarrow>
    \<exists>k \<le> length (to_start states vms). w_trace w' = w_trace w @ map (vm_cmd L ''start'') (take k (to_start states vms))
      \<and> (r = None \<longrightarrow> k = length (to_start states vms))"
proof (induction vms arbitrary: w)
  case Nil
  then show ?case by (simp add: to_start_def)
next
  case (Cons vm vms)
  show ?case
  proof (cases "vm \<noteq> [] \<and> states vm \<noteq> None \<and> states vm \<noteq> Some ''running''")
    case False
    with Cons show ?thesis by (auto simp: to_start_def split: if_splits option.splits)
  next
    case True
    then obtain st where st: "states vm = Some st" "st \<noteq> ''running''" by auto
    have todo: "to_start states (vm # vms) = vm # to_start states vms" using True by (simp add: to_start_def)
    obtain r1 w1 where 1: "Start E L c vm w = (r1, w1)" by fastforce
    have tr: "w_trace w1 = w_trace w @ [vm_cmd L ''start'' vm] \<or> w1 = w \<and> r1 \<noteq> None"
      using virsh_do_trace 1 unfolding Start_def vm_cmd_def by blast
    show ?thesis
    proof (cases r1)
      case (Some e)
      then have w': "w' = w1" "r \<noteq> None" using Cons.prems 1 st True by auto
      from tr show ?thesis
      proof
        assume "w_trace w1 = w_trace w @ [vm_cmd L ''start'' vm]"
        with w' todo show ?thesis by (intro exI [of _ "Suc 0"]) auto
      qed (use w' todo in \<open>intro exI [of _ 0]; auto\<close>)
    next
      case None
      then have tr: "w_trace w1 = w_trace w @ [vm_cmd L ''start'' vm]" using tr by simp
      obtain b w2 where 2: "wait E c stagger w1 = (b, w2)" by fastforce
      have tr2: "w_trace w2 = w_trace w1"
        using wait_until_frame 2 unfolding wait_def by (metis world.select_convs(4) world.surjective world.update_convs(2))
      show ?thesis
      proof (cases b)
        case False
        then have "w' = w2" "r \<noteq> None" using Cons.prems 1 2 None st True wait_done by fastforce+
        with tr tr2 todo show ?thesis by (intro exI [of _ "Suc 0"]) auto
      next
        case True
        then have "start_loop E L c stagger states vms w2 = (r, w')" using Cons.prems 1 2 None st \<open>vm \<noteq> [] \<and> _\<close> by simp
        from Cons.IH [OF this] obtain k where "k \<le> length (to_start states vms)"
          "w_trace w' = w_trace w2 @ map (vm_cmd L ''start'') (take k (to_start states vms))"
          "r = None \<longrightarrow> k = length (to_start states vms)" by blast
        with tr tr2 todo show ?thesis by (intro exI [of _ "Suc k"]) simp
      qed
    qed
  qed
qed

text \<open>\<open>StartAllVMs\<close> starts exactly the defined machines that are not running, one after the other in the order router, jumpstart,
  monitor, masters, workers, storage, load balancers, frontends, hotdesks: what was issued when it stops early is
  a prefix of that sequence, and all of it when it returns nil.\<close>

theorem StartAllVMs_order:
  assumes "StartAllVMs E cfg L c stagger w = (r, w')" and "DomainStates E L c w = (Inr states, w1)"
  shows "\<exists>k \<le> length (to_start states (start_order cfg)).
      w_trace w' = w_trace w1 @ map (vm_cmd L ''start'') (take k (to_start states (start_order cfg)))
      \<and> (r = None \<longrightarrow> k = length (to_start states (start_order cfg)))"
  using assms start_loop_trace by (simp add: StartAllVMs_def)

section \<open>Stopping\<close>

lemma signal_loop_issues:
  assumes "\<And>vm. P (vm_cmd L ''shutdown'' vm)" and "\<And>vm. P (vm_cmd L ''resume'' vm)"
  shows "extends P w (signal_loop E L c states vms w)"
proof (induction vms arbitrary: w)
  case Nil
  show ?case by (simp add: ext.refl)
next
  case (Cons vm vms)
  have s: "extends P v (snd (Shutdown E L c vm v))" and r: "extends P v (snd (Resume E L c vm v))" for v
    using vm_issues(2,3) assms by (metis keeps_def)+
  let ?w1 = "if states vm = Some ''paused'' then snd (Resume E L c vm w) else w"
  have "extends P w ?w1" using r by (simp add: ext.refl)
  with s [of ?w1] Cons [of "snd (Shutdown E L c vm ?w1)"] show ?case
    unfolding signal_loop.simps Let_def by (meson ext.trans)
qed

text \<open>One round of the loop.\<close>

lemma stop_poll_cases:
  assumes "stop_poll E L c deadline vms remaining w = (res, w')"
  obtains (expired) "\<not> w_clock w < deadline" "res = Inr remaining" "w' = w"
  | (all_off) r where "w_clock w < deadline" "DomainStates E L c w = (r, w')" "remaining_of r vms = []" "res = Inr []"
  | (cancelled) r w1 where "w_clock w < deadline" "DomainStates E L c w = (r, w1)" "wait E c Second w1 = (False, w')" "res = Inl (ctx_err c w')"
  | (again) r w1 w2 where "w_clock w < deadline" "DomainStates E L c w = (r, w1)" "remaining_of r vms \<noteq> []" "wait E c Second w1 = (True, w2)"
      "stop_poll E L c deadline vms (remaining_of r vms) w2 = (res, w')"
  using assms by (subst (asm) stop_poll.simps) (auto split: if_splits prod.splits bool.splits)

lemma Second_pos: "0 < Second"
  by (simp add: Second_def)

lemma stop_poll_rule [consumes 1, case_names expired all_off cancelled again]:
  assumes "stop_poll E L c deadline vms remaining w = (res, w')"
    and "\<And>remaining w. \<not> w_clock w < deadline \<Longrightarrow> P remaining w (Inr remaining) w"
    and "\<And>remaining w r w'. w_clock w < deadline \<Longrightarrow> DomainStates E L c w = (r, w') \<Longrightarrow> remaining_of r vms = [] \<Longrightarrow> P remaining w (Inr []) w'"
    and "\<And>remaining w r w1 w'. w_clock w < deadline \<Longrightarrow> DomainStates E L c w = (r, w1) \<Longrightarrow> wait E c Second w1 = (False, w') \<Longrightarrow>
      P remaining w (Inl (ctx_err c w')) w'"
    and again: "\<And>remaining w r w1 w2 res w'. w_clock w < deadline \<Longrightarrow> DomainStates E L c w = (r, w1) \<Longrightarrow> remaining_of r vms \<noteq> [] \<Longrightarrow>
      wait E c Second w1 = (True, w2) \<Longrightarrow> w_clock w + Second \<le> w_clock w2 \<Longrightarrow> P (remaining_of r vms) w2 res w' \<Longrightarrow> P remaining w res w'"
  shows "P remaining w res w'"
  using assms(1)
proof (induction "nat (deadline - w_clock w)" arbitrary: remaining w rule: less_induct)
  case less
  show ?case using less.prems
  proof (cases rule: stop_poll_cases)
    case (again r w1 w2)
    have step: "w_clock w + Second \<le> w_clock w2" by (rule poll_step [OF again(2,4) Second_pos])
    then have "nat (deadline - w_clock w2) < nat (deadline - w_clock w)" using again(1) Second_pos by simp
    from assms(5) [OF again(1-4) step less.hyps [OF this again(5)]] show ?thesis .
  qed (use assms(2-4) in blast)+
qed

lemma stop_poll_issues:
  assumes "stop_poll E L c deadline vms remaining w = (res, w')" and "P (list_all_cmd L)"
  shows "extends P w w'"
proof -
  have D: "DomainStates E L c v = (r, v') \<Longrightarrow> extends P v v'" for v r v'
    by (rule keepsD [OF DomainStates_issues [where P = P, OF assms(2)]])
  have W: "wait E c Second v = (b, v') \<Longrightarrow> extends P v v'" for v b v'
    by (rule keepsD [OF wait_issues])
  show ?thesis using assms(1)
    by (induction rule: stop_poll_rule) (meson ext.refl ext.trans D W)+
qed

lemma stop_poll_later: "stop_poll E L c deadline vms remaining w = (res, w') \<Longrightarrow> later w w'"
proof (induction rule: stop_poll_rule)
  case (cancelled remaining w r w1 w')
  then show ?case using keepsD [OF DomainStates_later] keepsD [OF wait_later] clk.trans by blast
next
  case (again remaining w r w1 w2 res w')
  then show ?case
    using clk.trans [OF clk.trans [OF keepsD [OF DomainStates_later again(2)] keepsD [OF wait_later again(4)]]] by simp
qed (auto simp: clk.refl dest: keepsD [OF DomainStates_later])

lemma stop_poll_cancelled: "stop_poll E L c deadline vms remaining w = (res, w') \<Longrightarrow> res = Inl e \<Longrightarrow> e \<noteq> None"
  by (induction rule: stop_poll_rule) (auto dest: wait_done)

lemma stop_poll_off:
  "stop_poll E L c deadline vms remaining w = (res, w') \<Longrightarrow> res = Inr [] \<Longrightarrow> w_clock w < deadline \<or> remaining \<noteq> [] \<Longrightarrow>
    \<exists>u r. DomainStates E L c u = (r, w') \<and> remaining_of r vms = []"
  by (induction rule: stop_poll_rule) auto

text \<open>The number of rounds: one per second until the deadline.\<close>

definition list_count :: "Client \<Rightarrow> ('x, 'p) world \<Rightarrow> nat" where
  "list_count L w = length (filter (\<lambda>e. e = list_all_cmd L) (w_trace w))"

definition rounds :: "int \<Rightarrow> int" where
  "rounds d = (d + Second - 1) div Second"

lemma list_count_extends: "extends (\<lambda>e. e \<noteq> list_all_cmd L) w w' \<Longrightarrow> list_count L w' = list_count L w"
  by (auto simp: extends_def list_count_def list_all_iff filter_empty_conv)

lemma list_count_wait: "wait E c d w = (b, w') \<Longrightarrow> list_count L w' = list_count L w"
  by (rule list_count_extends) (rule keepsD [OF wait_issues])

lemma list_count_DomainStates:
  assumes "DomainStates E L c w = (r, w')"
  shows "list_count L w' \<le> Suc (list_count L w)"
proof -
  obtain r0 w0 where 1: "run_cmd E c (virsh_argv L [''list'', ''--all'']) w = (r0, w0)" by fastforce
  have "w' = w0" using assms 1 by (auto simp: DomainStates_def ListAll_def virsh_def split: prod.splits option.splits sum.splits)
  moreover have "w_trace w0 = w_trace w @ [list_all_cmd L] \<or> w_trace w0 = w_trace w"
    using 1 by (auto simp: run_cmd_def list_all_cmd_def split: option.splits prod.splits)
  ultimately show ?thesis by (auto simp: list_count_def)
qed

lemma rounds_step: "d' \<le> d - Second \<Longrightarrow> rounds d' \<le> rounds d - 1"
proof -
  assume "d' \<le> d - Second"
  then have "(d' + Second - 1) div Second \<le> (d + Second - 1 - Second) div Second"
    by (intro zdiv_mono1) (simp_all add: Second_def)
  also have "\<dots> = (d + Second - 1) div Second - 1"
    using div_diff [of Second Second "d + Second - 1"] by (simp add: Second_def)
  finally show ?thesis by (simp add: rounds_def)
qed

lemma rounds_pos: "0 < d \<Longrightarrow> 1 \<le> rounds d"
  by (simp add: rounds_def Second_def)

lemma stop_poll_count:
  "stop_poll E L c deadline vms remaining w = (res, w') \<Longrightarrow>
    list_count L w' \<le> list_count L w + nat (rounds (deadline - w_clock w))"
proof (induction rule: stop_poll_rule)
  case (all_off remaining w r w')
  with list_count_DomainStates [OF all_off(2)] rounds_pos [of "deadline - w_clock w"] show ?case by simp
next
  case (cancelled remaining w r w1 w')
  with list_count_DomainStates [OF cancelled(2)] list_count_wait [OF cancelled(3)] rounds_pos [of "deadline - w_clock w"]
  show ?case by simp
next
  case (again remaining w r w1 w2 res w')
  moreover have "rounds (deadline - w_clock w2) \<le> rounds (deadline - w_clock w) - 1" using again(5) by (intro rounds_step) simp
  ultimately show ?case
    using list_count_DomainStates [OF again(2)] list_count_wait [OF again(4)] rounds_pos [of "deadline - w_clock w"] by simp
qed simp

lemma signal_loop_later: "later w (signal_loop E L c states vms w)"
proof (induction vms arbitrary: w)
  case (Cons vm vms)
  have k: "keeps later (virsh_do E L c args)" for args
    unfolding virsh_do_def virsh_def by (intro keeping elapses)
  have s: "later v (snd (Shutdown E L c vm v))" and r: "later v (snd (Resume E L c vm v))" for v
    using k unfolding Shutdown_def Resume_def keeps_def by blast+
  let ?w1 = "if states vm = Some ''paused'' then snd (Resume E L c vm w) else w"
  have "later w ?w1" using r by (simp add: clk.refl)
  with s [of ?w1] Cons [of "snd (Shutdown E L c vm ?w1)"] show ?case
    unfolding signal_loop.simps Let_def by (meson clk.trans)
qed (simp add: clk.refl)

text \<open>The stages of \<open>StopAllVMs\<close> after the first snapshot.\<close>

lemma StopAllVMs_cases:
  assumes "StopAllVMs E cfg L c opts w = (r, w')" and "DomainStates E L c w = (Inr states, w1)"
  defines "vms \<equiv> running_vms states (stop_order cfg)"
  obtains (idle) "vms = []" "r = None" "w' = w1"
  | (stop) res w2 w3 where "vms \<noteq> []" "w2 = signal_loop E L c states vms w1"
      "stop_poll E L c (w_clock w2 + stop_timeout opts) vms [] w2 = (res, w3)"
      "res = Inr [] \<Longrightarrow> r = None \<and> w' = w3"
      "\<And>e. res = Inl e \<Longrightarrow> r = e \<and> w' = w3"
      "\<And>rem. res = Inr rem \<Longrightarrow> rem \<noteq> [] \<Longrightarrow> Force opts \<Longrightarrow> r = None \<and> w' = destroy_loop E L c rem w3"
      "\<And>rem. res = Inr rem \<Longrightarrow> rem \<noteq> [] \<Longrightarrow> \<not> Force opts \<Longrightarrow> r \<noteq> None \<and> w' = w3"
proof (cases "vms = []")
  case True
  with idle assms show thesis by (simp add: StopAllVMs_def Let_def)
next
  case False
  let ?w2 = "signal_loop E L c states vms w1"
  obtain res w3 where "stop_poll E L c (w_clock ?w2 + stop_timeout opts) vms [] ?w2 = (res, w3)" by fastforce
  with False assms show thesis
    by (intro stop [of ?w2 res w3]) (auto simp: StopAllVMs_def Let_def split: if_splits)
qed


lemma timeout_pos: "0 < stop_timeout opts"
  by (simp add: stop_timeout_def Second_def)

text \<open>C20. Without \<open>--force\<close>, \<open>StopAllVMs\<close> never powers a machine off, and when it returns nil, either no machine was running
  or a snapshot taken at the end shows every machine that was running as shut off (or crashed).\<close>

theorem StopAllVMs_graceful:
  assumes "StopAllVMs E cfg L c opts w = (r, w')" and "DomainStates E L c w = (Inr states, w1)" and "\<not> Force opts"
  shows "extends (\<lambda>e. \<forall>vm. e \<noteq> vm_cmd L ''destroy'' vm) w w' \<and>
    (r = None \<longrightarrow> running_vms states (stop_order cfg) = [] \<or>
      (\<exists>u m. DomainStates E L c u = (Inr m, w') \<and> list_all (\<lambda>vm. is_off (m vm)) (running_vms states (stop_order cfg))))"
proof -
  let ?P = "\<lambda>e. \<forall>vm. e \<noteq> vm_cmd L ''destroy'' vm" and ?vms = "running_vms states (stop_order cfg)"
  have 1: "extends ?P w w1" by (rule keepsD [OF DomainStates_issues assms(2)]) simp
  show ?thesis using assms(1,2)
  proof (cases rule: StopAllVMs_cases)
    case idle
    with 1 show ?thesis by simp
  next
    case (stop res w2 w3)
    have 2: "extends ?P w1 w2" unfolding stop(2) by (rule signal_loop_issues) simp_all
    have 3: "extends ?P w2 w3" by (rule stop_poll_issues [OF stop(3)]) simp
    have ext: "extends ?P w w3" using 1 2 3 ext.trans by blast
    show ?thesis
    proof (cases res)
      case (Inl e)
      then have r: "r = e" "w' = w3" using stop(5) by auto
      have "e \<noteq> None" by (rule stop_poll_cancelled [OF stop(3) Inl])
      with r ext show ?thesis by auto
    next
      case (Inr rem)
      show ?thesis
      proof (cases "rem = []")
        case True
        with Inr stop(4) have w': "w' = w3" by simp
        obtain u q where u: "DomainStates E L c u = (q, w')" "remaining_of q ?vms = []"
          using stop_poll_off [OF stop(3)] True Inr timeout_pos [of opts] w' by auto
        have "\<exists>m. q = Inr m"
        proof (cases q)
          case (Inl e)
          with u(2) stop(1) show ?thesis by (simp add: remaining_of_def snapshot_def is_off_def)
        qed simp
        then obtain m where m: "q = Inr m" ..
        then have "list_all (\<lambda>vm. is_off (m vm)) ?vms"
          using u(2) by (simp add: remaining_of_def snapshot_def filter_empty_conv list_all_iff)
        with u m ext w' show ?thesis by blast
      next
        case False
        with Inr stop(7) assms(3) ext show ?thesis by auto
      qed
    qed
  qed
qed

lemma destroy_loop_count: "list_count L (destroy_loop E L c vms w) = list_count L w"
proof (induction vms arbitrary: w)
  case (Cons vm vms)
  have "keeps (extends (\<lambda>e. e \<noteq> list_all_cmd L)) (Destroy E L c vm)" by (rule vm_issues) simp
  then have "list_count L (snd (Destroy E L c vm w)) = list_count L w"
    unfolding keeps_def by (blast intro: list_count_extends)
  with Cons show ?case by simp
qed simp

text \<open>C21. \<open>StopAllVMs\<close> ends: it asks for the states of the domains at most once per second of its timeout (rounded up) and once before,
  whatever \<open>virsh\<close> answers and whether or not the machines ever stop.\<close>

theorem StopAllVMs_ends:
  assumes "StopAllVMs E cfg L c opts w = (r, w')"
  shows "list_count L w' \<le> list_count L w + 1 + nat ((stop_timeout opts + Second - 1) div Second)"
proof -
  obtain q w1 where D: "DomainStates E L c w = (q, w1)" by fastforce
  note c1 = list_count_DomainStates [OF D]
  show ?thesis
  proof (cases q)
    case (Inl e)
    with assms D c1 show ?thesis by (simp add: StopAllVMs_def)
  next
    case (Inr states)
    with D have D': "DomainStates E L c w = (Inr states, w1)" by simp
    show ?thesis using assms D'
    proof (cases rule: StopAllVMs_cases)
      case idle
      with c1 show ?thesis by simp
    next
      case (stop res w2 w3)
      have "extends (\<lambda>e. e \<noteq> list_all_cmd L) w1 w2" unfolding stop(2) by (rule signal_loop_issues) simp_all
      then have c2: "list_count L w2 = list_count L w1" by (rule list_count_extends)
      have c3: "list_count L w3 \<le> list_count L w2 + nat (rounds (stop_timeout opts))"
        using stop_poll_count [OF stop(3)] by simp
      have "list_count L w' = list_count L w3"
      proof (cases res)
        case (Inl e)
        with stop(5) show ?thesis by simp
      next
        case (Inr rem)
        with stop(4,6,7) show ?thesis by (cases "rem = []"; cases "Force opts") (auto simp: destroy_loop_count)
      qed
      with c1 c2 c3 show ?thesis by (simp add: rounds_def)
    qed
  qed
qed

section \<open>Shrinking\<close>

definition setmem_cmd :: "Client \<Rightarrow> string \<Rightarrow> string \<Rightarrow> int \<Rightarrow> event" where
  "setmem_cmd L verb vm kib = Exec (virsh_argv L [verb, vm, itoa kib, ''--config''])"

lemma shrink_loop_trace:
  "shrink_loop E L c kib states vms w = ([], w') \<Longrightarrow>
    w_trace w' = w_trace w @ concat (map (\<lambda>vm. [setmem_cmd L ''setmaxmem'' vm (kib vm), setmem_cmd L ''setmem'' vm (kib vm)])
      (filter (\<lambda>vm. states vm \<noteq> None) vms))"
proof (induction vms arbitrary: w)
  case (Cons vm vms)
  show ?case
  proof (cases "states vm")
    case None
    with Cons show ?thesis by simp
  next
    case (Some st)
    obtain r1 w1 where 1: "SetMaxMemory E L c vm (kib vm) w = (r1, w1)" by fastforce
    obtain r2 w2 where 2: "SetMemory E L c vm (kib vm) w1 = (r2, w2)" by fastforce
    have none: "r1 = None" "r2 = None" "shrink_loop E L c kib states vms w2 = ([], w')"
      using Cons.prems Some 1 2 by (auto simp: apfst_def map_prod_def split: option.splits prod.splits)
    have t1: "w_trace w1 = w_trace w @ [setmem_cmd L ''setmaxmem'' vm (kib vm)]"
      using virsh_do_trace 1 none unfolding SetMaxMemory_def setmem_cmd_def by blast
    have t2: "w_trace w2 = w_trace w1 @ [setmem_cmd L ''setmem'' vm (kib vm)]"
      using virsh_do_trace 2 none unfolding SetMemory_def setmem_cmd_def by blast
    from Cons.IH [OF none(3)] t1 t2 Some show ?thesis by simp
  qed
qed simp

text \<open>\<open>ShrinkVMRAM\<close> touches no machine when one of those it manages is running; and when it returns nil it has set the maximum and the
  current memory of every defined one, each once, in the order of their names. The order in which Go ranges over
  its map does not matter.\<close>

theorem ShrinkVMRAM_all_or_none:
  assumes "ShrinkVMRAM E ord cfg L c w = (r, w')" and "DomainStates E L c w = (Inr states, w1)"
    and "\<And>xs. set (ord xs) = set xs"
  shows "if \<exists>vm \<in> fst ` set (ram_assignments cfg). vm \<noteq> [] \<and> states vm = Some ''running''
    then r \<noteq> None \<and> w' = w1
    else r = None \<longrightarrow> w_trace w' = w_trace w1 @
      concat (map (\<lambda>vm. [setmem_cmd L ''setmaxmem'' vm (shrink_kib cfg vm), setmem_cmd L ''setmem'' vm (shrink_kib cfg vm)])
        (filter (\<lambda>vm. states vm \<noteq> None) (sort_strings (filter (\<lambda>n. n \<noteq> []) (ord (remdups (map fst (ram_assignments cfg))))))))"
proof -
  let ?names = "ord (remdups (map fst (ram_assignments cfg)))"
  have "find_running states ?names = None \<longleftrightarrow> \<not> (\<exists>vm \<in> set ?names. vm \<noteq> [] \<and> states vm = Some ''running'')"
    by (auto simp: find_running_def find_None_iff)
  then have f: "find_running states ?names = None \<longleftrightarrow> \<not> (\<exists>vm \<in> fst ` set (ram_assignments cfg). vm \<noteq> [] \<and> states vm = Some ''running'')"
    using assms(3) by simp
  show ?thesis
  proof (cases "find_running states ?names")
    case (Some n)
    with f have "\<exists>vm \<in> fst ` set (ram_assignments cfg). vm \<noteq> [] \<and> states vm = Some ''running''" by auto
    with Some assms(1,2) show ?thesis by (auto simp: ShrinkVMRAM_def Let_def)
  next
    case None
    obtain errs w2 where s: "shrink_loop E L c (shrink_kib cfg) states (sort_strings (filter (\<lambda>n. n \<noteq> []) ?names)) w1 = (errs, w2)" by fastforce
    with None assms(1,2) have r: "r = errors_Join errs" "w' = w2" by (auto simp: ShrinkVMRAM_def Let_def)
    show ?thesis
    proof (cases errs)
      case Nil
      with s r shrink_loop_trace None f show ?thesis by (auto simp: errors_Join_def)
    next
      case (Cons e es)
      with r None f show ?thesis by (auto simp: errors_Join_def)
    qed
  qed
qed


section \<open>Cleaning up failed machines\<close>

definition failed_node :: "Config \<Rightarrow> (string \<Rightarrow> string option) \<Rightarrow> NodeSpec \<Rightarrow> bool" where
  "failed_node cfg states n \<longleftrightarrow> Name n \<noteq> [] \<and> Name n \<noteq> n_Name (Jumpstart (Nodes cfg)) \<and> is_off (states (Name n))"

text \<open>What the clean-up of one machine may do.\<close>

definition cleanup_event :: "Config \<Rightarrow> Client \<Rightarrow> string \<Rightarrow> event \<Rightarrow> bool" where
  "cleanup_event cfg L vm e \<longleftrightarrow> e = vm_cmd L ''destroy'' vm \<or> e = vm_cmd L ''undefine'' vm \<or> (\<exists>p \<in> set (vm_disks cfg vm). e = Fs (Remove p))"

lemma remove_disks_issues: "list_all (\<lambda>p. P (Fs (Remove p))) ps \<Longrightarrow> extends P w (snd (remove_disks E ps w))"
proof (induction ps arbitrary: w)
  case (Cons p ps)
  obtain r w1 where 1: "do_op E (Remove p) w = (r, w1)" by fastforce
  have "extends P w w1" by (rule keepsD [OF do_op_issues 1]) (use Cons.prems in simp)
  moreover have "extends P w1 (snd (remove_disks E ps w1))" using Cons by simp
  ultimately have "extends P w (snd (remove_disks E ps w1))" by (rule ext.trans)
  with 1 show ?case by (simp split: option.split)
qed (simp add: ext.refl)

lemma recreate_loop_issues:
  assumes "\<forall>n \<in> set ns. failed_node cfg states n \<longrightarrow> (\<forall>e. cleanup_event cfg L (Name n) e \<longrightarrow> P e)"
  shows "extends P w (snd (recreate_loop E cfg L c states ns w))"
  using assms
proof (induction ns arbitrary: w)
  case (Cons n ns)
  have rest: "extends P v (snd (recreate_loop E cfg L c states ns v))" for v using Cons by simp
  show ?case
  proof (cases "failed_node cfg states n")
    case False
    with rest show ?thesis by (auto simp: failed_node_def)
  next
    case True
    let ?n = "Name n"
    have P: "\<And>e. cleanup_event cfg L ?n e \<Longrightarrow> P e" using Cons.prems True by simp
    obtain r1 w1 where 1: "Destroy E L c ?n w = (r1, w1)" by fastforce
    obtain r2 w2 where 2: "Undefine E L c ?n w1 = (r2, w2)" by fastforce
    obtain errs w3 where 3: "remove_disks E (vm_disks cfg ?n) w2 = (errs, w3)" by fastforce
    have e1: "extends P w w1" by (rule keepsD [OF vm_issues(4) 1]) (rule P, simp add: cleanup_event_def)
    have e2: "extends P w1 w2" by (rule keepsD [OF vm_issues(5) 2]) (rule P, simp add: cleanup_event_def)
    have "list_all (\<lambda>p. P (Fs (Remove p))) (vm_disks cfg ?n)"
      by (auto simp: list_all_iff cleanup_event_def intro!: P)
    then have e3: "extends P w2 w3" using remove_disks_issues [of P "vm_disks cfg ?n" w2 E] 3 by simp
    have e12: "extends P w w2" by (rule ext.trans [OF e1 e2])
    have e13: "extends P w w3" by (rule ext.trans [OF e12 e3])
    show ?thesis
      using True 1 2 3 ext.trans [OF e1 rest] ext.trans [OF e12 rest] ext.trans [OF e13 rest]
      by (cases r1; cases r2) (simp_all add: failed_node_def)
  qed
qed (simp add: ext.refl)

text \<open>\<open>RecreateFailedVMs\<close> destroys, undefines and deletes the disks of machines of the cluster that are shut off or crashed, never of the
  jumpstart or of a machine in any other state; and when the states cannot be listed it does nothing at all.\<close>

theorem RecreateFailedVMs_only_failed:
  "case DomainStates E L c w of
     (Inl e, w1) \<Rightarrow> snd (RecreateFailedVMs E cfg L c w) = w1 \<and> fst (RecreateFailedVMs E cfg L c w) \<noteq> None
   | (Inr states, w1) \<Rightarrow> extends (\<lambda>e. \<exists>n \<in> set (AllNodes cfg). failed_node cfg states n \<and> cleanup_event cfg L (Name n) e)
       w1 (snd (RecreateFailedVMs E cfg L c w))"
proof -
  obtain q w1 where D: "DomainStates E L c w = (q, w1)" by fastforce
  show ?thesis
  proof (cases q)
    case (Inr states)
    let ?P = "\<lambda>e. \<exists>n \<in> set (AllNodes cfg). failed_node cfg states n \<and> cleanup_event cfg L (Name n) e"
    have "extends ?P w1 (snd (recreate_loop E cfg L c states (AllNodes cfg) w1))"
      by (rule recreate_loop_issues) blast
    with D Inr show ?thesis by (auto simp: RecreateFailedVMs_def split: prod.splits)
  qed (use D in \<open>simp add: RecreateFailedVMs_def\<close>)
qed

lemma recreate_loop_stuck:
  assumes "\<And>vm v. fst (Destroy E L c vm v) \<noteq> None"
  shows "extends (\<lambda>e. \<exists>vm. e = vm_cmd L ''destroy'' vm) w (snd (recreate_loop E cfg L c states ns w)) \<and>
    (fst (recreate_loop E cfg L c states ns w) = [] \<longleftrightarrow> \<not> (\<exists>n \<in> set ns. failed_node cfg states n))"
proof (induction ns arbitrary: w)
  case (Cons n ns)
  show ?case
  proof (cases "failed_node cfg states n")
    case False
    with Cons show ?thesis by (auto simp: failed_node_def)
  next
    case True
    obtain e w1 where 1: "Destroy E L c (Name n) w = (Some e, w1)"
      using assms [of "Name n" w] by (cases "Destroy E L c (Name n) w") auto
    have "extends (\<lambda>e. \<exists>vm. e = vm_cmd L ''destroy'' vm) w w1" by (rule keepsD [OF vm_issues(4) 1]) simp
    with Cons [of w1] True 1 show ?thesis by (auto simp: failed_node_def intro: ext.trans)
  qed
qed (simp add: ext.refl)

text \<open>\<open>virsh destroy\<close> refuses a domain that is not running, and \<open>RecreateFailedVMs\<close> calls it on domains that are shut off. Wherever it is refused, no
  machine is undefined and no disk is removed: the command only reports errors, and does so whenever there is a failed machine.\<close>

theorem RecreateFailedVMs_stuck:
  assumes "\<And>vm v. fst (Destroy E L c vm v) \<noteq> None" and "DomainStates E L c w = (Inr states, w1)"
  shows "extends (\<lambda>e. \<exists>vm. e = vm_cmd L ''destroy'' vm) w1 (snd (RecreateFailedVMs E cfg L c w)) \<and>
    (fst (RecreateFailedVMs E cfg L c w) = None \<longleftrightarrow> \<not> (\<exists>n \<in> set (AllNodes cfg). failed_node cfg states n))"
  using recreate_loop_stuck [OF assms(1), of w1 cfg states "AllNodes cfg"] assms(2)
  by (cases "recreate_loop E cfg L c states (AllNodes cfg) w1") (auto simp: RecreateFailedVMs_def errors_Join_def)

end
