(* ===== verification/InitVMsProps.thy ===== *)
theory InitVMsProps
  imports InitVMs VMOpsProps SshCalls
begin

text \<open>
  What the phase that creates the machines guarantees: it leaves what exists alone unless it is told to clean up, a machine
  is created only on disks that are free, and disks are removed only of machines that libvirt no longer knows.
\<close>

section \<open>Error checks and commands\<close>

lemma do_fs_issues: "P (Fs op) \<Longrightarrow> keeps (extends P) (do_fs E op)"
  using do_op_issues [of P op E] by (auto simp: keeps_def do_fs_def split: prod.splits) (metis snd_conv)

lemma net_issues:
  "P (Exec (virsh_argv L [''net-info'', n])) \<Longrightarrow> keeps (extends P) (NetExists E L c n)"
  "P (Exec (virsh_argv L [''net-info'', n])) \<Longrightarrow> keeps (extends P) (NetIsActive E L c n)"
  "P (Exec (virsh_argv L [''net-list'', ''--all'', ''--name''])) \<Longrightarrow> keeps (extends P) (NetExistsChecked E L c n)"
  "P (Exec (virsh_argv L [''net-define'', n])) \<Longrightarrow> keeps (extends P) (NetDefine E L c n)"
  "P (Exec (virsh_argv L [''net-start'', n])) \<Longrightarrow> keeps (extends P) (NetStart E L c n)"
  "P (Exec (virsh_argv L [''net-autostart'', n])) \<Longrightarrow> keeps (extends P) (NetAutostart E L c n)"
  "P (Exec (virsh_argv L [''net-destroy'', n])) \<Longrightarrow> keeps (extends P) (NetDestroy E L c n)"
  "P (Exec (virsh_argv L [''net-undefine'', n])) \<Longrightarrow> keeps (extends P) (NetUndefine E L c n)"
  unfolding NetExists_def NetIsActive_def NetExistsChecked_def NetDefine_def NetStart_def NetAutostart_def NetDestroy_def
    NetUndefine_def
  by (intro keeping issues virsh_issues virsh_do_issues; assumption)+

lemma run_background_issues: "P (Exec argv) \<Longrightarrow> keeps (extends P) (run_background E c argv)"
proof (rule keepsI)
  fix w :: "('a, 'b) world" and r w' assume P: "P (Exec argv)" and r: "run_background E c argv w = (r, w')"
  obtain w1 where "run_cmd E c argv (background w) = (r, w1)" "w' = w1\<lparr>w_cancel := w_cancel w\<rparr>"
    using r by (auto simp: run_background_def split: prod.splits)
  then show "extends P w w'" using keepsD [OF run_cmd_issues [where P = P, OF P]] by (fastforce simp: extends_def background_def)
qed

lemma VirtInstall_issues: "P (Exec (install_argv L opts)) \<Longrightarrow> keeps (extends P) (VirtInstall E ord L c opts)"
  unfolding VirtInstall_def by (auto intro!: keeping issues split: option.splits)

section \<open>A run leaves what exists alone\<close>

text \<open>
  Harmless are all commands except the ones that stop or forget a machine or a network, and all file operations except
  renaming and removing; only the temporary description of a network and an old seed image are removed.
\<close>

definition removing :: "string list" where
  "removing = [''destroy'', ''undefine'', ''net-destroy'', ''net-undefine'']"

definition harmless :: "('x, 'z) init_env_scheme \<Rightarrow> Config \<Rightarrow> Client \<Rightarrow> event \<Rightarrow> bool" where
  "harmless E cfg L ev = (case ev of
      Exec argv \<Rightarrow> \<forall>verb rest. argv = virsh_argv L (verb # rest) \<longrightarrow> verb \<notin> set removing
    | Fs (Remove p) \<Rightarrow> p = path_Join [StorageDir (VM cfg), ''seed.iso''] \<or>
        (\<exists>nd \<in> set (net_defs cfg). \<exists>w. p = e_temp E (nd_name nd @ ''-net-*.xml'') w)
    | Fs (Rename a b) \<Rightarrow> False
    | _ \<Rightarrow> True)"

lemma harmless_virsh [simp]: "harmless E cfg L (Exec (virsh_argv L (v # rest))) \<longleftrightarrow> v \<notin> set removing"
  by (auto simp: harmless_def)

lemma harmless_vm [simp]: "harmless E cfg L (vm_cmd L v vm) \<longleftrightarrow> v \<notin> set removing" "harmless E cfg L (list_all_cmd L)"
  by (simp_all add: vm_cmd_def list_all_cmd_def removing_def)

text \<open>The program of a command line.\<close>

definition program :: "string list \<Rightarrow> string" where
  "program argv = (if hd argv = ''sudo'' then argv ! 2 else hd argv)"

lemma harmless_other [simp]: "program argv \<noteq> ''virsh'' \<Longrightarrow> harmless E cfg L (Exec argv)"
  by (auto simp: harmless_def virsh_argv_def program_def)

lemma harmless_file [simp]:
  "harmless E cfg L (Fs (WriteFile p d m))" "harmless E cfg L (Fs (CreateExcl p d m))" "harmless E cfg L (Fs (AppendFile p d m))"
  "harmless E cfg L (Fs (CloseFile p))" "harmless E cfg L (Fs (Chmod p m))" "harmless E cfg L (Fs (MkdirAll p m))"
  by (simp_all add: harmless_def)

lemma gentle_harmless: "gentle ev \<Longrightarrow> harmless E cfg L ev"
  by (cases ev rule: gentle.cases) (simp_all add: harmless_def)

lemma harmless_WaitForSSH: "keeps (extends (harmless E cfg L)) (run_proc (WaitForSSH E' c host t))"
proof (rule keepsI)
  fix w r w' assume "run_proc (WaitForSSH E' c host t) w = (r, w')"
  from keepsD [OF calm.run_proc_keeps [OF calm_WaitForSSH] this]
  show "extends (harmless E cfg L) w w'" by (auto simp: calm_def intro: extends_weaken gentle_harmless)
qed


lemma keeps_let_state: "(\<And>u. keeps R (f (g u))) \<Longrightarrow> keeps R (\<lambda>w. let x = g w in f x w)"
  by (simp add: keeps_def Let_def)

lemmas harmless_steps = ext.keeps_check keeping issues do_fs_issues net_issues vm_issues DomainStates_issues
  VirtInstall_issues run_background_issues harmless_WaitForSSH

lemma harmless_runNetCmd: "args \<noteq> [] \<Longrightarrow> keeps (extends (harmless E cfg L)) (runNetCmd E' c args)"
  unfolding runNetCmd_def by (auto intro!: keeping issues simp: program_def split: option.splits)

lemma harmless_bridge: "keeps (extends (harmless E cfg L)) (configureHostBridge E' c bridge target router)"
proof -
  let ?net = "runNetCmd E' c" and ?H = "extends (harmless E cfg L)"
  let ?add = "\<lambda>w. check_err (?net [''addr'', ''add'', target, ''dev'', bridge] w) (\<lambda>e. e) (?net [''link'', ''set'', ''dev'', bridge, ''up''])"
  have add: "keeps ?H ?add" by (intro ext.keeps_check harmless_runNetCmd) simp_all
  then have del: "keeps ?H (\<lambda>w. ?add (if b then snd (?net [''addr'', ''del'', router, ''dev'', bridge] w) else w))" for b
    by (cases b) (auto intro: ext.keeps_then [OF harmless_runNetCmd add])
  show ?thesis unfolding configureHostBridge_def Let_def
    by (intro keeping issues del) (simp_all add: program_def)
qed

lemma harmless_define_net:
  "nd \<in> set (net_defs cfg) \<Longrightarrow> keeps (extends (harmless E cfg L)) (define_net E L c nd)"
proof -
  assume nd: "nd \<in> set (net_defs cfg)"
  let ?H = "extends (harmless E cfg L)"
  have rm: "keeps ?H (do_op E (Remove (e_temp E (nd_name nd @ ''-net-*.xml'') u)))" for u
    by (rule do_op_issues) (use nd in \<open>auto simp: harmless_def\<close>)
  have close: "keeps ?H (do_op E (CloseFile p))" for p by (rule do_op_issues) simp
  have def_net: "keeps ?H (NetDefine E L c p)" for p by (rule net_issues) (simp add: removing_def)
  have start: "keeps ?H (NetStart E L c (nd_name nd))" by (rule net_issues) (simp add: removing_def)
  have auto_start: "keeps ?H (NetAutostart E L c (nd_name nd))" by (rule net_issues) (simp add: removing_def)
  show ?thesis unfolding define_net_def
    by (intro keeps_sum keeps_let_state ext.keeps_check do_fs_issues issues keeping ext.keeps_last [OF auto_start]
        ext.keeps_last [OF ext.keeps_then [OF close rm]] ext.keeps_last [OF rm] ext.keeps_then [OF close def_net] rm start) simp_all
qed

lemma harmless_setup_net: "nd \<in> set (net_defs cfg) \<Longrightarrow> keeps (extends (harmless E cfg L)) (setup_net E L c nd)"
  unfolding setup_net_def
  by (intro issues ext.keeps_check keeping net_issues keeps_let_state ext.keeps_last [OF harmless_bridge] harmless_define_net)
    (simp_all add: removing_def)

lemma setup_nets_steps:
  "setup_nets E L c [] = (\<lambda>w. (None, w))"
  "setup_nets E L c (nd # nds) = (\<lambda>w. check_err (setup_net E L c nd w) (\<lambda>e. e) (setup_nets E L c nds))"
  by (simp_all add: fun_eq_iff)

lemma create_all_steps:
  "create_all E L c dir ex [] = (\<lambda>w. (None, w))"
  "create_all E L c dir ex (np # nps) = (\<lambda>w. check_err
     (createClientVM E L c (np_node np) dir (np_nets np) (np_disks np) (ex (n_Name (np_node np)) \<noteq> None) w)
     (\<lambda>e. np_what np @ e) (create_all E L c dir ex nps))"
  by (simp_all add: fun_eq_iff)

lemma harmless_setupNetworks: "keeps (extends (harmless E cfg L)) (setupNetworks E cfg L c)"
proof -
  have "keeps (extends (harmless E cfg L)) (setup_nets E L c nds)" if "set nds \<subseteq> set (net_defs cfg)" for nds
    using that by (induction nds) (auto simp: setup_nets_steps simp del: setup_nets.simps intro!: ext.keeps_check harmless_setup_net issues)
  then show ?thesis unfolding setupNetworks_def by simp
qed

lemma harmless_VirtInstall: "keeps (extends (harmless E cfg L)) (VirtInstall E' ord L' c opts)"
  by (rule VirtInstall_issues) (simp add: install_argv_def install_args_def program_def)

lemma harmless_chmod: "extends (harmless E cfg L) w (chmod_all E' ps w)"
proof (induction ps arbitrary: w)
  case (Cons p ps)
  have "extends (harmless E cfg L) w (snd (do_op E' (Chmod p 438) w))"
    using do_op_issues [of "harmless E cfg L" "Chmod p 438" E'] by (simp add: keeps_def)
  then show ?case using ext.trans Cons.IH by fastforce
qed (simp add: ext.refl)

lemma harmless_createClientVM: "keeps (extends (harmless E cfg L)) (createClientVM E' L' c node dir nets disks exists)"
proof -
  have "keeps (extends (harmless E cfg L)) (\<lambda>w. (None, chmod_all E' ps w))" for ps
    by (simp add: keeps_def harmless_chmod)
  then show ?thesis unfolding createClientVM_def Let_def
    by (intro keeping issues ext.keeps_check harmless_VirtInstall)
qed

lemma harmless_deployClientNodes: "keeps (extends (harmless E cfg L)) (deployClientNodes E cfg' L c)"
proof -
  have "keeps (extends (harmless E cfg L)) (create_all E L c dir ex nps)" for dir ex nps
    by (induction nps) (auto simp: create_all_steps simp del: create_all.simps intro!: ext.keeps_check harmless_createClientVM issues)
  then show ?thesis unfolding deployClientNodes_def
    by (intro keeping issues DomainStates_issues net_issues) (simp_all add: removing_def)
qed

lemma harmless_ensureSSHKey: "keeps (extends (harmless E cfg L)) (ensureSSHKey E' path)"
proof -
  let ?R = "extends (harmless E cfg L)"
  let ?gen = "\<lambda>w. check_err (do_fs E' (MkdirAll (path_Dir path) 448) w) (\<lambda>e. Errorf ''failed to create SSH dir: %w'' [e]) (\<lambda>w1.
      case run_background E' None [''ssh-keygen'', ''-t'', ''ed25519'', ''-N'', [], ''-f'', Clean path] w1 of
        ((out, None), w2) \<Rightarrow> (None, w2)
      | ((out, Some e), w2) \<Rightarrow> (Some (Errorf ''ssh-keygen failed: %v: %s'' [e, out]), w2))"
  have "keeps ?R ?gen"
    by (intro ext.keeps_check do_fs_issues keeping issues run_background_issues) (simp_all add: program_def)
  then have guarded: "keeps ?R (\<lambda>w. if (case Stat E' path w of Inl e \<Rightarrow> IsNotExist e | Inr n \<Rightarrow> False) then ?gen w else (None, w))"
    by (rule keeps_if_state) (rule issues)
  show ?thesis unfolding ensureSSHKey_def Let_def
    by (rule ext.keeps_bind [OF guarded]) (intro issues keeping)
qed

lemma harmless_passwordHash: "keeps (extends (harmless E cfg L)) (generateRandomPasswordHash E')"
  unfolding generateRandomPasswordHash_def
  by (intro keeping issues run_background_issues) (simp add: program_def)

lemma harmless_seed_image:
  assumes k: "keeps (extends (harmless E cfg L)) k"
  shows "keeps (extends (harmless E cfg L)) (seed_image E' c (StorageDir (VM cfg)) data k)"
proof -
  let ?R = "extends (harmless E cfg L)"
  have chmod: "keeps ?R (do_op E' (Chmod p m))" for p m by (rule do_op_issues) simp
  have rm: "harmless E cfg L (Fs (Remove (path_Join [StorageDir (VM cfg), ''seed.iso''])))" by (simp add: harmless_def)
  have iso: "keeps ?R (CreateISO E' c (path_Join [StorageDir (VM cfg), ''seed.iso'']) src label)" for src label
    unfolding CreateISO_def by (intro keeping issues rm) (simp add: program_def)
  show ?thesis unfolding seed_image_def Let_def
    by (intro ext.keeps_check do_fs_issues iso ext.keeps_then [OF chmod k]) simp_all
qed

lemma harmless_install_jumpstart: "keeps (extends (harmless E cfg L)) (install_jumpstart E' cfg' L c hasDefault)"
proof -
  let ?R = "extends (harmless E cfg L)"
  have chmod: "keeps ?R (do_op E' (Chmod p m))" for p m by (rule do_op_issues) simp
  have start: "keeps ?R (Start E' L c vm)" for vm by (rule vm_issues) (simp add: removing_def)
  have ssh: "keeps ?R (\<lambda>w. (None, snd (run_proc (WaitForSSH E' c host t) (snd (Start E' L c vm w)))))" for host t vm
    by (rule ext.keeps_then [OF start ext.keeps_last [OF harmless_WaitForSSH]])
  have virt: "keeps ?R (\<lambda>w. check_err (VirtInstall E' ord L c opts (snd (do_op E' (Chmod p m) w))) wrap
      (\<lambda>w. (None, snd (run_proc (WaitForSSH E' c host t) (snd (Start E' L c vm w))))))" for ord opts p m wrap host t vm
    by (rule ext.keeps_then [OF chmod ext.keeps_check [OF harmless_VirtInstall ssh]])
  have disk: "keeps ?R (CreateDisk E' c path gb format)" for path gb format
    unfolding CreateDisk_def by (intro keeping issues) (simp add: program_def)
  show ?thesis unfolding install_jumpstart_def Let_def
    by (intro keeping issues ext.keeps_check disk virt)
qed

lemma harmless_deployJumpstart: "keeps (extends (harmless E cfg L)) (deployJumpstart E' cfg L c)"
proof -
  let ?R = "extends (harmless E cfg L)"
  have create: "keeps ?R (create_jumpstart E' cfg L c)" unfolding create_jumpstart_def
    by (intro keeping issues harmless_ensureSSHKey harmless_passwordHash net_issues harmless_seed_image harmless_install_jumpstart)
      (simp add: removing_def)
  have start: "keeps ?R (Start E' L c vm)" for vm by (rule vm_issues) (simp add: removing_def)
  show ?thesis unfolding deployJumpstart_def Let_def
    by (intro keeping issues ext.keeps_check DomainStates_issues harmless_WaitForSSH start create) simp
qed

text \<open>Without \<open>--cleanup\<close> and \<open>--recreate\<close> the phase leaves everything that exists alone: it stops, destroys or undefines no machine
  and no network, renames no file, and removes no file but the temporary description of a network and an old seed image.\<close>

theorem init_Run_spares:
  assumes "\<not> opt_Cleanup opts" and "\<not> Recreate opts" and "init_Run E cfg L opts c w = (r, w')"
  shows "w_trace w' = w_trace w @ added w w' \<and> list_all (harmless E cfg L) (added w w')"
proof -
  let ?R = "extends (harmless E cfg L)"
  have pre: "keeps ?R (init_preflight E cfg)" unfolding init_preflight_def Let_def
    by (intro keeping issues ext.keeps_check do_fs_issues) simp
  have "keeps ?R (init_Run E cfg L opts c)" 
    unfolding init_Run_def Let_def if_P [OF assms(1)] if_not_P [OF assms(1)] if_not_P [OF assms(2)]
    by (rule pre harmless_setupNetworks harmless_deployJumpstart harmless_deployClientNodes ext.keeps_return keeps_if ext.keeps_check)+
  from keepsD [OF this assms(3)] show ?thesis by (rule extends_added)
qed

end
