(* ===== verification/InitVMsDisks.thy ===== *)
theory InitVMsDisks
  imports InitVMsProps
begin

text \<open>
  The disks of the machines: a machine is installed only on free disks, the options of a disk arrive at \<open>virt-install\<close> as
  they were given, and disks are removed only of machines that libvirt no longer knows.
\<close>

section \<open>The arguments of an installation\<close>

lemma first_comma_None: "first_comma fs = None \<longleftrightarrow> (\<forall>(f, v) \<in> set fs. CHR '','' \<notin> set v)"
  by (induction fs rule: first_comma.induct) auto

lemma disk_commas_None:
  assumes "\<And>fs. set (ord fs) = set fs"
  shows "disk_commas ord i ds = None \<Longrightarrow> d \<in> set ds \<Longrightarrow>
    CHR '','' \<notin> set (disk_Path d) \<and> CHR '','' \<notin> set (Format d) \<and> CHR '','' \<notin> set (Bus d) \<and> CHR '','' \<notin> set (Device d)"
  by (induction ds arbitrary: i) (auto simp: first_comma_None assms split: option.splits)

lemma network_commas_None:
  assumes "\<And>fs. set (ord fs) = set fs"
  shows "network_commas ord i ns = None \<Longrightarrow> n \<in> set ns \<Longrightarrow> CHR '','' \<notin> set (opt_Network n) \<and> CHR '','' \<notin> set (Mac n)"
  by (induction ns arbitrary: i) (auto simp: first_comma_None assms split: option.splits)

lemma itoa_no_comma: "CHR '','' \<notin> set (itoa i)"
proof -
  have "\<not> is_digit (CHR '','')" by (simp add: is_digit_def)
  then show ?thesis using nat_digits_digit by (auto simp: itoa_def)
qed

definition network_parts :: "NetworkOpt \<Rightarrow> string list" where
  "network_parts n = [''network='' @ opt_Network n, ''model=virtio''] @ (if Mac n = [] then [] else [''mac='' @ Mac n])"

lemma network_arg_parts: "network_arg n = Join (network_parts n) '',''"
  by (simp add: network_arg_def network_parts_def Sprintf_def is_letter_def)

lemma VirtInstall_cases:
  assumes "VirtInstall E ord L c opts w = (r, w')"
  shows "r \<noteq> None \<and> w' = w \<or>
    disk_commas ord 1 (Disks opts) = None \<and> network_commas ord 1 (Networks opts) = None \<and>
      w_trace w' = w_trace w @ [Exec (install_argv L opts)]"
  using assms
  by (cases "disk_commas ord 1 (Disks opts)"; cases "network_commas ord 1 (Networks opts)")
    (auto simp: VirtInstall_def run_cmd_def split: option.splits prod.splits)

text \<open>C23. Every command line that \<open>VirtInstall\<close> runs is well formed: the value of each \<open>--disk\<close> and \<open>--network\<close> splits at the
  commas into exactly the options it was built from, so that no path, format or address can smuggle in an option of its
  own.\<close>

theorem VirtInstall_well_formed:
  assumes "\<And>fs. set (ord fs) = set fs" and "VirtInstall E ord L c opts w = (r, w')" and "ev \<in> set (added w w')"
  shows "ev = Exec (install_argv L opts) \<and>
    (\<forall>d \<in> set (Disks opts). Split (Join (disk_parts d) '','') '','' = disk_parts d) \<and>
    (\<forall>n \<in> set (Networks opts). Split (network_arg n) '','' = network_parts n)"
proof (intro conjI ballI)
  have c: "disk_commas ord 1 (Disks opts) = None" "network_commas ord 1 (Networks opts) = None"
    and ev: "ev = Exec (install_argv L opts)"
    using VirtInstall_cases [OF assms(2)] assms(3) by (auto simp: added_def)
  show "ev = Exec (install_argv L opts)" by (rule ev)
  show "Split (Join (disk_parts d) '','') '','' = disk_parts d" if "d \<in> set (Disks opts)" for d
    using disk_commas_None [OF assms(1) c(1) that] itoa_no_comma by (intro Split_Join) (auto simp: disk_parts_def Sprintf_def is_letter_def)
  show "Split (network_arg n) '','' = network_parts n" if "n \<in> set (Networks opts)" for n
    using network_commas_None [OF assms(1) c(2) that] unfolding network_arg_parts
    by (intro Split_Join) (auto simp: network_parts_def)
qed

section \<open>A machine is created only on free disks\<close>

definition vacant :: "('x, 'p, 'z) env_scheme \<Rightarrow> ('x, 'p) world \<Rightarrow> string \<Rightarrow> bool" where
  "vacant E w p \<longleftrightarrow> (\<exists>e. Stat E p w = Inl e \<and> IsNotExist e)"

lemma first_unavailable_None: "first_unavailable E ps w = None \<longleftrightarrow> list_all (vacant E w) ps"
  by (induction ps) (auto simp: ensureDiskPathAvailable_def vacant_def split: sum.splits option.splits)

lemma chmod_all_trace: "w_trace (chmod_all E ps w) = w_trace w @ map (\<lambda>p. Fs (Chmod p 438)) ps"
proof (induction ps arbitrary: w)
  case (Cons p ps)
  have "w_trace (snd (do_op E (Chmod p 438) w)) = w_trace w @ [Fs (Chmod p 438)]"
    by (simp add: do_op_def Let_def split: option.split sum.split prod.split)
  with Cons show ?case by simp
qed simp

definition client_disks :: "NodeDetail \<Rightarrow> string \<Rightarrow> DiskOpt list \<Rightarrow> DiskOpt list" where
  "client_disks node dir extra = plain_disk (path_Join [dir, n_Name node @ ''.qcow2'']) (n_DiskGB node) # extra"

lemma createClientVM_alt:
  "createClientVM E L c node dir nets extra exists w =
     (let ds = client_disks node dir extra in
      if exists then (None, w)
      else case first_unavailable E (map disk_Path ds) w of
        Some e \<Rightarrow> (Some e, w)
      | None \<Rightarrow> check_err (VirtInstall E (i_ord E) L c (client_opts node ds nets) w) (\<lambda>e. e) (\<lambda>w1. (None, chmod_all E (map disk_Path ds) w1)))"
  by (simp only: createClientVM_def Let_def client_disks_def)

text \<open>A client node that exists is left alone; a node with a disk file in its place, or one whose disk cannot be checked, is
  refused without running anything; otherwise \<open>virt-install\<close> is run once with the options of the node, and success means
  that it was run and its disks were made accessible.\<close>

theorem createClientVM_fresh:
  assumes "createClientVM E L c node dir nets extra exists w = (r, w')"
  shows "if exists then r = None \<and> w' = w
    else if \<not> list_all (vacant E w) (map disk_Path (client_disks node dir extra)) then r \<noteq> None \<and> w' = w
    else r = None \<and> w_trace w' = w_trace w @ Exec (install_argv L (client_opts node (client_disks node dir extra) nets))
           # map (\<lambda>d. Fs (Chmod (disk_Path d) 438)) (client_disks node dir extra)
      \<or> r \<noteq> None \<and> (w' = w \<or>
           w_trace w' = w_trace w @ [Exec (install_argv L (client_opts node (client_disks node dir extra) nets))])"
proof -
  let ?ds = "client_disks node dir extra"
  obtain r1 w1 where v: "VirtInstall E (i_ord E) L c (client_opts node ?ds nets) w = (r1, w1)" by fastforce
  show ?thesis
  proof (cases "first_unavailable E (map disk_Path ?ds) w")
    case None
    then have "exists \<and> r = None \<and> w' = w \<or> \<not> exists \<and> r = r1 \<and> w' = (if r1 = None then chmod_all E (map disk_Path ?ds) w1 else w1)"
      using assms v by (cases exists; cases r1) (auto simp: createClientVM_alt Let_def check_err_def)
    then show ?thesis using None VirtInstall_cases [OF v]
      by (cases r1) (auto simp: first_unavailable_None chmod_all_trace comp_def)
  next
    case (Some e)
    then have "\<not> list_all (vacant E w) (map disk_Path ?ds)" by (simp add: first_unavailable_None [symmetric])
    moreover have "exists \<and> r = None \<and> w' = w \<or> \<not> exists \<and> r = Some e \<and> w' = w"
      using assms Some by (cases exists) (simp_all add: createClientVM_alt Let_def)
    ultimately show ?thesis by auto
  qed
qed

section \<open>Removing disks\<close>

text \<open>What \<open>destroyVM\<close> may remove for a machine: its two disks, and the seed image with the jumpstart.\<close>

definition machine_files :: "Config \<Rightarrow> string \<Rightarrow> string set" where
  "machine_files cfg name = set (vm_disks cfg name) \<union>
     (if name = n_Name (Jumpstart (Nodes cfg)) then {path_Join [StorageDir (VM cfg), ''seed.iso'']} else {})"

definition removal :: "string set \<Rightarrow> event \<Rightarrow> bool" where
  "removal ps ev \<longleftrightarrow> (\<exists>p \<in> ps. ev = Fs (Remove p))"

fun on_file :: "event \<Rightarrow> bool" where
  "on_file (Fs op) = True"
| "on_file _ = False"

lemma on_file_vm [simp]: "\<not> on_file (vm_cmd L v vm)" "\<not> on_file (list_all_cmd L)"
  by (simp_all add: vm_cmd_def list_all_cmd_def)

lemma added_trans:
  assumes "extends P u v" and "extends Q v w"
  shows "added u w = added u v @ added v w"
  using assms by (auto simp: extends_def added_def)

lemma added_none: "extends (\<lambda>e. \<not> on_file e) u v \<Longrightarrow> Fs op \<notin> set (added u v)"
  by (auto simp: extends_iff list_all_iff)

lemma extends_any: "extends P u v \<Longrightarrow> extends (\<lambda>_. True) u v"
  by (erule extends_weaken) simp

lemma remove_files_removal: "set ps \<subseteq> ps' \<Longrightarrow> keeps (extends (removal ps')) (remove_files E ps)"
proof (induction ps)
  case Nil
  then show ?case by (simp add: keeps_def ext.refl)
next
  case (Cons p ps)
  have rm: "keeps (extends (removal ps')) (do_op E (Remove p))" by (rule do_op_issues) (use Cons.prems in \<open>auto simp: removal_def\<close>)
  have eq: "remove_files E (p # ps) = (\<lambda>w. case do_op E (Remove p) w of (r, w1) \<Rightarrow> (case r of
      None \<Rightarrow> remove_files E ps w1
    | Some e \<Rightarrow> if IsNotExist e then remove_files E ps w1 else (Some (Errorf ''remove disk %s: %w'' [p, perr_msg e]), w1)))"
    by (simp add: fun_eq_iff split: prod.split option.split)
  show ?case unfolding eq using Cons by (intro keeping issues rm) auto
qed

text \<open>The machine is stopped and undefined first, and only then its files are removed.\<close>

lemma destroyVM_order:
  assumes "destroyVM E cfg L c name state w = (r, w')"
  shows "\<exists>w1. extends (removal (machine_files cfg name)) w1 w' \<and>
    (state = None \<and> w1 = w \<or>
     (\<exists>w0 u. extends (\<lambda>e. e = vm_cmd L ''destroy'' name) w w0 \<and> Undefine E L c name w0 = (u, w1) \<and> (u \<noteq> None \<longrightarrow> w1 = w')) \<or>
     extends (\<lambda>e. e = vm_cmd L ''destroy'' name) w w1 \<and> w1 = w')"
proof -
  let ?rm = "\<lambda>w1. check_err (remove_files E (vm_disks cfg name) w1) (\<lambda>e. e) (\<lambda>w2.
     if name \<noteq> n_Name (Jumpstart (Nodes cfg)) then (None, w2)
     else case do_op E (Remove (path_Join [StorageDir (VM cfg), ''seed.iso''])) w2 of
       (None, w3) \<Rightarrow> (None, w3)
     | (Some e, w3) \<Rightarrow> if IsNotExist e then (None, w3) else (Some (Errorf ''remove seed ISO: %w'' [perr_msg e]), w3))"
  let ?R = "extends (removal (machine_files cfg name))"
  have seed: "name = n_Name (Jumpstart (Nodes cfg)) \<Longrightarrow> keeps ?R (do_op E (Remove (path_Join [StorageDir (VM cfg), ''seed.iso''])))"
    by (rule do_op_issues) (auto simp: removal_def machine_files_def)
  have rm: "keeps ?R ?rm"
  proof (cases "name = n_Name (Jumpstart (Nodes cfg))")
    case True
    then show ?thesis by (auto intro!: ext.keeps_check keeping issues seed remove_files_removal simp: machine_files_def removal_def)
  next
    case False
    then show ?thesis by (auto intro!: ext.keeps_check issues remove_files_removal simp: machine_files_def)
  qed
  show ?thesis
  proof (cases state)
    case None
    with assms have "?rm w = (r, w')" by (simp add: destroyVM_def check_err_def)
    with None keepsD [OF rm] show ?thesis by blast
  next
    case (Some st)
    obtain d w0 where d: "(if \<not> is_off state then Destroy E L c name w else (None, w)) = (d, w0)" by fastforce
    have w0: "extends (\<lambda>e. e = vm_cmd L ''destroy'' name) w w0"
    proof (cases "is_off state")
      case False
      with d have "Destroy E L c name w = (d, w0)" by simp
      from keepsD [OF vm_issues(4) [where P = "\<lambda>e. e = vm_cmd L ''destroy'' name", OF HOL.refl] this] show ?thesis .
    qed (use d ext.refl in simp)
    obtain u w1 where u: "Undefine E L c name w0 = (u, w1)" by fastforce
    from assms d u Some have "d \<noteq> None \<and> w' = w0 \<or> d = None \<and> u \<noteq> None \<and> w' = w1 \<or> d = None \<and> u = None \<and> ?rm w1 = (r, w')"
      by (cases d; cases u) (simp_all add: destroyVM_def check_err_def)
    then show ?thesis using w0 u keepsD [OF rm] ext.refl by blast
  qed
qed

text \<open>One machine of a clean-up, between \<open>u\<close> and \<open>v\<close>, in which the operation \<open>op\<close> on a file was issued.\<close>

definition purged :: "('x, 'p, 'z) env_scheme \<Rightarrow> Config \<Rightarrow> Client \<Rightarrow> ctx \<Rightarrow> string option \<Rightarrow> string \<Rightarrow> fsop
    \<Rightarrow> ('x, 'p) world \<Rightarrow> ('x, 'p) world \<Rightarrow> bool" where
  "purged E cfg L c state name op u v \<longleftrightarrow>
     (\<exists>p \<in> machine_files cfg name. op = Remove p) \<and>
     (state = None \<or>
      (\<exists>u1 u2. extends (\<lambda>e. e = vm_cmd L ''destroy'' name) u u1 \<and> Undefine E L c name u1 = (None, u2) \<and>
         extends (removal (machine_files cfg name)) u2 v))"

lemma destroyVM_purged:
  assumes "destroyVM E cfg L c name state w = (r, w')"
  shows "extends (\<lambda>_. True) w w' \<and> (Fs op \<in> set (added w w') \<longrightarrow> purged E cfg L c state name op w w')"
proof -
  let ?d = "\<lambda>e. e = vm_cmd L ''destroy'' name" and ?rm = "removal (machine_files cfg name)"
  obtain w1 where rm: "extends ?rm w1 w'" and pre: "state = None \<and> w1 = w \<or>
     (\<exists>w0 u. extends ?d w w0 \<and> Undefine E L c name w0 = (u, w1) \<and> (u \<noteq> None \<longrightarrow> w1 = w')) \<or> extends ?d w w1 \<and> w1 = w'"
    using destroyVM_order [OF assms] by blast
  have und: "extends (\<lambda>e. \<not> on_file e) w0 w1" if "Undefine E L c name w0 = (u, w1)" for w0 u
    using keepsD [OF vm_issues(5) [of "\<lambda>e. \<not> on_file e"] that] by simp
  have des: "extends ?d w v \<Longrightarrow> extends (\<lambda>e. \<not> on_file e) w v" for v by (erule extends_weaken) simp
  have before: "extends (\<lambda>e. \<not> on_file e) w w1"
    using pre
  proof (elim disjE exE conjE)
    fix w0 u assume "extends ?d w w0" and "Undefine E L c name w0 = (u, w1)"
    then show ?thesis using ext.trans [OF des und] by blast
  qed (simp_all add: ext.refl des)
  have split: "added w w' = added w w1 @ added w1 w'" by (rule added_trans [OF before rm])
  have "extends (\<lambda>_. True) w w'" using extends_any [OF before] extends_any [OF rm] ext.trans by blast
  moreover have "purged E cfg L c state name op w w'" if "Fs op \<in> set (added w w')"
  proof -
    have op: "Fs op \<in> set (added w1 w')" using that split added_none [OF before] by auto
    then have "?rm (Fs op)" using rm by (auto simp: extends_iff list_all_iff)
    moreover have "w1 \<noteq> w'" using op by (auto simp: added_def)
    ultimately show ?thesis using pre rm by (auto simp: purged_def removal_def)
  qed
  ultimately show ?thesis by blast
qed

lemma destroy_nodes_purged:
  "destroy_nodes E cfg L c states ns w = (errs, w') \<Longrightarrow> extends (\<lambda>_. True) w w' \<and>
    (Fs op \<in> set (added w w') \<longrightarrow> (\<exists>n \<in> set ns. \<exists>u v. extends (\<lambda>_. True) w u \<and> extends (\<lambda>_. True) v w' \<and>
       purged E cfg L c (states (Name n)) (Name n) op u v))"
proof (induction ns arbitrary: w errs)
  case Nil
  then show ?case by (simp add: ext.refl added_def)
next
  case (Cons n ns)
  show ?case
  proof (cases "Name n = []")
    case True
    with Cons show ?thesis by fastforce
  next
    case False
    obtain r w1 where d: "destroyVM E cfg L c (Name n) (states (Name n)) w = (r, w1)" by fastforce
    obtain errs1 where rest: "destroy_nodes E cfg L c states ns w1 = (errs1, w')"
      using Cons.prems False d by (cases r) (auto simp: apfst_def map_prod_def split: prod.splits)
    note IH = Cons.IH [OF rest] and D = destroyVM_purged [OF d, of op]
    have ex: "extends (\<lambda>_. True) w w1" "extends (\<lambda>_. True) w1 w'" using D IH by blast+
    have "added w w' = added w w1 @ added w1 w'" by (rule added_trans [OF ex])
    then have "Fs op \<in> set (added w w1) \<or> Fs op \<in> set (added w1 w')" if "Fs op \<in> set (added w w')" using that by simp
    then show ?thesis using D IH ex ext.trans [OF ex] ext.trans [OF ex(1)] ext.refl [of "\<lambda>_. True" w] by fastforce
  qed
qed

lemma destroy_nets_files: "keeps (extends (\<lambda>e. \<not> on_file e)) (destroy_nets E L c nets)"
proof (induction nets)
  case Nil
  then show ?case by (simp add: keeps_def ext.refl)
next
  case (Cons net nets)
  let ?R = "extends (\<lambda>e. \<not> on_file e)"
  have eq: "destroy_nets E L c (net # nets) = (\<lambda>w. case NetExistsChecked E L c net w of (r, w1) \<Rightarrow> (case r of
      Inl e \<Rightarrow> (case destroy_nets E L c nets w1 of (errs, w2) \<Rightarrow> (Errorf ''check network %s: %w'' [net, e] # errs, w2))
    | Inr exists \<Rightarrow> if \<not> exists then destroy_nets E L c nets w1
        else (case NetUndefine E L c net (snd (NetDestroy E L c net w1)) of (u, w2) \<Rightarrow> (case u of
            None \<Rightarrow> destroy_nets E L c nets w2
          | Some e \<Rightarrow> (case destroy_nets E L c nets w2 of (errs, w3) \<Rightarrow> (Errorf ''undefine network %s: %w'' [net, e] # errs, w3))))))"
    by (simp add: fun_eq_iff apfst_def map_prod_def split: prod.split option.split sum.split)
  have stop: "keeps ?R (NetDestroy E L c net)" "keeps ?R (NetUndefine E L c net)" by (rule net_issues; simp)+
  have "keeps ?R (\<lambda>w. NetUndefine E L c net (snd (NetDestroy E L c net w)))" by (rule ext.keeps_then [OF stop])
  then show ?case unfolding eq by (intro keeping issues net_issues Cons.IH) simp_all
qed

text \<open>C22. A clean-up touches only the files of configured machines, and of a machine that libvirt knows only after it has undefined
  that machine successfully. A snapshot that cannot be taken is no evidence that machines are absent: then no file is
  touched at all.\<close>

theorem cleanup_spares_disks:
  assumes "cleanupWithOptions E cfg L c opts w = (r, w')" and "Fs op \<in> set (added w w')"
  shows "\<exists>states w0. DomainStates E L c w = (Inr states, w0) \<and>
    (\<exists>n \<in> set (AllNodes cfg). \<exists>u v. extends (\<lambda>_. True) w0 u \<and> extends (\<lambda>_. True) v w' \<and>
       purged E cfg L c (states (Name n)) (Name n) op u v)"
proof -
  let ?quiet = "extends (\<lambda>e. \<not> on_file e)"
  obtain d w0 where d: "DomainStates E L c w = (d, w0)" by fastforce
  have w0: "?quiet w w0" using keepsD [OF DomainStates_issues d] by simp
  let ?vms = "if NetworksOnly opts then ([], w)
     else case DomainStates E L c w of
       (Inl e, w1) \<Rightarrow> ([Errorf ''list domains: %w'' [e]], w1)
     | (Inr states, w1) \<Rightarrow> destroy_nodes E cfg L c states (AllNodes cfg) w1"
  obtain errs w2 where vms: "?vms = (errs, w2)" by fastforce
  obtain errs2 w3 where nets: "(if VMsOnly opts then ([], w2) else destroy_nets E L c [''internal'', ''main''] w2) = (errs2, w3)"
    by fastforce
  have "w' = w \<or> w' = w3" using assms(1) vms nets by (auto simp: cleanupWithOptions_def split: if_splits)
  then have w3: "w' = w3" using assms(2) by (auto simp: added_def)
  have late: "?quiet w2 w'"
  proof (cases "VMsOnly opts")
    case False
    with nets have "destroy_nets E L c [''internal'', ''main''] w2 = (errs2, w3)" by simp
    from keepsD [OF destroy_nets_files this] w3 show ?thesis by simp
  qed (use nets w3 ext.refl in simp)
  show ?thesis
  proof (cases "NetworksOnly opts \<or> (\<exists>e. d = Inl e)")
    case True
    then have "?quiet w w2" using vms d w0 ext.refl by (auto split: if_splits)
    then have "?quiet w w'" using late ext.trans by blast
    then show ?thesis using assms(2) added_none by blast
  next
    case False
    then obtain states where states: "d = Inr states" by (cases d) auto
    with False vms d have n: "destroy_nodes E cfg L c states (AllNodes cfg) w0 = (errs, w2)" by simp
    from destroy_nodes_purged [OF n] have w2: "extends (\<lambda>_. True) w0 w2" by blast
    have "added w w' = added w w0 @ added w0 w2 @ added w2 w'"
      using added_trans [OF w0 ext.trans [OF w2 extends_any [OF late]]] added_trans [OF w2 late] by simp
    then have "Fs op \<in> set (added w0 w2)" using assms(2) added_none [OF w0] added_none [OF late] by auto
    with destroy_nodes_purged [OF n] obtain m u v where "m \<in> set (AllNodes cfg)" "extends (\<lambda>_. True) w0 u" "extends (\<lambda>_. True) v w2"
      "purged E cfg L c (states (Name m)) (Name m) op u v" by blast
    then show ?thesis using d states ext.trans [OF _ extends_any [OF late]] by blast
  qed
qed

end
