(* ===== verification/VMOpsLab.thy ===== *)
theory VMOpsLab
  imports VMOpsProps ConfigSample
begin

text \<open>
  A host with one machine, the router, whose state \<open>virsh\<close> reports and changes, and the properties of the operations on machines applied to it.
\<close>

definition shop_list :: "string \<Rightarrow> string" where
  "shop_list state = ''Id Name State'' @ [nl] @ ''---'' @ [nl] @ ''1 router '' @ state @ [nl]"

definition shop_exec :: "string list \<Rightarrow> (string, unit) world \<Rightarrow> (string \<times> goerr option) \<times> nat \<times> fs \<times> string" where
  "shop_exec argv w =
     (if argv ! 3 = ''list'' then ((shop_list (w_ext w), None), 1, w_fs w, w_ext w)
      else if argv ! 3 = ''shutdown'' then (([], None), 1, w_fs w, ''shut off'')
      else if argv ! 3 = ''start'' then (([], None), 1, w_fs w, ''running'')
      else if argv ! 3 = ''destroy'' then ((''error: domain is not running'', Some ''exit status 1''), 1, w_fs w, w_ext w)
      else (([], None), 1, w_fs w, w_ext w))"

definition shop :: "(string, unit) env" where
  "shop = \<lparr>e_exec = shop_exec, e_lookpath = \<lambda>p w. True, e_getenv = \<lambda>v. [],
     e_fault = \<lambda>op w. None, e_rfault = \<lambda>p w. None, e_late = \<lambda>w. 0, e_tie = \<lambda>w. True, e_rand = \<lambda>w. 0\<rparr>"

definition shop_world :: "string \<Rightarrow> (string, unit) world" where
  "shop_world state = \<lparr>w_fs = Map.empty, w_clock = 0, w_cancel = None, w_trace = [], w_ext = state, w_heap = ()\<rparr>"

definition shop_virsh :: Client where
  "shop_virsh = \<lparr>URI = ''qemu:///system'', UseSudo = False\<rparr>"

lemma shop_parse:
  "parse_domains (shop_list ''running'') = [\<lparr>dom_Name = ''router'', dom_State = ''running''\<rparr>]"
  "parse_domains (shop_list ''shut off'') = [\<lparr>dom_Name = ''router'', dom_State = ''shut off''\<rparr>]"
  by code_simp+

definition shop_after :: "string \<Rightarrow> (string, unit) world" where
  "shop_after state = (shop_world state)\<lparr>w_trace := [list_all_cmd shop_virsh], w_clock := 1\<rparr>"

lemma shop_states:
  "s \<in> {''running'', ''shut off''} \<Longrightarrow>
    DomainStates shop shop_virsh None (shop_world s) = (Inr [''router'' \<mapsto> s], shop_after s)"
proof -
  assume s: "s \<in> {''running'', ''shut off''}"
  then have p: "parse_domains (shop_list s) = [\<lparr>dom_Name = ''router'', dom_State = s\<rparr>]" using shop_parse by auto
  have t: "TrimSpace ''router'' = ''router''" "TrimSpace s = s" using s by (auto simp: TrimSpace_def is_space_def)
  have "virsh_argv shop_virsh [''list'', ''--all''] ! 3 = ''list''" by (simp add: virsh_argv_def shop_virsh_def)
  then show ?thesis using p t
    by (simp add: DomainStates_def ListAll_def virsh_def run_cmd_def ctx_err_def done_at_def shop_def shop_exec_def
        shop_world_def shop_after_def list_all_cmd_def states_of_def emit_def)
qed

lemma shop_router: "n_Name (Router (Nodes sample_config)) = ''router''"
  by (simp add: sample_defs)

lemma shop_start: "to_start [''router'' \<mapsto> ''shut off''] (start_order sample_config) = [''router'']"
  by code_simp

theorem StartAllVMs_order_witness:
  "\<exists>k \<le> 1. w_trace (snd (StartAllVMs shop sample_config shop_virsh None 5 (shop_world ''shut off''))) =
    list_all_cmd shop_virsh # map (vm_cmd shop_virsh ''start'') (take k [''router''])"
  using StartAllVMs_order [OF surjective_pairing shop_states [of "''shut off''"], where cfg = sample_config and stagger = 5]
  unfolding shop_start by (auto simp: shop_after_def)

definition no_force :: StopOptions where
  "no_force = \<lparr>Force = False, StopTimeout = 0\<rparr>"

theorem StopAllVMs_graceful_witness:
  "extends (\<lambda>e. \<forall>vm. e \<noteq> vm_cmd shop_virsh ''destroy'' vm) (shop_world ''running'')
     (snd (StopAllVMs shop sample_config shop_virsh None no_force (shop_world ''running'')))"
  using StopAllVMs_graceful [OF surjective_pairing shop_states [of "''running''"], where cfg = sample_config and opts = no_force]
  by (simp add: no_force_def)

theorem StopAllVMs_ends_witness:
  "list_count shop_virsh (snd (StopAllVMs shop sample_config shop_virsh None no_force (shop_world ''running''))) \<le> 31"
  using StopAllVMs_ends [OF surjective_pairing, where E = shop and cfg = sample_config and L = shop_virsh and c = None
      and opts = no_force and w = "shop_world ''running''"]
  by (simp add: list_count_def shop_world_def no_force_def stop_timeout_def Second_def)

theorem ShrinkVMRAM_all_or_none_witness:
  "fst (ShrinkVMRAM shop (\<lambda>xs. xs) sample_config shop_virsh None (shop_world ''running'')) \<noteq> None \<and>
   snd (ShrinkVMRAM shop (\<lambda>xs. xs) sample_config shop_virsh None (shop_world ''running'')) = shop_after ''running''"
proof -
  have "(''router'', n_RAMFinalMB (Router (Nodes sample_config))) \<in> set (ram_assignments sample_config)"
    using shop_router by (simp add: ram_assignments_def Let_def)
  then have "''router'' \<in> fst ` set (ram_assignments sample_config)" by (rule image_eqI [rotated]) simp
  then have run: "\<exists>vm \<in> fst ` set (ram_assignments sample_config). vm \<noteq> [] \<and> [''router'' \<mapsto> ''running''] vm = Some ''running''"
    by (intro bexI [of _ "''router''"]) simp_all
  have "DomainStates shop shop_virsh None (shop_world ''running'') = (Inr [''router'' \<mapsto> ''running''], shop_after ''running'')"
    by (rule shop_states) simp
  from ShrinkVMRAM_all_or_none [OF surjective_pairing this, where cfg = sample_config and ord = "\<lambda>xs. xs", unfolded if_P [OF run]]
  show ?thesis by simp
qed

lemma shop_destroy: "fst (Destroy shop shop_virsh None vm v) \<noteq> None"
proof -
  have "virsh_argv shop_virsh [''destroy'', vm] ! 3 = ''destroy''" by (simp add: virsh_argv_def shop_virsh_def)
  then show ?thesis
    by (simp add: Destroy_def virsh_do_def virsh_def run_cmd_def shop_def shop_exec_def split: option.split)
qed

lemma shop_failed: "\<exists>n \<in> set (AllNodes sample_config). failed_node sample_config [''router'' \<mapsto> ''shut off''] n"
  by (simp add: sample_nodes_all failed_node_def is_off_def) (simp add: sample_defs)

theorem RecreateFailedVMs_stuck_witness:
  "extends (\<lambda>e. \<exists>vm. e = vm_cmd shop_virsh ''destroy'' vm) (shop_after ''shut off'')
     (snd (RecreateFailedVMs shop sample_config shop_virsh None (shop_world ''shut off''))) \<and>
   fst (RecreateFailedVMs shop sample_config shop_virsh None (shop_world ''shut off'')) \<noteq> None"
proof -
  have "DomainStates shop shop_virsh None (shop_world ''shut off'') = (Inr [''router'' \<mapsto> ''shut off''], shop_after ''shut off'')"
    by (rule shop_states) simp
  from RecreateFailedVMs_stuck [OF shop_destroy this, of sample_config] shop_failed show ?thesis by blast
qed

end
