(* ===== verification/InitVMsLab.thy ===== *)
theory InitVMsLab
  imports InitVMsDisks VMOpsLab SshLab
begin

text \<open>
  A concrete environment for the phase that creates the machines, and its properties applied to it.
\<close>

definition plant :: "(string \<Rightarrow> string option) init_env" where
  "plant = ssh_env.extend lab \<lparr>i_template = \<lambda>p. Inr ''<network/>'', i_parse = \<lambda>t. None, i_render = \<lambda>t d. Inr (Hostname d),
     i_glob = \<lambda>p w. [], i_ord = \<lambda>fs. fs, i_root = True\<rparr>"

definition plant_opts :: InitOptions where
  "plant_opts = \<lparr>JumpstartOnly = False, NodesOnly = True, opt_Cleanup = False, Recreate = False\<rparr>"

theorem init_Run_spares_witness:
  "list_all (harmless plant sample_config shop_virsh)
     (added (lab_world ''deploy'') (snd (init_Run plant sample_config shop_virsh plant_opts None (lab_world ''deploy''))))"
  using init_Run_spares [OF _ _ surjective_pairing, where opts = plant_opts and E = plant and cfg = sample_config
      and L = shop_virsh and c = None and w = "lab_world ''deploy''"]
  by (simp add: plant_opts_def)

definition plant_disk :: DiskOpt where
  "plant_disk = \<lparr>disk_Path = ''/vm/a.qcow2'', SizeGB = 20, Format = [], Bus = [], Device = []\<rparr>"

definition plant_install :: VirtInstallOpts where
  "plant_install = \<lparr>vi_Name = ''a'', RAM = 1024, vi_VCPUs = 1, Disks = [plant_disk], Networks = [net_opt ''main'' ''52:54:00:00:00:01''],
     PXE = True, BootOrder = [], OSVariant = ''ubuntu24.04'', ExtraArgs = [], Location = [], Wait = 0, NoAutoConsole = True,
     NoReboot = False, GraphicsNone = False\<rparr>"

lemma plant_installs:
  "added (shop_world s) (snd (VirtInstall shop (\<lambda>fs. fs) shop_virsh None plant_install (shop_world s))) =
     [Exec (install_argv shop_virsh plant_install)]"
proof -
  have "disk_commas (\<lambda>fs. fs) 1 (Disks plant_install) = None" "network_commas (\<lambda>fs. fs) 1 (Networks plant_install) = None"
    by code_simp+
  then show ?thesis
    by (simp add: VirtInstall_def added_def run_cmd_def ctx_err_def done_at_def shop_world_def split: prod.split option.split)
qed

theorem VirtInstall_well_formed_witness:
  "Split (Join (disk_parts plant_disk) '','') '','' = [''path=/vm/a.qcow2'', ''size=20'', ''format=qcow2'', ''bus=virtio'']"
proof -
  have "disk_parts plant_disk = [''path=/vm/a.qcow2'', ''size=20'', ''format=qcow2'', ''bus=virtio'']" by code_simp
  moreover have "plant_disk \<in> set (Disks plant_install)" by (simp add: plant_install_def)
  ultimately show ?thesis
    using VirtInstall_well_formed [where ord = "\<lambda>fs. fs" and E = shop and L = shop_virsh and c = None and opts = plant_install
        and w = "shop_world []", OF _ surjective_pairing, unfolded plant_installs]
    by (metis list.set_intros(1))
qed

definition plant_run :: "goerr option \<times> (string \<Rightarrow> string option) sworld" where
  "plant_run = createClientVM plant shop_virsh None (Router (Nodes sample_config)) ''/vm'' [] [] False (lab_world ''deploy'')"

lemma plant_vacant:
  "list_all (vacant plant (lab_world ''deploy'')) (map disk_Path (client_disks (Router (Nodes sample_config)) ''/vm'' []))"
proof -
  have "map disk_Path (client_disks (Router (Nodes sample_config)) ''/vm'' []) = [''/vm/router.qcow2'']" by code_simp
  moreover have "Stat plant ''/vm/router.qcow2'' (lab_world ''deploy'') = Inl (PathError ''stat /vm/router.qcow2'' ENOENT)" by code_simp
  ultimately show ?thesis by (simp add: vacant_def IsNotExist_def)
qed

theorem createClientVM_fresh_witness:
  "w_trace (snd plant_run) =
     [Exec (install_argv shop_virsh (client_opts (Router (Nodes sample_config)) (client_disks (Router (Nodes sample_config)) ''/vm'' []) [])),
      Fs (Chmod ''/vm/router.qcow2'' 438)]"
proof -
  have "map (\<lambda>d. Fs (Chmod (disk_Path d) 438)) (client_disks (Router (Nodes sample_config)) ''/vm'' []) = [Fs (Chmod ''/vm/router.qcow2'' 438)]"
    by code_simp
  moreover have "fst plant_run = None" by code_simp
  moreover have "w_trace (lab_world ''deploy'') = []" by (simp add: lab_world_def)
  ultimately show ?thesis
    using createClientVM_fresh [OF surjective_pairing, where E = plant and L = shop_virsh and c = None and exists = False
        and node = "Router (Nodes sample_config)" and dir = "''/vm''" and nets = "[]" and extra = "[]" and w = "lab_world ''deploy''"]
    by (simp add: plant_vacant plant_run_def)
qed

definition wiped :: "goerr option \<times> (string, unit) world" where
  "wiped = cleanupWithOptions shop sample_config shop_virsh None \<lparr>VMsOnly = True, NetworksOnly = False\<rparr> (shop_world ''shut off'')"

theorem cleanup_spares_disks_witness:
  "\<exists>states w0. DomainStates shop shop_virsh None (shop_world ''shut off'') = (Inr states, w0) \<and>
    (\<exists>n \<in> set (AllNodes sample_config). \<exists>u v. extends (\<lambda>_. True) w0 u \<and> extends (\<lambda>_. True) v (snd wiped) \<and>
       purged shop sample_config shop_virsh None (states (Name n)) (Name n) (Remove ''/vm/router.qcow2'') u v)"
proof -
  have "Fs (Remove ''/vm/router.qcow2'') \<in> set (added (shop_world ''shut off'') (snd wiped))"
    by code_simp
  from cleanup_spares_disks [OF surjective_pairing this [unfolded wiped_def]] show ?thesis unfolding wiped_def .
qed

end
