(* ===== verification/Failover.thy ===== *)
theory Failover
  imports VMOps
begin

text \<open>
  \<open>internal/utils/failover.go\<close>: the failover tests shut a machine down, watch the cluster recover, and start it again.
  The HTTP client and the parsing of its URLs are parameters; an answer is the status code. A scenario reports its
  outcome only as a line of log, the event \<open>Log\<close>; other log lines are left out.
\<close>

record FailoverOpts =
  SkipRestore :: bool

record 'x cluster_env = "'x ssh_env" +
  h_url_ok :: "string \<Rightarrow> bool"
  h_get :: "string \<Rightarrow> string \<Rightarrow> 'x sworld \<Rightarrow> (goerr + int) \<times> nat \<times> 'x"

section \<open>Polling\<close>

definition sleepCtx :: "('x, 'p, 'z) env_scheme \<Rightarrow> ctx \<Rightarrow> int \<Rightarrow> ('x, 'p) world \<Rightarrow> bool \<times> ('x, 'p) world" where
  "sleepCtx = wait"

text \<open>
  \<open>waitFor\<close>. Every round that goes on has slept for the interval, so after \<open>wait_rounds\<close> of them the deadline has passed; the
  bound is never reached (\<open>wait_for_enough\<close> in \<open>FailoverProps\<close>).
\<close>

type_synonym ('x, 'p) probe = "('x, 'p) world \<Rightarrow> bool \<times> ('x, 'p) world"

fun wait_for :: "nat \<Rightarrow> ('x, 'p, 'z) env_scheme \<Rightarrow> ctx \<Rightarrow> int \<Rightarrow> int \<Rightarrow> ('x, 'p) probe \<Rightarrow> ('x, 'p) probe" where
  "wait_for 0 E c deadline interval fn w = (False, w)"
| "wait_for (Suc n) E c deadline interval fn w = (case fn w of
      (True, w1) \<Rightarrow> (True, w1)
    | (False, w1) \<Rightarrow>
        if w_clock w1 > deadline then (False, w1)
        else (case sleepCtx E c interval w1 of
            (False, w2) \<Rightarrow> (False, w2)
          | (True, w2) \<Rightarrow> wait_for n E c deadline interval fn w2))"

definition wait_rounds :: "int \<Rightarrow> int \<Rightarrow> nat" where
  "wait_rounds timeout interval = nat (timeout div interval) + 2"

definition waitFor :: "('x, 'p, 'z) env_scheme \<Rightarrow> ctx \<Rightarrow> int \<Rightarrow> int \<Rightarrow> ('x, 'p) probe \<Rightarrow> ('x, 'p) probe" where
  "waitFor E c timeout interval fn w = wait_for (wait_rounds timeout interval) E c (w_clock w + timeout) interval fn w"

definition ssh_probe :: "('x, 'z) ssh_env_scheme \<Rightarrow> ctx \<Rightarrow> string \<Rightarrow> string \<Rightarrow> (run_out \<Rightarrow> bool) \<Rightarrow> ('x, Pool) probe" where
  "ssh_probe E c host cmd ok w = (case run_proc (RunCommand E c host cmd) w of (r, w') \<Rightarrow> (ok r, w'))"

definition waitForSSH :: "('x, 'z) ssh_env_scheme \<Rightarrow> ctx \<Rightarrow> string \<Rightarrow> int \<Rightarrow> ('x, Pool) probe" where
  "waitForSSH E c host timeout =
     waitFor E c timeout (5 * Second) (ssh_probe E c host ''true'' (\<lambda>r. ro_err r = None \<and> ro_code r = 0))"

section \<open>Reachability of the load balancer\<close>

text \<open>A request whose context is done is not sent.\<close>

definition http_Do :: "('x, 'z) cluster_env_scheme \<Rightarrow> ctx \<Rightarrow> string \<Rightarrow> string \<Rightarrow> 'x sworld \<Rightarrow> (goerr + int) \<times> 'x sworld" where
  "http_Do E c url vhost w = (case ctx_err c w of
      Some e \<Rightarrow> (Inl e, w)
    | None \<Rightarrow> (case h_get E url vhost w of (r, d, x) \<Rightarrow> (r, (elapse d w)\<lparr>w_ext := x\<rparr>)))"

definition status_ok :: "int \<Rightarrow> bool" where
  "status_ok s \<longleftrightarrow> s = 200 \<or> s = 301 \<or> s = 302"

text \<open>An answer over HTTPS decides; HTTP is tried only when there is none.\<close>

definition checkLBReachability :: "('x, 'z) cluster_env_scheme \<Rightarrow> ctx \<Rightarrow> string \<Rightarrow> string \<Rightarrow> ('x, Pool) probe" where
  "checkLBReachability E c lbIP vhost w =
     (let https = Sprintf ''https://%s'' [lbIP]; http = Sprintf ''http://%s'' [lbIP];
          plain = (\<lambda>w. if h_url_ok E http
            then (case http_Do E c http vhost w of (Inr s, w') \<Rightarrow> (status_ok s, w') | (Inl e, w') \<Rightarrow> (False, w'))
            else (False, w))
      in if h_url_ok E https
         then (case http_Do E c https vhost w of (Inr s, w') \<Rightarrow> (status_ok s, w') | (Inl e, w') \<Rightarrow> plain w')
         else plain w)"

section \<open>Shutting a machine down\<close>

lemma DomainState_later [keeping]: "keeps later (DomainState E L c vm)"
  unfolding DomainState_def virsh_def by (intro keeping elapses)

text \<open>The loop ends: a round that goes on has slept two seconds.\<close>

lemma await_step:
  assumes "DomainState E L c name w = (r, w1)" and "sleepCtx E c (2 * Second) w1 = (True, w2)"
  shows "w_clock w \<le> w_clock w1 \<and> w_clock w < w_clock w2"
  using keepsD [OF DomainState_later assms(1)] wait_clock(2) [OF assms(2) [unfolded sleepCtx_def]] by (simp add: later_def Second_def)

function await_off :: "('x, 'p, 'z) env_scheme \<Rightarrow> Client \<Rightarrow> ctx \<Rightarrow> string \<Rightarrow> int \<Rightarrow> ('x, 'p) world \<Rightarrow> goerr option \<times> ('x, 'p) world" where
  "await_off E L c name deadline w = (case DomainState E L c name w of
      (Inl e, w1) \<Rightarrow> (Some (Errorf ''query state of %s after shutdown: %w'' [name, e]), w1)
    | (Inr state, w1) \<Rightarrow>
        if state = ''shut off'' then (None, w1)
        else if w_clock w1 > deadline
        then (Some (Errorf ''%s is still %s after 30s (test aborted so it cannot be reported as PASS)'' [name, state]), w1)
        else (case sleepCtx E c (2 * Second) w1 of
            (False, w2) \<Rightarrow> (Some (Errorf ''context cancelled waiting for %s to shut off'' [name]), w2)
          | (True, w2) \<Rightarrow> await_off E L c name deadline w2))"
  by pat_completeness auto
termination
  by (relation "measure (\<lambda>(E, L, c, name, deadline, w). nat (deadline + 1 - w_clock w))")
    (auto dest!: await_step [OF sym sym] await_step)

declare await_off.simps [simp del]

definition shutdownForTest :: "('x, 'p, 'z) env_scheme \<Rightarrow> Client \<Rightarrow> ctx \<Rightarrow> string \<Rightarrow> ('x, 'p) world \<Rightarrow> goerr option \<times> ('x, 'p) world" where
  "shutdownForTest E L c name w = (case Shutdown E L c name w of
      (Some e, w1) \<Rightarrow> (Some (Errorf ''shutdown %s: %w'' [name, e]), w1)
    | (None, w1) \<Rightarrow> await_off E L c name (w_clock w1 + 30 * Second) w1)"

section \<open>Reports\<close>

text \<open>\<open>%-ns\<close> pads with spaces on the right. \<open>Duration.Round\<close> rounds halfway values away from zero.\<close>

definition pad_right :: "nat \<Rightarrow> string \<Rightarrow> string" where
  "pad_right n s = s @ replicate (n - length s) (CHR '' '')"

definition Round :: "int \<Rightarrow> int \<Rightarrow> int" where
  "Round d m = (let r = \<bar>d\<bar> mod m in
     if d < 0 then (if r + r < m then d + r else d - m + r) else (if r + r < m then d - r else d + m - r))"

definition report :: "string \<Rightarrow> string \<Rightarrow> string \<Rightarrow> string" where
  "report name status duration =
     Sprintf ''Scenario: %-25s | Status: %-4s | Duration: %s'' [pad_right 25 name, pad_right 4 status, duration]"

definition summary :: "string \<Rightarrow> bool \<Rightarrow> int \<Rightarrow> event" where
  "summary name pass duration = Log (report name (if pass then ''PASS'' else ''FAIL'') (duration_String (Round duration Second)))"

definition printSummary :: "string \<Rightarrow> bool \<Rightarrow> int \<Rightarrow> ('x, 'p) world \<Rightarrow> ('x, 'p) world" where
  "printSummary name pass duration w = emit (summary name pass duration) w"

definition printSkipped :: "string \<Rightarrow> ('x, 'p) world \<Rightarrow> ('x, 'p) world" where
  "printSkipped name w = emit (Log (report name ''SKIP'' ''0s'')) w"

section \<open>The scenarios\<close>

text \<open>Starting the machine again; a failure counts against the scenario, waiting for SSH does not.\<close>

definition restore :: "('x, 'z) ssh_env_scheme \<Rightarrow> Client \<Rightarrow> ctx \<Rightarrow> FailoverOpts \<Rightarrow> NodeDetail \<Rightarrow> bool \<Rightarrow> 'x sworld \<Rightarrow> bool \<times> 'x sworld" where
  "restore E L c opts node pass w =
     (if SkipRestore opts then (pass, w)
      else case Start E L c (n_Name node) w of
        (e, w1) \<Rightarrow> (pass \<and> e = None, snd (waitForSSH E c (n_IP node) (120 * Second) w1)))"

definition lb_probe :: "('x, 'z) cluster_env_scheme \<Rightarrow> Config \<Rightarrow> ctx \<Rightarrow> ('x, Pool) probe" where
  "lb_probe E cfg c = checkLBReachability E c (LBVIP cfg) (TrafficVHost cfg)"

definition mariadb_probe :: "('x, 'z) ssh_env_scheme \<Rightarrow> ctx \<Rightarrow> NodeDetail \<Rightarrow> ('x, Pool) probe" where
  "mariadb_probe E c node = ssh_probe E c (n_IP node) ''kubectl get pods -n cms | grep mariadb''
     (\<lambda>r. ro_err r = None \<and> Contains (ro_stdout r) ''Running'')"

definition testDRBDFailover :: "('x, 'z) cluster_env_scheme \<Rightarrow> Config \<Rightarrow> Client \<Rightarrow> ctx \<Rightarrow> FailoverOpts \<Rightarrow> 'x sworld \<Rightarrow> 'x sworld" where
  "testDRBDFailover E cfg L c opts w =
     (let name = ''DRBD Master Failover''; start = w_clock w; masters = Masters (Nodes cfg) in
      if length masters < 2 then printSkipped name w
      else case shutdownForTest E L c (n_Name (masters ! 0)) w of
        (Some e, w1) \<Rightarrow> printSummary name False (w_clock w1 - start) w1
      | (None, w1) \<Rightarrow> (case waitFor E c (90 * Second) (3 * Second) (mariadb_probe E c (masters ! 1)) w1 of
          (mariadbRunning, w2) \<Rightarrow> (case waitFor E c (30 * Second) (2 * Second) (lb_probe E cfg c) w2 of
            (reachable, w3) \<Rightarrow> (case restore E L c opts (masters ! 0) (mariadbRunning \<and> reachable) w3 of
              (pass, w4) \<Rightarrow> printSummary name pass (w_clock w4 - start) w4))))"

definition testCMSFailover :: "('x, 'z) cluster_env_scheme \<Rightarrow> Config \<Rightarrow> Client \<Rightarrow> ctx \<Rightarrow> FailoverOpts \<Rightarrow> 'x sworld \<Rightarrow> 'x sworld" where
  "testCMSFailover E cfg L c opts w =
     (let name = ''CMS Frontend Failover''; start = w_clock w; cms = CMSFrontends (Nodes cfg) in
      if length cms < 2 then printSkipped name w
      else case shutdownForTest E L c (n_Name (cms ! 0)) w of
        (Some e, w1) \<Rightarrow> printSummary name False (w_clock w1 - start) w1
      | (None, w1) \<Rightarrow> (case waitFor E c (30 * Second) (2 * Second) (lb_probe E cfg c) w1 of
          (reachable, w2) \<Rightarrow> (case restore E L c opts (cms ! 0) reachable w2 of
            (pass, w3) \<Rightarrow> printSummary name pass (w_clock w3 - start) w3)))"

definition pods_probe :: "('x, 'z) ssh_env_scheme \<Rightarrow> ctx \<Rightarrow> NodeDetail \<Rightarrow> NodeDetail \<Rightarrow> ('x, Pool) probe" where
  "pods_probe E c master worker = ssh_probe E c (n_IP master) ''kubectl get pods -o wide -A | grep -v Terminating''
     (\<lambda>r. ro_err r = None \<and> Contains (ro_stdout r) (n_Name worker))"

definition testK3sWorkerFailover :: "('x, 'z) cluster_env_scheme \<Rightarrow> Config \<Rightarrow> Client \<Rightarrow> ctx \<Rightarrow> FailoverOpts \<Rightarrow> 'x sworld \<Rightarrow> 'x sworld" where
  "testK3sWorkerFailover E cfg L c opts w =
     (let name = ''K3s Worker Failover''; start = w_clock w; workers = Workers (Nodes cfg); masters = Masters (Nodes cfg) in
      if length workers < 2 \<or> length masters < 2 then printSkipped name w
      else case shutdownForTest E L c (n_Name (workers ! 0)) w of
        (Some e, w1) \<Rightarrow> printSummary name False (w_clock w1 - start) w1
      | (None, w1) \<Rightarrow> (case waitFor E c (90 * Second) (5 * Second) (pods_probe E c (masters ! 1) (workers ! 1)) w1 of
          (rescheduled, w2) \<Rightarrow> (case restore E L c opts (workers ! 0) rescheduled w2 of
            (pass, w3) \<Rightarrow> printSummary name pass (w_clock w3 - start) w3)))"

definition failover_Run :: "('x, 'z) cluster_env_scheme \<Rightarrow> Config \<Rightarrow> Client \<Rightarrow> ctx \<Rightarrow> FailoverOpts \<Rightarrow> 'x sworld \<Rightarrow> goerr option \<times> 'x sworld" where
  "failover_Run E cfg L c opts w =
     (let w1 = testDRBDFailover E cfg L c opts w in
      if ctx_err c w1 \<noteq> None then (ctx_err c w1, w1)
      else (let w2 = testCMSFailover E cfg L c opts w1 in
        if ctx_err c w2 \<noteq> None then (ctx_err c w2, w2)
        else (let w3 = testK3sWorkerFailover E cfg L c opts w2 in (ctx_err c w3, w3))))"

end
