(* ===== verification/SshRemote.thy ===== *)
theory SshRemote
  imports SshCalls
begin

text \<open>
  What the operations of the SSH pool can do at most: they open and close connections, run commands and transfer files on
  remote hosts, and add lines to \<open>known_hosts\<close>; no local command is run and no local file is renamed or removed. The phases
  rest on this. \<open>S\<close> is the set of commands that are sent (as they are, or elevated).
\<close>

definition sent :: "string set \<Rightarrow> string \<Rightarrow> bool" where
  "sent S s \<longleftrightarrow> (\<exists>p. \<exists>cmd \<in> S. s = remoteCommand p cmd)"

fun remote :: "string set \<Rightarrow> event \<Rightarrow> bool" where
  "remote S (RunOn c s) = sent S s"
| "remote S (Sftp c op) = True"
| "remote S ev = gentle ev"

definition afar :: "string set \<Rightarrow> 'x sworld \<Rightarrow> 'x sworld \<Rightarrow> bool" where
  "afar S w w' \<longleftrightarrow> later w w' \<and> extends (remote S) w w'"

interpretation afar: world_order "afar S" for S
  by unfold_locales (auto simp: afar_def intro: clk.refl clk.trans ext.refl ext.trans)

lemma calm_afar: "calm w w' \<Longrightarrow> afar S w w'"
proof -
  have "remote S e" if "gentle e" for e using that by (cases e) simp_all
  then show "calm w w' \<Longrightarrow> afar S w w'" by (auto simp: calm_def afar_def intro: extends_weaken)
qed

lemma keeps_afar: "keeps calm f \<Longrightarrow> keeps (afar S) f"
  by (simp add: keeps_def calm_afar)

lemma steps_afar: "steps_keep calm p \<Longrightarrow> steps_keep (afar S) p"
  by (induction rule: steps_keep.induct) (auto intro: steps_keep.intros calm_afar)

lemma afar_simps:
  "remote S ev \<Longrightarrow> afar S w (emit ev w)" "afar S w (elapse d w)" "afar S w (w\<lparr>w_ext := x\<rparr>)"
  by (auto simp: afar_def later_def extends_def elapse_def intro: exI [of _ "[]"])

section \<open>Commands\<close>

lemma afar_run_session [keeping]: "cmd \<in> S \<Longrightarrow> keeps (afar S) (run_session E ctx c cmd stdin)"
proof (rule keepsI)
  assume cmd: "cmd \<in> S"
  fix w r w' assume run: "run_session E ctx c cmd stdin w = (r, w')"
  let ?sent = "remoteCommand (w_heap w) cmd" and ?w = "emit (RunOn c (remoteCommand (w_heap w) cmd)) w"
  obtain rr out x where 1: "s_run E c ?sent stdin ?w = ((rr, out), x)" by (metis prod.collapse)
  obtain b w1 where wt: "wait_until E ctx (w_clock ?w + int (rr_time rr)) ?w = (b, w1)" by fastforce
  obtain rc xc where cut: "s_cut E c ?sent stdin w1 = (rc, xc)" by fastforce
  obtain u where "w1 = ?w\<lparr>w_clock := u\<rparr>" "w_clock ?w \<le> u" using wait_until_frame [OF wt] wait_until_clock [OF wt] by blast
  then have "afar S ?w w1" by (auto simp: afar_def later_def extends_def intro: exI [of _ "[]"])
  moreover have "remote S (RunOn c ?sent)" using cmd by (auto simp: sent_def)
  ultimately have w1: "afar S w w1" using afar.trans [of S w ?w w1] afar_simps(1) [of S "RunOn c ?sent" w] by simp
  have "w' = w1\<lparr>w_ext := x\<rparr> \<or> w' = (elapse (min (rr_time rc) 5000000000) w1)\<lparr>w_ext := xc\<rparr>"
    using run 1 wt cut by (cases b) (auto simp: run_session_def Let_def)
  then show "afar S w w'" using w1 afar_simps(2,3) afar.trans by metis
qed

lemma afar_sftp_do [keeping]: "keeps (afar S) (sftp_do E c op)"
proof (rule keepsI)
  fix w r w' assume "sftp_do E c op w = (r, w')"
  then obtain d x where "w' = (elapse d (emit (Sftp c (sftp_text op)) w))\<lparr>w_ext := x\<rparr>" by (auto simp: sftp_do_def split: prod.splits)
  then show "afar S w w'" using afar_simps afar.trans by (metis remote.simps(2))
qed

lemma afar_sftp_NewClient [keeping]: "keeps (afar S) (sftp_NewClient E c)"
  by (auto simp: keeps_def sftp_NewClient_def afar_def later_def extends_def elapse_def split: prod.split)

lemma afar_open_session: "(\<And>c. keeps (afar S) (new c)) \<Longrightarrow> steps_keep (afar S) (open_session E new what host)"
  unfolding open_session_def
  by (auto intro!: keeping steps_afar [OF calm_getClient] keeps_afar [OF calm_invalidate] split: sum.splits option.splits)

lemma afar_RunCommandStdin [keeping]: "cmd \<in> S \<Longrightarrow> steps_keep (afar S) (RunCommandStdin E ctx host cmd stdin dst)"
  unfolding RunCommandStdin_def
  by (auto intro!: keeping afar_open_session keeps_afar [OF calm_NewSession] split: sum.splits)

lemma afar_RunCommand [keeping]: "cmd \<in> S \<Longrightarrow> steps_keep (afar S) (RunCommand E ctx host cmd)"
  unfolding RunCommand_def RunCommandToWriter_def by (rule afar_RunCommandStdin)

lemma afar_WaitForSSH [keeping]: "steps_keep (afar S) (WaitForSSH E c host t)"
  by (rule steps_afar [OF calm_WaitForSSH])

section \<open>Files and scripts\<close>

lemma afar_copy_to [keeping]: "keeps (afar S) (copy_to E c src p)"
  unfolding copy_to_def by (intro keeping afar.keeps_intros)

lemma afar_drop_file [keeping]: "steps_keep (afar S) (drop_file E c b p err)"
  unfolding drop_file_def by (auto intro!: keeping)

lemma afar_writeRemoteFile [keeping]: "steps_keep (afar S) (writeRemoteFile E c src p mode)"
  unfolding writeRemoteFile_def writeRemoteFileAt_def by (auto intro!: keeping split: option.splits)

lemma afar_withSFTPClient: "(\<And>c. steps_keep (afar S) (fn c)) \<Longrightarrow> steps_keep (afar S) (withSFTPClient E ctx host fn)"
  unfolding withSFTPClient_def
  by (auto intro!: keeping afar_open_session afar.keeps_return_state split: sum.splits option.splits)

lemma afar_CopyContent [keeping]: "upload_script path mode \<in> S \<Longrightarrow> steps_keep (afar S) (CopyContent E ctx host data path mode)"
  unfolding CopyContent_def Pool_writeRemoteFile_def if_elevated_def
  by (auto intro!: keeping afar_withSFTPClient afar.keeps_return_state)

lemma afar_RunScript [keeping]:
  "(\<And>b. upload_script (script_path b) 448 \<in> S \<and> script_command (script_path b) \<in> S) \<Longrightarrow> steps_keep (afar S) (RunScript E ctx host script)"
  unfolding RunScript_def Let_def by (auto intro!: keeping afar.keeps_return_state split: sum.splits option.splits)

lemma afar_WaitForAptLock [keeping]: "steps_keep (afar UNIV) (WaitForAptLock E ctx host)"
  unfolding WaitForAptLock_def by (auto intro!: keeping)

section \<open>Several hosts\<close>

lemma afar_parallel: "\<forall>p \<in> set ps. steps_keep (afar S) p \<Longrightarrow> keeps (afar S) (parallel E lim ps)"
  using afar.par_exec_keeps unfolding keeps_def parallel_def by blast

lemma afar_RunParallel [keeping]: "cmd \<in> S \<Longrightarrow> keeps (afar S) (RunParallel E ctx hosts cmd)"
proof -
  assume cmd: "cmd \<in> S"
  have "keeps (afar S) (parallel E lim (map (\<lambda>h. andThen (RunCommand E ctx h cmd) (\<lambda>r. Return (host_result h r))) hosts))" for lim
    by (rule afar_parallel) (use cmd in \<open>auto intro!: keeping\<close>)
  then show ?thesis unfolding RunParallel_def by (intro keeping afar.keeps_intros)
qed

lemma afar_RunParallelFunc: "\<forall>(h, f) \<in> set tasks. steps_keep (afar S) f \<Longrightarrow> keeps (afar S) (RunParallelFunc E tasks)"
proof -
  assume t: "\<forall>(h, f) \<in> set tasks. steps_keep (afar S) f"
  have "keeps (afar S) (parallel E lim (map (\<lambda>(h, f). andThen f (\<lambda>e. Return \<lparr>Host = h, Output = [], ExitCode = 0, Err = e\<rparr>)) tasks))" for lim
    by (rule afar_parallel) (use t in \<open>auto intro!: keeping\<close>)
  then show ?thesis unfolding RunParallelFunc_def by (intro keeping afar.keeps_intros)
qed

lemmas afar_run = afar.run_proc_keeps

text \<open>The two parts of the relation.\<close>

lemma afar_later: "keeps (afar S) f \<Longrightarrow> keeps later f"
  by (simp add: keeps_def afar_def)

lemma afar_issues: "keeps (afar S) f \<Longrightarrow> keeps (extends (remote S)) f"
  by (simp add: keeps_def afar_def)

end
