(* ===== verification/FailoverProps.thy ===== *)
theory FailoverProps
  imports Failover SshRemote VMOpsProps
begin

text \<open>
  What a report of the failover tests is worth: a scenario is reported as passed only when the machine was seen off and the cluster
  was seen serving afterwards; and what the exit status of the whole run is worth.
\<close>

section \<open>Polling\<close>

lemma wait_for_keeps:
  assumes ord: "world_order R" and fn: "keeps R fn" and wt: "keeps R (wait E c interval)"
  shows "keeps R (wait_for n E c deadline interval fn)"
proof (induction n)
  case 0
  have "wait_for 0 E c deadline interval fn = (\<lambda>w. (False, w))" by (simp add: fun_eq_iff)
  then show ?case using world_order.keeps_return [OF ord] by simp
next
  case (Suc n)
  have "wait_for (Suc n) E c deadline interval fn = (\<lambda>w. case fn w of (b, w1) \<Rightarrow> if b then (True, w1)
      else if w_clock w1 > deadline then (False, w1)
      else (case wait E c interval w1 of (b, w2) \<Rightarrow> if b then wait_for n E c deadline interval fn w2 else (False, w2)))"
    by (simp add: fun_eq_iff sleepCtx_def split: prod.split bool.split)
  then show ?case
    by (simp only:) (intro world_order.keeps_bind [OF ord] fn wt keeping world_order.keeps_return [OF ord] Suc.IH)
qed

lemma waitFor_keeps:
  assumes "world_order R" and "keeps R fn" and "keeps R (wait E c interval)"
  shows "keeps R (waitFor E c timeout interval fn)"
  using wait_for_keeps [OF assms] unfolding keeps_def waitFor_def by blast

text \<open>More fuel changes nothing: the rounds suffice when the clock does not run backwards in the probe.\<close>

lemma wait_for_more:
  assumes fn: "keeps later fn" and "0 < interval" and "deadline < w_clock w + int m * interval" and "Suc m \<le> n"
  shows "wait_for n E c deadline interval fn w = wait_for (Suc m) E c deadline interval fn w"
  using assms(3,4)
proof (induction m arbitrary: n w)
  case 0
  obtain b w1 where f: "fn w = (b, w1)" by fastforce
  then have "w_clock w \<le> w_clock w1" using keepsD [OF fn] by (simp add: later_def)
  moreover obtain k where "n = Suc k" using 0 by (cases n) auto
  ultimately show ?case using 0 f by (cases b) auto
next
  case (Suc m)
  obtain b w1 where f: "fn w = (b, w1)" by fastforce
  then have w1: "w_clock w \<le> w_clock w1" using keepsD [OF fn] by (simp add: later_def)
  obtain k where n: "n = Suc k" using Suc by (cases n) auto
  obtain t w2 where s: "sleepCtx E c interval w1 = (t, w2)" by fastforce
  show ?case
  proof (cases "b \<or> w_clock w1 > deadline \<or> \<not> t")
    case True
    with f s n show ?thesis by (cases b; cases t) auto
  next
    case False
    then have "w_clock w1 + interval \<le> w_clock w2" using wait_clock(2) s unfolding sleepCtx_def by blast
    then have "deadline < w_clock w2 + int m * interval" using Suc.prems(1) w1 by (simp add: algebra_simps)
    then have "wait_for k E c deadline interval fn w2 = wait_for (Suc m) E c deadline interval fn w2"
      using Suc.prems(2) n by (intro Suc.IH) simp_all
    with False f s n show ?thesis by (cases b; cases t) auto
  qed
qed

lemma wait_for_enough:
  assumes "keeps later fn" and "0 < interval" and "0 \<le> timeout" and "wait_rounds timeout interval \<le> n"
  shows "wait_for n E c (w_clock w + timeout) interval fn w = waitFor E c timeout interval fn w"
proof -
  let ?m = "nat (timeout div interval) + 1"
  have "timeout < int ?m * interval"
    using assms(2,3) by (simp add: pos_imp_zdiv_nonneg_iff algebra_simps) (metis add.commute add_strict_left_mono mult_div_mod_eq pos_mod_bound)
  then show ?thesis using wait_for_more [OF assms(1,2), of "w_clock w + timeout" w ?m n E c] assms(4)
    by (simp add: waitFor_def wait_rounds_def)
qed

text \<open>A positive answer of the loop is a positive answer of the probe.\<close>

lemma wait_for_seen:
  assumes ord: "world_order R" and fn: "keeps R fn" and wt: "keeps R (wait E c interval)"
    and "wait_for n E c deadline interval fn w = (True, w')"
  shows "\<exists>u. R w u \<and> fn u = (True, w')"
  using assms(4)
proof (induction n arbitrary: w)
  case (Suc n)
  obtain b w1 where f: "fn w = (b, w1)" by fastforce
  show ?case
  proof (cases b)
    case True
    with Suc.prems f show ?thesis using world_order.refl [OF ord] by auto
  next
    case False
    obtain t w2 where s: "wait E c interval w1 = (t, w2)" by fastforce
    with Suc.prems f False have "t" "wait_for n E c deadline interval fn w2 = (True, w')"
      by (auto simp: sleepCtx_def split: if_splits bool.splits)
    then obtain u where "R w2 u" "fn u = (True, w')" using Suc.IH by blast
    moreover have "R w w2" using world_order.trans [OF ord keepsD [OF fn f] keepsD [OF wt s]] .
    ultimately show ?thesis using world_order.trans [OF ord] by blast
  qed
qed simp

section \<open>What a passed scenario shows\<close>

fun is_report :: "event \<Rightarrow> bool" where
  "is_report (Log s) = True"
| "is_report _ = False"

definition mute :: "('x, 'p) world \<Rightarrow> ('x, 'p) world \<Rightarrow> bool" where
  "mute w w' \<longleftrightarrow> later w w' \<and> extends (\<lambda>e. \<not> is_report e) w w'"

interpretation mute: world_order mute
  by unfold_locales (auto simp: mute_def intro: clk.refl clk.trans ext.refl ext.trans)

lemma mute_keeps: "keeps later f \<Longrightarrow> keeps (extends (\<lambda>e. \<not> is_report e)) f \<Longrightarrow> keeps mute f"
  by (simp add: keeps_def mute_def)

lemma mute_afar: "keeps (afar S) f \<Longrightarrow> keeps mute f"
proof -
  have "\<not> is_report e" if "remote S e" for e using that by (cases e) simp_all
  then show "keeps (afar S) f \<Longrightarrow> keeps mute f" by (auto simp: keeps_def afar_def mute_def intro: extends_weaken)
qed

lemma virsh_later: "keeps later (virsh E L c args)" "keeps later (virsh_do E L c args)"
proof -
  show v: "keeps later (virsh E L c args)" unfolding virsh_def by (intro keeping elapses)
  show "keeps later (virsh_do E L c args)" unfolding virsh_do_def by (intro keeping elapses v)
qed

lemma mute_virsh [keeping]:
  "keeps mute (Start E L c vm)" "keeps mute (Shutdown E L c vm)" "keeps mute (DomainState E L c vm)"
  unfolding Start_def Shutdown_def DomainState_def
  by (rule mute_keeps; intro virsh_later virsh_do_issues keeping elapses issues virsh_issues; simp)+

lemma mute_wait [keeping]: "keeps mute (wait E c d)"
  by (rule mute_keeps) (rule keeping)+

lemma mute_ssh_probe [keeping]: "keeps mute (ssh_probe E c host cmd ok)"
proof -
  have "keeps mute (run_proc (RunCommand E c host cmd))" by (rule mute_afar [OF afar_run [OF afar_RunCommand [OF UNIV_I]]])
  then show ?thesis unfolding ssh_probe_def by (intro mute.keeps_intros)
qed

lemma mute_http [keeping]: "keeps mute (http_Do E c url vhost)"
proof (rule keepsI)
  fix w r w' assume "http_Do E c url vhost w = (r, w')"
  then have "w' = w \<or> (\<exists>d x. w' = (elapse d w)\<lparr>w_ext := x\<rparr>)" by (auto simp: http_Do_def split: option.splits prod.splits)
  then show "mute w w'" by (auto simp: mute_def later_def extends_def elapse_def intro: exI [of _ "[]"])
qed

lemma mute_lb_probe [keeping]: "keeps mute (lb_probe E cfg c)"
  unfolding lb_probe_def checkLBReachability_def Let_def by (intro keeping mute.keeps_intros)

lemma mute_waitFor [keeping]: "keeps mute fn \<Longrightarrow> keeps mute (waitFor E c timeout interval fn)"
  by (rule waitFor_keeps) (unfold_locales, auto intro: mute.refl mute.trans keeping)

lemma await_off_seen:
  "await_off E L c name deadline w = (r, w') \<Longrightarrow>
    mute w w' \<and> (r = None \<longrightarrow> (\<exists>u. mute w u \<and> DomainState E L c name u = (Inr ''shut off'', w')))"
proof (induction E L c name deadline w arbitrary: r rule: await_off.induct)
  case (1 E L c name deadline w)
  obtain d w1 where d: "DomainState E L c name w = (d, w1)" by fastforce
  have q1: "mute w w1" using keepsD [OF mute_virsh(3) d] .
  show ?case
  proof (cases "\<exists>state. d = Inr state \<and> state \<noteq> ''shut off'' \<and> \<not> w_clock w1 > deadline")
    case False
    with 1(2) d have "w' = w1 \<and> (r = None \<longrightarrow> d = Inr ''shut off'')"
      by (subst (asm) await_off.simps) (auto split: sum.splits if_splits)
    with q1 d mute.refl show ?thesis by blast
  next
    case True
    then obtain state where st: "d = Inr state" "state \<noteq> ''shut off''" "\<not> w_clock w1 > deadline" by blast
    obtain b w2 where s: "sleepCtx E c (2 * Second) w1 = (b, w2)" by fastforce
    have q2: "mute w w2" using mute.trans [OF q1 keepsD [OF mute_wait s [unfolded sleepCtx_def]]] .
    show ?thesis
    proof (cases b)
      case False
      with 1(2) d st s have "w' = w2 \<and> r \<noteq> None" by (subst (asm) await_off.simps) auto
      with q2 show ?thesis by auto
    next
      case True
      with 1(2) d st s have "await_off E L c name deadline w2 = (r, w')" by (subst (asm) await_off.simps) auto
      from 1(1) [OF d [symmetric] st s [symmetric] eqTrueI [OF True] this] show ?thesis using mute.trans [OF q2] by blast
    qed
  qed
qed

lemma shutdown_seen:
  assumes "shutdownForTest E L c name w = (r, w')"
  shows "mute w w' \<and> (r = None \<longrightarrow> (\<exists>u. mute w u \<and> DomainState E L c name u = (Inr ''shut off'', w')))"
proof -
  obtain e w1 where sd: "Shutdown E L c name w = (e, w1)" by fastforce
  note m = keepsD [OF mute_virsh(2) sd]
  show ?thesis
  proof (cases e)
    case None
    with assms sd have "await_off E L c name (w_clock w1 + 30 * Second) w1 = (r, w')" by (simp add: shutdownForTest_def)
    from await_off_seen [OF this] show ?thesis using mute.trans [OF m] by blast
  qed (use assms sd m in \<open>auto simp: shutdownForTest_def\<close>)
qed

lemma waitFor_seen:
  assumes "waitFor E c timeout interval fn w = (True, w')" and "keeps mute fn"
  shows "\<exists>u. mute w u \<and> fn u = (True, w')"
  by (rule wait_for_seen [OF _ assms(2) mute_wait assms(1) [unfolded waitFor_def]])
    (unfold_locales, auto intro: mute.refl mute.trans)

text \<open>
  \<open>passed\<close>: the machine was seen off, then every probe answered yes, in this order and before anything was reported,
  and unless the restoration is skipped the machine was started again.
\<close>

fun answered :: "('x, 'p) probe list \<Rightarrow> ('x, 'p) world \<Rightarrow> ('x, 'p) world \<Rightarrow> bool" where
  "answered [] v w = (v = w)"
| "answered (p # ps) v w = (\<exists>u u'. mute v u \<and> p u = (True, u') \<and> answered ps u' w)"

definition passed :: "('x, 'z) ssh_env_scheme \<Rightarrow> Client \<Rightarrow> ctx \<Rightarrow> FailoverOpts \<Rightarrow> NodeDetail \<Rightarrow> ('x, Pool) probe list \<Rightarrow> 'x sworld \<Rightarrow> bool" where
  "passed E L c opts node probes w \<longleftrightarrow>
     (\<exists>u v w1. mute w u \<and> DomainState E L c (n_Name node) u = (Inr ''shut off'', v) \<and> answered probes v w1 \<and>
        (SkipRestore opts \<or> fst (Start E L c (n_Name node) w1) = None))"

lemma report_inj [simp]:
  "report n s d = report n s' d' \<longleftrightarrow> pad_right 4 s @ '' | Duration: '' @ d = pad_right 4 s' @ '' | Duration: '' @ d'"
  by (simp add: report_def Sprintf_def is_letter_def)

lemma summary_verdict: "summary n p d = summary n p' d' \<Longrightarrow> p = p'"
  by (auto simp: summary_def pad_right_def split: if_splits)

lemma summary_not_skipped: "summary n p d \<noteq> Log (report n ''SKIP'' d')"
  by (auto simp: summary_def pad_right_def split: if_splits)

lemma added_report: "mute w w1 \<Longrightarrow> is_report ev \<Longrightarrow> ev \<in> set (added w (emit ev' w1)) \<Longrightarrow> ev = ev'"
  by (auto simp: mute_def extends_def added_def list_all_iff)

lemma restore_pass:
  assumes "restore E L c opts node pass w = (p, w')"
  shows "mute w w'" and "p \<Longrightarrow> pass \<and> (SkipRestore opts \<or> fst (Start E L c (n_Name node) w) = None)"
proof -
  obtain e w1 where st: "Start E L c (n_Name node) w = (e, w1)" by fastforce
  obtain b w2 where ssh: "waitForSSH E c (n_IP node) (120 * Second) w1 = (b, w2)" by fastforce
  have "mute w1 w2" by (rule keepsD [OF mute_waitFor ssh [unfolded waitForSSH_def]]) (rule keeping)
  then have "mute w w2" using keepsD [OF mute_virsh(1) st] mute.trans by blast
  then show "mute w w'" using assms st ssh mute.refl by (auto simp: restore_def split: if_splits)
  show "p \<Longrightarrow> pass \<and> (SkipRestore opts \<or> fst (Start E L c (n_Name node) w) = None)"
    using assms st by (auto simp: restore_def split: if_splits)
qed

text \<open>The common end of the scenarios.\<close>

lemma scenario_end:
  assumes "shutdownForTest E L c (n_Name node) w = (None, w1)" and "mute w1 w2" and "ok \<Longrightarrow> \<exists>v. v = w1 \<and> answered probes v w2"
    and "restore E L c opts node ok w2 = (pass, w3)" and "summary name True d \<in> set (added w (printSummary name pass t w3))"
  shows "passed E L c opts node probes w"
proof -
  obtain u where u: "mute w u" "DomainState E L c (n_Name node) u = (Inr ''shut off'', w1)" and m: "mute w w1"
    using shutdown_seen [OF assms(1)] by blast
  have w3: "mute w w3" using mute.trans [OF m mute.trans [OF assms(2) restore_pass(1) [OF assms(4)]]] .
  have "summary name True d = summary name pass t"
    by (rule added_report [OF w3 _ assms(5) [unfolded printSummary_def]]) (simp add: summary_def)
  then have pass by (auto dest: summary_verdict)
  from restore_pass(2) [OF assms(4) this] assms(3) u show ?thesis unfolding passed_def by blast
qed

text \<open>The other ends: a skipped scenario and one whose shutdown failed are never reported as passed.\<close>

lemma skipped_end: "summary name True d \<notin> set (added w (printSkipped name w))"
proof
  assume "summary name True d \<in> set (added w (printSkipped name w))"
  then have "summary name True d = Log (report name ''SKIP'' ''0s'')"
    unfolding printSkipped_def by (intro added_report [OF mute.refl]) (simp_all add: summary_def)
  then show False by (rule notE [OF summary_not_skipped])
qed

lemma failed_end:
  assumes "shutdownForTest E L c vm w = (Some e, w1)"
  shows "summary name True d \<notin> set (added w (printSummary name False t w1))"
proof
  assume "summary name True d \<in> set (added w (printSummary name False t w1))"
  then have "summary name True d = summary name False t"
    using shutdown_seen [OF assms] unfolding printSummary_def by (intro added_report [of w w1]) (simp_all add: summary_def)
  then show False using summary_verdict by blast
qed

lemma mute_probes [keeping]: "keeps mute (mariadb_probe E c node)" "keeps mute (pods_probe E c m n)"
  unfolding mariadb_probe_def pods_probe_def by (rule keeping)+

text \<open>The shape of a scenario, with its checks as one operation.\<close>

definition scenario_of :: "('x, 'z) ssh_env_scheme \<Rightarrow> Client \<Rightarrow> ctx \<Rightarrow> FailoverOpts \<Rightarrow> string \<Rightarrow> bool \<Rightarrow> NodeDetail
    \<Rightarrow> ('x, Pool) probe \<Rightarrow> 'x sworld \<Rightarrow> 'x sworld" where
  "scenario_of E L c opts name skip node checks w =
     (if skip then printSkipped name w
      else case shutdownForTest E L c (n_Name node) w of
        (Some e, w1) \<Rightarrow> printSummary name False (w_clock w1 - w_clock w) w1
      | (None, w1) \<Rightarrow> (case checks w1 of (ok, w2) \<Rightarrow> (case restore E L c opts node ok w2 of
          (pass, w3) \<Rightarrow> printSummary name pass (w_clock w3 - w_clock w) w3)))"

lemma scenario_passed:
  assumes run: "summary name True d \<in> set (added w (scenario_of E L c opts name skip node checks w))"
    and checks: "\<And>w1 ok w2. checks w1 = (ok, w2) \<Longrightarrow> mute w1 w2 \<and> (ok \<longrightarrow> answered probes w1 w2)"
  shows "passed E L c opts node probes w"
proof -
  obtain r w1 where sd: "shutdownForTest E L c (n_Name node) w = (r, w1)" by fastforce
  obtain ok w2 where ok: "checks w1 = (ok, w2)" by fastforce
  obtain pass w3 where re: "restore E L c opts node ok w2 = (pass, w3)" by fastforce
  have "\<not> skip" using run skipped_end by (cases skip) (auto simp: scenario_of_def)
  moreover have "r = None"
  proof (cases r)
    case (Some e)
    with run sd \<open>\<not> skip\<close> have "summary name True d \<in> set (added w (printSummary name False (w_clock w1 - w_clock w) w1))"
      by (simp add: scenario_of_def)
    with failed_end [OF sd [unfolded Some]] show ?thesis by blast
  qed
  ultimately have "summary name True d \<in> set (added w (printSummary name pass (w_clock w3 - w_clock w) w3))"
    using run sd ok re by (simp add: scenario_of_def)
  then show ?thesis using checks [OF ok] sd \<open>r = None\<close> re by (intro scenario_end [of E L c _ w w1 w2 ok]) simp_all
qed

lemma waitFor_checks:
  assumes "waitFor E c timeout interval p w = (ok, w')" and "keeps mute p"
  shows "mute w w' \<and> (ok \<longrightarrow> answered [p] w w')"
proof -
  have "mute w w'" using keepsD [OF mute_waitFor [OF assms(2)] assms(1)] .
  moreover have "answered [p] w w'" if ok using waitFor_seen [OF assms(1) [unfolded eqTrueI [OF that]] assms(2)] by auto
  ultimately show ?thesis by blast
qed

definition database_and_lb :: "('x, 'z) cluster_env_scheme \<Rightarrow> Config \<Rightarrow> ctx \<Rightarrow> ('x, Pool) probe" where
  "database_and_lb E cfg c w = (case waitFor E c (90 * Second) (3 * Second) (mariadb_probe E c (Masters (Nodes cfg) ! 1)) w of
     (db, w1) \<Rightarrow> (case waitFor E c (30 * Second) (2 * Second) (lb_probe E cfg c) w1 of (lb, w2) \<Rightarrow> (db \<and> lb, w2)))"

lemma database_and_lb_checks:
  assumes "database_and_lb E cfg c w = (ok, w')"
  shows "mute w w' \<and> (ok \<longrightarrow> answered [mariadb_probe E c (Masters (Nodes cfg) ! 1), lb_probe E cfg c] w w')"
proof -
  obtain db w1 where db: "waitFor E c (90 * Second) (3 * Second) (mariadb_probe E c (Masters (Nodes cfg) ! 1)) w = (db, w1)" by fastforce
  obtain lb w2 where lb: "waitFor E c (30 * Second) (2 * Second) (lb_probe E cfg c) w1 = (lb, w2)" by fastforce
  have "ok = (db \<and> lb)" "w' = w2" using assms db lb by (simp_all add: database_and_lb_def)
  then show ?thesis using waitFor_checks [OF db mute_probes(1)] waitFor_checks [OF lb mute_lb_probe] mute.trans by auto
qed

lemma scenario_shapes:
  "testDRBDFailover E cfg L c opts w = scenario_of E L c opts ''DRBD Master Failover'' (length (Masters (Nodes cfg)) < 2)
     (Masters (Nodes cfg) ! 0) (database_and_lb E cfg c) w"
  "testCMSFailover E cfg L c opts w = scenario_of E L c opts ''CMS Frontend Failover'' (length (CMSFrontends (Nodes cfg)) < 2)
     (CMSFrontends (Nodes cfg) ! 0) (waitFor E c (30 * Second) (2 * Second) (lb_probe E cfg c)) w"
  "testK3sWorkerFailover E cfg L c opts w = scenario_of E L c opts ''K3s Worker Failover''
     (length (Workers (Nodes cfg)) < 2 \<or> length (Masters (Nodes cfg)) < 2) (Workers (Nodes cfg) ! 0)
     (waitFor E c (90 * Second) (5 * Second) (pods_probe E c (Masters (Nodes cfg) ! 1) (Workers (Nodes cfg) ! 1))) w"
  by (simp_all add: testDRBDFailover_def testCMSFailover_def testK3sWorkerFailover_def scenario_of_def database_and_lb_def Let_def
      split: prod.split option.split)

text \<open>C25. A scenario of the failover test is reported as passed only when the machine was seen shut off, afterwards every check of the
  scenario succeeded in turn (the database runs on the other master and the load balancer answers; the load balancer answers;
  the pods are on the other worker), and the machine was started again unless that is to be skipped.\<close>

theorem failover_pass_sound:
  assumes "summary name True d \<in> set (added w (scenario E cfg L c opts w))"
    and "(name, scenario, node, probes) \<in> {
      (''DRBD Master Failover'', testDRBDFailover, Masters (Nodes cfg) ! 0, [mariadb_probe E c (Masters (Nodes cfg) ! 1), lb_probe E cfg c]),
      (''CMS Frontend Failover'', testCMSFailover, CMSFrontends (Nodes cfg) ! 0, [lb_probe E cfg c]),
      (''K3s Worker Failover'', testK3sWorkerFailover, Workers (Nodes cfg) ! 0, [pods_probe E c (Masters (Nodes cfg) ! 1) (Workers (Nodes cfg) ! 1)])}"
  shows "passed E L c opts node probes w"
proof -
  consider "name = ''DRBD Master Failover''" | "name = ''CMS Frontend Failover''" | "name = ''K3s Worker Failover''" using assms(2) by blast
  then show ?thesis
  proof cases
    case 1
    then have eq: "scenario = testDRBDFailover" "node = Masters (Nodes cfg) ! 0"
      "probes = [mariadb_probe E c (Masters (Nodes cfg) ! 1), lb_probe E cfg c]" using assms(2) by auto
    show ?thesis using assms(1) unfolding 1 eq scenario_shapes by (rule scenario_passed) (rule database_and_lb_checks)
  next
    case 2
    then have eq: "scenario = testCMSFailover" "node = CMSFrontends (Nodes cfg) ! 0" "probes = [lb_probe E cfg c]" using assms(2) by auto
    show ?thesis using assms(1) unfolding 2 eq scenario_shapes by (rule scenario_passed) (rule waitFor_checks [OF _ mute_lb_probe])
  next
    case 3
    then have eq: "scenario = testK3sWorkerFailover" "node = Workers (Nodes cfg) ! 0"
      "probes = [pods_probe E c (Masters (Nodes cfg) ! 1) (Workers (Nodes cfg) ! 1)]" using assms(2) by auto
    show ?thesis using assms(1) unfolding 3 eq scenario_shapes by (rule scenario_passed) (rule waitFor_checks [OF _ mute_probes(2)])
  qed
qed

section \<open>The exit status\<close>

lemma printed_later: "later w w1 \<Longrightarrow> later w (emit ev w1)"
  by (simp add: later_def)

lemma scenario_later:
  assumes "\<And>w1 ok w2. checks w1 = (ok, w2) \<Longrightarrow> mute w1 w2"
  shows "later w (scenario_of E L c opts name skip node checks w)"
proof -
  obtain r w1 where sd: "shutdownForTest E L c (n_Name node) w = (r, w1)" by fastforce
  obtain ok w2 where ok: "checks w1 = (ok, w2)" by fastforce
  obtain pass w3 where re: "restore E L c opts node ok w2 = (pass, w3)" by fastforce
  have 1: "mute w w1" using shutdown_seen [OF sd] by blast
  have 3: "mute w w3" using mute.trans [OF 1 mute.trans [OF assms [OF ok] restore_pass(1) [OF re]]] .
  have "\<exists>v ev. scenario_of E L c opts name skip node checks w = emit ev v \<and> mute w v"
    using sd ok re 1 3 mute.refl by (cases r) (auto simp: scenario_of_def printSkipped_def printSummary_def)
  then show ?thesis using printed_later by (auto simp: mute_def)
qed

lemma scenarios_later:
  "later w (testDRBDFailover E cfg L c opts w)" "later w (testCMSFailover E cfg L c opts w)" "later w (testK3sWorkerFailover E cfg L c opts w)"
  unfolding scenario_shapes
  by (rule scenario_later; (drule database_and_lb_checks | drule waitFor_checks [OF _ mute_lb_probe] | drule waitFor_checks [OF _ mute_probes(2)]);
      blast)+

text \<open>C26. The result of a failover run says nothing about the scenarios: it is the error of the context at the end. A run that is not
  cancelled and has no deadline succeeds even when every scenario failed, although callers take the exit
  status as the verdict.\<close>

theorem failover_Run_blind:
  assumes "failover_Run E cfg L c opts w = (r, w')"
  shows "r = ctx_err c w' \<and> (c = None \<and> w_cancel w = None \<longrightarrow> r = None)"
proof -
  let ?w1 = "testDRBDFailover E cfg L c opts w"
  let ?w2 = "testCMSFailover E cfg L c opts ?w1"
  let ?w3 = "testK3sWorkerFailover E cfg L c opts ?w2"
  have "later w ?w1" "later w ?w2" "later w ?w3"
    by (rule scenarios_later clk.trans [OF scenarios_later(1) scenarios_later(2)]
        clk.trans [OF scenarios_later(1) clk.trans [OF scenarios_later(2) scenarios_later(3)]])+
  moreover have "r = ctx_err c w' \<and> (w' = ?w1 \<or> w' = ?w2 \<or> w' = ?w3)"
    using assms by (auto simp: failover_Run_def Let_def split: if_splits)
  ultimately have "r = ctx_err c w' \<and> later w w'" by auto
  then have 1: "r = ctx_err c w'" and 2: "w_cancel w' = w_cancel w" by (simp_all add: later_def)
  show ?thesis unfolding 1 using 2 by (simp add: ctx_err_def done_at_def)
qed

end
