(* ===== verification/FailoverLab.thy ===== *)
theory FailoverLab
  imports FailoverProps SshLab ConfigSample
begin

text \<open>
  Two clusters to run the failover tests on: in one every machine stops at once and the cluster keeps serving, in the other
  \<open>virsh\<close> refuses every command.
\<close>

definition yard_exec :: "bool \<Rightarrow> string list \<Rightarrow> 'x sworld \<Rightarrow> (string \<times> goerr option) \<times> nat \<times> fs \<times> 'x" where
  "yard_exec ok argv w = (if ok then (''shut off'', None) else ([], Some ''exit status 1''), 1, w_fs w, w_ext w)"

definition yard :: "bool \<Rightarrow> (string \<Rightarrow> string option) cluster_env" where
  "yard ok = ssh_env.extend (lab\<lparr>e_exec := yard_exec ok,
       s_run := \<lambda>c cmd inp w. ((\<lparr>rr_stdout = ''mariadb-0 Running'', rr_stderr = [], rr_time = 1\<rparr>, RunOk), w_ext w)\<rparr>)
     \<lparr>h_url_ok = \<lambda>u. True, h_get = \<lambda>u h w. (Inr 200, 1, w_ext w)\<rparr>"

definition yard_virsh :: Client where
  "yard_virsh = \<lparr>URI = ''qemu:///system'', UseSudo = False\<rparr>"

definition yard_opts :: FailoverOpts where
  "yard_opts = \<lparr>SkipRestore = False\<rparr>"

theorem failover_pass_sound_witness:
  "passed (yard True) yard_virsh None yard_opts (Masters (Nodes sample_config) ! 0)
     [mariadb_probe (yard True) None (Masters (Nodes sample_config) ! 1), lb_probe (yard True) sample_config None] (lab_world ''root'')"
proof (rule failover_pass_sound)
  show "summary ''DRBD Master Failover'' True 0 \<in>
      set (added (lab_world ''root'') (testDRBDFailover (yard True) sample_config yard_virsh None yard_opts (lab_world ''root'')))"
    by code_simp
qed simp

definition refused_run :: "goerr option \<times> (string \<Rightarrow> string option) sworld" where
  "refused_run = failover_Run (yard False) sample_config yard_virsh None yard_opts (lab_world ''root'')"

theorem failover_Run_blind_witness:
  "fst refused_run = None \<and> summary ''DRBD Master Failover'' False 0 \<in> set (w_trace (snd refused_run)) \<and>
   summary ''CMS Frontend Failover'' False 0 \<in> set (w_trace (snd refused_run))"
proof -
  have "summary ''DRBD Master Failover'' False 0 \<in> set (w_trace (snd refused_run))" by code_simp
  moreover have "summary ''CMS Frontend Failover'' False 0 \<in> set (w_trace (snd refused_run))" by code_simp
  moreover have "w_cancel (lab_world ''root'') = None" by (simp add: lab_world_def)
  moreover have "fst refused_run = None"
    using failover_Run_blind [OF surjective_pairing, of "yard False" sample_config yard_virsh None yard_opts "lab_world ''root''"] calculation(3)
    unfolding refused_run_def by blast
  ultimately show ?thesis by blast
qed

end
