(* ===== verification/Verify.thy ===== *)
theory Verify
  imports Failover
begin

text \<open>
  \<open>internal/utils/verify.go\<close> and \<open>status.go\<close>: the health checks of the whole infrastructure and the SSH status of all machines. Each check is
  a goroutine; the hosts of one check are asked in one step of it. What is printed is the event \<open>Log\<close>.
\<close>

record CheckResult =
  cr_Phase :: string
  cr_Name :: string
  Pass :: bool
  Details :: string

definition delim :: string where
  "delim = ''---CMS_DELIM---''"

definition echo_delim :: string where
  "echo_delim = ''; echo \"'' @ delim @ ''\"; ''"

definition with_IP :: "NodeDetail list \<Rightarrow> string list" where
  "with_IP ns = filter (\<lambda>ip. ip \<noteq> []) (map n_IP ns)"

section \<open>Reading the output of the commands\<close>

definition serviceStatesActive :: "string \<Rightarrow> bool" where
  "serviceStatesActive out = (let fields = Fields out in fields \<noteq> [] \<and> list_all (\<lambda>f. f = ''active'') fields)"

definition allNodesReady :: "string \<Rightarrow> bool" where
  "allNodesReady nodesOut \<longleftrightarrow> Contains nodesOut ''Ready'' \<and> \<not> Contains nodesOut ''NotReady''"

definition phase00_result :: "string list res \<Rightarrow> CheckResult" where
  "phase00_result r = (let (ok, running) = (case r of Inl e \<Rightarrow> (False, []) | Inr rs \<Rightarrow> (True, rs)) in
     \<lparr>cr_Phase = ''Phase 00'', cr_Name = ''Libvirt VMs & Networks'', Pass = ok \<and> length running > 0,
      Details = Sprintf ''%d running VMs'' [itoa (int (length running))]\<rparr>)"

definition phase01_cmd :: string where
  "phase01_cmd = ''for unit in cobblerd apache2 isc-dhcp-server bind9 named tftpd-hpa; do systemctl is-active $unit 2>/dev/null; done | sort -u''
     @ echo_delim @ ''cobbler system list | wc -l''"

definition phase01_result :: "run_out \<Rightarrow> CheckResult" where
  "phase01_result r = (let out = ro_stdout r; parts = Split out delim;
       servicesOut = (if length parts \<ge> 2 then parts ! 0 else out);
       sysCount = (if length parts \<ge> 2 then TrimSpace (parts ! 1) else [])
     in \<lparr>cr_Phase = ''Phase 01'', cr_Name = ''Cobbler Services & Systems'',
         Pass = ro_err r = None \<and> serviceStatesActive servicesOut \<and> \<not> (sysCount = ''0'' \<or> sysCount = []),
         Details = Sprintf ''Systems: %s'' [sysCount]\<rparr>)"

definition phase02_cmd :: string where
  "phase02_cmd = ''systemctl is-active puppetserver'' @ echo_delim
     @ ''puppetserver ca list --all 2>/dev/null | grep -E 'Signed|'' @ [bslash] @ ''(SHA256'' @ [bslash] @ '')' | wc -l''"

definition phase02_result :: "run_out \<Rightarrow> CheckResult" where
  "phase02_result r = (let out = ro_stdout r; parts = Split out delim;
       svcOut = (if length parts \<ge> 2 then TrimSpace (parts ! 0) else TrimSpace out);
       certCount = (if length parts \<ge> 2 then TrimSpace (parts ! 1) else [])
     in \<lparr>cr_Phase = ''Phase 02'', cr_Name = ''Puppet Server & Certs'',
         Pass = ro_err r = None \<and> svcOut = ''active'' \<and> \<not> (certCount = ''0'' \<or> certCount = []),
         Details = Sprintf ''Certs: %s'' [certCount]\<rparr>)"

definition phase03_lb_cmd :: "Config \<Rightarrow> string" where
  "phase03_lb_cmd cfg = Sprintf (''systemctl is-active nginx && systemctl is-active keepalived && ''
     @ ''openssl x509 -in /etc/nginx/ssl/cms.crt -noout -issuer -checkend %d'') [itoa (i64 (LBTLSCertMinValidDays cfg * 86400))]"

definition phase03_cms_cmd :: string where
  "phase03_cms_cmd = ''systemctl is-active apache2 && mountpoint -q /var/www/html/wp-content/uploads''"

definition lb_issues :: "string \<Rightarrow> ParallelResult \<Rightarrow> string list" where
  "lb_issues caName r =
     (if Err r \<noteq> None \<or> ExitCode r \<noteq> 0 then [Sprintf ''%s: services or certificate check failed'' [Host r]]
      else if \<not> Contains (Output r) caName then [Sprintf ''%s: certificate not issued by %q'' [Host r, quoted caName]]
      else [])"

definition cms_issues :: "ParallelResult \<Rightarrow> string list" where
  "cms_issues r = (if Err r \<noteq> None \<or> ExitCode r \<noteq> 0 then [Sprintf ''%s: apache2 or uploads mount failed'' [Host r]] else [])"

definition phase03_result :: "Config \<Rightarrow> ParallelResult list \<Rightarrow> ParallelResult list \<Rightarrow> CheckResult" where
  "phase03_result cfg resLB resApache = (let caName = PKICommonName cfg;
       lbIPs = with_IP (LBs (Nodes cfg));
       issues = concat (map (lb_issues caName) resLB) @ concat (map cms_issues resApache)
     in \<lparr>cr_Phase = ''Phase 03'', cr_Name = ''Nginx & Apache & SSL'', Pass = (issues = []),
         Details = (if length issues > 0 then Join issues ''; ''
           else if length lbIPs > 0 then Sprintf ''certificate issued by %q, valid > %d days'' [quoted caName, itoa (LBTLSCertMinValidDays cfg)]
           else [])\<rparr>)"

definition phase04_cmd :: string where
  "phase04_cmd = ''kubectl get nodes'' @ echo_delim @ ''kubectl get pods -n cms | grep mariadb'' @ echo_delim
     @ ''kubectl -n kube-system get pods -o name 2>/dev/null | grep -c 'pod/etcd-' || true''"

definition phase04_result :: "Config \<Rightarrow> run_out \<Rightarrow> CheckResult" where
  "phase04_result cfg r = (let out = ro_stdout r; parts = Split out delim;
       nodesOut = (if length parts \<ge> 2 then parts ! 0 else out);
       podOut = (if length parts \<ge> 2 then parts ! 1 else []);
       etcdOut = (if length parts \<ge> 3 then TrimSpace (parts ! 2) else []);
       want = itoa (int (length (Masters (Nodes cfg))))
     in \<lparr>cr_Phase = ''Phase 04'', cr_Name = ''K3s & MariaDB Pod'',
         Pass = ro_err r = None \<and> allNodesReady nodesOut \<and> Contains podOut ''Running'' \<and> etcdOut = want,
         Details = Sprintf ''etcd members: %s'' [etcdOut]\<rparr>)"

definition phase05_cmd :: string where
  "phase05_cmd = ''systemctl is-active prometheus grafana-server''"

definition phase05_result :: "run_out \<Rightarrow> CheckResult" where
  "phase05_result r = \<lparr>cr_Phase = ''Phase 05'', cr_Name = ''Prometheus & Grafana'',
     Pass = ro_err r = None \<and> serviceStatesActive (ro_stdout r), Details = []\<rparr>"

definition phase06_cmd :: string where
  "phase06_cmd = ''cat /proc/sys/net/ipv4/ip_forward'' @ echo_delim @ ''ufw status''"

definition phase06_result :: "run_out \<Rightarrow> CheckResult" where
  "phase06_result r = (let out = ro_stdout r; parts = Split out delim;
       fwdOut = (if length parts \<ge> 2 then TrimSpace (parts ! 0) else TrimSpace out);
       ufwOut = (if length parts \<ge> 2 then parts ! 1 else [])
     in \<lparr>cr_Phase = ''Phase 06'', cr_Name = ''Router UFW & IP Forward'',
         Pass = ro_err r = None \<and> fwdOut = ''1'' \<and> Contains ufwOut ''Status: active'', Details = []\<rparr>)"

definition phase07_cmd :: string where
  "phase07_cmd = ''drbdadm status cms_data 2>/dev/null || drbdadm status 2>/dev/null''"

definition drbd_up :: "ParallelResult \<Rightarrow> bool" where
  "drbd_up r \<longleftrightarrow> Err r = None \<and> (Contains (Output r) ''Primary'' \<or> Contains (Output r) ''Secondary'' \<or> Contains (Output r) ''UpToDate'')"

definition phase07_result :: "ParallelResult list \<Rightarrow> CheckResult" where
  "phase07_result res = (case find drbd_up res of
      Some r \<Rightarrow> \<lparr>cr_Phase = ''Phase 07'', cr_Name = ''DRBD Status'', Pass = True, Details = Sprintf ''Verified on %s'' [Host r]\<rparr>
    | None \<Rightarrow> \<lparr>cr_Phase = ''Phase 07'', cr_Name = ''DRBD Status'', Pass = False, Details = ''DRBD inactive or unreachable on masters''\<rparr>)"

section \<open>The checks\<close>

text \<open>One goroutine per check. A check of several hosts asks them with \<open>RunParallel\<close>, one step of the goroutine.\<close>

type_synonym 'x check = "('x, CheckResult) sproc"

definition ask :: "('x, 'z) ssh_env_scheme \<Rightarrow> ctx \<Rightarrow> string \<Rightarrow> string \<Rightarrow> (run_out \<Rightarrow> CheckResult) \<Rightarrow> 'x check" where
  "ask E c host cmd result = andThen (RunCommand E c host cmd) (\<lambda>r. Return (result r))"

definition phase00 :: "('x, 'z) ssh_env_scheme \<Rightarrow> Client \<Rightarrow> ctx \<Rightarrow> 'x check" where
  "phase00 E L c = andThen (atomic (ListRunning E L c)) (\<lambda>r. Return (phase00_result r))"

definition phase01 :: "('x, 'z) ssh_env_scheme \<Rightarrow> Config \<Rightarrow> ctx \<Rightarrow> 'x check" where
  "phase01 E cfg c = ask E c (n_IP (Jumpstart (Nodes cfg))) phase01_cmd phase01_result"

definition phase02 :: "('x, 'z) ssh_env_scheme \<Rightarrow> Config \<Rightarrow> ctx \<Rightarrow> 'x check" where
  "phase02 E cfg c = ask E c (n_IP (Jumpstart (Nodes cfg))) phase02_cmd phase02_result"

definition phase03 :: "('x, 'z) ssh_env_scheme \<Rightarrow> Config \<Rightarrow> ctx \<Rightarrow> 'x check" where
  "phase03 E cfg c =
     andThen (atomic (RunParallel E c (with_IP (LBs (Nodes cfg))) (phase03_lb_cmd cfg))) (\<lambda>resLB.
     andThen (atomic (RunParallel E c (with_IP (CMSFrontends (Nodes cfg))) phase03_cms_cmd)) (\<lambda>resApache.
     Return (phase03_result cfg resLB resApache)))"

definition phase04 :: "('x, 'z) ssh_env_scheme \<Rightarrow> Config \<Rightarrow> ctx \<Rightarrow> 'x check" where
  "phase04 E cfg c = (case Masters (Nodes cfg) of
      m # ms \<Rightarrow> ask E c (n_IP m) phase04_cmd (phase04_result cfg)
    | [] \<Rightarrow> Return \<lparr>cr_Phase = ''Phase 04'', cr_Name = ''K3s & MariaDB Pod'', Pass = False, Details = ''No master node configured''\<rparr>)"

definition phase05 :: "('x, 'z) ssh_env_scheme \<Rightarrow> Config \<Rightarrow> ctx \<Rightarrow> 'x check" where
  "phase05 E cfg c = ask E c (n_IP (Monitor (Nodes cfg))) phase05_cmd phase05_result"

definition phase06 :: "('x, 'z) ssh_env_scheme \<Rightarrow> Config \<Rightarrow> ctx \<Rightarrow> 'x check" where
  "phase06 E cfg c = ask E c (n_IP (Router (Nodes cfg))) phase06_cmd phase06_result"

definition phase07 :: "('x, 'z) ssh_env_scheme \<Rightarrow> Config \<Rightarrow> ctx \<Rightarrow> 'x check" where
  "phase07 E cfg c = (let masterIPs = with_IP (Masters (Nodes cfg)) in
     if masterIPs = []
     then Return \<lparr>cr_Phase = ''Phase 07'', cr_Name = ''DRBD Status'', Pass = False, Details = ''No master nodes configured''\<rparr>
     else andThen (atomic (RunParallel E c masterIPs phase07_cmd)) (\<lambda>res.
       Return (phase07_result res)))"

definition checks :: "('x, 'z) ssh_env_scheme \<Rightarrow> Config \<Rightarrow> Client \<Rightarrow> ctx \<Rightarrow> 'x check list" where
  "checks E cfg L c = [phase00 E L c, phase01 E cfg c, phase02 E cfg c, phase03 E cfg c, phase04 E cfg c, phase05 E cfg c,
     phase06 E cfg c, phase07 E cfg c]"

definition result_line :: "CheckResult \<Rightarrow> string" where
  "result_line r = Sprintf ''%s - %s: %s'' [cr_Phase r, cr_Name r, if Pass r then ''[PASS]'' else ''[FAIL]'']
     @ (if Details r \<noteq> [] then '' ('' @ Details r @ '')'' else [])"

definition printResult :: "CheckResult \<Rightarrow> ('x, 'p) world \<Rightarrow> ('x, 'p) world" where
  "printResult r w = emit (Log (result_line r)) w"

definition VerifyAll :: "('x, 'z) ssh_env_scheme \<Rightarrow> Config \<Rightarrow> Client \<Rightarrow> ctx \<Rightarrow> 'x sworld \<Rightarrow> goerr option \<times> 'x sworld" where
  "VerifyAll E cfg L c w =
     (case parallel E (length (checks E cfg L c)) (checks E cfg L c) w of (rs, w1) \<Rightarrow>
       (let results = by_index (length (checks E cfg L c)) rs in
        (if list_all Pass results then None
           else Some ''infrastructure verification failed: one or more checks did not pass'',
         fold printResult results w1)))"

section \<open>The SSH status of all machines\<close>

record nodeStatus =
  ns_name :: string
  ns_ip :: string
  ns_state :: string
  ns_sshStatus :: string
  ns_healthy :: bool

definition node_status :: "NodeSpec \<Rightarrow> string \<Rightarrow> bool \<Rightarrow> nodeStatus" where
  "node_status n state ok = (let sshStatus = (if ok then ''OK'' else ''FAIL'') in
     \<lparr>ns_name = Name n, ns_ip = IP n, ns_state = state, ns_sshStatus = sshStatus, ns_healthy = (state = ''running'' \<and> sshStatus = ''OK'')\<rparr>)"

definition check_node :: "('x, 'z) ssh_env_scheme \<Rightarrow> Client \<Rightarrow> ctx \<Rightarrow> NodeSpec \<Rightarrow> ('x, nodeStatus) sproc" where
  "check_node E L ctx n = andThen (atomic (DomainState E L ctx (Name n))) (\<lambda>r.
     let state = (case r of Inl e \<Rightarrow> ''unknown'' | Inr s \<Rightarrow> s) in
     if state = ''running'' \<and> IP n \<noteq> []
     then andThen (atomic (\<lambda>w. (WithTimeout ctx (10 * Second) w, w))) (\<lambda>probeCtx.
          andThen (RunCommand E probeCtx (IP n) ''echo ok'') (\<lambda>r. Return (node_status n state (ro_err r = None))))
     else Return (node_status n state False))"

definition status_row :: "string \<Rightarrow> string \<Rightarrow> string \<Rightarrow> string \<Rightarrow> event" where
  "status_row name ip state ssh = Log (Sprintf ''%-20s %-15s %-10s %-10s'' [pad_right 20 name, pad_right 15 ip, pad_right 10 state, pad_right 10 ssh])"

definition print_status :: "nodeStatus \<Rightarrow> ('x, 'p) world \<Rightarrow> ('x, 'p) world" where
  "print_status s w = emit (status_row (ns_name s) (ns_ip s) (ns_state s) (ns_sshStatus s)) w"

definition CheckSSH :: "('x, 'z) ssh_env_scheme \<Rightarrow> Config \<Rightarrow> Client \<Rightarrow> ctx \<Rightarrow> 'x sworld \<Rightarrow> goerr option \<times> 'x sworld" where
  "CheckSSH E cfg L ctx w =
     (let nodes = filter (\<lambda>n. Name n \<noteq> []) (AllNodes cfg);
          w1 = emit (Log (replicate 60 (CHR ''-''))) (emit (status_row ''VM NAME'' ''IP'' ''STATE'' ''SSH'') w)
      in case parallel E (length nodes) (map (check_node E L ctx) nodes) w1 of (rs, w2) \<Rightarrow>
        (let results = by_index (length nodes) rs in
         (if list_all ns_healthy results then None else Some ''one or more VMs are not healthy or unreachable via SSH'',
          fold print_status results w2)))"

end
