(* ===== verification/Rely.thy ===== *)
theory Rely
  imports Parallel
begin

text \<open>
  Rely and guarantee for goroutines. \<open>yields R Q p w\<close>: a process that is at \<open>p\<close> in the world \<open>w\<close>, while the others change the
  world only along \<open>R\<close>, itself changes it only along \<open>R\<close>, and when it returns \<open>r\<close>, then \<open>Q r\<close> holds from there on.
\<close>

inductive yields :: "('w \<Rightarrow> 'w \<Rightarrow> bool) \<Rightarrow> ('r \<Rightarrow> 'w \<Rightarrow> bool) \<Rightarrow> ('w, 'r) proc \<Rightarrow> 'w \<Rightarrow> bool" for R Q where
  Return: "(\<And>w'. R w w' \<Longrightarrow> Q r w') \<Longrightarrow> yields R Q (Return r) w"
| Step: "(\<And>w'. R w w' \<Longrightarrow> R w' (snd (f w'))) \<Longrightarrow> (\<And>w'. R w w' \<Longrightarrow> yields R Q (fst (f w')) (snd (f w'))) \<Longrightarrow> yields R Q (Step f) w"

inductive_cases yields_ReturnE: "yields R Q (Return r) w"
inductive_cases yields_StepE: "yields R Q (Step f) w"

fun thread_yields :: "('w \<Rightarrow> 'w \<Rightarrow> bool) \<Rightarrow> ('r \<Rightarrow> 'w \<Rightarrow> bool) \<Rightarrow> ('w, 'r) thread \<Rightarrow> 'w \<Rightarrow> bool" where
  "thread_yields R Q (Waiting p) w = yields R Q p w"
| "thread_yields R Q (Running p) w = yields R Q p w"
| "thread_yields R Q (Released r) w = (\<forall>w'. R w w' \<longrightarrow> Q r w')"
| "thread_yields R Q Finished w = True"

definition group_yields :: "('w \<Rightarrow> 'w \<Rightarrow> bool) \<Rightarrow> (nat \<Rightarrow> 'r \<Rightarrow> 'w \<Rightarrow> bool) \<Rightarrow> 'w \<Rightarrow> ('w, 'r) group \<Rightarrow> bool" where
  "group_yields R Q w0 g \<longleftrightarrow> (case g of ((ts, fin), w) \<Rightarrow> R w0 w \<and>
     (\<forall>i < length ts. thread_yields R (Q i) (ts ! i) w) \<and> (\<forall>(i, r) \<in> set fin. \<forall>w'. R w w' \<longrightarrow> Q i r w'))"

context world_order
begin

lemma yields_later:
  assumes "yields R Q p w" and "R w v"
  shows "yields R Q p v"
proof -
  have "R v u \<Longrightarrow> R w u" for u using assms(2) by (rule trans)
  with assms(1) show ?thesis by (cases rule: yields.cases) (auto intro!: yields.intros)
qed

lemma yields_Return: "(\<And>w'. R w w' \<Longrightarrow> Q r w') \<Longrightarrow> yields R Q (Return r) w"
  by (rule yields.Return)

lemma yields_atomic:
  assumes "\<And>v r v'. R w v \<Longrightarrow> f v = (r, v') \<Longrightarrow> R v v' \<and> (\<forall>u. R v' u \<longrightarrow> Q r u)"
  shows "yields R Q (atomic f) w"
  unfolding atomic_def
proof (rule yields.Step)
  fix v assume v: "R w v"
  obtain r v' where f: "f v = (r, v')" by fastforce
  from assms [OF v f] f show "R v (snd (case f v of (r, w') \<Rightarrow> (Return r, w')))"
    and "yields R Q (fst (case f v of (r, w') \<Rightarrow> (Return r, w'))) (snd (case f v of (r, w') \<Rightarrow> (Return r, w')))"
    by (auto intro: yields.Return)
qed

lemma yields_andThen:
  assumes "yields R P p w" and "\<And>r v. R w v \<Longrightarrow> P r v \<Longrightarrow> yields R Q (k r) v"
  shows "yields R Q (andThen p k) w"
  using assms
proof (induction rule: yields.induct)
  case (Return w r)
  then show ?case using refl by simp
next
  case (Step w f)
  have "R v (snd (f v)) \<and> yields R Q (andThen (fst (f v)) k) (snd (f v))" if v: "R w v" for v
  proof -
    have "R w (snd (f v))" using v Step.hyps(1) [OF v] trans by blast
    with Step.IH [OF v] Step.prems Step.hyps(1) [OF v] show ?thesis using trans by blast
  qed
  then show ?case by (auto intro!: yields.Step)
qed

lemma yields_weaken: "yields R P p w \<Longrightarrow> (\<And>r v. R w v \<Longrightarrow> P r v \<Longrightarrow> Q r v) \<Longrightarrow> yields R Q p w"
proof (induction rule: yields.induct)
  case (Step w f)
  have "yields R Q (fst (f v)) (snd (f v))" if v: "R w v" for v
    using Step.IH [OF v] Step.prems Step.hyps(1) [OF v] v trans by blast
  with Step.hyps(1) show ?case by (auto intro: yields.Step)
qed (auto intro: yields.Return)

lemma yields_run:
  assumes "yields R Q p w" and "run_proc p w = (r, w')"
  shows "R w w' \<and> (\<forall>v. R w' v \<longrightarrow> Q r v)"
  using assms
proof (induction arbitrary: rule: yields.induct)
  case (Step w f)
  obtain p w1 where f: "f w = (p, w1)" by fastforce
  with Step.prems have "run_proc p w1 = (r, w')" by simp
  with Step.IH [OF refl] f have "R w1 w' \<and> (\<forall>v. R w' v \<longrightarrow> Q r v)" by simp
  moreover have "R w w1" using Step.hyps(1) [OF refl] f by simp
  ultimately show ?case using trans by blast
qed (use refl in auto)

lemma yields_steps: "steps_keep R p \<Longrightarrow> yields R (\<lambda>r v. True) p w"
proof (induction arbitrary: w rule: steps_keep.induct)
  case (Step f)
  then show ?case by (auto intro!: yields.Step)
qed (simp add: yields.Return)

lemma thread_yields_later: "thread_yields R Q t w \<Longrightarrow> R w v \<Longrightarrow> thread_yields R Q t v"
  using yields_later trans by (cases t) auto

lemma group_yields_move:
  assumes g: "group_yields R Q w0 ((ts, fin), w)" and i: "i < length ts" and R: "R w v" and t: "thread_yields R (Q i) t v"
  shows "group_yields R Q w0 ((ts[i := t], fin), v)"
  using assms trans thread_yields_later by (auto simp: group_yields_def nth_list_update) blast+

lemma group_yields_record:
  assumes g: "group_yields R Q w0 ((ts, fin), w)" and i: "i < length ts" and R: "R w v" and r: "\<forall>u. R v u \<longrightarrow> Q i r u"
  shows "group_yields R Q w0 ((ts[i := Finished], fin @ [(i, r)]), v)"
proof -
  have "group_yields R Q w0 ((ts[i := Finished], fin), v)" by (rule group_yields_move [OF g i R]) simp
  then show ?thesis using r by (auto simp: group_yields_def)
qed

lemma sched_step_yields:
  assumes "group_yields R Q w0 g"
  shows "group_yields R Q w0 (sched_step lim i g)"
proof -
  obtain ts fin w where g: "g = ((ts, fin), w)" by (metis surj_pair)
  show ?thesis
  proof (cases "i < length ts")
    case True
    then have t: "thread_yields R (Q i) (ts ! i) w" using assms g by (simp add: group_yields_def)
    note mv = group_yields_move [OF assms [unfolded g] True]
    show ?thesis
    proof (cases "ts ! i")
      case (Waiting p)
      with t g True assms show ?thesis by (auto intro!: mv refl)
    next
      case (Running p)
      show ?thesis
      proof (cases p)
        case (Return r)
        with Running t g True show ?thesis by (auto intro!: mv refl elim: yields_ReturnE)
      next
        case (Step f)
        obtain p' w' where f: "f w = (p', w')" by fastforce
        have "R w (snd (f w)) \<and> yields R (Q i) (fst (f w)) (snd (f w))"
          using t Running Step refl by (auto elim: yields_StepE)
        with f Running Step g True show ?thesis by (auto intro!: mv)
      qed
    next
      case (Released r)
      with t g True show ?thesis by (auto intro!: group_yields_record [OF assms [unfolded g] True] refl)
    next
      case Finished
      with g True assms show ?thesis by simp
    qed
  qed (use assms g in simp)
qed

lemma finish_thread_yields:
  assumes "group_yields R Q w0 g" and i: "i < length (fst (fst g))"
  shows "group_yields R Q w0 (finish_thread i g)"
proof -
  obtain ts fin w where g: "g = ((ts, fin), w)" by (metis surj_pair)
  with i have i: "i < length ts" by simp
  then have t: "thread_yields R (Q i) (ts ! i) w" using assms g by (simp add: group_yields_def)
  note rec = group_yields_record [OF assms(1) [unfolded g] i]
  have "group_yields R Q w0 (case run_proc p w of (r, w') \<Rightarrow> ((ts[i := Finished], fin @ [(i, r)]), w'))"
    if "yields R (Q i) p w" for p
    using yields_run [OF that] rec by (auto split: prod.split)
  with t g assms show ?thesis by (cases "ts ! i") (auto intro!: rec refl)
qed

theorem par_exec_yields:
  assumes ps: "\<And>i. i < length ps \<Longrightarrow> yields R (Q i) (ps ! i) w" and run: "par_exec lim sched ps w = (fin, w')"
  shows "R w w' \<and> (\<forall>(i, r) \<in> set fin. \<forall>v. R w' v \<longrightarrow> Q i r v)"
proof -
  let ?g = "run_sched lim sched (start_group ps w)"
  have "group_yields R Q w (start_group ps w)" using ps refl by (auto simp: group_yields_def start_group_def)
  then have 0: "group_yields R Q w ?g"
    unfolding run_sched_def by (induction sched rule: rev_induct) (simp_all add: sched_step_yields)
  have fold: "group_yields R Q w (fold finish_thread is g)"
    if "group_yields R Q w g" "set is \<subseteq> {..<length (fst (fst g))}" for "is" g
    using that
  proof (induction "is" arbitrary: g)
    case (Cons i "is")
    then have "group_yields R Q w (finish_thread i g)" by (intro finish_thread_yields) auto
    with Cons.IH [of "finish_thread i g"] Cons.prems(2) show ?case by (simp add: finish_thread_length)
  qed simp
  have "group_yields R Q w (finish_all ?g)" using fold [OF 0] by (simp add: finish_all_def)
  then show ?thesis using run by (auto simp: par_exec_def group_yields_def split: prod.splits)
qed

end

end
