(* ===== verification/SshRoute.thy ===== *)
theory SshRoute
  imports SshRemote Rely
begin

text \<open>
  Commands go where they should: a connection in the pool was dialled to the host under which it is filed, whatever the goroutines
  do, so the output of a command comes from the host that was asked.
\<close>

section \<open>The pool files connections under their hosts\<close>

definition dialled :: "string \<Rightarrow> nat \<Rightarrow> 'x sworld \<Rightarrow> bool" where
  "dialled host c w \<longleftrightarrow> Dial (ensurePort host ''22'') c \<in> set (w_trace w)"

definition routed :: "'x sworld \<Rightarrow> bool" where
  "routed w \<longleftrightarrow> (\<forall>(h, c) \<in> set (clients (w_heap w)). dialled h c w)"

definition grows :: "('x, 'p) world \<Rightarrow> ('x, 'p) world \<Rightarrow> bool" where
  "grows w w' \<longleftrightarrow> later w w' \<and> extends (\<lambda>e. True) w w'"

definition onward :: "'x sworld \<Rightarrow> 'x sworld \<Rightarrow> bool" where
  "onward w w' \<longleftrightarrow> grows w w' \<and> (routed w \<longrightarrow> routed w')"

interpretation onward: world_order onward
  by unfold_locales (auto simp: onward_def grows_def intro: clk.refl clk.trans ext.refl ext.trans)

lemma grows_afar: "afar S w w' \<Longrightarrow> grows w w'"
  by (auto simp: afar_def grows_def intro: extends_weaken)

lemma dialled_later: "dialled h c w \<Longrightarrow> grows w w' \<Longrightarrow> dialled h c w'"
  by (auto simp: dialled_def grows_def extends_def)

lemma onwardI: "grows w w' \<Longrightarrow> set (clients (w_heap w')) \<subseteq> set (clients (w_heap w)) \<Longrightarrow> onward w w'"
  by (fastforce simp: onward_def routed_def dest: dialled_later)

lemma onward_grows: "onward w w' \<Longrightarrow> grows w w'"
  by (simp add: onward_def)

lemma dialled_onward: "dialled h c w \<Longrightarrow> onward w w' \<Longrightarrow> dialled h c w'"
  by (blast intro: dialled_later onward_grows)

text \<open>Most steps leave the connections of the pool alone.\<close>

definition same_clients :: "'x sworld \<Rightarrow> 'x sworld \<Rightarrow> bool" where
  "same_clients w w' \<longleftrightarrow> clients (w_heap w') = clients (w_heap w)"

interpretation same_clients: world_order same_clients
  by unfold_locales (auto simp: same_clients_def)

lemma same_clients_op [keeping]: "keeps same_clients (do_op E op)"
  by (auto simp: keeps_def same_clients_def) (metis do_op_heap prod.collapse)

lemma same_clients_state:
  "same_clients w (snd (initKey E w))" "same_clients w (reload_callback E w)"
  "(\<And>p. clients (f p) = clients p) \<Longrightarrow> same_clients w (set_pool f w)"
  by (simp_all add: same_clients_def initKey_def reload_callback_def set_pool_def Let_def split: sum.split)

lemma same_clients_trust [keeping]: "keeps same_clients (trustHostKey E h r k)"
proof (rule keepsI)
  fix w res w' assume run: "trustHostKey E h r k w = (res, w')"
  let ?p = "knownHostsPath (w_heap w)" and ?l = "s_khLine E (s_khNormalize E (case r of None \<Rightarrow> h | Some a \<Rightarrow> a)) k"
  obtain r1 w1 where 1: "do_op E (MkdirAll (path_Dir ?p) 448) w = (r1, w1)" by fastforce
  obtain r2 w2 where 2: "do_op E (AppendFile ?p [] 384) w1 = (r2, w2)" by fastforce
  obtain r3 w3 where 3: "do_op E (AppendFile ?p (?l @ [nl]) 384) w2 = (r3, w3)" by fastforce
  obtain r4 w4 where 4: "do_op E (CloseFile ?p) w3 = (r4, w4)" by fastforce
  have w': "w' \<in> {w, w1, w2, w4, reload_callback E w4}" using run 1 2 3 4
    by (auto simp: trustHostKey_def Let_def split: if_splits option.splits)
  note c = do_op_heap [OF 1] do_op_heap [OF 2] do_op_heap [OF 3] do_op_heap [OF 4]
  show "same_clients w w'" using w' c same_clients_state(2) [of w4 E] by (auto simp: same_clients_def)
qed

lemma same_clients_verify [keeping]: "keeps same_clients (verifyHostKey E h r k)"
proof (rule keepsI)
  fix w res w' assume run: "verifyHostKey E h r k w = (res, w')"
  show "same_clients w w'"
  proof (cases "current_callback E w")
    case (Inr cb)
    let ?w = "set_pool (\<lambda>p. p\<lparr>knownHostsCallback := Some cb\<rparr>) w"
    have 1: "same_clients w ?w" by (rule same_clients_state) simp
    have "w' = ?w \<or> trustHostKey E h r k ?w = (res, w')"
      using run Inr by (simp add: verifyHostKey_alt split: kh_answer.splits)
    then show ?thesis using 1 same_clients.trans [OF 1] keepsD [OF same_clients_trust] by blast
  qed (use run same_clients.refl in \<open>simp add: verifyHostKey_alt\<close>)
qed

lemma same_clients_lookup [keeping]: "keeps same_clients (lookup_client E host)"
proof (rule keepsI)
  fix w r w' assume run: "lookup_client E host w = (r, w')"
  obtain e w1 where c: "(if p_config (w_heap w) = None then initKey E w else (None, w)) = (e, w1)" by fastforce
  then have "same_clients w w1" using same_clients_state(1) [of w E] same_clients.refl [of w] by (auto split: if_splits)
  then show "same_clients w w'" using run c by (cases e) (auto simp: lookup_client_def)
qed

lemma same_clients_steps [keeping]:
  "keeps same_clients (NewSession E c)" "keeps same_clients (established addr)"
  "keeps same_clients (\<lambda>w. case s_dial E addr cfg w of (h, d) \<Rightarrow> (h, elapse d w))"
  by (auto simp: keeps_def NewSession_def established_def same_clients_def elapse_def split: prod.split)

lemma same_clients_run [keeping]: "keeps same_clients (run_session E ctx c cmd stdin)"
proof (rule keepsI)
  fix w r w' assume run: "run_session E ctx c cmd stdin w = (r, w')"
  let ?w = "emit (RunOn c (remoteCommand (w_heap w) cmd)) w"
  obtain rr out x where 1: "s_run E c (remoteCommand (w_heap w) cmd) stdin ?w = ((rr, out), x)" by (metis prod.collapse)
  obtain b w1 where wt: "wait_until E ctx (w_clock ?w + int (rr_time rr)) ?w = (b, w1)" by fastforce
  have "w_heap w1 = w_heap w" using wait_until_frame [OF wt] by (metis emit_simps(6) world.ext_inject world.surjective world.update_convs(2))
  with run 1 wt show "same_clients w w'" by (cases b) (auto simp: run_session_def Let_def same_clients_def elapse_def split: prod.splits)
qed

lemma onward_step: "keeps (afar S) f \<Longrightarrow> keeps same_clients f \<Longrightarrow> keeps onward f"
  by (auto simp: keeps_def same_clients_def intro: onwardI [OF grows_afar])

lemmas onward_steps [keeping] =
  onward_step [OF keeps_afar [OF calm_verify] same_clients_verify] onward_step [OF keeps_afar [OF calm_lookup] same_clients_lookup]
  onward_step [OF keeps_afar [OF calm_NewSession] same_clients_steps(1)] onward_step [OF keeps_afar [OF calm_established] same_clients_steps(2)]
  onward_step [OF keeps_afar [OF calm_dial_step] same_clients_steps(3)] onward_step [OF afar_run_session [OF UNIV_I] same_clients_run]

lemma onward_invalidate [keeping]: "keeps onward (invalidateClient host)"
proof (rule keepsI)
  fix w r w' assume run: "invalidateClient host w = (r, w')"
  have "set (clients (w_heap w')) \<subseteq> set (clients (w_heap w))"
    using run by (auto simp: invalidateClient_def set_pool_def split: option.splits)
  then show "onward w w'" using onwardI grows_afar keepsD [OF keeps_afar [OF calm_invalidate] run] by blast
qed

section \<open>Connections\<close>

lemma yields_step: "keeps onward f \<Longrightarrow> yields onward (\<lambda>r v. True) (atomic f) w"
  by (rule onward.yields_atomic) (auto dest: keepsD)

lemma yields_then: "keeps onward f \<Longrightarrow> (\<And>r v. onward w v \<Longrightarrow> yields onward Q (k r) v) \<Longrightarrow> yields onward Q (andThen (atomic f) k) w"
  by (rule onward.yields_andThen [OF yields_step]) simp_all

definition connected :: "string \<Rightarrow> nat res \<Rightarrow> 'x sworld \<Rightarrow> bool" where
  "connected host r w \<longleftrightarrow> (case r of Inl e \<Rightarrow> True | Inr c \<Rightarrow> dialled host c w)"

lemma yields_Dial: "yields onward (connected host) (ssh_Dial E (ensurePort host ''22'') cfg) w"
proof -
  have est: "yields onward (connected host) (atomic (established (ensurePort host ''22''))) v" for v :: "'a sworld"
  proof (rule onward.yields_atomic)
    fix u :: "'a sworld" and r u' assume f: "established (ensurePort host ''22'') u = (r, u')"
    have "connected host r u'" using f by (auto simp: established_def connected_def dialled_def)
    moreover have "onward u u'" using keepsD [OF onward_steps(4) f] .
    ultimately show "onward u u' \<and> (\<forall>z. onward u' z \<longrightarrow> connected host r z)"
      by (auto simp: connected_def intro: dialled_onward split: sum.splits)
  qed
  show ?thesis unfolding ssh_Dial_def
    by (intro yields_then onward_steps) (auto intro!: yields_then onward_steps est onward.yields_Return
      simp: connected_def split: handshake.split option.split)
qed

lemma yields_getClient: "routed w \<Longrightarrow> yields onward (connected host) (getClient E host) w"
proof -
  assume w: "routed w"
  let ?P = "\<lambda>(r :: (nat option \<times> ClientConfig) res) v. case r of Inr (Some c, cfg) \<Rightarrow> dialled host c v | _ \<Rightarrow> True"
  have look: "yields onward ?P (atomic (lookup_client E host)) w"
  proof (rule onward.yields_atomic)
    fix v r v' assume v: "onward w v" and f: "lookup_client E host v = (r, v')"
    have "onward v v'" using keepsD [OF onward_steps(2) f] .
    moreover have "routed v" using v w by (simp add: onward_def)
    ultimately have "routed v'" by (simp add: onward_def)
    then have "?P r v'" using f by (auto simp: lookup_client_def routed_def dest!: map_of_SomeD split: prod.splits option.splits if_splits)
    then show "onward v v' \<and> (\<forall>u. onward v' u \<longrightarrow> ?P r u)" using \<open>onward v v'\<close>
      by (auto intro: dialled_onward split: sum.splits option.splits)
  qed
  have adopt: "yields onward (connected host) (atomic (adopt_client host c)) v" if "routed v" "dialled host c v" for c v
  proof (rule onward.yields_atomic)
    fix u r u' assume u: "onward v u" and f: "adopt_client host c u = (r, u')"
    have d: "dialled host c u" "routed u" using that u dialled_later by (auto simp: onward_def)
    have a: "grows u u'" using grows_afar keepsD [OF keeps_afar [OF calm_adopt] f] .
    have "routed u' \<and> connected host r u'" using f d dialled_later [OF _ a]
      by (auto simp: adopt_client_def routed_def connected_def set_pool_def dialled_def dest!: map_of_SomeD split: option.splits)
    then show "onward u u' \<and> (\<forall>z. onward u' z \<longrightarrow> connected host r z)"
      using a by (auto simp: onward_def connected_def dest: dialled_later split: sum.splits)
  qed
  have dial: "yields onward (connected host) (andThen (ssh_Dial E (ensurePort host ''22'') cfg) (\<lambda>d. case d of
          Inl e \<Rightarrow> Return (Inl (Errorf ''failed to dial %s: %w'' [host, e]))
        | Inr c \<Rightarrow> atomic (adopt_client host c))) v" if v: "routed v" for cfg v
  proof (rule onward.yields_andThen [OF yields_Dial])
    fix r :: "nat res" and u assume "onward v u" "connected host r u"
    with v have "routed u" by (simp add: onward_def)
    with \<open>connected host r u\<close> show "yields onward (connected host) (case r of
          Inl e \<Rightarrow> Return (Inl (Errorf ''failed to dial %s: %w'' [host, e])) | Inr c \<Rightarrow> atomic (adopt_client host c)) u"
      by (auto simp: connected_def intro: adopt onward.yields_Return split: sum.splits)
  qed
  show ?thesis unfolding getClient_def
  proof (rule onward.yields_andThen [OF look])
    fix r v assume "onward w v" "?P r v"
    with w have "routed v" by (simp add: onward_def)
    with \<open>?P r v\<close> dial show "yields onward (connected host) (case r of Inl e \<Rightarrow> Return (Inl e) | Inr (Some c, cfg) \<Rightarrow> Return (Inr c)
      | Inr (None, cfg) \<Rightarrow> andThen (ssh_Dial E (ensurePort host ''22'') cfg) (\<lambda>d. case d of
            Inl e \<Rightarrow> Return (Inl (Errorf ''failed to dial %s: %w'' [host, e]))
          | Inr c \<Rightarrow> atomic (adopt_client host c))) v"
      by (auto simp: connected_def intro!: onward.yields_Return intro: dialled_onward split: sum.splits option.splits)
  qed
qed

lemma yields_open_session:
  assumes new: "\<And>c. keeps onward (new c)" and w: "routed w"
  shows "yields onward (connected host) (open_session E new what host) w"
proof -
  have ret: "yields onward (connected host) (Return (Inr c)) v" if "dialled host c v" for c v
    using that by (auto intro!: onward.yields_Return intro: dialled_onward simp: connected_def)
  have fail: "yields onward (connected host) (Return (Inl e)) v" for e v
    by (rule onward.yields_Return) (simp add: connected_def)
  have again: "yields onward (connected host) (andThen (getClient E host) (\<lambda>r'. case r' of
            Inl e' \<Rightarrow> Return (Inl e')
          | Inr c' \<Rightarrow> andThen (atomic (new c')) (\<lambda>s'. case s' of
              None \<Rightarrow> Return (Inr c')
            | Some e' \<Rightarrow> Return (Inl (Errorf ''failed to create %s on %s: %w'' [what, host, e']))))) v" if "routed v" for v
    by (rule onward.yields_andThen [OF yields_getClient [OF that]])
      (auto simp: connected_def intro!: yields_then new ret fail intro: dialled_onward split: sum.splits option.splits)
  show ?thesis unfolding open_session_def
  proof (rule onward.yields_andThen [OF yields_getClient [OF w]])
    fix r :: "nat res" and v assume "onward w v" and r: "connected host r v"
    then have later: "onward v u \<Longrightarrow> routed u" for u using w by (simp add: onward_def)
    show "yields onward (connected host) (case r of Inl e \<Rightarrow> Return (Inl e)
      | Inr c \<Rightarrow> andThen (atomic (new c)) (\<lambda>s. case s of
          None \<Rightarrow> Return (Inr c)
        | Some e \<Rightarrow> andThen (atomic (invalidateClient host)) (\<lambda>_. andThen (getClient E host) (\<lambda>r'. case r' of
              Inl e' \<Rightarrow> Return (Inl e')
            | Inr c' \<Rightarrow> andThen (atomic (new c')) (\<lambda>s'. case s' of
                None \<Rightarrow> Return (Inr c')
              | Some e' \<Rightarrow> Return (Inl (Errorf ''failed to create %s on %s: %w'' [what, host, e']))))))) v"
      using r by (auto simp: connected_def intro!: yields_then new ret fail again onward_invalidate split: sum.split option.split)
        (blast intro: dialled_onward later onward.trans)+
  qed
qed

text \<open>A command that ended, successfully or not, was run on a connection to its host, during the call.\<close>

definition served :: "('x, 'z) ssh_env_scheme \<Rightarrow> ctx \<Rightarrow> string \<Rightarrow> string \<Rightarrow> 'x sworld \<Rightarrow> run_out \<Rightarrow> 'x sworld \<Rightarrow> bool" where
  "served E ctx host cmd w r w' \<longleftrightarrow> (\<exists>c u v. onward w u \<and> dialled host c u \<and> run_session E ctx c cmd None u = (r, v) \<and> onward v w')"

lemma yields_RunCommand_ended:
  assumes w: "routed w"
  shows "yields onward (\<lambda>r v. ro_err r = None \<or> ro_code r \<noteq> -1 \<longrightarrow> served E ctx host cmd w r v) (RunCommand E ctx host cmd) w"
  unfolding RunCommand_def RunCommandToWriter_def RunCommandStdin_def
proof (simp only: not_True_eq_False if_False, rule onward.yields_andThen [OF yields_open_session [OF onward_steps(3) w]])
  fix r :: "nat res" and v assume v: "onward w v" and r: "connected host r v"
  let ?Q = "\<lambda>r v. ro_err r = None \<or> ro_code r \<noteq> -1 \<longrightarrow> served E ctx host cmd w r v"
  have run: "yields onward ?Q (atomic (run_session E ctx c cmd None)) v" if c: "dialled host c v" for c
  proof (rule onward.yields_atomic)
    fix u r u' assume u: "onward v u" and f: "run_session E ctx c cmd None u = (r, u')"
    have "onward w u" using onward.trans [OF v u] .
    moreover have "dialled host c u" using dialled_onward [OF c u] .
    ultimately show "onward u u' \<and> (\<forall>z. onward u' z \<longrightarrow> ?Q r z)"
      using keepsD [OF onward_steps(6) f] f unfolding served_def by blast
  qed
  show "yields onward ?Q (case r of
      Inl e \<Rightarrow> Return \<lparr>ro_stdout = [], ro_stderr = [], ro_code = -1, ro_err = Some e\<rparr>
    | Inr c \<Rightarrow> atomic (run_session E ctx c cmd None)) v"
  proof (cases r)
    case (Inr c)
    show ?thesis unfolding Inr sum.case by (rule run) (use r Inr in \<open>simp add: connected_def\<close>)
  qed (simp add: onward.yields_Return)
qed

lemma yields_RunCommand:
  "routed w \<Longrightarrow> yields onward (\<lambda>r v. ro_err r = None \<longrightarrow> served E ctx host cmd w r v) (RunCommand E ctx host cmd) w"
  by (rule onward.yields_weaken [OF yields_RunCommand_ended]) simp_all

lemma run_command_ended:
  assumes "routed w" and "run_proc (RunCommand E ctx host cmd) w = (r, w')" and "ro_code r \<noteq> -1"
  shows "served E ctx host cmd w r w'"
  using onward.yields_run [OF yields_RunCommand_ended [OF assms(1)] assms(2)] assms(3) onward.refl by blast

lemma run_command_served:
  assumes "routed w" and "run_proc (RunCommand E ctx host cmd) w = (r, w')" and "ro_err r = None"
  shows "served E ctx host cmd w r w'"
  using onward.yields_run [OF yields_RunCommand [OF assms(1)] assms(2)] assms(3) onward.refl by blast

section \<open>Several hosts\<close>

text \<open>Every successful result of a parallel run is the answer of its own host.\<close>

lemma yields_host_result:
  "routed w \<Longrightarrow> yields onward (\<lambda>r v. Host r = host \<and> (Err r = None \<longrightarrow>
      (\<exists>o'. r = host_result host o' \<and> served E ctx host cmd w o' v)))
    (andThen (RunCommand E ctx host cmd) (\<lambda>r. Return (host_result host r))) w"
proof (rule onward.yields_andThen [OF yields_RunCommand], assumption)
  fix r v assume "routed w" "onward w v" and r: "ro_err r = None \<longrightarrow> served E ctx host cmd w r v"
  have "served E ctx host cmd w r u" if "onward v u" "ro_err r = None" for u
    using r that onward.trans unfolding served_def by blast
  then show "yields onward (\<lambda>r v. Host r = host \<and> (Err r = None \<longrightarrow> (\<exists>o'. r = host_result host o' \<and> served E ctx host cmd w o' v)))
      (Return (host_result host r)) v"
    by (auto intro!: onward.yields_Return simp: host_result_def)
qed

lemma by_index_mem:
  assumes "distinct (map fst fin) \<and> set (map fst fin) = {..<n}" and "i < n"
  shows "(i, by_index n fin ! i) \<in> set fin"
proof -
  obtain r where "map_of fin i = Some r" using assms by (metis map_of_eq_None_iff list.set_map lessThan_iff not_None_eq)
  with assms(2) show ?thesis by (auto simp: by_index_def dest: map_of_SomeD)
qed

lemma RunParallel_onward:
  assumes w: "routed w" and run: "RunParallel E ctx hosts cmd w = (rs, w')"
  shows "onward w w' \<and> (\<forall>r \<in> set rs. Err r = None \<longrightarrow> (\<exists>o'. r = host_result (Host r) o' \<and> Host r \<in> set hosts \<and>
    served E ctx (Host r) cmd w o' w'))"
proof (cases "hosts = []")
  case False
  let ?ps = "map (\<lambda>h. andThen (RunCommand E ctx h cmd) (\<lambda>r. Return (host_result h r))) hosts"
  let ?Q = "\<lambda>i r v. Host r = hosts ! i \<and> (Err r = None \<longrightarrow> (\<exists>o'. r = host_result (hosts ! i) o' \<and> served E ctx (hosts ! i) cmd w o' v))"
  obtain fin where f: "par_exec (parallelLimit (length hosts)) (e_sched E w) ?ps w = (fin, w')" and rs: "rs = by_index (length hosts) fin"
    using run False by (auto simp: RunParallel_def parallel_def split: prod.splits)
  have "yields onward (?Q i) (?ps ! i) w" if "i < length ?ps" for i
    using that yields_host_result [OF w] by simp
  from onward.par_exec_yields [OF this f]
  have on: "onward w w'" and q: "\<And>i r. (i, r) \<in> set fin \<Longrightarrow> ?Q i r w'" using onward.refl by fastforce+
  have "\<exists>i. (i, r) \<in> set fin \<and> i < length hosts" if "r \<in> set rs" for r
  proof -
    obtain i where i: "i < length rs" "r = rs ! i" by (metis \<open>r \<in> set rs\<close> in_set_conv_nth)
    then have "i < length hosts" using rs by (simp add: by_index_def)
    with i rs show ?thesis using by_index_mem [of fin "length hosts" i] par_exec_complete [OF f] by auto
  qed
  with q on show ?thesis by (metis nth_mem)
qed (use run onward.refl in \<open>auto simp: RunParallel_def\<close>)

lemma keeps_RunParallel: "routed w \<Longrightarrow> RunParallel E ctx hosts cmd w = (rs, w') \<Longrightarrow> onward w w'"
  using RunParallel_onward by blast

end
