(* ===== verification/VerifyProps.thy ===== *)
theory VerifyProps
  imports Verify SshRoute FailoverProps SshProps
begin

text \<open>
  What a passed verification of the infrastructure is worth, under every schedule of the checks: the hosts themselves gave the
  answers that the checks look for, during the run.
\<close>

section \<open>Evidence\<close>

definition seen :: "('x, 'z) ssh_env_scheme \<Rightarrow> ctx \<Rightarrow> 'x sworld \<Rightarrow> string \<Rightarrow> string \<Rightarrow> (run_out \<Rightarrow> bool) \<Rightarrow> bool" where
  "seen E c w host cmd ok \<longleftrightarrow> (\<exists>r v. served E c host cmd w r v \<and> ro_err r = None \<and> ok r)"

lemma served_earlier: "onward w v \<Longrightarrow> served E c host cmd v r u \<Longrightarrow> served E c host cmd w r u"
  unfolding served_def using onward.trans by blast

lemma served_later: "served E c host cmd w r v \<Longrightarrow> onward v u \<Longrightarrow> served E c host cmd w r u"
  unfolding served_def using onward.trans by blast

lemma seen_earlier: "onward w v \<Longrightarrow> seen E c v host cmd ok \<Longrightarrow> seen E c w host cmd ok"
  unfolding seen_def using served_earlier by blast

lemma routed_onward: "routed w \<Longrightarrow> onward w v \<Longrightarrow> routed v"
  by (simp add: onward_def)

lemma yields_ask:
  assumes "routed w" and "\<And>r. Pass (result r) \<Longrightarrow> ro_err r = None"
  shows "yields onward (\<lambda>r v. Pass r \<longrightarrow> seen E c w host cmd (\<lambda>r. Pass (result r))) (ask E c host cmd result) w"
  unfolding ask_def
  by (rule onward.yields_andThen [OF yields_RunCommand [OF assms(1)]])
    (use assms(2) in \<open>auto intro!: onward.yields_Return simp: seen_def\<close>)

lemma onward_RunParallel: "keeps onward (RunParallel E c hosts cmd)"
proof (rule keepsI)
  fix w rs w' assume run: "RunParallel E c hosts cmd w = (rs, w')"
  have "grows w w'" by (rule grows_afar [OF keepsD [OF afar_RunParallel [OF UNIV_I] run]])
  moreover have "routed w \<longrightarrow> routed w'" using RunParallel_onward [OF _ run] by (auto simp: onward_def)
  ultimately show "onward w w'" by (simp add: onward_def)
qed

definition hosts_seen :: "('x, 'z) ssh_env_scheme \<Rightarrow> ctx \<Rightarrow> 'x sworld \<Rightarrow> string list \<Rightarrow> string \<Rightarrow> ParallelResult list \<Rightarrow> bool" where
  "hosts_seen E c w hosts cmd rs \<longleftrightarrow> map Host rs = hosts \<and>
     (\<forall>r \<in> set rs. Err r = None \<longrightarrow> (\<exists>o' v. r = host_result (Host r) o' \<and> served E c (Host r) cmd w o' v))"

lemma yields_RunParallel:
  assumes "routed w"
  shows "yields onward (\<lambda>rs v. hosts_seen E c w hosts cmd rs) (atomic (RunParallel E c hosts cmd)) w"
proof (rule onward.yields_atomic)
  fix v rs v' assume v: "onward w v" and run: "RunParallel E c hosts cmd v = (rs, v')"
  have "map Host rs = hosts" using RunParallel_hosts [of E c hosts cmd v] run by simp
  moreover have "\<exists>o' u. r = host_result (Host r) o' \<and> served E c (Host r) cmd w o' u" if "r \<in> set rs" "Err r = None" for r
    using RunParallel_onward [OF routed_onward [OF assms v] run] that served_earlier [OF v] by blast
  ultimately show "onward v v' \<and> (\<forall>u. onward v' u \<longrightarrow> hosts_seen E c w hosts cmd rs)"
    using keepsD [OF onward_RunParallel run] unfolding hosts_seen_def by blast
qed

lemma hosts_seen_host:
  assumes "hosts_seen E c w hosts cmd rs" and "h \<in> set hosts" and "\<And>r. r \<in> set rs \<Longrightarrow> Err r = None \<and> ok r"
  shows "seen E c w h cmd (\<lambda>o'. ok (host_result h o'))"
proof -
  obtain r where r: "r \<in> set rs" "Host r = h" using assms(1,2) by (force simp: hosts_seen_def)
  with assms(1,3) obtain o' v where "r = host_result h o'" "served E c h cmd w o' v" unfolding hosts_seen_def by blast
  with assms(3) [OF r(1)] show ?thesis unfolding seen_def by (auto simp: host_result_def)
qed

section \<open>The checks\<close>

lemma onward_virsh: "keeps onward (virsh E L c args)"
proof (rule keepsI)
  fix w :: "'a sworld" and r w' assume run: "virsh E L c args w = (r, w')"
  have "extends (\<lambda>e. True) w w'" by (rule keepsD [OF virsh_issues run]) simp
  then have "grows w w'" using keepsD [OF virsh_later(1) run] by (simp add: grows_def)
  moreover have "w_heap w' = w_heap w" using run run_cmd_heap [of E c "virsh_argv L args" w]
    by (auto simp: virsh_def split: prod.splits option.splits)
  ultimately show "onward w w'" by (intro onwardI) simp_all
qed

lemma onward_ListRunning: "keeps onward (ListRunning E L c)"
proof -
  have "keeps onward (ListAll E L c)" unfolding ListAll_def by (intro keeping onward.keeps_intros onward_virsh)
  then show ?thesis unfolding ListRunning_def by (intro keeping onward.keeps_intros)
qed

lemma yields_phase00:
  "yields onward (\<lambda>r v. Pass r \<longrightarrow> (\<exists>u d ds u'. onward w u \<and> ListRunning E L c u = (Inr (d # ds), u'))) (phase00 E L c) w"
  unfolding phase00_def
proof (rule onward.yields_andThen)
  show "yields onward (\<lambda>r v. \<exists>u u'. onward w u \<and> ListRunning E L c u = (r, u')) (atomic (ListRunning E L c)) w"
    by (rule onward.yields_atomic) (use keepsD [OF onward_ListRunning] in blast)
next
  fix r :: "string list res" and v assume r: "\<exists>u u'. onward w u \<and> ListRunning E L c u = (r, u')"
  have "Pass (phase00_result r) \<Longrightarrow> \<exists>d ds. r = Inr (d # ds)"
    by (cases r; cases "projr r") (simp_all add: phase00_result_def Let_def)
  with r show "yields onward (\<lambda>r v. Pass r \<longrightarrow> (\<exists>u d ds u'. onward w u \<and> ListRunning E L c u = (Inr (d # ds), u')))
      (Return (phase00_result r)) v"
    by (intro onward.yields_Return) blast
qed

lemma lb_issues_Nil: "lb_issues name r = [] \<longleftrightarrow> Err r = None \<and> ExitCode r = 0 \<and> Contains (Output r) name"
  by (simp add: lb_issues_def)

lemma cms_issues_Nil: "cms_issues r = [] \<longleftrightarrow> Err r = None \<and> ExitCode r = 0"
  by (simp add: cms_issues_def)

lemma phase03_pass: "Pass (phase03_result cfg lbs cmss) \<longleftrightarrow>
    (\<forall>r \<in> set lbs. lb_issues (PKICommonName cfg) r = []) \<and> (\<forall>r \<in> set cmss. cms_issues r = [])"
  by (simp add: phase03_result_def Let_def)

lemma yields_phase03:
  assumes "routed w"
  shows "yields onward (\<lambda>r v. Pass r \<longrightarrow>
      (\<forall>ip \<in> set (with_IP (LBs (Nodes cfg))). seen E c w ip (phase03_lb_cmd cfg) (\<lambda>o'. ro_code o' = 0 \<and> Contains (ro_stdout o') (PKICommonName cfg))) \<and>
      (\<forall>ip \<in> set (with_IP (CMSFrontends (Nodes cfg))). seen E c w ip phase03_cms_cmd (\<lambda>o'. ro_code o' = 0)))
    (phase03 E cfg c) w"
  unfolding phase03_def
proof (rule onward.yields_andThen [OF yields_RunParallel [OF assms]])
  let ?lb = "with_IP (LBs (Nodes cfg))" and ?cms = "with_IP (CMSFrontends (Nodes cfg))"
  let ?Q = "\<lambda>r v. Pass r \<longrightarrow>
      (\<forall>ip \<in> set ?lb. seen E c w ip (phase03_lb_cmd cfg) (\<lambda>o'. ro_code o' = 0 \<and> Contains (ro_stdout o') (PKICommonName cfg))) \<and>
      (\<forall>ip \<in> set ?cms. seen E c w ip phase03_cms_cmd (\<lambda>o'. ro_code o' = 0))"
  fix lbs v assume v: "onward w v" and lbs: "hosts_seen E c w ?lb (phase03_lb_cmd cfg) lbs"
  show "yields onward ?Q (andThen (atomic (RunParallel E c ?cms phase03_cms_cmd)) (\<lambda>cmss. Return (phase03_result cfg lbs cmss))) v"
  proof (rule onward.yields_andThen [OF yields_RunParallel [OF routed_onward [OF assms v]]], rule onward.yields_Return)
    fix cmss u u' assume cms: "hosts_seen E c v ?cms phase03_cms_cmd cmss"
    show "?Q (phase03_result cfg lbs cmss) u'"
    proof
      assume "Pass (phase03_result cfg lbs cmss)"
      then have ok: "\<And>r. r \<in> set lbs \<Longrightarrow> Err r = None \<and> ExitCode r = 0 \<and> Contains (Output r) (PKICommonName cfg)"
        "\<And>r. r \<in> set cmss \<Longrightarrow> Err r = None \<and> ExitCode r = 0"
        by (simp_all add: phase03_pass lb_issues_Nil cms_issues_Nil)
      have "seen E c w ip (phase03_lb_cmd cfg) (\<lambda>o'. ro_code o' = 0 \<and> Contains (ro_stdout o') (PKICommonName cfg))" if "ip \<in> set ?lb" for ip
        using hosts_seen_host [OF lbs that, of "\<lambda>r. ExitCode r = 0 \<and> Contains (Output r) (PKICommonName cfg)"] ok(1)
        by (simp add: host_result_def)
      moreover have "seen E c v ip phase03_cms_cmd (\<lambda>o'. ro_code o' = 0)" if "ip \<in> set ?cms" for ip
        using hosts_seen_host [OF cms that, of "\<lambda>r. ExitCode r = 0"] ok(2) by (simp add: host_result_def)
      ultimately show "(\<forall>ip \<in> set ?lb. seen E c w ip (phase03_lb_cmd cfg) (\<lambda>o'. ro_code o' = 0 \<and> Contains (ro_stdout o') (PKICommonName cfg))) \<and>
          (\<forall>ip \<in> set ?cms. seen E c w ip phase03_cms_cmd (\<lambda>o'. ro_code o' = 0))"
        using seen_earlier [OF v] by blast
    qed
  qed
qed

text \<open>The answer of the first master, spelled out.\<close>

definition cluster_ok :: "Config \<Rightarrow> run_out \<Rightarrow> bool" where
  "cluster_ok cfg r \<longleftrightarrow> (\<exists>nodes pods etcd rest. Split (ro_stdout r) delim = nodes # pods # etcd # rest \<and>
     Contains nodes ''Ready'' \<and> \<not> Contains nodes ''NotReady'' \<and> Contains pods ''Running'' \<and>
     TrimSpace etcd = itoa (int (length (Masters (Nodes cfg)))))"

lemma phase04_pass:
  assumes "Pass (phase04_result cfg r)"
  shows "ro_err r = None \<and> cluster_ok cfg r"
proof -
  have "[] \<noteq> itoa (int n)" for n by (metis itoa_nonneg nat_digits_Nil of_nat_0_le_iff)
  then have "length (Split (ro_stdout r) delim) \<ge> 3"
    using assms by (cases "length (Split (ro_stdout r) delim) \<ge> 3") (simp_all add: phase04_result_def Let_def)
  then obtain nodes pods etcd rest where sp: "Split (ro_stdout r) delim = nodes # pods # etcd # rest"
    by (metis Suc_le_length_iff numeral_3_eq_3)
  with assms have "ro_err r = None" "allNodesReady nodes" "Contains pods ''Running''"
    "TrimSpace etcd = itoa (int (length (Masters (Nodes cfg))))"
    by (simp_all add: phase04_result_def Let_def)
  with sp show ?thesis unfolding cluster_ok_def allNodesReady_def by blast
qed

lemma yields_phase04:
  assumes "routed w"
  shows "yields onward (\<lambda>r v. Pass r \<longrightarrow> (\<exists>m ms. Masters (Nodes cfg) = m # ms \<and> seen E c w (n_IP m) phase04_cmd (cluster_ok cfg)))
    (phase04 E cfg c) w"
proof (cases "Masters (Nodes cfg)")
  case (Cons m ms)
  have "yields onward (\<lambda>r v. Pass r \<longrightarrow> seen E c w (n_IP m) phase04_cmd (\<lambda>r. Pass (phase04_result cfg r)))
      (ask E c (n_IP m) phase04_cmd (phase04_result cfg)) w"
    by (rule yields_ask [OF assms]) (simp add: phase04_pass)
  then show ?thesis unfolding phase04_def Cons
    by (auto elim!: onward.yields_weaken simp: seen_def dest: phase04_pass)
qed (auto simp: phase04_def intro: onward.yields_Return)

definition drbd_ok :: "run_out \<Rightarrow> bool" where
  "drbd_ok r \<longleftrightarrow> Contains (ro_stdout r) ''Primary'' \<or> Contains (ro_stdout r) ''Secondary'' \<or> Contains (ro_stdout r) ''UpToDate''"

lemma yields_phase07:
  assumes "routed w"
  shows "yields onward (\<lambda>r v. Pass r \<longrightarrow> (\<exists>ip \<in> set (with_IP (Masters (Nodes cfg))). seen E c w ip phase07_cmd drbd_ok)) (phase07 E cfg c) w"
proof (cases "with_IP (Masters (Nodes cfg)) = []")
  case False
  show ?thesis unfolding phase07_def Let_def if_not_P [OF False]
  proof (rule onward.yields_andThen [OF yields_RunParallel [OF assms]], rule onward.yields_Return)
    fix rs v v' assume rs: "hosts_seen E c w (with_IP (Masters (Nodes cfg))) phase07_cmd rs"
    show "Pass (phase07_result rs) \<longrightarrow> (\<exists>ip \<in> set (with_IP (Masters (Nodes cfg))). seen E c w ip phase07_cmd drbd_ok)"
    proof
      assume "Pass (phase07_result rs)"
      then obtain r where "find drbd_up rs = Some r" by (auto simp: phase07_result_def split: option.splits)
      then have r: "r \<in> set rs" "drbd_up r" by (auto simp: find_Some_iff)
      then obtain o' u where o': "r = host_result (Host r) o'" "served E c (Host r) phase07_cmd w o' u"
        using rs unfolding hosts_seen_def drbd_up_def by blast
      have "Err r = ro_err o'" "Output r = ro_stdout o'" by (subst o'(1), simp add: host_result_def)+
      with o' r have "seen E c w (Host r) phase07_cmd drbd_ok" unfolding seen_def drbd_up_def drbd_ok_def by metis
      moreover have "Host r \<in> set (with_IP (Masters (Nodes cfg)))" using rs r(1) unfolding hosts_seen_def by (metis image_eqI set_map)
      ultimately show "\<exists>ip \<in> set (with_IP (Masters (Nodes cfg))). seen E c w ip phase07_cmd drbd_ok" by blast
    qed
  qed
qed (auto simp: phase07_def intro: onward.yields_Return)

section \<open>The whole verification\<close>

definition evidence :: "('x, 'z) ssh_env_scheme \<Rightarrow> Config \<Rightarrow> Client \<Rightarrow> ctx \<Rightarrow> 'x sworld \<Rightarrow> bool list" where
  "evidence E cfg L c w =
     [\<exists>u d ds u'. onward w u \<and> ListRunning E L c u = (Inr (d # ds), u'),
      seen E c w (n_IP (Jumpstart (Nodes cfg))) phase01_cmd (\<lambda>r. Pass (phase01_result r)),
      seen E c w (n_IP (Jumpstart (Nodes cfg))) phase02_cmd (\<lambda>r. Pass (phase02_result r)),
      (\<forall>ip \<in> set (with_IP (LBs (Nodes cfg))). seen E c w ip (phase03_lb_cmd cfg) (\<lambda>o'. ro_code o' = 0 \<and> Contains (ro_stdout o') (PKICommonName cfg))) \<and>
      (\<forall>ip \<in> set (with_IP (CMSFrontends (Nodes cfg))). seen E c w ip phase03_cms_cmd (\<lambda>o'. ro_code o' = 0)),
      \<exists>m ms. Masters (Nodes cfg) = m # ms \<and> seen E c w (n_IP m) phase04_cmd (cluster_ok cfg),
      seen E c w (n_IP (Monitor (Nodes cfg))) phase05_cmd (\<lambda>r. Pass (phase05_result r)),
      seen E c w (n_IP (Router (Nodes cfg))) phase06_cmd (\<lambda>r. Pass (phase06_result r)),
      \<exists>ip \<in> set (with_IP (Masters (Nodes cfg))). seen E c w ip phase07_cmd drbd_ok]"

lemma less_8: "i < (8 :: nat) \<longleftrightarrow> i \<in> {0, 1, 2, 3, 4, 5, 6, 7}"
  by auto

lemma yields_checks:
  assumes "routed w" and "i < 8"
  shows "yields onward (\<lambda>r v. Pass r \<longrightarrow> evidence E cfg L c w ! i) (checks E cfg L c ! i) w"
proof -
  have err: "Pass (phase01_result r) \<Longrightarrow> ro_err r = None" "Pass (phase02_result r) \<Longrightarrow> ro_err r = None"
    "Pass (phase05_result r) \<Longrightarrow> ro_err r = None" "Pass (phase06_result r) \<Longrightarrow> ro_err r = None" for r
    by (simp_all add: phase01_result_def phase02_result_def phase05_result_def phase06_result_def Let_def)
  note c = yields_phase00 yields_phase03 [OF assms(1)] yields_phase04 [OF assms(1)] yields_phase07 [OF assms(1)]
    yields_ask [OF assms(1) err(1)] yields_ask [OF assms(1) err(2)]
    yields_ask [OF assms(1) err(3)] yields_ask [OF assms(1) err(4)]
  show ?thesis using assms(2) unfolding less_8
    by (elim insertE emptyE; simp add: checks_def evidence_def del: ex_simps)
      (simp_all only: c phase01_def phase02_def phase05_def phase06_def)
qed

lemma VerifyAll_evidence:
  assumes run: "VerifyAll E cfg L c w = (None, w')" and w: "routed w" and i: "i < 8"
  shows "evidence E cfg L c w ! i"
proof -
  let ?ps = "checks E cfg L c"
  have n: "length ?ps = 8" by (simp add: checks_def)
  obtain fin w1 where f: "par_exec 8 (e_sched E w) ?ps w = (fin, w1)" by fastforce
  then have pass: "list_all Pass (by_index 8 fin)"
    using run by (simp add: VerifyAll_def parallel_def Let_def n split: if_splits)
  have "yields onward (\<lambda>r v. Pass r \<longrightarrow> evidence E cfg L c w ! j) (?ps ! j) w" if "j < length ?ps" for j
    using yields_checks [OF w] that by (simp add: n)
  from onward.par_exec_yields [where Q = "\<lambda>j r v. Pass r \<longrightarrow> evidence E cfg L c w ! j", OF this f]
  have "\<And>j r. (j, r) \<in> set fin \<Longrightarrow> Pass r \<Longrightarrow> evidence E cfg L c w ! j" using onward.refl by blast
  moreover have "(i, by_index 8 fin ! i) \<in> set fin" using par_exec_complete [OF f] i by (intro by_index_mem) (simp_all add: n)
  moreover have "Pass (by_index 8 fin ! i)" using pass i by (simp add: list_all_length by_index_def)
  ultimately show ?thesis by blast
qed


end
