(* ===== verification/SshScript.thy ===== *)
theory SshScript
  imports SshRoute SshProps Phases
begin

text \<open>
  Uploads, scripts and tasks on several hosts under any schedule: a script that succeeded was run on its host. And what can be
  told of a command from the text that was sent.
\<close>

section \<open>The text that is sent determines the command\<close>

lemma shellQuote_inj [simp]: "shellQuote a = shellQuote b \<longleftrightarrow> a = b"
  using sh_words_quote [of a] sh_words_quote [of b] by (metis option.inject list.inject)

lemma remoteCommand_inj:
  assumes "remoteCommand p a = remoteCommand q b" and "\<not> HasPrefix a ''sudo''" and "\<not> HasPrefix b ''sudo''"
  shows "a = b"
proof -
  have "HasPrefix (''sudo -n -H bash -c '' @ t) ''sudo''" for t by (simp add: HasPrefix_def)
  with assms show ?thesis unfolding remoteCommand_def by (auto split: if_splits)
qed

lemma sent_iff:
  assumes "\<not> HasPrefix cmd ''sudo''" and "\<forall>c \<in> S. \<not> HasPrefix c ''sudo''"
  shows "sent S (remoteCommand p cmd) \<longleftrightarrow> cmd \<in> S"
  using assms remoteCommand_inj unfolding sent_def by blast

section \<open>Uploads\<close>

lemma same_clients_sftp [keeping]: "keeps same_clients (sftp_do E c op)" "keeps same_clients (sftp_NewClient E c)"
  by (auto simp: keeps_def sftp_do_def sftp_NewClient_def same_clients_def elapse_def split: prod.split)

lemma onward_sftp [keeping]: "keeps onward (sftp_do E c op)" "keeps onward (sftp_NewClient E c)"
  by (rule onward_step [OF afar_sftp_do [where S = UNIV]] onward_step [OF afar_sftp_NewClient [where S = UNIV]], rule same_clients_sftp)+

lemma onward_copy_to [keeping]: "keeps onward (copy_to E c src p)"
  unfolding copy_to_def by (intro keeping onward.keeps_intros)

lemma onward_drop_file [keeping]: "steps_keep onward (drop_file E c b p err)"
  unfolding drop_file_def by (auto intro!: keeping)

lemma onward_writeRemoteFile: "steps_keep onward (writeRemoteFile E c src p mode)"
  unfolding writeRemoteFile_def writeRemoteFileAt_def by (auto intro!: keeping split: option.splits)

lemma routed_later: "routed w \<Longrightarrow> onward w v \<Longrightarrow> routed v"
  by (simp add: onward_def)

lemma yields_withSFTPClient:
  assumes "routed w" and fn: "\<And>c. steps_keep onward (fn c)"
  shows "yields onward (\<lambda>r v. True) (withSFTPClient E ctx host fn) w"
  unfolding withSFTPClient_def
  by (rule onward.yields_andThen [OF yields_open_session [OF onward_sftp(2) assms(1)]])
    (auto intro!: yields_then onward.keeps_return_state onward.yields_Return onward.yields_steps [OF fn] split: sum.splits option.splits)

lemma yields_RunCommandStdin: "routed w \<Longrightarrow> yields onward (\<lambda>r v. True) (RunCommandStdin E ctx host cmd stdin b) w"
  unfolding RunCommandStdin_def
  by (auto intro!: onward.yields_Return onward.yields_andThen [OF yields_open_session [OF onward_steps(3)]] yields_step onward_steps
      split: sum.splits)

lemma yields_CopyContent: "routed w \<Longrightarrow> yields onward (\<lambda>r v. True) (CopyContent E ctx host data path mode) w"
  unfolding CopyContent_def Pool_writeRemoteFile_def if_elevated_def
  by (auto intro!: yields_then onward.keeps_return_state onward.yields_andThen [OF yields_RunCommandStdin] onward.yields_Return
      yields_withSFTPClient onward_writeRemoteFile intro: routed_later)

section \<open>Scripts\<close>

text \<open>A script that succeeded: its command was run on the host and ended with 0.\<close>

definition script_ran :: "('x, 'z) ssh_env_scheme \<Rightarrow> ctx \<Rightarrow> string \<Rightarrow> 'x sworld \<Rightarrow> 'x sworld \<Rightarrow> bool" where
  "script_ran E c host w v \<longleftrightarrow> (\<exists>b r. served E c host (script_command (script_path b)) w r v \<and> ro_err r = None \<and> ro_code r = 0)"

lemma served_from: "onward w u \<Longrightarrow> served E c host cmd u r v \<Longrightarrow> onward v v' \<Longrightarrow> served E c host cmd w r v'"
  unfolding served_def using onward.trans by blast

lemma yields_RunScript:
  assumes w: "routed w"
  shows "yields onward (\<lambda>r v. snd r = None \<longrightarrow> script_ran E c host w v) (RunScript E c host script) w"
  unfolding RunScript_def
proof (rule yields_then [OF onward.keeps_return_state])
  let ?Q = "\<lambda>r v. snd r = None \<longrightarrow> script_ran E c host w v"
  let ?run = "\<lambda>b. andThen (RunCommand E c host (script_command (script_path b))) (\<lambda>o'. Return (ro_stdout o',
      if ro_err o' \<noteq> None \<or> ro_code o' \<noteq> 0
      then Some (Errorf (''script execution failed on %s (exit %d): %v'' @ nl # ''Stderr: %s'')
        [host, itoa (ro_code o'), err_v (ro_err o'), ro_stderr o']) else None))"
  fix rnd :: "goerr + string" and v assume v: "onward w v"
  have run: "yields onward ?Q (?run b) u" if u: "onward v u" for b u
  proof -
    have wu: "onward w u" using onward.trans [OF v u] .
    show ?thesis
    proof (rule onward.yields_andThen [OF yields_RunCommand [OF routed_later [OF w wu]]], rule onward.yields_Return)
      fix r t t' assume "ro_err r = None \<longrightarrow> served E c host (script_command (script_path b)) u r t" "onward t t'"
      then show "?Q (ro_stdout r, if ro_err r \<noteq> None \<or> ro_code r \<noteq> 0
          then Some (Errorf (''script execution failed on %s (exit %d): %v'' @ nl # ''Stderr: %s'')
            [host, itoa (ro_code r), err_v (ro_err r), ro_stderr r]) else None) t'"
        unfolding script_ran_def using served_from [OF wu] by (auto split: if_splits) blast
    qed
  qed
  have copy: "yields onward ?Q (andThen (CopyContent E c host script (script_path b) 448) (\<lambda>r. case r of
        Some e \<Rightarrow> Return ([], Some (Errorf ''failed to upload script to %s: %w'' [host, e])) | None \<Rightarrow> ?run b)) v" for b
  proof (rule onward.yields_andThen [OF yields_CopyContent [OF routed_later [OF w v]]])
    fix r :: "goerr option" and u assume "onward v u"
    then show "yields onward ?Q (case r of
        Some e \<Rightarrow> Return ([], Some (Errorf ''failed to upload script to %s: %w'' [host, e])) | None \<Rightarrow> ?run b) u"
      using run by (cases r) (simp_all add: onward.yields_Return)
  qed
  show "yields onward ?Q (case rnd of
      Inl e \<Rightarrow> Return ([], Some (Errorf ''generate script name: %w'' [e]))
    | Inr bytes \<Rightarrow> (let tmpPath = script_path bytes in
        andThen (CopyContent E c host script tmpPath 448) (\<lambda>r. case r of
          Some e \<Rightarrow> Return ([], Some (Errorf ''failed to upload script to %s: %w'' [host, e]))
        | None \<Rightarrow> andThen (RunCommand E c host (script_command tmpPath)) (\<lambda>o'.
            Return (ro_stdout o',
              if ro_err o' \<noteq> None \<or> ro_code o' \<noteq> 0
              then Some (Errorf (''script execution failed on %s (exit %d): %v'' @ nl # ''Stderr: %s'')
                [host, itoa (ro_code o'), err_v (ro_err o'), ro_stderr o'])
              else None))))) v"
  proof (cases rnd)
    case (Inr b)
    show ?thesis unfolding Inr sum.case Let_def by (rule copy)
  qed (simp add: onward.yields_Return)
qed

section \<open>Tasks on several hosts\<close>

lemma RunParallelFunc_onward:
  assumes tasks: "\<And>h f. (h, f) \<in> set tasks \<Longrightarrow> yields onward (Q h) f w" and run: "RunParallelFunc E tasks w = (rs, w')"
  shows "onward w w' \<and> (\<forall>h \<in> fst ` set tasks. \<exists>r \<in> set rs. Host r = h \<and> Q h (Err r) w')"
proof -
  let ?ps = "map (\<lambda>(h, f). andThen f (\<lambda>e. Return \<lparr>Host = h, Output = [], ExitCode = 0, Err = e\<rparr>)) tasks"
  let ?Q = "\<lambda>i r v. Host r = fst (tasks ! i) \<and> Q (fst (tasks ! i)) (Err r) v"
  obtain fin where f: "par_exec (parallelLimit (length tasks)) (e_sched E w) ?ps w = (fin, w')" and rs: "rs = map snd fin"
    using run by (auto simp: RunParallelFunc_def parallel_def split: prod.splits)
  have "yields onward (?Q i) (?ps ! i) w" if i: "i < length ?ps" for i
  proof -
    obtain h g where hg: "tasks ! i = (h, g)" by fastforce
    with i have y: "yields onward (Q h) g w" using tasks nth_mem by fastforce
    have stable: "yields onward (\<lambda>e v. \<forall>u. onward v u \<longrightarrow> Q h e u) g w"
      using y by (induction rule: yields.induct) (auto intro!: yields.intros intro: onward.trans)
    show ?thesis using i hg
      by (auto intro!: onward.yields_andThen [OF stable] onward.yields_Return)
  qed
  from onward.par_exec_yields [OF this f] have on: "onward w w'" and q: "\<And>i r. (i, r) \<in> set fin \<Longrightarrow> ?Q i r w'"
    using onward.refl by fastforce+
  have "\<exists>r \<in> set rs. Host r = h \<and> Q h (Err r) w'" if h: "h \<in> fst ` set tasks" for h
  proof -
    obtain x where "x \<in> set tasks" "fst x = h" using h by blast
    then obtain i where i: "i < length tasks" "fst (tasks ! i) = h" by (metis in_set_conv_nth)
    then have "i \<in> set (map fst fin)" using par_exec_complete [OF f] by simp
    then obtain r where "(i, r) \<in> set fin" by auto
    with q [OF this] i rs show ?thesis by force
  qed
  with on show ?thesis by blast
qed

lemma keys_of_tasks [simp]: "fst ` set (tasks_of key task xs) = key ` set xs"
proof -
  have "fst ` set (fold (\<lambda>x. AList.update (key x) (task x)) xs m) = fst ` set m \<union> key ` set xs" for m
  proof (induction xs arbitrary: m)
    case (Cons x xs)
    have "fst ` set (AList.update k v al) = insert k (fst ` set al)" for k v al by (induction al) auto
    from this [of "key x" "task x" m] show ?case using Cons [of "AList.update (key x) (task x) m"] by auto
  qed simp
  from this [of "[]"] show ?thesis by (simp add: tasks_of_def)
qed

end
