(* ===== verification/SshKind.thy ===== *)
theory SshKind
  imports SshScript SshLab
begin

text \<open>
  Servers on which nothing fails but what a command itself decides: \<open>kind E rep out\<close>, where \<open>rep\<close> and \<open>out\<close> give the output and the outcome
  of each command. What the operations of the pool return with them, under every schedule; used to apply the properties of larger programs.
\<close>

definition kind :: "('x, 'z) ssh_env_scheme \<Rightarrow> (string \<Rightarrow> string) \<Rightarrow> (string \<Rightarrow> outcome) \<Rightarrow> bool" where
  "kind E rep out \<longleftrightarrow>
     (\<forall>addr cfg w. s_dial E addr cfg w = (ServerKey None ''AAAA'' None, 0)) \<and> (\<forall>c w. s_session E c w = (None, 0)) \<and>
     (\<forall>c cmd inp w. s_run E c cmd inp w = ((\<lparr>rr_stdout = rep cmd, rr_stderr = [], rr_time = 0\<rparr>, out cmd), w_ext w)) \<and>
     (\<forall>c w. s_sftp E c w = (None, 0)) \<and> (\<forall>c op w. \<exists>x. s_op E c op w = (None, 0, x)) \<and> (\<forall>w. s_random E w = Inr []) \<and>
     (\<forall>w. e_late E w = 0)"

text \<open>Such servers, and a world in which the pool is set up to reach them.\<close>

definition prompt :: "(string \<Rightarrow> string) \<Rightarrow> (string \<Rightarrow> outcome) \<Rightarrow> (string \<Rightarrow> string option) ssh_env" where
  "prompt rep out = lab\<lparr>s_dial := \<lambda>addr cfg w. (ServerKey None ''AAAA'' None, 0), s_session := \<lambda>c w. (None, 0),
     s_run := \<lambda>c cmd inp w. ((\<lparr>rr_stdout = rep cmd, rr_stderr = [], rr_time = 0\<rparr>, out cmd), w_ext w),
     s_sftp := \<lambda>c w. (None, 0), s_op := \<lambda>c op w. (None, 0, w_ext w)\<rparr>"

definition calm_world :: "(string \<Rightarrow> string option) sworld" where
  "calm_world = (lab_world ''root'')\<lparr>w_heap := (w_heap (lab_world ''root''))\<lparr>knownHostsPath := [],
     p_config := Some \<lparr>cc_User = ''root'', cc_Signer = ''k'', cc_Timeout = 5\<rparr>\<rparr>\<rparr>"

lemma prompt_kind: "kind (prompt rep out) rep out"
  by (simp add: kind_def prompt_def lab_def)

section \<open>Every command is answered\<close>

definition tame :: "ctx \<Rightarrow> 'x sworld \<Rightarrow> bool" where
  "tame cx w \<longleftrightarrow> w_cancel w = None \<and> (\<forall>d. cx = Some d \<longrightarrow> w_clock w < d) \<and> p_config (w_heap w) \<noteq> None \<and> p_user (w_heap w) = ''root'' \<and> knownHostsPath (w_heap w) = [] \<and>
     (knownHostsCallback (w_heap w) = None \<or> knownHostsCallback (w_heap w) = Some unknown_host)"

definition stays_tame :: "ctx \<Rightarrow> 'x sworld \<Rightarrow> 'x sworld \<Rightarrow> bool" where
  "stays_tame cx w w' \<longleftrightarrow> (tame cx w \<longrightarrow> tame cx w')"

interpretation tame: world_order "stays_tame cx" for cx
  by unfold_locales (auto simp: stays_tame_def)

lemma tame_atomic:
  assumes "tame cx w" and "\<And>v r v'. tame cx v \<Longrightarrow> f v = (r, v') \<Longrightarrow> tame cx v' \<and> P r"
  shows "yields (stays_tame cx) (\<lambda>r v. P r) (atomic f) w"
  by (rule tame.yields_atomic) (use assms in \<open>auto simp: stays_tame_def\<close>)

lemma calm_tame: "tame None calm_world"
proof -
  have "TrimSpace ''root'' = ''root''" by code_simp
  then show ?thesis by (simp add: tame_def calm_world_def lab_world_def empty_pool_def Let_def)
qed

lemma calm_routed: "routed calm_world"
  by (simp add: routed_def calm_world_def lab_world_def empty_pool_def Let_def)

lemma tame_ctx: "tame cx w \<Longrightarrow> ctx_err cx w = None"
  by (cases cx) (auto simp: tame_def ctx_err_def done_at_def)

text \<open>The same with what follows.\<close>

lemma tame_then:
  assumes "tame cx w" and "\<And>v r v'. tame cx v \<Longrightarrow> f v = (r, v') \<Longrightarrow> tame cx v' \<and> P r"
    and "\<And>r v. tame cx v \<Longrightarrow> P r \<Longrightarrow> yields (stays_tame cx) Q (k r) v"
  shows "yields (stays_tame cx) Q (andThen (atomic f) k) w"
  by (rule tame.yields_andThen [OF tame_atomic [OF assms(1,2)]]) (use assms(1,3) in \<open>auto simp: stays_tame_def\<close>)

lemma tame_lookup: "tame cx v \<Longrightarrow> lookup_client E host v = (r, v') \<Longrightarrow> tame cx v' \<and> (\<exists>x. r = Inr x)"
  by (auto simp: lookup_client_def tame_def)

lemma tame_dial: "kind E rep out \<Longrightarrow> tame cx v \<Longrightarrow> (case s_dial E addr cfg v of (h, d) \<Rightarrow> (h, elapse d v)) = (r, v') \<Longrightarrow> tame cx v' \<and> r = ServerKey None ''AAAA'' None"
  by (auto simp: kind_def tame_def elapse_def)

lemma tame_verify: "tame cx v \<Longrightarrow> verifyHostKey E h r k v = (res, v') \<Longrightarrow> tame cx v' \<and> res = None"
  by (auto simp: verifyHostKey_def loadKnownHostsCallback_def trustHostKey_def unknown_host_def tame_def set_pool_def Let_def)

lemma tame_established: "tame cx v \<Longrightarrow> established addr v = (r, v') \<Longrightarrow> tame cx v' \<and> (\<exists>c. r = Inr c)"
  by (auto simp: established_def tame_def)

lemma tame_adopt: "tame cx v \<Longrightarrow> adopt_client host c v = (r, v') \<Longrightarrow> tame cx v' \<and> (\<exists>c. r = Inr c)"
  by (auto simp: adopt_client_def tame_def set_pool_def split: option.splits)

lemma tame_session: "kind E rep out \<Longrightarrow> tame cx v \<Longrightarrow> NewSession E c v = (r, v') \<Longrightarrow> tame cx v' \<and> r = None"
  by (auto simp: kind_def NewSession_def tame_def elapse_def)

definition answer :: "(string \<Rightarrow> string) \<Rightarrow> (string \<Rightarrow> outcome) \<Rightarrow> string \<Rightarrow> run_out" where
  "answer rep out cmd = \<lparr>ro_stdout = rep cmd, ro_stderr = captured [], ro_code = fst (exit_of (out cmd)), ro_err = snd (exit_of (out cmd))\<rparr>"

lemma tame_run: "kind E rep out \<Longrightarrow> tame cx v \<Longrightarrow> run_session E cx c cmd stdin v = (r, v') \<Longrightarrow> tame cx v' \<and> r = answer rep out cmd"
  by (cases cx) (auto simp: kind_def run_session_def Let_def wait_until_def done_at_def tame_def remoteCommand_def elevated_def answer_def)

lemma tame_getClient:
  fixes w :: "'x sworld"
  assumes kind: "kind E rep out" and w: "tame cx w"
  shows "yields (stays_tame cx) (\<lambda>r v. \<exists>c. r = Inr c) (getClient E host) w"
  unfolding getClient_def
proof (rule tame_then [OF w tame_lookup], assumption, assumption)
  fix r :: "(nat option \<times> ClientConfig) res" and v :: "'x sworld" assume v: "tame cx v" and "\<exists>x. r = Inr x"
  have dial: "yields (stays_tame cx) (\<lambda>r v. \<exists>c. r = Inr c) (ssh_Dial E addr cfg) v" for addr cfg
    unfolding ssh_Dial_def
    by (rule tame_then [OF v tame_dial [OF kind]], assumption, assumption, simp,
      rule tame_then [OF _ tame_verify], assumption, assumption, assumption, simp, rule tame_atomic [OF _ tame_established])
  have new: "yields (stays_tame cx) (\<lambda>r v. \<exists>c. r = Inr c) (andThen (ssh_Dial E (ensurePort host ''22'') cfg) (\<lambda>d. case d of
          Inl e \<Rightarrow> Return (Inl (Errorf ''failed to dial %s: %w'' [host, e]))
        | Inr c \<Rightarrow> atomic (adopt_client host c))) v" for cfg
    by (rule tame.yields_andThen [OF dial])
      (use v in \<open>auto simp: stays_tame_def intro!: tame_atomic dest: tame_adopt\<close>)
  show "yields (stays_tame cx) (\<lambda>r v. \<exists>c. r = Inr c) (case r of Inl e \<Rightarrow> Return (Inl e) | Inr (Some c, cfg) \<Rightarrow> Return (Inr c)
      | Inr (None, cfg) \<Rightarrow> andThen (ssh_Dial E (ensurePort host ''22'') cfg) (\<lambda>d. case d of
            Inl e \<Rightarrow> Return (Inl (Errorf ''failed to dial %s: %w'' [host, e]))
          | Inr c \<Rightarrow> atomic (adopt_client host c))) v"
    using \<open>\<exists>x. r = Inr x\<close> new by (auto intro!: tame.yields_Return split: option.split)
qed

lemma tame_open_session:
  assumes kind: "kind E rep out" and w: "tame cx w" and new: "\<And>c v r v'. tame cx v \<Longrightarrow> new c v = (r, v') \<Longrightarrow> tame cx v' \<and> r = None"
  shows "yields (stays_tame cx) (\<lambda>r v. \<exists>c. r = Inr c) (open_session E new what host) w"
  unfolding open_session_def
proof (rule tame.yields_andThen [OF tame_getClient [OF kind w]])
  fix r :: "nat res" and v assume "stays_tame cx w v" "\<exists>c. r = Inr c"
  with w obtain c where c: "r = Inr c" "tame cx v" by (auto simp: stays_tame_def)
  show "yields (stays_tame cx) (\<lambda>r v. \<exists>c. r = Inr c) (case r of Inl e \<Rightarrow> Return (Inl e)
    | Inr c \<Rightarrow> andThen (atomic (new c)) (\<lambda>s. case s of
        None \<Rightarrow> Return (Inr c)
      | Some e \<Rightarrow> andThen (atomic (invalidateClient host)) (\<lambda>_. andThen (getClient E host) (\<lambda>r'. case r' of
            Inl e' \<Rightarrow> Return (Inl e')
          | Inr c' \<Rightarrow> andThen (atomic (new c')) (\<lambda>s'. case s' of
              None \<Rightarrow> Return (Inr c')
            | Some e' \<Rightarrow> Return (Inl (Errorf ''failed to create %s on %s: %w'' [what, host, e']))))))) v"
    unfolding c by simp (rule tame_then [OF c(2) new], auto intro!: tame.yields_Return)
qed

lemma tame_RunCommandStdin:
  assumes "kind E rep out" and "tame cx w"
  shows "yields (stays_tame cx) (\<lambda>r v. r = answer rep out cmd) (RunCommandStdin E cx host cmd stdin True) w"
  unfolding RunCommandStdin_def
  by (simp, rule tame.yields_andThen [OF tame_open_session [OF assms tame_session [OF assms(1)]]], assumption, assumption)
    (use assms in \<open>auto simp: stays_tame_def intro!: tame_atomic dest: tame_run\<close>)

lemma tame_RunCommand:
  "kind E rep out \<Longrightarrow> tame cx w \<Longrightarrow> yields (stays_tame cx) (\<lambda>r v. r = answer rep out cmd) (RunCommand E cx host cmd) w"
  unfolding RunCommand_def RunCommandToWriter_def by (rule tame_RunCommandStdin)

lemma tame_RunParallel:
  assumes kind: "kind E rep out" and w: "tame cx w" and run: "RunParallel E cx hosts cmd w = (rs, w')"
  shows "tame cx w' \<and> rs = map (\<lambda>h. host_result h (answer rep out cmd)) hosts"
proof (cases "hosts = []")
  case False
  let ?ps = "map (\<lambda>h. andThen (RunCommand E cx h cmd) (\<lambda>r. Return (host_result h r))) hosts"
  obtain fin where f: "par_exec (parallelLimit (length hosts)) (e_sched E w) ?ps w = (fin, w')" and rs: "rs = by_index (length hosts) fin"
    using run False by (auto simp: RunParallel_def parallel_def split: prod.splits)
  have "yields (stays_tame cx) (\<lambda>r v. r = host_result (hosts ! i) (answer rep out cmd)) (?ps ! i) w" if "i < length ?ps" for i
    using that by (auto intro!: tame.yields_andThen [OF tame_RunCommand [OF kind w]] tame.yields_Return)
  from tame.par_exec_yields [where Q = "\<lambda>i r v. r = host_result (hosts ! i) (answer rep out cmd)", OF this f]
  have st: "stays_tame cx w w'" and q: "\<And>i r. (i, r) \<in> set fin \<Longrightarrow> r = host_result (hosts ! i) (answer rep out cmd)"
    using tame.refl by fastforce+
  have "rs ! i = host_result (hosts ! i) (answer rep out cmd)" if "i < length hosts" for i
    using q [of i "rs ! i"] by_index_mem [of fin "length hosts" i] par_exec_complete [OF f] that rs by simp
  then have "rs = map (\<lambda>h. host_result h (answer rep out cmd)) hosts" using rs by (intro nth_equalityI) (simp_all add: by_index_def)
  with st w show ?thesis by (simp add: stays_tame_def)
qed (use run w in \<open>simp add: RunParallel_def\<close>)

section \<open>Uploads, scripts and tasks succeed\<close>

lemma tame_sftp: "kind E rep out \<Longrightarrow> tame cx v \<Longrightarrow> sftp_do E c op v = (r, v') \<Longrightarrow> tame cx v' \<and> r = None"
proof -
  assume k: "kind E rep out" and v: "tame cx v" and run: "sftp_do E c op v = (r, v')"
  obtain x where "s_op E c op v = (None, 0, x)" using k unfolding kind_def by blast
  with v run show ?thesis by (auto simp: sftp_do_def tame_def elapse_def)
qed

lemma tame_sftp_client: "kind E rep out \<Longrightarrow> tame cx v \<Longrightarrow> sftp_NewClient E c v = (r, v') \<Longrightarrow> tame cx v' \<and> r = None"
  by (auto simp: kind_def sftp_NewClient_def tame_def elapse_def)

lemma tame_copy_to: "kind E rep out \<Longrightarrow> tame cx v \<Longrightarrow> copy_to E c (d, None) p v = (r, v') \<Longrightarrow> tame cx v' \<and> r = None"
  by (auto simp: copy_to_def dest: tame_sftp split: prod.splits option.splits)

lemma tame_writeRemoteFile:
  assumes kind: "kind E rep out" and w: "tame cx w"
  shows "yields (stays_tame cx) (\<lambda>r v. r = None) (writeRemoteFile E c (d, None) p mode) w"
proof -
  have at: "yields (stays_tame cx) (\<lambda>r v. r = None) (writeRemoteFileAt E c (d, None) q mode) w" for q
    unfolding writeRemoteFileAt_def
    by (rule tame_then [OF w tame_sftp [OF kind]], assumption, assumption, simp,
      rule tame_then [OF _ tame_sftp [OF kind]], assumption, assumption, assumption, simp,
      rule tame_then [OF _ tame_copy_to [OF kind]], assumption, assumption, assumption, simp,
      rule tame_then [OF _ tame_sftp [OF kind]], assumption, assumption, assumption, simp add: tame.yields_Return)
  show ?thesis unfolding writeRemoteFile_def
  proof (rule tame.yields_andThen [OF at])
    fix r v assume "stays_tame cx w v" and r: "r = (None :: goerr option)"
    with w have "tame cx v" by (simp add: stays_tame_def)
    then show "yields (stays_tame cx) (\<lambda>r v. r = None) (case r of Some e \<Rightarrow> Return (Some e)
      | None \<Rightarrow> andThen (atomic (sftp_do E c (SPosixRename (sidecar p) p))) (\<lambda>r. case r of
          None \<Rightarrow> Return None
        | Some e \<Rightarrow> drop_file E c False (sidecar p) (Errorf ''failed to replace remote file %s: %w'' [p, e]))) v"
      unfolding r by simp (rule tame_then [OF _ tame_sftp [OF kind]], assumption, assumption, assumption, simp add: tame.yields_Return)
  qed
qed

lemma tame_CopyContent:
  fixes w :: "'x sworld"
  assumes kind: "kind E rep out" and w: "tame cx w"
  shows "yields (stays_tame cx) (\<lambda>r v. r = None) (CopyContent E cx host d p mode) w"
  unfolding CopyContent_def Pool_writeRemoteFile_def if_elevated_def bytes_Reader_def
proof (rule tame_then [OF w, where P = "\<lambda>b. \<not> b"])
  show "tame cx v' \<and> \<not> b" if "tame cx v" "(elevated (w_heap v), v) = (b, v')" for v b v' using that by (auto simp: tame_def elevated_def)
next
  fix b :: bool and v :: "'x sworld" assume v: "tame cx v" and b: "\<not> b"
  have "yields (stays_tame cx) (\<lambda>r v. r = None) (withSFTPClient E cx host (\<lambda>c. writeRemoteFile E c (d, None) p mode)) v"
    unfolding withSFTPClient_def
  proof (rule tame.yields_andThen [OF tame_open_session [OF kind v tame_sftp_client [OF kind]]], assumption, assumption)
    fix r :: "nat res" and u assume "stays_tame cx v u" "\<exists>c. r = Inr c"
    with v obtain c where c: "r = Inr c" "tame cx u" by (auto simp: stays_tame_def)
    show "yields (stays_tame cx) (\<lambda>r v. r = None) (case r of Inl e \<Rightarrow> Return (Some e)
      | Inr c \<Rightarrow> andThen (atomic (\<lambda>w. (ctx_err cx w, w))) (\<lambda>e. case e of
          Some e \<Rightarrow> Return (Some e) | None \<Rightarrow> writeRemoteFile E c (d, None) p mode)) u"
      unfolding c sum.case
    proof (rule tame_then [OF c(2), where P = "\<lambda>e. e = None"])
      show "tame cx t' \<and> e = None" if "tame cx t" "(ctx_err cx t, t) = (e, t')" for t e t'
        using that by (auto simp: tame_ctx)
    qed (simp add: tame_writeRemoteFile [OF kind])
  qed
  with b show "yields (stays_tame cx) (\<lambda>r v. r = None) (if b
      then andThen (RunCommandStdin E cx host (upload_script p mode) (Some (d, None)) True) (\<lambda>r. Return (case ro_err r of
            Some e \<Rightarrow> Some (Errorf ''failed to write remote file %s: %w'' [p, e])
          | None \<Rightarrow> if ro_code r \<noteq> 0
              then Some (Errorf ''failed to write remote file %s (exit %d): %s'' [p, itoa (ro_code r), TrimSpace (ro_stderr r)])
              else None))
      else withSFTPClient E cx host (\<lambda>c. writeRemoteFile E c (d, None) p mode)) v" by simp
qed

lemma tame_RunScript:
  fixes w :: "'x sworld"
  assumes kind: "kind E rep out" and w: "tame cx w" and ok: "out (script_command (script_path [])) = RunOk"
  shows "yields (stays_tame cx) (\<lambda>r v. snd r = None) (RunScript E cx host script) w"
  unfolding RunScript_def
proof (rule tame_then [OF w, where P = "\<lambda>r. r = Inr []"])
  show "tame cx v' \<and> r = Inr []" if "tame cx v" "(s_random E v, v) = (r, v')" for v r v' using that kind by (auto simp: kind_def)
next
  fix rnd :: "goerr + string" and v :: "'x sworld" assume v: "tame cx v" and r: "rnd = Inr []"
  have run: "yields (stays_tame cx) (\<lambda>r v. snd r = None) (andThen (RunCommand E cx host (script_command (script_path []))) (\<lambda>o'.
      Return (ro_stdout o', if ro_err o' \<noteq> None \<or> ro_code o' \<noteq> 0
        then Some (Errorf (''script execution failed on %s (exit %d): %v'' @ nl # ''Stderr: %s'')
          [host, itoa (ro_code o'), err_v (ro_err o'), ro_stderr o']) else None))) u" if "tame cx u" for u
    by (rule tame.yields_andThen [OF tame_RunCommand [OF kind that]]) (auto intro!: tame.yields_Return simp: answer_def ok)
  show "yields (stays_tame cx) (\<lambda>r v. snd r = None) (case rnd of
      Inl e \<Rightarrow> Return ([], Some (Errorf ''generate script name: %w'' [e]))
    | Inr bytes \<Rightarrow> (let tmpPath = script_path bytes in
        andThen (CopyContent E cx host script tmpPath 448) (\<lambda>r. case r of
          Some e \<Rightarrow> Return ([], Some (Errorf ''failed to upload script to %s: %w'' [host, e]))
        | None \<Rightarrow> andThen (RunCommand E cx host (script_command tmpPath)) (\<lambda>o'.
            Return (ro_stdout o',
              if ro_err o' \<noteq> None \<or> ro_code o' \<noteq> 0
              then Some (Errorf (''script execution failed on %s (exit %d): %v'' @ nl # ''Stderr: %s'')
                [host, itoa (ro_code o'), err_v (ro_err o'), ro_stderr o'])
              else None))))) v"
    unfolding r sum.case Let_def
    by (rule tame.yields_andThen [OF tame_CopyContent [OF kind v]]) (use v run in \<open>simp add: stays_tame_def\<close>)
qed

lemma tame_RunParallelFunc:
  assumes w: "tame cx w" and tasks: "\<And>h f. (h, f) \<in> set tasks \<Longrightarrow> yields (stays_tame cx) (\<lambda>r v. r = None) f w"
    and run: "RunParallelFunc E tasks w = (rs, w')"
  shows "tame cx w' \<and> (\<forall>r \<in> set rs. Err r = None)"
proof -
  let ?ps = "map (\<lambda>(h, f). andThen f (\<lambda>e. Return \<lparr>Host = h, Output = [], ExitCode = 0, Err = e\<rparr>)) tasks"
  obtain fin where f: "par_exec (parallelLimit (length tasks)) (e_sched E w) ?ps w = (fin, w')" and rs: "rs = map snd fin"
    using run by (auto simp: RunParallelFunc_def parallel_def split: prod.splits)
  have "yields (stays_tame cx) (\<lambda>r v. Err r = None) (?ps ! i) w" if i: "i < length ?ps" for i
  proof -
    obtain h g where hg: "tasks ! i = (h, g)" by fastforce
    with i have "yields (stays_tame cx) (\<lambda>r v. r = None) g w" using tasks nth_mem by fastforce
    with i hg show ?thesis by (auto intro!: tame.yields_andThen [where P = "\<lambda>r v. r = None"] tame.yields_Return)
  qed
  from tame.par_exec_yields [where Q = "\<lambda>i r v. Err r = None", OF this f]
  have "stays_tame cx w w'" "\<And>i r. (i, r) \<in> set fin \<Longrightarrow> Err r = None" using tame.refl by blast+
  with w rs show ?thesis by (auto simp: stays_tame_def)
qed

end
