(* ===== verification/VerifyLab.thy ===== *)
theory VerifyLab
  imports VerifyProps SshKind ConfigSample
begin

text \<open>
  A healthy infrastructure, as its hosts answer the checks, to apply the properties of the verification to. That it passes is
  shown for every schedule.
\<close>

text \<open>The commands are told apart by their beginnings.\<close>

definition reply :: "string \<Rightarrow> string" where
  "reply cmd =
     (if take 3 cmd = ''for'' then ''active'' @ delim @ ''5''
      else if take 3 cmd = ''kub'' then ''m1 Ready'' @ delim @ ''mariadb-0 Running'' @ delim @ ''3''
      else if take 3 cmd = ''cat'' then ''1'' @ delim @ ''Status: active''
      else if take 3 cmd = ''drb'' then ''cms_data role:Primary''
      else if take 22 cmd = ''systemctl is-active pu'' then ''active'' @ delim @ ''4''
      else if take 22 cmd = ''systemctl is-active ng'' then ''issuer=CN = CMS Local CA''
      else ''active'')"

definition city :: "(string \<Rightarrow> string option) ssh_env" where
  "city = (prompt reply (\<lambda>cmd. RunOk))\<lparr>e_exec := \<lambda>argv w. (('' Id Name State'' @ [nl] @ ''---'' @ [nl] @ '' 1 m1 running'', None), 1, w_fs w, w_ext w)\<rparr>"

definition city_virsh :: Client where
  "city_virsh = \<lparr>URI = ''qemu:///system'', UseSudo = False\<rparr>"

lemma city_exec [simp]:
  "e_exec city argv w = (('' Id Name State'' @ [nl] @ ''---'' @ [nl] @ '' 1 m1 running'', None), 1, w_fs w, w_ext w)"
  by (simp add: city_def prompt_def lab_def)

lemma city_kind: "kind city reply (\<lambda>cmd. RunOk)"
  by (simp add: kind_def city_def prompt_def lab_def)

lemmas city_runs = tame_RunCommand [OF city_kind] and city_parallel = tame_RunParallel [OF city_kind]

section \<open>Every check passes\<close>

abbreviation answer_ok :: "string \<Rightarrow> run_out" where
  "answer_ok \<equiv> answer reply (\<lambda>cmd. RunOk)"

lemma tame_ListRunning: "tame None v \<Longrightarrow> ListRunning city city_virsh None v = (r, v') \<Longrightarrow> tame None v' \<and> r = Inr [''m1'']"
proof -
  assume v: "tame None v" and run: "ListRunning city city_virsh None v = (r, v')"
  have "map dom_Name (filter (\<lambda>d. EqualFold (TrimSpace (dom_State d)) ''running'')
      (parse_domains ('' Id Name State'' @ [nl] @ ''---'' @ [nl] @ '' 1 m1 running''))) = [''m1'']" by code_simp
  with v run show ?thesis
    by (auto simp: ListRunning_def ListAll_def virsh_def run_cmd_def ctx_err_def done_at_def tame_def)
qed

lemma city_results:
  "Pass (phase00_result (Inr [''m1'']))" "Pass (phase01_result (answer_ok phase01_cmd))" "Pass (phase02_result (answer_ok phase02_cmd))"
  "Pass (phase04_result sample_config (answer_ok phase04_cmd))" "Pass (phase05_result (answer_ok phase05_cmd))" "Pass (phase06_result (answer_ok phase06_cmd))"
proof -
  show "Pass (phase00_result (Inr [''m1'']))" by code_simp
  show "Pass (phase01_result (answer_ok phase01_cmd))" by code_simp
  show "Pass (phase02_result (answer_ok phase02_cmd))" by code_simp
  show "Pass (phase04_result sample_config (answer_ok phase04_cmd))" by code_simp
  show "Pass (phase05_result (answer_ok phase05_cmd))" by code_simp
  show "Pass (phase06_result (answer_ok phase06_cmd))" by code_simp
qed

lemma city_hosts:
  "lb_issues (PKICommonName sample_config) (host_result h (answer_ok (phase03_lb_cmd sample_config))) = []"
  "cms_issues (host_result h (answer_ok phase03_cms_cmd)) = []" "drbd_up (host_result h (answer_ok phase07_cmd))"
proof -
  have "take 22 (phase03_lb_cmd sample_config) = ''systemctl is-active ng''"
    by (simp add: phase03_lb_cmd_def Sprintf_def is_letter_def)
  then have "reply (phase03_lb_cmd sample_config) = ''issuer=CN = CMS Local CA''"
    by (simp add: reply_def phase03_lb_cmd_def Sprintf_def is_letter_def)
  moreover have "PKICommonName sample_config = ''CMS Local CA''" by (simp add: PKICommonName_def sample_config_def)
  moreover have "Contains ''issuer=CN = CMS Local CA'' ''CMS Local CA''" by code_simp
  ultimately have "Contains (reply (phase03_lb_cmd sample_config)) (PKICommonName sample_config)" by simp
  moreover have "Contains (reply phase07_cmd) ''Primary''" by code_simp
  ultimately show "lb_issues (PKICommonName sample_config) (host_result h (answer_ok (phase03_lb_cmd sample_config))) = []"
    "cms_issues (host_result h (answer_ok phase03_cms_cmd)) = []" "drbd_up (host_result h (answer_ok phase07_cmd))"
    by (simp_all add: lb_issues_Nil cms_issues_Nil drbd_up_def host_result_def answer_def)
qed

lemma sample_masters: "Masters (Nodes sample_config) \<noteq> []"
  by (simp add: sample_config_def sample_nodes_def)

lemma tame_ask: "tame None w \<Longrightarrow> Pass (result (answer_ok cmd)) \<Longrightarrow> yields (stays_tame None) (\<lambda>r v. Pass r) (ask city None host cmd result) w"
  unfolding ask_def by (rule tame.yields_andThen [OF city_runs]) (auto intro: tame.yields_Return)

lemma tame_check:
  assumes w: "tame None w" and "p \<in> set (checks city sample_config city_virsh None)"
  shows "yields (stays_tame None) (\<lambda>r v. Pass r) p w"
proof -
  have 0: "yields (stays_tame None) (\<lambda>r v. Pass r) (phase00 city city_virsh None) w"
    unfolding phase00_def
    by (rule tame_then [OF w tame_ListRunning], assumption, assumption) (simp add: city_results tame.yields_Return)
  have 3: "yields (stays_tame None) (\<lambda>r v. Pass r) (phase03 city sample_config None) w"
    unfolding phase03_def
    by (rule tame_then [OF w city_parallel], assumption, assumption, rule tame_then [OF _ city_parallel], assumption, assumption, assumption)
      (auto intro!: tame.yields_Return simp: phase03_pass city_hosts)
  have "with_IP (Masters (Nodes sample_config)) \<noteq> []" by code_simp
  then have "find drbd_up (map (\<lambda>h. host_result h (answer_ok phase07_cmd)) (with_IP (Masters (Nodes sample_config)))) \<noteq> None"
    by (cases "with_IP (Masters (Nodes sample_config))") (simp_all add: city_hosts)
  then have "Pass (phase07_result (map (\<lambda>h. host_result h (answer_ok phase07_cmd)) (with_IP (Masters (Nodes sample_config)))))"
    by (auto simp: phase07_result_def)
  with \<open>with_IP (Masters (Nodes sample_config)) \<noteq> []\<close> have 7: "yields (stays_tame None) (\<lambda>r v. Pass r) (phase07 city sample_config None) w"
    unfolding phase07_def by (simp, intro tame_then [OF w city_parallel]) (auto intro: tame.yields_Return)
  have 4: "yields (stays_tame None) (\<lambda>r v. Pass r) (phase04 city sample_config None) w"
    using city_results(4) tame_ask [OF w]
    unfolding phase04_def by (cases "Masters (Nodes sample_config)") (simp_all add: sample_masters)
  show ?thesis using assms(2) 0 3 4 7 tame_ask [OF w] city_results
    unfolding checks_def phase01_def phase02_def phase05_def phase06_def by auto
qed

lemma city_verified: "fst (VerifyAll city sample_config city_virsh None calm_world) = None"
proof -
  let ?ps = "checks city sample_config city_virsh None"
  obtain fin w' where f: "par_exec (length ?ps) (e_sched city calm_world) ?ps calm_world = (fin, w')" by fastforce
  from tame_check [OF calm_tame] have "yields (stays_tame None) (\<lambda>r v. Pass r) (?ps ! i) calm_world" if "i < length ?ps" for i using that by auto
  from tame.par_exec_yields [where Q = "\<lambda>i r v. Pass r", OF this f] have "\<And>i r. (i, r) \<in> set fin \<Longrightarrow> Pass r" using tame.refl by blast
  then have "Pass (by_index (length ?ps) fin ! i)" if "i < length ?ps" for i
    using by_index_mem [OF par_exec_complete [OF f] that] by blast
  then have "list_all Pass (by_index (length ?ps) fin)" by (simp add: list_all_length by_index_def)
  with f show ?thesis by (simp add: VerifyAll_def parallel_def)
qed


end
