(* ===== verification/Repair.thy ===== *)
theory Repair
  imports Failover Verify
begin

text \<open>
  \<open>internal/utils/repair.go\<close>: setting the clocks of all machines, and restarting the Kubernetes cluster. Hosts that fail are
  reported only as warnings, the events \<open>Log\<close>.
\<close>

definition logf :: "string \<Rightarrow> ('x, 'p) world \<Rightarrow> ('x, 'p) world" where
  "logf s w = emit (Log s) w"

section \<open>Clocks\<close>

definition Unix :: "('x, 'p) world \<Rightarrow> int" where
  "Unix w = w_clock w div Second"

definition sync_cmd :: "int \<Rightarrow> string" where
  "sync_cmd now = Sprintf (''date -s @%d && (systemctl restart chrony 2>/dev/null && chronyc makestep 2>/dev/null ''
     @ ''|| systemctl restart systemd-timesyncd 2>/dev/null || true)'') [itoa now]"

definition sync_report :: "ParallelResult \<Rightarrow> ('x, 'p) world \<Rightarrow> ('x, 'p) world" where
  "sync_report r = logf (case Err r of
      Some e \<Rightarrow> Sprintf ''Failed to sync clock on %s: %v'' [Host r, e]
    | None \<Rightarrow> Sprintf ''Synced clock on %s'' [Host r])"

definition SyncClocks :: "('x, 'z) ssh_env_scheme \<Rightarrow> Config \<Rightarrow> ctx \<Rightarrow> 'x sworld \<Rightarrow> goerr option \<times> 'x sworld" where
  "SyncClocks E cfg c w = (let validIPs = filter (\<lambda>ip. ip \<noteq> []) (AllNodeIPs cfg) in
     case RunParallel E c validIPs (sync_cmd (Unix w)) w of (results, w1) \<Rightarrow>
       (let failed = length (filter (\<lambda>r. Err r \<noteq> None) results) in
        (if length validIPs > 0 \<and> failed = length validIPs
         then Some (Errorf ''failed to sync the clock on all %d host(s)'' [itoa (int failed)]) else None,
         fold sync_report results w1)))"

section \<open>Kubernetes\<close>

definition cleanup_cmd :: string where
  "cleanup_cmd = ''systemctl stop k3s k3s-agent 2>/dev/null || true; killall -9 k3s k3s-server k3s-agent 2>/dev/null || true''"

definition cleanup_report :: "ParallelResult \<Rightarrow> ('x, 'p) world \<Rightarrow> ('x, 'p) world" where
  "cleanup_report r w = (if Err r \<noteq> None
     then logf (Sprintf ''k3s cleanup issue on %s (exit %d): %v %s'' [Host r, itoa (ExitCode r), err_v (Err r), TrimSpace (Output r)]) w
     else w)"

definition start_report :: "string \<Rightarrow> ParallelResult \<Rightarrow> ('x, 'p) world \<Rightarrow> ('x, 'p) world" where
  "start_report unit r w = (if Err r \<noteq> None \<or> ExitCode r \<noteq> 0
     then logf (Sprintf ''failed to start %s on %s (exit %d): %v %s''
       [unit, Host r, itoa (ExitCode r), err_v (Err r), TrimSpace (Output r)]) w
     else w)"

definition start_units :: "('x, 'z) ssh_env_scheme \<Rightarrow> ctx \<Rightarrow> string list \<Rightarrow> string \<Rightarrow> 'x sworld \<Rightarrow> 'x sworld" where
  "start_units E c ips unit w = (case RunParallel E c ips (''systemctl start '' @ unit) w of
     (rs, w1) \<Rightarrow> fold (start_report unit) rs w1)"

definition api_answers :: "run_out \<Rightarrow> bool" where
  "api_answers r \<longleftrightarrow> ro_err r = None \<and> ro_code r = 0 \<and> TrimSpace (ro_stdout r) \<noteq> []"

definition nodes_probe :: "('x, 'z) ssh_env_scheme \<Rightarrow> ctx \<Rightarrow> string \<Rightarrow> (run_out \<Rightarrow> bool) \<Rightarrow> ('x, Pool) probe" where
  "nodes_probe E c host = ssh_probe E c host ''kubectl get nodes --no-headers''"

definition start_masters :: "('x, 'z) ssh_env_scheme \<Rightarrow> ctx \<Rightarrow> string list \<Rightarrow> 'x sworld \<Rightarrow> 'x sworld" where
  "start_masters E c masterIPs w = (if masterIPs = [] then w
     else case waitFor E c (90 * Second) (3 * Second) (nodes_probe E c (hd masterIPs) api_answers) (start_units E c masterIPs ''k3s'' w) of
       (ready, w1) \<Rightarrow> if ready then w1 else logf ''K3s API server did not become ready within 90s'' w1)"

definition start_workers :: "('x, 'z) ssh_env_scheme \<Rightarrow> ctx \<Rightarrow> string list \<Rightarrow> string list \<Rightarrow> 'x sworld \<Rightarrow> 'x sworld" where
  "start_workers E c masterIPs workerIPs w = (if workerIPs = [] then w
     else let w1 = start_units E c workerIPs ''k3s-agent'' w in
       if masterIPs = [] then w1
       else case waitFor E c (120 * Second) (3 * Second)
           (nodes_probe E c (hd masterIPs) (\<lambda>r. api_answers r \<and> \<not> Contains (ro_stdout r) ''NotReady'')) w1 of
         (ready, w2) \<Rightarrow> if ready then w2 else logf ''Not all nodes reached Ready within 120s'' w2)"

definition verify_nodes :: "('x, 'z) ssh_env_scheme \<Rightarrow> ctx \<Rightarrow> string list \<Rightarrow> 'x sworld \<Rightarrow> goerr option \<times> 'x sworld" where
  "verify_nodes E c masterIPs w = (if masterIPs = [] then (None, w)
     else case run_proc (RunCommand E c (hd masterIPs) ''kubectl get nodes'') w of (r, w1) \<Rightarrow>
       (case ro_err r of
          Some e \<Rightarrow> (Some e, logf (Sprintf ''Failed to verify nodes: %v'' [e]) w1)
        | None \<Rightarrow> (None, logf (if Contains (ro_stdout r) ''NotReady'' then ''Some nodes are still NotReady''
            else Sprintf (''All nodes are Ready:'' @ nl # ''%s'') [ro_stdout r]) w1)))"

definition RepairK8s :: "('x, 'z) ssh_env_scheme \<Rightarrow> Config \<Rightarrow> ctx \<Rightarrow> 'x sworld \<Rightarrow> goerr option \<times> 'x sworld" where
  "RepairK8s E cfg c w =
     (let masterIPs = with_IP (Masters (Nodes cfg)); workerIPs = with_IP (Workers (Nodes cfg)) in
      case SyncClocks E cfg c w of (_, w1) \<Rightarrow>
        (case ctx_err c w1 of
           Some e \<Rightarrow> (Some e, w1)
         | None \<Rightarrow> (case RunParallel E c (masterIPs @ workerIPs) cleanup_cmd w1 of (rs, w2) \<Rightarrow>
             verify_nodes E c masterIPs (start_workers E c masterIPs workerIPs
               (start_masters E c masterIPs (fold cleanup_report rs w2))))))"

end
