(* ===== verification/RepairSsh.thy ===== *)
theory RepairSsh
  imports Phases
begin

text \<open>
  \<open>internal/phases/repairssh/repair.go\<close>: the phase that forgets old host keys, waits for SSH on all nodes, sets their names
  and \<open>/etc/hosts\<close>, and lets the jumpstart log in to them.
\<close>

section \<open>Forgetting host keys\<close>

definition kh_name_is :: "string \<Rightarrow> string \<Rightarrow> bool" where
  "kh_name_is ip part = (let p = TrimSpace part in
     p = ip \<or> (HasPrefix p ''['' \<and> (case find_sub '']:'' p of None \<Rightarrow> False | Some idx \<Rightarrow> take (idx - 1) (drop 1 p) = ip)))"

definition hostMatchesIP :: "string \<Rightarrow> string \<Rightarrow> bool" where
  "hostMatchesIP hostToken targetIP =
     (let t = TrimPrefix (TrimPrefix hostToken ''@cert-authority '') ''@revoked ''
      in list_ex (kh_name_is targetIP) (Split t '',''))"

definition kh_keep :: "string list \<Rightarrow> string \<Rightarrow> bool" where
  "kh_keep ips line = (let trimmed = TrimSpace line in
     if trimmed = [] \<or> HasPrefix trimmed ''#'' then True
     else case Fields trimmed of
       [] \<Rightarrow> True
     | hostPart # fs \<Rightarrow> \<not> list_ex (\<lambda>ip. ip \<noteq> [] \<and> hostMatchesIP hostPart ip) ips)"

definition removeHostsFromKnownHosts :: "('x, 'p, 'z) env_scheme \<Rightarrow> string \<Rightarrow> string list \<Rightarrow> ('x, 'p) world \<Rightarrow> goerr option \<times> ('x, 'p) world" where
  "removeHostsFromKnownHosts E path ips w = (case ReadFile E (Clean path) w of
      Inl e \<Rightarrow> (if IsNotExist e then None else Some (perr_msg e), w)
    | Inr d \<Rightarrow> do_fs E (WriteFile (Clean path) (Join (filter (kh_keep ips) (Split d [nl])) [nl]) 384) w)"

text \<open>Every file is cleaned; the first error is reported.\<close>

fun clean_files :: "('x, 'p, 'z) env_scheme \<Rightarrow> string list \<Rightarrow> string list \<Rightarrow> goerr option \<Rightarrow> ('x, 'p) world \<Rightarrow> goerr option \<times> ('x, 'p) world" where
  "clean_files E ips [] firstErr w = (firstErr, w)"
| "clean_files E ips (p # ps) firstErr w = (case removeHostsFromKnownHosts E p ips w of
     (e, w1) \<Rightarrow> clean_files E ips ps (if e \<noteq> None \<and> firstErr = None then e else firstErr) w1)"

definition known_hosts_files :: "('x, 'p, 'z) env_scheme \<Rightarrow> Config \<Rightarrow> string \<Rightarrow> string list" where
  "known_hosts_files E cfg homeDir = (let kh = SSHKnownHostsFile E cfg in
     Clean (path_Join [homeDir, ''.ssh'', ''known_hosts'']) # (if kh \<noteq> [] then [Clean kh] else []))"

definition cleanKnownHosts :: "('x, 'p, 'z) env_scheme \<Rightarrow> Config \<Rightarrow> string list \<Rightarrow> ('x, 'p) world \<Rightarrow> goerr option \<times> ('x, 'p) world" where
  "cleanKnownHosts E cfg ips w = (case UserHomeDir E of
      None \<Rightarrow> (Some ''$HOME is not defined'', w)
    | Some homeDir \<Rightarrow> clean_files E ips (known_hosts_files E cfg homeDir) None w)"

section \<open>Names\<close>

definition with_address :: "NodeSpec list \<Rightarrow> NodeSpec list" where
  "with_address ns = filter (\<lambda>n. IP n \<noteq> []) ns"

definition first_error :: "ParallelResult list \<Rightarrow> goerr option" where
  "first_error rs = first_some Err rs"

text \<open>One task for each address, and the first error among the results.\<close>

definition on_all :: "('x, 'z) ssh_env_scheme \<Rightarrow> (NodeSpec \<Rightarrow> ('x, goerr option) sproc) \<Rightarrow> NodeSpec list \<Rightarrow> 'x sworld \<Rightarrow> goerr option \<times> 'x sworld" where
  "on_all E task nodes w = (case RunParallelFunc E (tasks_of IP task nodes) w of (rs, w') \<Rightarrow> (first_error rs, w'))"

text \<open>A command that counts only when it ends with 0.\<close>

definition checked :: "('x, 'z) ssh_env_scheme \<Rightarrow> ctx \<Rightarrow> string \<Rightarrow> string \<Rightarrow> string \<Rightarrow> ('x, goerr option) sproc" where
  "checked E c host cmd what = andThen (RunCommand E c host cmd) (\<lambda>r.
     Return (if ro_err r \<noteq> None \<or> ro_code r \<noteq> 0
       then Some (Errorf ''failed to %s on %s (exit %d): %v'' [what, host, itoa (ro_code r), err_v (ro_err r)]) else None))"

definition setHostnames :: "('x, 'z) ssh_env_scheme \<Rightarrow> ctx \<Rightarrow> NodeSpec list \<Rightarrow> 'x sworld \<Rightarrow> goerr option \<times> 'x sworld" where
  "setHostnames E c nodes = on_all E
     (\<lambda>n. checked E c (IP n) (Sprintf ''hostnamectl set-hostname %s'' [FQDN n]) ''set hostname'') (with_address nodes)"

definition hosts_line :: "NodeSpec \<Rightarrow> string" where
  "hosts_line n = (if IP n \<noteq> [] \<and> FQDN n \<noteq> [] then
     (if Name n = ''jumpstart'' then Sprintf ''%s %s %s puppet'' [IP n, FQDN n, Name n] @ [nl]
      else Sprintf ''%s %s %s'' [IP n, FQDN n, Name n] @ [nl]) else [])"

definition hosts_content :: "NodeSpec list \<Rightarrow> string" where
  "hosts_content nodes = ''127.0.0.1 localhost'' @ [nl] @ concat (map hosts_line nodes)"

definition generateHosts :: "('x, 'z) ssh_env_scheme \<Rightarrow> ctx \<Rightarrow> NodeSpec list \<Rightarrow> 'x sworld \<Rightarrow> goerr option \<times> 'x sworld" where
  "generateHosts E c nodes = on_all E (\<lambda>n. CopyContent E c (IP n) (hosts_content nodes) ''/etc/hosts'' 420) (with_address nodes)"

section \<open>The key of the jumpstart\<close>

definition ensure_key_cmd :: string where
  "ensure_key_cmd = ''if [ ! -f /root/.ssh/id_ed25519 ]; then mkdir -p /root/.ssh && chmod 700 /root/.ssh && ''
     @ ''ssh-keygen -t ed25519 -N '' @ [squote, squote] @ '' -f /root/.ssh/id_ed25519; fi''"

definition deploy_home :: "string \<Rightarrow> string" where
  "deploy_home user = (if user = ''root'' then ''/root'' else ''/home/'' @ user)"

text \<open>The lines are indented by tabs.\<close>

definition authorise_cmd :: "string \<Rightarrow> string \<Rightarrow> string" where
  "authorise_cmd user pubKey = (let home = deploy_home user; tab = CHR 0x09; line = (\<lambda>l. [tab, tab, tab, tab] @ l @ [nl]) in
     [nl]
     @ line (''mkdir -p '' @ home @ ''/.ssh'')
     @ line (''chmod 700 '' @ home @ ''/.ssh'')
     @ line (''grep -qxF '' @ [squote] @ pubKey @ [squote] @ '' '' @ home @ ''/.ssh/authorized_keys 2>/dev/null || echo ''
         @ [squote] @ pubKey @ [squote] @ '' >> '' @ home @ ''/.ssh/authorized_keys'')
     @ line (''chmod 600 '' @ home @ ''/.ssh/authorized_keys'')
     @ line (''chown -R '' @ user @ '':'' @ user @ '' '' @ home @ ''/.ssh 2>/dev/null || true'')
     @ [tab, tab, tab])"

definition propagateSSHKeys :: "('x, 'z) ssh_env_scheme \<Rightarrow> Config \<Rightarrow> ctx \<Rightarrow> NodeSpec list \<Rightarrow> 'x sworld \<Rightarrow> goerr option \<times> 'x sworld" where
  "propagateSSHKeys E cfg c nodes w = (let jumpstartIP = n_IP (Jumpstart (Nodes cfg)) in
     if jumpstartIP = [] then (Some ''jumpstart IP is empty'', w)
     else case run_command E c jumpstartIP ensure_key_cmd w of (r, w1) \<Rightarrow>
       if ro_err r \<noteq> None \<or> ro_code r \<noteq> 0
       then (Some (Errorf ''failed to ensure jumpstart ssh key (exit %d): %v'' [itoa (ro_code r), err_v (ro_err r)]), w1)
       else case run_command E c jumpstartIP ''cat /root/.ssh/id_ed25519.pub'' w1 of (r, w2) \<Rightarrow>
         if ro_err r \<noteq> None \<or> ro_code r \<noteq> 0
         then (Some (Errorf ''failed to read jumpstart public key (exit %d): %v'' [itoa (ro_code r), err_v (ro_err r)]), w2)
         else (let pubKeyStr = TrimSpace (ro_stdout r) in
           if pubKeyStr = [] then (Some ''jumpstart public key is empty'', w2)
           else on_all E (\<lambda>n. checked E c (IP n) (authorise_cmd (SSHUser cfg) pubKeyStr) ''add pubkey'')
             (filter (\<lambda>n. \<not> (IP n = jumpstartIP \<or> IP n = [])) nodes) w2))"

section \<open>The phase\<close>

text \<open>A failure to clean the files of host keys is only logged.\<close>

definition repairssh_Run :: "('x, 'z) ssh_env_scheme \<Rightarrow> Config \<Rightarrow> ctx \<Rightarrow> 'x sworld \<Rightarrow> goerr option \<times> 'x sworld" where
  "repairssh_Run E cfg c w = (let allNodes = AllNodes cfg; allIPs = AllNodeIPs cfg in
     case cleanKnownHosts E cfg allIPs w of (_, w1) \<Rightarrow>
     check_err (WaitForAllSSH E c allIPs (5 * 60 * Second) w1) (\<lambda>e. Errorf ''failed waiting for SSH: %w'' [e]) (\<lambda>w.
     check_err (setHostnames E c allNodes w) (\<lambda>e. Errorf ''failed setting hostnames: %w'' [e]) (\<lambda>w.
     check_err (generateHosts E c allNodes w) (\<lambda>e. Errorf ''failed generating hosts file: %w'' [e]) (\<lambda>w.
     check_err (propagateSSHKeys E cfg c allNodes w) (\<lambda>e. Errorf ''failed propagating SSH keys: %w'' [e]) (\<lambda>w. (None, w))))))"

end
