(* ===== verification/RepairSshProps.thy ===== *)
theory RepairSshProps
  imports RepairSsh SshTrust Rely Files
begin

text \<open>
  What the repair of the SSH connections does to the files of host keys, and that the running process does not see it: the pool keeps
  using the keys that it has loaded.
\<close>

section \<open>The files of host keys\<close>

text \<open>The host that a line of \<open>known_hosts\<close> is for: its first field is a list of names and of addresses with a port in brackets.\<close>

definition names_host :: "string \<Rightarrow> string \<Rightarrow> bool" where
  "names_host ip line \<longleftrightarrow> \<not> HasPrefix (TrimSpace line) ''#'' \<and> (\<exists>h fs part. Fields (TrimSpace line) = h # fs \<and> part \<in> set (Split h '','') \<and>
     (part = ip \<or> (\<exists>port. part = CHR ''['' # ip @ '']:'' @ port)))"

lemma HasPrefix_set: "HasPrefix s p \<Longrightarrow> set p \<subseteq> set s"
  unfolding HasPrefix_def by (metis set_take_subset)

lemma TrimPrefix_spaceless: "\<forall>c \<in> set s. \<not> is_space c \<Longrightarrow> \<exists>c \<in> set p. is_space c \<Longrightarrow> TrimPrefix s p = s"
  using HasPrefix_set [of s p] by (auto simp: TrimPrefix_def)

lemma TrimSpace_spaceless: "\<forall>c \<in> set s. \<not> is_space c \<Longrightarrow> TrimSpace s = s"
proof -
  assume s: "\<forall>c \<in> set s. \<not> is_space c"
  have *: "dropWhile is_space t = t" if "\<forall>c \<in> set t. \<not> is_space c" for t using that by (cases t) simp_all
  show "TrimSpace s = s" using * [of s] * [of "rev s"] s by (simp add: TrimSpace_def)
qed

lemma split_acc_set: "x \<in> set (split_acc sep acc s) \<Longrightarrow> set x \<subseteq> set acc \<union> set s"
  by (induction sep acc s rule: split_acc.induct) (fastforce split: if_splits dest: in_set_dropD)+

lemma find_sub_prefix: "find_sub p s = Some i \<Longrightarrow> HasPrefix (drop i s) p"
  by (induction s arbitrary: i) (auto simp: HasPrefix_def split: if_splits)

lemma find_sub_first: "d \<notin> set u \<Longrightarrow> find_sub (d # p) (u @ d # p @ v) = Some (length u)"
  by (induction u) (auto simp: HasPrefix_def)

lemma kh_name_is_iff:
  assumes "\<forall>c \<in> set p. \<not> is_space c" and "CHR '']'' \<notin> set ip"
  shows "kh_name_is ip p \<longleftrightarrow> p = ip \<or> (\<exists>port. p = CHR ''['' # ip @ '']:'' @ port)"
proof (cases "HasPrefix p ''[''")
  case False
  then have "p \<noteq> CHR ''['' # q" for q by (auto simp: HasPrefix_def)
  with False assms(1) show ?thesis by (simp add: kh_name_is_def TrimSpace_spaceless)
next
  case True
  then obtain q where p: "p = CHR ''['' # q" by (cases p) (auto simp: HasPrefix_def)
  have find: "find_sub '']:'' p = map_option Suc (find_sub '']:'' q)" by (simp add: p HasPrefix_def)
  have "(\<exists>i. find_sub '']:'' q = Some i \<and> take i q = ip) \<longleftrightarrow> (\<exists>port. q = ip @ '']:'' @ port)"
  proof
    assume "\<exists>i. find_sub '']:'' q = Some i \<and> take i q = ip"
    then obtain i where i: "find_sub '']:'' q = Some i" "take i q = ip" by blast
    then have "take 2 (drop i q) = '']:''" using find_sub_prefix [OF i(1)] by (simp add: HasPrefix_def numeral_2_eq_2)
    then have "q = ip @ '']:'' @ drop 2 (drop i q)" using i(2) by (metis append_take_drop_id)
    then show "\<exists>port. q = ip @ '']:'' @ port" by blast
  next
    assume "\<exists>port. q = ip @ '']:'' @ port"
    then obtain port where "q = ip @ CHR '']'' # '':'' @ port" by auto
    with find_sub_first [OF assms(2), of "'':''" port] show "\<exists>i. find_sub '']:'' q = Some i \<and> take i q = ip" by auto
  qed
  then show ?thesis using True find p assms(1)
    by (auto simp: kh_name_is_def TrimSpace_spaceless Let_def split: option.split)
qed

lemma kh_keep_iff:
  assumes "\<forall>ip \<in> set ips. CHR '']'' \<notin> set ip"
  shows "kh_keep ips line \<longleftrightarrow> \<not> (\<exists>ip \<in> set ips. ip \<noteq> [] \<and> names_host ip line)"
proof (cases "TrimSpace line = [] \<or> HasPrefix (TrimSpace line) ''#'' \<or> Fields (TrimSpace line) = []")
  case True
  then have "\<not> names_host ip line" for ip by (auto simp: names_host_def Fields_def)
  with True show ?thesis by (auto simp: kh_keep_def Let_def)
next
  case False
  then obtain h fs where f: "Fields (TrimSpace line) = h # fs" by (cases "Fields (TrimSpace line)") auto
  then have h: "\<forall>c \<in> set h. \<not> is_space c" using Fields_nonspace [of h "TrimSpace line"] by simp
  then have "TrimPrefix (TrimPrefix h ''@cert-authority '') ''@revoked '' = h"
    by (simp add: TrimPrefix_spaceless is_space_def)
  moreover have "\<forall>c \<in> set part. \<not> is_space c" if "part \<in> set (Split h '','')" for part
    using split_acc_set [of part "'',''" "[]" h] that h by (auto simp: Split_def)
  ultimately have "hostMatchesIP h ip \<longleftrightarrow> names_host ip line" if "ip \<in> set ips" for ip
    using that assms False f by (auto simp: hostMatchesIP_def names_host_def list_ex_iff kh_name_is_iff)
  with False f show ?thesis by (auto simp: kh_keep_def Let_def list_ex_iff)
qed

text \<open>Complete lines stay complete.\<close>

lemma split_acc_end: "split_acc [c] acc (u @ [c]) = split_acc [c] acc u @ [[]]"
  by (induction "[c]" acc u rule: split_acc.induct) (auto simp: HasPrefix_def)

lemma Join_end: "Join (xs @ [[]]) [c] = [] \<or> last (Join (xs @ [[]]) [c]) = c"
  by (induction xs) (auto simp: Join_append1)

lemma filtered_lines:
  assumes "d = [] \<or> last d = nl" and "P []"
  shows "Join (filter P (Split d [nl])) [nl] = [] \<or> last (Join (filter P (Split d [nl])) [nl]) = nl"
proof (cases "d = []")
  case False
  with assms(1) obtain u where "d = u @ [nl]" by (metis append_butlast_last_id)
  then have "filter P (Split d [nl]) = filter P (Split u [nl]) @ [[]]" using assms(2) by (simp add: Split_def split_acc_end)
  then show ?thesis using Join_end by metis
qed (use assms(2) in simp)

text \<open>Removing hosts from a file of host keys: the file afterwards holds exactly the lines that are not for one of the hosts, in order and
  unchanged (comments and empty lines among them), and a file of complete lines stays one, as appending a new key to it needs. A host is
  named in the list that is the first field of a line; a line that starts with a marker (\<open>@revoked\<close>, \<open>@cert-authority\<close>) has the
  marker as its first field and is therefore always kept, though the code means to look behind the marker.\<close>

theorem known_hosts_cleaned:
  assumes run: "removeHostsFromKnownHosts E path ips w = (None, w')" and rd: "ReadFile E (Clean path) w = Inr d"
    and links: "no_links (w_fs w)" and ips: "\<forall>ip \<in> set ips. CHR '']'' \<notin> set ip"
  shows "\<exists>d'. content (w_fs w') (Clean path) = Some d' \<and>
    d' = Join (filter (\<lambda>l. \<not> (\<exists>ip \<in> set ips. ip \<noteq> [] \<and> names_host ip l)) (Split d [nl])) [nl] \<and>
    (d = [] \<or> last d = nl \<longrightarrow> d' = [] \<or> last d' = nl)"
proof -
  let ?P = "\<lambda>l. \<not> (\<exists>ip \<in> set ips. ip \<noteq> [] \<and> names_host ip l)"
  have keep: "kh_keep ips = ?P" by (rule ext) (rule kh_keep_iff [OF ips])
  then have "do_op E (WriteFile (Clean path) (Join (filter ?P (Split d [nl])) [nl]) 384) w = (None, w')"
    using run rd by (simp add: removeHostsFromKnownHosts_def do_fs_def split: prod.splits)
  from do_op_write [OF this links] have "content (w_fs w') (Clean path) = Some (Join (filter ?P (Split d [nl])) [nl])" .
  moreover have "kh_keep ips []" by (simp add: kh_keep_def TrimSpace_def)
  then have "?P []" unfolding keep .
  ultimately show ?thesis using filtered_lines [of d ?P] by blast
qed

section \<open>The host keys in memory\<close>

lemma removeHosts_heap: "removeHostsFromKnownHosts E path ips w = (r, w') \<Longrightarrow> w_heap w' = w_heap w"
  by (auto simp: removeHostsFromKnownHosts_def do_fs_def dest: do_op_heap split: sum.splits prod.splits)

lemma clean_files_heap: "clean_files E ips ps e w = (r, w') \<Longrightarrow> w_heap w' = w_heap w"
proof (induction ps arbitrary: e w)
  case (Cons p ps)
  obtain e1 w1 where 1: "removeHostsFromKnownHosts E p ips w = (e1, w1)" by fastforce
  with Cons show ?case using removeHosts_heap [OF 1] by (auto split: if_splits)
qed simp

lemma cleanKnownHosts_heap: "cleanKnownHosts E cfg ips w = (r, w') \<Longrightarrow> w_heap w' = w_heap w"
  by (auto simp: cleanKnownHosts_def dest: clean_files_heap split: option.splits)

text \<open>The pool holds the keys that it has loaded, and no connection.\<close>

definition pinned :: "kh_callback \<Rightarrow> 'x sworld \<Rightarrow> bool" where
  "pinned cb w \<longleftrightarrow> knownHostsCallback (w_heap w) = Some cb \<and> clients (w_heap w) = []"

definition stays_pinned :: "kh_callback \<Rightarrow> 'x sworld \<Rightarrow> 'x sworld \<Rightarrow> bool" where
  "stays_pinned cb w w' \<longleftrightarrow> (pinned cb w \<longrightarrow> pinned cb w')"

interpretation pin: world_order "stays_pinned cb" for cb
  by unfold_locales (auto simp: stays_pinned_def)

text \<open>Every key that the host can show is refused by the keys in memory.\<close>

definition refuses :: "('x, 'z) ssh_env_scheme \<Rightarrow> kh_callback \<Rightarrow> string \<Rightarrow> bool" where
  "refuses E cb host \<longleftrightarrow> (let addr = ensurePort host ''22'' in
     \<forall>cfg w. case fst (s_dial E addr cfg w) of NoConnect e \<Rightarrow> True | ServerKey r k auth \<Rightarrow> \<exists>e. cb addr r k = KhError e)"

lemma pin_atomic:
  assumes "pinned cb w" and "\<And>v r v'. pinned cb v \<Longrightarrow> f v = (r, v') \<Longrightarrow> pinned cb v' \<and> P r"
  shows "yields (stays_pinned cb) (\<lambda>r v. P r) (atomic f) w"
  by (rule pin.yields_atomic) (use assms in \<open>auto simp: stays_pinned_def\<close>)

lemma pin_then:
  assumes "pinned cb w" and "\<And>v r v'. pinned cb v \<Longrightarrow> f v = (r, v') \<Longrightarrow> pinned cb v' \<and> P r"
    and "\<And>r v. pinned cb v \<Longrightarrow> P r \<Longrightarrow> yields (stays_pinned cb) Q (k r) v"
  shows "yields (stays_pinned cb) Q (andThen (atomic f) k) w"
  by (rule pin.yields_andThen [OF pin_atomic [OF assms(1,2)]]) (use assms(1,3) in \<open>auto simp: stays_pinned_def\<close>)

lemma pin_lookup:
  "pinned cb v \<Longrightarrow> lookup_client E host v = (r, v') \<Longrightarrow> pinned cb v' \<and> (\<forall>x cfg. r = Inr (x, cfg) \<longrightarrow> x = None)"
  by (auto simp: lookup_client_def initKey_def pinned_def set_pool_def Let_def split: if_splits sum.splits)

lemma pin_verify: "pinned cb v \<Longrightarrow> verifyHostKey E h r k v = (res, v') \<Longrightarrow> \<exists>e. cb h r k = KhError e \<Longrightarrow> pinned cb v' \<and> res \<noteq> None"
  by (auto simp: verifyHostKey_def pinned_def set_pool_def Let_def)

lemma pin_getClient:
  fixes E :: "('x, 'z) ssh_env_scheme" and w :: "'x sworld"
  assumes ref: "refuses E cb host" and w: "pinned cb w"
  shows "yields (stays_pinned cb) (\<lambda>r v. \<exists>e. r = Inl e) (getClient E host) w"
  unfolding getClient_def
proof (rule pin_then [OF w pin_lookup], assumption, assumption)
  let ?addr = "ensurePort host ''22''" and ?Q = "\<lambda>(r :: nat res) (v :: 'x sworld). \<exists>e. r = Inl e"
  fix r :: "(nat option \<times> ClientConfig) res" and v :: "'x sworld" assume v: "pinned cb v" and r: "\<forall>x cfg. r = Inr (x, cfg) \<longrightarrow> x = None"
  have dial: "yields (stays_pinned cb) ?Q (ssh_Dial E ?addr cfg) v" for cfg
    unfolding ssh_Dial_def
  proof (rule pin_then [OF v, where P = "\<lambda>h. case h of NoConnect e \<Rightarrow> True | ServerKey r k auth \<Rightarrow> \<exists>e. cb ?addr r k = KhError e"])
    fix u h u' assume "pinned cb u" "(case s_dial E ?addr cfg u of (h, d) \<Rightarrow> (h, elapse d u)) = (h, u')"
    moreover from this(2) obtain d where "s_dial E ?addr cfg u = (h, d)" "u' = elapse d u" by (auto split: prod.splits)
    moreover have "case fst (s_dial E ?addr cfg u) of NoConnect e \<Rightarrow> True | ServerKey r k auth \<Rightarrow> \<exists>e. cb ?addr r k = KhError e"
      using ref unfolding refuses_def Let_def by blast
    ultimately show "pinned cb u' \<and> (case h of NoConnect e \<Rightarrow> True | ServerKey r k auth \<Rightarrow> \<exists>e. cb ?addr r k = KhError e)"
      by (simp add: pinned_def elapse_def)
  next
    fix h and u :: "'x sworld" assume "pinned cb u" "case h of NoConnect e \<Rightarrow> True | ServerKey r k auth \<Rightarrow> \<exists>e. cb ?addr r k = KhError e"
    then show "yields (stays_pinned cb) ?Q (case h of NoConnect e \<Rightarrow> Return (Inl e)
      | ServerKey remote key auth \<Rightarrow> andThen (atomic (verifyHostKey E ?addr remote key)) (\<lambda>v. case v of
            Some e \<Rightarrow> Return (Inl (s_refused E e))
          | None \<Rightarrow> (case auth of Some e \<Rightarrow> Return (Inl (s_refused E e)) | None \<Rightarrow> atomic (established ?addr)))) u"
      by (auto intro!: pin_then [where P = "\<lambda>r. r \<noteq> None"] pin.yields_Return dest: pin_verify split: handshake.splits)
  qed
  have new: "yields (stays_pinned cb) ?Q (andThen (ssh_Dial E ?addr cfg) (\<lambda>d. case d of
          Inl e \<Rightarrow> Return (Inl (Errorf ''failed to dial %s: %w'' [host, e]))
        | Inr c \<Rightarrow> atomic (adopt_client host c))) v" for cfg
    by (rule pin.yields_andThen [OF dial]) (auto intro!: pin.yields_Return)
  show "yields (stays_pinned cb) ?Q (case r of Inl e \<Rightarrow> Return (Inl e) | Inr (Some c, cfg) \<Rightarrow> Return (Inr c)
      | Inr (None, cfg) \<Rightarrow> andThen (ssh_Dial E ?addr cfg) (\<lambda>d. case d of
            Inl e \<Rightarrow> Return (Inl (Errorf ''failed to dial %s: %w'' [host, e]))
          | Inr c \<Rightarrow> atomic (adopt_client host c))) v"
    using r new by (auto intro!: pin.yields_Return split: sum.split option.split)
qed

lemma pin_wait_ssh:
  "refuses E cb host \<Longrightarrow> pinned cb w \<Longrightarrow> yields (stays_pinned cb) (\<lambda>r v. r \<noteq> None) (wait_ssh n E c host fire i) w"
proof (induction n arbitrary: fire i w)
  case 0
  then show ?case by (auto intro!: pin_atomic)
next
  case (Suc n)
  let ?sel = "\<lambda>w. case wait_until E c fire w of (b, w') \<Rightarrow> ((b, w_clock w', ctx_err c w'), w')"
  have sel: "pinned cb v'" if v: "pinned cb v" and s: "?sel v = (r, v')" for v r v'
  proof -
    obtain b where "wait_until E c fire v = (b, v')" using s by (auto split: prod.splits)
    then have "w_heap v' = w_heap v" using wait_until_frame by (metis world.ext_inject world.surjective world.update_convs(2))
    with v show ?thesis by (simp add: pinned_def)
  qed
  show ?case unfolding wait_ssh.simps
  proof (rule pin.yields_andThen [OF pin_getClient [OF Suc.prems]])
    fix r :: "nat res" and v assume "stays_pinned cb w v" "\<exists>e. r = Inl e"
    with Suc.prems obtain e where r: "r = Inl e" and v: "pinned cb v" by (auto simp: stays_pinned_def)
    show "yields (stays_pinned cb) (\<lambda>r v. r \<noteq> None) (andThen (case r of
          Inl e \<Rightarrow> Return False
        | Inr c' \<Rightarrow> andThen (atomic (NewSession E c')) (\<lambda>s. case s of
            None \<Rightarrow> Return True
          | Some e \<Rightarrow> andThen (atomic (invalidateClient host)) (\<lambda>_. Return False)))
       (\<lambda>up. if up then Return None
         else andThen (atomic ?sel) (\<lambda>(timer, now, err).
           if timer then wait_ssh n E c host (now + next_interval i) (next_interval i)
           else Return (Some (Errorf ''timed out waiting for ssh on %s: %w'' [host, the err]))))) v"
      unfolding r
      by simp (rule pin_then [OF v, where P = "\<lambda>r. True"], use sel Suc in \<open>auto intro!: pin.yields_Return split: prod.splits\<close>)
  qed
qed

lemma pin_WaitForSSH:
  assumes "refuses E cb host" and "pinned cb w"
  shows "yields (stays_pinned cb) (\<lambda>r v. r \<noteq> None) (WaitForSSH E c host t) w"
  unfolding WaitForSSH_def
  by (rule pin_then [OF assms(2), where P = "\<lambda>r. True"]) (use pin_wait_ssh [OF assms(1)] in \<open>auto split: prod.splits\<close>)

lemma pin_WaitForAllSSH:
  assumes ref: "\<forall>h \<in> set hosts. refuses E cb h" and w: "pinned cb w" and "hosts \<noteq> []"
  shows "fst (WaitForAllSSH E c hosts t w) \<noteq> None"
proof -
  let ?tasks = "map (\<lambda>h. (h, WaitForSSH E c h t)) (remdups hosts)"
  let ?ps = "map (\<lambda>(h, f). andThen f (\<lambda>e. Return \<lparr>Host = h, Output = [], ExitCode = 0, Err = e\<rparr>)) ?tasks"
  obtain fin w' where run: "par_exec (parallelLimit (length ?tasks)) (e_sched E w) ?ps w = (fin, w')" by fastforce
  have "yields (stays_pinned cb) (\<lambda>r v. Err r \<noteq> None) (?ps ! i) w" if "i < length ?ps" for i
  proof -
    let ?h = "remdups hosts ! i"
    have "?h \<in> set hosts" using that by (metis length_map nth_mem set_remdups)
    then show ?thesis using that ref
      by (auto intro!: pin.yields_andThen [OF pin_WaitForSSH [OF _ w]] pin.yields_Return)
  qed
  from pin.par_exec_yields [where Q = "\<lambda>i r v. Err r \<noteq> None", OF this run]
  have err: "\<And>i r. (i, r) \<in> set fin \<Longrightarrow> Err r \<noteq> None" using pin.refl by blast
  have "0 \<in> set (map fst fin)" using par_exec_complete [OF run] \<open>hosts \<noteq> []\<close> by (simp add: length_greater_0_conv)
  then obtain r where r: "(0, r) \<in> set fin" by auto
  with err obtain e where "Err r = Some e" by blast
  with r have "ssh_failures (map snd fin) \<noteq> []" by (force simp: ssh_failures_def)
  with run show ?thesis by (simp add: WaitForAllSSH_def RunParallelFunc_def parallel_def Let_def)
qed


end
