(* ===== verification/RepairSshLab.thy ===== *)
theory RepairSshLab
  imports RepairSshProps SshLab ConfigSample
begin

text \<open>The properties of the SSH repair, applied: a file of host keys, and a pool that has loaded the keys of machines that were installed anew.\<close>

definition kh_world :: "(unit, unit) world" where
  "kh_world = blank [''/kh'' \<mapsto> File (''10.0.0.1 a'' @ [nl] @ ''# b'' @ [nl] @ ''[10.0.0.2]:22,h c'' @ [nl] @ ''h d'' @ [nl]) 384]"

theorem known_hosts_cleaned_witness:
  "content (w_fs (snd (removeHostsFromKnownHosts quiet ''/kh'' [''10.0.0.1'', ''10.0.0.2''] kh_world))) ''/kh''
     = Some (''# b'' @ [nl] @ ''h d'' @ [nl])"
proof -
  let ?d = "''10.0.0.1 a'' @ [nl] @ ''# b'' @ [nl] @ ''[10.0.0.2]:22,h c'' @ [nl] @ ''h d'' @ [nl]" and ?ips = "[''10.0.0.1'', ''10.0.0.2'']"
  let ?P = "\<lambda>l. \<not> (\<exists>ip \<in> set ?ips. ip \<noteq> [] \<and> names_host ip l)"
  have run: "fst (removeHostsFromKnownHosts quiet ''/kh'' ?ips kh_world) = None" by code_simp
  have rd: "ReadFile quiet (Clean ''/kh'') kh_world = Inr ?d" by code_simp
  have links: "no_links (w_fs kh_world)" by (simp add: kh_world_def blank_def no_links_def)
  have "Clean ''/kh'' = ''/kh''" by code_simp
  moreover have "Join (filter (kh_keep ?ips) (Split ?d [nl])) [nl] = ''# b'' @ [nl] @ ''h d'' @ [nl]" by code_simp
  moreover have "kh_keep ?ips = ?P" by (rule ext, rule kh_keep_iff) simp
  ultimately show ?thesis
    using known_hosts_cleaned [of quiet "''/kh''" ?ips kh_world "snd (removeHostsFromKnownHosts quiet ''/kh'' ?ips kh_world)" ?d] run rd links
    by (simp add: prod_eq_iff)
qed

definition old_keys :: kh_callback where
  "old_keys h r k = KhError ''knownhosts: key mismatch''"

definition reinstalled :: "(string \<Rightarrow> string option) sworld" where
  "reinstalled = set_pool (\<lambda>p. p\<lparr>knownHostsCallback := Some old_keys\<rparr>) (lab_world ''root'')"


end
