(* ===== verification/Drbd.thy ===== *)
theory Drbd
  imports Phases
begin

text \<open>
  \<open>internal/phases/drbd/drbd.go\<close>: the phase that sets up the replicated volume of the database on the first two masters, with
  fencing. The embedded templates and \<open>text/template\<close> are fields of the environment.
\<close>

record fence_data =
  FenceRequired :: string
  PeerDomain :: string
  fd_FenceCommand :: string
  fd_FenceStateCommand :: string

record 'x drbd_env = "'x ssh_env" +
  d_template :: "string \<Rightarrow> goerr + string"
  d_parse :: "string \<Rightarrow> goerr option"
  d_fence :: "string \<Rightarrow> fence_data \<Rightarrow> goerr + string"
  d_config :: "string \<Rightarrow> Config \<Rightarrow> goerr + string"

section \<open>The key for fencing\<close>

text \<open>\<open>exec.Command\<close> has no context: it runs even when the run is cancelled.\<close>

definition run_now :: "('x, 'p, 'z) env_scheme \<Rightarrow> string list \<Rightarrow> ('x, 'p) world \<Rightarrow> (string \<times> goerr option) \<times> ('x, 'p) world" where
  "run_now E argv w = (case e_exec E argv w of (r, d, f, x) \<Rightarrow>
     (r, (emit (Exec argv) w)\<lparr>w_clock := w_clock w + int d, w_fs := f, w_ext := x\<rparr>))"

definition keygen_argv :: "string \<Rightarrow> string list" where
  "keygen_argv keyFile = [''ssh-keygen'', ''-t'', ''ed25519'', ''-N'', [], ''-C'', ''cms-ha-fence'', ''-f'', keyFile]"

definition make_fence_key :: "('x, 'p, 'z) env_scheme \<Rightarrow> string \<Rightarrow> string \<Rightarrow> ('x, 'p) world \<Rightarrow> goerr option \<times> ('x, 'p) world" where
  "make_fence_key E sshDir keyFile w = (case Stat E keyFile w of
      Inr n \<Rightarrow> (None, w)
    | Inl e \<Rightarrow> check_err (do_fs E (MkdirAll sshDir 448) w) (\<lambda>e. e) (\<lambda>w.
        (case run_now E (keygen_argv keyFile) w of
           ((out, Some e), w) \<Rightarrow> (Some (Errorf ''ssh-keygen: %w: %s'' [e, TrimSpace out]), w)
         | ((out, None), w) \<Rightarrow> (None, w))))"

text \<open>The errors of the write and of closing the file: the first counts.\<close>

definition authorise_key :: "('x, 'p, 'z) env_scheme \<Rightarrow> string \<Rightarrow> string \<Rightarrow> ('x, 'p) world \<Rightarrow> goerr option \<times> ('x, 'p) world" where
  "authorise_key E authPath pub w =
     (let existing = (case ReadFile E authPath w of Inl e \<Rightarrow> [] | Inr d \<Rightarrow> d) in
      if Contains existing (TrimSpace pub) then (None, w)
      else check_err (do_fs E (AppendFile authPath [] 384) w) (\<lambda>e. e) (\<lambda>w.
        (case do_fs E (AppendFile authPath (pub @ [nl]) 384) w of (werr, w) \<Rightarrow>
          (case do_fs E (CloseFile authPath) w of (cerr, w) \<Rightarrow> (if werr = None then cerr else werr, w)))))"

definition ensureFenceKey :: "('x, 'p, 'z) env_scheme \<Rightarrow> ('x, 'p) world \<Rightarrow> (goerr + string) \<times> ('x, 'p) world" where
  "ensureFenceKey E w = (case UserHomeDir E of
      None \<Rightarrow> (Inl ''$HOME is not defined'', w)
    | Some home \<Rightarrow> (let sshDir = path_Join [home, ''.ssh'']; keyFile = path_Join [sshDir, ''id_ed25519_fence''] in
        case make_fence_key E sshDir keyFile w of
          (Some e, w) \<Rightarrow> (Inl e, w)
        | (None, w) \<Rightarrow> (case ReadFile E (keyFile @ ''.pub'') w of
            Inl e \<Rightarrow> (Inl (perr_msg e), w)
          | Inr pub \<Rightarrow> (case authorise_key E (path_Join [sshDir, ''authorized_keys'']) pub w of
              (Some e, w) \<Rightarrow> (Inl e, w)
            | (None, w) \<Rightarrow> (case ReadFile E keyFile w of Inl e \<Rightarrow> (Inl (perr_msg e), w) | Inr d \<Rightarrow> (Inr d, w))))))"

section \<open>Fencing\<close>

text \<open>Each node of the pair with its peer.\<close>

definition with_peer :: "NodeDetail list \<Rightarrow> (NodeDetail \<times> NodeDetail) list" where
  "with_peer pair = map (\<lambda>i. (pair ! i, pair ! ((i + 1) mod length pair))) [0..<length pair]"

definition fence_node :: "('x, 'z) drbd_env_scheme \<Rightarrow> ctx \<Rightarrow> string \<Rightarrow> string \<Rightarrow> (string \<Rightarrow> fence_data) \<Rightarrow> string
    \<Rightarrow> NodeDetail \<times> NodeDetail \<Rightarrow> 'x sworld \<Rightarrow> goerr option \<times> 'x sworld" where
  "fence_node E c fenceScript confContent mk fenceKey np w = (case np of (node, peer) \<Rightarrow>
     (case run_command E c (n_IP node) ''mkdir -p /etc/drbd-fence && chmod 700 /etc/drbd-fence'' w of (r, w) \<Rightarrow>
     check_err (ro_err r, w) (\<lambda>e. Errorf ''failed to prepare /etc/drbd-fence on %s: %w'' [n_Name node, e]) (\<lambda>w.
     check_err (copy_content E c (n_IP node) fenceScript ''/usr/local/bin/fence-peer.sh'' 493 w)
       (\<lambda>e. Errorf ''failed to deploy fence-peer.sh to %s: %w'' [n_Name node, e]) (\<lambda>w.
     (case d_fence E confContent (mk (n_Name peer)) of
        Inl e \<Rightarrow> (Some (Errorf ''failed to render drbd-fence.conf for %s: %w'' [n_Name node, e]), w)
      | Inr conf \<Rightarrow>
          check_err (if length fenceKey > 0 then copy_content E c (n_IP node) fenceKey ''/etc/drbd-fence/fence_key'' 384 w else (None, w))
            (\<lambda>e. Errorf ''failed to copy fence key to %s: %w'' [n_Name node, e]) (\<lambda>w.
          check_err (copy_content E c (n_IP node) conf ''/etc/drbd-fence.conf'' 384 w)
            (\<lambda>e. Errorf ''failed to deploy drbd-fence.conf to %s: %w'' [n_Name node, e]) (\<lambda>w. (None, w))))))))"

text \<open>Without the key the phase goes on; the failure is only logged.\<close>

definition setupFencing :: "('x, 'z) drbd_env_scheme \<Rightarrow> Config \<Rightarrow> ctx \<Rightarrow> NodeDetail list \<Rightarrow> 'x sworld \<Rightarrow> goerr option \<times> 'x sworld" where
  "setupFencing E cfg c pair w =
     (let fenceRequired = (if Fencing (DRBD cfg) then ''1'' else ''0'');
          (offCmd, stateCmd) = FenceCommands E cfg;
          custom = (FenceCommand (DRBD cfg) \<noteq> []);
          mk = (\<lambda>peer. \<lparr>FenceRequired = fenceRequired, PeerDomain = peer, fd_FenceCommand = offCmd, fd_FenceStateCommand = stateCmd\<rparr>)
      in case d_template E ''templates/drbd/fence-peer.sh'' of
        Inl e \<Rightarrow> (Some (Errorf ''failed to read fence-peer.sh: %w'' [e]), w)
      | Inr fenceScript \<Rightarrow> (case d_template E ''templates/drbd/drbd-fence.conf'' of
          Inl e \<Rightarrow> (Some (Errorf ''failed to read drbd-fence.conf template: %w'' [e]), w)
        | Inr confContent \<Rightarrow> (case d_parse E confContent of
            Some e \<Rightarrow> (Some (Errorf ''failed to parse drbd-fence.conf template: %w'' [e]), w)
          | None \<Rightarrow>
              (case (if Fencing (DRBD cfg) \<and> \<not> custom then ensureFenceKey E w else (Inr [], w)) of (key, w) \<Rightarrow>
                 each (fence_node E c fenceScript confContent mk (case key of Inl e \<Rightarrow> [] | Inr k \<Rightarrow> k)) (with_peer pair) w))))"

section \<open>The stages of the phase\<close>

definition install_cmd :: string where
  "install_cmd = AptLockWaitSnippet @ [nl] @ ''apt-get update && DEBIAN_FRONTEND=noninteractive apt-get install -y drbd-utils'' @ [nl]"

definition install_error :: "ParallelResult \<Rightarrow> goerr option" where
  "install_error r = (case Err r of
      Some e \<Rightarrow> Some (Errorf ''failed to install DRBD on %s: %w'' [Host r, e])
    | None \<Rightarrow> if ExitCode r \<noteq> 0
        then Some (Errorf ''failed to install DRBD on %s (exit %d): %s'' [Host r, itoa (ExitCode r), TrimSpace (Output r)])
        else None)"

definition drbd_install :: "('x, 'z) ssh_env_scheme \<Rightarrow> ctx \<Rightarrow> string list \<Rightarrow> 'x sworld \<Rightarrow> goerr option \<times> 'x sworld" where
  "drbd_install E c ips w = (case RunParallel E c ips install_cmd w of (rs, w') \<Rightarrow> (first_some install_error rs, w'))"

definition wrapped_error :: "string \<Rightarrow> ParallelResult \<Rightarrow> goerr option" where
  "wrapped_error what r = map_option (\<lambda>e. Errorf ''failed to %s %s: %w'' [what, Host r, e]) (Err r)"

definition drbd_configure :: "('x, 'z) drbd_env_scheme \<Rightarrow> Config \<Rightarrow> ctx \<Rightarrow> string list \<Rightarrow> 'x sworld \<Rightarrow> goerr option \<times> 'x sworld" where
  "drbd_configure E cfg c ips w = (case d_template E ''templates/drbd/cms-data.res'' of
      Inl e \<Rightarrow> (Some (Errorf ''failed to read template: %w'' [e]), w)
    | Inr tmplContent \<Rightarrow> (case d_parse E tmplContent of
        Some e \<Rightarrow> (Some (Errorf ''failed to parse template: %w'' [e]), w)
      | None \<Rightarrow> (case d_config E tmplContent cfg of
          Inl e \<Rightarrow> (Some (Errorf ''failed to execute template: %w'' [e]), w)
        | Inr drbdCfgBytes \<Rightarrow>
            (case RunParallelFunc E (tasks_of (\<lambda>ip. ip) (\<lambda>ip. CopyContent E c ip drbdCfgBytes ''/etc/drbd.d/cms_data.res'' 420) ips) w of
              (rs, w') \<Rightarrow> (first_some (wrapped_error ''copy DRBD config to'') rs, w')))))"

definition init_script :: string where
  "init_script = Join [''set -e'', ''modprobe drbd'', ''if ! drbdadm create-md cms_data --force; then'',
     ''    drbdadm dump-md cms_data >/dev/null 2>&1 || {'',
     ''        echo \"drbdadm create-md failed and no existing metadata was found\" >&2'', ''        exit 1'', ''    }'', ''fi'',
     ''drbdadm up cms_data'', []] [nl]"

definition init_task :: "('x, 'z) ssh_env_scheme \<Rightarrow> ctx \<Rightarrow> string \<Rightarrow> ('x, goerr option) sproc" where
  "init_task E c ip = andThen (RunScript E c ip init_script) (\<lambda>r. Return (snd r))"

definition drbd_initialise :: "('x, 'z) ssh_env_scheme \<Rightarrow> ctx \<Rightarrow> string list \<Rightarrow> 'x sworld \<Rightarrow> goerr option \<times> 'x sworld" where
  "drbd_initialise E c ips w = (case RunParallelFunc E (tasks_of (\<lambda>ip. ip) (init_task E c) ips) w of
     (rs, w') \<Rightarrow> (first_some (wrapped_error ''initialize DRBD metadata on'') rs, w'))"

definition promote_cmd :: string where
  "promote_cmd = ''drbdadm primary cms_data --force''"

definition drbd_promote :: "('x, 'z) ssh_env_scheme \<Rightarrow> ctx \<Rightarrow> string \<Rightarrow> 'x sworld \<Rightarrow> goerr option \<times> 'x sworld" where
  "drbd_promote E c ip w = (case run_command E c ip promote_cmd w of (r, w') \<Rightarrow>
     (if ro_err r \<noteq> None \<or> ro_code r \<noteq> 0
      then Some (Errorf ''failed to promote %s to DRBD Primary: %v (exit code %d)'' [ip, err_v (ro_err r), itoa (ro_code r)]) else None, w'))"

definition replication_ready :: "string \<Rightarrow> bool" where
  "replication_ready out \<longleftrightarrow> (Contains out ''Established'' \<or> Contains out ''Connected'') \<and>
     (Contains out ''peer-disk:UpToDate'' \<or> Contains out ''ds:UpToDate'' \<or> Contains out ''SyncTarget'')"

definition sync_attempt :: "('x, 'z) ssh_env_scheme \<Rightarrow> string \<Rightarrow> ('x, Pool) action" where
  "sync_attempt E ip c w = (case run_command E c ip ''drbdadm status cms_data'' w of (r, w') \<Rightarrow>
     (case ro_err r of
        Some e \<Rightarrow> (Some e, w')
      | None \<Rightarrow> (if \<not> replication_ready (ro_stdout r) then Some (Errorf ''replication not ready: %s'' [ro_stdout r]) else None, w')))"

definition drbd_await_sync :: "('x, 'z) ssh_env_scheme \<Rightarrow> ctx \<Rightarrow> string \<Rightarrow> 'x sworld \<Rightarrow> goerr option \<times> 'x sworld" where
  "drbd_await_sync E c ip w =
     DoContext E c \<lparr>MaxAttempts = 30, Interval = 5 * Second, Timeout = 5 * 60 * Second, MaxInterval = 0\<rparr> (sync_attempt E ip) w"

definition mount_script :: string where
  "mount_script = Join [[], ''mkdir -p /mnt/data/mariadb'', ''if ! blkid /dev/drbd0 >/dev/null 2>&1; then'', ''    mkfs.ext4 -F /dev/drbd0'',
     ''fi'', ''if ! mountpoint -q /mnt/data/mariadb; then'', ''    mount /dev/drbd0 /mnt/data/mariadb'', ''fi'', []] [nl]"

definition fstab_cmd :: string where
  "fstab_cmd = ''mkdir -p /mnt/data/mariadb && (grep -q '/dev/drbd0' /etc/fstab || echo ''
     @ '''/dev/drbd0 /mnt/data/mariadb ext4 defaults,noauto 0 0' >> /etc/fstab)''"

text \<open>A failure to change the table of file systems is only logged.\<close>

definition drbd_fstab :: "('x, 'z) ssh_env_scheme \<Rightarrow> ctx \<Rightarrow> string list \<Rightarrow> 'x sworld \<Rightarrow> 'x sworld" where
  "drbd_fstab E c ips w = fold (\<lambda>ip w. snd (run_command E c ip fstab_cmd w)) ips w"

definition enable_cmd :: string where
  "enable_cmd = ''systemctl daemon-reload && systemctl enable --now drbd-failover-watchdog.service && systemctl enable drbd.service''"

definition watchdog_node :: "('x, 'z) ssh_env_scheme \<Rightarrow> ctx \<Rightarrow> string \<Rightarrow> string \<Rightarrow> string \<Rightarrow> string \<Rightarrow> 'x sworld \<Rightarrow> goerr option \<times> 'x sworld" where
  "watchdog_node E c script watchdog service ip w =
     check_err (copy_content E c ip script ''/usr/local/bin/drbd-failover.sh'' 493 w) (\<lambda>e. Errorf ''failed to deploy failover script to %s: %w'' [ip, e]) (\<lambda>w.
     check_err (copy_content E c ip watchdog ''/usr/local/bin/drbd-watchdog.sh'' 493 w) (\<lambda>e. Errorf ''failed to deploy watchdog script to %s: %w'' [ip, e]) (\<lambda>w.
     check_err (copy_content E c ip service ''/etc/systemd/system/drbd-failover-watchdog.service'' 420 w)
       (\<lambda>e. Errorf ''failed to deploy watchdog service to %s: %w'' [ip, e]) (\<lambda>w.
     (case run_command E c ip enable_cmd w of (r, w) \<Rightarrow>
       check_err (ro_err r, w) (\<lambda>e. Errorf ''failed to enable DRBD services on %s: %w'' [ip, e]) (\<lambda>w. (None, w))))))"

definition drbd_watchdog :: "('x, 'z) drbd_env_scheme \<Rightarrow> ctx \<Rightarrow> string list \<Rightarrow> 'x sworld \<Rightarrow> goerr option \<times> 'x sworld" where
  "drbd_watchdog E c ips w = (case d_template E ''templates/drbd/drbd-failover.sh'' of
      Inl e \<Rightarrow> (Some (Errorf ''failed to read drbd-failover.sh template: %w'' [e]), w)
    | Inr script \<Rightarrow> (case d_template E ''templates/drbd/drbd-watchdog.sh'' of
        Inl e \<Rightarrow> (Some (Errorf ''failed to read drbd-watchdog.sh template: %w'' [e]), w)
      | Inr watchdog \<Rightarrow> (case d_template E ''templates/drbd/drbd-failover-watchdog.service'' of
          Inl e \<Rightarrow> (Some (Errorf ''failed to read drbd-failover-watchdog.service template: %w'' [e]), w)
        | Inr service \<Rightarrow> each (watchdog_node E c script watchdog service) ips w)))"

definition primary_service :: string where
  "primary_service = Join [''[Unit]'', ''Description=Promote DRBD cms_data to Primary on master1'', ''After=drbd.service network-online.target'',
     ''Wants=drbd.service network-online.target'', ''Before=k3s.service'', [], ''[Service]'', ''Type=oneshot'', ''RemainAfterExit=yes'',
     ''ExecStart=/bin/bash -c \"drbdadm up all 2>/dev/null; sleep 3; drbdadm primary cms_data 2>/dev/null || true\"'',
     ''ExecStartPost=/bin/bash -c \"drbdadm status 2>/dev/null || true\"'', [], ''[Install]'', ''WantedBy=multi-user.target'', []] [nl]"

definition primary_unit :: string where
  "primary_unit = ''/etc/systemd/system/drbd-cms-primary.service''"

text \<open>The upload may fail; then the service is not enabled, and the phase goes on.\<close>

definition drbd_boot_service :: "('x, 'z) ssh_env_scheme \<Rightarrow> ctx \<Rightarrow> string \<Rightarrow> 'x sworld \<Rightarrow> goerr option \<times> 'x sworld" where
  "drbd_boot_service E c ip w = (case copy_content E c ip primary_service primary_unit 420 w of
      (Some e, w) \<Rightarrow> (None, w)
    | (None, w) \<Rightarrow> (case run_command E c ip ''systemctl daemon-reload && systemctl enable drbd-cms-primary.service'' w of (r, w) \<Rightarrow>
        (map_option (\<lambda>e. Errorf ''failed to enable drbd-cms-primary.service on %s: %w'' [ip, e]) (ro_err r), w)))"

definition tmpfiles_content :: string where
  "tmpfiles_content = ''d /mnt/data 0755 root root -'' @ [nl] @ ''d /mnt/data/mariadb 0755 999 999 -'' @ [nl]"

definition tmpfiles_node :: "('x, 'z) ssh_env_scheme \<Rightarrow> ctx \<Rightarrow> string \<Rightarrow> 'x sworld \<Rightarrow> 'x sworld" where
  "tmpfiles_node E c ip w = (case copy_content E c ip tmpfiles_content ''/etc/tmpfiles.d/mariadb-datadir.conf'' 420 w of
      (Some e, w) \<Rightarrow> w
    | (None, w) \<Rightarrow> snd (run_command E c ip ''systemd-tmpfiles --create /etc/tmpfiles.d/mariadb-datadir.conf 2>/dev/null || true'' w))"

section \<open>The phase\<close>

definition drbd_Run :: "('x, 'z) drbd_env_scheme \<Rightarrow> Config \<Rightarrow> ctx \<Rightarrow> 'x sworld \<Rightarrow> goerr option \<times> 'x sworld" where
  "drbd_Run E cfg c w = (case Masters (Nodes cfg) of
      master1 # master2 # rest \<Rightarrow> (let ip1 = n_IP master1; ips = [n_IP master1, n_IP master2] in
        check_err (setupFencing E cfg c [master1, master2] w) (\<lambda>e. e) (\<lambda>w.
        check_err (drbd_install E c ips w) (\<lambda>e. e) (\<lambda>w.
        check_err (drbd_configure E cfg c ips w) (\<lambda>e. e) (\<lambda>w.
        check_err (drbd_initialise E c ips w) (\<lambda>e. e) (\<lambda>w.
        check_err (drbd_promote E c ip1 w) (\<lambda>e. e) (\<lambda>w.
        (case drbd_await_sync E c ip1 w of (_, w) \<Rightarrow>
        check_err (run_script E c ip1 mount_script w) (\<lambda>e. Errorf ''failed to format and mount DRBD volume on master1: %w'' [e]) (\<lambda>w.
        check_err (drbd_watchdog E c ips (drbd_fstab E c ips w)) (\<lambda>e. e) (\<lambda>w.
        check_err (drbd_boot_service E c ip1 w) (\<lambda>e. e) (\<lambda>w.
        (None, fold (tmpfiles_node E c) ips w)))))))))))
    | _ \<Rightarrow> (Some ''DRBD requires at least 2 master nodes'', w))"

end
