(* ===== verification/RetryLocal.thy ===== *)
theory RetryLocal
  imports Phases
begin

text \<open>
  Operations of the phases that need more than a retried action: closures that assign a variable of the function around them, contexts that
  do not end with the run, and loops over a map.
\<close>

text \<open>The scripts that are sent contain tabs.\<close>

abbreviation tab :: char where
  "tab \<equiv> CHR 0x09"

section \<open>Closures with a variable\<close>

text \<open>
  \<open>DoContext\<close> and \<open>PollContext\<close> where the operation assigns a variable of the enclosing function: its value \<open>s\<close> is passed from attempt to
  attempt and is what the function sees afterwards.
\<close>

type_synonym ('x, 'p, 's) local_action = "ctx \<Rightarrow> 's \<Rightarrow> ('x, 'p) world \<Rightarrow> (goerr option \<times> 's) \<times> ('x, 'p) world"

fun do_loop_local :: "('x, 'p, 'z) env_scheme \<Rightarrow> retry_config \<Rightarrow> ctx \<Rightarrow> ('x, 'p, 's) local_action \<Rightarrow> nat \<Rightarrow> goerr option
    \<Rightarrow> 's \<Rightarrow> ('x, 'p) world \<Rightarrow> (goerr option \<times> 's) \<times> ('x, 'p) world" where
  "do_loop_local E cfg c fn left lastErr s w =
     (case ctx_err c w of
        Some e \<Rightarrow> ((Some (Errorf ''retry context cancelled: %w (last error: %v)'' [e, err_v lastErr]), s), w)
      | None \<Rightarrow>
          (case fn c s w of
             ((None, s1), w1) \<Rightarrow> ((None, s1), w1)
           | ((Some err, s1), w1) \<Rightarrow>
               (case left of
                  0 \<Rightarrow> ((Some (Errorf ''max attempts (%d) reached: %w'' [itoa (max_attempts cfg), err]), s1), w1)
                | Suc left' \<Rightarrow>
                    (case wait E c (backoffInterval cfg (max_attempts cfg - int left) (e_rand E w1)) w1 of
                       (False, w2) \<Rightarrow>
                         ((Some (Errorf ''retry context cancelled: %w (last error: %v)'' [err_v (ctx_err c w2), err]), s1), w2)
                     | (True, w2) \<Rightarrow> do_loop_local E cfg c fn left' (Some err) s1 w2))))"

declare do_loop_local.simps [simp del]

definition DoContext_local :: "('x, 'p, 'z) env_scheme \<Rightarrow> ctx \<Rightarrow> retry_config \<Rightarrow> ('x, 'p, 's) local_action \<Rightarrow> 's
    \<Rightarrow> ('x, 'p) world \<Rightarrow> (goerr option \<times> 's) \<times> ('x, 'p) world" where
  "DoContext_local E c cfg fn s w = do_loop_local E cfg (run_ctx cfg c w) fn (nat (max_attempts cfg - 1)) None s w"

type_synonym ('x, 'p, 's) local_condition = "ctx \<Rightarrow> 's \<Rightarrow> ('x, 'p) world \<Rightarrow> (bool \<times> goerr option \<times> 's) \<times> ('x, 'p) world"

fun poll_loop_local :: "('x, 'p, 'z) env_scheme \<Rightarrow> retry_config \<Rightarrow> ctx \<Rightarrow> ('x, 'p, 's) local_condition \<Rightarrow> nat
    \<Rightarrow> 's \<Rightarrow> ('x, 'p) world \<Rightarrow> (goerr option \<times> 's) \<times> ('x, 'p) world" where
  "poll_loop_local E cfg c fn left s w =
     (case ctx_err c w of
        Some e \<Rightarrow> ((Some (Errorf ''poll context cancelled: %w'' [e]), s), w)
      | None \<Rightarrow>
          (case fn c s w of
             ((ok, Some err, s1), w1) \<Rightarrow>
               ((Some (Errorf ''poll failed on attempt %d: %w'' [itoa (max_attempts cfg - int left), err]), s1), w1)
           | ((True, None, s1), w1) \<Rightarrow> ((None, s1), w1)
           | ((False, None, s1), w1) \<Rightarrow>
               (case left of
                  0 \<Rightarrow> ((Some (Errorf ''poll max attempts (%d) reached without success'' [itoa (max_attempts cfg)]), s1), w1)
                | Suc left' \<Rightarrow>
                    (case wait E c (backoffInterval cfg (max_attempts cfg - int left) (e_rand E w1)) w1 of
                       (False, w2) \<Rightarrow> ((Some (Errorf ''poll context cancelled: %w'' [err_v (ctx_err c w2)]), s1), w2)
                     | (True, w2) \<Rightarrow> poll_loop_local E cfg c fn left' s1 w2))))"

declare poll_loop_local.simps [simp del]

definition PollContext_local :: "('x, 'p, 'z) env_scheme \<Rightarrow> ctx \<Rightarrow> retry_config \<Rightarrow> ('x, 'p, 's) local_condition \<Rightarrow> 's
    \<Rightarrow> ('x, 'p) world \<Rightarrow> (goerr option \<times> 's) \<times> ('x, 'p) world" where
  "PollContext_local E c cfg fn s w = poll_loop_local E cfg (run_ctx cfg c w) fn (nat (max_attempts cfg - 1)) s w"

text \<open>The loops with a variable refine the loops of \<open>Retry\<close>: where the operation does not depend on the variable, forgetting it gives them.\<close>

definition forget :: "(goerr option \<times> 's) \<times> 'w \<Rightarrow> goerr option \<times> 'w" where
  "forget r = (fst (fst r), snd r)"

lemma forget_pair [simp]: "forget ((e, s), w) = (e, w)"
  by (simp add: forget_def)

lemma do_loop_local_forget:
  assumes fn: "\<And>s w. forget (fn c s w) = gn c w"
  shows "forget (do_loop_local E cfg c fn left lastErr s w) = do_loop E cfg c gn left lastErr w"
proof (induction left arbitrary: lastErr s w)
  case 0
  obtain e s1 w1 where f: "fn c s w = ((e, s1), w1)" by (metis prod.collapse)
  with fn [of s w] have "gn c w = (e, w1)" by simp
  with f show ?case by (simp add: do_loop_local.simps [of _ _ _ _ 0] do_loop.simps [of _ _ _ _ 0] split: option.split)
next
  case (Suc left)
  obtain e s1 w1 where f: "fn c s w = ((e, s1), w1)" by (metis prod.collapse)
  with fn [of s w] have g: "gn c w = (e, w1)" by simp
  show ?case using f g Suc.IH
    by (simp add: do_loop_local.simps [of _ _ _ _ "Suc left"] do_loop.simps [of _ _ _ _ "Suc left"] split: option.split prod.split bool.split)
qed

lemma DoContext_local_forget: "(\<And>c s w. forget (fn c s w) = gn c w) \<Longrightarrow> forget (DoContext_local E c cfg fn s w) = DoContext E c cfg gn w"
  unfolding DoContext_local_def DoContext_def by (rule do_loop_local_forget)

section \<open>Contexts of their own\<close>

text \<open>
  What runs in a context that is derived from \<open>context.Background()\<close> does not see that the run was cancelled.
\<close>

definition detached :: "(('x, 'p) world \<Rightarrow> 'r \<times> ('x, 'p) world) \<Rightarrow> ('x, 'p) world \<Rightarrow> 'r \<times> ('x, 'p) world" where
  "detached f w = (case f (w\<lparr>w_cancel := None\<rparr>) of (r, w') \<Rightarrow> (r, w'\<lparr>w_cancel := w_cancel w\<rparr>))"

text \<open>A command in such a context with a time limit; its result is not used.\<close>

definition run_detached :: "('x, 'z) ssh_env_scheme \<Rightarrow> int \<Rightarrow> string \<Rightarrow> string \<Rightarrow> 'x sworld \<Rightarrow> 'x sworld" where
  "run_detached E timeout host cmd w = snd (detached (\<lambda>w. run_command E (WithTimeout None timeout w) host cmd w) w)"

text \<open>What is deferred runs last, whatever was returned.\<close>

definition deferred :: "('w \<Rightarrow> 'w) \<Rightarrow> 'r \<times> 'w \<Rightarrow> 'r \<times> 'w" where
  "deferred f r = (fst r, f (snd r))"

text \<open>A command whose result is not used.\<close>

definition ignore_command :: "('x, 'z) ssh_env_scheme \<Rightarrow> ctx \<Rightarrow> string \<Rightarrow> string \<Rightarrow> 'x sworld \<Rightarrow> 'x sworld" where
  "ignore_command E c host cmd w = snd (run_command E c host cmd w)"

section \<open>Results of commands\<close>

text \<open>The test \<open>err != nil || code != 0\<close>.\<close>

definition refused :: "run_out \<Rightarrow> bool" where
  "refused r \<longleftrightarrow> ro_err r \<noteq> None \<or> ro_code r \<noteq> 0"

text \<open>\<open>%w\<close> of an error that may be \<open>nil\<close>.\<close>

definition err_w :: "goerr option \<Rightarrow> string" where
  "err_w e = (case e of Some m \<Rightarrow> m | None \<Rightarrow> ''%!w(<nil>)'')"

text \<open>A command that must succeed; the message is made from the result.\<close>

definition must :: "('x, 'z) ssh_env_scheme \<Rightarrow> ctx \<Rightarrow> string \<Rightarrow> string \<Rightarrow> (run_out \<Rightarrow> goerr) \<Rightarrow> 'x sworld \<Rightarrow> goerr option \<times> 'x sworld" where
  "must E c host cmd msg w = (case run_command E c host cmd w of (r, w) \<Rightarrow> (if refused r then Some (msg r) else None, w))"

text \<open>The addresses of the nodes that have one.\<close>

definition node_ips :: "NodeDetail list \<Rightarrow> string list" where
  "node_ips ns = filter (\<lambda>ip. ip \<noteq> []) (map n_IP ns)"

text \<open>\<open>strings.Cut\<close>: what is before and after the first separator, and whether there is one.\<close>

fun Cut :: "string \<Rightarrow> string \<Rightarrow> string \<times> string \<times> bool" where
  "Cut [] sep = ([], [], sep = [])"
| "Cut (x # s) sep = (if HasPrefix (x # s) sep then ([], drop (length sep) (x # s), True)
     else case Cut s sep of (a, b, ok) \<Rightarrow> (x # a, b, ok))"

text \<open>\<open>strings.NewReplacer(...).Replace\<close> with old texts that are not empty: at each place the first pair that matches.\<close>

function Replacer :: "(string \<times> string) list \<Rightarrow> string \<Rightarrow> string" where
  "Replacer ps [] = []"
| "Replacer ps (x # s) = (case find (\<lambda>p. fst p \<noteq> [] \<and> HasPrefix (x # s) (fst p)) ps of
      None \<Rightarrow> x # Replacer ps s
    | Some p \<Rightarrow> snd p @ Replacer ps (if fst p = [] then s else drop (length (fst p)) (x # s)))"
  by pat_completeness auto
termination
  by (relation "measure (\<lambda>(ps, s). length s)") (auto simp: neq_Nil_conv)

section \<open>Loops over a map\<close>

text \<open>\<open>range\<close> over a map visits the keys in an order that the environment chooses; what is no order of the keys counts as the order of insertion.\<close>

definition ranged :: "(string list \<Rightarrow> string list) \<Rightarrow> (string \<times> 'v) list \<Rightarrow> (string \<times> 'v) list" where
  "ranged order m =
     (let ks = order (map fst m) in
      if distinct ks \<and> set ks = set (map fst m) then map (\<lambda>k. (k, the (map_of m k))) ks else m)"

lemma ranged_set: "distinct (map fst m) \<Longrightarrow> set (ranged order m) = set m"
proof -
  assume d: "distinct (map fst m)"
  have "(\<lambda>k. (k, the (map_of m k))) ` fst ` set m = set m"
    using map_of_is_SomeI [OF d] by (force simp: image_iff)
  then show ?thesis by (auto simp: ranged_def Let_def)
qed

section \<open>Facts\<close>

text \<open>A relation that allows time to pass and does not depend on the cancellation of the run.\<close>

locale phase_order = world_order R for R :: "('x, 'p) world \<Rightarrow> ('x, 'p) world \<Rightarrow> bool" +
  assumes ticks: "w_clock w \<le> t \<Longrightarrow> R w (w\<lparr>w_clock := t\<rparr>)"
    and uncancelled: "R (w\<lparr>w_cancel := None\<rparr>) w' \<Longrightarrow> R w (w'\<lparr>w_cancel := w_cancel w\<rparr>)"
begin

lemma keeps_wait: "keeps R (wait E c d)"
proof (rule keepsI)
  fix w b w' assume run: "wait E c d w = (b, w')"
  from wait_until_frame [OF run [unfolded wait_def]] obtain u where "w' = w\<lparr>w_clock := u\<rparr>" by blast
  moreover have "w_clock w \<le> w_clock w'" using keepsD [OF wait_later run] by (simp add: later_def)
  ultimately show "R w w'" using ticks [of w u] by simp
qed

lemma keeps_do_loop_local:
  assumes fn: "\<And>s. keeps R (fn c s)"
  shows "keeps R (do_loop_local E cfg c fn left lastErr s)"
proof (induction left arbitrary: lastErr s)
  case 0
  have "R w (snd (do_loop_local E cfg c fn 0 lastErr s w))" for w
    using keepsD [OF fn [of s]] refl
    by (simp add: do_loop_local.simps [of _ _ _ _ 0] split: option.split prod.split)
  then show ?case by (simp add: keeps_def)
next
  case (Suc left)
  have "R w (snd (do_loop_local E cfg c fn (Suc left) lastErr s w))" for w
  proof -
    obtain e s1 w1 where f: "fn c s w = ((e, s1), w1)" by (metis prod.collapse)
    then have 1: "R w w1" using keepsD [OF fn] by blast
    obtain b w2 where wt: "wait E c (backoffInterval cfg (max_attempts cfg - int (Suc left)) (e_rand E w1)) w1 = (b, w2)" by fastforce
    have 2: "R w w2" using trans [OF 1 keepsD [OF keeps_wait wt]] .
    have 3: "R w (snd (do_loop_local E cfg c fn left l s1 w2))" for l using trans [OF 2] Suc.IH unfolding keeps_def by blast
    show ?thesis using f 1 2 3 wt refl
      by (simp add: do_loop_local.simps [of _ _ _ _ "Suc left"] split: option.split bool.split)
  qed
  then show ?case by (simp add: keeps_def)
qed

lemma keeps_DoContext_local: "(\<And>c s. keeps R (fn c s)) \<Longrightarrow> keeps R (DoContext_local E c cfg fn s)"
  by (rule keepsI) (auto simp: DoContext_local_def dest: keepsD [OF keeps_do_loop_local, rotated])

lemma keeps_DoContext:
  assumes fn: "\<And>c. keeps R (fn c)"
  shows "keeps R (DoContext E c cfg fn)"
proof (rule keepsI)
  fix w r w' assume run: "DoContext E c cfg fn w = (r, w')"
  let ?fn = "\<lambda>c (s :: unit) w. ((fst (fn c w), s), snd (fn c w))"
  obtain e s1 w1 where l: "DoContext_local E c cfg ?fn () w = ((e, s1), w1)" by (cases "DoContext_local E c cfg ?fn () w") auto
  have "forget (DoContext_local E c cfg ?fn () w) = DoContext E c cfg fn w" by (rule DoContext_local_forget) simp
  with l run have "w1 = w'" by simp
  moreover have "keeps R (DoContext_local E c cfg ?fn ())" using fn by (intro keeps_DoContext_local) (simp add: keeps_def)
  note keepsD [OF this l]
  ultimately show "R w w'" by simp
qed

lemma keeps_poll_loop_local:
  assumes fn: "\<And>s. keeps R (fn c s)"
  shows "keeps R (poll_loop_local E cfg c fn left s)"
proof (induction left arbitrary: s)
  case 0
  have "R w (snd (poll_loop_local E cfg c fn 0 s w))" for w
    using keepsD [OF fn [of s]] refl
    by (simp add: poll_loop_local.simps [of _ _ _ _ 0] split: option.split prod.split bool.split)
  then show ?case by (simp add: keeps_def)
next
  case (Suc left)
  have "R w (snd (poll_loop_local E cfg c fn (Suc left) s w))" for w
  proof -
    obtain ok e s1 w1 where f: "fn c s w = ((ok, e, s1), w1)" by (metis prod.collapse)
    then have 1: "R w w1" using keepsD [OF fn] by blast
    obtain b w2 where wt: "wait E c (backoffInterval cfg (max_attempts cfg - int (Suc left)) (e_rand E w1)) w1 = (b, w2)" by fastforce
    have 2: "R w w2" using trans [OF 1 keepsD [OF keeps_wait wt]] .
    have 3: "R w (snd (poll_loop_local E cfg c fn left s1 w2))" using trans [OF 2] Suc.IH unfolding keeps_def by blast
    show ?thesis using f 1 2 3 wt refl
      by (simp add: poll_loop_local.simps [of _ _ _ _ "Suc left"] split: option.split bool.split)
  qed
  then show ?case by (simp add: keeps_def)
qed

lemma keeps_PollContext_local: "(\<And>c s. keeps R (fn c s)) \<Longrightarrow> keeps R (PollContext_local E c cfg fn s)"
  by (rule keepsI) (auto simp: PollContext_local_def dest: keepsD [OF keeps_poll_loop_local, rotated])

lemma keeps_poll_loop:
  assumes fn: "keeps R (fn c)"
  shows "keeps R (poll_loop E cfg c fn left)"
proof (induction left)
  case 0
  have "R w (snd (poll_loop E cfg c fn 0 w))" for w
    using keepsD [OF fn] refl by (simp add: poll_loop.simps [of _ _ _ _ 0] split: option.split prod.split bool.split)
  then show ?case by (simp add: keeps_def)
next
  case (Suc left)
  have "R w (snd (poll_loop E cfg c fn (Suc left) w))" for w
  proof -
    obtain ok e w1 where f: "fn c w = ((ok, e), w1)" by (metis prod.collapse)
    then have 1: "R w w1" using keepsD [OF fn] by blast
    obtain b w2 where wt: "wait E c (backoffInterval cfg (max_attempts cfg - int (Suc left)) (e_rand E w1)) w1 = (b, w2)" by fastforce
    have 2: "R w w2" using trans [OF 1 keepsD [OF keeps_wait wt]] .
    have 3: "R w (snd (poll_loop E cfg c fn left w2))" using trans [OF 2] Suc unfolding keeps_def by blast
    show ?thesis using f 1 2 3 wt refl
      by (simp add: poll_loop.simps [of _ _ _ _ "Suc left"] split: option.split bool.split)
  qed
  then show ?case by (simp add: keeps_def)
qed

lemma keeps_PollContext: "(\<And>c. keeps R (fn c)) \<Longrightarrow> keeps R (PollContext E c cfg fn)"
  by (rule keepsI) (auto simp: PollContext_def dest: keepsD [OF keeps_poll_loop, rotated])

text \<open>A poll that succeeds ends with a test that held.\<close>

lemma poll_loop_success:
  assumes fn: "keeps R (fn c)"
  shows "poll_loop E cfg c fn left w = (None, w') \<Longrightarrow> \<exists>u. R w u \<and> fn c u = ((True, None), w')"
proof (induction left arbitrary: w)
  case 0
  obtain ok e w1 where f: "fn c w = ((ok, e), w1)" by (metis prod.collapse)
  with 0 have "ok \<and> e = None \<and> w1 = w'" by (simp add: poll_loop.simps [of _ _ _ _ 0] split: option.splits bool.splits)
  with f have "fn c w = ((True, None), w')" by simp
  with refl show ?case by (intro exI conjI)
next
  case (Suc left)
  obtain ok e w1 where f: "fn c w = ((ok, e), w1)" by (metis prod.collapse)
  have 1: "R w w1" using keepsD [OF fn f] .
  obtain b w2 where wt: "wait E c (backoffInterval cfg (max_attempts cfg - int (Suc left)) (e_rand E w1)) w1 = (b, w2)" by fastforce
  have 2: "R w w2" using trans [OF 1 keepsD [OF keeps_wait wt]] .
  from Suc.prems f wt have "ok \<and> e = None \<and> w1 = w' \<or> poll_loop E cfg c fn left w2 = (None, w')"
    by (auto simp: poll_loop.simps [of _ _ _ _ "Suc left"] split: option.splits bool.splits)
  then show ?case
  proof
    assume "ok \<and> e = None \<and> w1 = w'"
    with f have "fn c w = ((True, None), w')" by simp
    with refl show ?thesis by (intro exI conjI)
  next
    assume "poll_loop E cfg c fn left w2 = (None, w')"
    from Suc.IH [OF this] obtain u where "R w2 u" "fn c u = ((True, None), w')" by (elim exE conjE)
    with trans [OF 2] show ?thesis by (intro exI conjI)
  qed
qed

lemma PollContext_success:
  assumes "\<And>c. keeps R (fn c)" and "PollContext E c cfg fn w = (None, w')"
  shows "\<exists>u. R w u \<and> fn (run_ctx cfg c w) u = ((True, None), w')"
  by (rule poll_loop_success [where fn = fn, OF assms(1) assms(2) [unfolded PollContext_def]])

text \<open>A retry that succeeds ends with an attempt that succeeded.\<close>

lemma do_loop_local_success:
  assumes fn: "\<And>s. keeps R (fn c s)"
  shows "do_loop_local E cfg c fn left lastErr s w = ((None, s'), w') \<Longrightarrow> \<exists>s0 u. R w u \<and> fn c s0 u = ((None, s'), w')"
proof (induction left arbitrary: lastErr s w)
  case 0
  then show ?case using refl
    by (auto simp: do_loop_local.simps [of _ _ _ _ 0] split: option.splits prod.splits)
next
  case (Suc left)
  obtain e s1 w1 where f: "fn c s w = ((e, s1), w1)" by (metis prod.collapse)
  then have 1: "R w w1" using keepsD [OF fn] by blast
  obtain b w2 where wt: "wait E c (backoffInterval cfg (max_attempts cfg - int (Suc left)) (e_rand E w1)) w1 = (b, w2)" by fastforce
  have 2: "R w w2" using trans [OF 1 keepsD [OF keeps_wait wt]] .
  show ?case
  proof (cases e)
    case None
    with Suc.prems f show ?thesis using refl
      by (auto simp: do_loop_local.simps [of _ _ _ _ "Suc left"] split: option.splits)
  next
    case (Some err)
    with Suc.prems f wt have "do_loop_local E cfg c fn left (Some err) s1 w2 = ((None, s'), w')"
      by (simp add: do_loop_local.simps [of _ _ _ _ "Suc left"] split: option.splits bool.splits)
    from Suc.IH [OF this] show ?thesis using trans [OF 2] by blast
  qed
qed

lemma DoContext_local_success:
  assumes "\<And>c s. keeps R (fn c s)" and "DoContext_local E c cfg fn s w = ((None, s'), w')"
  shows "\<exists>c' s0 u. R w u \<and> fn c' s0 u = ((None, s'), w')"
  using do_loop_local_success [OF assms(1) assms(2) [unfolded DoContext_local_def]] by blast

lemma DoContext_success:
  assumes fn: "\<And>c. keeps R (fn c)" and run: "DoContext E c cfg fn w = (None, w')"
  shows "\<exists>c' u. R w u \<and> fn c' u = (None, w')"
proof -
  let ?fn = "\<lambda>c (s :: unit) w. ((fst (fn c w), s), snd (fn c w))"
  obtain e s1 w1 where l: "DoContext_local E c cfg ?fn () w = ((e, s1), w1)" by (cases "DoContext_local E c cfg ?fn () w") auto
  have "forget (DoContext_local E c cfg ?fn () w) = DoContext E c cfg fn w" by (rule DoContext_local_forget) simp
  with l run have "DoContext_local E c cfg ?fn () w = ((None, s1), w')" by simp
  moreover have "keeps R (?fn c s)" for c s using fn by (simp add: keeps_def)
  ultimately obtain c' s0 u where "R w u" "?fn c' s0 u = ((None, s1), w')" using DoContext_local_success [of ?fn] by blast
  then show ?thesis by (intro exI [of _ c'] exI [of _ u]) (simp add: prod_eq_iff)
qed

lemma keeps_detached: "keeps R f \<Longrightarrow> keeps R (detached f)"
  using uncancelled unfolding keeps_def detached_def by (auto split: prod.splits) (metis snd_conv)

end

end
