(* ===== verification/Stages.thy ===== *)
theory Stages
  imports RetryLocal SshScript
begin

text \<open>
  The stages of a phase, which run one after the other: which commands each can send, and that the connections stay filed under their hosts.
\<close>

section \<open>What a stage can do\<close>

text \<open>What a stage of a phase does at most: the pool stays in order, and of the commands only those in \<open>S\<close> are sent.\<close>

definition speaks :: "string set \<Rightarrow> event \<Rightarrow> bool" where
  "speaks S e \<longleftrightarrow> (case e of RunOn n s \<Rightarrow> sent S s | _ \<Rightarrow> True)"

definition prior :: "string set \<Rightarrow> 'x sworld \<Rightarrow> 'x sworld \<Rightarrow> bool" where
  "prior S w w' \<longleftrightarrow> onward w w' \<and> extends (speaks S) w w'"

interpretation prior: world_order "prior S" for S
  by unfold_locales (auto simp: prior_def intro: onward.refl onward.trans ext.refl ext.trans)

lemma priorI:
  assumes "afar S w w'" and "routed w \<Longrightarrow> onward w w'"
  shows "prior S w w'"
proof -
  have "speaks S e" if "remote S e" for e using that by (cases e) (simp_all add: speaks_def)
  then have "extends (speaks S) w w'" using assms(1) by (auto simp: afar_def intro: extends_weaken)
  moreover have "onward w w'" using assms grows_afar unfolding onward_def by blast
  ultimately show ?thesis by (simp add: prior_def)
qed

lemma prior_run:
  assumes "steps_keep (afar S) p" and "\<And>w. routed w \<Longrightarrow> yields onward (\<lambda>r v. True) p w"
  shows "keeps (prior S) (run_proc p)"
  by (rule keepsI, rule priorI) (use keepsD [OF afar_run [OF assms(1)]] onward.yields_run [OF assms(2)] in blast)+

lemma yields_True: "yields onward Q p w \<Longrightarrow> yields onward (\<lambda>r v. True) p w"
  by (erule onward.yields_weaken) simp

lemma prior_run_command: "cmd \<in> S \<Longrightarrow> keeps (prior S) (run_command E c host cmd)"
  unfolding run_command_def by (rule prior_run [OF afar_RunCommand yields_True [OF yields_RunCommand]])

lemma prior_copy_content: "upload_script path mode \<in> S \<Longrightarrow> keeps (prior S) (copy_content E c host data path mode)"
  unfolding copy_content_def by (rule prior_run [OF afar_CopyContent yields_CopyContent])

lemma prior_RunParallel: "cmd \<in> S \<Longrightarrow> keeps (prior S) (RunParallel E c hosts cmd)"
  by (rule keepsI, rule priorI) (erule keepsD [OF afar_RunParallel], assumption, erule (1) keeps_RunParallel)

lemma prior_RunParallelFunc:
  assumes "\<forall>(h, f) \<in> set tasks. steps_keep (afar S) f \<and> (\<forall>w. routed w \<longrightarrow> yields onward (\<lambda>r v. True) f w)"
  shows "keeps (prior S) (RunParallelFunc E tasks)"
proof (rule keepsI, rule priorI)
  fix w rs w' assume run: "RunParallelFunc E tasks w = (rs, w')"
  show "afar S w w'" by (rule keepsD [OF afar_RunParallelFunc run]) (use assms in auto)
  show "onward w w'" if "routed w"
    using RunParallelFunc_onward [of tasks "\<lambda>h r v. True", OF _ run] assms that by blast
qed

lemma prior_tasks:
  assumes "\<And>x. steps_keep (afar S) (task x)" and "\<And>x w. routed w \<Longrightarrow> yields onward (\<lambda>r v. True) (task x) w"
  shows "keeps (prior S) (RunParallelFunc E (tasks_of key task xs))"
  by (rule prior_RunParallelFunc) (use assms set_tasks_of_sub [of key task xs] in auto)

text \<open>Whole directories.\<close>

lemma afar_CopyTar: "Sprintf ''set -e; mkdir -p %s; tar -xf - -C %s --no-same-owner'' [shellQuote d, shellQuote d] \<in> S \<Longrightarrow> steps_keep (afar S) (CopyTar E c host d t)"
  unfolding CopyTar_def by (auto intro!: keeping)

lemma yields_CopyTar: "routed w \<Longrightarrow> yields onward (\<lambda>r v. True) (CopyTar E c host d t) w"
  unfolding CopyTar_def by (auto intro!: onward.yields_andThen [OF yields_RunCommandStdin] onward.yields_Return)

lemma prior_CopyTar:
  "Sprintf ''set -e; mkdir -p %s; tar -xf - -C %s --no-same-owner'' [shellQuote d, shellQuote d] \<in> S \<Longrightarrow> keeps (prior S) (run_proc (CopyTar E c host d t))"
  by (rule prior_run [OF afar_CopyTar yields_CopyTar])

context world_order
begin

lemma keeps_walk_all: "(\<And>v. steps_keep R (f v)) \<Longrightarrow> steps_keep R (walk_all f vs)"
  by (induction vs) (auto intro!: keeping split: option.split)

end

lemma copy_visit_keeps: "steps_keep (afar S) (copy_visit E c n l r v)" "steps_keep onward (copy_visit E c n l r v)"
  unfolding copy_visit_def Let_def copyFileWithSFTP_def
  by (auto intro!: keeping onward_writeRemoteFile afar.keeps_return_state onward.keeps_return_state split: option.split sum.split)

lemma prior_CopyDir:
  assumes "Sprintf ''set -e; mkdir -p %s; tar -xf - -C %s --no-same-owner'' [shellQuote d, shellQuote d] \<in> S"
  shows "keeps (prior S) (run_proc (CopyDir E c host l d))"
proof (rule prior_run)
  show "steps_keep (afar S) (CopyDir E c host l d)"
    unfolding CopyDir_def copyDirElevated_def if_elevated_def
    by (auto intro!: keeping afar_CopyTar assms afar_withSFTPClient afar.keeps_walk_all copy_visit_keeps afar.keeps_return_state split: sum.split)
  show "yields onward (\<lambda>r v. True) (CopyDir E c host l d) w" if "routed w" for w
    unfolding CopyDir_def copyDirElevated_def if_elevated_def using that
    by (auto intro!: yields_then onward.keeps_return_state yields_CopyTar yields_withSFTPClient onward.keeps_walk_all copy_visit_keeps keeping
        onward.yields_Return split: sum.split) (blast intro: routed_later)+
qed

text \<open>Operations on local files and commands leave the pool alone.\<close>

lemma prior_local:
  assumes "later w w'" and "extends (\<lambda>e. \<forall>n s. e \<noteq> RunOn n s) w w'" and "w_heap w' = w_heap w"
  shows "prior S w w'"
proof -
  have "extends (\<lambda>e. True) w w'" using assms(2) by (rule extends_weaken) simp
  then have "onward w w'" using assms by (intro onwardI) (auto simp: grows_def)
  moreover have "extends (speaks S) w w'" using assms(2) by (rule extends_weaken) (simp add: speaks_def split: event.split)
  ultimately show ?thesis by (simp add: prior_def)
qed

lemma prior_do_fs: "keeps (prior S) (do_fs E op)"
proof (rule keepsI)
  fix w :: "'a sworld" and r w' assume "do_fs E op w = (r, w')"
  then obtain r' where op: "do_op E op w = (r', w')" by (auto simp: do_fs_def split: prod.splits)
  have "extends (\<lambda>e. \<forall>n s. e \<noteq> RunOn n s) w w'" by (rule keepsD [OF do_op_issues op]) simp
  then show "prior S w w'" using keepsD [OF do_op_later op] do_op_heap [OF op] by (intro prior_local)
qed

interpretation prior: phase_order "prior S" for S
  by unfold_locales (auto simp: prior_def onward_def grows_def later_def extends_def routed_def dialled_def)

text \<open>The rules that show it for a whole stage; \<open>S\<close> holds the commands.\<close>

named_theorems staged

lemma prior_ask [staged]:
  "cmd \<in> S \<Longrightarrow> (\<And>r. keeps (prior S) (k r)) \<Longrightarrow> keeps (prior S) (\<lambda>w. case run_command E c host cmd w of (r, w) \<Rightarrow> k r w)"
  using prior.keeps_bind [OF prior_run_command] by blast

lemma prior_checked [staged]: "keeps (prior S) k \<Longrightarrow> keeps (prior S) (\<lambda>w. check_err (e, w) wrap k)"
  by (rule prior.keeps_check [OF prior.keeps_return])

lemma prior_ignore [staged]:
  assumes "cmd \<in> S" and "keeps (prior S) k"
  shows "keeps (prior S) (\<lambda>w. k (ignore_command E c host cmd w))"
proof -
  have "keeps (prior S) (\<lambda>w. k (snd (run_command E c host cmd w)))" using prior.keeps_then [OF prior_run_command [OF assms(1)] assms(2)] .
  then show ?thesis by (simp add: ignore_command_def)
qed

text \<open>Operations whose result is not used.\<close>

lemma prior_ignored: "cmd \<in> S \<Longrightarrow> prior S w (ignore_command E c host cmd w)"
  using prior_run_command unfolding keeps_def ignore_command_def by blast

lemma prior_ran:
  assumes "cmd \<in> S" and "\<And>r v. prior S v (k r v)"
  shows "prior S w (case run_command E c host cmd w of (r, w) \<Rightarrow> k r w)"
proof -
  obtain r v where 1: "run_command E c host cmd w = (r, v)" by fastforce
  with prior.trans [OF keepsD [OF prior_run_command [OF assms(1)] 1] assms(2)] show ?thesis by simp
qed

lemma prior_after: "(\<And>w. prior S w (d w)) \<Longrightarrow> keeps (prior S) f \<Longrightarrow> keeps (prior S) (\<lambda>w. f (d w))"
  using prior.trans unfolding keeps_def by blast

lemma prior_fold:
  assumes "\<And>x w. x \<in> set xs \<Longrightarrow> prior S w (f x w)"
  shows "prior S w (fold f xs w)"
  using assms by (induction xs arbitrary: w) (auto intro: prior.refl prior.trans)

lemma prior_must [staged]: "cmd \<in> S \<Longrightarrow> keeps (prior S) (must E c host cmd msg)"
  unfolding must_def by (rule prior_ask [OF _ prior.keeps_return])

lemma prior_deferred:
  assumes f: "keeps (prior S) f" and d: "\<And>w. prior S w (d w)"
  shows "keeps (prior S) (\<lambda>w. deferred d (f w))"
  using f d prior.trans unfolding keeps_def deferred_def by (metis snd_conv)

lemma prior_run_detached: "cmd \<in> S \<Longrightarrow> prior S w (run_detached E t host cmd w)"
proof -
  assume cmd: "cmd \<in> S"
  have "keeps (prior S) (\<lambda>w. run_command E (WithTimeout None t w) host cmd w)"
    by (rule keepsI) (rule keepsD [OF prior_run_command [OF cmd]])
  from prior.keeps_detached [OF this] show ?thesis by (simp add: keeps_def run_detached_def)
qed

lemma prior_RunCommandStdin:
  assumes "cmd \<in> S"
  shows "keeps (prior S) (run_proc (RunCommandStdin E c host cmd stdin b))"
  using assms by (intro prior_run afar_RunCommandStdin yields_RunCommandStdin)

lemma prior_script:
  assumes "\<And>p. upload_script p 448 \<in> S" and "\<And>p. script_command p \<in> S"
  shows "keeps (prior S) (run_script E c host script)"
proof -
  have "keeps (prior S) (run_proc (RunScript E c host script))"
    by (rule prior_run [OF afar_RunScript yields_True [OF yields_RunScript]]) (use assms in auto)
  then show ?thesis by (auto simp: keeps_def run_script_def split: prod.splits) (metis snd_conv)
qed

lemmas [staged] = prior_run_command prior_copy_content prior_RunParallel prior_RunParallelFunc prior_do_fs prior_RunCommandStdin
  prior.keeps_check prior.keeps_each prior.keeps_return prior.keeps_return_state prior.keeps_DoContext prior.keeps_DoContext_local
  prior.keeps_PollContext_local keeps_if keeps_option keeps_sum keeps_pair keeps_let

lemma prior_parallel [staged]:
  "cmd \<in> S \<Longrightarrow> (\<And>rs. keeps (prior S) (k rs)) \<Longrightarrow> keeps (prior S) (\<lambda>w. case RunParallel E c hosts cmd w of (rs, w) \<Rightarrow> k rs w)"
  using prior.keeps_bind [OF prior_RunParallel] by blast

text \<open>What was served in a part of a run was served in the run.\<close>

lemma prior_served: "prior S w u \<Longrightarrow> served E c host cmd u r v \<Longrightarrow> prior T v v' \<Longrightarrow> served E c host cmd w r v'"
  using served_from unfolding prior_def by blast

lemma prior_routed: "prior S w w' \<Longrightarrow> routed w \<Longrightarrow> routed w'"
  by (simp add: prior_def onward_def)

lemma run_command_answered:
  "routed w \<Longrightarrow> run_command E c host cmd w = (r, w') \<Longrightarrow> ro_err r = None \<Longrightarrow> served E c host cmd w r w'"
  unfolding run_command_def by (rule run_command_served)

text \<open>With fewer commands allowed, the more is known.\<close>

lemma prior_mono: "prior S w w' \<Longrightarrow> S \<subseteq> T \<Longrightarrow> prior T w w'"
  unfolding prior_def by (erule conjE, rule conjI, assumption, erule extends_weaken) (auto simp: speaks_def sent_def split: event.splits)

lemma prior_sent: "prior S w w' \<Longrightarrow> RunOn n s \<in> set (added w w') \<Longrightarrow> sent S s"
  using extends_added [of "speaks S" w w'] by (auto simp: prior_def speaks_def list_all_iff)

text \<open>What was served was sent.\<close>

lemma run_session_sent:
  assumes "run_session E ctx c cmd stdin w = (r, w')"
  shows "w_trace w' = w_trace w @ [RunOn c (remoteCommand (w_heap w) cmd)]"
proof -
  let ?sent = "remoteCommand (w_heap w) cmd" and ?w = "emit (RunOn c (remoteCommand (w_heap w) cmd)) w"
  obtain rr out x where 1: "s_run E c ?sent stdin ?w = ((rr, out), x)" by (metis prod.collapse)
  obtain b w1 where wt: "wait_until E ctx (w_clock ?w + int (rr_time rr)) ?w = (b, w1)" by fastforce
  obtain rc xc where cut: "s_cut E c ?sent stdin w1 = (rc, xc)" by fastforce
  obtain u where "w1 = ?w\<lparr>w_clock := u\<rparr>" using wait_until_frame [OF wt] by blast
  then show ?thesis using assms 1 wt cut by (cases b) (auto simp: run_session_def Let_def elapse_def)
qed

lemma served_sent:
  assumes "served E c host cmd w r w'"
  shows "\<exists>n p. RunOn n (remoteCommand p cmd) \<in> set (added w w')"
proof -
  obtain n u v where 1: "onward w u" "run_session E c n cmd None u = (r, v)" "onward v w'" using assms by (auto simp: served_def)
  with run_session_sent [OF 1(2)] show ?thesis by (fastforce simp: onward_def grows_def extends_def added_def)
qed

text \<open>A configuration without its secrets.\<close>

definition without_secrets :: "Config \<Rightarrow> Config" where
  "without_secrets cfg = cfg\<lparr>Database := (Database cfg)\<lparr>db_Password := [], RootPassword := [], ExporterPassword := []\<rparr>, AdminPassword := [],
     PKI := (PKI cfg)\<lparr>ProvisionerPassword := []\<rparr>, Backup := (Backup cfg)\<lparr>SecretKey := []\<rparr>\<rparr>"

section \<open>What a success tells\<close>

lemma bind_iff: "(case p of (r, w) \<Rightarrow> k r w) = x \<longleftrightarrow> (\<exists>r w. p = (r, w) \<and> k r w = x)"
  by (cases p) simp

text \<open>A command ended with 0 on its host, during the part of the run from \<open>w\<close> to \<open>w'\<close>.\<close>

definition succeeded :: "('x, 'z) ssh_env_scheme \<Rightarrow> ctx \<Rightarrow> string \<Rightarrow> string \<Rightarrow> 'x sworld \<Rightarrow> 'x sworld \<Rightarrow> bool" where
  "succeeded E c host cmd w w' \<longleftrightarrow> (\<exists>r. served E c host cmd w r w' \<and> ro_err r = None \<and> ro_code r = 0)"

lemma succeeded_from: "succeeded E c host cmd u v \<Longrightarrow> prior S w u \<Longrightarrow> prior T v v' \<Longrightarrow> succeeded E c host cmd w v'"
  unfolding succeeded_def using prior_served by blast

lemma command_succeeded:
  assumes "routed w" and "run_command E c host cmd w = (r, w')" and "ro_err r = None" and "ro_code r = 0"
  shows "succeeded E c host cmd w w'"
  using run_command_answered [OF assms(1-3)] assms(3,4) unfolding succeeded_def by blast

lemma parallel_succeeded:
  assumes w: "routed w" and run: "RunParallel E c hosts cmd w = (rs, w')" and ok: "\<forall>r \<in> set rs. Err r = None \<and> ExitCode r = 0" and h: "h \<in> set hosts"
  shows "succeeded E c h cmd w w'"
proof -
  have "map Host rs = hosts" using RunParallel_hosts [of E c hosts cmd w] run by simp
  with h obtain r where r: "r \<in> set rs" "Host r = h" by auto
  with RunParallel_onward [OF w run] ok obtain o' where o': "r = host_result h o'" "served E c h cmd w o' w'" by blast
  moreover have "Err r = None \<and> ExitCode r = 0" using ok r(1) by blast
  ultimately show ?thesis unfolding succeeded_def by (intro exI [of _ o']) (simp add: host_result_def)
qed

lemma must_succeeded: "routed w \<Longrightarrow> must E c host cmd msg w = (None, w') \<Longrightarrow> succeeded E c host cmd w w'"
  by (auto simp: must_def refused_def intro: command_succeeded split: prod.splits if_splits)

text \<open>Tasks that run at the same time.\<close>

lemma succeeded_onward: "onward w u \<Longrightarrow> succeeded E c host cmd u v \<Longrightarrow> onward v v' \<Longrightarrow> succeeded E c host cmd w v'"
  unfolding succeeded_def using served_from by blast

lemma yields_succeeded:
  assumes "routed u" and "onward w u" and "\<And>r. k r = None \<Longrightarrow> \<not> refused r"
  shows "yields onward (\<lambda>e v. e = None \<longrightarrow> succeeded E c host cmd w v) (andThen (RunCommand E c host cmd) (\<lambda>r. Return (k r))) u"
proof (rule onward.yields_andThen [OF yields_RunCommand [OF assms(1)]])
  fix r v assume v: "onward u v" and r: "ro_err r = None \<longrightarrow> served E c host cmd u r v"
  have "k r = None \<longrightarrow> succeeded E c host cmd w t" if "onward v t" for t
  proof
    assume "k r = None"
    with assms(3) have "ro_err r = None \<and> ro_code r = 0" by (auto simp: refused_def)
    with r have s: "served E c host cmd u r v" "ro_err r = None" "ro_code r = 0" by simp_all
    have "succeeded E c host cmd u v" unfolding succeeded_def by (intro exI [of _ r] conjI s)
    with succeeded_onward [OF assms(2)] that show "succeeded E c host cmd w t" by blast
  qed
  then show "yields onward (\<lambda>e v. e = None \<longrightarrow> succeeded E c host cmd w v) (Return (k r)) v" by (rule onward.yields_Return)
qed

lemma tasks_done:
  assumes "\<And>ip. yields onward (\<lambda>r v. r = None \<longrightarrow> P ip v) (task ip) w"
    and rs: "RunParallelFunc E (tasks_of (\<lambda>ip. ip) task ips) w = (rs, w')" and ok: "\<forall>r \<in> set rs. Err r = None" and ip: "ip \<in> set ips"
  shows "P ip w'"
proof -
  have "yields onward (\<lambda>r v. r = None \<longrightarrow> P h v) f w" if "(h, f) \<in> set (tasks_of (\<lambda>ip. ip) task ips)" for h f
    using that set_tasks_of_sub [of "\<lambda>ip. ip" task ips] assms(1) by auto
  note fin = conjunct2 [OF RunParallelFunc_onward [where Q = "\<lambda>h r v. r = None \<longrightarrow> P h v", OF this rs]]
  have "\<exists>r \<in> set rs. Host r = ip \<and> (Err r = None \<longrightarrow> P ip w')" by (rule bspec [OF fin]) (use ip in \<open>auto simp only: keys_of_tasks image_ident\<close>)
  with ok show ?thesis by auto
qed

lemma each_done:
  assumes step: "\<And>x. keeps (prior S) (f x)" and fin: "\<And>x u v. routed u \<Longrightarrow> f x u = (None, v) \<Longrightarrow> P x u v"
    and mono: "\<And>x u v t t'. prior S t u \<Longrightarrow> P x u v \<Longrightarrow> prior S v t' \<Longrightarrow> P x t t'"
  shows "routed w \<Longrightarrow> each f xs w = (None, w') \<Longrightarrow> x \<in> set xs \<Longrightarrow> P x w w'"
proof (induction xs arbitrary: w)
  case (Cons y xs)
  obtain w1 where 1: "f y w = (None, w1)" and 2: "each f xs w1 = (None, w')" using Cons.prems(2) by (auto simp: check_err_None)
  have p: "prior S w w1" using keepsD [OF step 1] .
  have q: "prior S w1 w'" using keepsD [OF prior.keeps_each [OF step] 2] .
  show ?case
  proof (cases "x = y")
    case True
    with mono [OF prior.refl fin [OF Cons.prems(1) 1] q] show ?thesis by simp
  next
    case False
    with Cons.prems(3) have "P x w1 w'" using Cons.IH [OF prior_routed [OF p Cons.prems(1)] 2] by simp
    from mono [OF p this prior.refl] show ?thesis .
  qed
qed simp

lemma deferred_iff: "deferred d p = (r, w') \<longleftrightarrow> (\<exists>u. p = (r, u) \<and> w' = d u)"
  by (cases p) (auto simp: deferred_def)

text \<open>A group of goroutines: what each yields, all of them deliver.\<close>

lemma parallel_onward:
  assumes ps: "\<And>p. p \<in> set ps \<Longrightarrow> yields onward (\<lambda>r v. True) p w" and run: "parallel E lim ps w = (fin, w')"
  shows "onward w w'"
proof -
  have "yields onward (\<lambda>r v. True) (ps ! i) w" if "i < length ps" for i using ps that by simp
  from onward.par_exec_yields [where Q = "\<lambda>i r v. True", OF this run [unfolded parallel_def]] show ?thesis by blast
qed

lemma prior_parallel_group:
  assumes "\<And>p. p \<in> set ps \<Longrightarrow> steps_keep (afar S) p" and "\<And>p w. p \<in> set ps \<Longrightarrow> routed w \<Longrightarrow> yields onward (\<lambda>r v. True) p w"
  shows "keeps (prior S) (parallel E lim ps)"
  by (rule keepsI, rule priorI) (use keepsD [OF afar_parallel] parallel_onward assms in blast)+

lemma group_done:
  assumes ps: "\<And>x. x \<in> set xs \<Longrightarrow> yields onward (\<lambda>r v. ok r \<longrightarrow> P x v) (f x) w" and run: "parallel E lim (map f xs) w = (fin, w')"
    and ok: "\<forall>r \<in> snd ` set fin. ok r" and x: "x \<in> set xs"
  shows "P x w'"
proof -
  have "yields onward (\<lambda>r v. ok r \<longrightarrow> P (xs ! i) v) (map f xs ! i) w" if "i < length (map f xs)" for i using ps that by simp
  from onward.par_exec_yields [where Q = "\<lambda>i r v. ok r \<longrightarrow> P (xs ! i) v", OF this run [unfolded parallel_def]]
  have q: "\<And>i r. (i, r) \<in> set fin \<Longrightarrow> ok r \<longrightarrow> P (xs ! i) w'" using onward.refl by fastforce
  obtain i where i: "i < length xs" "xs ! i = x" using x by (auto simp: in_set_conv_nth)
  then have "i \<in> set (map fst fin)" using par_exec_complete [OF run [unfolded parallel_def]] by simp
  then obtain r where r: "(i, r) \<in> set fin" by auto
  with ok have "ok r" by force
  with q [OF r] i show ?thesis by simp
qed

end
