(* ===== verification/DrbdProps.thy ===== *)
theory DrbdProps
  imports Drbd Stages Files
begin

text \<open>
  What the setup of the replicated volume guarantees: a master is promoted only after the metadata was initialised on both, and
  authorising the key for fencing adds it to what was there.
\<close>

section \<open>The key for fencing\<close>

lemma split_acc_cons: "split_acc [c] acc (u @ c # v) = split_acc [c] acc u @ split_acc [c] [] v"
  by (induction "[c]" acc u rule: split_acc.induct) (auto simp: HasPrefix_def)

lemma split_acc_plain: "c \<notin> set u \<Longrightarrow> split_acc [c] acc u = [rev acc @ u]"
  by (induction "[c]" acc u rule: split_acc.induct) (auto simp: HasPrefix_def)

lemma Split_line_end: "c \<notin> set k \<Longrightarrow> Split (d @ [c] @ k @ [c]) [c] = Split d [c] @ [k, []]"
  by (simp add: Split_def split_acc_cons split_acc_plain)

text \<open>A line of the file is a part of it.\<close>

lemma split_acc_part: "x \<in> set (split_acc sep acc s) \<Longrightarrow> \<exists>u v. rev acc @ s = u @ x @ v"
proof (induction sep acc s rule: split_acc.induct)
  case (2 sep acc c s)
  show ?case
  proof (cases "sep \<noteq> [] \<and> HasPrefix (c # s) sep")
    case True
    then have sep: "sep @ drop (length sep) (c # s) = c # s" unfolding HasPrefix_def by (metis append_take_drop_id)
    from True 2 consider "x = rev acc" | "\<exists>u v. drop (length sep) (c # s) = u @ x @ v" by auto
    then show ?thesis
    proof cases
      case 2
      then obtain u v where "drop (length sep) (c # s) = u @ x @ v" by blast
      with sep show ?thesis by (metis append.assoc)
    qed auto
  qed (use 2 in \<open>auto split: if_splits\<close>)
qed (auto intro: exI [of _ "[]"])

lemma authorise_key_content:
  assumes run: "authorise_key E p pub w = (None, w')" and links: "no_links (w_fs w)"
    and rd: "e_rfault E p w = None" and d: "content (w_fs w) p = Some d"
  shows "if Contains d (TrimSpace pub) then w' = w else content (w_fs w') p = Some (d @ pub @ [nl])"
proof -
  have ex: "ReadFile E p w = Inr d" using ReadFile_plain [OF links rd d] .
  show ?thesis
  proof (cases "Contains d (TrimSpace pub)")
    case False
    with run ex obtain w1 w2 where 1: "do_op E (AppendFile p [] 384) w = (None, w1)" and 2: "do_op E (AppendFile p (pub @ [nl]) 384) w1 = (None, w2)"
      and 3: "do_op E (CloseFile p) w2 = (None, w')"
      by (auto simp: authorise_key_def do_fs_def check_err_None split: prod.splits if_splits)
    have "content (w_fs w1) p = Some d" using do_op_append [OF 1 links] d by simp
    moreover have "no_links (w_fs w1)" by (rule do_op_frame(1) [OF 1 links])
    ultimately have "content (w_fs w2) p = Some (d @ pub @ [nl])" using do_op_append [OF 2] by simp
    then show ?thesis using do_op_close [OF 3] False by (simp add: content_def)
  qed (use run ex in \<open>simp add: authorise_key_def\<close>)
qed

text \<open>C28. Authorising the key for fencing keeps everything that \<open>authorized_keys\<close> holds, adds the key at most once, and makes it a line of
  its own when the file ends with a complete line (or is empty). When the last line of the file is not complete, the new key is glued to
  it: then no line of the file is the key, although the call succeeds.\<close>

theorem authorise_key_adds:
  assumes run: "authorise_key E p (k @ [nl]) w = (None, w')" and links: "no_links (w_fs w)" and rd: "e_rfault E p w = None"
    and d: "content (w_fs w) p = Some d" and k: "TrimSpace (k @ [nl]) = k" "nl \<notin> set k"
  shows "\<exists>d'. content (w_fs w') p = Some d' \<and> (d' = d \<or> d' = d @ k @ [nl, nl]) \<and> Contains d' k \<and> (Contains d k \<longrightarrow> d' = d) \<and>
    (\<not> Contains d k \<and> (d = [] \<or> last d = nl) \<longrightarrow> k \<in> set (Split d' [nl])) \<and>
    (\<not> Contains d k \<and> d \<noteq> [] \<and> last d \<noteq> nl \<longrightarrow> k \<notin> set (Split d' [nl]))"
proof (cases "Contains d k")
  case True
  with authorise_key_content [OF run links rd d] k(1) d show ?thesis by auto
next
  case False
  then have c: "content (w_fs w') p = Some (d @ k @ [nl, nl])" using authorise_key_content [OF run links rd d] k(1) by simp
  have line: "k \<in> set (Split (d @ k @ [nl, nl]) [nl])" if "d = [] \<or> last d = nl"
  proof (cases "d = []")
    case True
    then show ?thesis using k(2) split_acc_cons [of nl "[]" k "[nl]"] by (simp add: Split_def split_acc_plain)
  next
    case False
    with that obtain u where u: "d = u @ [nl]" by (metis append_butlast_last_id)
    have "Split (d @ k @ [nl, nl]) [nl] = split_acc [nl] [] u @ split_acc [nl] [] (k @ nl # [nl])"
      unfolding u Split_def using split_acc_cons [of nl "[]" u "k @ [nl, nl]"] by simp
    also have "split_acc [nl] [] (k @ nl # [nl]) = k # split_acc [nl] [] [nl]" using k(2) split_acc_cons [of nl "[]" k "[nl]"]
      by (simp add: split_acc_plain)
    finally show ?thesis by simp
  qed
  have glued: "k \<notin> set (Split (d @ k @ [nl, nl]) [nl])" if ne: "d \<noteq> []" "last d \<noteq> nl"
  proof
    assume "k \<in> set (Split (d @ k @ [nl, nl]) [nl])"
    moreover have "split_acc [nl] acc (u @ k @ nl # [nl]) = butlast (split_acc [nl] acc u) @ [last (split_acc [nl] acc u) @ k] @ [[], []]" for u acc
    proof (induction "[nl]" acc u rule: split_acc.induct)
      case (1 acc)
      show ?case using k(2) split_acc_cons [of nl acc k "[nl]"] by (simp add: split_acc_plain HasPrefix_def)
    qed (auto simp: HasPrefix_def)
    from this [of "[]" d] have "set (Split (d @ k @ [nl, nl]) [nl]) \<subseteq> set (Split d [nl]) \<union> {last (Split d [nl]) @ k, []}"
      by (auto simp: Split_def dest: in_set_butlastD)
    moreover have "last (split_acc [nl] acc u) \<noteq> []" if "rev acc @ u \<noteq> []" "last (rev acc @ u) \<noteq> nl" for acc u
      using that by (induction "[nl]" acc u rule: split_acc.induct) (auto simp: HasPrefix_def last_ConsL split: if_splits)
    then have "last (Split d [nl]) \<noteq> []" using ne by (simp add: Split_def)
    moreover have "k \<notin> set (Split d [nl])" using False split_acc_part [of k "[nl]" "[]" d] by (auto simp: Split_def Contains_iff)
    moreover have "k \<noteq> []" using False Contains_iff [of d "[]"] by auto
    ultimately show False by auto
  qed
  have "Contains (d @ k @ [nl, nl]) k" unfolding Contains_iff by blast
  with c False line glued show ?thesis by blast
qed

section \<open>The order of the stages\<close>

lemma prior_run_now: "keeps (prior S) (run_now E argv)"
  by (rule keepsI, rule prior_local) (auto simp: run_now_def later_def extends_def split: prod.splits)

section \<open>Promotion comes last\<close>

definition before_promotion :: "string set" where
  "before_promotion = {cmd. cmd \<noteq> promote_cmd \<and> \<not> HasPrefix cmd ''sudo''}"

lemma upload_before: "upload_script path mode \<in> before_promotion"
  by (simp add: before_promotion_def upload_script_def Sprintf_def is_letter_def promote_cmd_def HasPrefix_def)

lemma script_before: "script_command p \<in> before_promotion"
  by (simp add: before_promotion_def script_command_def promote_cmd_def HasPrefix_def)

lemma commands_before: "''mkdir -p /etc/drbd-fence && chmod 700 /etc/drbd-fence'' \<in> before_promotion" "install_cmd \<in> before_promotion"
  by (simp_all add: before_promotion_def promote_cmd_def HasPrefix_def install_cmd_def AptLockWaitSnippet_def apt_wait_lines_def)

lemma promotion_sent: "speaks before_promotion (RunOn n (remoteCommand p promote_cmd)) \<longleftrightarrow> False"
  using sent_iff [of promote_cmd before_promotion p] by (simp add: speaks_def before_promotion_def promote_cmd_def HasPrefix_def)

lemmas prior_steps = prior_run_command prior_copy_content prior_RunParallel prior_do_fs prior_run_now prior.keeps_check
  prior.keeps_intros upload_before commands_before keeping

lemma prior_make_fence_key: "keeps (prior S) (make_fence_key E d k)"
proof -
  have "keeps (prior S) (\<lambda>w. case run_now E (keygen_argv k) w of ((out, Some e), w) \<Rightarrow> (Some (Errorf ''ssh-keygen: %w: %s'' [e, TrimSpace out]), w)
      | ((out, None), w) \<Rightarrow> (None, w))"
    by (rule keepsI) (auto dest: keepsD [OF prior_run_now] split: prod.splits option.splits)
  then have "keeps (prior S) (\<lambda>w. check_err (do_fs E (MkdirAll d 448) w) (\<lambda>e. e) (\<lambda>w.
      case run_now E (keygen_argv k) w of ((out, Some e), w) \<Rightarrow> (Some (Errorf ''ssh-keygen: %w: %s'' [e, TrimSpace out]), w)
      | ((out, None), w) \<Rightarrow> (None, w)))"
    by (intro prior.keeps_check prior_do_fs)
  then show ?thesis by (auto simp: keeps_def make_fence_key_def intro: prior.refl split: sum.split)
qed

lemma prior_authorise_key: "keeps (prior S) (authorise_key E p pub)"
proof -
  have "keeps (prior S) (\<lambda>w. check_err (do_fs E (AppendFile p [] 384) w) (\<lambda>e. e) (\<lambda>w.
        (case do_fs E (AppendFile p (pub @ [nl]) 384) w of (werr, w) \<Rightarrow>
          (case do_fs E (CloseFile p) w of (cerr, w) \<Rightarrow> (if werr = None then cerr else werr, w)))))"
    by (intro prior.keeps_check prior.keeps_intros prior_do_fs)
  then show ?thesis by (auto simp: keeps_def authorise_key_def Let_def intro: prior.refl)
qed

lemma prior_ensureFenceKey: "keeps (prior S) (ensureFenceKey E)"
proof (rule keepsI)
  fix w :: "'a sworld" and r w' assume run: "ensureFenceKey E w = (r, w')"
  show "prior S w w'"
  proof (cases "UserHomeDir E")
    case (Some home)
    let ?d = "path_Join [home, ''.ssh'']" and ?k = "path_Join [path_Join [home, ''.ssh''], ''id_ed25519_fence'']"
    obtain e1 w1 where 1: "make_fence_key E ?d ?k w = (e1, w1)" by fastforce
    have p1: "prior S w w1" using keepsD [OF prior_make_fence_key 1] .
    have "w' = w1 \<or> (\<exists>pub e2. authorise_key E (path_Join [?d, ''authorized_keys'']) pub w1 = (e2, w'))"
      using run Some 1 by (auto simp: ensureFenceKey_def Let_def split: option.splits sum.splits prod.splits)
    then show ?thesis using p1 prior.trans [OF p1] keepsD [OF prior_authorise_key] by blast
  qed (use run prior.refl in \<open>simp add: ensureFenceKey_def\<close>)
qed

lemma keeps_wrap: "keeps R (\<lambda>w. check_err (f w) wrap k) \<Longrightarrow> (\<And>w. g w = check_err (f w) wrap k) \<Longrightarrow> keeps R g"
  by (simp add: keeps_def)

lemma prior_fence_node: "keeps (prior before_promotion) (fence_node E c script conf mk key np)"
proof -
  obtain node peer where np: "np = (node, peer)" by fastforce
  have key: "keeps (prior before_promotion) (\<lambda>w. if length key > 0 then copy_content E c (n_IP node) key ''/etc/drbd-fence/fence_key'' 384 w else (None, w))"
    by (intro keeping prior.keeps_intros prior_copy_content upload_before)
  have last: "keeps (prior before_promotion) (\<lambda>w. check_err (copy_content E c (n_IP node) d p m w) f (\<lambda>w. (None, w)))" for d p m f
    by (intro prior.keeps_check prior_copy_content upload_before prior.keeps_return)
  have conf: "keeps (prior before_promotion) (\<lambda>w. case d_fence E conf (mk (n_Name peer)) of
        Inl e \<Rightarrow> (Some (Errorf ''failed to render drbd-fence.conf for %s: %w'' [n_Name node, e]), w)
      | Inr text \<Rightarrow>
          check_err (if length key > 0 then copy_content E c (n_IP node) key ''/etc/drbd-fence/fence_key'' 384 w else (None, w))
            (\<lambda>e. Errorf ''failed to copy fence key to %s: %w'' [n_Name node, e]) (\<lambda>w.
          check_err (copy_content E c (n_IP node) text ''/etc/drbd-fence.conf'' 384 w)
            (\<lambda>e. Errorf ''failed to deploy drbd-fence.conf to %s: %w'' [n_Name node, e]) (\<lambda>w. (None, w))))"
    using prior.keeps_check [OF key last] prior.keeps_return by (cases "d_fence E conf (mk (n_Name peer))") simp_all
  show ?thesis unfolding fence_node_def np prod.case
    by (rule prior_ask [OF commands_before(1)], rule prior_checked, rule prior.keeps_check [OF prior_copy_content [OF upload_before] conf])
qed

lemma prior_setupFencing: "keeps (prior before_promotion) (setupFencing E cfg c pair)"
proof (rule keepsI)
  fix w r w' assume run: "setupFencing E cfg c pair w = (r, w')"
  obtain offCmd stateCmd where fc: "FenceCommands E cfg = (offCmd, stateCmd)" by fastforce
  obtain key w1 where k: "(if Fencing (DRBD cfg) \<and> \<not> FenceCommand (DRBD cfg) \<noteq> [] then ensureFenceKey E w else (Inr [], w)) = (key, w1)" by fastforce
  then have p1: "prior before_promotion w w1" using keepsD [OF prior_ensureFenceKey] prior.refl by (auto split: if_splits)
  have "w' = w \<or> (\<exists>script conf mk key. each (fence_node E c script conf mk key) (with_peer pair) w1 = (r, w'))"
    using run fc k by (auto simp: setupFencing_def Let_def split: sum.splits option.splits)
  then show "prior before_promotion w w'"
  proof (elim disjE exE)
    fix script conf mk key assume "each (fence_node E c script conf mk key) (with_peer pair) w1 = (r, w')"
    then have "prior before_promotion w1 w'" by (rule keepsD [OF prior.keeps_each [OF prior_fence_node]])
    with p1 show ?thesis by (rule prior.trans)
  qed (simp add: prior.refl)
qed

lemma afar_script: "steps_keep (afar before_promotion) (RunScript E c host script)"
  by (rule afar_RunScript) (simp add: upload_before script_before)

lemma prior_install: "keeps (prior before_promotion) (drbd_install E c ips)"
  unfolding drbd_install_def by (intro prior.keeps_intros prior_RunParallel commands_before)

lemma prior_configure: "keeps (prior before_promotion) (drbd_configure E cfg c ips)"
proof (rule keepsI)
  fix w r w' assume run: "drbd_configure E cfg c ips w = (r, w')"
  have copy: "keeps (prior before_promotion) (RunParallelFunc E (tasks_of (\<lambda>ip. ip) (\<lambda>ip. CopyContent E c ip d ''/etc/drbd.d/cms_data.res'' 420) ips))" for d
    by (rule prior_tasks [OF afar_CopyContent [OF upload_before] yields_CopyContent])
  have "w' = w \<or> (\<exists>d rs. RunParallelFunc E (tasks_of (\<lambda>ip. ip) (\<lambda>ip. CopyContent E c ip d ''/etc/drbd.d/cms_data.res'' 420) ips) w = (rs, w'))"
    using run by (auto simp: drbd_configure_def split: sum.splits option.splits prod.splits)
  then show "prior before_promotion w w'" using prior.refl keepsD [OF copy] by blast
qed

lemma yields_init_task: "routed w \<Longrightarrow> yields onward (\<lambda>r v. r = None \<longrightarrow> script_ran E c ip w v) (init_task E c ip) w"
proof -
  assume w: "routed w"
  have later: "script_ran E c ip w v \<Longrightarrow> onward v u \<Longrightarrow> script_ran E c ip w u" for v u
    unfolding script_ran_def using served_from [OF onward.refl] by blast
  show ?thesis unfolding init_task_def
    by (rule onward.yields_andThen [OF yields_RunScript [OF w]]) (auto intro!: onward.yields_Return intro: later)
qed

lemma prior_initialise: "keeps (prior before_promotion) (drbd_initialise E c ips)"
proof -
  have "steps_keep (afar before_promotion) (init_task E c ip)" for ip
    unfolding init_task_def by (intro steps_keep_andThen afar_script steps_keep_Return)
  then have "keeps (prior before_promotion) (RunParallelFunc E (tasks_of (\<lambda>ip. ip) (init_task E c) ips))"
    by (intro prior_tasks) (auto intro: yields_True yields_init_task)
  then show ?thesis unfolding drbd_initialise_def by (intro prior.keeps_intros)
qed

lemma initialised:
  assumes w: "routed w" and run: "drbd_initialise E c ips w = (None, w')" and ip: "ip \<in> set ips"
  shows "script_ran E c ip w w'"
proof -
  let ?tasks = "tasks_of (\<lambda>ip. ip) (init_task E c) ips"
  obtain rs where rs: "RunParallelFunc E ?tasks w = (rs, w')" and ok: "\<forall>r \<in> set rs. Err r = None"
    using run by (auto simp: drbd_initialise_def wrapped_error_def split: prod.splits)
  have "yields onward (\<lambda>r v. r = None \<longrightarrow> script_ran E c h w v) f w" if "(h, f) \<in> set ?tasks" for h f
    using that yields_init_task [OF w] set_tasks_of_sub [of "\<lambda>ip. ip" "init_task E c" ips] by auto
  from RunParallelFunc_onward [where Q = "\<lambda>h r v. r = None \<longrightarrow> script_ran E c h w v", OF this rs]
  have "\<forall>h \<in> fst ` set ?tasks. \<exists>r \<in> set rs. Host r = h \<and> (Err r = None \<longrightarrow> script_ran E c h w w')"
    by blast
  with ok ip show ?thesis by auto
qed

lemma not_promoted:
  assumes "prior before_promotion w w'"
  shows "RunOn n (remoteCommand p promote_cmd) \<notin> set (added w w')"
  using assms promotion_sent [of n p] extends_added [of "speaks before_promotion" w w'] by (auto simp: prior_def list_all_iff)

text \<open>C29. The volume is promoted only after its metadata was initialised: if the run sends the promotion at all, then before it the
  configuration was deployed and the initialisation reported no error, and on each of the two masters a script was run, over a connection dialled to that
  master, and ended with 0, all this under any schedule of the concurrent tasks; until then no promotion was sent to anyone.\<close>

theorem drbd_promotes_initialised:
  assumes w: "routed w" and run: "drbd_Run E cfg c w = (r, w')" and sent: "RunOn n (remoteCommand p promote_cmd) \<in> set (added w w')"
  shows "\<exists>m1 m2 rest t u v. Masters (Nodes cfg) = m1 # m2 # rest \<and> onward w t \<and>
    drbd_configure E cfg c [n_IP m1, n_IP m2] t = (None, u) \<and> drbd_initialise E c [n_IP m1, n_IP m2] u = (None, v) \<and>
    script_ran E c (n_IP m1) w v \<and> script_ran E c (n_IP m2) w v \<and>
    (\<forall>n p. RunOn n (remoteCommand p promote_cmd) \<notin> set (added w v))"
proof -
  have none: "\<not> prior before_promotion w w'" using not_promoted sent by blast
  then obtain m1 m2 rest where ms: "Masters (Nodes cfg) = m1 # m2 # rest"
    using run prior.refl by (auto simp: drbd_Run_def split: list.splits)
  let ?ips = "[n_IP m1, n_IP m2]"
  obtain r1 w1 where 1: "setupFencing E cfg c [m1, m2] w = (r1, w1)" by fastforce
  obtain r2 w2 where 2: "drbd_install E c ?ips w1 = (r2, w2)" by fastforce
  obtain r3 w3 where 3: "drbd_configure E cfg c ?ips w2 = (r3, w3)" by fastforce
  obtain r4 w4 where 4: "drbd_initialise E c ?ips w3 = (r4, w4)" by fastforce
  note p1 = keepsD [OF prior_setupFencing 1]
  note p2 = prior.trans [OF p1 keepsD [OF prior_install 2]]
  note p3 = prior.trans [OF p2 keepsD [OF prior_configure 3]]
  note p4 = prior.trans [OF p3 keepsD [OF prior_initialise 4]]
  have "r1 = None" using run none p1 1 ms by (cases r1) (auto simp: drbd_Run_def check_err_def)
  moreover from this have "r2 = None" using run none p2 1 2 ms by (cases r2) (auto simp: drbd_Run_def check_err_def)
  moreover from calculation have "r3 = None" using run none p3 1 2 3 ms by (cases r3) (auto simp: drbd_Run_def check_err_def)
  moreover from calculation have "r4 = None" using run none p4 1 2 3 4 ms by (cases r4) (auto simp: drbd_Run_def check_err_def)
  moreover have r: "routed w3" "onward w w3" "onward w w2" using p2 p3 w by (auto simp: prior_def onward_def)
  ultimately have "script_ran E c ip w3 w4" if "ip \<in> set ?ips" for ip using initialised [OF r(1)] 4 that by blast
  then have "script_ran E c ip w w4" if "ip \<in> set ?ips" for ip
    using that served_from [OF r(2) _ onward.refl] unfolding script_ran_def by blast
  with ms r(3) 3 4 \<open>r3 = None\<close> \<open>r4 = None\<close> not_promoted [OF p4] show ?thesis by (intro exI [of _ m1] exI [of _ m2] exI [of _ rest]) auto
qed

end
