(* ===== verification/DrbdLab.thy ===== *)
theory DrbdLab
  imports DrbdProps SshKind ConfigSample
begin

text \<open>The properties of the DRBD phase, applied: a file of authorised keys without a final newline, and masters of which the first refuses
  the promotion.\<close>

section \<open>A glued key\<close>

definition keys_world :: "(unit, unit) world" where
  "keys_world = blank [''/keys'' \<mapsto> File ''ssh-rsa OLD'' 384]"

theorem authorise_key_adds_witness:
  "\<exists>d'. content (w_fs (snd (authorise_key quiet ''/keys'' (''ssh-ed25519 NEW'' @ [nl]) keys_world))) ''/keys'' = Some d' \<and>
     ''ssh-ed25519 NEW'' \<notin> set (Split d' [nl])"
proof -
  let ?r = "authorise_key quiet ''/keys'' (''ssh-ed25519 NEW'' @ [nl]) keys_world"
  have ok: "fst ?r = None" by code_simp
  have "TrimSpace (''ssh-ed25519 NEW'' @ [nl]) = ''ssh-ed25519 NEW''" by code_simp
  moreover have "\<not> Contains ''ssh-rsa OLD'' ''ssh-ed25519 NEW''" by code_simp
  moreover have "no_links (w_fs keys_world)" by (simp add: keys_world_def blank_def no_links_def)
  moreover have "content (w_fs keys_world) ''/keys'' = Some ''ssh-rsa OLD''" by (simp add: keys_world_def blank_def content_def)
  moreover have "?r = (None, snd ?r)" using ok by (simp add: prod_eq_iff)
  ultimately show ?thesis using authorise_key_adds [of quiet "''/keys''" "''ssh-ed25519 NEW''" keys_world "snd ?r" "''ssh-rsa OLD''"] by auto
qed

section \<open>A refused promotion\<close>

definition refuse :: "string \<Rightarrow> outcome" where
  "refuse cmd = (if cmd = promote_cmd then RunExit 17 ''Process exited with status 17'' else RunOk)"

definition pair :: "(string \<Rightarrow> string option) drbd_env" where
  "pair = ssh_env.extend (prompt (\<lambda>cmd. []) refuse)
     \<lparr>d_template = Inr, d_parse = \<lambda>t. None, d_fence = \<lambda>t d. Inr t, d_config = \<lambda>t cfg. Inr t\<rparr>"

lemma pair_kind: "kind pair (\<lambda>cmd. []) refuse"
  by (simp add: kind_def pair_def prompt_def lab_def ssh_env.defs)

lemma refuse_others: "upload_script p m \<noteq> promote_cmd" "script_command q \<noteq> promote_cmd" "install_cmd \<noteq> promote_cmd"
  "''mkdir -p /etc/drbd-fence && chmod 700 /etc/drbd-fence'' \<noteq> promote_cmd"
  using upload_before [of p m] script_before [of q] commands_before by (auto simp: before_promotion_def)

lemma pair_runs:
  assumes "tame None w" and "run_command pair None host cmd w = (r, w')"
  shows "tame None w' \<and> r = answer (\<lambda>cmd. []) refuse cmd"
  using tame.yields_run [OF tame_RunCommand [OF pair_kind assms(1)] assms(2) [unfolded run_command_def]] assms(1) tame.refl
  by (auto simp: stays_tame_def)

lemma pair_copies:
  assumes "tame None w" and "copy_content pair None host d p m w = (r, w')"
  shows "tame None w' \<and> r = None"
  using tame.yields_run [OF tame_CopyContent [OF pair_kind assms(1)] assms(2) [unfolded copy_content_def]] assms(1) tame.refl
  by (auto simp: stays_tame_def)

lemma pair_fence: "tame None w \<Longrightarrow> fence_node pair None script conf mk [] np w = (r, w') \<Longrightarrow> tame None w' \<and> r = None"
proof -
  assume w: "tame None w" and run: "fence_node pair None script conf mk [] np w = (r, w')"
  obtain node peer where np: "np = (node, peer)" by fastforce
  obtain r1 w1 where 1: "run_command pair None (n_IP node) ''mkdir -p /etc/drbd-fence && chmod 700 /etc/drbd-fence'' w = (r1, w1)" by fastforce
  obtain r2 w2 where 2: "copy_content pair None (n_IP node) script ''/usr/local/bin/fence-peer.sh'' 493 w1 = (r2, w2)" by fastforce
  obtain r3 w3 where 3: "copy_content pair None (n_IP node) conf ''/etc/drbd-fence.conf'' 384 w2 = (r3, w3)" by fastforce
  have d: "d_fence pair conf x = Inr conf" for x by (simp add: pair_def ssh_env.defs)
  have t1: "tame None w1" "ro_err r1 = None" using pair_runs [OF w 1] refuse_others(4) by (auto simp: answer_def refuse_def)
  have t2: "tame None w2" "r2 = None" using pair_copies [OF t1(1) 2] by auto
  have t3: "tame None w3" "r3 = None" using pair_copies [OF t2(1) 3] by auto
  show ?thesis using run np 1 2 3 t1 t2 t3 d by (simp add: fence_node_def check_err_def)
qed

lemma pair_fencing:
  assumes "setupFencing pair cfg None ms w = (r, w')"
  obtains mk where "each (fence_node pair None ''templates/drbd/fence-peer.sh'' ''templates/drbd/drbd-fence.conf'' mk []) (with_peer ms) w = (r, w')"
proof -
  have "UserHomeDir pair = None" by (simp add: UserHomeDir_def pair_def prompt_def lab_def ssh_env.defs)
  then have key: "(if b then ensureFenceKey pair w else (Inr [], w)) = (if b then Inl ''$HOME is not defined'' else Inr [], w)" for b
    by (simp add: ensureFenceKey_def)
  have none: "(case (if b then Inl x else Inr []) of Inl e \<Rightarrow> [] | Inr k \<Rightarrow> k) = []" for b :: bool and x :: goerr by simp
  have env: "d_template pair p = Inr p" "d_parse pair t = None" for p t by (simp_all add: pair_def ssh_env.defs)
  obtain off st where "FenceCommands pair cfg = (off, st)" by fastforce
  with assms show ?thesis using that by (simp add: setupFencing_def Let_def env key none del: length_greater_0_conv split: if_splits)
qed

lemma pair_each: "tame None w \<Longrightarrow> (\<And>x v r v'. tame None v \<Longrightarrow> f x v = (r, v') \<Longrightarrow> tame None v' \<and> r = None) \<Longrightarrow> each f xs w = (r, w') \<Longrightarrow> tame None w' \<and> r = None"
proof (induction xs arbitrary: w)
  case (Cons x xs)
  obtain e w1 where "f x w = (e, w1)" by fastforce
  with Cons show ?case by (fastforce simp: check_err_def)
qed simp

theorem drbd_promotes_initialised_witness:
  "\<exists>v. onward calm_world v \<and> (\<forall>n p. RunOn n (remoteCommand p promote_cmd) \<notin> set (added calm_world v)) \<and>
     script_ran pair None ''192.168.10.11'' calm_world v \<and> script_ran pair None ''192.168.10.12'' calm_world v"
proof -
  let ?m1 = "sample_node ''m1'' ''192.168.10.11''" and ?m2 = "sample_node ''m2'' ''192.168.10.12''" and ?ips = "[''192.168.10.11'', ''192.168.10.12'']"
  have ms: "Masters (Nodes sample_config) = [?m1, ?m2, sample_node ''m3'' ''192.168.10.16'']" by (simp add: sample_config_def sample_nodes_def)
  have ip: "n_IP ?m1 = ''192.168.10.11''" "n_IP ?m2 = ''192.168.10.12''" by (simp_all add: sample_node_def)
  obtain r1 w1 where 1: "setupFencing pair sample_config None [?m1, ?m2] calm_world = (r1, w1)" by fastforce
  obtain r2 w2 where 2: "drbd_install pair None ?ips w1 = (r2, w2)" by fastforce
  obtain r3 w3 where 3: "drbd_configure pair sample_config None ?ips w2 = (r3, w3)" by fastforce
  obtain r4 w4 where 4: "drbd_initialise pair None ?ips w3 = (r4, w4)" by fastforce
  obtain r5 w5 where 5: "drbd_promote pair None ''192.168.10.11'' w4 = (r5, w5)" by fastforce
  have env: "d_template pair p = Inr p" "d_parse pair t = None" "d_config pair t cfg = Inr t" for p t cfg by (simp_all add: pair_def ssh_env.defs)
  obtain mk where "each (fence_node pair None ''templates/drbd/fence-peer.sh'' ''templates/drbd/drbd-fence.conf'' mk []) (with_peer [?m1, ?m2]) calm_world = (r1, w1)"
    using pair_fencing [OF 1] by blast
  then have t1: "tame None w1 \<and> r1 = None" by - (rule pair_each [OF calm_tame], rule pair_fence)
  have t2: "tame None w2 \<and> r2 = None" using 2 tame_RunParallel [OF pair_kind, of None w1 ?ips install_cmd] t1 refuse_others(3)
    by (auto simp: drbd_install_def install_error_def host_result_def answer_def refuse_def split: prod.splits)
  then have w2: "tame None w2" ..
  have t3: "tame None w3 \<and> r3 = None"
  proof -
    obtain d rs where rs: "RunParallelFunc pair (tasks_of (\<lambda>ip. ip) (\<lambda>ip. CopyContent pair None ip d ''/etc/drbd.d/cms_data.res'' 420) ?ips) w2 = (rs, w3)"
      and r3: "r3 = first_some (wrapped_error ''copy DRBD config to'') rs"
      using 3 env by (auto simp: drbd_configure_def split: prod.splits)
    have "yields (stays_tame None) (\<lambda>r v. r = None) f w2"
      if "(h, f) \<in> set (tasks_of (\<lambda>ip. ip) (\<lambda>ip. CopyContent pair None ip d ''/etc/drbd.d/cms_data.res'' 420) ?ips)" for h f
      using that set_tasks_of_sub tame_CopyContent [OF pair_kind w2] by fastforce
    from tame_RunParallelFunc [OF w2 this rs] r3 show ?thesis by (auto simp: wrapped_error_def)
  qed
  then have w3: "tame None w3" ..
  have t4: "tame None w4 \<and> r4 = None"
  proof -
    obtain rs where rs: "RunParallelFunc pair (tasks_of (\<lambda>ip. ip) (init_task pair None) ?ips) w3 = (rs, w4)"
      and r4: "r4 = first_some (wrapped_error ''initialize DRBD metadata on'') rs"
      using 4 by (auto simp: drbd_initialise_def split: prod.splits)
    have "yields (stays_tame None) (\<lambda>r v. r = None) (init_task pair None ip) w3" for ip
      unfolding init_task_def
      by (rule tame.yields_andThen [OF tame_RunScript [OF pair_kind w3]]) (auto simp: refuse_def refuse_others intro: tame.yields_Return)
    then have "yields (stays_tame None) (\<lambda>r v. r = None) f w3" if "(h, f) \<in> set (tasks_of (\<lambda>ip. ip) (init_task pair None) ?ips)" for h f
      using that set_tasks_of_sub by fastforce
    from tame_RunParallelFunc [OF w3 this rs] r4 show ?thesis by (auto simp: wrapped_error_def)
  qed
  have p4: "prior before_promotion calm_world w4"
    using prior.trans keepsD [OF prior_setupFencing 1] keepsD [OF prior_install 2] keepsD [OF prior_configure 3] keepsD [OF prior_initialise 4] by blast
  then have r4: "routed w4" using calm_routed by (simp add: prior_def onward_def)
  obtain r where r: "run_command pair None ''192.168.10.11'' promote_cmd w4 = (r, w5)" and r5: "r5 \<noteq> None \<or> ro_code r = 0"
    using 5 by (auto simp: drbd_promote_def split: prod.splits if_splits)
  have "r = answer (\<lambda>cmd. []) refuse promote_cmd" using pair_runs [OF _ r] t4 by blast
  then have code: "ro_code r = 17" by (simp add: answer_def refuse_def)
  with r have "served pair None ''192.168.10.11'' promote_cmd w4 r w5" using run_command_ended [OF r4, of pair None "''192.168.10.11''" promote_cmd r w5] by (simp add: run_command_def)
  then obtain n p where n: "RunOn n (remoteCommand p promote_cmd) \<in> set (added w4 w5)" using served_sent by blast
  have sent: "RunOn n (remoteCommand p promote_cmd) \<in> set (added calm_world w5)"
  proof -
    have "length (w_trace calm_world) \<le> length (w_trace w4)" using p4 by (auto simp: prior_def extends_def)
    from set_drop_subset_set_drop [OF this, of "w_trace w5"] show ?thesis using n by (auto simp: added_def)
  qed
  obtain e where "r5 = Some e" using r5 code by auto
  then have run: "drbd_Run pair sample_config None calm_world = (r5, w5)"
    using 1 2 3 4 5 t1 t2 t3 t4 ms ip by (simp add: drbd_Run_def Let_def check_err_def)
  obtain t u v where t: "onward calm_world t" and c: "drbd_configure pair sample_config None ?ips t = (None, u)"
    and i: "drbd_initialise pair None ?ips u = (None, v)" and ran: "script_ran pair None ''192.168.10.11'' calm_world v" "script_ran pair None ''192.168.10.12'' calm_world v"
    and before: "\<forall>n p. RunOn n (remoteCommand p promote_cmd) \<notin> set (added calm_world v)"
    using drbd_promotes_initialised [OF calm_routed run sent] ms ip by auto
  have "prior before_promotion t v" using prior.trans keepsD [OF prior_configure c] keepsD [OF prior_initialise i] by blast
  then have "onward calm_world v" using onward.trans [OF t] by (simp add: prior_def)
  with ran before show ?thesis by blast
qed

end
