(* ===== verification/Kubernetes.thy ===== *)
theory Kubernetes
  imports RetryLocal Base64
begin

text \<open>
  \<open>internal/phases/kubernetes/kubernetes.go\<close>: the K3s cluster with an etcd member on each master, and the database on top of it. The
  embedded manifests, \<open>archive/tar\<close>, \<open>encoding/json\<close> and the order of loops over maps are fields of the environment.
\<close>

record manifest =
  apiVersion :: string
  manifest_kind :: string
  metadata :: "(string \<times> string) list"
  manifest_type :: "string option"
  manifest_data :: "(string \<times> string) list"

record embed_visit =
  ev_path :: string
  ev_dir :: bool
  ev_err :: "goerr option"
  ev_content :: "goerr + string"

record 'x k8s_env = "'x ssh_env" +
  k_marshal :: "manifest \<Rightarrow> goerr + string"
  k_walk :: "embed_visit list"
  k_header :: "tar_entry \<Rightarrow> goerr option"
  k_tar :: "tar_entry list \<Rightarrow> goerr + string"
  k_order :: "string list \<Rightarrow> string list"

section \<open>Manifests\<close>

definition makeMariaDBSecret :: "('x, 'z) k8s_env_scheme \<Rightarrow> string \<Rightarrow> string \<Rightarrow> string \<Rightarrow> goerr + string" where
  "makeMariaDBSecret E rootPassword wordpressPassword exporterPassword =
     (case k_marshal E \<lparr>apiVersion = ''v1'', manifest_kind = ''Secret'', metadata = [(''name'', ''mariadb-secret''), (''namespace'', ''cms'')],
          manifest_type = Some ''Opaque'', manifest_data = [(''MYSQL_ROOT_PASSWORD'', EncodeToString rootPassword),
            (''MYSQL_WP_PASSWORD'', EncodeToString wordpressPassword), (''MYSQL_EXPORTER_PASSWORD'', EncodeToString exporterPassword)]\<rparr> of
        Inl e \<Rightarrow> Inl (Errorf ''marshal Secret: %w'' [e]) | Inr d \<Rightarrow> Inr d)"

definition makeBackupSecret :: "('x, 'z) k8s_env_scheme \<Rightarrow> string \<Rightarrow> string \<Rightarrow> goerr + string" where
  "makeBackupSecret E accessKey secretKey =
     (case k_marshal E \<lparr>apiVersion = ''v1'', manifest_kind = ''Secret'', metadata = [(''name'', ''backup-secret''), (''namespace'', ''cms'')],
          manifest_type = Some ''Opaque'', manifest_data = [(''S3_ACCESS_KEY'', EncodeToString accessKey), (''S3_SECRET_KEY'', EncodeToString secretKey)]\<rparr> of
        Inl e \<Rightarrow> Inl (Errorf ''marshal backup Secret: %w'' [e]) | Inr d \<Rightarrow> Inr d)"

definition makeBackupConfigMap :: "('x, 'z) k8s_env_scheme \<Rightarrow> string \<Rightarrow> string \<Rightarrow> string \<Rightarrow> int \<Rightarrow> goerr + string" where
  "makeBackupConfigMap E endpoint bucket region retentionDays =
     (case k_marshal E \<lparr>apiVersion = ''v1'', manifest_kind = ''ConfigMap'', metadata = [(''name'', ''backup-config''), (''namespace'', ''cms'')],
          manifest_type = None, manifest_data = [(''S3_ENDPOINT'', endpoint), (''S3_BUCKET'', bucket), (''S3_REGION'', region),
            (''RETENTION_DAYS'', itoa retentionDays)]\<rparr> of
        Inl e \<Rightarrow> Inl (Errorf ''marshal backup ConfigMap: %w'' [e]) | Inr d \<Rightarrow> Inr d)"

definition tree_visit :: "('x, 'z) k8s_env_scheme \<Rightarrow> embed_visit \<Rightarrow> goerr + tar_entry list" where
  "tree_visit E v = (case ev_err v of
      Some e \<Rightarrow> Inl e
    | None \<Rightarrow> (let rel = TrimPrefix (ev_path v) ''kubernetes/'';
          write = (\<lambda>entry. case k_header E entry of Some e \<Rightarrow> Inl e | None \<Rightarrow> Inr [entry]) in
        if rel = [] \<or> rel = ''kubernetes'' then Inr []
        else if ev_dir v then write \<lparr>te_name = rel @ ''/'', te_link = [], te_mode = 448, te_data = []\<rparr>
        else (case ev_content v of
            Inl e \<Rightarrow> Inl (Errorf ''read embedded manifest %s: %w'' [ev_path v, e])
          | Inr d \<Rightarrow> write \<lparr>te_name = rel, te_link = [], te_mode = 420, te_data = d\<rparr>)))"

fun tree_all :: "('x, 'z) k8s_env_scheme \<Rightarrow> embed_visit list \<Rightarrow> goerr + tar_entry list" where
  "tree_all E [] = Inr []"
| "tree_all E (v # vs) = (case tree_visit E v of
      Inl e \<Rightarrow> Inl e
    | Inr es \<Rightarrow> (case tree_all E vs of Inl e \<Rightarrow> Inl e | Inr es' \<Rightarrow> Inr (es @ es')))"

definition buildKustomizeTar :: "('x, 'z) k8s_env_scheme \<Rightarrow> goerr + string" where
  "buildKustomizeTar E = (case tree_all E (k_walk E) of Inl e \<Rightarrow> Inl e | Inr es \<Rightarrow> k_tar E es)"

definition copyKustomizeTree :: "('x, 'z) k8s_env_scheme \<Rightarrow> ctx \<Rightarrow> string \<Rightarrow> string \<Rightarrow> 'x sworld \<Rightarrow> goerr option \<times> 'x sworld" where
  "copyKustomizeTree E c host dest w = (case buildKustomizeTar E of
      Inl e \<Rightarrow> (Some e, w)
    | Inr tarball \<Rightarrow> check_err (run_proc (CopyTar E c host dest tarball) w) (\<lambda>e. Errorf ''extract kustomize tree: %w'' [e]) (\<lambda>w. (None, w)))"

section \<open>Commands\<close>

definition runChecked :: "('x, 'z) ssh_env_scheme \<Rightarrow> ctx \<Rightarrow> string \<Rightarrow> string \<Rightarrow> string \<Rightarrow> 'x sworld \<Rightarrow> goerr option \<times> 'x sworld" where
  "runChecked E c host command action w = (case run_command E c host command w of (r, w) \<Rightarrow>
     (case ro_err r of
        Some e \<Rightarrow> (Some (Errorf ''%s: %w'' [action, e]), w)
      | None \<Rightarrow> (if ro_code r \<noteq> 0
          then Some (Errorf ''%s failed (exit %d): %s'' [action, itoa (ro_code r), TrimSpace (ro_stderr r)]) else None, w)))"

definition init_cmd :: "string \<Rightarrow> string" where
  "init_cmd ip = Sprintf ''curl -sfL https://get.k3s.io | INSTALL_K3S_CHANNEL=\"v1.29\" INSTALL_K3S_EXEC=\"server --cluster-init --secrets-encryption --etcd-expose-metrics --node-external-ip %s --flannel-iface enp1s0\" sh -'' [ip]"

definition joinTokenPath :: string where
  "joinTokenPath = ''/root/.k3s-join-token''"

definition join_cmd :: "string \<Rightarrow> string \<Rightarrow> string" where
  "join_cmd server ip = Sprintf ''curl -sfL https://get.k3s.io | INSTALL_K3S_CHANNEL=\"v1.29\" INSTALL_K3S_EXEC=\"server --server https://%s:6443 --token-file %s --secrets-encryption --etcd-expose-metrics --node-external-ip %s --flannel-iface enp1s0\" sh -'' [server, joinTokenPath, ip]"

definition agentJoinCmd :: "string \<Rightarrow> string" where
  "agentJoinCmd server = Sprintf ''export K3S_TOKEN=\"$(cat %s)\" K3S_URL=https://%s:6443 INSTALL_K3S_CHANNEL=\"v1.29\" INSTALL_K3S_EXEC=\"--flannel-iface enp1s0\"; curl -sfL https://get.k3s.io | sh -'' [joinTokenPath, server]"

definition ready_cmd :: string where
  "ready_cmd = ''kubectl get nodes --no-headers | grep -v NotReady | grep Ready | wc -l''"

definition etcd_cmd :: string where
  "etcd_cmd = ''kubectl -n kube-system get pods -o name 2>/dev/null | grep -c 'pod/etcd-' || true''"

definition label_cmd :: "NodeDetail \<Rightarrow> string" where
  "label_cmd m = Sprintf ''kubectl label node %s drbd-status=primary --overwrite 2>/dev/null || kubectl label node %s drbd-status=primary --overwrite'' [n_FQDN m, n_Name m]"

definition manifestsDir :: string where
  "manifestsDir = ''/tmp/k3s-manifests''"

definition generatedDir :: string where
  "generatedDir = Sprintf ''%s/generated'' [manifestsDir]"

definition private_dir_cmd :: "string \<Rightarrow> string" where
  "private_dir_cmd d = Sprintf ''install -d -m 0700 %s'' [d]"

definition secretPath :: string where
  "secretPath = Sprintf ''%s/mariadb-secret.yaml'' [generatedDir]"

definition backupSecretPath :: string where
  "backupSecretPath = Sprintf ''%s/backup-secret.yaml'' [generatedDir]"

definition backupConfigPath :: string where
  "backupConfigPath = Sprintf ''%s/backup-config.yaml'' [generatedDir]"

definition apply_file_cmd :: "string \<Rightarrow> string" where
  "apply_file_cmd p = Sprintf ''kubectl apply -f %s'' [p]"

definition apply_root_cmd :: "string \<Rightarrow> string" where
  "apply_root_cmd f = Sprintf f [manifestsDir]"

definition rm_cmd :: "string \<Rightarrow> string" where
  "rm_cmd p = Sprintf ''rm -f %s'' [p]"

definition patch_cmd :: "string \<times> string \<Rightarrow> string" where
  "patch_cmd ns = Sprintf (''kubectl patch cronjob %s -n cms --type merge -p '%s'' @ [squote]) [fst ns, Sprintf ''{\"spec\":{\"schedule\":\"%s\"}}'' [snd ns]]"

definition wait_pod_cmd :: string where
  "wait_pod_cmd = ''kubectl wait --for=jsonpath='{.status.phase}'=Running pod -l app=mariadb -n cms --timeout=300s''"

definition wait_job_cmd :: string where
  "wait_job_cmd = ''kubectl wait --for=condition=complete job/init-wordpress-db -n cms --timeout=300s''"

section \<open>The stages of the phase\<close>

definition cluster_secrets :: "Config \<Rightarrow> (string \<times> string) list" where
  "cluster_secrets cfg = [(''database.password'', db_Password (Database cfg)), (''database.root_password'', RootPassword (Database cfg)),
     (''database.exporter_password'', ExporterPassword (Database cfg)), (''wordpress.admin_password'', AdminPassword cfg)]"

definition line_break_error :: "string \<times> string \<Rightarrow> goerr option" where
  "line_break_error ns = (if nl \<in> set (snd ns) \<or> CHR 0x0D \<in> set (snd ns) then Some (Errorf ''%s cannot contain line breaks'' [fst ns]) else None)"

definition k3s_preflight :: "('x, 'z) k8s_env_scheme \<Rightarrow> Config \<Rightarrow> goerr option" where
  "k3s_preflight E cfg =
     (if length (Masters (Nodes cfg)) < 3
      then Some (Errorf ''k3s HA requires at least 3 master nodes for etcd quorum (got %d)'' [itoa (int (length (Masters (Nodes cfg))))])
      else if list_ex (\<lambda>ns. snd ns = []) (cluster_secrets cfg)
      then Some (''database.password, database.root_password, database.exporter_password, and wordpress.admin_password ''
        @ ''must be set in config.yaml; cms-ha encrypts them automatically'')
      else first_some line_break_error (ranged (k_order E) (cluster_secrets cfg)))"

definition api_attempt :: "('x, 'z) ssh_env_scheme \<Rightarrow> string \<Rightarrow> ('x, Pool) action" where
  "api_attempt E ip c w = (case run_command E c ip ''kubectl get nodes'' w of (r, w) \<Rightarrow> (ro_err r, w))"

definition k3s_api :: "('x, 'z) ssh_env_scheme \<Rightarrow> ctx \<Rightarrow> string \<Rightarrow> 'x sworld \<Rightarrow> goerr option \<times> 'x sworld" where
  "k3s_api E c ip = DoContext E c \<lparr>MaxAttempts = 150, Interval = 2 * Second, Timeout = 5 * 60 * Second, MaxInterval = 0\<rparr> (api_attempt E ip)"

definition token_attempt :: "('x, 'z) ssh_env_scheme \<Rightarrow> string \<Rightarrow> ('x, Pool, string) local_action" where
  "token_attempt E ip c token w = (case run_command E c ip ''cat /var/lib/rancher/k3s/server/node-token'' w of (r, w) \<Rightarrow>
     (if ro_err r \<noteq> None \<or> TrimSpace (ro_stdout r) = [] then (Some ''node-token not ready yet'', token)
      else (None, TrimSpace (ro_stdout r)), w))"

definition k3s_token :: "('x, 'z) ssh_env_scheme \<Rightarrow> ctx \<Rightarrow> string \<Rightarrow> 'x sworld \<Rightarrow> (goerr option \<times> string) \<times> 'x sworld" where
  "k3s_token E c ip = DoContext_local E c \<lparr>MaxAttempts = 20, Interval = 3 * Second, Timeout = 60 * Second, MaxInterval = 0\<rparr> (token_attempt E ip) []"

definition token_node :: "('x, 'z) ssh_env_scheme \<Rightarrow> ctx \<Rightarrow> string \<Rightarrow> string \<Rightarrow> 'x sworld \<Rightarrow> goerr option \<times> 'x sworld" where
  "token_node E c token joinIP w = check_err (copy_content E c joinIP token joinTokenPath 384 w)
     (\<lambda>e. Errorf ''failed to upload k3s token to %s: %w'' [joinIP, e]) (\<lambda>w. (None, w))"

definition join_node :: "('x, 'z) ssh_env_scheme \<Rightarrow> ctx \<Rightarrow> string \<Rightarrow> NodeDetail \<Rightarrow> 'x sworld \<Rightarrow> goerr option \<times> 'x sworld" where
  "join_node E c server m = runChecked E c (n_IP m) (join_cmd server (n_IP m)) (''join K3s '' @ n_Name m)"

definition agent_error :: "ParallelResult \<Rightarrow> goerr option" where
  "agent_error r = (case Err r of
      Some e \<Rightarrow> Some (Errorf ''failed to join k3s agent on %s: %w'' [Host r, e])
    | None \<Rightarrow> if ExitCode r \<noteq> 0
        then Some (Errorf ''failed to join k3s agent on %s (exit code %d): %s'' [Host r, itoa (ExitCode r), TrimSpace (Output r)])
        else None)"

definition k3s_agents :: "('x, 'z) ssh_env_scheme \<Rightarrow> ctx \<Rightarrow> string \<Rightarrow> string list \<Rightarrow> 'x sworld \<Rightarrow> goerr option \<times> 'x sworld" where
  "k3s_agents E c server ips w = (case RunParallel E c ips (agentJoinCmd server) w of (rs, w) \<Rightarrow> (first_some agent_error rs, w))"

text \<open>An attempt that compares the output of a command.\<close>

definition count_attempt :: "('x, 'z) ssh_env_scheme \<Rightarrow> string \<Rightarrow> string \<Rightarrow> string \<Rightarrow> (string \<Rightarrow> goerr) \<Rightarrow> ('x, Pool) action" where
  "count_attempt E ip cmd expected complain c w = (case run_command E c ip cmd w of (r, w) \<Rightarrow>
     (case ro_err r of
        Some e \<Rightarrow> (Some e, w)
      | None \<Rightarrow> (if TrimSpace (ro_stdout r) \<noteq> expected then Some (complain (TrimSpace (ro_stdout r))) else None, w)))"

definition patient_retry :: retry_config where
  "patient_retry = \<lparr>MaxAttempts = 100, Interval = 3 * Second, Timeout = 5 * 60 * Second, MaxInterval = 12 * Second\<rparr>"

definition k3s_ready :: "('x, 'z) ssh_env_scheme \<Rightarrow> Config \<Rightarrow> ctx \<Rightarrow> string \<Rightarrow> 'x sworld \<Rightarrow> goerr option \<times> 'x sworld" where
  "k3s_ready E cfg c ip = (let expected = itoa (int (length (Masters (Nodes cfg)) + length (Workers (Nodes cfg)))) in
     DoContext E c patient_retry (count_attempt E ip ready_cmd expected (\<lambda>got. Errorf ''expected %s Ready nodes, got %s'' [expected, got])))"

definition k3s_etcd :: "('x, 'z) ssh_env_scheme \<Rightarrow> Config \<Rightarrow> ctx \<Rightarrow> string \<Rightarrow> 'x sworld \<Rightarrow> goerr option \<times> 'x sworld" where
  "k3s_etcd E cfg c ip = (let expected = itoa (int (length (Masters (Nodes cfg)))) in
     DoContext E c patient_retry (count_attempt E ip etcd_cmd expected (\<lambda>got. Errorf ''expected %s etcd members, got %s'' [expected, got])))"

section \<open>The database\<close>

definition upload_secret :: "('x, 'z) k8s_env_scheme \<Rightarrow> Config \<Rightarrow> ctx \<Rightarrow> string \<Rightarrow> 'x sworld \<Rightarrow> goerr option \<times> 'x sworld" where
  "upload_secret E cfg c ip w = (case makeMariaDBSecret E (RootPassword (Database cfg)) (db_Password (Database cfg)) (ExporterPassword (Database cfg)) of
      Inl e \<Rightarrow> (Some (Errorf ''failed to generate MariaDB Secret manifest: %w'' [e]), w)
    | Inr d \<Rightarrow> check_err (copy_content E c ip d secretPath 384 w) (\<lambda>e. Errorf ''failed to copy generated MariaDB Secret: %w'' [e]) (\<lambda>w. (None, w)))"

definition upload_backup :: "('x, 'z) k8s_env_scheme \<Rightarrow> Config \<Rightarrow> ctx \<Rightarrow> string \<Rightarrow> 'x sworld \<Rightarrow> goerr option \<times> 'x sworld" where
  "upload_backup E cfg c ip w = (if \<not> BackupEnabled cfg then (None, w)
     else case makeBackupSecret E (BackupAccessKey cfg) (SecretKey (Backup cfg)) of
        Inl e \<Rightarrow> (Some (Errorf ''failed to generate backup Secret manifest: %w'' [e]), w)
      | Inr d \<Rightarrow>
          check_err (copy_content E c ip d backupSecretPath 384 w) (\<lambda>e. Errorf ''failed to copy generated backup Secret: %w'' [e]) (\<lambda>w.
          (case makeBackupConfigMap E (BackupS3Endpoint cfg) (BackupBucket cfg) (BackupS3Region cfg) (BackupRetentionDays cfg) of
             Inl e \<Rightarrow> (Some (Errorf ''failed to generate backup ConfigMap manifest: %w'' [e]), w)
           | Inr d \<Rightarrow> check_err (copy_content E c ip d backupConfigPath 420 w)
               (\<lambda>e. Errorf ''failed to copy generated backup ConfigMap: %w'' [e]) (\<lambda>w. (None, w)))))"

text \<open>The namespace and the credentials come first; the file of a secret is removed once it is applied.\<close>

definition apply_backup_credentials :: "('x, 'z) ssh_env_scheme \<Rightarrow> Config \<Rightarrow> ctx \<Rightarrow> string \<Rightarrow> 'x sworld \<Rightarrow> goerr option \<times> 'x sworld" where
  "apply_backup_credentials E cfg c ip w = (if \<not> BackupEnabled cfg then (None, w)
     else check_err (runChecked E c ip (apply_file_cmd backupConfigPath) ''apply backup ConfigMap'' w) (\<lambda>e. e) (\<lambda>w.
       check_err (runChecked E c ip (apply_file_cmd backupSecretPath) ''apply backup Secret'' w) (\<lambda>e. e) (\<lambda>w.
       (None, ignore_command E c ip (rm_cmd backupSecretPath) w))))"

definition apply_credentials :: "('x, 'z) ssh_env_scheme \<Rightarrow> Config \<Rightarrow> ctx \<Rightarrow> string \<Rightarrow> 'x sworld \<Rightarrow> goerr option \<times> 'x sworld" where
  "apply_credentials E cfg c ip w =
     check_err (runChecked E c ip (apply_root_cmd ''kubectl apply -f %s/base/namespace.yaml'') ''apply Kubernetes namespace'' w) (\<lambda>e. e) (\<lambda>w.
     check_err (runChecked E c ip (apply_file_cmd secretPath) ''apply MariaDB Secret'' w) (\<lambda>e. e) (\<lambda>w.
     apply_backup_credentials E cfg c ip (ignore_command E c ip (rm_cmd secretPath) w)))"

definition apply_base :: "('x, 'z) ssh_env_scheme \<Rightarrow> ctx \<Rightarrow> string \<Rightarrow> 'x sworld \<Rightarrow> goerr option \<times> 'x sworld" where
  "apply_base E c ip = DoContext E c \<lparr>MaxAttempts = 6, Interval = 5 * Second, Timeout = 60 * Second, MaxInterval = 0\<rparr>
     (\<lambda>c. runChecked E c ip (apply_root_cmd ''kubectl apply -k %s/overlays/lab'') ''apply base kustomize overlay'')"

text \<open>The schedules of the backup jobs; a failure is only logged.\<close>

definition schedules :: "Config \<Rightarrow> (string \<times> string) list" where
  "schedules cfg = [(''mariadb-backup'', BackupSchedule cfg), (''mariadb-restore-test'', BackupRestoreTestSchedule cfg)]"

definition sync_schedules :: "('x, 'z) k8s_env_scheme \<Rightarrow> Config \<Rightarrow> ctx \<Rightarrow> string \<Rightarrow> 'x sworld \<Rightarrow> 'x sworld" where
  "sync_schedules E cfg c ip w = fold (\<lambda>ns. ignore_command E c ip (patch_cmd ns)) (ranged (k_order E) (schedules cfg)) w"

definition apply_backup :: "('x, 'z) k8s_env_scheme \<Rightarrow> Config \<Rightarrow> ctx \<Rightarrow> string \<Rightarrow> 'x sworld \<Rightarrow> goerr option \<times> 'x sworld" where
  "apply_backup E cfg c ip w = (if \<not> BackupEnabled cfg then (None, w)
     else check_err (runChecked E c ip (apply_root_cmd ''kubectl apply -k %s/backups'') ''apply backup kustomize root'' w) (\<lambda>e. e) (\<lambda>w.
       (None, sync_schedules E cfg c ip w)))"

definition init_database :: "('x, 'z) ssh_env_scheme \<Rightarrow> ctx \<Rightarrow> string \<Rightarrow> 'x sworld \<Rightarrow> goerr option \<times> 'x sworld" where
  "init_database E c ip w =
     check_err (runChecked E c ip wait_pod_cmd ''wait for MariaDB pod'' w) (\<lambda>e. Errorf ''mariadb pod failed to start: %w'' [e]) (\<lambda>w.
     check_err (runChecked E c ip (apply_root_cmd ''kubectl apply -k %s/jobs'') ''apply MariaDB initialization Job''
         (ignore_command E c ip ''kubectl delete job init-wordpress-db -n cms --ignore-not-found=true'' w)) (\<lambda>e. e) (\<lambda>w.
     check_err (runChecked E c ip wait_job_cmd ''wait for MariaDB initialization Job'' w)
       (\<lambda>e. Errorf ''init-wordpress-db job did not complete: %w'' [e]) (\<lambda>w. (None, w))))"

definition deploy_database :: "('x, 'z) k8s_env_scheme \<Rightarrow> Config \<Rightarrow> ctx \<Rightarrow> string \<Rightarrow> 'x sworld \<Rightarrow> goerr option \<times> 'x sworld" where
  "deploy_database E cfg c ip w =
     check_err (copyKustomizeTree E c ip manifestsDir w) (\<lambda>e. Errorf ''failed to copy the kustomize tree: %w'' [e]) (\<lambda>w.
     check_err (runChecked E c ip (private_dir_cmd generatedDir) ''create generated manifest directory'' w) (\<lambda>e. e) (\<lambda>w.
     check_err (upload_secret E cfg c ip w) (\<lambda>e. e) (\<lambda>w.
     check_err (upload_backup E cfg c ip w) (\<lambda>e. e) (\<lambda>w.
     check_err (apply_credentials E cfg c ip w) (\<lambda>e. e) (\<lambda>w.
     check_err (apply_base E c ip w) (\<lambda>e. Errorf ''failed to apply base kustomize overlay: %w'' [e]) (\<lambda>w.
     check_err (runChecked E c ip (apply_root_cmd ''kubectl apply -k %s/monitoring'') ''apply Prometheus scrape RBAC'' w) (\<lambda>e. e) (\<lambda>w.
     check_err (apply_backup E cfg c ip w) (\<lambda>e. e) (\<lambda>w.
     init_database E c ip w))))))))"

text \<open>Whatever happens, the directory with the manifests and secrets is removed at the end, also when the run was cancelled.\<close>

definition manifests_cleanup :: "('x, 'z) ssh_env_scheme \<Rightarrow> string \<Rightarrow> 'x sworld \<Rightarrow> 'x sworld" where
  "manifests_cleanup E ip = run_detached E (10 * Second) ip (Sprintf ''rm -rf %s'' [manifestsDir])"

definition k3s_manifests :: "('x, 'z) k8s_env_scheme \<Rightarrow> Config \<Rightarrow> ctx \<Rightarrow> string \<Rightarrow> 'x sworld \<Rightarrow> goerr option \<times> 'x sworld" where
  "k3s_manifests E cfg c ip w =
     check_err (runChecked E c ip (private_dir_cmd manifestsDir) ''create private manifest directory'' w) (\<lambda>e. e) (\<lambda>w.
     deferred (manifests_cleanup E ip) (deploy_database E cfg c ip w))"

section \<open>The phase\<close>

definition join_all :: "('x, 'z) ssh_env_scheme \<Rightarrow> Config \<Rightarrow> ctx \<Rightarrow> string \<Rightarrow> string \<Rightarrow> 'x sworld \<Rightarrow> goerr option \<times> 'x sworld" where
  "join_all E cfg c server token w = (let joining = tl (Masters (Nodes cfg)); workers = Workers (Nodes cfg) in
     check_err (each (token_node E c token) (node_ips joining @ node_ips workers) w) (\<lambda>e. e) (\<lambda>w.
     check_err (each (join_node E c server) joining w) (\<lambda>e. e) (\<lambda>w.
     k3s_agents E c server (node_ips workers) w)))"

definition k3s_cluster :: "('x, 'z) ssh_env_scheme \<Rightarrow> Config \<Rightarrow> ctx \<Rightarrow> string \<Rightarrow> 'x sworld \<Rightarrow> goerr option \<times> 'x sworld" where
  "k3s_cluster E cfg c ip w =
     check_err (runChecked E c ip (init_cmd ip) ''install K3s on master1'' w) (\<lambda>e. e) (\<lambda>w.
     check_err (k3s_api E c ip w) (\<lambda>e. Errorf ''k3s API server on master1 not ready: %w'' [e]) (\<lambda>w.
     (case k3s_token E c ip w of (et, w) \<Rightarrow>
     check_err (fst et, w) (\<lambda>e. Errorf ''failed to get k3s token: %w'' [e]) (\<lambda>w.
     check_err (join_all E cfg c ip (snd et) w) (\<lambda>e. e) (\<lambda>w.
     check_err (k3s_ready E cfg c ip w) (\<lambda>e. Errorf ''K3s nodes did not all become Ready: %w'' [e]) (\<lambda>w.
     check_err (k3s_etcd E cfg c ip w)
       (\<lambda>e. Errorf ''etcd did not reach quorum with %s members: %w'' [itoa (int (length (Masters (Nodes cfg)))), e]) (\<lambda>w. (None, w))))))))"

definition kubernetes_Run :: "('x, 'z) k8s_env_scheme \<Rightarrow> Config \<Rightarrow> ctx \<Rightarrow> 'x sworld \<Rightarrow> goerr option \<times> 'x sworld" where
  "kubernetes_Run E cfg c w = (case k3s_preflight E cfg of
      Some e \<Rightarrow> (Some e, w)
    | None \<Rightarrow> (let master1 = hd (Masters (Nodes cfg)); ip = n_IP master1 in
        check_err (k3s_cluster E cfg c ip w) (\<lambda>e. e) (\<lambda>w.
        k3s_manifests E cfg c ip (ignore_command E c ip (label_cmd master1) w))))"

end
