(* ===== verification/KubernetesProps.thy ===== *)
theory KubernetesProps
  imports Kubernetes Stages
begin

text \<open>
  What the Kubernetes phase guarantees: no secret and no join token is ever part of a command, and success means that the cluster
  was seen with all its nodes and etcd members.
\<close>

section \<open>The commands of the phase\<close>

definition k3s_commands :: "Config \<Rightarrow> string list" where
  "k3s_commands cfg = (let masters = Masters (Nodes cfg); ip = n_IP (hd masters) in
     [init_cmd ip, ''kubectl get nodes'', ''cat /var/lib/rancher/k3s/server/node-token'', agentJoinCmd ip, ready_cmd, etcd_cmd, label_cmd (hd masters),
      private_dir_cmd manifestsDir, private_dir_cmd generatedDir, Sprintf ''rm -rf %s'' [manifestsDir],
      Sprintf ''set -e; mkdir -p %s; tar -xf - -C %s --no-same-owner'' [shellQuote manifestsDir, shellQuote manifestsDir],
      apply_file_cmd secretPath, apply_file_cmd backupConfigPath, apply_file_cmd backupSecretPath, rm_cmd secretPath, rm_cmd backupSecretPath,
      wait_pod_cmd, wait_job_cmd, ''kubectl delete job init-wordpress-db -n cms --ignore-not-found=true'',
      upload_script joinTokenPath 384, upload_script secretPath 384, upload_script backupSecretPath 384, upload_script backupConfigPath 420]
     @ map apply_root_cmd [''kubectl apply -f %s/base/namespace.yaml'', ''kubectl apply -k %s/overlays/lab'', ''kubectl apply -k %s/monitoring'',
         ''kubectl apply -k %s/backups'', ''kubectl apply -k %s/jobs'']
     @ map (\<lambda>m. join_cmd ip (n_IP m)) (tl masters) @ map patch_cmd (schedules cfg))"

lemma k3s_commands_public: "k3s_commands (without_secrets cfg) = k3s_commands cfg"
  by (simp add: k3s_commands_def without_secrets_def schedules_def BackupSchedule_def BackupRestoreTestSchedule_def)

abbreviation k3s_set :: "Config \<Rightarrow> string set" where
  "k3s_set cfg \<equiv> set (k3s_commands cfg)"

lemma k3s_members [staged]:
  "init_cmd (n_IP (hd (Masters (Nodes cfg)))) \<in> k3s_set cfg" "agentJoinCmd (n_IP (hd (Masters (Nodes cfg)))) \<in> k3s_set cfg"
  "''kubectl get nodes'' \<in> k3s_set cfg" "''cat /var/lib/rancher/k3s/server/node-token'' \<in> k3s_set cfg"
  "ready_cmd \<in> k3s_set cfg" "etcd_cmd \<in> k3s_set cfg" "label_cmd (hd (Masters (Nodes cfg))) \<in> k3s_set cfg"
  "private_dir_cmd manifestsDir \<in> k3s_set cfg" "private_dir_cmd generatedDir \<in> k3s_set cfg" "Sprintf ''rm -rf %s'' [manifestsDir] \<in> k3s_set cfg"
  "Sprintf ''set -e; mkdir -p %s; tar -xf - -C %s --no-same-owner'' [shellQuote manifestsDir, shellQuote manifestsDir] \<in> k3s_set cfg"
  "apply_file_cmd secretPath \<in> k3s_set cfg" "apply_file_cmd backupConfigPath \<in> k3s_set cfg" "apply_file_cmd backupSecretPath \<in> k3s_set cfg"
  "rm_cmd secretPath \<in> k3s_set cfg" "rm_cmd backupSecretPath \<in> k3s_set cfg" "wait_pod_cmd \<in> k3s_set cfg" "wait_job_cmd \<in> k3s_set cfg"
  "''kubectl delete job init-wordpress-db -n cms --ignore-not-found=true'' \<in> k3s_set cfg"
  "upload_script joinTokenPath 384 \<in> k3s_set cfg" "upload_script secretPath 384 \<in> k3s_set cfg" "upload_script backupSecretPath 384 \<in> k3s_set cfg"
  "upload_script backupConfigPath 420 \<in> k3s_set cfg"
  "apply_root_cmd ''kubectl apply -f %s/base/namespace.yaml'' \<in> k3s_set cfg" "apply_root_cmd ''kubectl apply -k %s/overlays/lab'' \<in> k3s_set cfg"
  "apply_root_cmd ''kubectl apply -k %s/monitoring'' \<in> k3s_set cfg" "apply_root_cmd ''kubectl apply -k %s/backups'' \<in> k3s_set cfg"
  "apply_root_cmd ''kubectl apply -k %s/jobs'' \<in> k3s_set cfg"
  by (simp_all add: k3s_commands_def Let_def)

lemma k3s_member_sets:
  "m \<in> set (tl (Masters (Nodes cfg))) \<Longrightarrow> join_cmd (n_IP (hd (Masters (Nodes cfg)))) (n_IP m) \<in> k3s_set cfg"
  "ns \<in> set (schedules cfg) \<Longrightarrow> patch_cmd ns \<in> k3s_set cfg"
  by (simp_all add: k3s_commands_def Let_def)

section \<open>Only these commands are sent\<close>

lemma prior_runChecked [staged]: "cmd \<in> S \<Longrightarrow> keeps (prior S) (runChecked E c host cmd action)"
  unfolding runChecked_def by (intro staged)

lemma k3s_keeps_attempts [staged]:
  "keeps (prior (k3s_set cfg)) (api_attempt E ip c)" "keeps (prior (k3s_set cfg)) (token_attempt E ip c t)"
  "cmd \<in> k3s_set cfg \<Longrightarrow> keeps (prior (k3s_set cfg)) (count_attempt E ip cmd expected f c)"
  unfolding api_attempt_def token_attempt_def count_attempt_def by (intro staged)+

lemma k3s_keeps_waits [staged]:
  "keeps (prior (k3s_set cfg)) (k3s_api E c ip)" "keeps (prior (k3s_set cfg)) (k3s_token E c ip)"
  "keeps (prior (k3s_set cfg)) (k3s_ready E cfg' c ip)" "keeps (prior (k3s_set cfg)) (k3s_etcd E cfg' c ip)"
  unfolding k3s_api_def k3s_token_def k3s_ready_def k3s_etcd_def Let_def by (intro staged)+

lemma k3s_keeps_join [staged]:
  "keeps (prior (k3s_set cfg)) (join_all E cfg c (n_IP (hd (Masters (Nodes cfg)))) token)"
proof -
  have "keeps (prior (k3s_set cfg)) (join_node E c (n_IP (hd (Masters (Nodes cfg)))) m)" if "m \<in> set (tl (Masters (Nodes cfg)))" for m
    using prior_runChecked [OF k3s_member_sets(1) [OF that]] by (simp add: join_node_def)
  then show ?thesis unfolding join_all_def k3s_agents_def token_node_def Let_def by (intro staged)
qed

lemma k3s_keeps_tree [staged]: "keeps (prior (k3s_set cfg)) (copyKustomizeTree E c host manifestsDir)"
  unfolding copyKustomizeTree_def by (intro staged prior_CopyTar)

lemma k3s_keeps_upload [staged]:
  "keeps (prior (k3s_set cfg)) (upload_secret E cfg' c ip)" "keeps (prior (k3s_set cfg)) (upload_backup E cfg' c ip)"
  unfolding upload_secret_def upload_backup_def by (intro staged)+

lemma k3s_keeps_apply [staged]:
  "keeps (prior (k3s_set cfg)) (apply_backup_credentials E cfg' c ip)" "keeps (prior (k3s_set cfg)) (apply_base E c ip)"
  "keeps (prior (k3s_set cfg)) (init_database E c ip)"
  unfolding apply_backup_credentials_def apply_base_def init_database_def by (intro staged)+

lemma k3s_keeps_credentials [staged]: "keeps (prior (k3s_set cfg)) (apply_credentials E cfg' c ip)"
  unfolding apply_credentials_def by (intro staged)

lemma k3s_keeps_backup [staged]: "keeps (prior (k3s_set cfg)) (apply_backup E cfg c ip)"
proof -
  have "prior (k3s_set cfg) w (sync_schedules E cfg c ip w)" for w
    unfolding sync_schedules_def
  proof (rule prior_fold)
    fix ns w assume "ns \<in> set (ranged (k_order E) (schedules cfg))"
    then have "ns \<in> set (schedules cfg)" using ranged_set [of "schedules cfg" "k_order E"] by (simp add: schedules_def)
    then show "prior (k3s_set cfg) w (ignore_command E c ip (patch_cmd ns) w)"
      using prior_run_command [OF k3s_member_sets(2)] unfolding keeps_def ignore_command_def by blast
  qed
  then have "keeps (prior (k3s_set cfg)) (\<lambda>w. (None :: goerr option, sync_schedules E cfg c ip w))" by (simp add: keeps_def)
  then show ?thesis unfolding apply_backup_def by (intro staged)
qed

lemma k3s_keeps_database [staged]: "keeps (prior (k3s_set cfg)) (deploy_database E cfg c ip)"
  unfolding deploy_database_def by (intro staged)

lemma k3s_keeps_manifests [staged]: "keeps (prior (k3s_set cfg)) (k3s_manifests E cfg c ip)"
proof -
  have "prior (k3s_set cfg) w (manifests_cleanup E ip w)" for w unfolding manifests_cleanup_def by (rule prior_run_detached) (rule k3s_members)
  then show ?thesis unfolding k3s_manifests_def by (intro staged prior_deferred)
qed

lemma k3s_keeps_cluster [staged]: "keeps (prior (k3s_set cfg)) (k3s_cluster E cfg c (n_IP (hd (Masters (Nodes cfg)))))"
  unfolding k3s_cluster_def by (intro staged prior.keeps_bind [OF k3s_keeps_waits(2)])

lemma k3s_keeps: "keeps (prior (k3s_set cfg)) (kubernetes_Run E cfg c)"
  unfolding kubernetes_Run_def Let_def by (intro staged)

text \<open>C31. No secret ever appears in a command: the text of every command that the phase sends to a node can be computed from the
  configuration without its passwords and keys, and does not depend on the join token that the cluster issues. Both travel in the content of uploads only,
  not in the arguments of remote processes.\<close>

theorem kubernetes_secrets_unsent:
  assumes "kubernetes_Run E cfg c w = (r, w')" and "RunOn n s \<in> set (added w w')"
  shows "\<exists>p. \<exists>cmd \<in> set (k3s_commands (without_secrets cfg)). s = remoteCommand p cmd"
  using prior_sent [OF keepsD [OF k3s_keeps assms(1)] assms(2)] by (auto simp: sent_def k3s_commands_public)

section \<open>What a success tells\<close>

lemma runChecked_succeeded:
  "routed w \<Longrightarrow> runChecked E c host cmd action w = (None, w') \<Longrightarrow> succeeded E c host cmd w w'"
  by (auto simp: runChecked_def intro: command_succeeded split: prod.splits option.splits if_splits)

text \<open>A counted answer of a retry.\<close>

definition counted :: "('x, 'z) ssh_env_scheme \<Rightarrow> string \<Rightarrow> string \<Rightarrow> nat \<Rightarrow> 'x sworld \<Rightarrow> 'x sworld \<Rightarrow> bool" where
  "counted E host cmd n w w' \<longleftrightarrow> (\<exists>c r. served E c host cmd w r w' \<and> ro_err r = None \<and> TrimSpace (ro_stdout r) = itoa (int n))"

lemma count_retried:
  assumes w: "routed w" and run: "DoContext E c cfg (count_attempt E ip cmd (itoa (int n)) f) w = (None, w')"
  shows "counted E ip cmd n w w'"
proof -
  have "keeps (prior UNIV) (count_attempt E ip cmd (itoa (int n)) f c)" for c unfolding count_attempt_def by (intro staged UNIV_I)
  from prior.DoContext_success [OF this run] obtain c' u where u: "prior UNIV w u" "count_attempt E ip cmd (itoa (int n)) f c' u = (None, w')" by blast
  then obtain r where r: "run_command E c' ip cmd u = (r, w')" "ro_err r = None" "TrimSpace (ro_stdout r) = itoa (int n)"
    by (auto simp: count_attempt_def split: prod.splits option.splits if_splits)
  have "served E c' ip cmd u r w'" using run_command_answered [OF prior_routed [OF u(1) w] r(1,2)] .
  then have "served E c' ip cmd w r w'" using prior_served [OF u(1) _ prior.refl] by blast
  with r show ?thesis unfolding counted_def by blast
qed

lemma counted_from: "counted E host cmd n u v \<Longrightarrow> prior S w u \<Longrightarrow> prior T v v' \<Longrightarrow> counted E host cmd n w v'"
  unfolding counted_def using prior_served by blast

lemma each_runs:
  assumes run: "each f xs w = (None, w')" and f: "\<And>x. x \<in> set xs \<Longrightarrow> keeps (prior S) (f x)" and x: "x \<in> set xs"
  shows "\<exists>u v. prior S w u \<and> f x u = (None, v) \<and> prior S v w'"
  using run f x
proof (induction xs arbitrary: w)
  case (Cons y xs)
  then obtain w1 where 1: "f y w = (None, w1)" "each f xs w1 = (None, w')" by (auto simp: check_err_None)
  then have p: "prior S w w1" using keepsD [OF Cons.prems(2)] by auto
  have "prior S w1 w'" using keepsD [OF prior.keeps_each 1(2)] Cons.prems(2) by simp
  with 1 p Cons show ?case by (cases "x = y") (use prior.refl prior.trans [OF p] in \<open>fastforce+\<close>)
qed simp

lemma join_all_joins:
  assumes w: "routed w" and run: "join_all E cfg c (n_IP (hd (Masters (Nodes cfg)))) token w = (None, w')"
  shows "(\<forall>m \<in> set (tl (Masters (Nodes cfg))). succeeded E c (n_IP m) (join_cmd (n_IP (hd (Masters (Nodes cfg)))) (n_IP m)) w w') \<and>
    (\<forall>k \<in> set (Workers (Nodes cfg)). n_IP k \<noteq> [] \<longrightarrow> succeeded E c (n_IP k) (agentJoinCmd (n_IP (hd (Masters (Nodes cfg))))) w w')"
proof -
  let ?ip = "n_IP (hd (Masters (Nodes cfg)))" and ?ms = "tl (Masters (Nodes cfg))" and ?ks = "node_ips (Workers (Nodes cfg))"
  obtain w1 w2 where 1: "each (token_node E c token) (node_ips ?ms @ ?ks) w = (None, w1)" and 2: "each (join_node E c ?ip) ?ms w1 = (None, w2)"
    and a: "k3s_agents E c ?ip ?ks w2 = (None, w')"
    using run by (auto simp: join_all_def check_err_None Let_def)
  from a obtain rs where 3: "RunParallel E c ?ks (agentJoinCmd ?ip) w2 = (rs, w')" and ok: "\<forall>r \<in> set rs. agent_error r = None"
    by (auto simp: k3s_agents_def split: prod.splits)
  have "keeps (prior UNIV) (token_node E c token ip)" for ip unfolding token_node_def by (intro staged UNIV_I)
  from keepsD [OF prior.keeps_each [OF this] 1] have p1: "prior UNIV w w1" .
  have j: "keeps (prior UNIV) (join_node E c ?ip m)" for m unfolding join_node_def by (intro staged UNIV_I)
  from keepsD [OF prior.keeps_each [OF this] 2] have p2: "prior UNIV w1 w2" .
  have p3: "prior UNIV w2 w'" using keepsD [OF prior_RunParallel [OF UNIV_I] 3] .
  have "succeeded E c (n_IP m) (join_cmd ?ip (n_IP m)) w w'" if "m \<in> set ?ms" for m
  proof -
    from each_runs [OF 2 j that] obtain u v where u: "prior UNIV w1 u" "join_node E c ?ip m u = (None, v)" "prior UNIV v w2" by blast
    have "prior UNIV w u" using prior.trans [OF p1 u(1)] .
    moreover have "succeeded E c (n_IP m) (join_cmd ?ip (n_IP m)) u v"
      using runChecked_succeeded [OF prior_routed [OF \<open>prior UNIV w u\<close> w] u(2) [unfolded join_node_def]] .
    ultimately show ?thesis using succeeded_from prior.trans [OF u(3) p3] by blast
  qed
  moreover have "succeeded E c (n_IP k) (agentJoinCmd ?ip) w w'" if "k \<in> set (Workers (Nodes cfg))" "n_IP k \<noteq> []" for k
  proof -
    have ok': "\<forall>r \<in> set rs. Err r = None \<and> ExitCode r = 0" using ok by (auto simp: agent_error_def split: option.splits if_splits)
    have p: "prior UNIV w w2" using prior.trans [OF p1 p2] .
    have "succeeded E c (n_IP k) (agentJoinCmd ?ip) w2 w'"
      by (rule parallel_succeeded [OF prior_routed [OF p w] 3 ok']) (use that in \<open>auto simp: node_ips_def\<close>)
    then show ?thesis using succeeded_from [OF _ p prior.refl] by blast
  qed
  ultimately show ?thesis by blast
qed

lemma init_database_job:
  assumes "init_database E c ip w = (None, w')"
  shows "\<exists>u. runChecked E c ip wait_job_cmd ''wait for MariaDB initialization Job'' u = (None, w') \<and> prior UNIV w u"
proof -
  let ?del = "''kubectl delete job init-wordpress-db -n cms --ignore-not-found=true''"
  obtain w1 u where 1: "runChecked E c ip wait_pod_cmd ''wait for MariaDB pod'' w = (None, w1)"
    and 2: "runChecked E c ip (apply_root_cmd ''kubectl apply -k %s/jobs'') ''apply MariaDB initialization Job'' (ignore_command E c ip ?del w1) = (None, u)"
    and 3: "runChecked E c ip wait_job_cmd ''wait for MariaDB initialization Job'' u = (None, w')"
    using assms by (auto simp: init_database_def check_err_None)
  have "keeps (prior UNIV) (\<lambda>w. runChecked E c ip (apply_root_cmd ''kubectl apply -k %s/jobs'') ''apply MariaDB initialization Job'' (ignore_command E c ip ?del w))"
    by (intro staged UNIV_I)
  from prior.trans [OF keepsD [OF prior_runChecked [OF UNIV_I] 1] keepsD [OF this 2]] 3 show ?thesis by blast
qed

lemma deploy_database_init:
  assumes run: "deploy_database E cfg c ip w = (None, w')"
  shows "\<exists>u. init_database E c ip u = (None, w') \<and> prior UNIV w u"
proof -
  obtain w1 w2 w3 w4 w5 w6 w7 u where 1: "copyKustomizeTree E c ip manifestsDir w = (None, w1)"
    and 2: "runChecked E c ip (private_dir_cmd generatedDir) ''create generated manifest directory'' w1 = (None, w2)"
    and 3: "upload_secret E cfg c ip w2 = (None, w3)" and 4: "upload_backup E cfg c ip w3 = (None, w4)"
    and 5: "apply_credentials E cfg c ip w4 = (None, w5)" and 6: "apply_base E c ip w5 = (None, w6)"
    and 7: "runChecked E c ip (apply_root_cmd ''kubectl apply -k %s/monitoring'') ''apply Prometheus scrape RBAC'' w6 = (None, w7)"
    and 8: "apply_backup E cfg c ip w7 = (None, u)" and i: "init_database E c ip u = (None, w')"
    using run by (auto simp: deploy_database_def check_err_None)
  have "prior (k3s_set cfg) w u"
    by (rule prior.trans [OF keepsD [OF k3s_keeps_tree 1] prior.trans [OF keepsD [OF prior_runChecked [OF k3s_members(9)] 2]
        prior.trans [OF keepsD [OF k3s_keeps_upload(1) 3] prior.trans [OF keepsD [OF k3s_keeps_upload(2) 4]
        prior.trans [OF keepsD [OF k3s_keeps_credentials 5] prior.trans [OF keepsD [OF k3s_keeps_apply(2) 6]
        prior.trans [OF keepsD [OF prior_runChecked [OF k3s_members(26)] 7] keepsD [OF k3s_keeps_backup 8]]]]]]]])
  with i show ?thesis using prior_mono [of "k3s_set cfg" w u UNIV] by auto
qed

lemma manifests_job:
  assumes w: "routed w" and run: "k3s_manifests E cfg c ip (ignore_command E c ip cmd w) = (None, w')"
  shows "succeeded E c ip wait_job_cmd w w'"
proof -
  let ?w = "ignore_command E c ip cmd w"
  have "prior UNIV w ?w" using prior_run_command [OF UNIV_I, of E c ip cmd] by (simp add: keeps_def ignore_command_def)
  moreover obtain w1 where 1: "runChecked E c ip (private_dir_cmd manifestsDir) ''create private manifest directory'' ?w = (None, w1)"
    and d: "deferred (manifests_cleanup E ip) (deploy_database E cfg c ip w1) = (None, w')"
    using run by (auto simp: k3s_manifests_def check_err_None)
  moreover have "prior UNIV ?w w1" using keepsD [OF prior_runChecked [OF UNIV_I] 1] .
  ultimately have p1: "prior UNIV w w1" using prior.trans by blast
  obtain w2 where dd: "deploy_database E cfg c ip w1 = (None, w2)" and w': "w' = manifests_cleanup E ip w2"
    using d by (auto simp: deferred_def prod_eq_iff)
  have p': "prior UNIV w2 w'" unfolding w' manifests_cleanup_def by (rule prior_run_detached) simp
  obtain w3 where i: "init_database E c ip w3 = (None, w2)" and p3: "prior UNIV w1 w3" using dd deploy_database_init by blast
  then obtain w4 w5 where 4: "runChecked E c ip wait_job_cmd ''wait for MariaDB initialization Job'' w4 = (None, w2)" and p4: "prior UNIV w3 w4"
    using init_database_job by blast
  have p: "prior UNIV w w4" using prior.trans [OF p1 prior.trans [OF p3 p4]] .
  show ?thesis using succeeded_from [OF runChecked_succeeded [OF prior_routed [OF p w] 4] p p'] .
qed

lemma kubernetes_job:
  assumes w: "routed w" and run: "kubernetes_Run E cfg c w = (None, w')"
  shows "succeeded E c (n_IP (hd (Masters (Nodes cfg)))) wait_job_cmd w w'"
proof -
  let ?ip = "n_IP (hd (Masters (Nodes cfg)))"
  obtain wc where cl: "k3s_cluster E cfg c ?ip w = (None, wc)"
    and mf: "k3s_manifests E cfg c ?ip (ignore_command E c ?ip (label_cmd (hd (Masters (Nodes cfg)))) wc) = (None, w')"
    using run by (auto simp: kubernetes_Run_def Let_def check_err_None split: option.splits)
  have p: "prior (k3s_set cfg) w wc" using keepsD [OF k3s_keeps_cluster cl] .
  show ?thesis using manifests_job [OF prior_routed [OF p w] mf] succeeded_from [OF _ p prior.refl] by blast
qed

text \<open>C30. Success of the phase means quorum: at least three masters are configured, every further master and every worker joined (its command
  ended with 0 on its own connection), and the first master answered, after that, that all nodes are ready and that etcd has one
  member for each master; and the job that initialises the database was seen to complete.\<close>

theorem kubernetes_quorum:
  assumes w: "routed w" and run: "kubernetes_Run E cfg c w = (None, w')"
  shows "3 \<le> length (Masters (Nodes cfg)) \<and> (let m1 = n_IP (hd (Masters (Nodes cfg))) in
    (\<forall>m \<in> set (tl (Masters (Nodes cfg))). succeeded E c (n_IP m) (join_cmd m1 (n_IP m)) w w') \<and>
    (\<forall>k \<in> set (Workers (Nodes cfg)). n_IP k \<noteq> [] \<longrightarrow> succeeded E c (n_IP k) (agentJoinCmd m1) w w') \<and>
    counted E m1 ready_cmd (length (Masters (Nodes cfg)) + length (Workers (Nodes cfg))) w w' \<and>
    counted E m1 etcd_cmd (length (Masters (Nodes cfg))) w w' \<and> succeeded E c m1 wait_job_cmd w w')"
proof -
  let ?S = "k3s_set cfg" and ?ip = "n_IP (hd (Masters (Nodes cfg)))" and ?m = "label_cmd (hd (Masters (Nodes cfg)))"
  have "3 \<le> length (Masters (Nodes cfg))" and pre: "k3s_preflight E cfg = None"
    using run by (auto simp: kubernetes_Run_def k3s_preflight_def split: option.splits if_splits)
  moreover obtain wc where cl: "k3s_cluster E cfg c ?ip w = (None, wc)" and mf: "k3s_manifests E cfg c ?ip (ignore_command E c ?ip ?m wc) = (None, w')"
    using run pre by (auto simp: kubernetes_Run_def Let_def check_err_None)
  obtain w1 w2 t w3 w4 w5 where 1: "runChecked E c ?ip (init_cmd ?ip) ''install K3s on master1'' w = (None, w1)" and 2: "k3s_api E c ?ip w1 = (None, w2)"
    and 3: "k3s_token E c ?ip w2 = ((None, t), w3)" and 4: "join_all E cfg c ?ip t w3 = (None, w4)" and 5: "k3s_ready E cfg c ?ip w4 = (None, w5)"
    and 6: "k3s_etcd E cfg c ?ip w5 = (None, wc)"
    using cl by (auto simp: k3s_cluster_def check_err_None bind_iff)
  have p3: "prior ?S w w3"
    using prior.trans keepsD [OF prior_runChecked [OF k3s_members(1)] 1] keepsD [OF k3s_keeps_waits(1) 2] keepsD [OF k3s_keeps_waits(2) 3] by blast
  have p4: "prior ?S w w4" using prior.trans [OF p3 keepsD [OF k3s_keeps_join 4]] .
  have p5: "prior ?S w w5" using prior.trans [OF p4 keepsD [OF k3s_keeps_waits(3) 5]] .
  have pc: "prior ?S w wc" using keepsD [OF k3s_keeps_cluster cl] .
  have q: "prior ?S wc w'"
  proof -
    have "keeps (prior ?S) (\<lambda>w. k3s_manifests E cfg c ?ip (ignore_command E c ?ip ?m w))" by (intro staged)
    from keepsD [OF this mf] show ?thesis .
  qed
  have q5: "prior ?S w5 w'" using prior.trans [OF keepsD [OF k3s_keeps_waits(4) 6] q] .
  have q4: "prior ?S w4 w'" using prior.trans [OF keepsD [OF k3s_keeps_waits(3) 5] q5] .
  note r = prior_routed [OF p3 w] prior_routed [OF p4 w] prior_routed [OF p5 w]
  have "counted E ?ip ready_cmd (length (Masters (Nodes cfg)) + length (Workers (Nodes cfg))) w w'"
    using counted_from [OF count_retried [OF r(2) 5 [unfolded k3s_ready_def Let_def]] p4 q5] .
  moreover have "counted E ?ip etcd_cmd (length (Masters (Nodes cfg))) w w'"
    using counted_from [OF count_retried [OF r(3) 6 [unfolded k3s_etcd_def Let_def]] p5 q] .
  moreover have "succeeded E c ?ip wait_job_cmd w w'" using kubernetes_job [OF w run] .
  moreover have "\<forall>m \<in> set (tl (Masters (Nodes cfg))). succeeded E c (n_IP m) (join_cmd ?ip (n_IP m)) w w'"
    using join_all_joins [OF r(1) 4] succeeded_from [OF _ p3 q4] by blast
  moreover have "\<forall>k \<in> set (Workers (Nodes cfg)). n_IP k \<noteq> [] \<longrightarrow> succeeded E c (n_IP k) (agentJoinCmd ?ip) w w'"
    using join_all_joins [OF r(1) 4] succeeded_from [OF _ p3 q4] by blast
  ultimately show ?thesis by (simp add: Let_def)
qed

end
