(* ===== verification/SmoothRuns.thy ===== *)
theory SmoothRuns
  imports SshKind Stages
begin

text \<open>
  Runs of a phase on servers that answer every command (\<open>kind\<close>): the rules from which it follows, stage by stage, that a phase succeeds.
  They are used to apply the properties of the phases.
\<close>

definition goes :: "ctx \<Rightarrow> ('r \<Rightarrow> bool) \<Rightarrow> ('x sworld \<Rightarrow> 'r \<times> 'x sworld) \<Rightarrow> bool" where
  "goes cx P f \<longleftrightarrow> (\<forall>w r w'. tame cx w \<longrightarrow> f w = (r, w') \<longrightarrow> P r \<and> tame cx w')"

abbreviation passes :: "ctx \<Rightarrow> ('x sworld \<Rightarrow> goerr option \<times> 'x sworld) \<Rightarrow> bool" where
  "passes cx \<equiv> goes cx (\<lambda>r. r = None)"

named_theorems going

lemma goesD: "goes cx P f \<Longrightarrow> tame cx w \<Longrightarrow> f w = (r, w') \<Longrightarrow> P r \<and> tame cx w'"
  unfolding goes_def by blast

lemma goes_bind:
  assumes f: "goes cx P f" and k: "\<And>r. P r \<Longrightarrow> goes cx Q (k r)"
  shows "goes cx Q (\<lambda>w. case f w of (r, w) \<Rightarrow> k r w)"
  unfolding goes_def
proof (intro allI impI)
  fix w r' w' assume w: "tame cx w" and run: "(case f w of (r, w) \<Rightarrow> k r w) = (r', w')"
  obtain r v where 1: "f w = (r, v)" by fastforce
  with run have "k r v = (r', w')" by simp
  with goesD [OF f w 1] show "Q r' \<and> tame cx w'" using goesD [OF k] by blast
qed

lemma goes_return [going]: "P r \<Longrightarrow> goes cx P (\<lambda>w. (r, w))"
  by (simp add: goes_def)

lemma goes_check [going]:
  assumes f: "passes cx f" and k: "goes cx Q k"
  shows "goes cx Q (\<lambda>w. check_err (f w) wrap k)"
  unfolding goes_def
proof (intro allI impI)
  fix w r' w' assume w: "tame cx w" and run: "check_err (f w) wrap k = (r', w')"
  obtain r v where 1: "f w = (r, v)" by fastforce
  with goesD [OF f w 1] run have "k v = (r', w')" "tame cx v" by (simp_all add: check_err_def)
  then show "Q r' \<and> tame cx w'" using goesD [OF k] by blast
qed

lemma goes_each [going]: "(\<And>x. x \<in> set xs \<Longrightarrow> passes cx (f x)) \<Longrightarrow> passes cx (each f xs)"
proof (induction xs)
  case (Cons x xs)
  have "each f (x # xs) = (\<lambda>w. check_err (f x w) (\<lambda>e. e) (each f xs))" by (simp add: fun_eq_iff)
  with Cons show ?case by (auto intro!: goes_check)
qed (simp add: goes_def)

lemma goes_yields:
  assumes "\<And>w. tame cx w \<Longrightarrow> yields (stays_tame cx) (\<lambda>r v. P r) p w"
  shows "goes cx P (run_proc p)"
  using tame.yields_run [OF assms] tame.refl unfolding goes_def stays_tame_def by blast

lemma goes_command:
  assumes "kind E rep out"
  shows "goes cx (\<lambda>r. r = answer rep out cmd) (run_command E cx host cmd)"
  unfolding run_command_def by (rule goes_yields) (rule tame_RunCommand [OF assms])

lemma goes_must:
  assumes "kind E rep out" and "out cmd = RunOk"
  shows "passes cx (must E cx host cmd msg)"
  unfolding must_def by (rule goes_bind [OF goes_command [OF assms(1)]]) (auto simp: refused_def answer_def assms(2) intro: goes_return)

lemma goes_copy_content: "kind E rep out \<Longrightarrow> passes cx (copy_content E cx host d p m)"
  unfolding copy_content_def by (rule goes_yields) (rule tame_CopyContent)

lemma goes_script:
  assumes "kind E rep out" and "out (script_command (script_path [])) = RunOk"
  shows "goes cx (\<lambda>r. snd r = None) (run_proc (RunScript E cx host script))"
  by (rule goes_yields) (rule tame_RunScript [OF assms(1) _ assms(2)])

lemma goes_RunParallel:
  "kind E rep out \<Longrightarrow> goes cx (\<lambda>rs. rs = map (\<lambda>h. host_result h (answer rep out cmd)) hosts) (RunParallel E cx hosts cmd)"
  unfolding goes_def using tame_RunParallel by blast

lemma goes_RunParallelFunc:
  assumes "\<And>h f w. (h, f) \<in> set tasks \<Longrightarrow> tame cx w \<Longrightarrow> yields (stays_tame cx) (\<lambda>r v. r = None) f w"
  shows "goes cx (\<lambda>rs. \<forall>r \<in> set rs. Err r = None) (RunParallelFunc E tasks)"
  unfolding goes_def using tame_RunParallelFunc [of cx _ tasks E] assms by blast

lemma goes_ignore:
  assumes "kind E rep out" and "goes cx Q k"
  shows "goes cx Q (\<lambda>w. k (ignore_command E cx host cmd w))"
  using goes_bind [OF goes_command [OF assms(1), of cx cmd host], of Q "\<lambda>_. k"] assms(2) unfolding ignore_command_def by (simp add: case_prod_beta)

lemma goes_tame: "goes cx P f \<Longrightarrow> tame cx w \<Longrightarrow> tame cx (snd (f w))"
  unfolding goes_def by (metis prod.collapse)

lemma tame_ignore: "kind E rep out \<Longrightarrow> tame cx w \<Longrightarrow> tame cx (ignore_command E cx host cmd w)"
  unfolding ignore_command_def by (rule goes_tame [OF goes_command])

lemma tame_detached:
  assumes "kind E rep out" and "0 < t" and w: "tame None w"
  shows "tame None (run_detached E t host cmd w)"
proof -
  have t: "tame (WithTimeout None t w) w" using w \<open>0 < t\<close> by (auto simp: WithTimeout_def Let_def tame_def)
  have v: "w\<lparr>w_cancel := None\<rparr> = w" using w by (cases w) (simp add: tame_def)
  obtain r w' where r: "run_command E (WithTimeout None t w) host cmd w = (r, w')" by fastforce
  have "tame (WithTimeout None t w) w'" using goesD [OF goes_command [OF assms(1)] t r] by blast
  with w show ?thesis unfolding run_detached_def detached_def v r by (simp add: tame_def)
qed

lemma goes_deferred: "goes cx P f \<Longrightarrow> (\<And>w. tame cx w \<Longrightarrow> tame cx (d w)) \<Longrightarrow> goes cx P (\<lambda>w. deferred d (f w))"
  unfolding goes_def deferred_def by (metis eq_fst_iff eq_snd_iff fst_conv snd_conv)

lemma tame_fold: "(\<And>x w. tame cx w \<Longrightarrow> tame cx (f x w)) \<Longrightarrow> tame cx w \<Longrightarrow> tame cx (fold f xs w)"
  by (induction xs arbitrary: w) simp_all

lemma goes_last: "P r \<Longrightarrow> (\<And>w. tame cx w \<Longrightarrow> tame cx (f w)) \<Longrightarrow> goes cx P (\<lambda>w. (r, f w))"
  by (simp add: goes_def)

section \<open>Retries\<close>

lemma tame_run_ctx: "0 \<le> Timeout cfg \<Longrightarrow> tame cx w \<Longrightarrow> tame (run_ctx cfg cx w) w"
  by (cases cx) (auto simp: run_ctx_def WithTimeout_def Let_def tame_def)

lemma tame_outer: "tame (run_ctx cfg cx w) w' \<Longrightarrow> tame cx w'"
  by (cases cx) (auto simp: run_ctx_def WithTimeout_def Let_def tame_def split: if_splits)

lemma goes_DoContext_local:
  assumes fn: "\<And>c s. goes c (\<lambda>r. fst r = None \<and> P (snd r)) (fn c s)" and t: "0 \<le> Timeout cfg"
  shows "goes cx (\<lambda>r. fst r = None \<and> P (snd r)) (DoContext_local E cx cfg fn s)"
  unfolding goes_def
proof (intro allI impI)
  fix w r w' assume w: "tame cx w" and run: "DoContext_local E cx cfg fn s w = (r, w')"
  let ?c = "run_ctx cfg cx w"
  have c: "tame ?c w" by (rule tame_run_ctx [OF t w])
  obtain e s1 w1 where 1: "fn ?c s w = ((e, s1), w1)" by (cases "fn ?c s w") auto
  from goesD [OF fn c 1] have 2: "e = None" "P s1" "tame ?c w1" by simp_all
  then have "r = (None, s1) \<and> w' = w1"
    using run 1 by (simp add: DoContext_local_def do_loop_local.simps [of _ _ _ _ _ _ s w] tame_ctx [OF c])
  with 2 tame_outer show "(fst r = None \<and> P (snd r)) \<and> tame cx w'" by auto
qed

lemma goes_DoContext:
  assumes fn: "\<And>c. passes c (fn c)" and t: "0 \<le> Timeout cfg"
  shows "passes cx (DoContext E cx cfg fn)"
  unfolding goes_def
proof (intro allI impI)
  fix w r w' assume w: "tame cx w" and run: "DoContext E cx cfg fn w = (r, w')"
  let ?c = "run_ctx cfg cx w"
  have c: "tame ?c w" by (rule tame_run_ctx [OF t w])
  obtain e w1 where 1: "fn ?c w = (e, w1)" by fastforce
  from goesD [OF fn c 1] have 2: "e = None" "tame ?c w1" by simp_all
  then have "r = None \<and> w' = w1"
    using run 1 by (simp add: DoContext_def do_loop.simps [of _ _ _ _ _ _ w] tame_ctx [OF c])
  with 2 tame_outer show "r = None \<and> tame cx w'" by auto
qed

lemma goes_mono: "goes cx P f \<Longrightarrow> (\<And>r. P r \<Longrightarrow> Q r) \<Longrightarrow> goes cx Q f"
  unfolding goes_def by blast

end
