(* ===== verification/KubernetesLab.thy ===== *)
theory KubernetesLab
  imports KubernetesProps SmoothRuns ConfigSample
begin

text \<open>The properties of the Kubernetes phase, applied to a run on servers on which every command succeeds and the counts are as they should be.\<close>

definition k3s_reply :: "string \<Rightarrow> string" where
  "k3s_reply cmd = (if cmd = ready_cmd then ''5'' else if cmd = etcd_cmd then ''3'' else ''K10token'')"

definition k3s_lab :: "(string \<Rightarrow> string option) k8s_env" where
  "k3s_lab = ssh_env.extend (prompt k3s_reply (\<lambda>cmd. RunOk))
     \<lparr>k_marshal = \<lambda>m. Inr (manifest_kind m), k_walk = [], k_header = \<lambda>e. None, k_tar = \<lambda>es. Inr [], k_order = rev\<rparr>"

definition k3s_config :: Config where
  "k3s_config = sample_config\<lparr>Database := (Database sample_config)\<lparr>db_Password := ''p1'', RootPassword := ''p2'', ExporterPassword := ''p3''\<rparr>,
     AdminPassword := ''p4''\<rparr>"

lemma k3s_lab_kind: "kind k3s_lab k3s_reply (\<lambda>cmd. RunOk)"
  by (simp add: kind_def k3s_lab_def prompt_def lab_def ssh_env.defs)

lemma k3s_nodes: "Nodes k3s_config = sample_nodes"
  by (simp add: k3s_config_def sample_config_def)

lemma k3s_lab_fields: "k_marshal k3s_lab m = Inr (manifest_kind m)" "k_walk k3s_lab = []" "k_tar k3s_lab es = Inr []" "k_order k3s_lab = rev"
  by (simp_all add: k3s_lab_def ssh_env.defs)

section \<open>Every stage succeeds\<close>

abbreviation k3s_answer :: "string \<Rightarrow> run_out" where
  "k3s_answer \<equiv> answer k3s_reply (\<lambda>cmd. RunOk)"

lemma k3s_answer_ok: "ro_err (k3s_answer cmd) = None" "ro_code (k3s_answer cmd) = 0" "ro_stdout (k3s_answer cmd) = k3s_reply cmd"
  by (simp_all add: answer_def)

lemmas lab_command = goes_bind [OF goes_command [OF k3s_lab_kind]] and [going] = goes_copy_content [OF k3s_lab_kind] and
  lab_ignore [going] = goes_ignore [OF k3s_lab_kind]

lemma lab_runChecked [going]: "passes cx (runChecked k3s_lab cx host cmd action)"
  unfolding runChecked_def by (rule lab_command) (simp add: k3s_answer_ok goes_return)

lemma lab_api [going]: "passes cx (k3s_api k3s_lab cx ip)"
  unfolding k3s_api_def
  by (rule goes_DoContext) (auto simp: api_attempt_def [abs_def] k3s_answer_ok Second_def intro!: lab_command goes_return)

lemma k3s_token_trim: "TrimSpace ''K10token'' = ''K10token''" "TrimSpace ''5'' = ''5''" "TrimSpace ''3'' = ''3''"
  by code_simp+

lemma lab_reply: "k3s_reply ''cat /var/lib/rancher/k3s/server/node-token'' = ''K10token''" "k3s_reply ready_cmd = ''5''" "k3s_reply etcd_cmd = ''3''"
  by (simp_all add: k3s_reply_def ready_cmd_def etcd_cmd_def)

lemma lab_token: "goes cx (\<lambda>r. fst r = None \<and> True) (k3s_token k3s_lab cx ip)"
  unfolding k3s_token_def
  by (rule goes_DoContext_local) (auto simp: token_attempt_def [abs_def] k3s_answer_ok lab_reply k3s_token_trim Second_def intro!: lab_command goes_return)

lemma k3s_counts:
  "length (Masters (Nodes k3s_config)) = 3" "length (Workers (Nodes k3s_config)) = 2" "itoa 5 = ''5''" "itoa 3 = ''3''"
  by (simp_all add: k3s_nodes sample_nodes_def) code_simp+

lemma lab_count:
  assumes "TrimSpace (k3s_reply cmd) = n"
  shows "passes cx (DoContext k3s_lab cx patient_retry (count_attempt k3s_lab ip cmd n complain))"
  by (rule goes_DoContext) (auto simp: count_attempt_def [abs_def] k3s_answer_ok assms patient_retry_def Second_def intro!: lab_command goes_return)

lemma lab_ready [going]: "passes cx (k3s_ready k3s_lab k3s_config cx ip)"
  unfolding k3s_ready_def Let_def
  by (rule lab_count) (simp add: lab_reply k3s_token_trim k3s_counts)

lemma lab_etcd [going]: "passes cx (k3s_etcd k3s_lab k3s_config cx ip)"
  unfolding k3s_etcd_def Let_def
  by (rule lab_count) (simp add: lab_reply k3s_token_trim k3s_counts)

lemma lab_token_node [going]: "passes cx (token_node k3s_lab cx t ip)"
  unfolding token_node_def by (intro going refl)

lemma lab_agents [going]: "passes cx (k3s_agents k3s_lab cx server ips)"
  unfolding k3s_agents_def
  by (rule goes_bind [OF goes_RunParallel [OF k3s_lab_kind]]) (auto simp: agent_error_def host_result_def k3s_answer_ok intro!: goes_return)

lemma lab_join [going]: "passes cx (join_all k3s_lab k3s_config cx server t)"
  unfolding join_all_def Let_def join_node_def [abs_def] by (intro going)

lemma lab_cluster [going]: "passes cx (k3s_cluster k3s_lab k3s_config cx ip)"
  unfolding k3s_cluster_def
  by (intro going goes_bind [OF lab_token] refl) simp

lemma lab_tree [going]: "passes cx (copyKustomizeTree k3s_lab cx host dest)"
  unfolding copyKustomizeTree_def buildKustomizeTar_def k3s_lab_fields tree_all.simps sum.case
proof (intro going refl, unfold CopyTar_def, rule goes_yields)
  fix w :: "(string \<Rightarrow> string option) sworld" assume w: "tame cx w"
  show "yields (stays_tame cx) (\<lambda>r v. r = None) (andThen (RunCommandStdin k3s_lab cx host
       (Sprintf ''set -e; mkdir -p %s; tar -xf - -C %s --no-same-owner'' [shellQuote dest, shellQuote dest]) (Some (bytes_Reader [])) True) (\<lambda>r.
     Return (case ro_err r of
         Some e \<Rightarrow> Some (Errorf ''failed to upload archive to %s: %w'' [dest, e])
       | None \<Rightarrow> if ro_code r \<noteq> 0
           then Some (Errorf ''failed to extract archive at %s (exit %d): %s'' [dest, itoa (ro_code r), TrimSpace (ro_stderr r)])
           else None))) w"
    by (rule tame.yields_andThen [OF tame_RunCommandStdin [OF k3s_lab_kind w]]) (auto simp: k3s_answer_ok intro!: tame.yields_Return)
qed

lemma lab_uploads [going]: "passes cx (upload_secret k3s_lab cfg cx ip)" "passes cx (upload_backup k3s_lab cfg cx ip)"
  unfolding upload_secret_def upload_backup_def makeMariaDBSecret_def makeBackupSecret_def makeBackupConfigMap_def k3s_lab_fields sum.case
  by (cases "BackupEnabled cfg"; simp; intro going refl)+

lemma lab_credentials [going]: "passes cx (apply_credentials k3s_lab cfg cx ip)"
  unfolding apply_credentials_def apply_backup_credentials_def
  by (cases "BackupEnabled cfg"; simp; intro going refl)

lemma lab_base [going]: "passes cx (apply_base k3s_lab cx ip)"
  unfolding apply_base_def by (rule goes_DoContext) (auto simp: Second_def intro: lab_runChecked)

lemma lab_init [going]: "passes cx (init_database k3s_lab cx ip)"
  unfolding init_database_def by (intro going refl)

lemma lab_backup [going]: "passes cx (apply_backup k3s_lab cfg cx ip)"
  unfolding apply_backup_def sync_schedules_def
  by (cases "BackupEnabled cfg"; simp) (intro going tame_fold tame_ignore [OF k3s_lab_kind] refl goes_last; simp)+

lemma lab_manifests [going]: "passes None (k3s_manifests k3s_lab cfg None ip)"
  unfolding k3s_manifests_def deploy_database_def
  by (intro going refl goes_deferred) (simp add: manifests_cleanup_def tame_detached [OF k3s_lab_kind] Second_def)

lemma lab_preflight: "k3s_preflight k3s_lab k3s_config = None"
proof -
  have r: "ranged (k_order k3s_lab) (cluster_secrets k3s_config) = rev (cluster_secrets k3s_config)"
    unfolding k3s_lab_fields by code_simp
  have "first_some line_break_error (rev (cluster_secrets k3s_config)) = None" "\<not> list_ex (\<lambda>ns. snd ns = []) (cluster_secrets k3s_config)"
    by code_simp+
  with r show ?thesis unfolding k3s_preflight_def k3s_nodes by (simp add: sample_nodes_def)
qed

lemma lab_Run: "passes None (kubernetes_Run k3s_lab k3s_config None)"
  unfolding kubernetes_Run_def lab_preflight option.case Let_def by (intro going)

lemma lab_run: obtains w' where "kubernetes_Run k3s_lab k3s_config None calm_world = (None, w')"
  using goesD [OF lab_Run calm_tame] by (cases "kubernetes_Run k3s_lab k3s_config None calm_world") auto

section \<open>The witnesses\<close>

theorem kubernetes_quorum_witness:
  "\<exists>w'. kubernetes_Run k3s_lab k3s_config None calm_world = (None, w') \<and>
     counted k3s_lab ''192.168.10.11'' etcd_cmd 3 calm_world w' \<and>
     succeeded k3s_lab None ''192.168.10.14'' (agentJoinCmd ''192.168.10.11'') calm_world w'"
proof -
  obtain w' where run: "kubernetes_Run k3s_lab k3s_config None calm_world = (None, w')" by (rule lab_run)
  from kubernetes_quorum [OF calm_routed run] run show ?thesis
    by (auto simp: Let_def k3s_nodes sample_nodes_def sample_node_def numeral_eq_Suc)
qed

theorem kubernetes_secrets_unsent_witness:
  "\<exists>w' n p. kubernetes_Run k3s_lab k3s_config None calm_world = (None, w') \<and>
     RunOn n (remoteCommand p wait_job_cmd) \<in> set (added calm_world w') \<and>
     (\<exists>q. \<exists>cmd \<in> set (k3s_commands (without_secrets k3s_config)). remoteCommand p wait_job_cmd = remoteCommand q cmd)"
proof -
  obtain w' where run: "kubernetes_Run k3s_lab k3s_config None calm_world = (None, w')" by (rule lab_run)
  from kubernetes_job [OF calm_routed run] obtain n p where n: "RunOn n (remoteCommand p wait_job_cmd) \<in> set (added calm_world w')"
    using served_sent unfolding succeeded_def by blast
  from kubernetes_secrets_unsent [OF run n] run n show ?thesis by blast
qed

end
