(* ===== verification/RegisterNodes.thy ===== *)
theory RegisterNodes
  imports Stages
begin

text \<open>
  \<open>internal/phases/registernodes/register.go\<close>: the script that registers every node in Cobbler, and its run on the jumpstart.
\<close>

definition main_prefix :: "Config \<Rightarrow> string" where
  "main_prefix cfg = PrefixFromCIDR (CIDR (Main_net (Network cfg))) ''192.168.20.''"

text \<open>The address under which the node reaches the Cobbler server: that of its own network.\<close>

definition cobbler_server :: "Config \<Rightarrow> NodeSpec \<Rightarrow> string" where
  "cobbler_server cfg node =
     (if HasPrefix (IP node) (main_prefix cfg)
      then if IPMain (Jumpstart (Nodes cfg)) \<noteq> [] then IPMain (Jumpstart (Nodes cfg)) else main_prefix cfg @ ''10''
      else n_IP (Jumpstart (Nodes cfg)))"

definition kernel_opts :: "Config \<Rightarrow> NodeSpec \<Rightarrow> string" where
  "kernel_opts cfg node = Sprintf
     ''autoinstall ds=nocloud-net;s=http://%s/cblr/svc/op/autoinstall/system/%s/ netboot=nfs nfsroot=%s:/var/www/cobbler/distro_mirror/ubuntu-24.04 boot=casper ip=dhcp''
     [cobbler_server cfg node, Name node, cobbler_server cfg node]"

definition node_lines :: "Config \<Rightarrow> NodeSpec \<Rightarrow> string" where
  "node_lines cfg node =
     Sprintf (''cobbler system remove --name=%s 2>/dev/null || true'' @ [nl]) [Name node] @
     Sprintf (''cobbler system add --name=%s --profile=ubuntu-24.04-x86_64 --hostname=%s --ip-address=%s --mac=%s --interface=ens3 --static=1 --server=%s --kernel-options=\"%s\" --autoinstall-meta='hostname=%s' --netboot-enabled=1'' @ [nl])
       [Name node, FQDN node, IP node, MAC node, cobbler_server cfg node, kernel_opts cfg node, Name node]"

fun register_script :: "Config \<Rightarrow> NodeSpec list \<Rightarrow> string \<Rightarrow> goerr + string" where
  "register_script cfg [] acc = Inr (acc @ ''cobbler sync'' @ [nl])"
| "register_script cfg (node # ns) acc =
     (if Name node = n_Name (Jumpstart (Nodes cfg)) \<or> Name node = [] then register_script cfg ns acc
      else if MAC node = [] then Inl (Errorf ''node %s has no MAC address; cannot register it in Cobbler'' [Name node])
      else register_script cfg ns (acc @ node_lines cfg node))"

definition registernodes_Run :: "('x, 'z) ssh_env_scheme \<Rightarrow> Config \<Rightarrow> ctx \<Rightarrow> 'x sworld \<Rightarrow> goerr option \<times> 'x sworld" where
  "registernodes_Run E cfg c w = (case register_script cfg (AllNodes cfg) (''set -e'' @ [nl]) of
      Inl e \<Rightarrow> (Some e, w)
    | Inr script \<Rightarrow> check_err (run_script E c (n_IP (Jumpstart (Nodes cfg))) script w)
        (\<lambda>e. Errorf ''failed to register nodes in Cobbler: %w'' [e]) (\<lambda>w. (None, w)))"

section \<open>The script\<close>

definition registered :: "Config \<Rightarrow> NodeSpec list" where
  "registered cfg = filter (\<lambda>n. Name n \<noteq> n_Name (Jumpstart (Nodes cfg)) \<and> Name n \<noteq> []) (AllNodes cfg)"

lemma register_script_iff:
  "register_script cfg ns acc = Inr s \<longleftrightarrow>
     (\<forall>n \<in> set (filter (\<lambda>n. Name n \<noteq> n_Name (Jumpstart (Nodes cfg)) \<and> Name n \<noteq> []) ns). MAC n \<noteq> []) \<and>
     s = acc @ concat (map (node_lines cfg) (filter (\<lambda>n. Name n \<noteq> n_Name (Jumpstart (Nodes cfg)) \<and> Name n \<noteq> []) ns)) @ ''cobbler sync'' @ [nl]"
  by (induction ns arbitrary: acc) auto

lemma register_script_refuses:
  "register_script cfg ns acc = Inl e \<Longrightarrow> \<exists>n \<in> set ns. Name n \<noteq> n_Name (Jumpstart (Nodes cfg)) \<and> Name n \<noteq> [] \<and> MAC n = []"
  by (induction ns arbitrary: acc) (auto split: if_splits)


end
