(* ===== verification/Pki.thy ===== *)
theory Pki
  imports Stages
begin

text \<open>
  \<open>internal/phases/pki/pki.go\<close>: the certificate authority on the jumpstart, its root certificate on every node and the certificate of the load
  balancers.
\<close>

section \<open>The authority\<close>

definition caPortOrDefault :: "int \<Rightarrow> int" where
  "caPortOrDefault port = (if port = 0 then 8443 else port)"

definition ca_domain :: "Config \<Rightarrow> string" where
  "ca_domain cfg = (if pki_Domain (PKI cfg) = [] then ''ca.internal.local'' else pki_Domain (PKI cfg))"

definition step_install_cmd :: string where
  "step_install_cmd = (Join [''set -e'', ''if ! command -v step >/dev/null 2>&1 || ! command -v step-ca >/dev/null 2>&1; then'',
     [tab] @ ''ARCH=$(dpkg --print-architecture 2>/dev/null || echo \"amd64\")'',
     [tab] @ ''wget -q \"https://github.com/smallstep/cli/releases/latest/download/step-cli_${ARCH}.deb\" -O /tmp/step-cli.deb'',
     [tab] @ ''dpkg -i /tmp/step-cli.deb || apt-get install -f -y'', [tab] @ ''rm -f /tmp/step-cli.deb'', [],
     [tab] @ ''wget -q \"https://github.com/smallstep/certificates/releases/latest/download/step-ca_${ARCH}.deb\" -O /tmp/step-ca.deb'',
     [tab] @ ''dpkg -i /tmp/step-ca.deb || apt-get install -f -y'', [tab] @ ''rm -f /tmp/step-ca.deb'', ''fi''] [nl])"

definition step_init_cmd :: "Config \<Rightarrow> string" where
  "step_init_cmd cfg = Sprintf (Join [''export STEPPATH=/root/.step && '' @ [bslash], ''[ -f /root/.step/certs/root_ca.crt ] || step ca init --name=\"%s\" --dns=\"%s,%s\" '' @ [bslash],
     ''--address=\":%d\" --provisioner=\"admin\" --password-file=/root/.step/password.txt --with-ca-url=\"https://%s:%d\" --deployment-type=standalone''] [nl])
     [PKICommonName cfg, ca_domain cfg, n_IP (Jumpstart (Nodes cfg)), itoa (caPortOrDefault (CAPort (PKI cfg))), n_IP (Jumpstart (Nodes cfg)),
      itoa (caPortOrDefault (CAPort (PKI cfg)))]"

definition step_durations_cmd :: "Config \<Rightarrow> string" where
  "step_durations_cmd cfg = Sprintf (Join [''export STEPPATH=/root/.step && step ca provisioner update admin '' @ [bslash], ''--x509-min-dur 24h --x509-default-dur %dh --x509-max-dur 8760h''] [nl]) [itoa (LBTLSCertLifetimeHours cfg)]"

definition step_service_cmd :: string where
  "step_service_cmd = (Join [''cat << 'EOF' > /etc/systemd/system/step-ca.service'', ''[Unit]'', ''Description=step-ca'', ''After=network.target'', [], ''[Service]'',
     ''ExecStart=/usr/bin/step-ca /root/.step/config/ca.json --password-file /root/.step/password.txt'', ''Restart=on-failure'',
     ''Environment=\"STEPPATH=/root/.step\"'', [], ''[Install]'', ''WantedBy=multi-user.target'', ''EOF'',
     ''systemctl daemon-reload && systemctl enable --now step-ca''] [nl])"

definition ca_health_cmd :: "Config \<Rightarrow> string" where
  "ca_health_cmd cfg = Sprintf ''curl -kf https://localhost:%d/health'' [itoa (caPortOrDefault (CAPort (PKI cfg)))]"

text \<open>The password of the authority travels in a file.\<close>

definition ca_prepare :: "('x, 'z) ssh_env_scheme \<Rightarrow> Config \<Rightarrow> ctx \<Rightarrow> string \<Rightarrow> 'x sworld \<Rightarrow> goerr option \<times> 'x sworld" where
  "ca_prepare E cfg c ip w =
     check_err (must E c ip step_install_cmd (\<lambda>r. Errorf ''failed to install step-ca (exit %d): %v'' [itoa (ro_code r), err_v (ro_err r)]) w) (\<lambda>e. e) (\<lambda>w.
     (case run_command E c ip ''mkdir -p /root/.step && chmod 700 /root/.step'' w of (r, w) \<Rightarrow>
     check_err (ro_err r, w) (\<lambda>e. Errorf ''failed to prepare step directory: %w'' [e]) (\<lambda>w.
     check_err (copy_content E c ip (ProvisionerPassword (PKI cfg) @ [nl]) ''/root/.step/password.txt'' 384 w)
       (\<lambda>e. Errorf ''failed to upload CA password: %w'' [e]) (\<lambda>w. (None, w)))))"

definition ca_init_error :: "run_out \<Rightarrow> goerr option" where
  "ca_init_error r = (if ro_code r \<noteq> 0
     then Some (Errorf ''failed to initialize step-ca (exit %d): %v %s%s'' [itoa (ro_code r), err_v (ro_err r), TrimSpace (ro_stdout r), TrimSpace (ro_stderr r)])
     else None)"

text \<open>Raising the lifetimes is best effort: failures are only logged.\<close>

definition ca_durations :: "('x, 'z) ssh_env_scheme \<Rightarrow> Config \<Rightarrow> ctx \<Rightarrow> string \<Rightarrow> 'x sworld \<Rightarrow> 'x sworld" where
  "ca_durations E cfg c ip w = (case run_command E c ip (step_durations_cmd cfg) w of (r, w) \<Rightarrow>
     (if refused r then w else ignore_command E c ip ''systemctl restart step-ca 2>/dev/null || true'' w))"

definition ca_health :: "('x, 'z) ssh_env_scheme \<Rightarrow> Config \<Rightarrow> ctx \<Rightarrow> string \<Rightarrow> 'x sworld \<Rightarrow> goerr option \<times> 'x sworld" where
  "ca_health E cfg c ip = DoContext E c \<lparr>MaxAttempts = 15, Interval = 2 * Second, Timeout = 60 * Second, MaxInterval = 0\<rparr>
     (\<lambda>c w. case run_command E c ip (ca_health_cmd cfg) w of (r, w) \<Rightarrow> (ro_err r, w))"

definition ca_start :: "('x, 'z) ssh_env_scheme \<Rightarrow> Config \<Rightarrow> ctx \<Rightarrow> string \<Rightarrow> 'x sworld \<Rightarrow> goerr option \<times> 'x sworld" where
  "ca_start E cfg c ip w = (case run_command E c ip (step_init_cmd cfg) w of (r, w) \<Rightarrow>
     check_err (ca_init_error r, w) (\<lambda>e. e) (\<lambda>w.
     check_err (must E c ip step_service_cmd
         (\<lambda>r. Errorf ''failed to install/enable step-ca systemd service (exit %d): %v'' [itoa (ro_code r), err_v (ro_err r)]) (ca_durations E cfg c ip w)) (\<lambda>e. e) (\<lambda>w.
     check_err (ca_health E cfg c ip w) (\<lambda>e. Errorf ''step-ca health check failed: %w'' [e]) (\<lambda>w. (None, w)))))"

section \<open>The root certificate on the nodes\<close>

definition root_ca_ips :: "Config \<Rightarrow> string list" where
  "root_ca_ips cfg = map IP (filter (\<lambda>n. IP n \<noteq> [] \<and> IP n \<noteq> n_IP (Jumpstart (Nodes cfg))) (AllNodes cfg))"

definition root_ca_task :: "('x, 'z) ssh_env_scheme \<Rightarrow> ctx \<Rightarrow> string \<Rightarrow> string \<Rightarrow> ('x, goerr option) sproc" where
  "root_ca_task E c cert ip = andThen (CopyContent E c ip cert ''/usr/local/share/ca-certificates/cms_root_ca.crt'' 420) (\<lambda>r. case r of
      Some e \<Rightarrow> Return (Some e)
    | None \<Rightarrow> andThen (RunCommand E c ip ''update-ca-certificates'') (\<lambda>r.
        Return (if refused r then Some (Errorf ''update-ca-certificates (exit %d): %w'' [itoa (ro_code r), err_w (ro_err r)]) else None)))"

definition root_ca_error :: "ParallelResult \<Rightarrow> goerr option" where
  "root_ca_error r = (case Err r of None \<Rightarrow> None | Some e \<Rightarrow> Some (Errorf ''failed to distribute root CA to %s: %w'' [Host r, e]))"

definition distribute_root_ca :: "('x, 'z) ssh_env_scheme \<Rightarrow> Config \<Rightarrow> ctx \<Rightarrow> string \<Rightarrow> 'x sworld \<Rightarrow> goerr option \<times> 'x sworld" where
  "distribute_root_ca E cfg c ip w = (case run_command E c ip ''cat /root/.step/certs/root_ca.crt'' w of (r, w) \<Rightarrow>
     check_err (ro_err r, w) (\<lambda>e. Errorf ''failed to read root CA: %w'' [e]) (\<lambda>w.
     (case RunParallelFunc E (tasks_of (\<lambda>ip. ip) (root_ca_task E c (ro_stdout r)) (root_ca_ips cfg)) w of (rs, w) \<Rightarrow>
       (first_some root_ca_error rs, w))))"

section \<open>The certificate of the load balancers\<close>

definition dns_char :: "string \<Rightarrow> nat \<Rightarrow> bool" where
  "dns_char label i \<longleftrightarrow> is_letter (label ! i) \<or> is_digit (label ! i) \<or> label ! i = CHR ''-'' \<and> i \<noteq> 0 \<and> i \<noteq> length label - 1"

definition validDNSName :: "string \<Rightarrow> bool" where
  "validDNSName s \<longleftrightarrow> s \<noteq> [] \<and> length s \<le> 253 \<and>
     list_all (\<lambda>label. label \<noteq> [] \<and> length label \<le> 63 \<and> list_all (dns_char label) [0..<length label]) (Split s ''.'')"

fun san_flags :: "string \<Rightarrow> string list \<Rightarrow> string \<Rightarrow> goerr + string" where
  "san_flags subject [] acc = Inr acc"
| "san_flags subject (san # sans) acc =
     (if san = [] \<or> san = subject then san_flags subject sans acc
      else if ParseAddr san = None \<and> \<not> validDNSName san then Inl (Errorf ''refusing to use unsafe certificate SAN %q'' [quoted san])
      else san_flags subject sans (acc @ '' --san '' @ san))"

definition issue_cmd :: "Config \<Rightarrow> string \<Rightarrow> string \<Rightarrow> string" where
  "issue_cmd cfg subject flags = Sprintf (Join [''export STEPPATH=/root/.step && step ca certificate \"%s\" /tmp/cms-lb.crt /tmp/cms-lb.key '' @ [bslash],
     ''--ca-url \"https://%s:%d\" --root /root/.step/certs/root_ca.crt '' @ [bslash],
     ''--provisioner admin --password-file /root/.step/password.txt '' @ [bslash], ''--not-after %dh --force%s''] [nl])
     [subject, ca_domain cfg, itoa (caPortOrDefault (CAPort (PKI cfg))), itoa (LBTLSCertLifetimeHours cfg), flags]"

definition read_bundle_cmd :: string where
  "read_bundle_cmd = (''cat /tmp/cms-lb.crt; printf '' @ [squote] @ [bslash] @ ''n===CMSKEY==='' @ [bslash] @ ''n'; cat /tmp/cms-lb.key'')"

definition wipe_cmd :: string where
  "wipe_cmd = ''rm -f /tmp/cms-lb.crt /tmp/cms-lb.key''"

definition reload_nginx_cmd :: string where
  "reload_nginx_cmd = ''chown root:root /etc/nginx/ssl/cms.crt /etc/nginx/ssl/cms.key && nginx -t && systemctl reload nginx''"

definition install_certificate :: "('x, 'z) ssh_env_scheme \<Rightarrow> ctx \<Rightarrow> string \<Rightarrow> string \<Rightarrow> NodeDetail \<Rightarrow> 'x sworld \<Rightarrow> goerr option \<times> 'x sworld" where
  "install_certificate E c cert key lb w = (if n_IP lb = [] then (None, w)
     else check_err (copy_content E c (n_IP lb) cert ''/etc/nginx/ssl/cms.crt'' 384 w)
         (\<lambda>e. Errorf ''failed to install certificate on %s: %w'' [n_Name lb, e]) (\<lambda>w.
       check_err (copy_content E c (n_IP lb) key ''/etc/nginx/ssl/cms.key'' 384 w)
         (\<lambda>e. Errorf ''failed to install certificate key on %s: %w'' [n_Name lb, e]) (\<lambda>w.
       must E c (n_IP lb) reload_nginx_cmd (\<lambda>r. Errorf ''failed to reload nginx on %s with the new certificate (exit %d): %v %s%s''
         [n_Name lb, itoa (ro_code r), err_v (ro_err r), TrimSpace (ro_stdout r), TrimSpace (ro_stderr r)]) w)))"

definition key_mark :: string where
  "key_mark = ''===CMSKEY===''"

text \<open>The copies on the jumpstart are wiped when the balancers are done, with the context of the run.\<close>

definition deliver_certificate :: "('x, 'z) ssh_env_scheme \<Rightarrow> Config \<Rightarrow> ctx \<Rightarrow> string \<Rightarrow> 'x sworld \<Rightarrow> goerr option \<times> 'x sworld" where
  "deliver_certificate E cfg c ip w = (case run_command E c ip read_bundle_cmd w of (r, w) \<Rightarrow>
     check_err (ro_err r, w) (\<lambda>e. Errorf ''failed to read issued certificate: %w'' [e]) (\<lambda>w.
     (case Cut (ro_stdout r) key_mark of (cert, key, ok) \<Rightarrow>
       if \<not> ok \<or> TrimSpace cert = [] \<or> TrimSpace key = [] then (Some ''issued certificate or key is empty'', w)
       else deferred (ignore_command E c ip wipe_cmd)
         (each (install_certificate E c (TrimSpace cert) (TrimSpace key)) (LBs (Nodes cfg)) w))))"

definition issueLoadBalancerCertificates :: "('x, 'z) ssh_env_scheme \<Rightarrow> Config \<Rightarrow> ctx \<Rightarrow> 'x sworld \<Rightarrow> goerr option \<times> 'x sworld" where
  "issueLoadBalancerCertificates E cfg c w = (let ip = n_IP (Jumpstart (Nodes cfg)); names = LBTLSDNSNames cfg in
     if LBs (Nodes cfg) = [] then (None, w)
     else if ip = [] then (Some ''cannot issue load-balancer certificate: jumpstart IP is not set'', w)
     else if names = [] then (Some ''cannot issue load-balancer certificate: pki.cert_dns_names is empty'', w)
     else case san_flags (hd names) (LBTLSSANs cfg) [] of
       Inl e \<Rightarrow> (Some e, w)
     | Inr flags \<Rightarrow>
         check_err (must E c ip (issue_cmd cfg (hd names) flags)
             (\<lambda>r. Errorf ''failed to issue load-balancer certificate (exit %d): %v %s%s''
               [itoa (ro_code r), err_v (ro_err r), TrimSpace (ro_stdout r), TrimSpace (ro_stderr r)]) w) (\<lambda>e. e) (\<lambda>w.
         deliver_certificate E cfg c ip w))"

definition pki_Run :: "('x, 'z) ssh_env_scheme \<Rightarrow> Config \<Rightarrow> ctx \<Rightarrow> 'x sworld \<Rightarrow> goerr option \<times> 'x sworld" where
  "pki_Run E cfg c w = (let ip = n_IP (Jumpstart (Nodes cfg)) in
     if ProvisionerPassword (PKI cfg) = []
     then (Some ''pki.provisioner_password must be set in config.yaml so CA restarts use the same key password'', w)
     else check_err (ca_prepare E cfg c ip w) (\<lambda>e. e) (\<lambda>w.
       check_err (ca_start E cfg c ip w) (\<lambda>e. e) (\<lambda>w.
       check_err (distribute_root_ca E cfg c ip w) (\<lambda>e. e) (\<lambda>w.
       check_err (issueLoadBalancerCertificates E cfg c w) (\<lambda>e. e) (\<lambda>w. (None, w))))))"

end
