(* ===== verification/PkiProps.thy ===== *)
theory PkiProps
  imports Pki ConfigProps
begin

text \<open>
  What the phase of the certificate authority guarantees: what becomes part of its commands, what a success means, and what is left behind.
\<close>

section \<open>The commands of the phase\<close>

definition pki_flags :: "Config \<Rightarrow> string option" where
  "pki_flags cfg = (case san_flags (hd (LBTLSDNSNames cfg)) (LBTLSSANs cfg) [] of Inl e \<Rightarrow> None | Inr f \<Rightarrow> Some f)"

definition pki_commands :: "Config \<Rightarrow> string list" where
  "pki_commands cfg =
     [step_install_cmd, ''mkdir -p /root/.step && chmod 700 /root/.step'', upload_script ''/root/.step/password.txt'' 384, step_init_cmd cfg,
      step_durations_cmd cfg, ''systemctl restart step-ca 2>/dev/null || true'', step_service_cmd, ca_health_cmd cfg, ''cat /root/.step/certs/root_ca.crt'',
      upload_script ''/usr/local/share/ca-certificates/cms_root_ca.crt'' 420, ''update-ca-certificates'', read_bundle_cmd, wipe_cmd,
      upload_script ''/etc/nginx/ssl/cms.crt'' 384, upload_script ''/etc/nginx/ssl/cms.key'' 384, reload_nginx_cmd]
     @ (case pki_flags cfg of None \<Rightarrow> [] | Some f \<Rightarrow> [issue_cmd cfg (hd (LBTLSDNSNames cfg)) f])"

abbreviation pki_set :: "Config \<Rightarrow> string set" where
  "pki_set cfg \<equiv> set (pki_commands cfg)"

lemma pki_commands_public: "pki_commands (without_secrets cfg) = pki_commands cfg"
proof -
  have n: "LBTLSDNSNames (without_secrets cfg) = LBTLSDNSNames cfg" "LBTLSSANs (without_secrets cfg) = LBTLSSANs cfg"
    "LBTLSCertLifetimeHours (without_secrets cfg) = LBTLSCertLifetimeHours cfg" "PKICommonName (without_secrets cfg) = PKICommonName cfg"
    "ca_domain (without_secrets cfg) = ca_domain cfg" "CAPort (PKI (without_secrets cfg)) = CAPort (PKI cfg)"
    "Nodes (without_secrets cfg) = Nodes cfg"
    by (simp_all add: without_secrets_def LBTLSDNSNames_def LBTLSSANs_def LBTLSCertLifetimeHours_def PKICommonName_def ca_domain_def LBVIP_def Let_def)
  then show ?thesis
    by (simp add: pki_commands_def pki_flags_def step_init_cmd_def step_durations_cmd_def ca_health_cmd_def issue_cmd_def split: option.split)
qed

lemma pki_members [staged]:
  "step_install_cmd \<in> pki_set cfg" "''mkdir -p /root/.step && chmod 700 /root/.step'' \<in> pki_set cfg" "upload_script ''/root/.step/password.txt'' 384 \<in> pki_set cfg"
  "step_init_cmd cfg \<in> pki_set cfg" "step_durations_cmd cfg \<in> pki_set cfg" "''systemctl restart step-ca 2>/dev/null || true'' \<in> pki_set cfg"
  "step_service_cmd \<in> pki_set cfg" "ca_health_cmd cfg \<in> pki_set cfg" "''cat /root/.step/certs/root_ca.crt'' \<in> pki_set cfg"
  "upload_script ''/usr/local/share/ca-certificates/cms_root_ca.crt'' 420 \<in> pki_set cfg" "''update-ca-certificates'' \<in> pki_set cfg"
  "read_bundle_cmd \<in> pki_set cfg" "wipe_cmd \<in> pki_set cfg" "upload_script ''/etc/nginx/ssl/cms.crt'' 384 \<in> pki_set cfg"
  "upload_script ''/etc/nginx/ssl/cms.key'' 384 \<in> pki_set cfg" "reload_nginx_cmd \<in> pki_set cfg"
  by (simp_all add: pki_commands_def)

section \<open>Only these commands are sent\<close>

lemma pki_keeps_prepare [staged]: "keeps (prior (pki_set cfg)) (ca_prepare E cfg c ip)"
  unfolding ca_prepare_def by (intro staged)

lemma pki_durations: "prior (pki_set cfg) w (ca_durations E cfg c ip w)"
  unfolding ca_durations_def by (intro prior_ran pki_members) (auto intro: prior.refl prior_ignored pki_members)

lemma pki_keeps_start [staged]: "keeps (prior (pki_set cfg)) (ca_start E cfg c ip)"
  unfolding ca_start_def ca_health_def by (intro staged prior_after [OF pki_durations])

lemma yields_root_ca_task: "routed w \<Longrightarrow> yields onward (\<lambda>r v. True) (root_ca_task E c cert ip) w"
  unfolding root_ca_task_def
  by (rule onward.yields_andThen [OF yields_CopyContent])
    (auto simp: onward_def split: option.split intro!: onward.yields_Return onward.yields_andThen [OF yields_RunCommand])

lemma pki_keeps_root [staged]: "keeps (prior (pki_set cfg)) (distribute_root_ca E cfg c ip)"
proof -
  have "steps_keep (afar (pki_set cfg)) (root_ca_task E c cert h)" for cert h
    unfolding root_ca_task_def by (auto intro!: steps_keep_andThen steps_keep_Return afar_CopyContent afar_RunCommand pki_members split: option.split)
  then have "keeps (prior (pki_set cfg)) (RunParallelFunc E (tasks_of (\<lambda>ip. ip) (root_ca_task E c cert) ips))" for cert ips
    by (intro prior_tasks yields_root_ca_task)
  note tasks = this
  show ?thesis unfolding distribute_root_ca_def by (intro staged prior.keeps_bind [OF tasks])
qed

lemma pki_keeps_deliver [staged]: "keeps (prior (pki_set cfg)) (deliver_certificate E cfg c ip)"
proof -
  have i: "keeps (prior (pki_set cfg)) (install_certificate E c cert key lb)" for cert key lb
    unfolding install_certificate_def by (intro staged)
  have "keeps (prior (pki_set cfg)) (\<lambda>w. deferred (ignore_command E c ip wipe_cmd) (each (install_certificate E c cert key) lbs w))" for cert key lbs
    by (intro prior_deferred staged i prior_ignored)
  then show ?thesis unfolding deliver_certificate_def by (intro staged)
qed

lemma pki_keeps_issue [staged]: "keeps (prior (pki_set cfg)) (issueLoadBalancerCertificates E cfg c)"
proof (cases "san_flags (hd (LBTLSDNSNames cfg)) (LBTLSSANs cfg) []")
  case (Inl e)
  then show ?thesis unfolding issueLoadBalancerCertificates_def Let_def Inl sum.case by (intro staged)
next
  case (Inr f)
  then have "issue_cmd cfg (hd (LBTLSDNSNames cfg)) f \<in> pki_set cfg" by (simp add: pki_commands_def pki_flags_def)
  then show ?thesis unfolding issueLoadBalancerCertificates_def Let_def Inr sum.case by (intro staged)
qed

lemma pki_keeps: "keeps (prior (pki_set cfg)) (pki_Run E cfg c)"
  unfolding pki_Run_def Let_def by (intro staged)

text \<open>The password of the authority and the key of the load balancers are never part of a command: every command that the phase sends can be computed
  from the configuration without its passwords, and does not depend on what the jumpstart answered.\<close>

theorem pki_secrets_unsent:
  assumes "pki_Run E cfg c w = (r, w')" and "RunOn n s \<in> set (added w w')"
  shows "\<exists>p. \<exists>cmd \<in> set (pki_commands (without_secrets cfg)). s = remoteCommand p cmd"
  using prior_sent [OF keepsD [OF pki_keeps assms(1)] assms(2)] by (auto simp: sent_def pki_commands_public)

section \<open>The names in the certificate\<close>

lemma dns_name_safe: "validDNSName s \<Longrightarrow> \<forall>x \<in> set s. shell_safe x"
proof -
  assume v: "validDNSName s"
  have l: "\<forall>x \<in> set label. shell_safe x" if "label \<in> set (Split s ''.'')" for label
  proof
    fix x assume "x \<in> set label"
    then obtain i where i: "i < length label" "label ! i = x" by (auto simp: in_set_conv_nth)
    with v that have "dns_char label i" by (auto simp: validDNSName_def list_all_iff)
    with i show "shell_safe x"
      by (auto simp: dns_char_def is_letter_def is_digit_def shell_safe_def is_alnum_def is_lower_def is_upper_def is_dig_def in_range_def)
  qed
  have "set s \<subseteq> \<Union> (set (map set (Split s ''.''))) \<union> {CHR ''.''}" using set_Join [of "Split s ''.''" "''.''"] by simp
  moreover have "shell_safe CHR ''.''" by (simp add: shell_safe_def)
  ultimately show ?thesis using l by fastforce
qed

lemma address_safe: "ParseAddr s = Some a \<Longrightarrow> \<forall>x \<in> set s. shell_safe x"
  by (auto simp: ParseAddr_def split: if_splits option.splits dest: parseIPv4_safe parseIPv6_safe)

definition flag_char :: "char \<Rightarrow> bool" where
  "flag_char x \<longleftrightarrow> shell_safe x \<or> x = CHR '' ''"

lemma san_flags_safe:
  "san_flags subject sans acc = Inr f \<Longrightarrow> \<forall>x \<in> set acc. flag_char x \<Longrightarrow> \<forall>x \<in> set f. flag_char x"
proof (induction sans arbitrary: acc)
  case (Cons san sans)
  show ?case
  proof (cases "san = [] \<or> san = subject")
    case False
    with Cons.prems have ok: "ParseAddr san \<noteq> None \<or> validDNSName san" and f: "san_flags subject sans (acc @ '' --san '' @ san) = Inr f"
      by (auto split: if_splits)
    from ok have "\<forall>x \<in> set san. shell_safe x" using dns_name_safe address_safe by blast
    then have "\<forall>x \<in> set (acc @ '' --san '' @ san). flag_char x"
      using Cons.prems(2) by (auto simp: flag_char_def shell_safe_def is_alnum_def is_lower_def in_range_def)
    with Cons.IH f show ?thesis by blast
  qed (use Cons in auto)
qed simp

lemma validated_names: "Validate b cfg = None \<Longrightarrow> n \<in> set (LBTLSDNSNames cfg) \<Longrightarrow> \<forall>x \<in> set n. shell_safe x"
proof -
  assume v: "Validate b cfg = None" and n: "n \<in> set (LBTLSDNSNames cfg)"
  have "MatchString fqdnPattern d" if "d \<in> set (CertDNSNames (PKI cfg))" for d
    using v that unfolding Validate_def Let_def validating by blast
  moreover have "\<forall>x \<in> set ''cms.fake-enterprise.com''. shell_safe x" by (simp add: shell_safe_def is_alnum_def is_lower_def in_range_def)
  ultimately show ?thesis using n pattern_safe(2) by (auto simp: LBTLSDNSNames_def split: if_splits)
qed

text \<open>Of an accepted configuration, whatever becomes part of the command that issues the certificate has no meaning to the shell: the subject consists
  of letters, digits, dots, underscores, colons and hyphens, and the list of alternative names of these and spaces. (The list is safe for every
  configuration, the subject is checked by the validation only.)\<close>

theorem pki_names_safe:
  assumes "Validate b cfg = None" and "san_flags (hd (LBTLSDNSNames cfg)) (LBTLSSANs cfg) [] = Inr flags"
  shows "(\<forall>x \<in> set (hd (LBTLSDNSNames cfg)). shell_safe x) \<and> (\<forall>x \<in> set flags. flag_char x)"
proof -
  have "LBTLSDNSNames cfg \<noteq> []" by (simp add: LBTLSDNSNames_def)
  then have "hd (LBTLSDNSNames cfg) \<in> set (LBTLSDNSNames cfg)" by simp
  with validated_names [OF assms(1)] san_flags_safe [OF assms(2)] show ?thesis by simp
qed

section \<open>What a success tells\<close>

lemma root_ca_updated:
  assumes w: "routed w"
  shows "yields onward (\<lambda>r v. r = None \<longrightarrow> succeeded E c ip ''update-ca-certificates'' w v) (root_ca_task E c cert ip) w"
  unfolding root_ca_task_def
proof (rule onward.yields_andThen [OF yields_CopyContent [OF w]])
  fix r :: "goerr option" and v assume v: "onward w v"
  then have rv: "routed v" using w by (simp add: onward_def)
  show "yields onward (\<lambda>r v. r = None \<longrightarrow> succeeded E c ip ''update-ca-certificates'' w v) (case r of
      Some e \<Rightarrow> Return (Some e)
    | None \<Rightarrow> andThen (RunCommand E c ip ''update-ca-certificates'') (\<lambda>r.
        Return (if refused r then Some (Errorf ''update-ca-certificates (exit %d): %w'' [itoa (ro_code r), err_w (ro_err r)]) else None))) v"
    by (cases r) (simp_all add: onward.yields_Return, rule yields_succeeded [OF rv v], simp split: if_splits)
qed

lemma install_reloads:
  assumes w: "routed w" and run: "install_certificate E c cert key lb w = (None, w')" and ip: "n_IP lb \<noteq> []"
  shows "succeeded E c (n_IP lb) reload_nginx_cmd w w'"
proof -
  obtain w1 w2 where 1: "copy_content E c (n_IP lb) cert ''/etc/nginx/ssl/cms.crt'' 384 w = (None, w1)"
    and 2: "copy_content E c (n_IP lb) key ''/etc/nginx/ssl/cms.key'' 384 w1 = (None, w2)"
    and 3: "\<exists>msg. must E c (n_IP lb) reload_nginx_cmd msg w2 = (None, w')"
    using run ip by (auto simp: install_certificate_def check_err_None)
  have p: "prior UNIV w w2" using prior.trans keepsD [OF prior_copy_content 1] keepsD [OF prior_copy_content 2] by blast
  from 3 must_succeeded [OF prior_routed [OF p w]] have "succeeded E c (n_IP lb) reload_nginx_cmd w2 w'" by blast
  from succeeded_from [OF this p prior.refl] show ?thesis .
qed

text \<open>The stages of a run that succeeds.\<close>

lemma pki_stages:
  assumes "pki_Run E cfg c w = (None, w')"
  obtains w2 w3 where "prior (pki_set cfg) w w2" and "distribute_root_ca E cfg c (n_IP (Jumpstart (Nodes cfg))) w2 = (None, w3)"
    and "prior (pki_set cfg) w w3" and "issueLoadBalancerCertificates E cfg c w3 = (None, w')" and "prior (pki_set cfg) w3 w'"
proof -
  let ?S = "pki_set cfg" and ?ip = "n_IP (Jumpstart (Nodes cfg))"
  obtain w1 w2 w3 where 1: "ca_prepare E cfg c ?ip w = (None, w1)" and 2: "ca_start E cfg c ?ip w1 = (None, w2)"
    and 3: "distribute_root_ca E cfg c ?ip w2 = (None, w3)" and 4: "issueLoadBalancerCertificates E cfg c w3 = (None, w')"
    using assms by (auto simp: pki_Run_def Let_def check_err_None split: if_splits)
  have p2: "prior ?S w w2" using prior.trans [OF keepsD [OF pki_keeps_prepare 1] keepsD [OF pki_keeps_start 2]] .
  show ?thesis by (rule that [OF p2 3 prior.trans [OF p2 keepsD [OF pki_keeps_root 3]] 4 keepsD [OF pki_keeps_issue 4]])
qed

lemma pki_trusted:
  assumes w: "routed w" and run: "pki_Run E cfg c w = (None, w')" and ip: "ip \<in> set (root_ca_ips cfg)"
  shows "succeeded E c ip ''update-ca-certificates'' w w'"
proof -
  let ?ip = "n_IP (Jumpstart (Nodes cfg))"
  obtain w2 w3 where p2: "prior (pki_set cfg) w w2" and 3: "distribute_root_ca E cfg c ?ip w2 = (None, w3)" and q3: "prior (pki_set cfg) w3 w'"
    using pki_stages [OF run] .
  obtain r v rs where r: "run_command E c ?ip ''cat /root/.step/certs/root_ca.crt'' w2 = (r, v)"
    and rs: "RunParallelFunc E (tasks_of (\<lambda>ip. ip) (root_ca_task E c (ro_stdout r)) (root_ca_ips cfg)) v = (rs, w3)" and ok: "first_some root_ca_error rs = None"
    using 3 by (auto simp: distribute_root_ca_def bind_iff check_err_None)
  have pv: "prior (pki_set cfg) w v" using prior.trans [OF p2 keepsD [OF prior_run_command [OF pki_members(9)] r]] .
  have "\<forall>r \<in> set rs. Err r = None" using ok by (auto simp: root_ca_error_def split: option.splits)
  from tasks_done [OF root_ca_updated [OF prior_routed [OF pv w]] rs this ip] succeeded_from [OF _ pv q3] show ?thesis by blast
qed

lemma pki_reloaded:
  assumes w: "routed w" and run: "pki_Run E cfg c w = (None, w')" and lb: "lb \<in> set (LBs (Nodes cfg))" and ip: "n_IP lb \<noteq> []"
  shows "succeeded E c (n_IP lb) reload_nginx_cmd w w'"
proof -
  let ?ip = "n_IP (Jumpstart (Nodes cfg))"
  obtain w3 where p3: "prior (pki_set cfg) w w3" and 4: "issueLoadBalancerCertificates E cfg c w3 = (None, w')"
    using pki_stages [OF run] .
  obtain f w4 where 5: "\<exists>msg. must E c ?ip (issue_cmd cfg (hd (LBTLSDNSNames cfg)) f) msg w3 = (None, w4)" and 6: "deliver_certificate E cfg c ?ip w4 = (None, w')"
    using 4 lb by (auto simp: issueLoadBalancerCertificates_def Let_def check_err_None split: if_splits sum.splits)
  obtain r w5 cert key w6 where 7: "run_command E c ?ip read_bundle_cmd w4 = (r, w5)"
    and 8: "each (install_certificate E c (TrimSpace cert) (TrimSpace key)) (LBs (Nodes cfg)) w5 = (None, w6)" and 9: "w' = ignore_command E c ?ip wipe_cmd w6"
    using 6 by (auto simp: deliver_certificate_def bind_iff check_err_None deferred_iff split: if_splits prod.splits)
  have p5: "prior UNIV w w5" using 5 prior.trans keepsD [OF prior_must [OF UNIV_I]] keepsD [OF prior_run_command [OF UNIV_I] 7] prior_mono [OF p3, of UNIV] by blast
  have "keeps (prior UNIV) (install_certificate E c cert key x)" for cert key x
    unfolding install_certificate_def by (intro staged UNIV_I)
  then have "n_IP lb \<noteq> [] \<longrightarrow> succeeded E c (n_IP lb) reload_nginx_cmd w5 w6"
    by (rule each_done [OF _ _ _ prior_routed [OF p5 w] 8 lb]) (use install_reloads succeeded_from in blast)+
  moreover have "prior UNIV w6 w'" unfolding 9 by (rule prior_ignored) simp
  ultimately show ?thesis using ip p5 succeeded_from by blast
qed


section \<open>What is left behind\<close>

text \<open>The key of the load balancers can stay in a temporary directory: when the bundle cannot be read, or certificate or key is missing in it, the
  phase fails after the certificate was issued, and nothing is sent that would remove the two files from the jumpstart. (The removal is
  deferred only after the bundle was read.)\<close>

theorem pki_key_left:
  assumes reading: "run_command E c ip read_bundle_cmd w = (r, w1)"
    and bad: "ro_err r \<noteq> None \<or> (case Cut (ro_stdout r) key_mark of (cert, key, ok) \<Rightarrow> \<not> ok \<or> TrimSpace cert = [] \<or> TrimSpace key = [])"
    and run: "deliver_certificate E cfg c ip w = (e, w')"
  shows "e \<noteq> None \<and> (\<forall>n p. RunOn n (remoteCommand p wipe_cmd) \<notin> set (added w w'))"
proof -
  have "e \<noteq> None \<and> w' = w1"
    using reading bad run by (auto simp: deliver_certificate_def check_err_def split: option.splits prod.splits if_splits)
  moreover have "prior {read_bundle_cmd} w w1" using keepsD [OF prior_run_command reading] by blast
  from prior_sent [OF this] have "sent {read_bundle_cmd} s" if "RunOn n s \<in> set (added w w1)" for n s using that by blast
  moreover have "\<not> sent {read_bundle_cmd} (remoteCommand p wipe_cmd)" for p
    by (subst sent_iff) (simp_all add: read_bundle_cmd_def wipe_cmd_def HasPrefix_def)
  ultimately show ?thesis by blast
qed

end
