(* ===== verification/PkiLab.thy ===== *)
theory PkiLab
  imports PkiProps SmoothRuns
begin

text \<open>The properties of the phase of the certificate authority, applied: to a run on servers on which every command succeeds, and to one in which the
  bundle comes without its key.\<close>

definition ca_reply :: "string \<Rightarrow> string" where
  "ca_reply cmd = ''CERT'' @ [nl] @ key_mark @ [nl] @ ''KEY''"

definition ca_lab :: "(string \<Rightarrow> string option) ssh_env" where
  "ca_lab = prompt ca_reply (\<lambda>cmd. RunOk)"

definition ca_config :: Config where
  "ca_config = sample_config\<lparr>PKI := (PKI sample_config)\<lparr>ProvisionerPassword := ''secret''\<rparr>\<rparr>"

lemma ca_kind: "kind ca_lab ca_reply (\<lambda>cmd. RunOk)"
  unfolding ca_lab_def by (rule prompt_kind)

lemmas ca_command = goes_bind [OF goes_command [OF ca_kind]] and [going] = goes_copy_content [OF ca_kind] and
  ca_ignore [going] = goes_ignore [OF ca_kind]

lemma ca_ok: "ro_err (answer ca_reply (\<lambda>cmd. RunOk) cmd) = None" "ro_code (answer ca_reply (\<lambda>cmd. RunOk) cmd) = 0"
  "ro_stdout (answer ca_reply (\<lambda>cmd. RunOk) cmd) = ca_reply cmd"
  by (simp_all add: answer_def)

lemma ca_must [going]: "passes cx (must ca_lab cx host cmd msg)"
  by (rule goes_must [OF ca_kind]) simp

lemma ca_asked: "goes cx Q (k (answer ca_reply (\<lambda>cmd. RunOk) cmd)) \<Longrightarrow>
    goes cx Q (\<lambda>w. case run_command ca_lab cx host cmd w of (r, w) \<Rightarrow> check_err (ro_err r, w) wrap (k r))"
  by (rule ca_command) (simp add: ca_ok check_err_def)

lemma ca_prepares [going]: "passes cx (ca_prepare ca_lab cfg cx ip)"
  unfolding ca_prepare_def by (intro going ca_asked refl)

lemma ca_tame: "tame cx w \<Longrightarrow> tame cx (ca_durations ca_lab cfg cx ip w)"
proof -
  assume w: "tame cx w"
  obtain r v where 1: "run_command ca_lab cx ip (step_durations_cmd cfg) w = (r, v)" by fastforce
  from goesD [OF goes_command [OF ca_kind] w 1] show ?thesis
    using tame_ignore [OF ca_kind] unfolding ca_durations_def 1 by (simp split: if_split)
qed

lemma goes_after: "goes cx P f \<Longrightarrow> (\<And>w. tame cx w \<Longrightarrow> tame cx (d w)) \<Longrightarrow> goes cx P (\<lambda>w. f (d w))"
  unfolding goes_def by blast

lemma ca_healthy [going]: "passes cx (ca_health ca_lab cfg cx ip)"
  unfolding ca_health_def
  by (rule goes_DoContext) (auto simp: Second_def ca_ok intro!: ca_command goes_return)

lemma ca_starts [going]: "passes cx (ca_start ca_lab cfg cx ip)"
  unfolding ca_start_def
  by (rule ca_command) (simp add: ca_ok ca_init_error_def check_err_def [of "(None, _)"], intro going goes_after [OF ca_must] ca_tame refl)

lemma ca_tasks: "tame cx w \<Longrightarrow> yields (stays_tame cx) (\<lambda>r v. r = None) (root_ca_task ca_lab cx cert ip) w"
  unfolding root_ca_task_def
proof (rule tame.yields_andThen [OF tame_CopyContent [OF ca_kind]])
  fix r :: "goerr option" and v assume "tame cx w" "stays_tame cx w v" "r = None"
  then have v: "tame cx v" "r = None" by (simp_all add: stays_tame_def)
  show "yields (stays_tame cx) (\<lambda>r v. r = None) (case r of Some e \<Rightarrow> Return (Some e)
    | None \<Rightarrow> andThen (RunCommand ca_lab cx ip ''update-ca-certificates'') (\<lambda>r.
        Return (if refused r then Some (Errorf ''update-ca-certificates (exit %d): %w'' [itoa (ro_code r), err_w (ro_err r)]) else None))) v"
    unfolding v(2) option.case
    by (rule tame.yields_andThen [OF tame_RunCommand [OF ca_kind v(1)]]) (auto simp: refused_def ca_ok intro!: tame.yields_Return)
qed

lemma ca_distributes [going]: "passes cx (distribute_root_ca ca_lab cfg cx ip)"
  unfolding distribute_root_ca_def
proof (rule ca_asked, rule goes_bind [OF goes_RunParallelFunc])
  fix h f and w :: "(string \<Rightarrow> string option) sworld"
  assume "(h, f) \<in> set (tasks_of (\<lambda>ip. ip) (root_ca_task ca_lab cx (ro_stdout (answer ca_reply (\<lambda>cmd. RunOk) ''cat /root/.step/certs/root_ca.crt''))) (root_ca_ips cfg))"
    and "tame cx w"
  then show "yields (stays_tame cx) (\<lambda>r v. r = None) f w"
    using set_tasks_of_sub ca_tasks by fastforce
qed (auto simp: root_ca_error_def intro!: goes_return)

lemma ca_bundle: "Cut (ca_reply cmd) key_mark = (''CERT'' @ [nl], nl # ''KEY'', True)" "TrimSpace (''CERT'' @ [nl]) = ''CERT''" "TrimSpace (nl # ''KEY'') = ''KEY''"
  unfolding ca_reply_def by code_simp+

lemma ca_delivers [going]: "passes cx (deliver_certificate ca_lab cfg cx ip)"
proof -
  have "passes cx (install_certificate ca_lab cx cert key lb)" for cert key lb
    unfolding install_certificate_def by (cases "n_IP lb = []"; simp) (intro going refl)+
  then have "passes cx (\<lambda>w. deferred (ignore_command ca_lab cx ip wipe_cmd) (each (install_certificate ca_lab cx cert key) lbs w))" for cert key lbs
    by (intro goes_deferred goes_each tame_ignore [OF ca_kind])
  then show ?thesis unfolding deliver_certificate_def
    by (intro ca_asked) (simp only: ca_ok ca_bundle prod.case, simp)
qed

lemma ca_flags: "san_flags (hd (LBTLSDNSNames ca_config)) (LBTLSSANs ca_config) [] =
    Inr '' --san 192.168.20.100 --san 192.168.20.103 --san 192.168.20.104''"
  by code_simp

lemma ca_issues [going]: "passes cx (issueLoadBalancerCertificates ca_lab ca_config cx)"
proof -
  have "LBs (Nodes ca_config) \<noteq> []" "n_IP (Jumpstart (Nodes ca_config)) \<noteq> []" "LBTLSDNSNames ca_config \<noteq> []" by code_simp+
  then show ?thesis unfolding issueLoadBalancerCertificates_def Let_def ca_flags sum.case by (simp only: if_False) (intro going)
qed

lemma ca_Run: "passes cx (pki_Run ca_lab ca_config cx)"
proof -
  have "ProvisionerPassword (PKI ca_config) \<noteq> []" by (simp add: ca_config_def)
  then show ?thesis unfolding pki_Run_def Let_def by (simp only: if_False) (intro going refl)
qed

lemma ca_run: obtains w' where "pki_Run ca_lab ca_config None calm_world = (None, w')"
  using goesD [OF ca_Run calm_tame] by (cases "pki_Run ca_lab ca_config None calm_world") auto

section \<open>The witnesses\<close>

lemma ca_addresses: "n_IP (sample_node n i) = i"
  by (simp add: sample_node_def)


lemma sample_flags: "san_flags (hd (LBTLSDNSNames sample_config)) (LBTLSSANs sample_config) [] =
    Inr '' --san 192.168.20.100 --san 192.168.20.103 --san 192.168.20.104''"
  by code_simp

theorem pki_names_safe_witness: "\<forall>x \<in> set '' --san 192.168.20.100 --san 192.168.20.103 --san 192.168.20.104''. flag_char x"
  using pki_names_safe [OF sample_config_valid sample_flags] by blast

theorem pki_secrets_unsent_witness:
  "\<exists>w' n p. pki_Run ca_lab ca_config None calm_world = (None, w') \<and>
     RunOn n (remoteCommand p ''update-ca-certificates'') \<in> set (added calm_world w') \<and>
     (\<exists>q. \<exists>cmd \<in> set (pki_commands (without_secrets ca_config)). remoteCommand p ''update-ca-certificates'' = remoteCommand q cmd)"
proof -
  obtain w' where run: "pki_Run ca_lab ca_config None calm_world = (None, w')" by (rule ca_run)
  have "''192.168.10.13'' \<in> set (root_ca_ips ca_config)" by code_simp
  from pki_trusted [OF calm_routed run this] obtain n p where n: "RunOn n (remoteCommand p ''update-ca-certificates'') \<in> set (added calm_world w')"
    using served_sent unfolding succeeded_def by blast
  from pki_secrets_unsent [OF run n] run n show ?thesis by blast
qed

text \<open>A bundle without a key.\<close>

definition keyless :: "(string \<Rightarrow> string option) ssh_env" where
  "keyless = prompt (\<lambda>cmd. ''CERT'') (\<lambda>cmd. RunOk)"

theorem pki_key_left_witness:
  "\<exists>e w'. deliver_certificate keyless ca_config None ''192.168.10.10'' calm_world = (e, w') \<and> e \<noteq> None \<and>
     (\<forall>n p. RunOn n (remoteCommand p wipe_cmd) \<notin> set (added calm_world w'))"
proof -
  obtain r w1 where r: "run_command keyless None ''192.168.10.10'' read_bundle_cmd calm_world = (r, w1)" by fastforce
  obtain e w' where run: "deliver_certificate keyless ca_config None ''192.168.10.10'' calm_world = (e, w')" by fastforce
  have "kind keyless (\<lambda>cmd. ''CERT'') (\<lambda>cmd. RunOk)" unfolding keyless_def by (rule prompt_kind)
  from goesD [OF goes_command [OF this] calm_tame r] have "ro_stdout r = ''CERT''" by (simp add: answer_def)
  moreover have "Cut ''CERT'' key_mark = (''CERT'', [], False)" by code_simp
  ultimately show ?thesis using pki_key_left [OF r _ run] run by simp
qed

end
