(* ===== verification/AgentRuns.thy ===== *)
theory AgentRuns
  imports Stages PuppetAgent
begin

text \<open>
  What the phases share that converge nodes with the puppet agent (\<open>nginx\<close>, \<open>monitoring\<close>, \<open>ufw\<close>): the agent as a stage, checks on several hosts.
\<close>

text \<open>The files that are embedded in the program.\<close>

record 'x tmpl_env = "'x ssh_env" +
  embedded :: "string \<Rightarrow> goerr + string"

definition run_agent :: "('x, 'z) ssh_env_scheme \<Rightarrow> ctx \<Rightarrow> string \<Rightarrow> string \<Rightarrow> 'x sworld \<Rightarrow> goerr option \<times> 'x sworld" where
  "run_agent E c host label w = (case run_proc (RunPuppetAgent E c host label) w of (r, w) \<Rightarrow> (snd r, w))"

text \<open>\<open>r.Err != nil || r.ExitCode != 0\<close> for the results of a command on several hosts.\<close>

definition host_refused :: "string \<Rightarrow> ParallelResult \<Rightarrow> goerr option" where
  "host_refused what r = (if Err r \<noteq> None \<or> ExitCode r \<noteq> 0
     then Some (Errorf ''%s verification failed on %s (exit %d): %v'' [what, Host r, itoa (ExitCode r), err_v (Err r)]) else None)"

definition verify_hosts :: "('x, 'z) ssh_env_scheme \<Rightarrow> ctx \<Rightarrow> string list \<Rightarrow> string \<Rightarrow> string \<Rightarrow> 'x sworld \<Rightarrow> goerr option \<times> 'x sworld" where
  "verify_hosts E c hosts cmd what w = (case RunParallel E c hosts cmd w of (rs, w) \<Rightarrow> (first_some (host_refused what) rs, w))"

section \<open>Facts\<close>

lemma run_agent_unfold: "run_agent E c host label w = (case run_command E c host (PuppetAgentCommand []) w of (r, w) \<Rightarrow> (snd (agent_result label host r), w))"
  by (simp add: run_agent_def RunPuppetAgent_def RunPuppetAgentCmd_def run_command_def split: prod.split)

lemma prior_run_agent [staged]: "PuppetAgentCommand [] \<in> S \<Longrightarrow> keeps (prior S) (run_agent E c host label)"
  unfolding run_agent_unfold by (intro staged)

lemma prior_agents [staged]: "PuppetAgentCommand [] \<in> S \<Longrightarrow> keeps (prior S) (RunPuppetAgentParallel E c hosts)"
  unfolding RunPuppetAgentParallel_def Let_def by (intro staged)

lemma prior_verify_hosts [staged]: "cmd \<in> S \<Longrightarrow> keeps (prior S) (verify_hosts E c hosts cmd what)"
  unfolding verify_hosts_def by (intro staged)

lemma run_agent_succeeded:
  assumes w: "routed w" and run: "run_agent E c host label w = (None, w')"
  shows "succeeded E c host (PuppetAgentCommand []) w w'"
proof -
  obtain r where r: "run_command E c host (PuppetAgentCommand []) w = (r, w')" and a: "snd (agent_result label host r) = None"
    using run by (auto simp: run_agent_unfold split: prod.splits)
  have "ro_err r = None" using a by (auto simp: agent_result_def split: if_splits)
  moreover have "ro_err r = None \<longrightarrow> ro_code r = 0"
    using command_sent_once_run [OF r [unfolded run_command_def RunCommand_def RunCommandToWriter_def]] by auto
  ultimately show ?thesis using command_succeeded [OF w r] by simp
qed

lemma verify_hosts_succeeded:
  assumes w: "routed w" and run: "verify_hosts E c hosts cmd what w = (None, w')" and h: "h \<in> set hosts"
  shows "succeeded E c h cmd w w'"
proof -
  obtain rs where rs: "RunParallel E c hosts cmd w = (rs, w')" and ok: "first_some (host_refused what) rs = None"
    using run by (auto simp: verify_hosts_def split: prod.splits)
  have "\<forall>r \<in> set rs. Err r = None \<and> ExitCode r = 0" using ok by (auto simp: host_refused_def split: if_splits)
  from parallel_succeeded [OF w rs this h] show ?thesis .
qed

text \<open>A command that ended without an error ended with 0.\<close>

lemma served_code: "served E c host cmd w r w' \<Longrightarrow> ro_err r = None \<Longrightarrow> ro_code r = 0"
proof -
  assume "served E c host cmd w r w'" and e: "ro_err r = None"
  then obtain n u v where run: "run_session E c n cmd None u = (r, v)" by (auto simp: served_def)
  let ?sent = "remoteCommand (w_heap u) cmd"
  let ?u = "emit (RunOn n ?sent) u"
  obtain rr out x where 1: "s_run E n ?sent None ?u = ((rr, out), x)" by (metis prod.collapse)
  obtain b w1 where wt: "wait_until E c (w_clock ?u + int (rr_time rr)) ?u = (b, w1)" by fastforce
  obtain rc xc where cut: "s_cut E n ?sent None w1 = (rc, xc)" by fastforce
  show ?thesis
  proof (cases b)
    case True
    with run 1 wt have "ro_err r = snd (exit_of out)" "ro_code r = fst (exit_of out)" by (auto simp: run_session_def Let_def)
    with e show ?thesis by (cases out) auto
  next
    case False
    with run 1 wt cut have "ro_err r = ctx_err c w1" by (auto simp: run_session_def Let_def)
    moreover have "ctx_err c w1 \<noteq> None" using wait_until_done [of E c _ _ w1] wt False by simp
    ultimately show ?thesis using e by simp
  qed
qed

lemma agents_succeeded:
  assumes w: "routed w" and run: "RunPuppetAgentParallel E c hosts w = (None, w')" and h: "h \<in> set hosts" "h \<noteq> []"
  shows "succeeded E c h (PuppetAgentCommand []) w w'"
proof -
  let ?t = "filter (\<lambda>h. h \<noteq> []) hosts"
  obtain rs where rs: "RunParallel E c ?t (PuppetAgentCommand []) w = (rs, w')" and ok: "concat (map agent_failure rs) = []"
    using run h by (auto simp: RunPuppetAgentParallel_def Let_def filter_empty_conv split: prod.splits if_splits)
  have "map Host rs = ?t" using RunParallel_hosts [of E c ?t "PuppetAgentCommand []" w] rs by simp
  from arg_cong [OF this, of set] have "h \<in> Host ` set rs" using h by simp
  then obtain r where r: "r \<in> set rs" "Host r = h" by blast
  have e: "Err r = None" using ok r(1) by (auto simp: agent_failure_def split: option.splits)
  with bspec [OF conjunct2 [OF RunParallel_onward [OF w rs]] r(1)] r(2)
  obtain o' where o': "r = host_result h o'" "served E c h (PuppetAgentCommand []) w o' w'" by auto
  moreover have "ro_err o' = None" using e o'(1) by (simp add: host_result_def)
  ultimately show ?thesis using served_code [OF o'(2)] unfolding succeeded_def by (intro exI [of _ o']) simp
qed

end
