(* ===== verification/Ufw.thy ===== *)
theory Ufw
  imports AgentRuns
begin

text \<open>
  \<open>internal/phases/ufw/ufw.go\<close>: the rules of the firewall and of the address translation on the router.
\<close>

definition wan_mac :: "Config \<Rightarrow> string" where
  "wan_mac cfg = (if MACWAN (Router (Nodes cfg)) = [] then ''52:54:00:10:00:02'' else MACWAN (Router (Nodes cfg)))"

definition wan_cmd :: "Config \<Rightarrow> string" where
  "wan_cmd cfg = Sprintf (''ip -o link | awk '/%s/ {print $2}' | sed 's/://'' @ [squote]) [wan_mac cfg]"

definition default_route_cmd :: string where
  "default_route_cmd = ''ip route show default | awk '{print $5}' | head -n1''"

text \<open>The interface with the MAC address, else the one of the default route, else a fixed name.\<close>

definition wan_interface :: "('x, 'z) ssh_env_scheme \<Rightarrow> Config \<Rightarrow> ctx \<Rightarrow> string \<Rightarrow> 'x sworld \<Rightarrow> string \<times> 'x sworld" where
  "wan_interface E cfg c ip w = (case run_command E c ip (wan_cmd cfg) w of (r, w) \<Rightarrow>
     (if ro_err r \<noteq> None \<or> TrimSpace (ro_stdout r) = []
      then case run_command E c ip default_route_cmd w of (d, w) \<Rightarrow>
        (if TrimSpace (ro_stdout d) = [] then ''enp3s0'' else TrimSpace (ro_stdout d), w)
      else (TrimSpace (ro_stdout r), w)))"

definition nat_rules :: "string \<Rightarrow> string \<Rightarrow> string" where
  "nat_rules wan template = Replacer [(''${WAN_IF}'', wan), (''${WAN_IFACE}'', wan)] template"

definition inject_cmd :: string where
  "inject_cmd = (Join [''set -e'', ''cp /etc/ufw/before.rules /tmp/before.rules.bak'', ''restore() { cp /tmp/before.rules.bak /etc/ufw/before.rules; }'',
     ''trap restore ERR'', ''sed -i '/^# NAT Rules/,/^COMMIT/{/^COMMIT/d; d}' /etc/ufw/before.rules'',
     ''sed -i '/^'' @ [bslash] @ ''*nat/,/^COMMIT/{/^COMMIT/d; d}' /etc/ufw/before.rules'',
     ''awk '/^'' @ [bslash] @ ''*filter/{while((getline line < \"/tmp/nat.rules\") > 0) print line} {print}' /etc/ufw/before.rules > /tmp/before.rules.new'',
     ''mv /tmp/before.rules.new /etc/ufw/before.rules'',
     ''if [ \"$(grep -c '^'' @ [bslash] @ ''*nat' /etc/ufw/before.rules)\" != \"1\" ] || [ \"$(grep -c '^'' @ [bslash] @ ''*filter' /etc/ufw/before.rules)\" != \"1\" ]; then'',
     ''    echo \"unexpected nat/filter table layout after injection\" >&2'', ''    restore'', ''    exit 1'', ''fi'', ''trap - ERR'',
     ''rm -f /tmp/before.rules.bak''] [nl])"

definition ufw_status_cmd :: string where
  "ufw_status_cmd = ''ufw status | grep -i active''"

definition other_ips :: "Config \<Rightarrow> string list" where
  "other_ips cfg = map IP (filter (\<lambda>n. IP n \<noteq> [] \<and> IP n \<noteq> n_IP (Router (Nodes cfg)) \<and> IP n \<noteq> n_IP (Jumpstart (Nodes cfg))) (AllNodes cfg))"

text \<open>Problems of the agents on the other nodes are only logged.\<close>

definition ufw_apply :: "('x, 'z) ssh_env_scheme \<Rightarrow> Config \<Rightarrow> ctx \<Rightarrow> string \<Rightarrow> 'x sworld \<Rightarrow> goerr option \<times> 'x sworld" where
  "ufw_apply E cfg c ip w =
     check_err (must E c ip inject_cmd
       (\<lambda>r. Errorf ''failed to inject NAT rules (exit %d): %v; router before.rules was restored from backup'' [itoa (ro_code r), err_v (ro_err r)]) w) (\<lambda>e. e) (\<lambda>w.
     (case run_command E c ip ''ufw reload'' w of (r, w) \<Rightarrow>
     check_err (ro_err r, w) (\<lambda>e. Errorf ''failed to reload ufw on router: %w'' [e]) (\<lambda>w.
     (case RunPuppetAgentParallel E c (other_ips cfg) w of (_, w) \<Rightarrow>
     (case run_command E c ip ufw_status_cmd w of (r, w) \<Rightarrow>
     check_err (ro_err r, w) (\<lambda>e. Errorf ''ufw is not active on router: %w'' [e]) (\<lambda>w. (None, w)))))))"

definition ufw_cleanup :: "('x, 'z) ssh_env_scheme \<Rightarrow> string \<Rightarrow> 'x sworld \<Rightarrow> 'x sworld" where
  "ufw_cleanup E ip = run_detached E (5 * Second) ip ''rm -f /tmp/nat.rules /tmp/before.rules.bak''"

definition ufw_Run :: "('x, 'z) tmpl_env_scheme \<Rightarrow> Config \<Rightarrow> ctx \<Rightarrow> 'x sworld \<Rightarrow> goerr option \<times> 'x sworld" where
  "ufw_Run E cfg c w = (let ip = n_IP (Router (Nodes cfg)) in
     check_err (run_agent E c ip ''router node'' w) (\<lambda>e. e) (\<lambda>w.
     (case wan_interface E cfg c ip w of (wan, w) \<Rightarrow>
     (case embedded E ''templates/ufw/nat-rules'' of
        Inl e \<Rightarrow> (Some (Errorf ''failed to read NAT rules template: %w'' [e]), w)
      | Inr t \<Rightarrow>
          check_err (copy_content E c ip (nat_rules wan t) ''/tmp/nat.rules'' 384 w) (\<lambda>e. Errorf ''failed to upload NAT rules: %w'' [e]) (\<lambda>w.
          deferred (ufw_cleanup E ip) (ufw_apply E cfg c ip w))))))"

section \<open>What a success tells\<close>

lemma ufw_applied:
  assumes w: "routed w" and run: "ufw_apply E cfg c ip w = (None, w')"
  shows "\<exists>u v. onward w u \<and> onward v w' \<and> succeeded E c ip inject_cmd w u \<and> succeeded E c ip ''ufw reload'' u v"
proof -
  obtain msg w1 r w2 x w3 s where 1: "must E c ip inject_cmd msg w = (None, w1)" and 2: "run_command E c ip ''ufw reload'' w1 = (r, w2)" "ro_err r = None"
    and 3: "RunPuppetAgentParallel E c (other_ips cfg) w2 = (x, w3)" and 4: "run_command E c ip ufw_status_cmd w3 = (s, w')"
    using run by (auto simp: ufw_apply_def bind_iff check_err_None)
  have o1: "onward w w1" using keepsD [OF prior_must [OF UNIV_I] 1] by (simp add: prior_def)
  have r1: "routed w1" using o1 w by (simp add: onward_def)
  have o2: "onward w2 w'" using onward.trans keepsD [OF prior_agents [OF UNIV_I] 3] keepsD [OF prior_run_command [OF UNIV_I] 4] by (auto simp: prior_def)
  have "served E c ip ''ufw reload'' w1 r w2" using run_command_answered [OF r1 2] .
  with 2(2) served_code have "succeeded E c ip ''ufw reload'' w1 w2" unfolding succeeded_def by blast
  with 1 must_succeeded [OF w] o1 o2 show ?thesis by blast
qed

text \<open>When the phase succeeds, the rules were uploaded and put into the configuration of the router, and then the firewall was reloaded, in this order.\<close>

theorem ufw_reloaded:
  assumes w: "routed w" and run: "ufw_Run E cfg c w = (None, w')"
  shows "let ip = n_IP (Router (Nodes cfg)) in \<exists>v. onward w v \<and> succeeded E c ip inject_cmd w v \<and> succeeded E c ip ''ufw reload'' v w'"
proof -
  let ?ip = "n_IP (Router (Nodes cfg))"
  obtain t where t: "embedded E ''templates/ufw/nat-rules'' = Inr t"
    using run by (cases "embedded E ''templates/ufw/nat-rules''") (auto simp: ufw_Run_def Let_def bind_iff check_err_None)
  obtain w1 wan w2 w3 w4 where 1: "run_agent E c ?ip ''router node'' w = (None, w1)" and 2: "wan_interface E cfg c ?ip w1 = (wan, w2)"
    and 3: "copy_content E c ?ip (nat_rules wan t) ''/tmp/nat.rules'' 384 w2 = (None, w3)" and 4: "ufw_apply E cfg c ?ip w3 = (None, w4)"
    and 5: "w' = ufw_cleanup E ?ip w4"
    using run t by (auto simp: ufw_Run_def Let_def bind_iff check_err_None deferred_iff)
  have "keeps (prior UNIV) (wan_interface E cfg c ?ip)" unfolding wan_interface_def by (intro staged UNIV_I)
  note p2 = keepsD [OF this 2]
  have p3: "prior UNIV w w3"
    using prior.trans keepsD [OF prior_run_agent [OF UNIV_I] 1] p2 keepsD [OF prior_copy_content [OF UNIV_I] 3] by blast
  from ufw_applied [OF prior_routed [OF p3 w] 4] obtain u v where u: "onward w3 u" "onward v w4"
    "succeeded E c ?ip inject_cmd w3 u" "succeeded E c ?ip ''ufw reload'' u v" by blast
  have "prior UNIV w4 w'" unfolding 5 ufw_cleanup_def by (rule prior_run_detached) simp
  then have "onward v w'" using u(2) onward.trans by (auto simp: prior_def)
  moreover have "onward w w3" using p3 by (simp add: prior_def)
  ultimately have "onward w u" "succeeded E c ?ip inject_cmd w u" "succeeded E c ?ip ''ufw reload'' u w'"
    using onward.trans [OF _ u(1)] succeeded_onward [OF _ u(3) onward.refl] succeeded_onward [OF onward.refl u(4)] by simp_all
  then show ?thesis unfolding Let_def by (intro exI [of _ u] conjI)
qed

end
