(* ===== verification/UfwLab.thy ===== *)
theory UfwLab
  imports Ufw SmoothRuns ConfigSample
begin

text \<open>
  The firewall phase on a router whose commands succeed, with \<open>grep -i\<close> of the status answered as documented: what the check of the status can see.
\<close>

text \<open>\<open>grep -i\<close> for a word: the exit code is 0 when a line contains it, in whatever case, and 1 otherwise.\<close>

definition grep_i :: "string \<Rightarrow> string \<Rightarrow> outcome" where
  "grep_i word text = (if list_ex (\<lambda>l. Contains (ToLower l) (ToLower word)) (Split text [nl]) then RunOk
     else RunExit 1 ''Process exited with status 1'')"

definition router_out :: "string \<Rightarrow> string \<Rightarrow> outcome" where
  "router_out status cmd = (if HasPrefix cmd ''ufw status | grep -i '' then grep_i (drop 21 cmd) status else RunOk)"

definition router_lab :: "string \<Rightarrow> (string \<Rightarrow> string option) tmpl_env" where
  "router_lab status = ssh_env.extend (prompt (\<lambda>cmd. ''enp2s0'') (router_out status)) \<lparr>embedded = \<lambda>p. Inr ''-A POSTROUTING -o ${WAN_IF} -j MASQUERADE''\<rparr>"

lemma router_kind: "kind (router_lab status) (\<lambda>cmd. ''enp2s0'') (router_out status)"
  by (simp add: kind_def router_lab_def prompt_def lab_def ssh_env.defs)

lemma router_ok: "cmd \<noteq> ufw_status_cmd \<Longrightarrow> \<not> HasPrefix cmd ''ufw status | grep -i '' \<Longrightarrow> router_out status cmd = RunOk"
  by (simp add: router_out_def)

lemma router_runs:
  assumes "\<not> HasPrefix cmd ''ufw status | grep -i ''"
  shows "ro_err (answer (\<lambda>cmd. ''enp2s0'') (router_out status) cmd) = None" "ro_code (answer (\<lambda>cmd. ''enp2s0'') (router_out status) cmd) = 0"
    "ro_stdout (answer (\<lambda>cmd. ''enp2s0'') (router_out status) cmd) = ''enp2s0''"
  using assms by (simp_all add: answer_def router_out_def)

lemma router_plain:
  "\<not> HasPrefix (PuppetAgentCommand []) ''ufw status | grep -i ''" "\<not> HasPrefix inject_cmd ''ufw status | grep -i ''"
  "\<not> HasPrefix ''ufw reload'' ''ufw status | grep -i ''" "\<not> HasPrefix (wan_cmd cfg) ''ufw status | grep -i ''"
  by (simp_all add: HasPrefix_def PuppetAgentCommand_def inject_cmd_def wan_cmd_def Sprintf_def is_letter_def)

lemmas router_command = goes_bind [OF goes_command [OF router_kind]]

lemma router_agent [going]: "passes cx (run_agent (router_lab status) cx host label)"
  unfolding run_agent_unfold by (rule router_command) (auto simp: agent_result_def router_runs router_plain intro: goes_return)

lemma router_agents: "goes cx (\<lambda>r. True) (RunPuppetAgentParallel (router_lab status) cx hosts)"
  unfolding goes_def
proof (intro allI impI)
  fix w r w' assume w: "tame cx w" and run: "RunPuppetAgentParallel (router_lab status) cx hosts w = (r, w')"
  obtain rs v where rs: "RunParallel (router_lab status) cx (filter (\<lambda>h. h \<noteq> []) hosts) (PuppetAgentCommand []) w = (rs, v)" by fastforce
  with run have "w' = w \<or> w' = v" by (auto simp: RunPuppetAgentParallel_def Let_def split: if_splits)
  with w goesD [OF goes_RunParallel [OF router_kind] w rs] show "True \<and> tame cx w'" by blast
qed

lemma router_must: "\<not> HasPrefix cmd ''ufw status | grep -i '' \<Longrightarrow> passes cx (must (router_lab status) cx host cmd msg)"
  by (rule goes_must [OF router_kind]) (simp add: router_out_def)

lemma router_interface: "goes cx (\<lambda>r. True) (wan_interface (router_lab status) cfg cx ip)"
proof -
  have "TrimSpace ''enp2s0'' = ''enp2s0''" by code_simp
  then show ?thesis unfolding wan_interface_def by (intro router_command) (simp add: router_runs router_plain goes_return)
qed

lemma router_status:
  assumes "grep_i ''active'' status = RunOk"
  shows "ro_err (answer (\<lambda>cmd. ''enp2s0'') (router_out status) ufw_status_cmd) = None"
proof -
  have "HasPrefix ufw_status_cmd ''ufw status | grep -i ''" "drop 21 ufw_status_cmd = ''active''" by code_simp+
  with assms show ?thesis by (simp add: answer_def router_out_def)
qed

lemma router_applies:
  assumes "grep_i ''active'' status = RunOk"
  shows "passes cx (ufw_apply (router_lab status) cfg cx ip)"
proof -
  have ok: "passes cx (\<lambda>w. check_err (ro_err (answer (\<lambda>cmd. ''enp2s0'') (router_out status) cmd), w) f k)"
    if "ro_err (answer (\<lambda>cmd. ''enp2s0'') (router_out status) cmd) = None" "passes cx k" for cmd f k
    using that by (simp add: check_err_def)
  show ?thesis unfolding ufw_apply_def
    by (intro goes_check router_must router_plain router_command goes_bind [OF router_agents])
      (auto simp: assms router_runs router_plain router_status intro!: ok router_command goes_bind [OF router_agents] goes_return)
qed

lemma router_passes:
  assumes "grep_i ''active'' status = RunOk"
  shows "passes None (ufw_Run (router_lab status) cfg None)"
proof -
  have e: "embedded (router_lab status) p = Inr ''-A POSTROUTING -o ${WAN_IF} -j MASQUERADE''" for p by (simp add: router_lab_def ssh_env.defs)
  show ?thesis unfolding ufw_Run_def Let_def e sum.case
    by (intro going goes_bind [OF router_interface] goes_copy_content [OF router_kind] goes_deferred router_applies assms)
      (simp add: ufw_cleanup_def tame_detached [OF router_kind] Second_def)
qed


text \<open>\<open>ufw_reloaded\<close> applied to the same router.\<close>

theorem ufw_reloaded_witness:
  "\<exists>v w'. onward calm_world v \<and> succeeded (router_lab ''Status: active'') None ''192.168.10.1'' ''ufw reload'' v w'"
proof -
  have "grep_i ''active'' ''Status: active'' = RunOk" by code_simp
  then obtain w' where "ufw_Run (router_lab ''Status: active'') sample_config None calm_world = (None, w')"
    using goesD [OF router_passes calm_tame] by (cases "ufw_Run (router_lab ''Status: active'') sample_config None calm_world") blast
  from ufw_reloaded [OF calm_routed this] show ?thesis by (auto simp: Let_def sample_config_def sample_nodes_def sample_node_def)
qed

end
