(* ===== verification/Monitoring.thy ===== *)
theory Monitoring
  imports AgentRuns
begin

text \<open>
  \<open>internal/phases/monitoring/monitoring.go\<close>: the monitor node, the exporters on the other nodes, the token and the alert rules of Prometheus.
\<close>

section \<open>The exporters\<close>

definition add_exporter :: "string \<Rightarrow> string list \<Rightarrow> string list" where
  "add_exporter ip ips = (if ip = [] \<or> ip \<in> set ips then ips else ips @ [ip])"

definition exporter_ips :: "Config \<Rightarrow> string list" where
  "exporter_ips cfg = (let ns = Nodes cfg in
     fold add_exporter (map n_IP (Masters ns) @ map n_IP (Workers ns) @ map n_IP (CMSFrontends ns) @ [n_IP (Storage ns)] @ map n_IP (LBs ns)
       @ [n_IP (Router ns)]) [])"

lemma add_exporters: "set (fold add_exporter xs ips) = set ips \<union> {x \<in> set xs. x \<noteq> []}" "distinct ips \<Longrightarrow> distinct (fold add_exporter xs ips)"
  by (induction xs arbitrary: ips) (auto simp: add_exporter_def)

lemma exporter_ips_set:
  "set (exporter_ips cfg) = {ip. ip \<noteq> [] \<and> ip \<in> n_IP ` (set (Masters (Nodes cfg)) \<union> set (Workers (Nodes cfg)) \<union> set (CMSFrontends (Nodes cfg)) \<union>
     set (LBs (Nodes cfg)) \<union> {Storage (Nodes cfg), Router (Nodes cfg)})}"
  unfolding exporter_ips_def Let_def add_exporters by auto

section \<open>The phase\<close>

definition token_cmd :: string where
  "token_cmd = ''kubectl create token prometheus -n kube-system --duration=8760h''"

definition token_reload_cmd :: string where
  "token_reload_cmd = ''chown prometheus:prometheus /etc/prometheus/k3s.token && systemctl reload prometheus''"

definition rules_reload_cmd :: string where
  "rules_reload_cmd = ''chown prometheus:prometheus /etc/prometheus/alert-rules.yml && systemctl reload prometheus''"

definition services_cmd :: string where
  "services_cmd = ''systemctl is-active prometheus && systemctl is-active grafana-server''"

definition buildinfo_cmd :: string where
  "buildinfo_cmd = ''curl -s http://localhost:9090/api/v1/status/buildinfo''"

definition targets_cmd :: string where
  "targets_cmd = ''curl -s http://localhost:9090/api/v1/targets | grep -o '\"health\":\"up\"' | wc -l''"

text \<open>What fails with the token and the rules is only logged.\<close>

definition install_token :: "('x, 'z) ssh_env_scheme \<Rightarrow> Config \<Rightarrow> ctx \<Rightarrow> string \<Rightarrow> 'x sworld \<Rightarrow> 'x sworld" where
  "install_token E cfg c mon w = (case Masters (Nodes cfg) of
      [] \<Rightarrow> w
    | m # _ \<Rightarrow> if n_IP m = [] then w
        else case run_command E c (n_IP m) token_cmd w of (r, w) \<Rightarrow>
          (if refused r \<or> TrimSpace (ro_stdout r) = [] then w
           else case copy_content E c mon (TrimSpace (ro_stdout r) @ [nl]) ''/etc/prometheus/k3s.token'' 384 w of
              (Some e, w) \<Rightarrow> w
            | (None, w) \<Rightarrow> ignore_command E c mon token_reload_cmd w))"

definition install_rules :: "('x, 'z) tmpl_env_scheme \<Rightarrow> ctx \<Rightarrow> string \<Rightarrow> 'x sworld \<Rightarrow> 'x sworld" where
  "install_rules E c mon w = (case embedded E ''templates/monitoring/alert-rules.yml'' of
      Inl e \<Rightarrow> w
    | Inr rules \<Rightarrow> (case copy_content E c mon rules ''/etc/prometheus/alert-rules.yml'' 420 w of
          (Some e, w) \<Rightarrow> w
        | (None, w) \<Rightarrow> ignore_command E c mon rules_reload_cmd w))"

definition monitor_retry :: retry_config where
  "monitor_retry = \<lparr>MaxAttempts = 10, Interval = 5 * Second, Timeout = 60 * Second, MaxInterval = 0\<rparr>"

definition services_attempt :: "('x, 'z) ssh_env_scheme \<Rightarrow> string \<Rightarrow> ('x, Pool) action" where
  "services_attempt E mon c w = (case run_command E c mon services_cmd w of (r, w) \<Rightarrow> (ro_err r, w))"

definition prometheus_attempt :: "('x, 'z) ssh_env_scheme \<Rightarrow> string \<Rightarrow> ('x, Pool) action" where
  "prometheus_attempt E mon c w = (case run_command E c mon buildinfo_cmd w of (r, w) \<Rightarrow>
     (case ro_err r of
        Some e \<Rightarrow> (Some e, w)
      | None \<Rightarrow> (if \<not> Contains (ro_stdout r) ''version'' then Some (Errorf ''prometheus API invalid response: %s'' [ro_stdout r]) else None, w)))"

definition monitoring_Run :: "('x, 'z) tmpl_env_scheme \<Rightarrow> Config \<Rightarrow> ctx \<Rightarrow> 'x sworld \<Rightarrow> goerr option \<times> 'x sworld" where
  "monitoring_Run E cfg c w = (let mon = n_IP (Monitor (Nodes cfg)) in
     check_err (run_agent E c mon ''monitor node'' w) (\<lambda>e. e) (\<lambda>w.
     (case RunPuppetAgentParallel E c (exporter_ips cfg) w of (_, w) \<Rightarrow>
     check_err (DoContext E c monitor_retry (services_attempt E mon) (install_rules E c mon (install_token E cfg c mon w)))
       (\<lambda>e. Errorf ''monitoring services not active: %w'' [e]) (\<lambda>w.
     check_err (DoContext E c monitor_retry (prometheus_attempt E mon) (ignore_command E c mon ''systemctl is-active prometheus-blackbox-exporter'' w))
       (\<lambda>e. Errorf ''prometheus API test failed: %w'' [e]) (\<lambda>w.
     (None, ignore_command E c mon targets_cmd w))))))"

section \<open>Only known commands are sent\<close>

definition monitoring_commands :: "string list" where
  "monitoring_commands = [PuppetAgentCommand [], token_cmd, token_reload_cmd, rules_reload_cmd, services_cmd, buildinfo_cmd, targets_cmd,
     ''systemctl is-active prometheus-blackbox-exporter'', upload_script ''/etc/prometheus/k3s.token'' 384,
     upload_script ''/etc/prometheus/alert-rules.yml'' 420]"

abbreviation monitoring_set :: "string set" where
  "monitoring_set \<equiv> set monitoring_commands"

lemma monitoring_members [staged]:
  "PuppetAgentCommand [] \<in> monitoring_set" "token_cmd \<in> monitoring_set" "token_reload_cmd \<in> monitoring_set" "rules_reload_cmd \<in> monitoring_set"
  "services_cmd \<in> monitoring_set" "buildinfo_cmd \<in> monitoring_set" "targets_cmd \<in> monitoring_set"
  "''systemctl is-active prometheus-blackbox-exporter'' \<in> monitoring_set" "upload_script ''/etc/prometheus/k3s.token'' 384 \<in> monitoring_set"
  "upload_script ''/etc/prometheus/alert-rules.yml'' 420 \<in> monitoring_set"
  by (simp_all add: monitoring_commands_def)

lemma monitoring_upload:
  assumes "upload_script p m \<in> S" and "cmd \<in> S"
  shows "prior S w (case copy_content E c host d p m w of (Some e, w) \<Rightarrow> w | (None, w) \<Rightarrow> ignore_command E c host cmd w)"
proof -
  obtain r v where 1: "copy_content E c host d p m w = (r, v)" by fastforce
  from keepsD [OF prior_copy_content [OF assms(1)] 1] prior.trans [OF _ prior_ignored [OF assms(2)]] show ?thesis
    unfolding 1 by (cases r) auto
qed

lemma monitoring_installs: "prior monitoring_set w (install_token E cfg c mon w)" "prior monitoring_set w (install_rules E' c mon w)"
proof -
  have "prior monitoring_set w (case run_command E c ip token_cmd w of (r, w) \<Rightarrow>
          (if refused r \<or> TrimSpace (ro_stdout r) = [] then w
           else case copy_content E c mon (TrimSpace (ro_stdout r) @ [nl]) ''/etc/prometheus/k3s.token'' 384 w of
              (Some e, w) \<Rightarrow> w | (None, w) \<Rightarrow> ignore_command E c mon token_reload_cmd w))" for ip
    by (rule prior_ran [OF monitoring_members(2)]) (auto simp: prior.refl intro!: monitoring_upload monitoring_members)
  then show "prior monitoring_set w (install_token E cfg c mon w)"
    unfolding install_token_def by (auto simp: prior.refl split: list.split)
  show "prior monitoring_set w (install_rules E' c mon w)"
    unfolding install_rules_def by (auto simp: prior.refl split: sum.split intro!: monitoring_upload monitoring_members)
qed

lemma monitoring_attempts [staged]:
  "keeps (prior monitoring_set) (services_attempt E mon c)" "keeps (prior monitoring_set) (prometheus_attempt E mon c)"
  unfolding services_attempt_def prometheus_attempt_def by (intro staged)+

lemma monitoring_installed: "prior monitoring_set w (install_rules E' c mon (install_token E cfg c mon w))"
  using prior.trans [OF monitoring_installs] .

lemma monitoring_keeps: "keeps (prior monitoring_set) (monitoring_Run E cfg c)"
  unfolding monitoring_Run_def Let_def
  by (intro staged prior.keeps_bind [OF prior_agents] prior_after [OF monitoring_installed])

text \<open>The bearer token of Prometheus is never part of a command: the commands that the phase can send are ten fixed texts, whatever the master
  answered and whatever the configuration holds.\<close>

theorem monitoring_token_unsent:
  assumes "monitoring_Run E cfg c w = (r, w')" and "RunOn n s \<in> set (added w w')"
  shows "\<exists>p. \<exists>cmd \<in> set monitoring_commands. s = remoteCommand p cmd"
  using prior_sent [OF keepsD [OF monitoring_keeps assms(1)] assms(2)] by (auto simp: sent_def)

section \<open>What a success tells\<close>


end
