(* ===== verification/Nginx.thy ===== *)
theory Nginx
  imports AgentRuns
begin

text \<open>
  \<open>internal/phases/nginx/nginx.go\<close>: the storage node, the load balancers and the frontends converge, then their services are checked.
\<close>

definition nginx_check :: string where
  "nginx_check = ''nginx -t && systemctl is-active nginx''"

definition apache_check :: string where
  "apache_check = ''apache2ctl -t && systemctl is-active apache2''"

definition nfs_check :: string where
  "nfs_check = ''systemctl is-active nfs-kernel-server''"

definition mount_check :: string where
  "mount_check = ''mountpoint -q /var/www/html/wp-content/uploads''"

definition https_check :: string where
  "https_check = (''curl -skI https://127.0.0.1/ | grep 'HTTP/'' @ [squote])"

definition converge_storage :: "('x, 'z) ssh_env_scheme \<Rightarrow> Config \<Rightarrow> ctx \<Rightarrow> 'x sworld \<Rightarrow> goerr option \<times> 'x sworld" where
  "converge_storage E cfg c w = (if n_IP (Storage (Nodes cfg)) \<noteq> [] then run_agent E c (n_IP (Storage (Nodes cfg))) ''storage node'' w else (None, w))"

text \<open>The frontends one after the other.\<close>

definition converge_frontend :: "('x, 'z) ssh_env_scheme \<Rightarrow> ctx \<Rightarrow> NodeDetail \<Rightarrow> 'x sworld \<Rightarrow> goerr option \<times> 'x sworld" where
  "converge_frontend E c cms w = (if n_IP cms = [] then (None, w) else run_agent E c (n_IP cms) (n_Name cms) w)"

definition check_storage :: "('x, 'z) ssh_env_scheme \<Rightarrow> Config \<Rightarrow> ctx \<Rightarrow> 'x sworld \<Rightarrow> goerr option \<times> 'x sworld" where
  "check_storage E cfg c w = (if n_IP (Storage (Nodes cfg)) \<noteq> []
     then case run_command E c (n_IP (Storage (Nodes cfg))) nfs_check w of (r, w) \<Rightarrow>
       check_err (ro_err r, w) (\<lambda>e. Errorf ''nfs-kernel-server verification failed on storage node: %w'' [e]) (\<lambda>w. (None, w))
     else (None, w))"

definition nginx_Run :: "('x, 'z) ssh_env_scheme \<Rightarrow> Config \<Rightarrow> ctx \<Rightarrow> 'x sworld \<Rightarrow> goerr option \<times> 'x sworld" where
  "nginx_Run E cfg c w = (let lbs = node_ips (LBs (Nodes cfg)); cms = node_ips (CMSFrontends (Nodes cfg)) in
     check_err (converge_storage E cfg c w) (\<lambda>e. e) (\<lambda>w.
     check_err (RunPuppetAgentParallel E c lbs w) (\<lambda>e. e) (\<lambda>w.
     check_err (each (converge_frontend E c) (CMSFrontends (Nodes cfg)) w) (\<lambda>e. e) (\<lambda>w.
     check_err (verify_hosts E c lbs nginx_check ''nginx'' w) (\<lambda>e. e) (\<lambda>w.
     check_err (verify_hosts E c cms apache_check ''apache'' w) (\<lambda>e. e) (\<lambda>w.
     check_err (check_storage E cfg c w) (\<lambda>e. e) (\<lambda>w.
     check_err (verify_hosts E c cms mount_check ''nfs mount'' w) (\<lambda>e. e) (\<lambda>w.
     (None, ignore_command E c (n_IP (PrimaryLB cfg)) https_check w)))))))))"

section \<open>What a success tells\<close>

abbreviation nginx_set :: "string set" where
  "nginx_set \<equiv> {PuppetAgentCommand [], nginx_check, apache_check, nfs_check, mount_check, https_check}"

lemma nginx_keeps [staged]:
  "keeps (prior nginx_set) (converge_storage E cfg c)" "keeps (prior nginx_set) (converge_frontend E c m)" "keeps (prior nginx_set) (check_storage E cfg c)"
  unfolding converge_storage_def converge_frontend_def check_storage_def by (intro staged; simp)+

text \<open>C35. When the phase succeeds, the agent converged on every load balancer and frontend that has an address, every balancer answered the check of its
  configuration and service, every frontend those of Apache and of the shared uploads, and a configured storage node that of its
  NFS server. (Whether the site answers over HTTPS is only logged.)\<close>

theorem nginx_verified:
  assumes w: "routed w" and run: "nginx_Run E cfg c w = (None, w')"
  shows "(\<forall>h \<in> set (node_ips (LBs (Nodes cfg))). succeeded E c h (PuppetAgentCommand []) w w' \<and> succeeded E c h nginx_check w w') \<and>
    (\<forall>h \<in> set (node_ips (CMSFrontends (Nodes cfg))). succeeded E c h (PuppetAgentCommand []) w w' \<and> succeeded E c h apache_check w w' \<and>
      succeeded E c h mount_check w w') \<and>
    (n_IP (Storage (Nodes cfg)) \<noteq> [] \<longrightarrow> succeeded E c (n_IP (Storage (Nodes cfg))) nfs_check w w')"
proof -
  let ?lbs = "node_ips (LBs (Nodes cfg))" and ?cms = "node_ips (CMSFrontends (Nodes cfg))" and ?S = nginx_set
  obtain w1 w2 w3 w4 w5 w6 w7 where 1: "converge_storage E cfg c w = (None, w1)" and 2: "RunPuppetAgentParallel E c ?lbs w1 = (None, w2)"
    and 3: "each (converge_frontend E c) (CMSFrontends (Nodes cfg)) w2 = (None, w3)" and 4: "verify_hosts E c ?lbs nginx_check ''nginx'' w3 = (None, w4)"
    and 5: "verify_hosts E c ?cms apache_check ''apache'' w4 = (None, w5)" and 6: "check_storage E cfg c w5 = (None, w6)"
    and 7: "verify_hosts E c ?cms mount_check ''nfs mount'' w6 = (None, w7)" and 8: "w' = ignore_command E c (n_IP (PrimaryLB cfg)) https_check w7"
    using run by (auto simp: nginx_Run_def Let_def check_err_None)
  have s: "prior ?S w w1" "prior ?S w1 w2" "prior ?S w2 w3" "prior ?S w3 w4" "prior ?S w4 w5" "prior ?S w5 w6" "prior ?S w6 w7" "prior ?S w7 w'"
    using keepsD [OF nginx_keeps(1) 1] keepsD [OF prior_agents 2] keepsD [OF prior.keeps_each [OF nginx_keeps(2)] 3] keepsD [OF prior_verify_hosts 4]
      keepsD [OF prior_verify_hosts 5] keepsD [OF nginx_keeps(3) 6] keepsD [OF prior_verify_hosts 7] prior_ignored [of https_check ?S] 8 by simp_all
  note p2 = prior.trans [OF s(1) s(2)]
  note p3 = prior.trans [OF p2 s(3)]
  note p4 = prior.trans [OF p3 s(4)]
  note p5 = prior.trans [OF p4 s(5)]
  note p6 = prior.trans [OF p5 s(6)]
  note q6 = prior.trans [OF s(7) s(8)]
  note q5 = prior.trans [OF s(6) q6]
  note q4 = prior.trans [OF s(5) q5]
  note q3 = prior.trans [OF s(4) q4]
  note q2 = prior.trans [OF s(3) q3]
  note r = prior_routed [OF s(1) w] prior_routed [OF p2 w] prior_routed [OF p3 w] prior_routed [OF p4 w] prior_routed [OF p5 w] prior_routed [OF p6 w]
  have ips: "h \<in> set (node_ips ns) \<longleftrightarrow> h \<noteq> [] \<and> (\<exists>n \<in> set ns. n_IP n = h)" for h ns by (auto simp: node_ips_def)
  have "succeeded E c h (PuppetAgentCommand []) w w'" if "h \<in> set ?lbs" for h
    using that succeeded_from [OF agents_succeeded [OF r(1) 2] s(1) q2] ips by blast
  moreover have "succeeded E c h (PuppetAgentCommand []) w w'" if h: "h \<in> set ?cms" for h
  proof -
    obtain m where m: "m \<in> set (CMSFrontends (Nodes cfg))" "n_IP m = h" "h \<noteq> []" using h unfolding ips by blast
    have "n_IP m \<noteq> [] \<longrightarrow> succeeded E c (n_IP m) (PuppetAgentCommand []) w2 w3"
    proof (rule each_done [OF nginx_keeps(2) _ _ r(2) 3 m(1)])
      show "n_IP x \<noteq> [] \<longrightarrow> succeeded E c (n_IP x) (PuppetAgentCommand []) u v" if "routed u" "converge_frontend E c x u = (None, v)" for x u v
        using that run_agent_succeeded by (auto simp: converge_frontend_def)
    qed (use succeeded_from in blast)
    with m succeeded_from [OF _ p2 q3] show ?thesis by blast
  qed
  moreover have "n_IP (Storage (Nodes cfg)) \<noteq> [] \<longrightarrow> succeeded E c (n_IP (Storage (Nodes cfg))) nfs_check w w'"
  proof
    assume "n_IP (Storage (Nodes cfg)) \<noteq> []"
    with 6 obtain x where x: "run_command E c (n_IP (Storage (Nodes cfg))) nfs_check w5 = (x, w6)" "ro_err x = None"
      by (auto simp: check_storage_def bind_iff check_err_None)
    have "served E c (n_IP (Storage (Nodes cfg))) nfs_check w5 x w6" using run_command_answered [OF r(5) x] .
    with served_code x(2) have "succeeded E c (n_IP (Storage (Nodes cfg))) nfs_check w5 w6" unfolding succeeded_def by blast
    from succeeded_from [OF this p5 q6] show "succeeded E c (n_IP (Storage (Nodes cfg))) nfs_check w w'" .
  qed
  ultimately show ?thesis
    using succeeded_from [OF verify_hosts_succeeded [OF r(3) 4] p3 q4] succeeded_from [OF verify_hosts_succeeded [OF r(4) 5] p4 q5]
      succeeded_from [OF verify_hosts_succeeded [OF r(6) 7] p6 s(8)] by blast
qed

end
