(* ===== verification/MonitoringLab.thy ===== *)
theory MonitoringLab
  imports Monitoring Nginx SmoothRuns ConfigSample
begin

text \<open>The properties of the phases \<open>monitoring\<close> and \<open>nginx\<close>, applied to runs on servers on which every command succeeds.\<close>

definition web_lab :: "(string \<Rightarrow> string option) tmpl_env" where
  "web_lab = ssh_env.extend (prompt (\<lambda>cmd. ''version'') (\<lambda>cmd. RunOk)) \<lparr>embedded = \<lambda>p. Inr p\<rparr>"

lemma web_kind: "kind web_lab (\<lambda>cmd. ''version'') (\<lambda>cmd. RunOk)"
  by (simp add: kind_def web_lab_def prompt_def lab_def ssh_env.defs)

lemma web_ok: "ro_err (answer rep (\<lambda>cmd. RunOk) cmd) = None" "ro_code (answer rep (\<lambda>cmd. RunOk) cmd) = 0" "ro_stdout (answer rep (\<lambda>cmd. RunOk) cmd) = rep cmd"
  by (simp_all add: answer_def)

lemmas web_command = goes_bind [OF goes_command [OF web_kind]] and web_ignore [going] = goes_ignore [OF web_kind]

lemma web_agent [going]: "passes cx (run_agent web_lab cx host label)"
  unfolding run_agent_unfold by (rule web_command) (auto simp: agent_result_def web_ok intro: goes_return)

lemma web_agents [going]: "passes cx (RunPuppetAgentParallel web_lab cx hosts)"
proof -
  have "passes cx (\<lambda>w. case RunParallel web_lab cx hs (PuppetAgentCommand []) w of (rs, w') \<Rightarrow>
       (let failures = concat (map agent_failure rs) in
        if failures = [] then (None, w') else (f failures, w')))" for hs f
    by (rule goes_bind [OF goes_RunParallel [OF web_kind]]) (auto simp: agent_failure_def host_result_def web_ok Let_def intro: goes_return)
  then show ?thesis unfolding RunPuppetAgentParallel_def Let_def by (cases "filter (\<lambda>h. h \<noteq> []) hosts = []") (simp_all add: goes_return)
qed

lemma web_verify [going]: "passes cx (verify_hosts web_lab cx hosts cmd what)"
  unfolding verify_hosts_def
  by (rule goes_bind [OF goes_RunParallel [OF web_kind]]) (auto simp: host_refused_def host_result_def web_ok intro!: goes_return)

section \<open>The web servers\<close>

lemma web_nginx: "passes cx (nginx_Run web_lab cfg cx)"
proof -
  have "passes cx (converge_storage web_lab cfg cx)" unfolding converge_storage_def by (cases "n_IP (Storage (Nodes cfg)) = []") (simp_all add: going)
  moreover have "passes cx (converge_frontend web_lab cx m)" for m unfolding converge_frontend_def by (cases "n_IP m = []") (simp_all add: going)
  moreover have "passes cx (check_storage web_lab cfg cx)" unfolding check_storage_def
    by (cases "n_IP (Storage (Nodes cfg)) = []") (auto simp: web_ok check_err_def intro!: web_command goes_return)
  ultimately show ?thesis unfolding nginx_Run_def Let_def by (intro going refl)
qed

theorem nginx_verified_witness:
  "\<exists>w'. nginx_Run web_lab sample_config None calm_world = (None, w') \<and>
     succeeded web_lab None ''192.168.20.103'' nginx_check calm_world w' \<and> succeeded web_lab None ''192.168.20.101'' mount_check calm_world w'"
proof -
  obtain w' where run: "nginx_Run web_lab sample_config None calm_world = (None, w')"
    using goesD [OF web_nginx calm_tame] by (cases "nginx_Run web_lab sample_config None calm_world") blast
  moreover have "''192.168.20.103'' \<in> set (node_ips (LBs (Nodes sample_config)))" "''192.168.20.101'' \<in> set (node_ips (CMSFrontends (Nodes sample_config)))"
    by (simp_all add: node_ips_def sample_config_def sample_nodes_def sample_node_def)
  ultimately show ?thesis using nginx_verified [OF calm_routed run] by blast
qed

section \<open>The monitor\<close>

lemma web_copied: "tame cx w \<Longrightarrow> tame cx (case copy_content web_lab cx h d p m w of (Some e, w) \<Rightarrow> w | (None, w) \<Rightarrow> ignore_command web_lab cx h cmd w)"
proof -
  assume w: "tame cx w"
  obtain r v where 1: "copy_content web_lab cx h d p m w = (r, v)" by fastforce
  from goesD [OF goes_copy_content [OF web_kind] w 1] show ?thesis unfolding 1 using tame_ignore [OF web_kind] by simp
qed

lemma web_installed: "tame cx w \<Longrightarrow> tame cx (install_rules web_lab cx mon (install_token web_lab cfg cx mon w))"
proof -
  assume w: "tame cx w"
  have "tame cx (install_token web_lab cfg cx mon w)"
  proof (cases "Masters (Nodes cfg)")
    case (Cons m ms)
    obtain r v where 1: "run_command web_lab cx (n_IP m) token_cmd w = (r, v)" by fastforce
    from goesD [OF goes_command [OF web_kind] w 1] show ?thesis using Cons 1 w web_copied by (auto simp: install_token_def)
  qed (simp add: install_token_def w)
  then show ?thesis unfolding install_rules_def using web_copied by (auto split: sum.split)
qed

lemma web_monitoring: "passes cx (monitoring_Run web_lab cfg cx)"
proof -
  have "Contains ''version'' ''version''" by code_simp
  then have a: "passes cx (DoContext web_lab cx monitor_retry (services_attempt web_lab mon))" "passes cx (DoContext web_lab cx monitor_retry (prometheus_attempt web_lab mon))" for mon cx
    by (auto simp: services_attempt_def [abs_def] prometheus_attempt_def [abs_def] web_ok monitor_retry_def Second_def intro!: goes_DoContext web_command goes_return)
  have i: "passes cx (\<lambda>w. DoContext web_lab cx monitor_retry (services_attempt web_lab mon) (install_rules web_lab cx mon (install_token web_lab cfg cx mon w)))" for mon
    using a(1) web_installed unfolding goes_def by blast
  show ?thesis unfolding monitoring_Run_def Let_def
    by (intro going goes_bind [OF web_agents] a i refl)
qed


end
