(* ===== verification/Puppet.thy ===== *)
theory Puppet
  imports AgentRuns Secrets
begin

text \<open>
  \<open>internal/phases/puppet/puppet.go\<close>: the Puppet server on the jumpstart, the agents on all other nodes, the files with their credentials and
  the first catalog. \<open>encoding/json\<close> and the order of loops over maps are fields of the environment.
\<close>

record 'x puppet_env = "'x ssh_env" +
  pp_marshal :: "(string \<times> string) list \<Rightarrow> goerr + string"
  pp_order :: "string list \<Rightarrow> string list"

definition tailLines :: "string \<Rightarrow> string" where
  "tailLines s = (let lines = Split (rev (dropWhile (\<lambda>x. x = nl \<or> x = CHR 0x0D) (rev s))) [nl] in
     Join (if length lines > 10 then drop (length lines - 10) lines else lines) [nl])"

section \<open>The server\<close>

definition puppet_server_cmd :: string where
  "puppet_server_cmd = (Join [[], [tab] @ [tab] @ ''export DEBIAN_FRONTEND=noninteractive'', [tab] @ [tab], [tab] @ [tab] @ ''# Ensure puppet user and group exist'',
     [tab] @ [tab] @ ''id -u puppet >/dev/null 2>&1 || adduser --system --group --home /var/lib/puppet --shell /bin/false puppet'',
     [tab] @ [tab] @ ''mkdir -p /usr/share/puppet/modules'', [], [tab] @ [tab] @ ''# Setup official Puppet 8 repository if not present'',
     [tab] @ [tab] @ ''if ! dpkg -l | grep -q puppet8-release; then'',
     [tab] @ [tab] @ [tab] @ ''wget -q https://apt.puppet.com/puppet8-release-noble.deb -O /tmp/puppet8-release-noble.deb'',
     [tab] @ [tab] @ [tab] @ ''dpkg -i /tmp/puppet8-release-noble.deb || true'', [tab] @ [tab] @ [tab] @ ''apt-get update'', [tab] @ [tab] @ ''fi'', [],
     [tab] @ [tab] @ ''# Install puppet-agent and puppetserver'',
     [tab] @ [tab] @ ''dpkg -s puppet-agent >/dev/null 2>&1 || apt-get install -y puppet-agent'',
     [tab] @ [tab] @ ''dpkg -s puppetserver >/dev/null 2>&1 || apt-get install -y puppetserver'', [],
     [tab] @ [tab] @ ''# Ensure puppet binaries are in PATH'', [tab] @ [tab] @ ''ln -sf /opt/puppetlabs/bin/puppet /usr/local/bin/puppet'', [],
     [tab] @ [tab] @ ''# Configure 512m memory limit for memory-constrained environments'',
     [tab] @ [tab] @ ''sed -i -re 's/(-Xms)[0-9a-zA-Z]+ (-Xmx)[0-9a-zA-Z]+/'' @ [bslash] @ ''1512m '' @ [bslash] @ ''2512m/' /etc/default/puppetserver'',
     [], [tab] @ [tab] @ ''# Link puppet vendor ruby libraries into puppetserver's jruby path'',
     [tab] @ [tab] @ ''mkdir -p /usr/lib/puppetserver/ruby/vendor_ruby'', [tab] @ [tab] @ ''if [ -d /opt/puppetlabs/puppet/lib/ruby/vendor_ruby ]; then'',
     [tab] @ [tab] @ [tab] @ ''for f in /opt/puppetlabs/puppet/lib/ruby/vendor_ruby/*; do'',
     [tab] @ [tab] @ [tab] @ [tab] @ ''ln -sf \"$f\" /usr/lib/puppetserver/ruby/vendor_ruby/'', [tab] @ [tab] @ [tab] @ ''done'', [tab] @ [tab] @ ''fi'',
     [], [tab] @ [tab] @ ''# Ensure compatibility symlinks between Debian and Puppetlabs paths'',
     [tab] @ [tab] @ ''mkdir -p /etc/puppetlabs/code /etc/puppetlabs/puppet /etc/puppetlabs/puppetserver /var/lib/puppet'',
     [tab] @ [tab] @ ''[ -e /etc/puppet/code ] || ln -sfn /etc/puppetlabs/code /etc/puppet/code'',
     [tab] @ [tab] @ ''[ -e /var/lib/puppet/ssl ] || ln -sfn /etc/puppet/ssl /var/lib/puppet/ssl'',
     [tab] @ [tab] @ ''[ -e /etc/puppetlabs/puppet/ssl ] || ln -sfn /etc/puppet/ssl /etc/puppetlabs/puppet/ssl'',
     [tab] @ [tab] @ ''[ -e /etc/puppetlabs/puppetserver/puppetserver ] || ln -sfn /etc/puppet/puppetserver /etc/puppetlabs/puppetserver/puppetserver'',
     [tab] @ [tab] @ ''chown -R puppet:puppet /etc/puppet /etc/puppetlabs /var/lib/puppet 2>/dev/null || true'', [],
     [tab] @ [tab] @ ''# Setup autosign.conf'', [tab] @ [tab] @ ''echo \"*.internal.local\" > /etc/puppetlabs/puppet/autosign.conf'',
     [tab] @ [tab] @ ''echo \"*.main.local\" >> /etc/puppetlabs/puppet/autosign.conf'',
     [tab] @ [tab] @ ''chmod 644 /etc/puppetlabs/puppet/autosign.conf'',
     [tab] @ [tab] @ ''ln -sf /etc/puppetlabs/puppet/autosign.conf /etc/puppet/autosign.conf'', [],
     [tab] @ [tab] @ ''# Ensure local puppet alias in /etc/hosts'',
     [tab] @ [tab] @ ''grep -q \"puppet\" /etc/hosts || echo \"127.0.0.1 puppet\" >> /etc/hosts'', [], [tab] @ [tab] @ ''systemctl enable puppetserver'',
     [tab] @ [tab] @ ''if ! systemctl is-active --quiet puppetserver; then'', [tab] @ [tab] @ [tab] @ ''systemctl start puppetserver'',
     [tab] @ [tab] @ ''fi'', [], [tab] @ [tab] @ ''puppetserver ca list --all >/dev/null || puppetserver ca setup || true'', [],
     [tab] @ [tab] @ ''# Wait for API HTTP'', [tab] @ [tab] @ ''for i in {1..60}; do'',
     [tab] @ [tab] @ [tab] @ ''if puppetserver ca list --all >/dev/null 2>&1; then'', [tab] @ [tab] @ [tab] @ [tab] @ ''exit 0'',
     [tab] @ [tab] @ [tab] @ ''fi'', [tab] @ [tab] @ [tab] @ ''sleep 5'', [tab] @ [tab] @ ''done'', [tab] @ [tab] @ ''exit 1'', [tab]] [nl])"

definition installPuppetServer :: "('x, 'z) ssh_env_scheme \<Rightarrow> ctx \<Rightarrow> string \<Rightarrow> 'x sworld \<Rightarrow> goerr option \<times> 'x sworld" where
  "installPuppetServer E c ip w =
     check_err (run_proc (WaitForAptLock E c ip) w) (\<lambda>e. Errorf ''wait for apt lock on jumpstart: %w'' [e])
       (must E c ip puppet_server_cmd (\<lambda>r. Errorf ''failed puppet server install on jumpstart (exit %d): %v'' [itoa (ro_code r), err_v (ro_err r)]))"

definition remoteCodeDir :: string where
  "remoteCodeDir = ''/etc/puppetlabs/code/environments/production''"

text \<open>The directory with the code, seen from where the program runs.\<close>

definition localPuppetDir :: "('x, 'p, 'z) env_scheme \<Rightarrow> ('x, 'p) world \<Rightarrow> string" where
  "localPuppetDir E w = (case Stat E ''puppet'' w of
      Inl e \<Rightarrow> if IsNotExist e
        then (case find (\<lambda>d. \<exists>n. Stat E d w = Inr n) [''../puppet'', ''../../puppet''] of None \<Rightarrow> ''puppet'' | Some d \<Rightarrow> d)
        else ''puppet''
    | Inr n \<Rightarrow> ''puppet'')"

definition chown_code_cmd :: string where
  "chown_code_cmd = Sprintf ''chown -R puppet:puppet %s && chmod -R u+rwX,go+rX %s'' [remoteCodeDir, remoteCodeDir]"

definition uploadPuppetCode :: "('x, 'z) ssh_env_scheme \<Rightarrow> ctx \<Rightarrow> string \<Rightarrow> 'x sworld \<Rightarrow> goerr option \<times> 'x sworld" where
  "uploadPuppetCode E c ip w = (let dir = localPuppetDir E w in
     case run_command E c ip (Sprintf ''mkdir -p %s'' [remoteCodeDir]) w of (r, w) \<Rightarrow>
     check_err (ro_err r, w) (\<lambda>e. e) (\<lambda>w.
     check_err (run_proc (CopyDir E c ip dir remoteCodeDir) w) (\<lambda>e. Errorf ''copy dir failed: %w'' [e]) (\<lambda>w.
     (None, ignore_command E c ip chown_code_cmd w))))"

definition jumpstart_agent :: "('x, 'z) ssh_env_scheme \<Rightarrow> ctx \<Rightarrow> string \<Rightarrow> 'x sworld \<Rightarrow> goerr option \<times> 'x sworld" where
  "jumpstart_agent E c ip w = (case run_proc (RunPuppetAgentCmd E c ip ''jumpstart'' (PuppetAgentCommand ''jumpstart.internal.local'')) w of
     (((out, err), e), w) \<Rightarrow>
       (case e of None \<Rightarrow> None
        | Some e \<Rightarrow> Some (Errorf (''puppet agent failed on jumpstart %s: %v'' @ nl # ''%s'') [ip, e, tailLines err]), w))"

section \<open>The agents\<close>

definition getAgentNodes :: "Config \<Rightarrow> NodeSpec list" where
  "getAgentNodes cfg = filter (\<lambda>n. IP n \<noteq> [] \<and> IP n \<noteq> n_IP (Jumpstart (Nodes cfg))) (AllNodes cfg)"

definition agent_install_cmd :: "string \<Rightarrow> NodeSpec \<Rightarrow> string" where
  "agent_install_cmd jump n = Sprintf (Join [[], [tab] @ [tab] @ [tab] @ [tab] @ ''set -e'', [tab] @ [tab] @ [tab] @ [tab] @ ''export DEBIAN_FRONTEND=noninteractive'',
     [tab] @ [tab] @ [tab] @ [tab] @ ''%s'', [tab] @ [tab] @ [tab] @ [tab] @ ''if ! dpkg -l | grep -q puppet8-release; then'',
     [tab] @ [tab] @ [tab] @ [tab] @ [tab] @ ''wget -q https://apt.puppet.com/puppet8-release-noble.deb -O /tmp/puppet8-release-noble.deb'',
     [tab] @ [tab] @ [tab] @ [tab] @ [tab] @ ''dpkg -i /tmp/puppet8-release-noble.deb || true'',
     [tab] @ [tab] @ [tab] @ [tab] @ [tab] @ ''apt-get update'', [tab] @ [tab] @ [tab] @ [tab] @ ''fi'',
     [tab] @ [tab] @ [tab] @ [tab] @ ''dpkg -s puppet-agent >/dev/null 2>&1 || apt-get install -o Dpkg::Options::=\"--force-confold\" -o Dpkg::Options::=\"--force-confdef\" -y puppet-agent'',
     [], [tab] @ [tab] @ [tab] @ [tab] @ ''ln -sf /opt/puppetlabs/bin/puppet /usr/local/bin/puppet'',
     [tab] @ [tab] @ [tab] @ [tab] @ ''grep -q \"jumpstart.internal.local\" /etc/hosts || echo \"%s jumpstart.internal.local jumpstart puppet\" >> /etc/hosts'',
     [], [tab] @ [tab] @ [tab] @ [tab] @ ''mkdir -p /etc/puppetlabs/puppet'',
     [tab] @ [tab] @ [tab] @ [tab] @ ''cat << 'EOF_PUPPET' > /etc/puppetlabs/puppet/puppet.conf'', ''[main]'', ''server = jumpstart.internal.local'',
     ''environment = production'', ''runinterval = 30m'', ''certname = %s'', ''EOF_PUPPET'', [],
     [tab] @ [tab] @ [tab] @ [tab] @ ''systemctl enable puppet'', [tab] @ [tab] @ [tab]] [nl]) [AptLockWaitSnippet, jump, FQDN n]"

definition install_agent :: "('x, 'z) ssh_env_scheme \<Rightarrow> ctx \<Rightarrow> string \<Rightarrow> NodeSpec \<Rightarrow> ('x, goerr option) sproc" where
  "install_agent E c jump n = andThen (RunCommand E c (IP n) (agent_install_cmd jump n)) (\<lambda>r.
     Return (if refused r then Some (Errorf ''exit code %d: %w'' [itoa (ro_code r), err_w (ro_err r)]) else None))"

definition host_failures :: "ParallelResult list \<Rightarrow> string list" where
  "host_failures rs = concat (map (\<lambda>r. case Err r of None \<Rightarrow> [] | Some e \<Rightarrow> [Sprintf ''%s: %v'' [Host r, e]]) rs)"

definition installAgents :: "('x, 'z) ssh_env_scheme \<Rightarrow> Config \<Rightarrow> ctx \<Rightarrow> NodeSpec list \<Rightarrow> 'x sworld \<Rightarrow> goerr option \<times> 'x sworld" where
  "installAgents E cfg c nodes w = (case RunParallelFunc E (tasks_of IP (install_agent E c (n_IP (Jumpstart (Nodes cfg)))) nodes) w of (rs, w) \<Rightarrow>
     (if host_failures rs \<noteq> [] then Some (Errorf (''failed to install agents on some nodes:'' @ nl # ''%s'') [Join (host_failures rs) [nl]]) else None, w))"

section \<open>Credentials\<close>

text \<open>Which node gets which credentials: the masters those of the exporter, the frontends all; a later entry for an address replaces an earlier one.\<close>

definition runtime_nodes :: "Config \<Rightarrow> string \<Rightarrow> string \<Rightarrow> (string \<times> string \<times> string) list" where
  "runtime_nodes cfg credentials exporterCredentials =
     fold (\<lambda>n. if n_IP n \<noteq> [] then AList.update (n_IP n) (n_Name n, credentials) else id) (CMSFrontends (Nodes cfg))
       (fold (\<lambda>n. if n_IP n \<noteq> [] then AList.update (n_IP n) (n_Name n, exporterCredentials) else id) (Masters (Nodes cfg)) [])"

definition secret_dir_cmd :: string where
  "secret_dir_cmd = ''install -d -m 0700 /etc/cms-ha''"

definition secret_task :: "('x, 'z) ssh_env_scheme \<Rightarrow> ctx \<Rightarrow> string \<times> string \<times> string \<Rightarrow> ('x, goerr option) sproc" where
  "secret_task E c = (\<lambda>(ip, name, credentials). andThen (RunCommand E c ip secret_dir_cmd) (\<lambda>r. case ro_err r of
      Some e \<Rightarrow> Return (Some (Errorf ''prepare credentials directory on %s (%s): %w'' [name, ip, e]))
    | None \<Rightarrow> if ro_code r \<noteq> 0
        then Return (Some (Errorf ''prepare credentials directory on %s (%s) exited with code %d'' [name, ip, itoa (ro_code r)]))
        else andThen (CopyContent E c ip credentials ''/etc/cms-ha/runtime-secrets.json'' 384) (\<lambda>e.
          Return (case e of None \<Rightarrow> None | Some e \<Rightarrow> Some (Errorf ''copy runtime credentials to %s (%s): %w'' [name, ip, e])))))"

definition full_credentials :: "Config \<Rightarrow> (string \<times> string) list" where
  "full_credentials cfg = [(''database_password'', db_Password (Database cfg)), (''database_exporter_password'', ExporterPassword (Database cfg)),
     (''wordpress_admin_password'', AdminPassword cfg)]"

definition exporter_credentials :: "Config \<Rightarrow> (string \<times> string) list" where
  "exporter_credentials cfg = [(''database_exporter_password'', ExporterPassword (Database cfg))]"

definition secrets_unset :: "Config \<Rightarrow> bool" where
  "secrets_unset cfg \<longleftrightarrow> db_Password (Database cfg) = [] \<or> ExporterPassword (Database cfg) = [] \<or> AdminPassword cfg = []"

definition installRuntimeSecretFiles :: "('x, 'z) puppet_env_scheme \<Rightarrow> Config \<Rightarrow> ctx \<Rightarrow> 'x sworld \<Rightarrow> goerr option \<times> 'x sworld" where
  "installRuntimeSecretFiles E cfg c w =
     (if secrets_unset cfg then (Some ''database.password, database.exporter_password, and wordpress.admin_password must be set'', w)
      else case pp_marshal E (full_credentials cfg) of
        Inl e \<Rightarrow> (Some (Errorf ''marshal runtime facts: %w'' [e]), w)
      | Inr full \<Rightarrow> (case pp_marshal E (exporter_credentials cfg) of
          Inl e \<Rightarrow> (Some (Errorf ''marshal exporter credentials: %w'' [e]), w)
        | Inr exporter \<Rightarrow>
            (case RunParallelFunc E (tasks_of fst (secret_task E c) (runtime_nodes cfg full exporter)) w of (rs, w) \<Rightarrow> (first_some Err rs, w))))"

section \<open>The first catalog\<close>

definition catalog_cmd :: string where
  "catalog_cmd = (Join [[], [tab] @ [tab] @ [tab] @ [tab] @ ''systemctl stop puppet 2>/dev/null || true'',
     [tab] @ [tab] @ [tab] @ [tab] @ ''/opt/puppetlabs/bin/puppet agent -t --server jumpstart.internal.local'',
     [tab] @ [tab] @ [tab] @ [tab] @ ''code=$?'', [tab] @ [tab] @ [tab] @ [tab] @ ''if [ $code -eq 0 ] || [ $code -eq 2 ]; then'',
     [tab] @ [tab] @ [tab] @ [tab] @ [tab] @ ''systemctl start puppet || true'', [tab] @ [tab] @ [tab] @ [tab] @ [tab] @ ''exit 0'',
     [tab] @ [tab] @ [tab] @ [tab] @ ''fi'', [tab] @ [tab] @ [tab] @ [tab] @ ''exit $code'', [tab] @ [tab] @ [tab]] [nl])"

definition clean_cert_cmd :: "NodeSpec \<Rightarrow> string" where
  "clean_cert_cmd n = Sprintf ''puppetserver ca clean --certname %s 2>/dev/null || true'' [FQDN n]"

definition clean_ssl_cmd :: string where
  "clean_ssl_cmd = ''rm -rf /etc/puppetlabs/puppet/ssl /etc/puppet/ssl''"

definition key_mismatch :: "run_out \<Rightarrow> bool" where
  "key_mismatch r \<longleftrightarrow> ro_code r \<noteq> 0 \<and> (Contains (ro_stdout r) ''does not match its private key'' \<or> Contains (ro_stderr r) ''does not match its private key'')"

definition catalog_error :: "NodeSpec \<Rightarrow> run_out \<Rightarrow> string list" where
  "catalog_error n r = (if refused r
     then [Sprintf (''%s (%s): exit %d: %v'' @ nl # ''STDOUT: %s'' @ nl # ''STDERR: %s'')
       [Name n, IP n, itoa (ro_code r), err_v (ro_err r), TrimSpace (ro_stdout r), TrimSpace (ro_stderr r)]] else [])"

text \<open>A node whose certificate does not match its key is reset and tried once more, within the same ten minutes.\<close>

definition catalog_task :: "('x, 'z) ssh_env_scheme \<Rightarrow> ctx \<Rightarrow> string \<Rightarrow> NodeSpec \<Rightarrow> ('x, string list) sproc" where
  "catalog_task E c jump n = andThen (atomic (\<lambda>w. (WithTimeout c (600 * Second) w, w))) (\<lambda>nodeCtx.
     andThen (RunCommand E nodeCtx (IP n) catalog_cmd) (\<lambda>r.
     if key_mismatch r
     then andThen (RunCommand E c jump (clean_cert_cmd n)) (\<lambda>_.
       andThen (RunCommand E c (IP n) clean_ssl_cmd) (\<lambda>_.
       andThen (RunCommand E nodeCtx (IP n) catalog_cmd) (\<lambda>r. Return (catalog_error n r))))
     else Return (catalog_error n r)))"

definition catalog_limit :: "('x, 'p, 'z) env_scheme \<Rightarrow> nat \<Rightarrow> nat" where
  "catalog_limit E n = (let v = e_getenv E ''PUPPET_CONCURRENCY'';
     limit = (if v = [] then 4 else case Atoi v of None \<Rightarrow> 4 | Some i \<Rightarrow> if i > 0 then nat i else 4) in min limit n)"

text \<open>The errors in the order in which they were appended.\<close>

definition runFirstCatalog :: "('x, 'z) ssh_env_scheme \<Rightarrow> Config \<Rightarrow> ctx \<Rightarrow> NodeSpec list \<Rightarrow> 'x sworld \<Rightarrow> goerr option \<times> 'x sworld" where
  "runFirstCatalog E cfg c nodes w =
     (case parallel E (catalog_limit E (length nodes)) (map (catalog_task E c (n_IP (Jumpstart (Nodes cfg)))) nodes) w of (fin, w) \<Rightarrow>
       (let errs = concat (map snd fin) in
        (if errs \<noteq> [] then Some (Errorf (''failed catalog run on some nodes:'' @ nl # ''%s'') [Join errs [nl]]) else None, w)))"

section \<open>The phase\<close>

definition puppet_secrets :: "Config \<Rightarrow> (string \<times> string) list" where
  "puppet_secrets cfg = [(''database.password'', db_Password (Database cfg)), (''database.exporter_password'', ExporterPassword (Database cfg)),
     (''wordpress.admin_password'', AdminPassword cfg)]"

definition puppet_preflight :: "('x, 'z) puppet_env_scheme \<Rightarrow> Config \<Rightarrow> goerr option" where
  "puppet_preflight E cfg =
     (if secrets_unset cfg then Some ''database.password, database.exporter_password, and wordpress.admin_password must be set in config.yaml''
      else case first_some (\<lambda>ns. if nl \<in> set (snd ns) \<or> CHR 0x0D \<in> set (snd ns) then Some (Errorf ''%s cannot contain line breaks'' [fst ns]) else None)
          (ranged (pp_order E) (puppet_secrets cfg)) of
        Some e \<Rightarrow> Some e
      | None \<Rightarrow> if n_IP (Jumpstart (Nodes cfg)) = [] then Some ''jumpstart IP is empty'' else None)"

definition sign_cmd :: string where
  "sign_cmd = ''puppetserver ca sign --all 2>/dev/null || true''"

definition puppet_Run :: "('x, 'z) puppet_env_scheme \<Rightarrow> Config \<Rightarrow> ctx \<Rightarrow> 'x sworld \<Rightarrow> goerr option \<times> 'x sworld" where
  "puppet_Run E cfg c w = (case puppet_preflight E cfg of
      Some e \<Rightarrow> (Some e, w)
    | None \<Rightarrow> (let ip = n_IP (Jumpstart (Nodes cfg)); nodes = getAgentNodes cfg in
        check_err (installPuppetServer E c ip w) (\<lambda>e. Errorf ''install puppet server: %w'' [e]) (\<lambda>w.
        check_err (uploadPuppetCode E c ip w) (\<lambda>e. Errorf ''upload puppet code: %w'' [e]) (\<lambda>w.
        check_err (jumpstart_agent E c ip w) (\<lambda>e. e) (\<lambda>w.
        check_err (installAgents E cfg c nodes w) (\<lambda>e. Errorf ''install puppet agents: %w'' [e]) (\<lambda>w.
        check_err (installRuntimeSecretFiles E cfg c w) (\<lambda>e. Errorf ''install runtime credentials for CMS and database exporter: %w'' [e]) (\<lambda>w.
        check_err (runFirstCatalog E cfg c nodes (ignore_command E c ip sign_cmd w)) (\<lambda>e. Errorf ''run first catalog: %w'' [e]) (\<lambda>w. (None, w)))))))))"

end
