(* ===== verification/PuppetProps.thy ===== *)
theory PuppetProps
  imports Puppet
begin

text \<open>
  What the Puppet phase guarantees: who receives which credentials, that none is part of a command, and what a success means for the nodes.
\<close>

section \<open>Who receives credentials\<close>

lemma find_snoc: "find P (xs @ [y]) = (case find P xs of Some x \<Rightarrow> Some x | None \<Rightarrow> if P y then Some y else None)"
  by (induction xs) auto

lemma map_of_last:
  "ip \<noteq> [] \<Longrightarrow> map_of (fold (\<lambda>n. if n_IP n \<noteq> [] then AList.update (n_IP n) (f n) else id) ns al) ip =
    (case find (\<lambda>n. n_IP n = ip) (rev ns) of Some n \<Rightarrow> Some (f n) | None \<Rightarrow> map_of al ip)"
  by (induction ns arbitrary: al) (auto simp: find_snoc update_conv' split: option.split)

lemma map_of_unaddressed: "map_of (fold (\<lambda>n. if n_IP n \<noteq> [] then AList.update (n_IP n) (f n) else id) ns al) [] = map_of al []"
  by (induction ns arbitrary: al) (auto simp: update_conv')

lemma fst_updated:
  "fst ` set (fold (\<lambda>n. if n_IP n \<noteq> [] then AList.update (n_IP n) (f n) else id) ns al) = fst ` set al \<union> (n_IP ` set ns - {[]})"
proof (induction ns arbitrary: al)
  case (Cons n ns)
  have "fst ` set (AList.update k v al) = insert k (fst ` set al)" for k v by (induction al) auto
  with Cons show ?case by auto
qed simp

text \<open>C33. Least privilege: a node receives the full credentials exactly when a frontend is configured at its address, those of the exporter when
  only a database master is, and any other node none. Of several entries with one address the last counts; an empty address is skipped.\<close>

theorem runtime_nodes_least:
  "map_of (runtime_nodes cfg full exporter) ip =
    (if ip = [] then None
     else case find (\<lambda>n. n_IP n = ip) (rev (CMSFrontends (Nodes cfg))) of
       Some n \<Rightarrow> Some (n_Name n, full)
     | None \<Rightarrow> map_option (\<lambda>n. (n_Name n, exporter)) (find (\<lambda>n. n_IP n = ip) (rev (Masters (Nodes cfg)))))"
proof (cases "ip = []")
  case True
  then show ?thesis by (simp add: runtime_nodes_def map_of_unaddressed)
next
  case False
  then show ?thesis unfolding runtime_nodes_def map_of_last [OF False] by (simp split: option.split)
qed

section \<open>The commands of the phase\<close>

definition puppet_commands :: "Config \<Rightarrow> string list" where
  "puppet_commands cfg =
     [puppet_server_cmd, Sprintf ''mkdir -p %s'' [remoteCodeDir],
      Sprintf ''set -e; mkdir -p %s; tar -xf - -C %s --no-same-owner'' [shellQuote remoteCodeDir, shellQuote remoteCodeDir], chown_code_cmd,
      PuppetAgentCommand ''jumpstart.internal.local'', secret_dir_cmd, upload_script ''/etc/cms-ha/runtime-secrets.json'' 384, sign_cmd, catalog_cmd,
      clean_ssl_cmd]
     @ map (agent_install_cmd (n_IP (Jumpstart (Nodes cfg)))) (getAgentNodes cfg) @ map clean_cert_cmd (getAgentNodes cfg)"

text \<open>The script that waits for the lock of the package manager has a random name.\<close>

definition puppet_set :: "Config \<Rightarrow> string set" where
  "puppet_set cfg = set (puppet_commands cfg) \<union> {cmd. \<exists>b. cmd = upload_script (script_path b) 448 \<or> cmd = script_command (script_path b)}"

lemma puppet_commands_public: "puppet_commands (without_secrets cfg) = puppet_commands cfg"
proof -
  have f: "Nodes (without_secrets cfg) = Nodes cfg" "Network (without_secrets cfg) = Network cfg" by (simp_all add: without_secrets_def)
  have "hotdesk_spec (without_secrets cfg) = hotdesk_spec cfg" by (intro ext) (simp add: hotdesk_spec_def hotdesk_octet_def f)
  then have "AllNodes (without_secrets cfg) = AllNodes cfg" by (simp add: AllNodes_def InternalNodes_def MainNodes_def HotdeskSpecs_def f)
  then show ?thesis by (simp add: puppet_commands_def getAgentNodes_def f)
qed

lemma puppet_members [staged]:
  "puppet_server_cmd \<in> puppet_set cfg" "Sprintf ''mkdir -p %s'' [remoteCodeDir] \<in> puppet_set cfg"
  "Sprintf ''set -e; mkdir -p %s; tar -xf - -C %s --no-same-owner'' [shellQuote remoteCodeDir, shellQuote remoteCodeDir] \<in> puppet_set cfg"
  "chown_code_cmd \<in> puppet_set cfg" "PuppetAgentCommand ''jumpstart.internal.local'' \<in> puppet_set cfg" "secret_dir_cmd \<in> puppet_set cfg"
  "upload_script ''/etc/cms-ha/runtime-secrets.json'' 384 \<in> puppet_set cfg" "sign_cmd \<in> puppet_set cfg" "catalog_cmd \<in> puppet_set cfg"
  "clean_ssl_cmd \<in> puppet_set cfg" "upload_script (script_path b) 448 \<in> puppet_set cfg" "script_command (script_path b) \<in> puppet_set cfg"
  by (auto simp: puppet_set_def puppet_commands_def)

lemma puppet_member_sets:
  "n \<in> set (getAgentNodes cfg) \<Longrightarrow> agent_install_cmd (n_IP (Jumpstart (Nodes cfg))) n \<in> puppet_set cfg"
  "n \<in> set (getAgentNodes cfg) \<Longrightarrow> clean_cert_cmd n \<in> puppet_set cfg"
  by (auto simp: puppet_set_def puppet_commands_def)

section \<open>Only these commands are sent\<close>

lemma yields_WaitForAptLock: "routed w \<Longrightarrow> yields onward (\<lambda>r v. True) (WaitForAptLock E c host) w"
  unfolding WaitForAptLock_def by (auto intro!: onward.yields_andThen [OF yields_RunScript] onward.yields_Return)

lemma puppet_keeps_server [staged]: "keeps (prior (puppet_set cfg)) (installPuppetServer E c ip)"
proof -
  have "steps_keep (afar (puppet_set cfg)) (WaitForAptLock E c ip)"
    unfolding WaitForAptLock_def by (auto intro!: keeping puppet_members)
  from prior_run [OF this yields_WaitForAptLock] show ?thesis unfolding installPuppetServer_def by (intro staged)
qed

lemma puppet_keeps_upload [staged]: "keeps (prior (puppet_set cfg)) (uploadPuppetCode E c ip)"
proof -
  have "keeps (prior (puppet_set cfg)) (\<lambda>w. case run_command E c ip (Sprintf ''mkdir -p %s'' [remoteCodeDir]) w of (r, w) \<Rightarrow>
     check_err (ro_err r, w) (\<lambda>e. e) (\<lambda>w.
     check_err (run_proc (CopyDir E c ip dir remoteCodeDir) w) (\<lambda>e. Errorf ''copy dir failed: %w'' [e]) (\<lambda>w.
     (None, ignore_command E c ip chown_code_cmd w))))" for dir
    by (intro staged prior_CopyDir)
  then show ?thesis unfolding uploadPuppetCode_def Let_def keeps_def by blast
qed

lemma puppet_keeps_jumpstart [staged]: "keeps (prior (puppet_set cfg)) (jumpstart_agent E c ip)"
proof -
  have "keeps (prior (puppet_set cfg)) (run_proc (RunPuppetAgentCmd E c ip ''jumpstart'' (PuppetAgentCommand ''jumpstart.internal.local'')))"
    unfolding RunPuppetAgentCmd_def
    by (rule prior_run) (auto intro!: keeping puppet_members onward.yields_andThen [OF yields_RunCommand] onward.yields_Return)
  note agent = keepsD [OF this]
  show ?thesis
    by (rule keepsI) (auto simp: jumpstart_agent_def split: prod.splits dest: agent)
qed

lemma agent_installed:
  assumes "routed w"
  shows "yields onward (\<lambda>r v. r = None \<longrightarrow> succeeded E c (IP n) (agent_install_cmd jump n) w v) (install_agent E c jump n) w"
  unfolding install_agent_def by (rule yields_succeeded [OF assms onward.refl]) (simp split: if_splits)

lemma puppet_keeps_agents [staged]: "keeps (prior (puppet_set cfg)) (installAgents E cfg c (getAgentNodes cfg))"
proof -
  have "keeps (prior (puppet_set cfg)) (RunParallelFunc E (tasks_of IP (install_agent E c (n_IP (Jumpstart (Nodes cfg)))) (getAgentNodes cfg)))"
  proof (rule prior_RunParallelFunc, clarify)
    fix h f assume "(h, f) \<in> set (tasks_of IP (install_agent E c (n_IP (Jumpstart (Nodes cfg)))) (getAgentNodes cfg))"
    then obtain n where n: "n \<in> set (getAgentNodes cfg)" "f = install_agent E c (n_IP (Jumpstart (Nodes cfg))) n"
      using set_tasks_of_sub by blast
    have "steps_keep (afar (puppet_set cfg)) f" unfolding n(2) install_agent_def by (auto intro!: keeping puppet_member_sets n(1))
    with yields_True [OF agent_installed] show "steps_keep (afar (puppet_set cfg)) f \<and> (\<forall>w. routed w \<longrightarrow> yields onward (\<lambda>r v. True) f w)"
      unfolding n(2) by blast
  qed
  then show ?thesis unfolding installAgents_def by (rule prior.keeps_bind [OF _ prior.keeps_return])
qed

lemma directory_made:
  assumes w: "routed w"
  shows "yields onward (\<lambda>r v. r = None \<longrightarrow> succeeded E c (fst t) secret_dir_cmd w v) (secret_task E c t) w"
proof -
  obtain ip name cred where t: "t = (ip, name, cred)" by (cases t)
  let ?k = "\<lambda>r. case ro_err r of Some e \<Rightarrow> Return (Some (Errorf ''prepare credentials directory on %s (%s): %w'' [name, ip, e]))
      | None \<Rightarrow> if ro_code r \<noteq> 0 then Return (Some (Errorf ''prepare credentials directory on %s (%s) exited with code %d'' [name, ip, itoa (ro_code r)]))
        else andThen (CopyContent E c ip cred ''/etc/cms-ha/runtime-secrets.json'' 384) (\<lambda>e.
          Return (case e of None \<Rightarrow> None | Some e \<Rightarrow> Some (Errorf ''copy runtime credentials to %s (%s): %w'' [name, ip, e])))"
  show ?thesis unfolding t secret_task_def prod.case fst_conv
  proof (rule onward.yields_andThen [OF yields_RunCommand [OF w]])
    fix r v assume v: "onward w v" and r: "ro_err r = None \<longrightarrow> served E c ip secret_dir_cmd w r v"
    show "yields onward (\<lambda>r v. r = None \<longrightarrow> succeeded E c ip secret_dir_cmd w v) (?k r) v"
    proof (cases "ro_err r = None \<and> ro_code r = 0")
      case True
      with r have s: "succeeded E c ip secret_dir_cmd w v" unfolding succeeded_def by (intro exI [of _ r]) simp
      have "succeeded E c ip secret_dir_cmd w t" if "onward v t" for t using succeeded_onward [OF onward.refl s that] .
      then show ?thesis using True
        by (auto intro!: onward.yields_andThen [OF yields_CopyContent [OF routed_later [OF w v]]] onward.yields_Return intro: onward.trans)
    next
      case False
      then show ?thesis by (auto simp: onward.yields_Return split: option.split)
    qed
  qed
qed

lemma puppet_keeps_secrets [staged]: "keeps (prior (puppet_set cfg)) (installRuntimeSecretFiles E cfg' c)"
proof -
  have "steps_keep (afar (puppet_set cfg)) (secret_task E c t)" for t
    unfolding secret_task_def by (cases t) (auto intro!: keeping puppet_members split: option.split)
  from prior_tasks [OF this yields_True [OF directory_made]]
  have "keeps (prior (puppet_set cfg)) (RunParallelFunc E (tasks_of fst (secret_task E c) ts))" for ts .
  from prior.keeps_bind [OF this prior.keeps_return]
  show ?thesis unfolding installRuntimeSecretFiles_def by (intro staged)
qed

text \<open>Where a node ends without an error, the agent converged on it: on the first attempt, or on the one after the reset.\<close>

abbreviation converged :: "('x, 'z) ssh_env_scheme \<Rightarrow> string \<Rightarrow> 'x sworld \<Rightarrow> 'x sworld \<Rightarrow> bool" where
  "converged E ip w w' \<equiv> \<exists>d. succeeded E d ip catalog_cmd w w'"

lemma catalog_converged:
  assumes w: "routed w"
  shows "yields onward (\<lambda>r v. r = [] \<longrightarrow> converged E (IP n) w v) (catalog_task E c jump n) w"
proof -
  let ?Q = "\<lambda>r v. r = [] \<longrightarrow> converged E (IP n) w v"
  have fin: "yields onward ?Q (Return (catalog_error n r)) v" if "onward w u" and "ro_err r = None \<longrightarrow> served E d (IP n) catalog_cmd u r v" for d r u v
  proof (rule onward.yields_Return)
    fix t assume t: "onward v t"
    have "succeeded E d (IP n) catalog_cmd w t" if "catalog_error n r = []"
    proof -
      have ok: "ro_err r = None" "ro_code r = 0" using that by (auto simp: catalog_error_def refused_def split: if_splits)
      with \<open>ro_err r = None \<longrightarrow> _\<close> have "succeeded E d (IP n) catalog_cmd u v" unfolding succeeded_def by (intro exI [of _ r]) simp
      from succeeded_onward [OF \<open>onward w u\<close> this t] show ?thesis .
    qed
    then show "?Q (catalog_error n r) t" by blast
  qed
  have run: "yields onward ?Q (andThen (RunCommand E d (IP n) catalog_cmd) (\<lambda>r. Return (catalog_error n r))) u" if "onward w u" for d u
    by (rule onward.yields_andThen [OF yields_RunCommand [OF routed_later [OF w that]]]) (rule fin [OF that])
  have again: "yields onward ?Q (andThen (RunCommand E c h1 c1) (\<lambda>_. andThen (RunCommand E c h2 c2) (\<lambda>_.
      andThen (RunCommand E d (IP n) catalog_cmd) (\<lambda>r. Return (catalog_error n r))))) u" if u: "onward w u" for d u h1 c1 h2 c2
  proof (rule onward.yields_andThen [OF yields_RunCommand [OF routed_later [OF w u]]])
    fix v assume "onward u v"
    with u have v: "onward w v" by (rule onward.trans)
    show "yields onward ?Q (andThen (RunCommand E c h2 c2) (\<lambda>_. andThen (RunCommand E d (IP n) catalog_cmd) (\<lambda>r. Return (catalog_error n r)))) v"
      by (rule onward.yields_andThen [OF yields_RunCommand [OF routed_later [OF w v]]]) (rule run, rule onward.trans [OF v])
  qed
  show ?thesis unfolding catalog_task_def
  proof (rule yields_then [OF onward.keeps_return_state])
    fix d :: ctx and u assume u: "onward w u"
    show "yields onward ?Q (andThen (RunCommand E d (IP n) catalog_cmd) (\<lambda>r. if key_mismatch r
        then andThen (RunCommand E c jump (clean_cert_cmd n)) (\<lambda>_. andThen (RunCommand E c (IP n) clean_ssl_cmd) (\<lambda>_.
          andThen (RunCommand E d (IP n) catalog_cmd) (\<lambda>r. Return (catalog_error n r))))
        else Return (catalog_error n r))) u"
    proof (rule onward.yields_andThen [OF yields_RunCommand [OF routed_later [OF w u]]])
      fix r v assume v: "onward u v" and r: "ro_err r = None \<longrightarrow> served E d (IP n) catalog_cmd u r v"
      show "yields onward ?Q (if key_mismatch r
          then andThen (RunCommand E c jump (clean_cert_cmd n)) (\<lambda>_. andThen (RunCommand E c (IP n) clean_ssl_cmd) (\<lambda>_.
            andThen (RunCommand E d (IP n) catalog_cmd) (\<lambda>r. Return (catalog_error n r))))
          else Return (catalog_error n r)) v"
        using again [OF onward.trans [OF u v]] fin [OF u r] by simp
    qed
  qed
qed

lemma puppet_keeps_catalog [staged]: "keeps (prior (puppet_set cfg)) (runFirstCatalog E cfg c (getAgentNodes cfg))"
proof -
  have "steps_keep (afar (puppet_set cfg)) (catalog_task E c jump n)" if "n \<in> set (getAgentNodes cfg)" for n jump
    unfolding catalog_task_def by (auto intro!: keeping puppet_members puppet_member_sets that afar.keeps_return_state)
  then have "keeps (prior (puppet_set cfg)) (parallel E lim (map (catalog_task E c jump) (getAgentNodes cfg)))" for lim jump
    by (intro prior_parallel_group) (auto intro: yields_True [OF catalog_converged])
  then show ?thesis unfolding runFirstCatalog_def Let_def by (rule prior.keeps_bind [OF _ prior.keeps_return])
qed

lemma puppet_keeps: "keeps (prior (puppet_set cfg)) (puppet_Run E cfg c)"
  unfolding puppet_Run_def Let_def by (intro staged prior_ignore [OF puppet_members(8)])

text \<open>No password appears in a command of the phase: every command that it sends can be computed from the configuration without its passwords; they
  travel in the content of uploads only.\<close>

theorem puppet_secrets_unsent:
  assumes "puppet_Run E cfg c w = (r, w')" and "RunOn n s \<in> set (added w w')"
  shows "\<exists>p. \<exists>cmd \<in> puppet_set (without_secrets cfg). s = remoteCommand p cmd"
  using prior_sent [OF keepsD [OF puppet_keeps assms(1)] assms(2)] by (auto simp: sent_def puppet_set_def puppet_commands_public)

section \<open>What a success tells\<close>

lemma credentials_installed:
  assumes w: "routed w" and run: "installRuntimeSecretFiles E cfg c w = (None, w')"
    and n: "n \<in> set (CMSFrontends (Nodes cfg)) \<union> set (Masters (Nodes cfg))" and ip: "n_IP n \<noteq> []"
  shows "succeeded E c (n_IP n) secret_dir_cmd w w'"
proof -
  obtain full ex rs where rs: "RunParallelFunc E (tasks_of fst (secret_task E c) (runtime_nodes cfg full ex)) w = (rs, w')" and ok: "first_some Err rs = None"
    using run by (auto simp: installRuntimeSecretFiles_def split: prod.splits sum.splits if_splits)
  let ?nodes = "runtime_nodes cfg full ex" and ?P = "\<lambda>h v. succeeded E c h secret_dir_cmd w v"
  have t: "yields onward (\<lambda>r v. r = None \<longrightarrow> ?P h v) f w" if h: "(h, f) \<in> set (tasks_of fst (secret_task E c) ?nodes)" for h f
  proof -
    obtain t where "h = fst t" "f = secret_task E c t" using h set_tasks_of_sub [of fst "secret_task E c" ?nodes] by blast
    with directory_made [OF w] show ?thesis by simp
  qed
  have "n_IP n \<in> fst ` set ?nodes" using n ip by (auto simp: runtime_nodes_def fst_updated)
  then have h: "n_IP n \<in> fst ` set (tasks_of fst (secret_task E c) ?nodes)" by (simp only: keys_of_tasks)
  from bspec [OF conjunct2 [OF RunParallelFunc_onward [where Q = "\<lambda>h r v. r = None \<longrightarrow> ?P h v", OF t rs]] h]
  obtain r where r: "r \<in> set rs" "Host r = n_IP n \<and> (Err r = None \<longrightarrow> ?P (n_IP n) w')" by (rule bexE)
  with ok show ?thesis by simp
qed

lemma catalogs_converged:
  assumes w: "routed w" and run: "runFirstCatalog E cfg c nodes w = (None, w')" and n: "n \<in> set nodes"
  shows "converged E (IP n) w w'"
proof -
  let ?task = "catalog_task E c (n_IP (Jumpstart (Nodes cfg)))"
  obtain fin where fin: "parallel E (catalog_limit E (length nodes)) (map ?task nodes) w = (fin, w')" and ok: "concat (map snd fin) = []"
    using run by (auto simp: runFirstCatalog_def Let_def split: prod.splits if_splits)
  then have "\<forall>r \<in> snd ` set fin. r = []" by auto
  from group_done [OF catalog_converged [OF w] fin this n] show ?thesis .
qed

lemma jumpstart_converged:
  assumes w: "routed w" and run: "jumpstart_agent E c ip w = (None, w')"
  shows "succeeded E c ip (PuppetAgentCommand ''jumpstart.internal.local'') w w'"
proof -
  obtain r where r: "run_command E c ip (PuppetAgentCommand ''jumpstart.internal.local'') w = (r, w')" and a: "snd (agent_result ''jumpstart'' ip r) = None"
    using run by (auto simp: jumpstart_agent_def RunPuppetAgentCmd_def run_command_def split: prod.splits option.splits)
  have "ro_err r = None" using a by (auto simp: agent_result_def split: if_splits)
  with run_command_answered [OF w r] served_code show ?thesis unfolding succeeded_def by blast
qed


end
