(* ===== verification/PuppetLab.thy ===== *)
theory PuppetLab
  imports PuppetProps SmoothRuns ConfigSample
begin

text \<open>The properties of the Puppet phase, applied to a run on servers on which every command succeeds, where the nodes converge one after the other.\<close>

definition puppet_lab :: "(string \<Rightarrow> string option) puppet_env" where
  "puppet_lab = ssh_env.extend ((prompt (\<lambda>cmd. []) (\<lambda>cmd. RunOk))\<lparr>e_sched := \<lambda>w. []\<rparr>) \<lparr>pp_marshal = \<lambda>m. Inr (concat (map fst m)), pp_order = \<lambda>ks. ks\<rparr>"

definition puppet_config :: Config where
  "puppet_config = sample_config\<lparr>Database := (Database sample_config)\<lparr>db_Password := ''p1'', ExporterPassword := ''p3''\<rparr>, AdminPassword := ''p4''\<rparr>"

lemma puppet_kind: "kind puppet_lab (\<lambda>cmd. []) (\<lambda>cmd. RunOk)"
  by (simp add: kind_def puppet_lab_def prompt_def lab_def ssh_env.defs)

lemma puppet_lab_fields: "e_sched puppet_lab w = []" "s_walk puppet_lab d w = []" "pp_marshal puppet_lab m = Inr (concat (map fst m))" "pp_order puppet_lab = (\<lambda>ks. ks)"
  by (simp_all add: puppet_lab_def prompt_def lab_def ssh_env.defs)

abbreviation silent :: "string \<Rightarrow> run_out" where
  "silent \<equiv> answer (\<lambda>cmd. []) (\<lambda>cmd. RunOk)"

lemma silent_ok: "ro_err (silent cmd) = None" "ro_code (silent cmd) = 0"
  by (simp_all add: answer_def)

lemmas puppet_command = goes_bind [OF goes_command [OF puppet_kind]] and [going] = goes_copy_content [OF puppet_kind]

lemma puppet_must [going]: "passes cx (must puppet_lab cx host cmd msg)"
  by (rule goes_must [OF puppet_kind]) simp

section \<open>Every stage succeeds\<close>

lemma puppet_lab_server [going]: "passes cx (installPuppetServer puppet_lab cx ip)"
proof -
  have "passes cx (run_proc (WaitForAptLock puppet_lab cx ip))"
    unfolding WaitForAptLock_def
    by (rule goes_yields, rule tame.yields_andThen [OF tame_RunScript [OF puppet_kind]]) (auto intro: tame.yields_Return)
  then show ?thesis unfolding installPuppetServer_def by (intro going)
qed

lemma puppet_lab_copies [going]: "passes cx (run_proc (CopyDir puppet_lab cx host l d))"
proof (rule goes_yields)
  fix w :: "(string \<Rightarrow> string option) sworld" assume w: "tame cx w"
  show "yields (stays_tame cx) (\<lambda>r v. r = None) (CopyDir puppet_lab cx host l d) w"
    unfolding CopyDir_def if_elevated_def puppet_lab_fields
  proof (rule tame_then [OF w, where P = "\<lambda>b. \<not> b"])
    show "tame cx v' \<and> \<not> b" if "tame cx v" "(elevated (w_heap v), v) = (b, v')" for v b v' using that by (auto simp: tame_def elevated_def)
  next
    fix b :: bool and v :: "(string \<Rightarrow> string option) sworld" assume v: "tame cx v" and b: "\<not> b"
    have "yields (stays_tame cx) (\<lambda>r v. r = None) (withSFTPClient puppet_lab cx host (\<lambda>c. andThen (atomic (\<lambda>w. ([], w))) (\<lambda>vs.
        walk_all (copy_visit puppet_lab cx c l d) vs))) v"
      unfolding withSFTPClient_def
    proof (rule tame.yields_andThen [OF tame_open_session [OF puppet_kind v tame_sftp_client [OF puppet_kind]]], assumption, assumption)
      fix r :: "nat res" and u assume "stays_tame cx v u" "\<exists>c. r = Inr c"
      with v obtain c where c: "r = Inr c" "tame cx u" by (auto simp: stays_tame_def)
      show "yields (stays_tame cx) (\<lambda>r v. r = None) (case r of Inl e \<Rightarrow> Return (Some e)
        | Inr c \<Rightarrow> andThen (atomic (\<lambda>w. (ctx_err cx w, w))) (\<lambda>e. case e of Some e \<Rightarrow> Return (Some e)
          | None \<Rightarrow> andThen (atomic (\<lambda>w. ([], w))) (\<lambda>vs. walk_all (copy_visit puppet_lab cx c l d) vs))) u"
        unfolding c sum.case
      proof (rule tame_then [OF c(2), where P = "\<lambda>e. e = None"])
        show "tame cx t' \<and> e = None" if "tame cx t" "(ctx_err cx t, t) = (e, t')" for t e t' using that by (auto simp: tame_ctx)
      next
        fix e :: "goerr option" and t :: "(string \<Rightarrow> string option) sworld" assume t: "tame cx t" "e = None"
        show "yields (stays_tame cx) (\<lambda>r v. r = None) (case e of Some e \<Rightarrow> Return (Some e)
          | None \<Rightarrow> andThen (atomic (\<lambda>w. ([], w))) (\<lambda>vs. walk_all (copy_visit puppet_lab cx c l d) vs)) t"
          unfolding t(2) option.case by (rule tame_then [OF t(1), where P = "\<lambda>vs. vs = []"]) (auto intro: tame.yields_Return)
      qed
    qed
    with b show "yields (stays_tame cx) (\<lambda>r v. r = None) (if b then copyDirElevated puppet_lab cx host l d
        else withSFTPClient puppet_lab cx host (\<lambda>c. andThen (atomic (\<lambda>w. ([], w))) (\<lambda>vs. walk_all (copy_visit puppet_lab cx c l d) vs))) v" by simp
  qed
qed

lemma puppet_lab_upload [going]: "passes cx (uploadPuppetCode puppet_lab cx ip)"
proof -
  have "passes cx (\<lambda>w. case run_command puppet_lab cx ip (Sprintf ''mkdir -p %s'' [remoteCodeDir]) w of (r, w) \<Rightarrow>
     check_err (ro_err r, w) (\<lambda>e. e) (\<lambda>w. check_err (run_proc (CopyDir puppet_lab cx ip dir remoteCodeDir) w) (\<lambda>e. Errorf ''copy dir failed: %w'' [e]) (\<lambda>w.
     (None, ignore_command puppet_lab cx ip chown_code_cmd w))))" for dir
    by (rule puppet_command) (simp add: silent_ok check_err_def [of "(None, _)"], intro going goes_last refl tame_ignore [OF puppet_kind])
  then show ?thesis unfolding uploadPuppetCode_def Let_def goes_def by blast
qed

lemma puppet_lab_jumpstart [going]: "passes cx (jumpstart_agent puppet_lab cx ip)"
  unfolding goes_def
proof (intro allI impI)
  fix w :: "(string \<Rightarrow> string option) sworld" and r w' assume w: "tame cx w" and run: "jumpstart_agent puppet_lab cx ip w = (r, w')"
  obtain o' v where o': "run_command puppet_lab cx ip (PuppetAgentCommand ''jumpstart.internal.local'') w = (o', v)" by fastforce
  from goesD [OF goes_command [OF puppet_kind] w o'] have "o' = silent (PuppetAgentCommand ''jumpstart.internal.local'')" "tame cx v" by simp_all
  with run o' show "r = None \<and> tame cx w'"
    by (auto simp: jumpstart_agent_def RunPuppetAgentCmd_def run_command_def agent_result_def silent_ok)
qed

lemma puppet_agents_install [going]: "passes cx (installAgents puppet_lab cfg cx nodes)"
  unfolding installAgents_def
proof (rule goes_bind [OF goes_RunParallelFunc])
  fix h f and w :: "(string \<Rightarrow> string option) sworld"
  assume "(h, f) \<in> set (tasks_of IP (install_agent puppet_lab cx (n_IP (Jumpstart (Nodes cfg)))) nodes)" and w: "tame cx w"
  then obtain n where f: "f = install_agent puppet_lab cx (n_IP (Jumpstart (Nodes cfg))) n"
    using set_tasks_of_sub [of IP "install_agent puppet_lab cx (n_IP (Jumpstart (Nodes cfg)))" nodes] by blast
  show "yields (stays_tame cx) (\<lambda>r v. r = None) f w" unfolding f install_agent_def
    by (rule tame.yields_andThen [OF tame_RunCommand [OF puppet_kind w]]) (auto simp: refused_def silent_ok intro!: tame.yields_Return)
next
  fix rs :: "ParallelResult list" assume "\<forall>r \<in> set rs. Err r = None"
  then have "host_failures rs = []" by (auto simp: host_failures_def)
  then show "passes cx (\<lambda>w. (if host_failures rs \<noteq> []
     then Some (Errorf (''failed to install agents on some nodes:'' @ nl # ''%s'') [Join (host_failures rs) [nl]]) else None, w))"
    by (simp add: goes_return)
qed

lemma puppet_lab_secrets [going]: "passes cx (installRuntimeSecretFiles puppet_lab puppet_config cx)"
proof -
  have s: "\<not> secrets_unset puppet_config" by (simp add: secrets_unset_def puppet_config_def)
  have "yields (stays_tame cx) (\<lambda>r v. r = None) (secret_task puppet_lab cx t) w" if w: "tame cx w" for t and w :: "(string \<Rightarrow> string option) sworld"
  proof -
    obtain ip name cred where t: "t = (ip, name, cred)" by (cases t)
    show ?thesis unfolding t secret_task_def prod.case
    proof (rule tame.yields_andThen [OF tame_RunCommand [OF puppet_kind w]])
      fix r v assume "stays_tame cx w v" and r: "r = silent secret_dir_cmd"
      with w have v: "tame cx v" by (simp add: stays_tame_def)
      show "yields (stays_tame cx) (\<lambda>r v. r = None) (case ro_err r of
          Some e \<Rightarrow> Return (Some (Errorf ''prepare credentials directory on %s (%s): %w'' [name, ip, e]))
        | None \<Rightarrow> if ro_code r \<noteq> 0
            then Return (Some (Errorf ''prepare credentials directory on %s (%s) exited with code %d'' [name, ip, itoa (ro_code r)]))
            else andThen (CopyContent puppet_lab cx ip cred ''/etc/cms-ha/runtime-secrets.json'' 384) (\<lambda>e.
              Return (case e of None \<Rightarrow> None | Some e \<Rightarrow> Some (Errorf ''copy runtime credentials to %s (%s): %w'' [name, ip, e])))) v"
        unfolding r silent_ok option.case
        by (simp, rule tame.yields_andThen [OF tame_CopyContent [OF puppet_kind v]]) (auto intro: tame.yields_Return)
    qed
  qed
  then have "goes cx (\<lambda>rs. \<forall>r \<in> set rs. Err r = None) (RunParallelFunc puppet_lab (tasks_of fst (secret_task puppet_lab cx) ts))" for ts
    using set_tasks_of_sub [of fst "secret_task puppet_lab cx" ts] by (intro goes_RunParallelFunc) blast
  then show ?thesis unfolding installRuntimeSecretFiles_def puppet_lab_fields using s
    by (auto intro!: goes_bind goes_return)
qed

section \<open>One node after the other\<close>

lemma group_alone:
  assumes "e_sched E w = []" and f: "\<And>x. x \<in> set xs \<Longrightarrow> goes cx P (run_proc (f x))" and w: "tame cx w" and run: "parallel E lim (map f xs) w = (fin, w')"
  shows "tame cx w' \<and> (\<forall>r \<in> snd ` set fin. P r)"
proof -
  let ?ok = "\<lambda>((ts, fin), w). tame cx w \<and> (\<forall>r \<in> snd ` set fin. P r) \<and> (\<forall>t \<in> set ts. t = Finished \<or> (\<exists>x \<in> set xs. t = Waiting (f x)))"
  have step: "?ok (finish_thread i g)" if "?ok g" "i < length (fst (fst g))" for i g
  proof -
    obtain ts fin w where g: "g = ((ts, fin), w)" by (metis surj_pair)
    with that have "ts ! i = Finished \<or> (\<exists>x \<in> set xs. ts ! i = Waiting (f x))" by auto
    then show ?thesis
    proof (elim disjE bexE)
      fix x assume x: "x \<in> set xs" "ts ! i = Waiting (f x)"
      obtain r v where r: "run_proc (f x) w = (r, v)" by fastforce
      from that goesD [OF f [OF x(1)] _ r] have "P r \<and> tame cx v" by (auto simp: g)
      with that x r show ?thesis by (auto simp: g dest!: subsetD [OF set_update_subset_insert])
    qed (use that in \<open>simp add: g\<close>)
  qed
  have "?ok (fold finish_thread is g)" if "?ok g" "set is \<subseteq> {..<length (fst (fst g))}" for "is" g
    using that
  proof (induction "is" arbitrary: g)
    case (Cons i js)
    then have "?ok (finish_thread i g)" by (intro step) auto
    with Cons.IH [of "finish_thread i g"] Cons.prems(2) show ?case by (simp add: finish_thread_length)
  qed simp
  from this [of "start_group (map f xs) w" "finish_order (map Waiting (map f xs))"] run assms(1) w show ?thesis
    by (auto simp: parallel_def par_exec_def run_sched_def finish_all_def start_group_def split: prod.splits)
qed

lemma puppet_lab_catalog: "passes None (runFirstCatalog puppet_lab cfg None nodes)"
proof -
  have one: "goes None (\<lambda>r. r = []) (run_proc (catalog_task puppet_lab None jump n))" for jump n
    unfolding goes_def
  proof (intro allI impI)
    fix w :: "(string \<Rightarrow> string option) sworld" and r w' assume w: "tame None w" and run: "run_proc (catalog_task puppet_lab None jump n) w = (r, w')"
    let ?d = "WithTimeout None (600 * Second) w"
    have d: "tame ?d w" using w by (auto simp: WithTimeout_def Let_def tame_def Second_def)
    obtain o' v where o': "run_command puppet_lab ?d (IP n) catalog_cmd w = (o', v)" by fastforce
    from goesD [OF goes_command [OF puppet_kind] d o'] have a: "o' = silent catalog_cmd" "tame ?d v" by simp_all
    from a(2) have v: "tame None v" by (simp add: tame_def)
    have "\<not> key_mismatch o'" "catalog_error n o' = []" unfolding a(1) by (simp_all add: key_mismatch_def catalog_error_def refused_def silent_ok)
    with run o' v show "r = [] \<and> tame None w'" by (simp add: catalog_task_def run_command_def)
  qed
  show ?thesis unfolding goes_def
  proof (intro allI impI)
    fix w :: "(string \<Rightarrow> string option) sworld" and r w' assume w: "tame None w" and run: "runFirstCatalog puppet_lab cfg None nodes w = (r, w')"
    obtain fin v where fin: "parallel puppet_lab (catalog_limit puppet_lab (length nodes)) (map (catalog_task puppet_lab None (n_IP (Jumpstart (Nodes cfg)))) nodes) w = (fin, v)"
      by fastforce
    from group_alone [OF puppet_lab_fields(1) one w fin] have "tame None v" "concat (map snd fin) = []" by auto
    with run fin show "r = None \<and> tame None w'" by (auto simp: runFirstCatalog_def)
  qed
qed

section \<open>The witnesses\<close>

lemma puppet_pre: "puppet_preflight puppet_lab puppet_config = None"
proof -
  have c: "first_some (\<lambda>ns. if nl \<in> set (snd ns) \<or> CHR 0x0D \<in> set (snd ns) then Some (Errorf ''%s cannot contain line breaks'' [fst ns]) else None)
      (ranged (\<lambda>ks. ks) (puppet_secrets puppet_config)) = None"
    by code_simp
  have "\<not> secrets_unset puppet_config" "n_IP (Jumpstart (Nodes puppet_config)) \<noteq> []" by code_simp+
  then show ?thesis by (simp only: puppet_preflight_def puppet_lab_fields c option.case if_False)
qed

lemma puppet_passes: "passes None (puppet_Run puppet_lab puppet_config None)"
  unfolding puppet_Run_def Let_def puppet_pre option.case by (intro going goes_ignore [OF puppet_kind] puppet_lab_catalog refl)

lemma puppet_lab_run: obtains w' where "puppet_Run puppet_lab puppet_config None calm_world = (None, w')"
  using goesD [OF puppet_passes calm_tame] by (cases "puppet_Run puppet_lab puppet_config None calm_world") auto


end
