(* ===== verification/Backup.thy ===== *)
theory Backup
  imports RetryLocal Base64
begin

text \<open>
  \<open>internal/phases/backup/backup.go\<close> and \<open>internal/container/runtime.go\<close>: the object store for backups, a container on the hypervisor.
  Commands with separate outputs, random bytes, the embedded template and HTTP requests are fields of the environment.
\<close>

record ('x, 'p) store_env = "('x, 'p) env" +
  st_run :: "string list \<Rightarrow> ('x, 'p) world \<Rightarrow> (string \<times> string \<times> goerr option) \<times> nat \<times> fs \<times> 'x"
  st_random :: "nat \<Rightarrow> ('x, 'p) world \<Rightarrow> (goerr + string) \<times> 'x"
  st_template :: "string \<Rightarrow> goerr + string"
  st_request :: "string \<Rightarrow> goerr option"
  st_get :: "string \<Rightarrow> ('x, 'p) world \<Rightarrow> goerr option \<times> nat \<times> 'x"

section \<open>The container runtime\<close>

definition container_Runtime :: "('x, 'p, 'z) env_scheme \<Rightarrow> ('x, 'p) world \<Rightarrow> goerr + string" where
  "container_Runtime E w = (case find (\<lambda>rt. e_lookpath E rt w) [''docker'', ''podman''] of
      Some rt \<Rightarrow> Inr rt
    | None \<Rightarrow> Inl ''no container runtime found (docker or podman is required)'')"

text \<open>A local command: its standard output; a failure names the command line and ends with the error output.\<close>

definition output_error :: "string list \<Rightarrow> goerr \<Rightarrow> string \<Rightarrow> goerr" where
  "output_error argv e err = Errorf ''%s %s: %w: %s'' [hd argv, Join (tl argv) '' '', e, TrimSpace err]"

definition cmd_output :: "('x, 'p, 'z) store_env_scheme \<Rightarrow> ctx \<Rightarrow> string list \<Rightarrow> ('x, 'p) world \<Rightarrow> (string \<times> goerr option) \<times> ('x, 'p) world" where
  "cmd_output E c argv w = (case ctx_err c w of
      Some e \<Rightarrow> (([], Some (output_error argv e [])), w)
    | None \<Rightarrow> (case st_run E argv w of ((out, err, e), d, f, x) \<Rightarrow>
        ((out, map_option (\<lambda>e. output_error argv e err) e), (emit (Exec argv) w)\<lparr>w_clock := w_clock w + int d, w_fs := f, w_ext := x\<rparr>)))"

section \<open>The configuration of the store\<close>

text \<open>The source of random bytes is part of what is outside of the process.\<close>

definition random_text :: "(string \<Rightarrow> string) \<Rightarrow> ('x, 'p, 'z) store_env_scheme \<Rightarrow> nat \<Rightarrow> ('x, 'p) world \<Rightarrow> (goerr + string) \<times> ('x, 'p) world" where
  "random_text enc E n w = (case st_random E n w of (r, x) \<Rightarrow>
     (case r of Inl e \<Rightarrow> Inl (Errorf ''failed to read random bytes: %w'' [e]) | Inr b \<Rightarrow> Inr (enc b), w\<lparr>w_ext := x\<rparr>))"

definition randomHex :: "('x, 'p, 'z) store_env_scheme \<Rightarrow> nat \<Rightarrow> ('x, 'p) world \<Rightarrow> (goerr + string) \<times> ('x, 'p) world" where
  "randomHex = random_text hex_encode"

definition randomBase64 :: "('x, 'p, 'z) store_env_scheme \<Rightarrow> nat \<Rightarrow> ('x, 'p) world \<Rightarrow> (goerr + string) \<times> ('x, 'p) world" where
  "randomBase64 = random_text EncodeToString"

definition garage_content :: "Config \<Rightarrow> string \<Rightarrow> string \<Rightarrow> string \<Rightarrow> string \<Rightarrow> string" where
  "garage_content cfg tmpl rpc admin metrics = Replacer
     [(''{{RPC_SECRET}}'', rpc), (''{{ADMIN_TOKEN}}'', admin), (''{{METRICS_TOKEN}}'', metrics), (''{{S3_REGION}}'', BackupS3Region cfg),
      (''{{S3_PORT}}'', itoa (BackupS3Port cfg))] tmpl"

definition writeGarageConfig :: "('x, 'p, 'z) store_env_scheme \<Rightarrow> Config \<Rightarrow> string \<Rightarrow> ('x, 'p) world \<Rightarrow> goerr option \<times> ('x, 'p) world" where
  "writeGarageConfig E cfg path w = (case st_template E ''templates/backup/garage.toml.tmpl'' of
      Inl e \<Rightarrow> (Some (Errorf ''failed to read Garage config template: %w'' [e]), w)
    | Inr tmpl \<Rightarrow> (case randomHex E 32 w of
        (Inl e, w) \<Rightarrow> (Some e, w)
      | (Inr rpc, w) \<Rightarrow> (case randomBase64 E 32 w of
          (Inl e, w) \<Rightarrow> (Some e, w)
        | (Inr admin, w) \<Rightarrow> (case randomBase64 E 32 w of
            (Inl e, w) \<Rightarrow> (Some e, w)
          | (Inr metrics, w) \<Rightarrow> check_err (do_fs E (WriteFile path (garage_content cfg tmpl rpc admin metrics) 384) w)
              (\<lambda>e. Errorf ''failed to write Garage config %s: %w'' [path, e]) (\<lambda>w. (None, w))))))"

definition garage_config :: "('x, 'p, 'z) store_env_scheme \<Rightarrow> Config \<Rightarrow> string \<Rightarrow> ('x, 'p) world \<Rightarrow> goerr option \<times> ('x, 'p) world" where
  "garage_config E cfg path w = (case Stat E path w of
      Inl e \<Rightarrow> if IsNotExist e then writeGarageConfig E cfg path w else (Some (Errorf ''failed to stat %s: %w'' [path, perr_msg e]), w)
    | Inr n \<Rightarrow> (None, w))"

section \<open>The container\<close>

definition containerName :: string where
  "containerName = ''cms-garage''"

definition inspect_argv :: "string \<Rightarrow> string list" where
  "inspect_argv rt = [rt, ''inspect'', ''-f'', ''{{.Config.Image}}|{{.State.Running}}'', containerName]"

definition create_argv :: "Config \<Rightarrow> string \<Rightarrow> string \<Rightarrow> int \<Rightarrow> string \<Rightarrow> string \<Rightarrow> string list" where
  "create_argv cfg rt host port dir path =
     [rt, ''run'', ''-d'', ''--name'', containerName, ''--restart'', ''unless-stopped'', ''-p'', Sprintf ''%s:%d:%d'' [host, itoa port, itoa port],
      ''-v'', Sprintf ''%s:%s'' [dir, ''/var/lib/garage''], ''-v'', Sprintf ''%s:%s:ro'' [path, ''/etc/garage.toml''],
      ''-e'', ''GARAGE_DEFAULT_ACCESS_KEY='' @ BackupAccessKey cfg, ''-e'', ''GARAGE_DEFAULT_SECRET_KEY='' @ SecretKey (Backup cfg),
      ''-e'', ''GARAGE_DEFAULT_BUCKET='' @ BackupBucket cfg, GarageImage cfg, ''/garage'', ''server'', ''--single-node'', ''--default-bucket'']"

text \<open>The two fields of an inspection: \<open>SplitN(out, "|", 2)\<close>, each trimmed.\<close>

definition inspected :: "string \<Rightarrow> string \<times> string" where
  "inspected out = (case Cut (TrimSpace out) ''|'' of (img, up, found) \<Rightarrow> (TrimSpace img, if found then TrimSpace up else []))"

definition create_container :: "('x, 'p, 'z) store_env_scheme \<Rightarrow> Config \<Rightarrow> ctx \<Rightarrow> string \<Rightarrow> string \<Rightarrow> int \<Rightarrow> string \<Rightarrow> string
    \<Rightarrow> ('x, 'p) world \<Rightarrow> goerr option \<times> ('x, 'p) world" where
  "create_container E cfg c rt host port dir path w = (case cmd_output E c (create_argv cfg rt host port dir path) w of ((out, e), w) \<Rightarrow>
     (map_option (\<lambda>e. Errorf ''failed to create Garage container: %w'' [e]) e, w))"

definition ensureContainer :: "('x, 'p, 'z) store_env_scheme \<Rightarrow> Config \<Rightarrow> ctx \<Rightarrow> string \<Rightarrow> string \<Rightarrow> int \<Rightarrow> string \<Rightarrow> string
    \<Rightarrow> ('x, 'p) world \<Rightarrow> goerr option \<times> ('x, 'p) world" where
  "ensureContainer E cfg c rt host port dir path w = (case cmd_output E c (inspect_argv rt) w of ((out, e), w) \<Rightarrow>
     if e \<noteq> None then create_container E cfg c rt host port dir path w
     else case inspected out of (current, up) \<Rightarrow>
       if current = GarageImage cfg
       then if up = ''true'' then (None, w)
         else (case cmd_output E c [rt, ''start'', containerName] w of ((out, e), w) \<Rightarrow>
           (map_option (\<lambda>e. Errorf ''failed to start Garage container %s: %w'' [containerName, e]) e, w))
       else (case cmd_output E c [rt, ''rm'', ''-f'', containerName] w of ((out, e), w) \<Rightarrow>
         check_err (e, w) (\<lambda>e. Errorf ''failed to remove old Garage container: %w'' [e]) (create_container E cfg c rt host port dir path)))"

section \<open>Waiting, and the bucket\<close>

text \<open>A request that ends by itself, by the five seconds of the client or with its context; any answer counts.\<close>

definition s3_attempt :: "('x, 'p, 'z) store_env_scheme \<Rightarrow> string \<Rightarrow> ('x, 'p) condition" where
  "s3_attempt E url c w = (case st_request E url of
      Some e \<Rightarrow> ((False, Some e), w)
    | None \<Rightarrow> (case st_get E url w of (e, d, x) \<Rightarrow>
        (case wait_until E (WithTimeout c (5 * Second) w) (w_clock w + int d) (w\<lparr>w_ext := x\<rparr>) of (finished, w) \<Rightarrow>
          ((finished \<and> e = None, None), w))))"

definition waitForS3 :: "('x, 'p, 'z) store_env_scheme \<Rightarrow> ctx \<Rightarrow> string \<Rightarrow> int \<Rightarrow> ('x, 'p) world \<Rightarrow> goerr option \<times> ('x, 'p) world" where
  "waitForS3 E c host port w = (let url = Sprintf ''http://%s:%d/'' [host, itoa port] in
     check_err (PollContext E c \<lparr>MaxAttempts = 30, Interval = 3 * Second, Timeout = 90 * Second, MaxInterval = 0\<rparr> (s3_attempt E url) w)
       (\<lambda>e. Errorf ''garage S3 endpoint %s did not become ready: %w'' [url, e]) (\<lambda>w. (None, w)))"

definition garage_argv :: "string \<Rightarrow> string list \<Rightarrow> string list" where
  "garage_argv rt args = [rt, ''exec'', containerName, ''/garage'', ''bucket''] @ args"

definition ensureBucket :: "('x, 'p, 'z) store_env_scheme \<Rightarrow> Config \<Rightarrow> ctx \<Rightarrow> string \<Rightarrow> ('x, 'p) world \<Rightarrow> goerr option \<times> ('x, 'p) world" where
  "ensureBucket E cfg c rt w = (let bucket = BackupBucket cfg in case cmd_output E c (garage_argv rt [''info'', bucket]) w of ((out, e), w) \<Rightarrow>
     if e = None then (None, w)
     else (case cmd_output E c (garage_argv rt [''create'', bucket]) w of ((out, e), w) \<Rightarrow>
       check_err (e, w) (\<lambda>e. Errorf ''failed to create Garage bucket %q: %w'' [quoted bucket, e]) (\<lambda>w.
         (None, snd (cmd_output E c (garage_argv rt [''allow'', ''--read'', ''--write'', ''--owner'', bucket, ''--key'', ''default'']) w)))))"

section \<open>The phase\<close>

definition backup_serve :: "('x, 'p, 'z) store_env_scheme \<Rightarrow> Config \<Rightarrow> ctx \<Rightarrow> string \<Rightarrow> string \<Rightarrow> int \<Rightarrow> string \<Rightarrow> string
    \<Rightarrow> ('x, 'p) world \<Rightarrow> goerr option \<times> ('x, 'p) world" where
  "backup_serve E cfg c rt host port dir path w =
     check_err (ensureContainer E cfg c rt host port dir path w) (\<lambda>e. e) (\<lambda>w.
     check_err (waitForS3 E c host port w) (\<lambda>e. e) (\<lambda>w.
     check_err (ensureBucket E cfg c rt w) (\<lambda>e. e) (\<lambda>w. (None, w))))"

definition backup_Run :: "('x, 'p, 'z) store_env_scheme \<Rightarrow> Config \<Rightarrow> ctx \<Rightarrow> ('x, 'p) world \<Rightarrow> goerr option \<times> ('x, 'p) world" where
  "backup_Run E cfg c w =
     (if \<not> BackupEnabled cfg then (None, w)
      else if BackupEngine cfg \<noteq> ''garage'' then (Some (Errorf ''unsupported backup engine %q (supported: garage)'' [quoted (BackupEngine cfg)]), w)
      else if SecretKey (Backup cfg) = [] then (Some ''backup.secret_key must be set in config.yaml (encrypt with `cms-ha secrets encrypt`) so the S3 store and the cluster share a credential'', w)
      else case container_Runtime E w of
        Inl e \<Rightarrow> (Some (Errorf ''the Garage backup store requires a container runtime: %w'' [e]), w)
      | Inr rt \<Rightarrow> (let host = HypervisorIP cfg; port = BackupS3Port cfg; dir = BackupDataDir E cfg; path = path_Join [dir, ''garage.toml''] in
          if host = [] then (Some ''cannot determine the hypervisor address from network.internal.cidr'', w)
          else check_err (do_fs E (MkdirAll dir 448) w) (\<lambda>e. Errorf ''failed to create Garage data dir %s: %w'' [dir, e]) (\<lambda>w.
            check_err (garage_config E cfg path w) (\<lambda>e. e) (backup_serve E cfg c rt host port dir path))))"

end
