(* ===== verification/BackupProps.thy ===== *)
theory BackupProps
  imports Backup
begin

text \<open>
  What the backup store guarantees: which commands are run for which state of the container, that a configuration is never rewritten, what a
  success means, and that the secret key can become part of an error message.
\<close>

section \<open>Local commands\<close>

lemma cmd_output_issues: "P (Exec argv) \<Longrightarrow> keeps (extends P) (cmd_output E c argv)"
  by (auto simp: keeps_def cmd_output_def extends_def split: option.split prod.split)

lemma cmd_output_done: "cmd_output E c argv w = ((out, None), w') \<Longrightarrow> ctx_err c w = None \<and> w_trace w' = w_trace w @ [Exec argv]"
  by (auto simp: cmd_output_def split: option.splits prod.splits)

lemma cmd_output_failed:
  assumes "cmd_output E c argv w = ((out, Some e), w')"
  obtains (unstarted) "w' = w" "ctx_err c w \<noteq> None" "\<exists>err. e = output_error argv err []"
    | (started) "w_trace w' = w_trace w @ [Exec argv]" "\<exists>err t. e = output_error argv err t"
  using assms by (auto simp: cmd_output_def split: option.splits prod.splits) blast

section \<open>The container\<close>

text \<open>A success leaves the pinned image running, with as few commands as the state that was found allows: none when it runs already, \<open>start\<close>
  when it is stopped, removal and creation when another image is there, creation when there is no container.\<close>

theorem container_converges:
  assumes "ensureContainer E cfg c rt host port dir path w = (None, w')"
  shows "\<exists>out e u. cmd_output E c (inspect_argv rt) w = ((out, e), u) \<and>
    added w w' = map Exec (inspect_argv rt #
      (if e \<noteq> None then [create_argv cfg rt host port dir path]
       else if fst (inspected out) \<noteq> GarageImage cfg then [[rt, ''rm'', ''-f'', containerName], create_argv cfg rt host port dir path]
       else if snd (inspected out) = ''true'' then [] else [[rt, ''start'', containerName]]))"
proof -
  obtain out e u where i: "cmd_output E c (inspect_argv rt) w = ((out, e), u)" by (metis prod.collapse)
  have create: "w_trace w' = w_trace v @ [Exec (create_argv cfg rt host port dir path)] \<and> ctx_err c v = None"
    if "create_container E cfg c rt host port dir path v = (None, w')" for v
    using that by (auto simp: create_container_def split: prod.splits dest: cmd_output_done)
  show ?thesis
  proof (cases e)
    case (Some err)
    with assms i have "create_container E cfg c rt host port dir path u = (None, w')" by (simp add: ensureContainer_def)
    note c = create [OF this]
    from cmd_output_failed [OF i [unfolded Some]] c have "w_trace u = w_trace w @ [Exec (inspect_argv rt)]" by cases auto
    with i Some c show ?thesis by (intro exI conjI) (auto simp: added_def)
  next
    case None
    note t = conjunct2 [OF cmd_output_done [OF i [unfolded None]]]
    consider (running) "inspected out = (GarageImage cfg, ''true'')" "w' = u"
      | (stopped) o' where "fst (inspected out) = GarageImage cfg" "snd (inspected out) \<noteq> ''true''" "cmd_output E c [rt, ''start'', containerName] u = ((o', None), w')"
      | (other) o' v where "fst (inspected out) \<noteq> GarageImage cfg" "cmd_output E c [rt, ''rm'', ''-f'', containerName] u = ((o', None), v)"
          "create_container E cfg c rt host port dir path v = (None, w')"
      using assms i None by (auto simp: ensureContainer_def check_err_None split: prod.splits if_splits)
    then have "added w w' = map Exec (inspect_argv rt #
      (if fst (inspected out) \<noteq> GarageImage cfg then [[rt, ''rm'', ''-f'', containerName], create_argv cfg rt host port dir path]
       else if snd (inspected out) = ''true'' then [] else [[rt, ''start'', containerName]]))"
    proof cases
      case running
      with t show ?thesis by (simp add: added_def)
    next
      case stopped
      with t cmd_output_done [OF stopped(3)] show ?thesis by (simp add: added_def)
    next
      case other
      with t cmd_output_done [OF other(2)] create [OF other(3)] show ?thesis by (simp add: added_def)
    qed
    with i None show ?thesis by (intro exI conjI) auto
  qed
qed

text \<open>C39. The secret key of the store can become part of an error message: when no container can be inspected and the creation fails, the error holds the
  whole command line, and with it the key, which the caller prints and logs.\<close>

theorem backup_key_in_error:
  assumes inspect: "cmd_output E c (inspect_argv rt) w = ((out, Some e), w1)"
    and create: "cmd_output E c (create_argv cfg rt host port dir path) w1 = ((out', Some e'), w2)"
  shows "\<exists>msg. ensureContainer E cfg c rt host port dir path w = (Some msg, w2) \<and> Contains msg (SecretKey (Backup cfg))"
proof -
  have "Contains (Join (tl (create_argv cfg rt host port dir path)) '' '') (SecretKey (Backup cfg))"
    by (simp add: create_argv_def)
  then have "Contains (output_error (create_argv cfg rt host port dir path) err t) (SecretKey (Backup cfg))" for err t
    by (simp add: output_error_def Sprintf_def is_letter_def)
  moreover from create have "\<exists>err t. e' = output_error (create_argv cfg rt host port dir path) err t"
    by (cases rule: cmd_output_failed) blast+
  ultimately have "Contains e' (SecretKey (Backup cfg))" by blast
  then have "Contains (Errorf ''failed to create Garage container: %w'' [e']) (SecretKey (Backup cfg))"
    by (simp add: Sprintf_def is_letter_def)
  with inspect create show ?thesis by (auto simp: ensureContainer_def create_container_def)
qed

section \<open>The stages\<close>

interpretation ext: phase_order "extends P" for P
  by unfold_locales (auto simp: extends_def)

text \<open>Only commands of the runtime and operations on the data directory and the configuration.\<close>

lemma s3_attempt_issues: "keeps (extends P) (s3_attempt E url c)"
proof (rule keepsI)
  fix w :: "('a, 'b) world" and r w' assume run: "s3_attempt E url c w = (r, w')"
  show "extends P w w'"
  proof (cases "st_request E url")
    case None
    obtain e d x where g: "st_get E url w = (e, d, x)" by (metis prod_cases3)
    obtain b v where v: "wait_until E (WithTimeout c (5 * Second) w) (w_clock w + int d) (w\<lparr>w_ext := x\<rparr>) = (b, v)" by fastforce
    from wait_until_frame [OF v] have "w_trace v = w_trace (w\<lparr>w_ext := x, w_clock := w_clock v\<rparr>)" by (rule arg_cong)
    then have "w_trace v = w_trace w" by simp
    with run None g v show ?thesis by (auto simp: s3_attempt_def extends_def)
  qed (use run in \<open>auto simp: s3_attempt_def extends_def\<close>)
qed

lemma waitForS3_issues: "keeps (extends P) (waitForS3 E c host port)"
  unfolding waitForS3_def Let_def
  by (intro ext.keeps_check ext.keeps_PollContext s3_attempt_issues ext.keeps_return)

lemma create_issues: "P (Exec (create_argv cfg rt host port dir path)) \<Longrightarrow> keeps (extends P) (create_container E cfg c rt host port dir path)"
  unfolding create_container_def by (intro ext.keeps_bind [OF cmd_output_issues] keeps_pair ext.keeps_return)

lemma ensureContainer_issues:
  assumes "\<And>argv. P (Exec argv)"
  shows "keeps (extends P) (ensureContainer E cfg c rt host port dir path)"
  unfolding ensureContainer_def
  by (intro ext.keeps_bind [OF cmd_output_issues] keeps_pair keeps_if ext.keeps_check [OF ext.keeps_return] create_issues ext.keeps_return assms)

lemma ensureBucket_issues:
  assumes "\<And>argv. P (Exec argv)"
  shows "keeps (extends P) (ensureBucket E cfg c rt)"
proof -
  have "keeps (extends P) (\<lambda>w. (None :: goerr option, snd (cmd_output E c argv w)))" for argv
    using cmd_output_issues [of P argv, OF assms] by (simp add: keeps_def)
  then show ?thesis unfolding ensureBucket_def Let_def
    by (intro ext.keeps_bind [OF cmd_output_issues] keeps_pair keeps_if ext.keeps_check [OF ext.keeps_return] ext.keeps_return assms)
qed

lemma issues_do_fs: "P (Fs op) \<Longrightarrow> keeps (extends P) (do_fs E op)"
  unfolding do_fs_def by (rule ext.keeps_bind [OF do_op_issues ext.keeps_return])

text \<open>What a run does that passes the checks.\<close>

lemma backup_Run_stages:
  "backup_Run E cfg c w = (r, w') \<Longrightarrow> r \<noteq> None \<and> w' = w \<or> \<not> BackupEnabled cfg \<and> r = None \<and> w' = w \<or>
    (\<exists>rt dir. container_Runtime E w = Inr rt \<and> dir = BackupDataDir E cfg \<and>
      check_err (do_fs E (MkdirAll dir 448) w) (\<lambda>e. Errorf ''failed to create Garage data dir %s: %w'' [dir, e]) (\<lambda>w.
        check_err (garage_config E cfg (path_Join [dir, ''garage.toml'']) w) (\<lambda>e. e) (backup_serve E cfg c rt (HypervisorIP cfg) (BackupS3Port cfg) dir (path_Join [dir, ''garage.toml'']))) = (r, w'))"
  by (auto simp: backup_Run_def Let_def simp del: path_Join.simps split: if_splits sum.splits)

lemma garage_config_issues:
  assumes "\<And>d. P (Fs (WriteFile path d 384))"
  shows "keeps (extends P) (garage_config E cfg path)"
proof -
  have r: "keeps (extends P) (random_text enc E n)" for enc n by (auto simp: keeps_def random_text_def extends_def split: prod.split)
  have w: "keeps (extends P) (writeGarageConfig E cfg path)"
    unfolding writeGarageConfig_def randomHex_def randomBase64_def
    by (intro ext.keeps_bind [OF r] keeps_sum keeps_pair ext.keeps_return ext.keeps_check issues_do_fs assms)
  show ?thesis unfolding garage_config_def by (intro keeps_sum_state keeps_if w ext.keeps_return)
qed

lemma backup_serve_issues: "(\<And>argv. P (Exec argv)) \<Longrightarrow> keeps (extends P) (backup_serve E cfg c rt host port dir path)"
  unfolding backup_serve_def by (intro ext.keeps_check ensureContainer_issues waitForS3_issues ensureBucket_issues ext.keeps_return)

text \<open>C38. The secrets of the store stay as they are: when the configuration exists once its directory is there, a run writes no file at all, and so
  does not replace the secrets in it.\<close>

theorem garage_secrets_stable:
  assumes dir: "do_fs E (MkdirAll (BackupDataDir E cfg) 448) w = (None, w1)"
    and found: "Stat E (path_Join [BackupDataDir E cfg, ''garage.toml'']) w1 = Inr n"
    and run: "backup_Run E cfg c w = (r, w')"
  shows "Fs (WriteFile p d m) \<notin> set (added w w')"
proof -
  let ?P = "\<lambda>e. \<forall>p d m. e \<noteq> Fs (WriteFile p d m)" and ?path = "path_Join [BackupDataDir E cfg, ''garage.toml'']"
  have "extends ?P w w'"
  proof (rule disjE [OF backup_Run_stages [OF run]])
    assume "\<not> BackupEnabled cfg \<and> r = None \<and> w' = w \<or>
      (\<exists>rt dir. container_Runtime E w = Inr rt \<and> dir = BackupDataDir E cfg \<and>
      check_err (do_fs E (MkdirAll dir 448) w) (\<lambda>e. Errorf ''failed to create Garage data dir %s: %w'' [dir, e]) (\<lambda>w.
        check_err (garage_config E cfg (path_Join [dir, ''garage.toml'']) w) (\<lambda>e. e) (backup_serve E cfg c rt (HypervisorIP cfg) (BackupS3Port cfg) dir (path_Join [dir, ''garage.toml'']))) = (r, w'))"
    then show ?thesis
    proof (elim disjE exE conjE)
      fix rt d assume d: "d = BackupDataDir E cfg" and
        st: "check_err (do_fs E (MkdirAll d 448) w) (\<lambda>e. Errorf ''failed to create Garage data dir %s: %w'' [d, e]) (\<lambda>w.
          check_err (garage_config E cfg (path_Join [d, ''garage.toml'']) w) (\<lambda>e. e) (backup_serve E cfg c rt (HypervisorIP cfg) (BackupS3Port cfg) d (path_Join [d, ''garage.toml'']))) = (r, w')"
      then have "backup_serve E cfg c rt (HypervisorIP cfg) (BackupS3Port cfg) d ?path w1 = (r, w')" using dir found by (simp add: check_err_def garage_config_def)
      then have "extends ?P w1 w'" by (rule keepsD [OF backup_serve_issues, rotated]) simp
      moreover have "extends ?P w w1" by (rule keepsD [OF issues_do_fs dir]) simp
      ultimately show ?thesis using ext.trans by blast
    qed (simp add: ext.refl)
  qed (simp add: ext.refl)
  from extends_added [OF this] show ?thesis by (auto simp: list_all_iff)
qed

section \<open>What a success tells\<close>

text \<open>A command that was run and ended without an error, and an answer of the store in time, between two worlds.\<close>

definition executed :: "('x, 'p, 'z) store_env_scheme \<Rightarrow> ctx \<Rightarrow> string list \<Rightarrow> (string \<Rightarrow> bool) \<Rightarrow> ('x, 'p) world \<Rightarrow> ('x, 'p) world \<Rightarrow> bool" where
  "executed E c argv ok w w' \<longleftrightarrow> (\<exists>u out v. extends (\<lambda>e. True) w u \<and> cmd_output E c argv u = ((out, None), v) \<and> ok out \<and> extends (\<lambda>e. True) v w')"

definition answered :: "('x, 'p, 'z) store_env_scheme \<Rightarrow> string \<Rightarrow> ('x, 'p) world \<Rightarrow> ('x, 'p) world \<Rightarrow> bool" where
  "answered E url w w' \<longleftrightarrow> (\<exists>u d x. extends (\<lambda>e. True) w u \<and> st_get E url u = (None, d, x) \<and> extends (\<lambda>e. True) u w')"

lemma ran_from: "executed E c argv ok u v \<Longrightarrow> extends (\<lambda>e. True) w u \<Longrightarrow> extends (\<lambda>e. True) v w' \<Longrightarrow> executed E c argv ok w w'"
  unfolding executed_def using ext.trans by blast

lemma ranI: "cmd_output E c argv u = ((out, None), v) \<Longrightarrow> ok out \<Longrightarrow> extends (\<lambda>e. True) w u \<Longrightarrow> executed E c argv ok w v"
  unfolding executed_def using ext.refl by blast

lemma ensure_ran:
  assumes "ensureContainer E cfg c rt host port dir path w = (None, u)"
  shows "executed E c (inspect_argv rt) (\<lambda>out. inspected out = (GarageImage cfg, ''true'')) w u \<or> executed E c [rt, ''start'', containerName] (\<lambda>out. True) w u
    \<or> executed E c (create_argv cfg rt host port dir path) (\<lambda>out. True) w u"
proof -
  have ext: "extends (\<lambda>e. True) v v'" if "cmd_output E c argv v = (q, v')" for argv v q v' using keepsD [OF cmd_output_issues that] by simp
  have create: "executed E c (create_argv cfg rt host port dir path) (\<lambda>out. True) w u"
    if "create_container E cfg c rt host port dir path v = (None, u)" "extends (\<lambda>e. True) w v" for v
    using that by (auto simp: create_container_def intro: ranI split: prod.splits)
  obtain out e v where i: "cmd_output E c (inspect_argv rt) w = ((out, e), v)" by (metis prod.collapse)
  show ?thesis
  proof (cases e)
    case (Some err)
    with assms i have "create_container E cfg c rt host port dir path v = (None, u)" by (simp add: ensureContainer_def)
    with create ext [OF i] show ?thesis by blast
  next
    case None
    consider (running) "inspected out = (GarageImage cfg, ''true'')" "u = v"
      | (stopped) o' where "cmd_output E c [rt, ''start'', containerName] v = ((o', None), u)"
      | (other) o' v' where "cmd_output E c [rt, ''rm'', ''-f'', containerName] v = ((o', None), v')" "create_container E cfg c rt host port dir path v' = (None, u)"
      using assms i None by (auto simp: ensureContainer_def check_err_None split: prod.splits if_splits)
    then show ?thesis
    proof cases
      case running
      from ranI [OF i [unfolded None], of "\<lambda>out. inspected out = (GarageImage cfg, ''true'')", OF running(1) ext.refl] running(2) show ?thesis by simp
    next
      case stopped
      from ranI [OF this, of "\<lambda>out. True"] ext [OF i] show ?thesis by blast
    next
      case other
      from create [OF other(2) ext.trans [OF ext [OF i] ext [OF other(1)]]] show ?thesis by simp
    qed
  qed
qed

lemma wait_answered:
  assumes "waitForS3 E c host port w = (None, v)"
  shows "answered E (Sprintf ''http://%s:%d/'' [host, itoa port]) w v"
proof -
  let ?url = "Sprintf ''http://%s:%d/'' [host, itoa port]" and ?T = "extends (\<lambda>e. True)"
  obtain cfg where "PollContext E c cfg (s3_attempt E ?url) w = (None, v)" using assms by (auto simp: waitForS3_def Let_def check_err_None)
  from ext.PollContext_success [OF s3_attempt_issues this]
  obtain c' u where u: "?T w u" "s3_attempt E ?url c' u = ((True, None), v)" by blast
  from keepsD [OF s3_attempt_issues u(2)] have "?T u v" .
  moreover obtain d x where "st_get E ?url u = (None, d, x)" using u(2) by (auto simp: s3_attempt_def split: option.splits prod.splits)
  ultimately show ?thesis using u(1) unfolding answered_def by blast
qed

lemma bucket_ran:
  assumes "ensureBucket E cfg c rt w = (None, v)"
  shows "executed E c (garage_argv rt [''info'', BackupBucket cfg]) (\<lambda>out. True) w v \<or> executed E c (garage_argv rt [''create'', BackupBucket cfg]) (\<lambda>out. True) w v"
proof -
  let ?T = "extends (\<lambda>e. True)"
  have ext: "?T v v'" if "cmd_output E c argv v = (q, v')" for argv v q v' using keepsD [OF cmd_output_issues that] by simp
  obtain out e u where i: "cmd_output E c (garage_argv rt [''info'', BackupBucket cfg]) w = ((out, e), u)" by (metis prod.collapse)
  show ?thesis
  proof (cases e)
    case None
    with assms i have "u = v" by (simp add: ensureBucket_def)
    with ranI [OF i [unfolded None], of "\<lambda>out. True"] ext.refl show ?thesis by blast
  next
    case (Some err)
    then obtain o' t q where 1: "cmd_output E c (garage_argv rt [''create'', BackupBucket cfg]) u = ((o', None), t)"
      and 2: "v = snd (cmd_output E c (garage_argv rt [''allow'', ''--read'', ''--write'', ''--owner'', BackupBucket cfg, ''--key'', ''default'']) t)"
      using assms i by (auto simp: ensureBucket_def Let_def check_err_None split: prod.splits)
    have "?T t v" unfolding 2 using ext by (metis prod.collapse)
    from ran_from [OF ranI [OF 1, of "\<lambda>out. True", OF TrueI ext [OF i]] ext.refl this] show ?thesis by blast
  qed
qed

text \<open>When the phase succeeds with backups enabled, the pinned image was found running, or the stopped container was started, or a container was created
  from the image; then the store answered on the internal address of the hypervisor; and then the bucket was found or created.\<close>

theorem backup_ready:
  assumes run: "backup_Run E cfg c w = (None, w')" and on: "BackupEnabled cfg"
  shows "\<exists>rt u v. (executed E c (inspect_argv rt) (\<lambda>out. inspected out = (GarageImage cfg, ''true'')) w u
      \<or> executed E c [rt, ''start'', containerName] (\<lambda>out. True) w u
      \<or> executed E c (create_argv cfg rt (HypervisorIP cfg) (BackupS3Port cfg) (BackupDataDir E cfg) (path_Join [BackupDataDir E cfg, ''garage.toml''])) (\<lambda>out. True) w u) \<and>
    answered E (Sprintf ''http://%s:%d/'' [HypervisorIP cfg, itoa (BackupS3Port cfg)]) u v \<and>
    (executed E c (garage_argv rt [''info'', BackupBucket cfg]) (\<lambda>out. True) v w' \<or> executed E c (garage_argv rt [''create'', BackupBucket cfg]) (\<lambda>out. True) v w')"
proof -
  let ?T = "extends (\<lambda>e. True)" and ?dir = "BackupDataDir E cfg" and ?path = "path_Join [BackupDataDir E cfg, ''garage.toml'']"
  obtain rt w1 w2 where 1: "do_fs E (MkdirAll ?dir 448) w = (None, w1)" and 2: "garage_config E cfg ?path w1 = (None, w2)"
    and 3: "backup_serve E cfg c rt (HypervisorIP cfg) (BackupS3Port cfg) ?dir ?path w2 = (None, w')"
    using backup_Run_stages [OF run] on by (auto simp: check_err_None simp del: path_Join.simps)
  obtain u v where 4: "ensureContainer E cfg c rt (HypervisorIP cfg) (BackupS3Port cfg) ?dir ?path w2 = (None, u)"
    and 5: "waitForS3 E c (HypervisorIP cfg) (BackupS3Port cfg) u = (None, v)" and 6: "ensureBucket E cfg c rt v = (None, w')"
    using 3 by (auto simp: backup_serve_def check_err_None simp del: path_Join.simps)
  have "?T w w1" by (rule keepsD [OF issues_do_fs 1]) simp
  moreover have "?T w1 w2" by (rule keepsD [OF garage_config_issues 2]) simp
  ultimately have t: "?T w w2" by (rule ext.trans)
  from ensure_ran [OF 4] wait_answered [OF 5] bucket_ran [OF 6] show ?thesis using ran_from [OF _ t ext.refl] by blast
qed

end
