(* ===== verification/BackupLab.thy ===== *)
theory BackupLab
  imports BackupProps ConfigSample Files
begin

text \<open>The properties of the backup store, applied: to a container that runs already, and to a runtime whose commands fail.\<close>

definition store_lab :: "(string list \<Rightarrow> (string \<times> string \<times> goerr option)) \<Rightarrow> (unit, unit) store_env" where
  "store_lab run = env.extend (quiet\<lparr>e_lookpath := \<lambda>p w. True\<rparr>) \<lparr>st_run = \<lambda>argv w. (run argv, 0, w_fs w, ()), st_random = \<lambda>n w. (Inr [], ()), st_template = Inr,
     st_request = \<lambda>url. None, st_get = \<lambda>url w. (None, 0, ())\<rparr>"

definition store_config :: Config where
  "store_config = sample_config\<lparr>Backup := (Backup sample_config)\<lparr>Engine := ''garage'', GarageVersion := [], DataDir := ''/data'', SecretKey := ''s3cret''\<rparr>\<rparr>"

definition steady :: "(unit, unit) store_env" where
  "steady = store_lab (\<lambda>argv. (''dxflrs/garage:v2.4.1|true'', [], None))"

definition failing :: "(unit, unit) store_env" where
  "failing = store_lab (\<lambda>argv. ([], ''no such image'', Some ''exit status 125''))"

definition store_world :: "(unit, unit) world" where
  "store_world = blank (Map.empty(''/data'' \<mapsto> Dir 448, ''/data/garage.toml'' \<mapsto> File ''rpc'' 384))"

lemma steady_output: "w_cancel w = None \<Longrightarrow> cmd_output steady None argv w = ((''dxflrs/garage:v2.4.1|true'', None), emit (Exec argv) w)"
  by (cases w) (simp add: cmd_output_def steady_def store_lab_def env.defs ctx_err_def done_at_def emit_def)

lemma steady_fields: "st_request steady url = None" "st_get steady url w = (None, 0, ())" "e_late steady w = 0" "e_fault steady op w = None" "e_rfault steady q w = None"
  "e_lookpath steady q w"
  by (simp_all add: steady_def store_lab_def env.defs quiet_def)

lemma steady_wait: "w_cancel w = None \<Longrightarrow> \<exists>v. waitForS3 steady None host port w = (None, v) \<and> w_cancel v = None"
  by (simp add: waitForS3_def Let_def PollContext_def poll_loop.simps run_ctx_def s3_attempt_def steady_fields wait_until_def WithTimeout_def done_at_def
      ctx_err_def Second_def check_err_def)

lemma store_paths: "BackupDataDir steady store_config = ''/data''" "path_Join [''/data'', ''garage.toml''] = ''/data/garage.toml''"
  "inspected ''dxflrs/garage:v2.4.1|true'' = (GarageImage store_config, ''true'')"
  by code_simp+

lemma store_files: "do_fs steady (MkdirAll ''/data'' 448) store_world = (None, emit (Fs (MkdirAll ''/data'' 448)) store_world)"
  "Stat steady ''/data/garage.toml'' (emit (Fs (MkdirAll ''/data'' 448)) store_world) = Inr (File ''rpc'' 384)"
  by (simp_all add: do_fs_def do_op_def Let_def steady_fields store_world_def blank_def emit_def Stat_def resolve_def eval_nat_numeral)

lemma store_host: "HypervisorIP store_config = ''192.168.10.254''"
proof -
  have "HypervisorIP store_config = dotted ([192, 168, 10, 0][3 := 254])"
    by (simp add: HypervisorIP_def store_config_def sample_defs sample_addresses(2))
  also have "\<dots> = ''192.168.10.254''" by code_simp
  finally show ?thesis .
qed

lemma store_named: "BackupEnabled store_config" "BackupEngine store_config = ''garage''" "SecretKey (Backup store_config) \<noteq> []"
  "BackupBucket store_config = ''cms-backups''" "BackupS3Port store_config = 3900" "Sprintf ''http://%s:%d/'' [''192.168.10.254'', itoa 3900] = ''http://192.168.10.254:3900/''"
  by code_simp+

lemma steady_run: "fst (backup_Run steady store_config None store_world) = None"
proof -
  let ?w = "emit (Exec (inspect_argv ''docker'')) (emit (Fs (MkdirAll ''/data'' 448)) store_world)"
  have c: "w_cancel (emit (Fs (MkdirAll ''/data'' 448)) store_world) = None" by (simp add: store_world_def)
  then have "w_cancel ?w = None" by simp
  from steady_wait [OF this] obtain v where v: "waitForS3 steady None (HypervisorIP store_config) (BackupS3Port store_config) ?w = (None, v)" "w_cancel v = None" by blast
  have e: "ensureContainer steady store_config None ''docker'' h p d q (emit (Fs (MkdirAll ''/data'' 448)) store_world) = (None, ?w)" for h p d q
    using steady_output [OF c] by (simp add: ensureContainer_def store_paths)
  obtain v' where b: "ensureBucket steady store_config None ''docker'' v = (None, v')"
    using steady_output [OF v(2)] by (simp add: ensureBucket_def Let_def)
  have "backup_serve steady store_config None ''docker'' (HypervisorIP store_config) (BackupS3Port store_config) ''/data'' q
      (emit (Fs (MkdirAll ''/data'' 448)) store_world) = check_err (ensureBucket steady store_config None ''docker'' v) (\<lambda>e. e) (\<lambda>w. (None, w))" for q
    using e v by (simp add: backup_serve_def check_err_def)
  moreover note store_host store_named(1-3)
  ultimately show ?thesis using b
    by (simp add: backup_Run_def container_Runtime_def steady_fields Let_def store_paths store_files garage_config_def check_err_def del: path_Join.simps
        split: prod.split option.split)
qed

lemma steady_ensure: "fst (ensureContainer steady store_config None ''docker'' ''192.168.10.254'' 3900 ''/data'' ''/data/garage.toml'' store_world) = None"
  by code_simp

theorem container_converges_witness:
  "\<exists>w'. ensureContainer steady store_config None ''docker'' ''192.168.10.254'' 3900 ''/data'' ''/data/garage.toml'' store_world = (None, w') \<and>
     (\<exists>rest. added store_world w' = Exec (inspect_argv ''docker'') # rest)"
proof -
  obtain w' where run: "ensureContainer steady store_config None ''docker'' ''192.168.10.254'' 3900 ''/data'' ''/data/garage.toml'' store_world = (None, w')"
    using steady_ensure by (metis prod.collapse)
  from container_converges [OF this] run show ?thesis by auto
qed

theorem backup_key_in_error_witness:
  "\<exists>msg w'. ensureContainer failing store_config None ''docker'' ''192.168.10.254'' 3900 ''/data'' ''/data/garage.toml'' store_world = (Some msg, w') \<and>
     Contains msg ''s3cret''"
proof -
  let ?create = "create_argv store_config ''docker'' ''192.168.10.254'' 3900 ''/data'' ''/data/garage.toml''"
  have fail: "\<exists>out e w'. cmd_output failing None argv w = ((out, Some e), w') \<and> ctx_err None w' = ctx_err None w" if "ctx_err None w = None" for argv and w :: "(unit, unit) world"
    using that by (cases "w_cancel w") (auto simp: cmd_output_def failing_def store_lab_def env.defs ctx_err_def done_at_def split: if_splits)
  have c: "ctx_err None store_world = None" by (simp add: store_world_def blank_def ctx_err_def done_at_def)
  from fail [OF c, of "inspect_argv ''docker''"] obtain out e w1 where 1: "cmd_output failing None (inspect_argv ''docker'') store_world = ((out, Some e), w1)" "ctx_err None w1 = None"
    using c by auto
  from fail [OF 1(2), of ?create] obtain o2 e2 w2 where 2: "cmd_output failing None ?create w1 = ((o2, Some e2), w2)" by auto
  from backup_key_in_error [OF 1(1) 2] show ?thesis by (auto simp: store_config_def)
qed

theorem garage_secrets_stable_witness:
  "\<exists>r w'. backup_Run steady store_config None store_world = (r, w') \<and> Fs (WriteFile ''/data/garage.toml'' ''new'' 384) \<notin> set (added store_world w')"
proof -
  obtain r w' where run: "backup_Run steady store_config None store_world = (r, w')" by fastforce
  from garage_secrets_stable [OF _ _ run] store_files run show ?thesis by (simp add: store_paths del: path_Join.simps)
qed

theorem backup_ready_witness:
  "\<exists>w' rt u v. backup_Run steady store_config None store_world = (None, w') \<and> answered steady ''http://192.168.10.254:3900/'' u v \<and>
     (executed steady None (garage_argv rt [''info'', ''cms-backups'']) (\<lambda>out. True) v w' \<or> executed steady None (garage_argv rt [''create'', ''cms-backups'']) (\<lambda>out. True) v w')"
proof -
  obtain w' where run: "backup_Run steady store_config None store_world = (None, w')" using steady_run by (metis prod.collapse)
  from backup_ready [OF run store_named(1)] obtain rt u v where "answered steady ''http://192.168.10.254:3900/'' u v"
    "executed steady None (garage_argv rt [''info'', ''cms-backups'']) (\<lambda>out. True) v w' \<or> executed steady None (garage_argv rt [''create'', ''cms-backups'']) (\<lambda>out. True) v w'"
    unfolding store_host store_named(4-6) by blast
  with run show ?thesis by blast
qed

end
