(* ===== verification/Spec2Isabelle.thy ===== *)
theory Spec2Isabelle
  imports Retry ConfigProps Identity DeployProps SshProps SshTrust SshCalls PuppetAgent InitVMsLab
    FailoverLab VerifyLab Repair RepairSshLab DrbdLab KubernetesLab RegisterNodes PkiLab UfwLab MonitoringLab PuppetLab BackupLab
begin

text \<open>
  A verification development for the orchestrator of CMS-HA-Infrastructure, a Go program that installs and operates a
  highly available web cluster on libvirt machines. Go sources are named by their path under \<open>src/\<close>.

  \<^bold>\<open>The program.\<close> A configuration (\<open>internal/config/config.go\<close>) names the networks and nodes; its secrets are kept
  encrypted (\<open>secrets.go\<close>). The deployment (\<open>internal/deploy\<close>) runs a list of phases in order and keeps a checkpoint, so
  that a failed run can be resumed. The phases create machines through \<open>virsh\<close> and \<open>virt-install\<close>
  (\<open>internal/libvirt\<close>, \<open>internal/phases/initvms\<close>) and configure them over SSH connections that a pool shares between goroutines
  (\<open>internal/ssh\<close>). The utilities of \<open>internal/utils\<close> start, stop, repair and test the running cluster.

  \<^bold>\<open>The model.\<close> Every operation is a function on an explicit state, the \<open>world\<close> of theory \<open>World\<close>: files, clock,
  cancellation, the history of what the process did to the outside, the state of the outside and the shared heap (the SSH
  pool). What the repository does not define is a parameter, the record \<open>env\<close> and its extensions: results of external commands,
  faults of the file system, lateness of the scheduler, SSH servers, templates, web servers. An error is the text of its message, \<open>error\<close> beside a
  value is a sum. Goroutines (\<open>Parallel\<close>) are resumable processes whose steps a schedule interleaves; steps lie
  where the code locks or leaves the process.

  \<^bold>\<open>The theories.\<close>
    \<^item> Shared: \<open>Prelude\<close> (Go strings, \<open>int\<close> arithmetic, formats), \<open>World\<close> (state, contexts, waiting, guarantees
      \<open>keeps\<close> that compose in the locale \<open>world_order\<close>), \<open>Files\<close> (what file operations can touch; the locales \<open>replacer\<close> and
      \<open>atomic_writer\<close> of routines that replace a file as a whole, interpreted by the checkpoint and by the uploads),
      \<open>Paths\<close>, \<open>Net\<close>, \<open>Regex\<close> (derivatives, for the patterns of the validation), \<open>Base64\<close>, \<open>Parallel\<close>.
    \<^item> \<open>Retry\<close>: \<open>internal/retry\<close>. Every way a retry can end; the bounds of the backoff.
    \<^item> \<open>Config\<close>, \<open>ConfigProps\<close>, \<open>ConfigSample\<close>: \<open>config.go\<close>. An accepted configuration has no shell metacharacters in its node
      fields, distinct hotdesk addresses and a topology that survives a failure.
    \<^item> \<open>Secrets\<close>, \<open>SecretsProps\<close>, \<open>Identity\<close>: \<open>secrets.go\<close>. Encryption of values and files, the key files and their migration: a
      file is encrypted only to a key that is on disk, and decryption undoes encryption.
    \<^item> \<open>Deploy\<close>, \<open>DeployProps\<close>: \<open>internal/deploy\<close>. The checkpoint is replaced atomically, a run executes what its plan
      leaves, and a failed run resumes at the failed phase.
    \<^item> \<open>Libvirt\<close>: \<open>internal/libvirt/virsh.go\<close>, every command line and the parsing of the answers.
    \<^item> \<open>Ssh\<close>, \<open>SshRun\<close>, \<open>SshFiles\<close>: \<open>internal/ssh\<close>. \<open>SshProps\<close> (no connection is lost under any schedule; quoting; captured
      output), \<open>SshTrust\<close> (the first host key is pinned), \<open>SshCalls\<close> (a command is sent once; uploads are atomic; waiting is
      patient), \<open>SshLab\<close> (a server to apply them to).
    \<^item> \<open>VMOps\<close>, \<open>VMOpsProps\<close>, \<open>VMOpsLab\<close>: \<open>internal/utils/vmops.go\<close>. Order of starts, graceful stops, memory for all or for none,
      clean-up of failed machines only.
    \<^item> \<open>InitVMs\<close>, \<open>InitVMsProps\<close>, \<open>InitVMsDisks\<close>, \<open>InitVMsLab\<close>: \<open>internal/phases/initvms\<close>. What exists is left alone; disks are
      removed only of machines that libvirt no longer knows; options arrive at \<open>virt-install\<close> as given.
    \<^item> \<open>PuppetAgent\<close>: \<open>internal/phases/puppetagent.go\<close>, the exit codes of the agent.
    \<^item> \<open>Phases\<close>: what the phases share: error checks between stages, loops over nodes, tasks for several hosts.
    \<^item> \<open>Rely\<close>, \<open>SshRemote\<close>, \<open>SshRoute\<close>, \<open>SshScript\<close>, \<open>SshKind\<close>: reasoning about goroutines that use the pool. \<open>yields\<close>
      is a guarantee of one process that holds under whatever the others do (\<open>Rely\<close>); which commands a process can send; commands and
      scripts reach the host they were meant for; servers on which only the commands themselves fail.
    \<^item> \<open>Failover\<close>, \<open>FailoverProps\<close>, \<open>FailoverLab\<close>: \<open>internal/utils/failover.go\<close>. A scenario passes only when the machine was seen off and the
      recovery was observed; what the run reports.
    \<^item> \<open>Verify\<close>, \<open>VerifyProps\<close>, \<open>VerifyLab\<close>: \<open>verify.go\<close> and \<open>status.go\<close>. Success means that every host gave the answers
      that the checks require.
    \<^item> \<open>Repair\<close>: \<open>repair.go\<close>. \<open>RepairSsh\<close>, \<open>RepairSshProps\<close>, \<open>RepairSshLab\<close>: \<open>internal/phases/repairssh\<close>. What is removed from the files
      of known hosts, and what the running process still remembers.
    \<^item> \<open>Drbd\<close>, \<open>DrbdProps\<close>, \<open>DrbdLab\<close>: \<open>internal/phases/drbd\<close>. The order of the stages, and the key for fencing.
    \<^item> \<open>RetryLocal\<close>: retried closures that assign a variable, contexts of their own, deferred calls, loops over maps; the locale
      \<open>phase_order\<close> of relations that waiting and retrying keep. \<open>Stages\<close>: what the stages of a phase can do at most (\<open>prior S\<close>: the connections
      stay filed under their hosts, and only commands of \<open>S\<close> are sent) and what a success tells (\<open>succeeded\<close>: the command ended with 0 on its host).
      \<open>SmoothRuns\<close>: runs on servers on which every command succeeds, to apply the properties of whole phases.
    \<^item> \<open>RegisterNodes\<close>: \<open>internal/phases/registernodes\<close>. All nodes are registered or none.
    \<^item> \<open>Puppet\<close>, \<open>PuppetProps\<close>, \<open>PuppetLab\<close>: \<open>internal/phases/puppet\<close>. Who receives which credentials; success means that every agent converged
      after the credentials were in place; no password is part of a command. \<open>AgentRuns\<close>: what the phases share that only converge nodes.
    \<^item> \<open>Pki\<close>, \<open>PkiProps\<close>, \<open>PkiLab\<close>: \<open>internal/phases/pki\<close>. The certificates arrive everywhere, no secret is part of a command, the
      names in the certificate are safe, and when the key stays behind.
    \<^item> \<open>Kubernetes\<close>, \<open>KubernetesProps\<close>, \<open>KubernetesLab\<close>: \<open>internal/phases/kubernetes\<close>. The cluster was counted complete; no secret and no token is
      part of a command.
    \<^item> \<open>Nginx\<close>, \<open>Monitoring\<close>, \<open>MonitoringLab\<close>, \<open>Ufw\<close>, \<open>UfwLab\<close>: \<open>internal/phases/nginx\<close>, \<open>monitoring\<close>, \<open>ufw\<close>. What a success of each tells, and which inactive
      firewall is accepted.
    \<^item> \<open>Backup\<close>, \<open>BackupProps\<close>, \<open>BackupLab\<close>: \<open>internal/phases/backup\<close> and \<open>internal/container\<close>. The container ends up on the pinned image with as few commands as
      possible, the secrets of the store survive every run, and how the key can reach an error message.
  \<^bold>\<open>Loops and bounds.\<close> Loops over lists are structural. The poll of \<open>StopAllVMs\<close> (\<open>stop_poll\<close>) is a
  \<open>function\<close> with a termination proof: each round waits a second, so the time left decreases. The rounds of
  \<open>WaitForSSH\<close> are counted (\<open>ssh_rounds\<close>, one for each second of the timeout and two more); \<open>WaitForSSH_patient\<close> shows that the
  count ends only after the deadline. The same holds for \<open>waitFor\<close> of the failover tests (\<open>wait_rounds\<close>, enough by \<open>wait_for_enough\<close>), and their
  wait for a machine to be off (\<open>await_off\<close>) is a \<open>function\<close> with a termination proof. Retries recurse on the attempts that are left. Following symbolic links stops after 40 of them, as in
  Linux. Durations and sizes are mathematical integers, wrapped to 64 bits (\<open>i64\<close>) where the code computes with
  configured values.

  \<^bold>\<open>Parameters and their laws.\<close> \<open>age_laws\<close> (decrypting undoes encrypting), \<open>yaml_laws\<close>, \<open>json_laws\<close> (round trips),
  \<open>knownhosts_laws\<close> (a line that was written is found), \<open>sftp_laws\<close> (an operation touches its own paths). Each has an instance in a
  witness.

  \<^bold>\<open>Not modelled.\<close> Log output, except where a function reports its only outcome that way; timing of log lines; free-space and memory probes
  that only log. The command line (\<open>cmd\<close>), YAML decoding and generated shell completions are glue around the packages
  above. The scripts that install Cobbler (\<open>internal/phases/cobbler\<close>), the traffic test, the rendering of inventories and the developer lint are listed as not modelled in the manifest: they are mostly fixed text or tools beside the deployment.
\<close>

end
